(* ===== verification/Prelude.thy ===== *)
theory Prelude
  imports Main "HOL-Library.Log_Nat" "HOL-Library.List_Lexorder" "HOL-Library.Char_ord"
begin

section \<open>Shared types, results and list lemmas\<close>

text \<open>
  What every component of the development uses: the errors a Go function of the
  repository can end with, the result type of a fallible function, the sequencing of
  fallible steps, loops that stop at the first error, and the generic lemmas the
  component proofs rest on.

  A Go function that returns \<open>(T, error)\<close> or panics is a function into
  \<open>error + 'a\<close>: \<open>Inl (Panic m)\<close> is a panic, \<open>Inl (Error c m)\<close> a returned error with
  the registered error \<open>c\<close> of \<open>types/errors/errors.go\<close> it wraps, \<open>Inr v\<close> a normal
  return. The text that \<open>Wrapf\<close> formats into a message is reduced to its fixed part.
\<close>

named_theorems result_simps \<open>inversion of fallible steps\<close>
named_theorems bit_simps \<open>bit lengths as bounds on absolute values\<close>

datatype err_code =
    ErrInvalidRequest
  | ErrUnauthorized
  | ErrNotFound
  | ErrInvalidAddress
  | ErrUnknownAddress
  | ErrUnknownRequest
  | ErrInvalidType
  | ErrInsufficientFunds
  | ErrInvalidCoins
  | ErrSendDisabled
  | ErrNoInputs
  | ErrNoOutputs
  | ErrInputOutputMismatch
  | ErrInvalidKey
  | ErrPlain

datatype error = Panic string | Error err_code string

type_synonym 'a result = "error + 'a"

fun is_panic :: "'a result \<Rightarrow> bool" where
  "is_panic (Inl (Panic m)) = True"
| "is_panic _ = False"

subsection \<open>Sequencing of fallible steps\<close>

fun bindE :: "'a result \<Rightarrow> ('a \<Rightarrow> 'b result) \<Rightarrow> 'b result" where
  "bindE (Inl e) f = Inl e"
| "bindE (Inr x) f = f x"

definition guardE :: "bool \<Rightarrow> error \<Rightarrow> unit result" where
  "guardE b e = (if b then Inr () else Inl e)"

text \<open>A \<open>for _, x := range xs\<close> loop whose body may return an error or panic.\<close>

fun foldE :: "('a \<Rightarrow> 's \<Rightarrow> 's result) \<Rightarrow> 'a list \<Rightarrow> 's \<Rightarrow> 's result" where
  "foldE f [] s = Inr s"
| "foldE f (x # xs) s = bindE (f x s) (foldE f xs)"

text \<open>The same loop building a slice, one element per iteration.\<close>

fun mapE :: "('a \<Rightarrow> 'b result) \<Rightarrow> 'a list \<Rightarrow> 'b list result" where
  "mapE f [] = Inr []"
| "mapE f (x # xs) = bindE (f x) (\<lambda>y. bindE (mapE f xs) (\<lambda>ys. Inr (y # ys)))"

text \<open>Loops that return at the first element failing, or passing, a test that may panic.\<close>

fun allE :: "('a \<Rightarrow> bool result) \<Rightarrow> 'a list \<Rightarrow> bool result" where
  "allE f [] = Inr True"
| "allE f (x # xs) = bindE (f x) (\<lambda>b. if b then allE f xs else Inr False)"

fun anyE :: "('a \<Rightarrow> bool result) \<Rightarrow> 'a list \<Rightarrow> bool result" where
  "anyE f [] = Inr False"
| "anyE f (x # xs) = bindE (f x) (\<lambda>b. if b then Inr True else anyE f xs)"

lemma bindE_Inr [simp, result_simps]:
  "bindE m f = Inr y \<longleftrightarrow> (\<exists>x. m = Inr x \<and> f x = Inr y)"
  by (cases m) auto

lemma bindE_Inl [result_simps]:
  "bindE m f = Inl e \<longleftrightarrow> m = Inl e \<or> (\<exists>x. m = Inr x \<and> f x = Inl e)"
  by (cases m) auto

lemma guardE_Inr [simp, result_simps]: "guardE b e = Inr u \<longleftrightarrow> b"
  by (simp add: guardE_def)

lemma guardE_Inl [simp, result_simps]: "guardE b e = Inl e' \<longleftrightarrow> \<not> b \<and> e' = e"
  by (auto simp: guardE_def)

lemma bindE_guardE: "bindE (guardE b e) f = (if b then f () else Inl e)"
  by (simp add: guardE_def)

lemma bindE_assoc: "bindE (bindE m f) g = bindE m (\<lambda>x. bindE (f x) g)"
  by (cases m) auto

text \<open>\<open>ErrX.Wrap(err.Error())\<close>: a returned error is replaced by another, a panic passes.\<close>

definition wrapE :: "err_code \<Rightarrow> string \<Rightarrow> 'a result \<Rightarrow> 'a result" where
  "wrapE c m r = (case r of Inl (Error _ _) \<Rightarrow> Inl (Error c m) | _ \<Rightarrow> r)"

lemma wrapE_Inr [simp, result_simps]: "wrapE c m r = Inr x \<longleftrightarrow> r = Inr x"
  by (simp add: wrapE_def split: sum.splits error.splits)

lemma bindE_right [simp]: "bindE m Inr = m"
  by (cases m) auto

lemma bindE_cong [fundef_cong]:
  "m = m' \<Longrightarrow> (\<And>x. m' = Inr x \<Longrightarrow> f x = g x) \<Longrightarrow> bindE m f = bindE m' g"
  by (cases m') auto

lemma if_Inr [result_simps]:
  "(if b then Inl e else r) = Inr x \<longleftrightarrow> \<not> b \<and> r = Inr x"
  "(if b then r else Inl e) = Inr x \<longleftrightarrow> b \<and> r = Inr x"
  by auto

lemma foldE_append: "foldE f (xs @ ys) s = bindE (foldE f xs s) (foldE f ys)"
  by (induction xs arbitrary: s) (auto simp: bindE_assoc intro!: bindE_cong)

text \<open>An invariant of the loop body is an invariant of the loop.\<close>

lemma foldE_invariant:
  assumes "foldE f xs s = Inr t" and "P s"
    and "\<And>x u v. x \<in> set xs \<Longrightarrow> P u \<Longrightarrow> f x u = Inr v \<Longrightarrow> P v"
  shows "P t"
  using assms
proof (induction xs arbitrary: s)
  case Nil
  then show ?case by simp
next
  case (Cons x xs)
  then obtain u where u: "f x s = Inr u" "foldE f xs u = Inr t" by auto
  have "P u" using Cons.prems u(1) by (meson list.set_intros(1))
  then show ?case using Cons.IH [OF u(2)] Cons.prems(3) by (meson list.set_intros(2))
qed

lemma allE_total: "(\<And>x. x \<in> set xs \<Longrightarrow> f x = Inr (g x)) \<Longrightarrow> allE f xs = Inr (list_all g xs)"
  by (induction xs) auto

lemma anyE_total: "(\<And>x. x \<in> set xs \<Longrightarrow> f x = Inr (g x)) \<Longrightarrow> anyE f xs = Inr (list_ex g xs)"
  by (induction xs) auto

lemma mapE_Inr_length: "mapE f xs = Inr ys \<Longrightarrow> length ys = length xs"
  by (induction xs arbitrary: ys) auto

lemma mapE_total: "(\<And>x. x \<in> set xs \<Longrightarrow> f x = Inr (g x)) \<Longrightarrow> mapE f xs = Inr (map g xs)"
  by (induction xs) auto

subsection \<open>Bit lengths\<close>

text \<open>\<open>big.Int.BitLen\<close>: the length of the absolute value in bits, 0 for 0.\<close>

definition BitLen :: "int \<Rightarrow> nat" where
  "BitLen x = floorlog 2 (nat \<bar>x\<bar>)"

lemma BitLen_le [simp, bit_simps]: "BitLen x \<le> w \<longleftrightarrow> \<bar>x\<bar> < 2 ^ w"
proof -
  have "BitLen x \<le> w \<longleftrightarrow> nat \<bar>x\<bar> < 2 ^ w"
    by (simp add: BitLen_def floorlog_le_iff)
  also have "\<dots> \<longleftrightarrow> \<bar>x\<bar> < 2 ^ w"
    by (simp add: nat_less_iff)
  finally show ?thesis .
qed

lemma BitLen_gt [simp, bit_simps]: "w < BitLen x \<longleftrightarrow> 2 ^ w \<le> \<bar>x\<bar>"
  using BitLen_le [of x w] by linarith

subsection \<open>Go's truncated division\<close>

text \<open>\<open>big.Int.Quo\<close>, \<open>Rem\<close> truncate towards zero; \<open>big.Int.Mod\<close> is Euclidean.\<close>

definition quo :: "int \<Rightarrow> int \<Rightarrow> int" where
  "quo a b = sgn a * sgn b * (\<bar>a\<bar> div \<bar>b\<bar>)"

definition rem :: "int \<Rightarrow> int \<Rightarrow> int" where
  "rem a b = a - quo a b * b"

definition eucl_mod :: "int \<Rightarrow> int \<Rightarrow> int" where
  "eucl_mod a b = a mod \<bar>b\<bar>"

lemma quo_nonneg: "0 \<le> a \<Longrightarrow> 0 < b \<Longrightarrow> quo a b = a div b"
  by (cases "a = 0") (simp_all add: quo_def)

lemma quo_neg: "quo (- a) b = - quo a b"
  by (simp add: quo_def sgn_if)

lemma quo_abs_le: "\<bar>quo a b\<bar> \<le> \<bar>a\<bar>"
proof -
  have "\<bar>quo a b\<bar> \<le> \<bar>a\<bar> div \<bar>b\<bar>"
    by (auto simp: quo_def abs_mult abs_sgn_eq pos_imp_zdiv_nonneg_iff)
  also have "\<dots> \<le> \<bar>a\<bar>"
    using zdiv_mono2 [of "\<bar>a\<bar>" 1 "\<bar>b\<bar>"] by (cases "b = 0") auto
  finally show ?thesis .
qed

lemma rem_nonneg: "0 \<le> a \<Longrightarrow> 0 < b \<Longrightarrow> rem a b = a mod b"
  by (simp add: rem_def quo_nonneg minus_div_mult_eq_mod)

end
