(* ===== verification/SdkInt.thy ===== *)
theory SdkInt
  imports Prelude "HOL-Library.Word"
begin

section \<open>Bounded integers: types/int.go and types/uint.go\<close>

text \<open>
  \<open>Int\<close> and \<open>Uint\<close> wrap \<open>big.Int\<close> and panic when a result leaves 256 bits. The model
  keeps the value as an unbounded integer, as \<open>big.Int\<close> does, and writes the panics
  out. A nil \<open>big.Int\<close> (an uninitialised \<open>Int\<close>) is not modelled: every method but
  \<open>IsNil\<close>, \<open>BigInt\<close> and the marshallers dereferences it. \<open>int64\<close> and \<open>uint64\<close>
  arguments are \<open>64 word\<close>, read with \<open>sint\<close> and \<open>uint\<close>.
\<close>

type_synonym SdkInt = int
type_synonym SdkUint = int
type_synonym int64 = "64 word"
type_synonym uint64 = "64 word"

definition maxBitLen :: nat where
  "maxBitLen = 256"

definition int64_range :: "int \<Rightarrow> bool" where
  "int64_range x \<longleftrightarrow> - (2 ^ 63) \<le> x \<and> x < 2 ^ 63"

definition uint64_range :: "int \<Rightarrow> bool" where
  "uint64_range x \<longleftrightarrow> 0 \<le> x \<and> x < 2 ^ 64"

subsection \<open>Int\<close>

text \<open>The range the type's comment promises: from \<open>-(2^256 - 1)\<close> to \<open>2^256 - 1\<close>.\<close>

definition Int_ok :: "SdkInt \<Rightarrow> bool" where
  "Int_ok i \<longleftrightarrow> BitLen i \<le> maxBitLen"

definition NewInt :: "int64 \<Rightarrow> SdkInt" where
  "NewInt n = sint n"

definition NewIntFromUint64 :: "uint64 \<Rightarrow> SdkInt" where
  "NewIntFromUint64 n = uint n"

definition NewIntFromBigInt :: "int \<Rightarrow> SdkInt result" where
  "NewIntFromBigInt i =
     (if BitLen i > maxBitLen then Inl (Panic ''NewIntFromBigInt() out of bound'') else Inr i)"

definition NewIntWithDecimal :: "int64 \<Rightarrow> int64 \<Rightarrow> SdkInt result" where
  "NewIntWithDecimal n dec =
     (if sint dec < 0 then Inl (Panic ''NewIntWithDecimal() decimal is negative'')
      else let i = sint n * 10 ^ nat (sint dec) in
        if BitLen i > maxBitLen then Inl (Panic ''NewIntWithDecimal() out of bound'') else Inr i)"

definition Int_Int64 :: "SdkInt \<Rightarrow> int64 result" where
  "Int_Int64 i =
     (if \<not> int64_range i then Inl (Panic ''Int64() out of bound'') else Inr (word_of_int i))"

definition Int_Uint64 :: "SdkInt \<Rightarrow> uint64 result" where
  "Int_Uint64 i =
     (if \<not> uint64_range i then Inl (Panic ''Uint64() out of bounds'') else Inr (word_of_int i))"

definition Int_IsZero :: "SdkInt \<Rightarrow> bool" where
  "Int_IsZero i \<longleftrightarrow> sgn i = 0"

definition Int_IsNegative :: "SdkInt \<Rightarrow> bool" where
  "Int_IsNegative i \<longleftrightarrow> sgn i = -1"

definition Int_IsPositive :: "SdkInt \<Rightarrow> bool" where
  "Int_IsPositive i \<longleftrightarrow> sgn i = 1"

definition Int_Add :: "SdkInt \<Rightarrow> SdkInt \<Rightarrow> SdkInt result" where
  "Int_Add i i2 =
     (let res = i + i2 in
      if BitLen res > maxBitLen then Inl (Panic ''Int overflow'') else Inr res)"

definition Int_AddRaw :: "SdkInt \<Rightarrow> int64 \<Rightarrow> SdkInt result" where
  "Int_AddRaw i i2 = Int_Add i (NewInt i2)"

definition Int_Sub :: "SdkInt \<Rightarrow> SdkInt \<Rightarrow> SdkInt result" where
  "Int_Sub i i2 =
     (let res = i - i2 in
      if BitLen res > maxBitLen then Inl (Panic ''Int overflow'') else Inr res)"

definition Int_SubRaw :: "SdkInt \<Rightarrow> int64 \<Rightarrow> SdkInt result" where
  "Int_SubRaw i i2 = Int_Sub i (NewInt i2)"

definition Int_Mul :: "SdkInt \<Rightarrow> SdkInt \<Rightarrow> SdkInt result" where
  "Int_Mul i i2 =
     (if int (BitLen i) + int (BitLen i2) - 1 > int maxBitLen then Inl (Panic ''Int overflow'')
      else let res = i * i2 in
        if BitLen res > maxBitLen then Inl (Panic ''Int overflow'') else Inr res)"

definition Int_MulRaw :: "SdkInt \<Rightarrow> int64 \<Rightarrow> SdkInt result" where
  "Int_MulRaw i i2 = Int_Mul i (NewInt i2)"

definition Int_Quo :: "SdkInt \<Rightarrow> SdkInt \<Rightarrow> SdkInt result" where
  "Int_Quo i i2 = (if sgn i2 = 0 then Inl (Panic ''Division by zero'') else Inr (quo i i2))"

definition Int_QuoRaw :: "SdkInt \<Rightarrow> int64 \<Rightarrow> SdkInt result" where
  "Int_QuoRaw i i2 = Int_Quo i (NewInt i2)"

definition Int_Mod :: "SdkInt \<Rightarrow> SdkInt \<Rightarrow> SdkInt result" where
  "Int_Mod i i2 = (if sgn i2 = 0 then Inl (Panic ''division-by-zero'') else Inr (eucl_mod i i2))"

definition Int_ModRaw :: "SdkInt \<Rightarrow> int64 \<Rightarrow> SdkInt result" where
  "Int_ModRaw i i2 = Int_Mod i (NewInt i2)"

definition Int_Neg :: "SdkInt \<Rightarrow> SdkInt" where
  "Int_Neg i = - i"

definition Int_Abs :: "SdkInt \<Rightarrow> SdkInt" where
  "Int_Abs i = \<bar>i\<bar>"

definition MinInt :: "SdkInt \<Rightarrow> SdkInt \<Rightarrow> SdkInt" where
  "MinInt i1 i2 = (if i1 > i2 then i2 else i1)"

definition MaxInt :: "SdkInt \<Rightarrow> SdkInt \<Rightarrow> SdkInt" where
  "MaxInt i i2 = (if i < i2 then i2 else i)"

subsection \<open>Uint\<close>

definition UintOverflow :: "int \<Rightarrow> unit result" where
  "UintOverflow i =
     (if sgn i < 0 then Inl (Error ErrPlain ''non-positive integer'')
      else if BitLen i > 256 then Inl (Error ErrPlain ''bit length greater than 256'')
      else Inr ())"

definition checkNewUint :: "int \<Rightarrow> SdkUint result" where
  "checkNewUint i = bindE (UintOverflow i) (\<lambda>_. Inr i)"

definition NewUintFromBigInt :: "int \<Rightarrow> SdkUint result" where
  "NewUintFromBigInt i =
     (case checkNewUint i of Inl _ \<Rightarrow> Inl (Panic ''overflow'') | Inr u \<Rightarrow> Inr u)"

definition NewUint :: "uint64 \<Rightarrow> SdkUint result" where
  "NewUint n = NewUintFromBigInt (uint n)"

definition Uint_Uint64 :: "SdkUint \<Rightarrow> uint64 result" where
  "Uint_Uint64 u =
     (if \<not> uint64_range u then Inl (Panic ''Uint64() out of bound'') else Inr (word_of_int u))"

definition Uint_GT :: "SdkUint \<Rightarrow> SdkUint \<Rightarrow> bool" where
  "Uint_GT u u2 \<longleftrightarrow> u > u2"

definition Uint_LTE :: "SdkUint \<Rightarrow> SdkUint \<Rightarrow> bool" where
  "Uint_LTE u u2 \<longleftrightarrow> \<not> Uint_GT u u2"

definition Uint_Add :: "SdkUint \<Rightarrow> SdkUint \<Rightarrow> SdkUint result" where
  "Uint_Add u u2 = NewUintFromBigInt (u + u2)"

definition Uint_Sub :: "SdkUint \<Rightarrow> SdkUint \<Rightarrow> SdkUint result" where
  "Uint_Sub u u2 = NewUintFromBigInt (u - u2)"

definition Uint_Mul :: "SdkUint \<Rightarrow> SdkUint \<Rightarrow> SdkUint result" where
  "Uint_Mul u u2 = NewUintFromBigInt (u * u2)"

text \<open>\<open>big.Int.Quo\<close> itself panics on a zero divisor.\<close>

definition Uint_Quo :: "SdkUint \<Rightarrow> SdkUint \<Rightarrow> SdkUint result" where
  "Uint_Quo u u2 =
     (if u2 = 0 then Inl (Panic ''division by zero'') else NewUintFromBigInt (quo u u2))"

definition Uint_Mod :: "SdkUint \<Rightarrow> SdkUint \<Rightarrow> SdkUint result" where
  "Uint_Mod u u2 = (if u2 = 0 then Inl (Panic ''division-by-zero'') else Inr (eucl_mod u u2))"

definition Uint_Incr :: "SdkUint \<Rightarrow> SdkUint result" where
  "Uint_Incr u = Uint_Add u 1"

definition Uint_Decr :: "SdkUint \<Rightarrow> SdkUint result" where
  "Uint_Decr u = Uint_Sub u 1"

definition Uint_ok :: "SdkUint \<Rightarrow> bool" where
  "Uint_ok u \<longleftrightarrow> 0 \<le> u \<and> u < 2 ^ 256"

subsection \<open>Laws\<close>

lemma Int_ok_iff: "Int_ok i \<longleftrightarrow> \<bar>i\<bar> < 2 ^ 256"
  by (simp add: Int_ok_def maxBitLen_def)

lemma Int_sign [simp]:
  "Int_IsZero i \<longleftrightarrow> i = 0" "Int_IsNegative i \<longleftrightarrow> i < 0" "Int_IsPositive i \<longleftrightarrow> 0 < i"
  by (auto simp: Int_IsZero_def Int_IsNegative_def Int_IsPositive_def sgn_if)

lemma Int_Add_eq [simp]: "Int_Add a b = Inr c \<longleftrightarrow> c = a + b \<and> \<bar>a + b\<bar> < 2 ^ 256"
  by (auto simp: Int_Add_def Let_def maxBitLen_def)

lemma Int_Sub_eq [simp]: "Int_Sub a b = Inr c \<longleftrightarrow> c = a - b \<and> \<bar>a - b\<bar> < 2 ^ 256"
  by (auto simp: Int_Sub_def Let_def maxBitLen_def)

lemma Int_Add_total: "\<bar>a + b\<bar> < 2 ^ 256 \<Longrightarrow> Int_Add a b = Inr (a + b)"
  by simp

lemma Int_Sub_nonneg: "0 \<le> a \<Longrightarrow> 0 \<le> b \<Longrightarrow> Int_ok a \<Longrightarrow> Int_ok b \<Longrightarrow> Int_Sub a b = Inr (a - b)"
  by (simp add: Int_ok_iff)

lemma BitLen_lower: "x \<noteq> 0 \<Longrightarrow> 2 ^ (BitLen x - 1) \<le> \<bar>x\<bar>"
proof -
  assume "x \<noteq> 0"
  then have "0 < BitLen x" using BitLen_le [of x 0] by (cases "BitLen x") auto
  then have "BitLen x - 1 < BitLen x" by (rule diff_less [OF zero_less_one])
  then show ?thesis by (simp only: BitLen_gt)
qed

text \<open>
  The early check of \<open>Mul\<close> on the sum of the operands' bit lengths refuses no product
  that fits: it is only a shortcut for the check on the result.
\<close>

lemma Int_Mul_early_check:
  assumes "Int_ok a" "Int_ok b" "int (BitLen a) + int (BitLen b) - 1 > 256"
  shows "2 ^ 256 \<le> \<bar>a * b\<bar>"
proof -
  have nz: "a \<noteq> 0" "b \<noteq> 0"
    using assms BitLen_le [of 0 0] by (auto simp: Int_ok_def maxBitLen_def)
  have pos: "0 < BitLen a" "0 < BitLen b"
    using nz BitLen_gt [of 0] by (simp_all add: abs_if)
  have "256 \<le> (BitLen a - 1) + (BitLen b - 1)"
    using assms(3) pos by linarith
  then have "(2::int) ^ 256 \<le> 2 ^ ((BitLen a - 1) + (BitLen b - 1))"
    by (rule power_increasing) simp
  also have "\<dots> = 2 ^ (BitLen a - 1) * 2 ^ (BitLen b - 1)"
    by (rule power_add)
  also have "\<dots> \<le> \<bar>a\<bar> * \<bar>b\<bar>"
    by (intro mult_mono BitLen_lower nz) simp_all
  finally show ?thesis by (simp add: abs_mult)
qed

lemma Int_Mul_exact:
  assumes "Int_ok a" "Int_ok b"
  shows "Int_Mul a b = (if Int_ok (a * b) then Inr (a * b) else Inl (Panic ''Int overflow''))"
  using Int_Mul_early_check [OF assms]
  by (auto simp: Int_Mul_def Let_def Int_ok_def maxBitLen_def not_less)

lemma Uint_ok_iff [simp]: "NewUintFromBigInt i = Inr u \<longleftrightarrow> u = i \<and> Uint_ok i"
  by (auto simp: NewUintFromBigInt_def checkNewUint_def UintOverflow_def Uint_ok_def
      split: sum.splits if_splits)

lemma Uint_Incr_eq: "Uint_ok u \<Longrightarrow> u < 2 ^ 256 - 1 \<Longrightarrow> Uint_Incr u = Inr (u + 1)"
  by (simp add: Uint_Incr_def Uint_Add_def Uint_ok_def)

end
