(* ===== verification/GoText.thy ===== *)
theory GoText
  imports Prelude
begin

section \<open>Strings: what the sources use of Go's standard library\<close>

text \<open>
  Decimal text of integers (\<open>big.Int.MarshalText\<close>, \<open>big.Int.SetString\<close> in base 10),
  \<open>strings.Split\<close> on a one-byte separator, the \<open>%0Ns\<close> padding of \<open>fmt.Sprintf\<close>, and
  the lexicographic order of byte strings (\<open><\<close> on Go strings and \<open>bytes.Compare\<close>).
  A Go string is a list of bytes, here a \<open>char list\<close>.
\<close>

subsection \<open>Decimal digits\<close>

definition digit_char :: "nat \<Rightarrow> char" where
  "digit_char k = char_of (48 + k)"

definition digit_val :: "char \<Rightarrow> nat" where
  "digit_val c = of_char c - 48"

definition is_digit :: "char \<Rightarrow> bool" where
  "is_digit c \<longleftrightarrow> 48 \<le> (of_char c :: nat) \<and> (of_char c :: nat) \<le> 57"

fun nat_text :: "nat \<Rightarrow> string" where
  "nat_text n = (if n < 10 then [digit_char n] else nat_text (n div 10) @ [digit_char (n mod 10)])"

declare nat_text.simps [simp del]

definition text_val :: "string \<Rightarrow> nat" where
  "text_val s = foldl (\<lambda>acc c. 10 * acc + digit_val c) 0 s"

definition int_text :: "int \<Rightarrow> string" where
  "int_text i = (if i < 0 then CHR ''-'' # nat_text (nat (- i)) else nat_text (nat i))"

text \<open>\<open>new(big.Int).SetString(s, 10)\<close>: an optional sign, then at least one digit, nothing else.\<close>

definition digits_val :: "string \<Rightarrow> nat option" where
  "digits_val s = (if s \<noteq> [] \<and> list_all is_digit s then Some (text_val s) else None)"

definition SetString10 :: "string \<Rightarrow> int option" where
  "SetString10 s =
     (case s of
        [] \<Rightarrow> None
      | c # cs \<Rightarrow>
          if c = CHR ''-'' then map_option (\<lambda>n. - int n) (digits_val cs)
          else if c = CHR ''+'' then map_option int (digits_val cs)
          else map_option int (digits_val s))"

subsection \<open>Split and padding\<close>

fun split_on :: "char \<Rightarrow> string \<Rightarrow> string list" where
  "split_on sep [] = [[]]"
| "split_on sep (c # cs) =
     (if c = sep then [] # split_on sep cs
      else case split_on sep cs of [] \<Rightarrow> [[c]] | w # ws \<Rightarrow> (c # w) # ws)"

definition zero_pad :: "nat \<Rightarrow> string \<Rightarrow> string" where
  "zero_pad w s = replicate (w - length s) CHR ''0'' @ s"

text \<open>ASCII white space, as \<open>strings.TrimSpace\<close> removes it at both ends.\<close>

definition is_space :: "char \<Rightarrow> bool" where
  "is_space c \<longleftrightarrow> c = CHR '' '' \<or> (9 \<le> (of_char c :: nat) \<and> (of_char c :: nat) \<le> 13)"

definition TrimSpace :: "string \<Rightarrow> string" where
  "TrimSpace s = rev (dropWhile is_space (rev (dropWhile is_space s)))"

subsection \<open>Upper case, hexadecimal, rune count\<close>

text \<open>\<open>strings.ToUpper\<close> on ASCII texts.\<close>

definition upper_char :: "char \<Rightarrow> char" where
  "upper_char c = (if 97 \<le> (of_char c :: nat) \<and> (of_char c :: nat) \<le> 122 then char_of (of_char c - 32 :: nat) else c)"

definition ToUpper :: "string \<Rightarrow> string" where
  "ToUpper s = map upper_char s"

definition hex_digit :: "nat \<Rightarrow> char" where
  "hex_digit k = (if k < 10 then char_of (48 + k) else char_of (87 + k))"

text \<open>\<open>%x\<close> of an unsigned integer.\<close>

fun hex_text :: "nat \<Rightarrow> string" where
  "hex_text n = (if n < 16 then [hex_digit n] else hex_text (n div 16) @ [hex_digit (n mod 16)])"

declare hex_text.simps [simp del]

text \<open>
  \<open>utf8.RuneCountInString\<close>: the width of the encoding at the head of the text, one byte when
  it is not a valid encoding.
\<close>

definition in_range :: "nat \<Rightarrow> nat \<Rightarrow> char \<Rightarrow> bool" where
  "in_range lo hi c \<longleftrightarrow> lo \<le> (of_char c :: nat) \<and> (of_char c :: nat) \<le> hi"

definition rune_width :: "string \<Rightarrow> nat" where
  "rune_width s =
     (case s of
        a # b # rest \<Rightarrow>
          if in_range 194 223 a \<and> in_range 128 191 b then 2
          else
            (case rest of
               c # rest2 \<Rightarrow>
                 if in_range 128 191 c \<and>
                    ((in_range 224 224 a \<and> in_range 160 191 b) \<or>
                     ((in_range 225 236 a \<or> in_range 238 239 a) \<and> in_range 128 191 b) \<or>
                     (in_range 237 237 a \<and> in_range 128 159 b)) then 3
                 else
                   (case rest2 of
                      d # _ \<Rightarrow>
                        if in_range 128 191 c \<and> in_range 128 191 d \<and>
                           ((in_range 240 240 a \<and> in_range 144 191 b) \<or>
                            (in_range 241 243 a \<and> in_range 128 191 b) \<or>
                            (in_range 244 244 a \<and> in_range 128 143 b)) then 4
                        else 1
                    | [] \<Rightarrow> 1)
             | [] \<Rightarrow> 1)
      | _ \<Rightarrow> 1)"

lemma rune_width_pos [simp]: "0 < rune_width s"
  by (simp add: rune_width_def split: list.splits)

function RuneCount :: "string \<Rightarrow> nat" where
  "RuneCount s = (if s = [] then 0 else Suc (RuneCount (drop (rune_width s) s)))"
  by pat_completeness auto
termination
  by (relation "measure length") auto

declare RuneCount.simps [simp del]

text \<open>Indexing and slicing of a byte slice; both panic out of range.\<close>

definition index_at :: "string \<Rightarrow> nat \<Rightarrow> char result" where
  "index_at s i = (if i < length s then Inr (s ! i) else Inl (Panic ''index out of range''))"

definition slice :: "string \<Rightarrow> nat \<Rightarrow> nat \<Rightarrow> string result" where
  "slice s b e =
     (if b \<le> e \<and> e \<le> length s then Inr (take (e - b) (drop b s))
      else Inl (Panic ''slice bounds out of range''))"

definition byte :: "nat \<Rightarrow> char" where
  "byte n = char_of (n mod 256)"

subsection \<open>Lemmas\<close>

lemma of_char_byte [simp]: "n < 256 \<Longrightarrow> (of_char (byte n) :: nat) = n"
  by (simp add: byte_def)

lemma byte_inj: "m < 256 \<Longrightarrow> n < 256 \<Longrightarrow> byte m = byte n \<longleftrightarrow> m = n"
  by (metis of_char_byte)

lemma of_char_digit [simp]: "k < 10 \<Longrightarrow> (of_char (digit_char k) :: nat) = 48 + k"
  by (simp add: digit_char_def)

lemma digit_val_char [simp]: "k < 10 \<Longrightarrow> digit_val (digit_char k) = k"
  by (simp add: digit_val_def)

lemma is_digit_char [simp]: "k < 10 \<Longrightarrow> is_digit (digit_char k)"
  by (simp add: is_digit_def)

lemma digit_char_less [simp]: "j < 10 \<Longrightarrow> k < 10 \<Longrightarrow> digit_char j < digit_char k \<longleftrightarrow> j < k"
  by (simp add: less_char_def)

lemma digit_char_inj [simp]: "j < 10 \<Longrightarrow> k < 10 \<Longrightarrow> digit_char j = digit_char k \<longleftrightarrow> j = k"
  by (metis digit_val_char)

lemma digit_char_not [simp]:
  "k < 10 \<Longrightarrow> digit_char k \<noteq> CHR ''-''" "k < 10 \<Longrightarrow> digit_char k \<noteq> CHR ''+''"
  "k < 10 \<Longrightarrow> digit_char k \<noteq> CHR ''.''"
  by (auto dest!: arg_cong [where f = "of_char :: char \<Rightarrow> nat"])

lemma digit_char_0: "digit_char 0 = CHR ''0''"
proof -
  have "(of_char (digit_char 0) :: nat) = of_char CHR ''0''" by simp
  then show ?thesis by (simp only: of_char_eq_iff)
qed

lemma is_digit_zero [simp]: "is_digit CHR ''0''"
  by (simp add: is_digit_def)

lemma not_digit [simp]: "\<not> is_digit CHR ''-''" "\<not> is_digit CHR ''+''" "\<not> is_digit CHR ''.''"
  by (simp_all add: is_digit_def)

lemma nat_text_nonempty [simp]: "nat_text n \<noteq> []"
  by (subst nat_text.simps) simp

lemma nat_text_digits: "list_all is_digit (nat_text n)"
proof (induction n rule: nat_text.induct)
  case (1 n)
  then show ?case by (subst nat_text.simps) simp
qed

lemma text_val_append: "text_val (s @ [c]) = 10 * text_val s + digit_val c"
  by (simp add: text_val_def)

lemma text_val_append_zeros: "text_val (s @ replicate k CHR ''0'') = text_val s * 10 ^ k"
proof (induction k)
  case (Suc k)
  have "text_val (s @ replicate (Suc k) CHR ''0'') = text_val ((s @ replicate k CHR ''0'') @ [CHR ''0''])"
    by (simp add: replicate_append_same)
  also have "\<dots> = 10 * text_val (s @ replicate k CHR ''0'')"
    by (simp only: text_val_append) (simp add: digit_val_def)
  finally show ?case using Suc.IH by simp
qed simp

lemma text_val_nat_text [simp]: "text_val (nat_text n) = n"
proof (induction n rule: nat_text.induct)
  case (1 n)
  show ?case
  proof (cases "n < 10")
    case True
    then show ?thesis by (subst nat_text.simps) (simp add: text_val_def)
  next
    case False
    then have "nat_text n = nat_text (n div 10) @ [digit_char (n mod 10)]"
      by (subst nat_text.simps) simp
    then show ?thesis using False 1 by (simp add: text_val_append)
  qed
qed

lemma text_val_zeros_prefix: "text_val (replicate k CHR ''0'' @ s) = text_val s"
proof -
  have "foldl (\<lambda>acc c. 10 * acc + digit_val c) 0 (replicate k CHR ''0'') = 0"
    by (induction k) (simp_all add: digit_val_def)
  then show ?thesis by (simp add: text_val_def)
qed

lemma digits_val_nat_text [simp]: "digits_val (nat_text n) = Some n"
  by (simp add: digits_val_def nat_text_digits)

lemma SetString10_digit:
  "list_all is_digit s \<Longrightarrow> s \<noteq> [] \<Longrightarrow> SetString10 s = Some (int (text_val s))"
  by (cases s) (auto simp: SetString10_def digits_val_def)

lemma SetString10_int_text: "SetString10 (int_text i) = Some i"
  by (simp add: int_text_def SetString10_digit nat_text_digits) (simp add: SetString10_def)

lemma split_on_none: "sep \<notin> set s \<Longrightarrow> split_on sep s = [s]"
  by (induction s) auto

lemma split_on_once:
  "sep \<notin> set s \<Longrightarrow> split_on sep (s @ sep # t) = s # split_on sep t"
  by (induction s) auto

lemma list_all_not_in: "list_all is_digit s \<Longrightarrow> \<not> is_digit c \<Longrightarrow> c \<notin> set s"
  by (auto simp: list_all_iff)

end
