(* ===== verification/Decimal.thy ===== *)
theory Decimal
  imports SdkInt GoText
begin

section \<open>Fixed-point decimals: types/decimal.go\<close>

text \<open>
  A \<open>Dec\<close> is a \<open>big.Int\<close> scaled by \<open>10^18\<close>; the model keeps the scaled integer. Every
  operation whose result exceeds \<open>maxDecBitLen = 315\<close> bits panics, as in the source; a
  division by zero is the panic of \<open>big.Int.Quo\<close>. The JSON, YAML and amino wrappers and
  the floating-point conversions are not modelled.
\<close>

type_synonym SdkDec = int

definition Precision :: nat where
  "Precision = 18"

definition DecimalPrecisionBits :: nat where
  "DecimalPrecisionBits = 60"

definition decimalTruncateBits :: nat where
  "decimalTruncateBits = DecimalPrecisionBits - 1"

definition maxDecBitLen :: nat where
  "maxDecBitLen = maxBitLen + decimalTruncateBits"

definition maxApproxRootIterations :: nat where
  "maxApproxRootIterations = 100"

definition precisionReuse :: int where
  "precisionReuse = 10 ^ Precision"

definition fivePrecision :: int where
  "fivePrecision = quo precisionReuse 2"

definition ZeroDec :: SdkDec where
  "ZeroDec = 0"

definition OneDec :: SdkDec where
  "OneDec = precisionReuse"

definition SmallestDec :: SdkDec where
  "SmallestDec = 1"

subsection \<open>Construction\<close>

definition calcPrecisionMultiplier :: "int \<Rightarrow> int result" where
  "calcPrecisionMultiplier prec =
     (if prec > int Precision then Inl (Panic ''too much precision'')
      else Inr (10 ^ nat (int Precision - prec)))"

text \<open>The table is indexed by \<open>prec\<close>; a negative index panics.\<close>

definition precisionMultiplier :: "int \<Rightarrow> int result" where
  "precisionMultiplier prec =
     (if prec > int Precision then Inl (Panic ''too much precision'')
      else if prec < 0 then Inl (Panic ''index out of range'')
      else calcPrecisionMultiplier prec)"

definition NewDecFromBigIntWithPrec :: "int \<Rightarrow> int \<Rightarrow> SdkDec result" where
  "NewDecFromBigIntWithPrec i prec = bindE (precisionMultiplier prec) (\<lambda>m. Inr (i * m))"

definition NewDecWithPrec :: "int64 \<Rightarrow> int64 \<Rightarrow> SdkDec result" where
  "NewDecWithPrec i prec = bindE (precisionMultiplier (sint prec)) (\<lambda>m. Inr (sint i * m))"

definition NewDec :: "int64 \<Rightarrow> SdkDec result" where
  "NewDec i = NewDecWithPrec i 0"

definition NewDecFromBigInt :: "int \<Rightarrow> SdkDec result" where
  "NewDecFromBigInt i = NewDecFromBigIntWithPrec i 0"

definition NewDecFromIntWithPrec :: "SdkInt \<Rightarrow> int \<Rightarrow> SdkDec result" where
  "NewDecFromIntWithPrec i prec = bindE (precisionMultiplier prec) (\<lambda>m. Inr (i * m))"

definition NewDecFromInt :: "SdkInt \<Rightarrow> SdkDec result" where
  "NewDecFromInt i = NewDecFromIntWithPrec i 0"

text \<open>Parsing: the sign is stripped first, then the string is split at its point.\<close>

definition NewDecFromStr :: "string \<Rightarrow> SdkDec result" where
  "NewDecFromStr str0 =
     (if length str0 = 0 then Inl (Error ErrPlain ''decimal string cannot be empty'')
      else
        let neg = (hd str0 = CHR ''-'');
            str = (if neg then tl str0 else str0)
        in
        if length str = 0 then Inl (Error ErrPlain ''decimal string cannot be empty'')
        else
          let strs = split_on CHR ''.'' str in
          bindE
            (if length strs = 2 then
               if length (strs ! 1) = 0 \<or> length (strs ! 0) = 0
               then Inl (Error ErrPlain ''invalid decimal length'')
               else Inr (length (strs ! 1), strs ! 0 @ strs ! 1)
             else if length strs > 2 then Inl (Error ErrPlain ''invalid decimal string'')
             else Inr (0, strs ! 0))
            (\<lambda>(lenDecs, combinedStr).
               if lenDecs > Precision then Inl (Error ErrPlain ''value exceeds max precision'')
               else
                 case SetString10 (combinedStr @ replicate (Precision - lenDecs) CHR ''0'') of
                   None \<Rightarrow> Inl (Error ErrPlain ''failed to set decimal string with base 10'')
                 | Some combined \<Rightarrow>
                     if BitLen combined > maxDecBitLen
                     then Inl (Error ErrPlain ''decimal out of range'')
                     else Inr (if neg then - combined else combined)))"

definition MustNewDecFromStr :: "string \<Rightarrow> SdkDec result" where
  "MustNewDecFromStr s =
     (case NewDecFromStr s of Inl _ \<Rightarrow> Inl (Panic ''NewDecFromStr'') | Inr d \<Rightarrow> Inr d)"

subsection \<open>Comparison\<close>

definition Dec_IsZero :: "SdkDec \<Rightarrow> bool" where
  "Dec_IsZero d \<longleftrightarrow> sgn d = 0"

definition Dec_IsNegative :: "SdkDec \<Rightarrow> bool" where
  "Dec_IsNegative d \<longleftrightarrow> sgn d = -1"

definition Dec_IsPositive :: "SdkDec \<Rightarrow> bool" where
  "Dec_IsPositive d \<longleftrightarrow> sgn d = 1"

definition Dec_Neg :: "SdkDec \<Rightarrow> SdkDec" where
  "Dec_Neg d = - d"

definition Dec_Abs :: "SdkDec \<Rightarrow> SdkDec" where
  "Dec_Abs d = \<bar>d\<bar>"

definition Dec_GTE :: "SdkDec \<Rightarrow> SdkDec \<Rightarrow> bool" where
  "Dec_GTE d d2 \<longleftrightarrow> d \<ge> d2"

definition Dec_GT :: "SdkDec \<Rightarrow> SdkDec \<Rightarrow> bool" where
  "Dec_GT d d2 \<longleftrightarrow> d > d2"

definition Dec_LT :: "SdkDec \<Rightarrow> SdkDec \<Rightarrow> bool" where
  "Dec_LT d d2 \<longleftrightarrow> d < d2"

definition Dec_LTE :: "SdkDec \<Rightarrow> SdkDec \<Rightarrow> bool" where
  "Dec_LTE d d2 \<longleftrightarrow> d \<le> d2"

definition MinDec :: "SdkDec \<Rightarrow> SdkDec \<Rightarrow> SdkDec" where
  "MinDec d1 d2 = (if Dec_LT d1 d2 then d1 else d2)"

definition MaxDec :: "SdkDec \<Rightarrow> SdkDec \<Rightarrow> SdkDec" where
  "MaxDec d1 d2 = (if Dec_LT d1 d2 then d2 else d1)"

definition DecsEqual :: "SdkDec list \<Rightarrow> SdkDec list \<Rightarrow> bool" where
  "DecsEqual d1s d2s =
     (if length d1s \<noteq> length d2s then False
      else list_all (\<lambda>(d1, d2). d1 = d2) (zip d1s d2s))"

subsection \<open>Chopping the extra precision\<close>

text \<open>Banker's rounding; a negative argument is negated, chopped and negated back.\<close>

function chopPrecisionAndRound :: "int \<Rightarrow> int" where
  "chopPrecisionAndRound d =
     (if sgn d = -1 then - chopPrecisionAndRound (- d)
      else
        let q = quo d precisionReuse; r = rem d precisionReuse in
        if sgn r = 0 then q
        else if r < fivePrecision then q
        else if r > fivePrecision then q + 1
        else if even q then q
        else q + 1)"
  by pat_completeness auto
termination
  by (relation "measure (\<lambda>d. if d < 0 then 1 else 0)") (auto simp: sgn_if split: if_splits)

declare chopPrecisionAndRound.simps [simp del]

definition chopPrecisionAndTruncate :: "int \<Rightarrow> int" where
  "chopPrecisionAndTruncate d = quo d precisionReuse"

definition chopPrecisionAndRoundUp :: "int \<Rightarrow> int" where
  "chopPrecisionAndRoundUp d =
     (if sgn d = -1 then - chopPrecisionAndTruncate (- d)
      else
        let q = quo d precisionReuse; r = rem d precisionReuse in
        if sgn r = 0 then q else q + 1)"

subsection \<open>Arithmetic\<close>

definition Dec_checked :: "int \<Rightarrow> SdkDec result" where
  "Dec_checked res = (if BitLen res > maxDecBitLen then Inl (Panic ''Int overflow'') else Inr res)"

definition Dec_Add :: "SdkDec \<Rightarrow> SdkDec \<Rightarrow> SdkDec result" where
  "Dec_Add d d2 = Dec_checked (d + d2)"

definition Dec_Sub :: "SdkDec \<Rightarrow> SdkDec \<Rightarrow> SdkDec result" where
  "Dec_Sub d d2 = Dec_checked (d - d2)"

definition Dec_Mul :: "SdkDec \<Rightarrow> SdkDec \<Rightarrow> SdkDec result" where
  "Dec_Mul d d2 = Dec_checked (chopPrecisionAndRound (d * d2))"

definition Dec_MulTruncate :: "SdkDec \<Rightarrow> SdkDec \<Rightarrow> SdkDec result" where
  "Dec_MulTruncate d d2 = Dec_checked (chopPrecisionAndTruncate (d * d2))"

definition Dec_MulInt :: "SdkDec \<Rightarrow> SdkInt \<Rightarrow> SdkDec result" where
  "Dec_MulInt d i = Dec_checked (d * i)"

definition Dec_MulInt64 :: "SdkDec \<Rightarrow> int64 \<Rightarrow> SdkDec result" where
  "Dec_MulInt64 d i = Dec_checked (d * sint i)"

definition big_Quo :: "int \<Rightarrow> int \<Rightarrow> int result" where
  "big_Quo a b = (if b = 0 then Inl (Panic ''division by zero'') else Inr (quo a b))"

definition Dec_Quo :: "SdkDec \<Rightarrow> SdkDec \<Rightarrow> SdkDec result" where
  "Dec_Quo d d2 =
     bindE (big_Quo (d * precisionReuse * precisionReuse) d2)
       (\<lambda>q. Dec_checked (chopPrecisionAndRound q))"

definition Dec_QuoTruncate :: "SdkDec \<Rightarrow> SdkDec \<Rightarrow> SdkDec result" where
  "Dec_QuoTruncate d d2 =
     bindE (big_Quo (d * precisionReuse * precisionReuse) d2)
       (\<lambda>q. Dec_checked (chopPrecisionAndTruncate q))"

definition Dec_QuoRoundUp :: "SdkDec \<Rightarrow> SdkDec \<Rightarrow> SdkDec result" where
  "Dec_QuoRoundUp d d2 =
     bindE (big_Quo (d * precisionReuse * precisionReuse) d2)
       (\<lambda>q. Dec_checked (chopPrecisionAndRoundUp q))"

definition Dec_QuoInt :: "SdkDec \<Rightarrow> SdkInt \<Rightarrow> SdkDec result" where
  "Dec_QuoInt d i = big_Quo d i"

definition Dec_QuoInt64 :: "SdkDec \<Rightarrow> int64 \<Rightarrow> SdkDec result" where
  "Dec_QuoInt64 d i = big_Quo d (sint i)"

text \<open>The loop of \<open>Power\<close> over \<open>(i, d, tmp)\<close>.\<close>

function Dec_Power_loop :: "nat \<Rightarrow> SdkDec \<Rightarrow> SdkDec \<Rightarrow> (SdkDec \<times> SdkDec) result" where
  "Dec_Power_loop i d tmp =
     (if i > 1 then
        bindE (if i mod 2 \<noteq> 0 then Dec_Mul tmp d else Inr tmp)
          (\<lambda>tmp'. bindE (Dec_Mul d d) (\<lambda>d'. Dec_Power_loop (i div 2) d' tmp'))
      else Inr (d, tmp))"
  by pat_completeness auto
termination
  by (relation "measure (\<lambda>(i, d, tmp). i)") auto

declare Dec_Power_loop.simps [simp del]

definition Dec_Power :: "SdkDec \<Rightarrow> uint64 \<Rightarrow> SdkDec result" where
  "Dec_Power d pow =
     (if pow = 0 then Inr OneDec
      else bindE (Dec_Power_loop (unat pow) d OneDec) (\<lambda>(d', tmp). Dec_Mul d' tmp))"

text \<open>
  The loop of \<open>ApproxRoot\<close>: \<open>iter\<close> counts up to \<open>maxApproxRootIterations\<close>; the model
  counts the remaining iterations down.
\<close>

fun ApproxRoot_loop :: "nat \<Rightarrow> SdkDec \<Rightarrow> uint64 \<Rightarrow> SdkDec \<Rightarrow> SdkDec \<Rightarrow> SdkDec result" where
  "ApproxRoot_loop 0 d rt guess delta = Inr guess"
| "ApproxRoot_loop (Suc n) d rt guess delta =
     (if Dec_GT (Dec_Abs delta) SmallestDec then
        bindE (Dec_Power guess (rt - 1)) (\<lambda>prev0.
        bindE (Dec_Quo d (if Dec_IsZero prev0 then SmallestDec else prev0)) (\<lambda>q.
        bindE (Dec_Sub q guess) (\<lambda>df.
        bindE (Dec_QuoInt df (NewIntFromUint64 rt)) (\<lambda>delta'.
        bindE (Dec_Add guess delta') (\<lambda>guess'.
          ApproxRoot_loop n d rt guess' delta')))))
      else Inr guess)"

definition recover_out_of_bounds :: "'a result \<Rightarrow> 'a result" where
  "recover_out_of_bounds r =
     (case r of Inl (Panic _) \<Rightarrow> Inl (Error ErrPlain ''out of bounds'') | _ \<Rightarrow> r)"

definition ApproxRoot_nonneg :: "SdkDec \<Rightarrow> uint64 \<Rightarrow> SdkDec result" where
  "ApproxRoot_nonneg d rt =
     recover_out_of_bounds
       (if rt = 1 \<or> Dec_IsZero d \<or> d = OneDec then Inr d
        else if rt = 0 then Inr OneDec
        else ApproxRoot_loop maxApproxRootIterations d rt OneDec OneDec)"

definition Dec_ApproxRoot :: "SdkDec \<Rightarrow> uint64 \<Rightarrow> SdkDec result" where
  "Dec_ApproxRoot d rt =
     (if Dec_IsNegative d then
        recover_out_of_bounds
          (bindE (Dec_MulInt64 d (-1)) (\<lambda>d'.
           bindE (ApproxRoot_nonneg d' rt) (\<lambda>absRoot. Dec_MulInt64 absRoot (-1))))
      else ApproxRoot_nonneg d rt)"

definition Dec_ApproxSqrt :: "SdkDec \<Rightarrow> SdkDec result" where
  "Dec_ApproxSqrt d = Dec_ApproxRoot d 2"

subsection \<open>Integer parts\<close>

definition Dec_IsInteger :: "SdkDec \<Rightarrow> bool" where
  "Dec_IsInteger d \<longleftrightarrow> sgn (rem d precisionReuse) = 0"

definition Dec_RoundInt64 :: "SdkDec \<Rightarrow> int64 result" where
  "Dec_RoundInt64 d =
     (let chopped = chopPrecisionAndRound d in
      if \<not> int64_range chopped then Inl (Panic ''Int64() out of bound'') else Inr (word_of_int chopped))"

definition Dec_RoundInt :: "SdkDec \<Rightarrow> SdkInt result" where
  "Dec_RoundInt d = NewIntFromBigInt (chopPrecisionAndRound d)"

definition Dec_TruncateInt64 :: "SdkDec \<Rightarrow> int64 result" where
  "Dec_TruncateInt64 d =
     (let chopped = chopPrecisionAndTruncate d in
      if \<not> int64_range chopped then Inl (Panic ''Int64() out of bound'') else Inr (word_of_int chopped))"

definition Dec_TruncateInt :: "SdkDec \<Rightarrow> SdkInt result" where
  "Dec_TruncateInt d = NewIntFromBigInt (chopPrecisionAndTruncate d)"

definition Dec_TruncateDec :: "SdkDec \<Rightarrow> SdkDec result" where
  "Dec_TruncateDec d = NewDecFromBigInt (chopPrecisionAndTruncate d)"

definition Dec_Ceil :: "SdkDec \<Rightarrow> SdkDec result" where
  "Dec_Ceil d =
     (let q = quo d precisionReuse; r = rem d precisionReuse in
      if r = 0 then NewDecFromBigInt q
      else if sgn r = -1 then NewDecFromBigInt q
      else NewDecFromBigInt (q + 1))"

subsection \<open>Text\<close>

definition Dec_String :: "SdkDec \<Rightarrow> string" where
  "Dec_String d0 =
     (let isNeg = Dec_IsNegative d0;
          d = (if isNeg then Dec_Neg d0 else d0);
          bzInt = int_text d;
          inputSize = length bzInt;
          bzStr =
            (if inputSize \<le> Precision
             then ''0.'' @ replicate (Precision - inputSize) CHR ''0'' @ bzInt
             else take (inputSize - Precision) bzInt @ ''.'' @ drop (inputSize - Precision) bzInt)
      in if isNeg then ''-'' @ bzStr else bzStr)"

text \<open>A package variable initialised with a call that does not panic.\<close>

definition MaxSortableDec :: "SdkDec" where
  "MaxSortableDec = (case Dec_Quo OneDec SmallestDec of Inl _ \<Rightarrow> 0 | Inr d \<Rightarrow> d)"

definition ValidSortableDec :: "SdkDec \<Rightarrow> bool" where
  "ValidSortableDec dec \<longleftrightarrow> Dec_LTE (Dec_Abs dec) MaxSortableDec"

definition SortableDecBytes :: "SdkDec \<Rightarrow> string result" where
  "SortableDecBytes dec =
     (if \<not> ValidSortableDec dec then Inl (Panic ''dec must be within bounds'')
      else if dec = MaxSortableDec then Inr ''max''
      else if dec = Dec_Neg MaxSortableDec then Inr ''--''
      else if Dec_IsNegative dec
      then Inr (''-'' @ zero_pad (Precision * 2 + 1) (Dec_String (Dec_Abs dec)))
      else Inr (zero_pad (Precision * 2 + 1) (Dec_String dec)))"

end
