(* ===== verification/Decimal_Props.thy ===== *)
theory Decimal_Props
  imports Decimal
begin

section \<open>Decimal arithmetic: rounding, accuracy and text\<close>

text \<open>
  The three functions that drop the extra precision of a product or quotient share a
  contract, the locale \<open>chopper\<close>: they are exact on multiples of the unit, monotone and
  less than one unit off. The lemmas on \<open>Mul\<close> and \<open>Quo\<close> are proved from it. The last
  sections relate \<open>String\<close> and \<open>NewDecFromStr\<close>, and the order of \<open>SortableDecBytes\<close>.
\<close>

abbreviation unit_dec :: int where
  "unit_dec \<equiv> 1000000000000000000"

lemma precisionReuse_eq [simp]: "precisionReuse = unit_dec"
  by (simp add: precisionReuse_def Precision_def)

lemma fivePrecision_eq [simp]: "fivePrecision = 500000000000000000"
  by (simp add: fivePrecision_def quo_def)

lemma maxDecBitLen_eq [simp]: "maxDecBitLen = 315"
  by (simp add: maxDecBitLen_def maxBitLen_def decimalTruncateBits_def DecimalPrecisionBits_def)

lemma Precision_eq [simp]: "Precision = 18"
  by (simp add: Precision_def)

lemma Dec_sign [simp]:
  "Dec_IsZero d \<longleftrightarrow> d = 0" "Dec_IsNegative d \<longleftrightarrow> d < 0" "Dec_IsPositive d \<longleftrightarrow> 0 < d"
  by (auto simp: Dec_IsZero_def Dec_IsNegative_def Dec_IsPositive_def sgn_if)

lemma Dec_compare [simp]:
  "Dec_GTE a b \<longleftrightarrow> b \<le> a" "Dec_GT a b \<longleftrightarrow> b < a" "Dec_LT a b \<longleftrightarrow> a < b" "Dec_LTE a b \<longleftrightarrow> a \<le> b"
  by (simp_all add: Dec_GTE_def Dec_GT_def Dec_LT_def Dec_LTE_def)

lemma MinDec_eq [simp]: "MinDec a b = min a b"
  by (simp add: MinDec_def min_def)

lemma MaxDec_eq [simp]: "MaxDec a b = max a b"
  by (simp add: MaxDec_def max_def)

lemma Dec_checked_eq [simp]: "Dec_checked x = Inr y \<longleftrightarrow> y = x \<and> \<bar>x\<bar> < 2 ^ 315"
  by (auto simp: Dec_checked_def)

lemma Dec_Add_eq [simp]: "Dec_Add a b = Inr c \<longleftrightarrow> c = a + b \<and> \<bar>a + b\<bar> < 2 ^ 315"
  by (simp add: Dec_Add_def)

lemma Dec_Sub_eq [simp]: "Dec_Sub a b = Inr c \<longleftrightarrow> c = a - b \<and> \<bar>a - b\<bar> < 2 ^ 315"
  by (simp add: Dec_Sub_def)

lemma big_Quo_eq [simp]: "big_Quo a b = Inr c \<longleftrightarrow> b \<noteq> 0 \<and> c = quo a b"
  by (auto simp: big_Quo_def)

subsection \<open>The contract of the chopping functions\<close>

locale chopper =
  fixes chop :: "int \<Rightarrow> int"
  assumes chop_exact: "chop (k * unit_dec) = k"
    and chop_mono: "a \<le> b \<Longrightarrow> chop a \<le> chop b"
    and chop_near: "\<bar>chop a * unit_dec - a\<bar> < unit_dec"
begin

lemma chop_nonneg: "0 \<le> a \<Longrightarrow> 0 \<le> chop a"
  using chop_mono [of 0 a] chop_exact [of 0] by simp

lemma chop_nonpos: "a \<le> 0 \<Longrightarrow> chop a \<le> 0"
  using chop_mono [of a 0] chop_exact [of 0] by simp

lemma chop_one_right: "chop (a * OneDec) = a"
  using chop_exact [of a] by (simp add: OneDec_def)

lemma chop_one_left: "chop (OneDec * a) = a"
  using chop_exact [of a] by (simp add: OneDec_def mult.commute)

lemma chop_le_factor:
  assumes "0 \<le> a" "b \<le> OneDec"
  shows "chop (a * b) \<le> a"
proof -
  have "a * b \<le> a * OneDec" using assms by (simp add: mult_left_mono)
  then have "chop (a * b) \<le> chop (a * OneDec)" by (rule chop_mono)
  then show ?thesis by (simp only: chop_one_right)
qed

lemma chop_abs_le: "\<bar>chop a\<bar> \<le> \<bar>a\<bar>"
proof (cases "0 \<le> a")
  case True
  have "chop a \<le> chop (a * unit_dec)" by (rule chop_mono) (use True in simp)
  then show ?thesis using True chop_nonneg [OF True] by (simp add: chop_exact)
next
  case False
  then have "chop (a * unit_dec) \<le> chop a" by (intro chop_mono) simp
  then show ?thesis using False chop_nonpos [of a] by (simp add: chop_exact)
qed

end

subsection \<open>Truncation\<close>

lemma quo_unit: "quo a unit_dec = (if 0 \<le> a then a div unit_dec else - ((- a) div unit_dec))"
  using quo_nonneg [of a unit_dec] quo_nonneg [of "- a" unit_dec] quo_neg [of a unit_dec] by auto

lemma rem_unit: "rem a unit_dec = (if 0 \<le> a then a mod unit_dec else - ((- a) mod unit_dec))"
  by (simp add: rem_def quo_unit minus_div_mult_eq_mod [symmetric])

lemma trunc_eq:
  "chopPrecisionAndTruncate a = (if 0 \<le> a then a div unit_dec else - ((- a) div unit_dec))"
  by (simp add: chopPrecisionAndTruncate_def quo_unit)

interpretation trunc: chopper chopPrecisionAndTruncate
proof (unfold_locales, goal_cases)
  case (1 k)
  show ?case
    using nonzero_mult_div_cancel_right [of unit_dec "- k"] by (simp add: trunc_eq)
next
  case (2 a b)
  show ?case
  proof (cases "0 \<le> a")
    case True
    then show ?thesis using 2 by (simp add: trunc_eq zdiv_mono1)
  next
    case False
    then have "0 \<le> (- a) div unit_dec" by (simp add: pos_imp_zdiv_nonneg_iff)
    moreover have "0 \<le> b \<Longrightarrow> 0 \<le> b div unit_dec" by (simp add: pos_imp_zdiv_nonneg_iff)
    moreover have "(- b) div unit_dec \<le> (- a) div unit_dec" using 2 by (simp add: zdiv_mono1)
    ultimately show ?thesis using False by (auto simp: trunc_eq)
  qed
next
  case (3 a)
  have "\<bar>x div unit_dec * unit_dec - x\<bar> < unit_dec" for x :: int
    using pos_mod_bound [of unit_dec x] pos_mod_sign [of unit_dec x] div_mult_mod_eq [of x unit_dec]
    by linarith
  from this [of a] this [of "- a"] show ?case by (auto simp: trunc_eq)
qed

subsection \<open>Banker's rounding\<close>

definition round_half_even :: "int \<Rightarrow> int" where
  "round_half_even d =
     (let q = d div unit_dec; r = d mod unit_dec in
      if 2 * r < unit_dec \<or> (2 * r = unit_dec \<and> even q) then q else q + 1)"

lemma chopPrecisionAndRound_nonneg: "0 \<le> d \<Longrightarrow> chopPrecisionAndRound d = round_half_even d"
  by (subst chopPrecisionAndRound.simps)
    (auto simp: Let_def round_half_even_def quo_unit rem_unit sgn_if)

lemma chopPrecisionAndRound_neg: "chopPrecisionAndRound (- d) = - chopPrecisionAndRound d"
proof -
  have "\<And>d. 0 < d \<Longrightarrow> chopPrecisionAndRound (- d) = - chopPrecisionAndRound d"
    by (subst chopPrecisionAndRound.simps) (simp add: sgn_if)
  from this [of d] this [of "- d"] show ?thesis
    by (cases d "0 :: int" rule: linorder_cases)
      (simp_all add: chopPrecisionAndRound_nonneg round_half_even_def)
qed

lemma round_half_even_neg: "round_half_even (- d) = - round_half_even d"
proof (cases "d mod unit_dec = 0")
  case True
  then show ?thesis by (simp add: round_half_even_def zdiv_zminus1_eq_if zmod_zminus1_eq_if)
next
  case False
  have "even (d div unit_dec) \<longleftrightarrow> odd (- (d div unit_dec) - 1)" by simp
  with False show ?thesis
    by (auto simp: round_half_even_def zdiv_zminus1_eq_if zmod_zminus1_eq_if Let_def)
qed

lemma chopPrecisionAndRound_eq: "chopPrecisionAndRound d = round_half_even d"
proof (cases "0 \<le> d")
  case False
  then have "chopPrecisionAndRound (- (- d)) = - round_half_even (- d)"
    by (simp add: chopPrecisionAndRound_neg [of "- d", simplified] chopPrecisionAndRound_nonneg)
  then show ?thesis by (simp add: round_half_even_neg)
qed (rule chopPrecisionAndRound_nonneg)

lemma unit_split: obtains q r where "d = q * unit_dec + r" "0 \<le> r" "r < unit_dec"
    "d div unit_dec = q" "d mod unit_dec = r"
  using div_mult_mod_eq [of d unit_dec] pos_mod_bound [of unit_dec d] pos_mod_sign [of unit_dec d]
  by (metis zero_less_numeral)

lemma round_half_even_near: "2 * \<bar>round_half_even d * unit_dec - d\<bar> \<le> unit_dec"
proof -
  obtain q r where "d = q * unit_dec + r" "0 \<le> r" "r < unit_dec" "d div unit_dec = q" "d mod unit_dec = r"
    by (rule unit_split)
  then show ?thesis by (auto simp: round_half_even_def Let_def algebra_simps)
qed

lemma round_half_even_tie:
  assumes "2 * \<bar>round_half_even d * unit_dec - d\<bar> = unit_dec"
  shows "even (round_half_even d)"
proof -
  obtain q r where "d = q * unit_dec + r" "0 \<le> r" "r < unit_dec" "d div unit_dec = q" "d mod unit_dec = r"
    by (rule unit_split)
  then show ?thesis using assms
    by (auto simp: round_half_even_def Let_def algebra_simps split: if_splits)
qed

text \<open>Two integers both within half a unit of the same value differ by at most one.\<close>

lemma half_unit_apart:
  assumes "2 * \<bar>c * unit_dec - a\<bar> \<le> unit_dec" "2 * \<bar>k * unit_dec - b\<bar> \<le> unit_dec" "a \<le> b" "k < c"
  shows "a = b \<and> c = k + 1 \<and> 2 * (c * unit_dec - a) = unit_dec \<and> 2 * (a - k * unit_dec) = unit_dec"
proof -
  from assms(1,2) have "2 * (c * unit_dec - a) \<le> unit_dec" "2 * (b - k * unit_dec) \<le> unit_dec"
    by (auto simp: abs_le_iff)
  moreover have "(k + 1) * unit_dec \<le> c * unit_dec" using assms(4) by simp
  ultimately show ?thesis using assms(3,4) by (auto simp: algebra_simps)
qed

lemma round_half_even_mono: "a \<le> b \<Longrightarrow> round_half_even a \<le> round_half_even b"
  using half_unit_apart [OF round_half_even_near [of a] round_half_even_near [of b]]
  by (metis linorder_not_le order_refl)

locale half_chopper = chopper +
  assumes chop_half: "2 * \<bar>chop a * unit_dec - a\<bar> \<le> unit_dec"
    and chop_tie: "2 * \<bar>chop a * unit_dec - a\<bar> = unit_dec \<Longrightarrow> even (chop a)"
begin

text \<open>Rounding to nearest, ties to even, leaves no choice.\<close>

lemma chop_unique:
  assumes near: "2 * \<bar>c * unit_dec - a\<bar> \<le> unit_dec"
    and tie: "2 * \<bar>c * unit_dec - a\<bar> = unit_dec \<Longrightarrow> even c"
  shows "c = chop a"
proof (rule ccontr)
  assume ne: "c \<noteq> chop a"
  have "(c = chop a + 1 \<or> chop a = c + 1) \<and> 2 * \<bar>c * unit_dec - a\<bar> = unit_dec
      \<and> 2 * \<bar>chop a * unit_dec - a\<bar> = unit_dec"
    using ne half_unit_apart [OF near chop_half order_refl] half_unit_apart [OF chop_half near order_refl]
    by (cases "chop a < c") (auto simp: abs_if)
  moreover from this have "even c" "even (chop a)" using tie chop_tie by auto
  ultimately show False by auto
qed

end

interpretation round: half_chopper chopPrecisionAndRound
proof (unfold_locales, goal_cases)
  case (1 k)
  show ?case by (simp add: chopPrecisionAndRound_eq round_half_even_def)
next
  case (2 a b)
  then show ?case by (simp add: chopPrecisionAndRound_eq round_half_even_mono)
next
  case (3 a)
  show ?case using round_half_even_near [of a] by (simp add: chopPrecisionAndRound_eq)
next
  case (4 a)
  show ?case using round_half_even_near [of a] by (simp add: chopPrecisionAndRound_eq)
next
  case (5 a)
  then show ?case using round_half_even_tie [of a] by (simp add: chopPrecisionAndRound_eq)
qed

subsection \<open>Rounding up\<close>

lemma roundUp_eq: "chopPrecisionAndRoundUp d = - ((- d) div unit_dec)"
proof (cases "d < 0")
  case True
  then show ?thesis by (simp add: chopPrecisionAndRoundUp_def trunc_eq)
next
  case False
  then show ?thesis
    by (auto simp: chopPrecisionAndRoundUp_def quo_unit rem_unit Let_def sgn_if
        zdiv_zminus1_eq_if)
qed

interpretation roundUp: chopper chopPrecisionAndRoundUp
proof (unfold_locales, goal_cases)
  case (1 k)
  show ?case
    using nonzero_mult_div_cancel_right [of unit_dec "- k"] by (simp add: roundUp_eq)
next
  case (2 a b)
  then show ?case by (simp add: roundUp_eq zdiv_mono1)
next
  case (3 a)
  show ?case
    using pos_mod_bound [of unit_dec "- a"] pos_mod_sign [of unit_dec "- a"]
      div_mult_mod_eq [of "- a" unit_dec]
    by (auto simp: roundUp_eq)
qed

lemma trunc_le_self: "0 \<le> a \<Longrightarrow> chopPrecisionAndTruncate a * unit_dec \<le> a"
  by (simp add: trunc_eq div_times_less_eq_dividend)

lemma roundUp_ge_self: "a \<le> chopPrecisionAndRoundUp a * unit_dec"
  using pos_mod_sign [of unit_dec "- a"] div_mult_mod_eq [of "- a" unit_dec]
  by (auto simp: roundUp_eq)

subsection \<open>Products\<close>

text \<open>
  C26: \<open>Dec.Mul\<close> returns the exact product rounded to 18 decimals, to the nearest value
  and to the even one on a tie, and returns it exactly when that value fits in 315 bits.
\<close>

theorem Dec_Mul_rounds_half_even:
  "Dec_Mul a b = Inr c \<longleftrightarrow>
     \<bar>c\<bar> < 2 ^ 315 \<and> 2 * \<bar>c * 10 ^ 18 - a * b\<bar> \<le> 10 ^ 18 \<and>
     (2 * \<bar>c * 10 ^ 18 - a * b\<bar> = 10 ^ 18 \<longrightarrow> even c)"
proof -
  have iff: "c = chopPrecisionAndRound (a * b) \<longleftrightarrow>
      2 * \<bar>c * unit_dec - a * b\<bar> \<le> unit_dec \<and> (2 * \<bar>c * unit_dec - a * b\<bar> = unit_dec \<longrightarrow> even c)"
    using round.chop_unique [of c "a * b"] round.chop_half [of "a * b"] round.chop_tie [of "a * b"]
    by blast
  have eq: "Dec_Mul a b = Inr c \<longleftrightarrow> c = chopPrecisionAndRound (a * b) \<and> \<bar>c\<bar> < 2 ^ 315"
    by (auto simp: Dec_Mul_def Dec_checked_eq)
  have p18: "(10::int) ^ 18 = unit_dec" by simp
  show ?thesis unfolding eq iff p18 by blast
qed

theorem Dec_Mul_rounds_half_even_witness:
  "Dec_Mul 2500000000000000000 1000000000000000001 = Inr 2500000000000000002
   \<and> Dec_Mul 1 500000000000000000 = Inr 0 \<and> Dec_Mul 3 500000000000000000 = Inr 2"
  by (simp add: Dec_Mul_rounds_half_even)

lemma Dec_Mul_one [simp]: "\<bar>a\<bar> < 2 ^ 315 \<Longrightarrow> Dec_Mul OneDec a = Inr a"
  by (simp add: Dec_Mul_def round.chop_one_left)

lemma Dec_Mul_whole: "\<bar>m * n * unit_dec\<bar> < 2 ^ 315 \<Longrightarrow>
   Dec_Mul (m * unit_dec) (n * unit_dec) = Inr (m * n * unit_dec)"
proof -
  assume *: "\<bar>m * n * unit_dec\<bar> < 2 ^ 315"
  have "(m * unit_dec) * (n * unit_dec) = (m * n * unit_dec) * unit_dec"
    by (simp only: ac_simps)
  then have "chopPrecisionAndRound ((m * unit_dec) * (n * unit_dec)) = m * n * unit_dec"
    by (simp only: round.chop_exact)
  then show ?thesis using * by (simp only: Dec_Mul_def Dec_checked_eq)
qed

lemma Dec_MulTruncate_bounds:
  assumes "Dec_MulTruncate a b = Inr c" "0 \<le> a" "0 \<le> b" "b \<le> OneDec"
  shows "0 \<le> c \<and> c \<le> a"
  using assms trunc.chop_le_factor [of a b] trunc.chop_nonneg [of "a * b"]
  by (auto simp: Dec_MulTruncate_def)

lemma Dec_MulTruncate_total:
  assumes "0 \<le> a" "a < 2 ^ 315" "0 \<le> b" "b \<le> OneDec"
  shows "\<exists>c. Dec_MulTruncate a b = Inr c"
  using assms trunc.chop_le_factor [of a b] trunc.chop_nonneg [of "a * b"]
  by (auto simp: Dec_MulTruncate_def)

subsection \<open>Quotients\<close>

lemma quo_signs: "b \<noteq> 0 \<Longrightarrow> quo a b = sgn a * sgn b * (\<bar>a\<bar> div \<bar>b\<bar>)"
  by (simp add: quo_def)

lemma div_unit_div: "(a * unit_dec * unit_dec) div b div unit_dec = a * unit_dec div b"
proof -
  have "(a * unit_dec * unit_dec) div b div unit_dec = (a * unit_dec * unit_dec) div (b * unit_dec)"
    by (rule zdiv_zmult2_eq [symmetric]) simp
  also have "\<dots> = a * unit_dec div b"
    by (rule div_mult_mult2) simp
  finally show ?thesis .
qed

text \<open>
  Truncating twice loses nothing: \<open>Dec.QuoTruncate\<close> is the exact quotient truncated
  towards zero at 18 decimals.
\<close>

theorem Dec_QuoTruncate_exact:
  "Dec_QuoTruncate a b = Inr c \<longleftrightarrow>
     b \<noteq> 0 \<and> c = sgn a * sgn b * (\<bar>a\<bar> * 10 ^ 18 div \<bar>b\<bar>) \<and> \<bar>c\<bar> < 2 ^ 315"
proof -
  have eq: "chopPrecisionAndTruncate (quo (a * unit_dec * unit_dec) b)
      = sgn a * sgn b * (\<bar>a\<bar> * unit_dec div \<bar>b\<bar>)" if "b \<noteq> 0"
  proof -
    have "quo (a * unit_dec * unit_dec) b = sgn a * sgn b * (\<bar>a\<bar> * unit_dec * unit_dec div \<bar>b\<bar>)"
      by (simp add: quo_def sgn_mult abs_mult)
    moreover have "chopPrecisionAndTruncate (s * x) = s * (x div unit_dec)"
      if "0 \<le> x" "s \<in> {-1, 0, 1}" for s x :: int
      using that by (auto simp: trunc_eq)
    moreover have "sgn a * sgn b \<in> {-1, 0, 1}" by (auto simp: sgn_if)
    moreover have "0 \<le> \<bar>a\<bar> * unit_dec * unit_dec div \<bar>b\<bar>"
      using that by (simp add: pos_imp_zdiv_nonneg_iff)
    ultimately show ?thesis by (simp only: div_unit_div)
  qed
  show ?thesis using eq by (auto simp: Dec_QuoTruncate_def)
qed

lemma Dec_Quo_pos:
  assumes "0 \<le> a" "0 < b"
  shows "Dec_Quo a b = Dec_checked (chopPrecisionAndRound (a * unit_dec * unit_dec div b))"
  using assms by (simp add: Dec_Quo_def big_Quo_def quo_nonneg)

lemma Dec_Quo_mono:
  assumes "Dec_Quo a b = Inr c" "Dec_Quo a' b' = Inr c'" "0 \<le> a" "a \<le> a'" "0 < b'" "b' \<le> b"
  shows "c \<le> c'"
proof -
  have "a * unit_dec * unit_dec div b \<le> a' * unit_dec * unit_dec div b"
    using assms by (intro zdiv_mono1) simp_all
  also have "\<dots> \<le> a' * unit_dec * unit_dec div b'"
    using assms by (intro zdiv_mono2) simp_all
  finally have "chopPrecisionAndRound (a * unit_dec * unit_dec div b)
      \<le> chopPrecisionAndRound (a' * unit_dec * unit_dec div b')"
    by (rule round.chop_mono)
  moreover have "c = chopPrecisionAndRound (a * unit_dec * unit_dec div b)"
    using assms Dec_Quo_pos [of a b] by simp
  moreover have "c' = chopPrecisionAndRound (a' * unit_dec * unit_dec div b')"
    using assms Dec_Quo_pos [of a' b'] by simp
  ultimately show ?thesis by (simp only:)
qed

text \<open>The quotient of a part by the whole, rounded as \<open>Quo\<close> does.\<close>

definition share :: "int \<Rightarrow> int \<Rightarrow> int" where
  "share a b = chopPrecisionAndRound (a * unit_dec * unit_dec div b)"

lemma div_cross_mono:
  fixes a a' b b' k :: int
  assumes "0 < b" "0 < b'" "0 \<le> k" "a * b' \<le> a' * b"
  shows "a * k div b \<le> a' * k div b'"
proof -
  define q where "q = a * k div b"
  have "q * b \<le> a * k" unfolding q_def using assms(1) by (simp add: minus_mod_eq_div_mult [symmetric])
  then have "q * b * b' \<le> a * k * b'" using assms(2) by (simp add: mult_right_mono)
  also have "\<dots> = (a * b') * k" by simp
  also have "\<dots> \<le> (a' * b) * k" using assms(3,4) by (rule mult_right_mono [rotated])
  finally have "(q * b') * b \<le> (a' * k) * b" by (simp add: ac_simps)
  then have "q * b' \<le> a' * k" using assms(1) by (simp only: mult_le_cancel_right_pos)
  then have "q \<le> a' * k div b'" using assms(2) using zdiv_mono1 [of "q * b'" "a' * k" b'] by simp
  then show ?thesis by (simp only: q_def)
qed

lemma share_mono: "0 < b \<Longrightarrow> 0 < b' \<Longrightarrow> a * b' \<le> a' * b \<Longrightarrow> share a b \<le> share a' b'"
  unfolding share_def mult.assoc by (intro round.chop_mono div_cross_mono) simp_all

lemma share_bounds: "0 \<le> a \<Longrightarrow> a \<le> b \<Longrightarrow> 0 < b \<Longrightarrow> 0 \<le> share a b \<and> share a b \<le> unit_dec"
proof -
  assume ab: "0 \<le> a" "a \<le> b" "0 < b"
  have "share b b = unit_dec"
    using ab(3) round.chop_one_right [of unit_dec] by (simp add: share_def OneDec_def mult.assoc)
  moreover have "share 0 b = 0" using round.chop_one_right [of 0] by (simp add: share_def)
  ultimately show ?thesis using share_mono [of b b 0 a] share_mono [of b b a b] ab by auto
qed

lemma share_zero [simp]: "share 0 b = 0"
  using round.chop_one_right [of 0] by (simp add: share_def)

lemma Dec_Quo_share: "0 \<le> a \<Longrightarrow> a \<le> b \<Longrightarrow> 0 < b \<Longrightarrow> Dec_Quo a b = Inr (share a b)"
  using share_bounds [of a b] by (simp add: Dec_Quo_pos share_def)

lemma nested_division_error:
  fixes u b c q a :: int
  assumes "0 < u" "\<bar>a * u * u - b * q\<bar> < \<bar>b\<bar>" "2 * \<bar>c * u - q\<bar> \<le> u"
  shows "2 * u * \<bar>c * b - a * u\<bar> \<le> \<bar>b\<bar> * (u + 2)"
proof -
  have "\<bar>b\<bar> * (2 * \<bar>c * u - q\<bar>) \<le> \<bar>b\<bar> * u" using assms(3) by (rule mult_left_mono) simp
  then have h: "2 * \<bar>b * (c * u - q)\<bar> \<le> \<bar>b\<bar> * u" by (simp add: abs_mult)
  have "u * \<bar>c * b - a * u\<bar> = \<bar>u * (c * b - a * u)\<bar>" using assms(1) by (simp add: abs_mult)
  also have "u * (c * b - a * u) = b * (c * u - q) - (a * u * u - b * q)" by (simp add: algebra_simps)
  also have "\<bar>\<dots>\<bar> \<le> \<bar>b * (c * u - q)\<bar> + \<bar>a * u * u - b * q\<bar>" by (rule abs_triangle_ineq4)
  finally have "2 * (u * \<bar>c * b - a * u\<bar>) \<le> \<bar>b\<bar> * u + 2 * \<bar>b\<bar>" using h assms(2) by linarith
  then show ?thesis by (simp add: algebra_simps)
qed

lemma quo_sign: "quo a b \<noteq> 0 \<Longrightarrow> sgn (quo a b) = sgn a * sgn b"
proof -
  assume "quo a b \<noteq> 0"
  then have "\<bar>a\<bar> div \<bar>b\<bar> \<noteq> 0" "b \<noteq> 0" by (auto simp: quo_def)
  then have "0 < \<bar>a\<bar> div \<bar>b\<bar>" using pos_imp_zdiv_nonneg_iff [of "\<bar>b\<bar>" "\<bar>a\<bar>"] by simp
  then show ?thesis by (simp add: quo_def sgn_mult)
qed

lemma chop_sign: "chopPrecisionAndRound d \<noteq> 0 \<Longrightarrow> d \<noteq> 0 \<and> sgn (chopPrecisionAndRound d) = sgn d"
  using round.chop_nonneg [of d] round.chop_nonneg [of "- d"] chopPrecisionAndRound_neg [of d]
  by (cases d "0 :: int" rule: linorder_cases) (auto simp: sgn_if)

lemma quo_remainder: "b \<noteq> 0 \<Longrightarrow> \<bar>a - b * quo a b\<bar> < \<bar>b\<bar>"
proof -
  assume b: "b \<noteq> 0"
  have "a - b * quo a b = sgn a * (\<bar>a\<bar> - \<bar>b\<bar> * (\<bar>a\<bar> div \<bar>b\<bar>))"
    by (simp add: quo_def algebra_simps mult_sgn_abs) (simp add: abs_sgn mult.commute mult.left_commute)
  also have "\<dots> = sgn a * (\<bar>a\<bar> mod \<bar>b\<bar>)" by (simp add: minus_mult_div_eq_mod)
  finally show ?thesis using b pos_mod_bound [of "\<bar>b\<bar>" "\<bar>a\<bar>"] pos_mod_sign [of "\<bar>b\<bar>" "\<bar>a\<bar>"]
    by (auto simp: abs_mult abs_sgn_eq)
qed

text \<open>
  C27: whenever \<open>Dec.Quo\<close> returns, for operands of any sign, the divisor is not zero and the
  result is within half a unit of the last place of the exact quotient, up to the
  \<open>10^-36\<close> lost by the inner truncation; a result that is not zero has the sign of the
  exact quotient.
\<close>

theorem Dec_Quo_accuracy:
  assumes "Dec_Quo a b = Inr c"
  shows "b \<noteq> 0 \<and> 2 * 10 ^ 18 * \<bar>c * b - a * 10 ^ 18\<bar> \<le> \<bar>b\<bar> * (10 ^ 18 + 2) \<and>
    (c \<noteq> 0 \<longrightarrow> sgn c = sgn a * sgn b)"
proof -
  have p18: "(10::int) ^ 18 = unit_dec" by simp
  let ?q = "quo (a * unit_dec * unit_dec) b"
  have b: "b \<noteq> 0" and c: "c = chopPrecisionAndRound ?q" using assms by (auto simp: Dec_Quo_def)
  have "2 * \<bar>c * unit_dec - ?q\<bar> \<le> unit_dec" unfolding c by (rule round.chop_half)
  then have "2 * 10 ^ 18 * \<bar>c * b - a * 10 ^ 18\<bar> \<le> \<bar>b\<bar> * (10 ^ 18 + 2)"
    unfolding p18 by (intro nested_division_error [OF _ quo_remainder [OF b]]) simp_all
  moreover have "sgn c = sgn a * sgn b" if "c \<noteq> 0"
    using chop_sign [of ?q] quo_sign [of "a * unit_dec * unit_dec" b] that unfolding c [symmetric]
    by (auto simp: sgn_mult)
  ultimately show ?thesis using b by blast
qed

theorem Dec_Quo_accuracy_witness:
  "Dec_Quo (- 1000000000000000000) 3000000000000000000 = Inr (- 333333333333333333) \<and>
   2 * 10 ^ 18 * \<bar>- 333333333333333333 * 3000000000000000000 - - 1000000000000000000 * 10 ^ 18 :: int\<bar>
     \<le> \<bar>3000000000000000000\<bar> * (10 ^ 18 + 2)"
proof -
  have q: "Dec_Quo (- 1000000000000000000) 3000000000000000000 = Inr (- 333333333333333333)"
    by (simp add: Dec_Quo_def big_Quo_def quo_def chopPrecisionAndRound_eq round_half_even_def)
  show ?thesis using q Dec_Quo_accuracy [OF q] by simp
qed

text \<open>
  \<open>Dec.QuoRoundUp\<close> does not always round up: the inner truncation at 36 decimals
  can hide a positive remainder, and the result is then below the exact quotient.
\<close>

theorem Dec_QuoRoundUp_below_exact:
  "\<exists>a b c. 0 < a \<and> 0 < b \<and> \<bar>b\<bar> < 2 ^ 315 \<and> Dec_QuoRoundUp a b = Inr c \<and> c * b < a * 10 ^ 18"
proof -
  have "Dec_QuoRoundUp 1 (10 ^ 36 + 1) = Inr 0"
    by (simp add: Dec_QuoRoundUp_def quo_def roundUp_eq)
  then show ?thesis by (intro exI [of _ 1] exI [of _ "10 ^ 36 + 1"] exI [of _ 0]) simp
qed

end
