(* ===== verification/Decimal_Text.thy ===== *)
theory Decimal_Text
  imports Decimal_Props
begin

section \<open>Decimal text: printing, parsing and sortable bytes\<close>

text \<open>
  \<open>Dec.String\<close> and \<open>NewDecFromStr\<close> are inverse on every value the parser accepts, and
  \<open>SortableDecBytes\<close> orders the non-negative decimals as numbers. Both rest on the shape
  of the printed text: an integer part, a point and exactly 18 decimals.
\<close>

subsection \<open>Positional values\<close>

lemma text_val_Cons: "text_val (c # s) = digit_val c * 10 ^ length s + text_val s"
proof (induction s rule: rev_induct)
  case Nil
  then show ?case by (simp add: text_val_def)
next
  case (snoc x xs)
  then show ?case using text_val_append [of "c # xs" x] text_val_append [of xs x] by simp
qed

lemma digit_val_less: "is_digit c \<Longrightarrow> digit_val c < 10"
  by (auto simp: is_digit_def digit_val_def)

lemma text_val_less: "list_all is_digit s \<Longrightarrow> text_val s < 10 ^ length s"
proof (induction s)
  case Nil
  then show ?case by (simp add: text_val_def)
next
  case (Cons c s)
  then have "digit_val c \<le> 9" using digit_val_less [of c] by simp
  then have "digit_val c * 10 ^ length s \<le> 9 * 10 ^ length s" by (rule mult_right_mono) simp
  moreover have "text_val s < 10 ^ length s" using Cons by simp
  ultimately have "text_val (c # s) < 9 * 10 ^ length s + 10 ^ length s"
    unfolding text_val_Cons by linarith
  then show ?case by simp
qed

lemma digit_val_compare:
  assumes "is_digit c" "is_digit d"
  shows "c < d \<longleftrightarrow> digit_val c < digit_val d" "c = d \<longleftrightarrow> digit_val c = digit_val d"
proof -
  show "c < d \<longleftrightarrow> digit_val c < digit_val d"
    using assms by (auto simp: is_digit_def digit_val_def less_char_def)
  have "c = d \<longleftrightarrow> (of_char c :: nat) = of_char d" by (simp only: of_char_eq_iff)
  then show "c = d \<longleftrightarrow> digit_val c = digit_val d"
    using assms unfolding is_digit_def digit_val_def by linarith
qed

text \<open>Digit strings of one length compare as the numbers they write, a point included.\<close>

lemma digits_less_iff:
  assumes "length s = length t" "list_all is_digit s" "list_all is_digit t"
  shows "s < t \<longleftrightarrow> text_val s < text_val t"
  using assms
proof (induction s t rule: list_induct2)
  case Nil
  then show ?case by simp
next
  case (Cons c s d t)
  let ?p = "(10::nat) ^ length t"
  have st: "text_val s < ?p" "text_val t < ?p" using Cons text_val_less [of s] text_val_less [of t] by simp_all
  have less: "digit_val c' * ?p + text_val s' < digit_val d' * ?p + text_val t'"
    if "digit_val c' < digit_val d'" "text_val s' < ?p" for c' d' s' t'
  proof -
    have "Suc (digit_val c') * ?p \<le> digit_val d' * ?p" using that(1) by (intro mult_right_mono) auto
    then show ?thesis using that(2) by simp
  qed
  consider "digit_val c < digit_val d" | "digit_val d < digit_val c" | "digit_val c = digit_val d"
    by linarith
  then show ?case
  proof cases
    case 1
    then show ?thesis using Cons less [of c d s t] st digit_val_compare [of c d] by (simp add: text_val_Cons)
  next
    case 2
    then show ?thesis using Cons less [of d c t s] st digit_val_compare [of c d] by (simp add: text_val_Cons)
  next
    case 3
    then show ?thesis using Cons digit_val_compare [of c d] by (simp add: text_val_Cons)
  qed
qed

lemma point_less_iff:
  "length s = length t \<Longrightarrow> length u = length v \<Longrightarrow>
     s @ c # u < t @ c # v \<longleftrightarrow> s @ u < t @ (v :: string)"
  by (induction s t rule: list_induct2) auto

subsection \<open>The shape of printed decimals\<close>

lemma nat_text_pos: "0 < n \<Longrightarrow> \<exists>c cs. nat_text n = c # cs \<and> 0 < digit_val c"
proof (induction n rule: nat_text.induct)
  case (1 n)
  then show ?case by (subst nat_text.simps) fastforce
qed

lemma length_nat_text: "n < 10 ^ k \<Longrightarrow> 0 < k \<Longrightarrow> length (nat_text n) \<le> k"
proof (cases "n = 0")
  case True
  assume "0 < k" then show ?thesis using True by (subst nat_text.simps) simp
next
  case False
  assume n: "n < 10 ^ k"
  obtain c cs where c: "nat_text n = c # cs" "0 < digit_val c" using nat_text_pos [of n] False by auto
  then have "1 * 10 ^ length cs \<le> digit_val c * 10 ^ length cs" by (intro mult_right_mono) auto
  then have "10 ^ length cs \<le> n" using c text_val_Cons [of c cs] by (metis le_add1 mult_1 order_trans text_val_nat_text)
  then have "(10::nat) ^ length cs < 10 ^ k" using n by (rule le_less_trans)
  then have "length cs < k" by (rule power_less_imp_less_exp [rotated]) simp
  then show ?thesis using c by simp
qed

lemma Dec_String_shape:
  assumes "0 \<le> d"
  obtains ip fp where "Dec_String d = ip @ CHR ''.'' # fp" "ip \<noteq> []" "length fp = 18"
    "list_all is_digit (ip @ fp)" "text_val (ip @ fp) = nat d"
    "d < 10 ^ 36 \<longrightarrow> length ip \<le> 18"
proof (cases "length (nat_text (nat d)) \<le> 18")
  case True
  show ?thesis
  proof
    let ?fp = "replicate (18 - length (nat_text (nat d))) CHR ''0'' @ nat_text (nat d)"
    show "Dec_String d = ''0'' @ CHR ''.'' # ?fp"
      using assms True by (simp add: Dec_String_def int_text_def Let_def)
    show "length ?fp = 18" using True by simp
    show "list_all is_digit (''0'' @ ?fp)"
      by (simp add: nat_text_digits) (simp add: list_all_iff)
    show "text_val (''0'' @ ?fp) = nat d"
      by (simp add: text_val_Cons text_val_zeros_prefix digit_val_def)
  qed simp_all
next
  case False
  let ?t = "nat_text (nat d)"
  let ?k = "length ?t - 18"
  show ?thesis
  proof
    show "Dec_String d = take ?k ?t @ CHR ''.'' # drop ?k ?t"
      using assms False by (simp add: Dec_String_def int_text_def Let_def)
    show "take ?k ?t \<noteq> []" "length (drop ?k ?t) = 18" using False by auto
    show "list_all is_digit (take ?k ?t @ drop ?k ?t)" "text_val (take ?k ?t @ drop ?k ?t) = nat d"
      by (simp_all add: nat_text_digits)
    show "d < 10 ^ 36 \<longrightarrow> length (take ?k ?t) \<le> 18"
      using length_nat_text [of "nat d" 36] assms by (auto simp: nat_less_iff)
  qed
qed

subsection \<open>Round trip\<close>

lemma NewDecFromStr_plain:
  assumes "ip \<noteq> []" "length fp = 18" "list_all is_digit (ip @ fp)" "text_val (ip @ fp) < 2 ^ 315"
  shows "NewDecFromStr (ip @ CHR ''.'' # fp) = Inr (int (text_val (ip @ fp)))"
    and "NewDecFromStr (CHR ''-'' # ip @ CHR ''.'' # fp) = Inr (- int (text_val (ip @ fp)))"
proof -
  have split: "split_on CHR ''.'' (ip @ CHR ''.'' # fp) = [ip, fp]"
    using assms(3) by (simp add: split_on_once split_on_none list_all_not_in)
  have set: "SetString10 (ip @ fp) = Some (int (text_val (ip @ fp)))"
    using assms by (simp add: SetString10_digit)
  have bits: "\<not> BitLen (int (text_val (ip @ fp))) > maxDecBitLen" using assms(4) by simp
  have hd: "hd (ip @ CHR ''.'' # fp) \<noteq> CHR ''-''" using assms(1,3) by (cases ip) auto
  have fp: "fp \<noteq> []" using assms(2) by auto
  show "NewDecFromStr (ip @ CHR ''.'' # fp) = Inr (int (text_val (ip @ fp)))"
    using hd assms(1,2) fp set bits by (simp add: NewDecFromStr_def split Let_def)
  show "NewDecFromStr (CHR ''-'' # ip @ CHR ''.'' # fp) = Inr (- int (text_val (ip @ fp)))"
    using assms(1,2) fp set bits by (simp add: NewDecFromStr_def split Let_def)
qed

lemma Dec_String_neg: "d < 0 \<Longrightarrow> Dec_String d = CHR ''-'' # Dec_String (- d)"
  by (simp add: Dec_String_def Dec_Neg_def Let_def)

text \<open>
  C28: a decimal printed by \<open>Dec.String\<close> is parsed back by \<open>NewDecFromStr\<close> to the same
  decimal, for every value within the 315 bits a \<open>Dec\<close> may have.
\<close>

theorem Dec_String_round_trip:
  assumes "\<bar>d\<bar> < 2 ^ 315"
  shows "NewDecFromStr (Dec_String d) = Inr d"
proof -
  obtain ip fp where s: "Dec_String \<bar>d\<bar> = ip @ CHR ''.'' # fp" "ip \<noteq> []" "length fp = 18"
    "list_all is_digit (ip @ fp)" "text_val (ip @ fp) = nat \<bar>d\<bar>"
    using Dec_String_shape [OF abs_ge_zero] by metis
  have "text_val (ip @ fp) < 2 ^ 315" using assms s(5) by (simp add: nat_less_iff)
  from NewDecFromStr_plain [OF s(2-4) this] show ?thesis
    using s(1,5) Dec_String_neg [of d] by (cases "d < 0") auto
qed

theorem Dec_String_round_trip_witness:
  "Dec_String (-1500000000000000000) = ''-1.500000000000000000'' \<and>
   NewDecFromStr (Dec_String (-1500000000000000000)) = Inr (-1500000000000000000)"
proof -
  have "Dec_String (-1500000000000000000) = ''-1.500000000000000000''"
    by (simp add: Dec_String_def Dec_Neg_def int_text_def nat_text.simps digit_char_def char_of_def bit_0)
  then show ?thesis using Dec_String_round_trip [of "-1500000000000000000"] by simp
qed

text \<open>
  The parser strips one sign and then lets \<open>big.Int.SetString\<close> read another, so a doubly
  signed text is accepted and \<open>--1\<close> is read as plus one.
\<close>

theorem NewDecFromStr_double_sign: "NewDecFromStr ''--1'' = Inr OneDec"
proof -
  have "list_all is_digit (''1'' @ replicate 18 CHR ''0'')" by (auto simp: list_all_iff is_digit_def)
  then have "SetString10 (''-1'' @ replicate 18 CHR ''0'') = Some (- int (text_val (''1'' @ replicate 18 CHR ''0'')))"
    by (simp add: SetString10_def digits_val_def)
  also have "text_val (''1'' @ replicate 18 CHR ''0'') = 1000000000000000000"
    unfolding text_val_append_zeros by (simp add: text_val_def digit_val_def)
  finally show ?thesis by (simp add: NewDecFromStr_def OneDec_def)
qed

subsection \<open>Sortable bytes\<close>

lemma MaxSortableDec_eq [simp]: "MaxSortableDec = 10 ^ 36"
  by (simp add: MaxSortableDec_def SmallestDec_def OneDec_def Dec_Quo_pos
      chopPrecisionAndRound_eq round_half_even_def Dec_checked_def)

lemma padded_shape:
  assumes "0 \<le> d" "d < 10 ^ 36"
  obtains ip fp where "zero_pad 37 (Dec_String d) = ip @ CHR ''.'' # fp"
    "length ip = 18" "length fp = 18" "list_all is_digit (ip @ fp)" "text_val (ip @ fp) = nat d"
proof -
  obtain ip fp where s: "Dec_String d = ip @ CHR ''.'' # fp" "length fp = 18"
    "list_all is_digit (ip @ fp)" "text_val (ip @ fp) = nat d" "length ip \<le> 18"
    using Dec_String_shape [OF assms(1)] assms(2) by metis
  let ?z = "replicate (18 - length ip) CHR ''0''"
  have "zero_pad 37 (Dec_String d) = (?z @ ip) @ CHR ''.'' # fp" "length (?z @ ip) = 18"
    using s by (simp_all add: zero_pad_def)
  moreover have "list_all is_digit ((?z @ ip) @ fp)" using s(3) by (auto simp: list_all_iff)
  moreover have "text_val ((?z @ ip) @ fp) = nat d" using s(4) by (simp add: text_val_zeros_prefix)
  ultimately show ?thesis using s(2) that by blast
qed

lemma padded_less_iff:
  assumes "0 \<le> a" "a < 10 ^ 36" "0 \<le> b" "b < 10 ^ 36"
  shows "zero_pad 37 (Dec_String a) < zero_pad 37 (Dec_String b) \<longleftrightarrow> a < b"
proof -
  obtain ip fp where a: "zero_pad 37 (Dec_String a) = ip @ CHR ''.'' # fp"
    "length ip = 18" "length fp = 18" "list_all is_digit (ip @ fp)" "text_val (ip @ fp) = nat a"
    using padded_shape [OF assms(1,2)] by metis
  obtain jp gp where b: "zero_pad 37 (Dec_String b) = jp @ CHR ''.'' # gp"
    "length jp = 18" "length gp = 18" "list_all is_digit (jp @ gp)" "text_val (jp @ gp) = nat b"
    using padded_shape [OF assms(3,4)] by metis
  show ?thesis
    using a b assms(1,3) by (auto simp: point_less_iff digits_less_iff)
qed

lemma padded_head:
  assumes "0 \<le> d" "d < 10 ^ 36"
  obtains c cs where "zero_pad 37 (Dec_String d) = c # cs" "is_digit c"
proof -
  obtain ip fp where "zero_pad 37 (Dec_String d) = ip @ CHR ''.'' # fp" "length ip = 18"
    "list_all is_digit (ip @ fp)"
    using padded_shape [OF assms] by metis
  then show ?thesis using that by (cases ip) auto
qed

lemma Sortable_inner:
  "0 \<le> d \<Longrightarrow> d < 10 ^ 36 \<Longrightarrow> SortableDecBytes d = Inr (zero_pad 37 (Dec_String d))"
  "- (10 ^ 36) < d \<Longrightarrow> d < 0 \<Longrightarrow> SortableDecBytes d = Inr (CHR ''-'' # zero_pad 37 (Dec_String (- d)))"
  "SortableDecBytes 1000000000000000000000000000000000000 = Inr ''max''"
  by (simp_all add: SortableDecBytes_def ValidSortableDec_def Dec_Abs_def Dec_Neg_def)

text \<open>
  On non-negative decimals up to \<open>MaxSortableDec\<close> the bytes of \<open>SortableDecBytes\<close> exist
  and are ordered, byte-wise, as the decimals are.
\<close>

theorem SortableDecBytes_order:
  assumes "0 \<le> a" "a \<le> MaxSortableDec" "0 \<le> b" "b \<le> MaxSortableDec"
  shows "\<exists>s t. SortableDecBytes a = Inr s \<and> SortableDecBytes b = Inr t \<and> (s < t \<longleftrightarrow> a < b)"
proof -
  have top: "zero_pad 37 (Dec_String d) < ''max'' \<and> \<not> ''max'' < zero_pad 37 (Dec_String d)"
    if d: "0 \<le> d" "d < 10 ^ 36" for d
  proof -
    obtain c cs where c: "zero_pad 37 (Dec_String d) = c # cs" "is_digit c"
      using padded_head [OF d] by metis
    have "(of_char c :: nat) < of_char CHR ''m''" using c(2) by (simp add: is_digit_def)
    then have "c < CHR ''m''" by (simp only: less_char_def)
    then show ?thesis using c(1) by auto
  qed
  consider "a < 10 ^ 36" "b < 10 ^ 36" | "a < 10 ^ 36" "b = 10 ^ 36"
    | "a = 10 ^ 36" "b < 10 ^ 36" | "a = 10 ^ 36" "b = 10 ^ 36"
    using assms(2,4) unfolding MaxSortableDec_eq by linarith
  then show ?thesis
    using assms(1,3) top [of a] top [of b] by cases (simp_all add: Sortable_inner padded_less_iff)
qed

theorem SortableDecBytes_order_witness:
  "\<exists>s t. SortableDecBytes 5 = Inr s \<and> SortableDecBytes 1000000000000000000 = Inr t \<and> s < t"
  using SortableDecBytes_order [of 5 1000000000000000000] by simp

text \<open>
  For negative decimals above \<open>- MaxSortableDec\<close> the byte order is the reverse of the
  numeric one, since the absolute value is padded behind the sign.
\<close>

theorem SortableDecBytes_negative_reversed:
  assumes "- MaxSortableDec < a" "a < b" "b < 0"
  shows "\<exists>s t. SortableDecBytes a = Inr s \<and> SortableDecBytes b = Inr t \<and> t < s"
  using assms padded_less_iff [of "- b" "- a"] by (simp add: Sortable_inner)

theorem SortableDecBytes_negative_reversed_witness:
  "\<exists>s t. SortableDecBytes (-2) = Inr s \<and> SortableDecBytes (-1) = Inr t \<and> t < s"
  using SortableDecBytes_negative_reversed [of "-2" "-1"] by simp

end
