(* ===== verification/Amounts.thy ===== *)
theory Amounts
  imports Prelude
begin

section \<open>Lists of denominated amounts\<close>

text \<open>
  \<open>Coins\<close> and \<open>DecCoins\<close> are slices of denominated amounts kept sorted by denomination,
  and both add two of them by the same merge. This theory states what such a slice means,
  the amount it holds of each denomination, and proves what the merge does once, from the
  loop's equations, in the locale \<open>amount_merge\<close>.
\<close>

subsection \<open>The amount of each denomination\<close>

definition total_of :: "('c \<Rightarrow> string) \<Rightarrow> ('c \<Rightarrow> int) \<Rightarrow> 'c list \<Rightarrow> string \<Rightarrow> int" where
  "total_of denom amount cs d = sum_list (map amount (filter (\<lambda>c. denom c = d) cs))"

definition strict_denoms :: "('c \<Rightarrow> string) \<Rightarrow> 'c list \<Rightarrow> bool" where
  "strict_denoms denom cs \<longleftrightarrow> sorted_wrt (<) (map denom cs)"

lemma total_of_Nil [simp]: "total_of denom amount [] d = 0"
  by (simp add: total_of_def)

lemma total_of_Cons [simp]:
  "total_of denom amount (c # cs) d = (if denom c = d then amount c else 0) + total_of denom amount cs d"
  by (simp add: total_of_def)

lemma total_of_append [simp]:
  "total_of denom amount (as @ bs) d = total_of denom amount as d + total_of denom amount bs d"
  by (simp add: total_of_def)

lemma total_of_filter_nonzero [simp]:
  "total_of denom amount (filter (\<lambda>c. amount c \<noteq> 0) cs) d = total_of denom amount cs d"
  by (induction cs) auto

lemma total_of_absent: "d \<notin> denom ` set cs \<Longrightarrow> total_of denom amount cs d = 0"
  by (induction cs) auto

lemma total_of_nonneg: "(\<And>c. c \<in> set cs \<Longrightarrow> 0 \<le> amount c) \<Longrightarrow> 0 \<le> total_of denom amount cs d"
  by (induction cs) auto

lemma total_of_sort_key [simp]:
  "total_of denom amount (sort_key f cs) d = total_of denom amount cs d"
proof -
  have ins: "total_of denom amount (insort_key f c xs) d = total_of denom amount (c # xs) d" for c xs
    by (induction xs) auto
  show ?thesis by (induction cs) (simp_all add: ins)
qed

lemma strict_denoms_Nil [simp]: "strict_denoms denom []"
  by (simp add: strict_denoms_def)

lemma strict_denoms_Cons [simp]:
  "strict_denoms denom (c # cs) \<longleftrightarrow> (\<forall>x \<in> set cs. denom c < denom x) \<and> strict_denoms denom cs"
  by (auto simp: strict_denoms_def)

lemma strict_denoms_append:
  "strict_denoms denom (as @ bs) \<longleftrightarrow>
     strict_denoms denom as \<and> strict_denoms denom bs \<and> (\<forall>a \<in> set as. \<forall>b \<in> set bs. denom a < denom b)"
  by (auto simp: strict_denoms_def sorted_wrt_append)

lemma strict_denoms_filter: "strict_denoms denom cs \<Longrightarrow> strict_denoms denom (filter P cs)"
  by (induction cs) auto

lemma strict_denoms_sorted: "strict_denoms denom cs \<Longrightarrow> sorted (map denom cs)"
  unfolding strict_denoms_def by (rule strict_sorted_imp_sorted)

lemma total_of_member:
  "strict_denoms denom cs \<Longrightarrow> c \<in> set cs \<Longrightarrow> total_of denom amount cs (denom c) = amount c"
proof (induction cs)
  case (Cons x xs)
  then have "x = c \<Longrightarrow> denom c \<notin> denom ` set xs" "x \<noteq> c \<Longrightarrow> denom x \<noteq> denom c" by force+
  then show ?case using Cons by (cases "x = c") (auto simp: total_of_absent)
qed simp

text \<open>A sorted slice without zero amounts is determined by its totals.\<close>

lemma total_of_ext:
  fixes denom :: "'c \<Rightarrow> string" and amount :: "'c \<Rightarrow> int"
  assumes inj: "\<And>a b. denom a = denom b \<Longrightarrow> amount a = amount b \<Longrightarrow> a = b"
    and "strict_denoms denom as" "strict_denoms denom bs"
    and "\<And>a. a \<in> set as \<Longrightarrow> amount a \<noteq> 0" "\<And>b. b \<in> set bs \<Longrightarrow> amount b \<noteq> 0"
    and eq: "\<And>d. total_of denom amount as d = total_of denom amount bs d"
  shows "as = bs"
proof -
  have sub: "set xs \<subseteq> set ys"
    if xy: "strict_denoms denom xs" "strict_denoms denom ys" "\<And>a. a \<in> set xs \<Longrightarrow> amount a \<noteq> 0"
      "\<And>d. total_of denom amount xs d = total_of denom amount ys d" for xs ys
  proof
    fix x assume x: "x \<in> set xs"
    then have t: "total_of denom amount ys (denom x) = amount x" using xy total_of_member by metis
    then have "denom x \<in> denom ` set ys" using xy(3) [OF x] total_of_absent by metis
    then obtain y where y: "y \<in> set ys" "denom y = denom x" by auto
    then have "amount y = amount x" using t xy(2) total_of_member by metis
    then show "x \<in> set ys" using inj y by metis
  qed
  have "set as = set bs" using sub [of as bs] sub [of bs as] assms by auto
  moreover have "sorted_wrt (\<lambda>a b. denom a < denom b) as" "sorted_wrt (\<lambda>a b. denom a < denom b) bs"
    using assms(2,3) by (simp_all add: strict_denoms_def sorted_wrt_map)
  ultimately show ?thesis
  proof (induction as arbitrary: bs)
    case (Cons a as)
    then obtain b bs' where b: "bs = b # bs'" by (cases bs) auto
    have "a = b"
    proof (rule ccontr)
      assume "a \<noteq> b"
      then have "a \<in> set bs'" "b \<in> set as" using Cons.prems(1) b by auto
      then show False using Cons.prems(2,3) b by (auto dest: order_less_asym)
    qed
    moreover have "a \<notin> set as" "b \<notin> set bs'" using Cons.prems(2,3) b by auto
    moreover have "set as = set bs'"
      using Cons.prems(1) b calculation by (metis insert_ident list.simps(15))
    ultimately show ?case using Cons.IH [of bs'] Cons.prems(2,3) b by simp
  qed simp
qed

subsection \<open>The merge\<close>

locale amount_merge =
  fixes denom :: "'c \<Rightarrow> string" and amount :: "'c \<Rightarrow> int" and mk :: "string \<Rightarrow> int \<Rightarrow> 'c"
    and bound :: int and merge :: "'c list \<Rightarrow> 'c list \<Rightarrow> 'c list result"
  assumes denom_mk [simp]: "denom (mk d i) = d"
    and amount_mk [simp]: "amount (mk d i) = i"
    and mk_collapse: "mk (denom c) (amount c) = c"
    and merge_Nil_left: "merge [] bs = Inr (filter (\<lambda>c. amount c \<noteq> 0) bs)"
    and merge_Nil_right: "merge (a # as) [] = Inr (filter (\<lambda>c. amount c \<noteq> 0) (a # as))"
    and merge_less: "denom a < denom b \<Longrightarrow> merge (a # as) (b # bs) =
        bindE (merge as (b # bs)) (\<lambda>r. Inr (if amount a = 0 then r else a # r))"
    and merge_greater: "denom b < denom a \<Longrightarrow> merge (a # as) (b # bs) =
        bindE (merge (a # as) bs) (\<lambda>r. Inr (if amount b = 0 then r else b # r))"
    and merge_equal: "denom a = denom b \<Longrightarrow> merge (a # as) (b # bs) =
        (if \<bar>amount a + amount b\<bar> < bound
         then bindE (merge as bs) (\<lambda>r. Inr (if amount a + amount b = 0 then r
                else mk (denom a) (amount a + amount b) # r))
         else Inl (Panic ''Int overflow''))"
begin

lemma inj: "denom a = denom b \<Longrightarrow> amount a = amount b \<Longrightarrow> a = b"
  by (metis mk_collapse)

lemma merge_induct [case_names nil_left nil_right less greater equal]:
  assumes "\<And>bs. P [] bs" "\<And>a as. P (a # as) []"
    and "\<And>a as b bs. denom a < denom b \<Longrightarrow> P as (b # bs) \<Longrightarrow> P (a # as) (b # bs)"
    and "\<And>a as b bs. denom b < denom a \<Longrightarrow> P (a # as) bs \<Longrightarrow> P (a # as) (b # bs)"
    and "\<And>a as b bs. denom a = denom b \<Longrightarrow> P as bs \<Longrightarrow> P (a # as) (b # bs)"
  shows "P as bs"
proof (induction "length as + length bs" arbitrary: as bs rule: less_induct)
  case less
  show ?case
  proof (cases as)
    case Nil
    then show ?thesis using assms(1) by simp
  next
    case (Cons a as')
    show ?thesis
    proof (cases bs)
      case Nil
      then show ?thesis using Cons assms(2) by simp
    next
      case (Cons b bs')
      then show ?thesis using \<open>as = a # as'\<close> less assms(3-5)
        by (cases "denom a" "denom b" rule: linorder_cases) auto
    qed
  qed
qed

text \<open>Inversion of a successful merge.\<close>

lemma merge_Inr:
  "merge [] bs = Inr cs \<longleftrightarrow> cs = filter (\<lambda>c. amount c \<noteq> 0) bs"
  "merge (a # as) [] = Inr cs \<longleftrightarrow> cs = filter (\<lambda>c. amount c \<noteq> 0) (a # as)"
  "denom a < denom b \<Longrightarrow> merge (a # as) (b # bs) = Inr cs \<longleftrightarrow>
     (\<exists>r. merge as (b # bs) = Inr r \<and> cs = (if amount a = 0 then r else a # r))"
  "denom b < denom a \<Longrightarrow> merge (a # as) (b # bs) = Inr cs \<longleftrightarrow>
     (\<exists>r. merge (a # as) bs = Inr r \<and> cs = (if amount b = 0 then r else b # r))"
  "denom a = denom b \<Longrightarrow> merge (a # as) (b # bs) = Inr cs \<longleftrightarrow>
     \<bar>amount a + amount b\<bar> < bound \<and> (\<exists>r. merge as bs = Inr r \<and>
       cs = (if amount a + amount b = 0 then r else mk (denom a) (amount a + amount b) # r))"
  by (auto simp: merge_Nil_left merge_Nil_right merge_less merge_greater merge_equal)

lemma merge_total:
  "merge as bs = Inr cs \<Longrightarrow> total_of denom amount cs d = total_of denom amount as d + total_of denom amount bs d"
proof (induction as bs arbitrary: cs rule: merge_induct)
  case (nil_right a as)
  then show ?case by (simp only: merge_Inr total_of_filter_nonzero total_of_Nil add_0_right)
next
  case (less a as b bs)
  then obtain r where "merge as (b # bs) = Inr r" "cs = (if amount a = 0 then r else a # r)"
    by (auto simp: merge_Inr)
  then show ?case using less.IH [of r] by (cases "amount a = 0") simp_all
next
  case (greater a as b bs)
  then obtain r where "merge (a # as) bs = Inr r" "cs = (if amount b = 0 then r else b # r)"
    by (auto simp: merge_Inr)
  then show ?case using greater.IH [of r] by (cases "amount b = 0") simp_all
next
  case (equal a as b bs)
  then obtain r where "merge as bs = Inr r"
    "cs = (if amount a + amount b = 0 then r else mk (denom a) (amount a + amount b) # r)"
    by (auto simp: merge_Inr)
  then show ?case using equal.IH [of r] equal.hyps by (cases "amount a + amount b = 0") auto
qed (simp add: merge_Inr)

lemma merge_denoms: "merge as bs = Inr cs \<Longrightarrow> denom ` set cs \<subseteq> denom ` set as \<union> denom ` set bs"
proof (induction as bs arbitrary: cs rule: merge_induct)
  case (less a as b bs)
  then obtain r where "merge as (b # bs) = Inr r" "cs = (if amount a = 0 then r else a # r)"
    by (auto simp: merge_Inr)
  then show ?case using less.IH [of r] by (cases "amount a = 0") auto
next
  case (greater a as b bs)
  then obtain r where "merge (a # as) bs = Inr r" "cs = (if amount b = 0 then r else b # r)"
    by (auto simp: merge_Inr)
  then show ?case using greater.IH [of r] by (cases "amount b = 0") auto
next
  case (equal a as b bs)
  then obtain r where "merge as bs = Inr r"
    "cs = (if amount a + amount b = 0 then r else mk (denom a) (amount a + amount b) # r)"
    by (auto simp: merge_Inr)
  then show ?case using equal.IH [of r] by (cases "amount a + amount b = 0") auto
qed (simp_all only: merge_Inr, auto)

lemma merge_nonzero: "merge as bs = Inr cs \<Longrightarrow> \<forall>c \<in> set cs. amount c \<noteq> 0"
proof (induction as bs arbitrary: cs rule: merge_induct)
  case (less a as b bs)
  then show ?case by (auto simp: merge_Inr split: if_splits)
next
  case (greater a as b bs)
  then show ?case by (auto simp: merge_Inr split: if_splits)
next
  case (equal a as b bs)
  then show ?case by (auto simp: merge_Inr split: if_splits)
qed (simp_all only: merge_Inr, auto)

lemma merge_bounded:
  "merge as bs = Inr cs \<Longrightarrow> \<forall>c \<in> set as \<union> set bs. \<bar>amount c\<bar> < bound \<Longrightarrow> \<forall>c \<in> set cs. \<bar>amount c\<bar> < bound"
proof (induction as bs arbitrary: cs rule: merge_induct)
  case (less a as b bs)
  then show ?case by (auto simp: merge_Inr split: if_splits)
next
  case (greater a as b bs)
  then show ?case by (auto simp: merge_Inr split: if_splits)
next
  case (equal a as b bs)
  then show ?case by (auto simp: merge_Inr split: if_splits)
qed (simp_all only: merge_Inr, auto)

lemma merge_strict:
  "merge as bs = Inr cs \<Longrightarrow> strict_denoms denom as \<Longrightarrow> strict_denoms denom bs \<Longrightarrow> strict_denoms denom cs"
proof (induction as bs arbitrary: cs rule: merge_induct)
  case (nil_left bs)
  then show ?case by (simp add: merge_Inr strict_denoms_filter)
next
  case (nil_right a as)
  then show ?case by (simp only: merge_Inr strict_denoms_filter)
next
  case (less a as b bs)
  then obtain r where r: "merge as (b # bs) = Inr r" "cs = (if amount a = 0 then r else a # r)"
    by (auto simp: merge_Inr)
  have "denom a < x" if "x \<in> denom ` set as \<union> denom ` set (b # bs)" for x
    using that less.prems(2,3) less.hyps by auto
  then have "\<forall>x \<in> set r. denom a < denom x" using merge_denoms [OF r(1)] by auto
  then show ?case using r(2) less.IH [OF r(1)] less.prems(2,3) by simp
next
  case (greater a as b bs)
  then obtain r where r: "merge (a # as) bs = Inr r" "cs = (if amount b = 0 then r else b # r)"
    by (auto simp: merge_Inr)
  have "denom b < x" if "x \<in> denom ` set (a # as) \<union> denom ` set bs" for x
    using that greater.prems(2,3) greater.hyps by auto
  then have "\<forall>x \<in> set r. denom b < denom x" using merge_denoms [OF r(1)] by auto
  then show ?case using r(2) greater.IH [OF r(1)] greater.prems(2,3) by simp
next
  case (equal a as b bs)
  then obtain r where r: "merge as bs = Inr r"
    "cs = (if amount a + amount b = 0 then r else mk (denom a) (amount a + amount b) # r)"
    by (auto simp: merge_Inr)
  have "denom a < x" if "x \<in> denom ` set as \<union> denom ` set bs" for x
    using that equal.prems(2,3) equal.hyps by auto
  then have "\<forall>x \<in> set r. denom a < denom x" using merge_denoms [OF r(1)] by auto
  then show ?case using r(2) equal.IH [OF r(1)] equal.prems(2,3) by simp
qed

text \<open>Merging one amount of a greater denomination appends it.\<close>

lemma merge_snoc:
  "\<forall>a \<in> set as. amount a \<noteq> 0 \<and> denom a < denom x \<Longrightarrow> amount x \<noteq> 0 \<Longrightarrow> merge as [x] = Inr (as @ [x])"
  by (induction as) (simp_all add: merge_Nil_left merge_less)

text \<open>On sorted slices the merge fails exactly when some total leaves the bound.\<close>

lemma merge_defined:
  assumes "strict_denoms denom as" "strict_denoms denom bs"
    and "\<And>d. \<bar>total_of denom amount as d + total_of denom amount bs d\<bar> < bound"
  shows "\<exists>cs. merge as bs = Inr cs"
  using assms
proof (induction as bs rule: merge_induct)
  case (less a as b bs)
  have "\<bar>total_of denom amount as d + total_of denom amount (b # bs) d\<bar> < bound" for d
  proof (cases "d = denom a")
    case True
    then have "d \<notin> denom ` set as" "d \<notin> denom ` set (b # bs)" using less.prems less.hyps by fastforce+
    moreover have "0 < bound" using less.prems(3) [of d] by linarith
    ultimately show ?thesis by (auto simp: total_of_absent)
  next
    case False
    then show ?thesis using less.prems(3) [of d] by simp
  qed
  then show ?case using less by (auto simp: merge_less)
next
  case (greater a as b bs)
  have "\<bar>total_of denom amount (a # as) d + total_of denom amount bs d\<bar> < bound" for d
  proof (cases "d = denom b")
    case True
    then have "d \<notin> denom ` set (a # as)" "d \<notin> denom ` set bs" using greater.prems greater.hyps by fastforce+
    moreover have "0 < bound" using greater.prems(3) [of d] by linarith
    ultimately show ?thesis by (auto simp: total_of_absent)
  next
    case False
    then show ?thesis using greater.prems(3) [of d] by simp
  qed
  then show ?case using greater by (auto simp: merge_greater)
next
  case (equal a as b bs)
  have abs: "denom a \<notin> denom ` set as" "denom a \<notin> denom ` set bs" using equal.prems equal.hyps by fastforce+
  then have ab: "\<bar>amount a + amount b\<bar> < bound"
    using equal.prems(3) [of "denom a"] equal.hyps by (simp add: total_of_absent)
  have "\<bar>total_of denom amount as d + total_of denom amount bs d\<bar> < bound" for d
    using abs equal.prems(3) [of d] equal.hyps ab by (cases "d = denom a") (auto simp: total_of_absent)
  then show ?case using equal ab by (auto simp: merge_equal)
qed (auto simp: merge_Nil_left merge_Nil_right)

text \<open>Two merges with equal totals are the same slice.\<close>

lemma merge_ext:
  assumes "merge as bs = Inr cs" "strict_denoms denom as" "strict_denoms denom bs"
    and "strict_denoms denom ds" "\<And>c. c \<in> set ds \<Longrightarrow> amount c \<noteq> 0"
    and "\<And>d. total_of denom amount ds d = total_of denom amount as d + total_of denom amount bs d"
  shows "ds = cs"
  using assms merge_total [OF assms(1)] merge_strict [OF assms(1-3)] merge_nonzero [OF assms(1)]
  by (intro total_of_ext [OF inj]) auto

lemma merge_commute:
  assumes "strict_denoms denom as" "strict_denoms denom bs"
    and "\<And>d. \<bar>total_of denom amount as d + total_of denom amount bs d\<bar> < bound"
  shows "merge as bs = merge bs as"
proof -
  obtain cs where cs: "merge as bs = Inr cs" using merge_defined assms by blast
  obtain ds where ds: "merge bs as = Inr ds"
    using merge_defined [OF assms(2,1)] assms(3) by (auto simp: add.commute)
  have "ds = cs"
    using merge_total [OF ds] merge_strict [OF ds assms(2,1)] merge_nonzero [OF ds]
    by (intro merge_ext [OF cs assms(1,2)]) auto
  then show ?thesis using cs ds by simp
qed

end

end
