(* ===== verification/Coin.thy ===== *)
theory Coin
  imports Amounts SdkInt GoText
begin

section \<open>Coins: types/coin.go\<close>

text \<open>
  A \<open>Coin\<close> is a denomination and an amount, a \<open>Coins\<close> a slice of them. The slices are
  read by value: the in-place sort of \<open>NewCoins\<close> and \<open>IsEqual\<close> changes the caller's slice
  only by reordering it. \<open>sort.Sort\<close> may order coins of one denomination in any way; the
  model keeps their order. The denomination pattern is the default one of
  \<open>DefaultCoinDenomRegex\<close>. The JSON encoding and nil amounts are not modelled.
\<close>

record Coin =
  Denom :: string
  Amount :: SdkInt

type_synonym Coins = "Coin list"

subsection \<open>Denominations\<close>

definition is_letter :: "char \<Rightarrow> bool" where
  "is_letter c \<longleftrightarrow> (CHR ''a'' \<le> c \<and> c \<le> CHR ''z'') \<or> (CHR ''A'' \<le> c \<and> c \<le> CHR ''Z'')"

text \<open>The pattern \<open>[a-zA-Z][a-zA-Z0-9/-]{2,127}\<close>, anchored at both ends.\<close>

definition reDnm :: "string \<Rightarrow> bool" where
  "reDnm denom \<longleftrightarrow>
     (case denom of
        [] \<Rightarrow> False
      | c # cs \<Rightarrow> is_letter c \<and> 2 \<le> length cs \<and> length cs \<le> 127 \<and>
          list_all (\<lambda>x. is_letter x \<or> is_digit x \<or> x = CHR ''/'' \<or> x = CHR ''-'') cs)"

definition ValidateDenom :: "string \<Rightarrow> unit result" where
  "ValidateDenom denom = guardE (reDnm denom) (Error ErrPlain ''invalid denom'')"

definition mustValidateDenom :: "string \<Rightarrow> unit result" where
  "mustValidateDenom denom = guardE (ValidateDenom denom = Inr ()) (Panic ''invalid denom'')"

subsection \<open>One coin\<close>

definition Coin_IsZero :: "Coin \<Rightarrow> bool" where
  "Coin_IsZero coin \<longleftrightarrow> Int_IsZero (Amount coin)"

definition Coin_IsPositive :: "Coin \<Rightarrow> bool" where
  "Coin_IsPositive coin \<longleftrightarrow> sgn (Amount coin) = 1"

definition Coin_IsNegative :: "Coin \<Rightarrow> bool" where
  "Coin_IsNegative coin \<longleftrightarrow> sgn (Amount coin) = -1"

definition Coin_Validate :: "Coin \<Rightarrow> unit result" where
  "Coin_Validate coin =
     bindE (ValidateDenom (Denom coin)) (\<lambda>_.
       guardE (\<not> Int_IsNegative (Amount coin)) (Error ErrPlain ''negative coin amount''))"

definition Coin_IsValid :: "Coin \<Rightarrow> bool" where
  "Coin_IsValid coin \<longleftrightarrow> Coin_Validate coin = Inr ()"

definition NewCoin :: "string \<Rightarrow> SdkInt \<Rightarrow> Coin result" where
  "NewCoin denom amount =
     (let coin = \<lparr>Denom = denom, Amount = amount\<rparr> in
      case Coin_Validate coin of Inl _ \<Rightarrow> Inl (Panic ''invalid coin'') | Inr _ \<Rightarrow> Inr coin)"

definition NewInt64Coin :: "string \<Rightarrow> int64 \<Rightarrow> Coin result" where
  "NewInt64Coin denom amount = NewCoin denom (NewInt amount)"

definition Coin_String :: "Coin \<Rightarrow> string" where
  "Coin_String coin = int_text (Amount coin) @ Denom coin"

definition Coin_same_denom :: "Coin \<Rightarrow> Coin \<Rightarrow> unit result" where
  "Coin_same_denom coin other =
     guardE (Denom coin = Denom other) (Panic ''invalid coin denominations'')"

definition Coin_IsGTE :: "Coin \<Rightarrow> Coin \<Rightarrow> bool result" where
  "Coin_IsGTE coin other = bindE (Coin_same_denom coin other) (\<lambda>_. Inr (\<not> Amount coin < Amount other))"

definition Coin_IsLT :: "Coin \<Rightarrow> Coin \<Rightarrow> bool result" where
  "Coin_IsLT coin other = bindE (Coin_same_denom coin other) (\<lambda>_. Inr (Amount coin < Amount other))"

definition Coin_IsEqual :: "Coin \<Rightarrow> Coin \<Rightarrow> bool result" where
  "Coin_IsEqual coin other = bindE (Coin_same_denom coin other) (\<lambda>_. Inr (Amount coin = Amount other))"

definition Coin_AddAmount :: "Coin \<Rightarrow> SdkInt \<Rightarrow> Coin result" where
  "Coin_AddAmount coin amount =
     bindE (Int_Add (Amount coin) amount) (\<lambda>a. Inr \<lparr>Denom = Denom coin, Amount = a\<rparr>)"

definition Coin_Add :: "Coin \<Rightarrow> Coin \<Rightarrow> Coin result" where
  "Coin_Add coin coinB =
     bindE (Coin_same_denom coin coinB) (\<lambda>_.
     bindE (Int_Add (Amount coin) (Amount coinB)) (\<lambda>a. Inr \<lparr>Denom = Denom coin, Amount = a\<rparr>))"

definition Coin_SubAmount :: "Coin \<Rightarrow> SdkInt \<Rightarrow> Coin result" where
  "Coin_SubAmount coin amount =
     bindE (Int_Sub (Amount coin) amount) (\<lambda>a.
       let res = \<lparr>Denom = Denom coin, Amount = a\<rparr> in
       if Coin_IsNegative res then Inl (Panic ''negative coin amount'') else Inr res)"

definition Coin_Sub :: "Coin \<Rightarrow> Coin \<Rightarrow> Coin result" where
  "Coin_Sub coin coinB =
     bindE (Coin_same_denom coin coinB) (\<lambda>_.
     bindE (Int_Sub (Amount coin) (Amount coinB)) (\<lambda>a.
       let res = \<lparr>Denom = Denom coin, Amount = a\<rparr> in
       if Coin_IsNegative res then Inl (Panic ''negative coin amount'') else Inr res))"

subsection \<open>Sets of coins: sanitizing and validation\<close>

definition Coins_Sort :: "Coins \<Rightarrow> Coins" where
  "Coins_Sort coins = sort_key Denom coins"

definition removeZeroCoins :: "Coins \<Rightarrow> Coins" where
  "removeZeroCoins coins =
     (if coins \<noteq> [] \<and> list_all (\<lambda>c. \<not> Coin_IsZero c) coins then coins
      else filter (\<lambda>c. \<not> Coin_IsZero c) coins)"

definition sanitizeCoins :: "Coins \<Rightarrow> Coins" where
  "sanitizeCoins coins =
     (let newCoins = removeZeroCoins coins in
      if length newCoins = 0 then [] else Coins_Sort newCoins)"

definition Coins_Validate_single :: "Coin \<Rightarrow> unit result" where
  "Coins_Validate_single coin =
     bindE (ValidateDenom (Denom coin)) (\<lambda>_.
       guardE (Coin_IsPositive coin) (Error ErrPlain ''coin amount is not positive''))"

text \<open>The loop over \<open>coins[1:]\<close> with its last denomination and the denominations seen.\<close>

fun Coins_Validate_loop :: "string \<Rightarrow> string set \<Rightarrow> Coins \<Rightarrow> unit result" where
  "Coins_Validate_loop lowDenom seenDenoms [] = Inr ()"
| "Coins_Validate_loop lowDenom seenDenoms (coin # rest) =
     (if Denom coin \<in> seenDenoms then Inl (Error ErrPlain ''duplicate denomination'')
      else
        bindE (ValidateDenom (Denom coin)) (\<lambda>_.
        if Denom coin \<le> lowDenom then Inl (Error ErrPlain ''denomination is not sorted'')
        else if \<not> Coin_IsPositive coin then Inl (Error ErrPlain ''coin amount is not positive'')
        else Coins_Validate_loop (Denom coin) (insert (Denom coin) seenDenoms) rest))"

fun Coins_Validate :: "Coins \<Rightarrow> unit result" where
  "Coins_Validate [] = Inr ()"
| "Coins_Validate [c] = Coins_Validate_single c"
| "Coins_Validate (c # rest) =
     bindE (Coins_Validate_single c) (\<lambda>_. Coins_Validate_loop (Denom c) {Denom c} rest)"

definition Coins_IsValid :: "Coins \<Rightarrow> bool" where
  "Coins_IsValid coins \<longleftrightarrow> Coins_Validate coins = Inr ()"

definition NewCoins :: "Coins \<Rightarrow> Coins result" where
  "NewCoins coins =
     (let newCoins = sanitizeCoins coins in
      case Coins_Validate newCoins of Inl _ \<Rightarrow> Inl (Panic ''invalid coin set'') | Inr _ \<Rightarrow> Inr newCoins)"

fun Coins_isSorted :: "Coins \<Rightarrow> bool" where
  "Coins_isSorted (a # b # rest) = (if Denom a > Denom b then False else Coins_isSorted (b # rest))"
| "Coins_isSorted _ = True"

fun Coins_String :: "Coins \<Rightarrow> string" where
  "Coins_String [] = ''''"
| "Coins_String [c] = Coin_String c"
| "Coins_String (c # rest) = Coin_String c @ '','' @ Coins_String rest"

subsection \<open>Addition and subtraction\<close>

text \<open>
  The loop of \<open>safeAdd\<close>: the slices are what is left of \<open>coins\<close> and \<open>coinsB\<close> at the two
  indices.
\<close>

function safeAdd_loop :: "Coins \<Rightarrow> Coins \<Rightarrow> Coins \<Rightarrow> Coins result" where
  "safeAdd_loop acc [] [] = Inr acc"
| "safeAdd_loop acc [] (b # bs) = Inr (acc @ removeZeroCoins (b # bs))"
| "safeAdd_loop acc (a # as) [] = Inr (acc @ removeZeroCoins (a # as))"
| "safeAdd_loop acc (a # as) (b # bs) =
     (if Denom a < Denom b then
        safeAdd_loop (if \<not> Coin_IsZero a then acc @ [a] else acc) as (b # bs)
      else if Denom a = Denom b then
        bindE (Coin_Add a b) (\<lambda>res.
          safeAdd_loop (if \<not> Coin_IsZero res then acc @ [res] else acc) as bs)
      else
        safeAdd_loop (if \<not> Coin_IsZero b then acc @ [b] else acc) (a # as) bs)"
  by pat_completeness auto
termination
  by (relation "measure (\<lambda>(acc, as, bs). length as + length bs)") auto

definition Coins_safeAdd :: "Coins \<Rightarrow> Coins \<Rightarrow> Coins result" where
  "Coins_safeAdd coins coinsB =
     (if \<not> Coins_isSorted coins then Inl (Panic ''Coins (self) must be sorted'')
      else if \<not> Coins_isSorted coinsB then Inl (Panic ''Wrong argument: coins must be sorted'')
      else safeAdd_loop [] coins coinsB)"

definition Coins_Add :: "Coins \<Rightarrow> Coins \<Rightarrow> Coins result" where
  "Coins_Add coins coinsB = Coins_safeAdd coins coinsB"

definition Coins_negative :: "Coins \<Rightarrow> Coins" where
  "Coins_negative coins = map (\<lambda>c. \<lparr>Denom = Denom c, Amount = Int_Neg (Amount c)\<rparr>) coins"

definition Coins_IsAnyNegative :: "Coins \<Rightarrow> bool" where
  "Coins_IsAnyNegative coins \<longleftrightarrow> list_ex Coin_IsNegative coins"

definition Coins_SafeSub :: "Coins \<Rightarrow> Coins \<Rightarrow> (Coins \<times> bool) result" where
  "Coins_SafeSub coins coinsB =
     bindE (Coins_safeAdd coins (Coins_negative coinsB)) (\<lambda>diff. Inr (diff, Coins_IsAnyNegative diff))"

definition Coins_Sub :: "Coins \<Rightarrow> Coins \<Rightarrow> Coins result" where
  "Coins_Sub coins coinsB =
     bindE (Coins_SafeSub coins coinsB) (\<lambda>(diff, hasNeg).
       if hasNeg then Inl (Panic ''negative coin amount'') else Inr diff)"

subsection \<open>Lookup\<close>

function AmountOfNoDenomValidation :: "Coins \<Rightarrow> string \<Rightarrow> SdkInt" where
  "AmountOfNoDenomValidation coins denom =
     (if length coins = 0 then 0
      else if length coins = 1 then
        (let coin = coins ! 0 in if Denom coin = denom then Amount coin else 0)
      else
        let midIdx = length coins div 2; coin = coins ! midIdx in
        if denom < Denom coin then AmountOfNoDenomValidation (take midIdx coins) denom
        else if denom = Denom coin then Amount coin
        else AmountOfNoDenomValidation (drop (midIdx + 1) coins) denom)"
  by pat_completeness auto
termination
  by (relation "measure (\<lambda>(coins, denom). length coins)") auto

declare AmountOfNoDenomValidation.simps [simp del]

definition Coins_AmountOf :: "Coins \<Rightarrow> string \<Rightarrow> SdkInt result" where
  "Coins_AmountOf coins denom =
     bindE (mustValidateDenom denom) (\<lambda>_. Inr (AmountOfNoDenomValidation coins denom))"

subsection \<open>Comparison\<close>

definition Coins_DenomsSubsetOf :: "Coins \<Rightarrow> Coins \<Rightarrow> bool result" where
  "Coins_DenomsSubsetOf coins coinsB =
     (if length coins > length coinsB then Inr False
      else allE (\<lambda>coin. bindE (Coins_AmountOf coinsB (Denom coin)) (\<lambda>a. Inr (\<not> Int_IsZero a))) coins)"

definition Coins_IsAllGT :: "Coins \<Rightarrow> Coins \<Rightarrow> bool result" where
  "Coins_IsAllGT coins coinsB =
     (if length coins = 0 then Inr False
      else if length coinsB = 0 then Inr True
      else bindE (Coins_DenomsSubsetOf coinsB coins) (\<lambda>sub.
        if \<not> sub then Inr False
        else allE (\<lambda>coinB. bindE (Coins_AmountOf coins (Denom coinB)) (\<lambda>amountA.
               Inr (amountA > Amount coinB))) coinsB))"

definition Coins_IsAllGTE :: "Coins \<Rightarrow> Coins \<Rightarrow> bool result" where
  "Coins_IsAllGTE coins coinsB =
     (if length coinsB = 0 then Inr True
      else if length coins = 0 then Inr False
      else allE (\<lambda>coinB. bindE (Coins_AmountOf coins (Denom coinB)) (\<lambda>a.
             Inr (\<not> Amount coinB > a))) coinsB)"

definition Coins_IsAllLT :: "Coins \<Rightarrow> Coins \<Rightarrow> bool result" where
  "Coins_IsAllLT coins coinsB = Coins_IsAllGT coinsB coins"

definition Coins_IsAllLTE :: "Coins \<Rightarrow> Coins \<Rightarrow> bool result" where
  "Coins_IsAllLTE coins coinsB = Coins_IsAllGTE coinsB coins"

definition Coins_IsAnyGT :: "Coins \<Rightarrow> Coins \<Rightarrow> bool result" where
  "Coins_IsAnyGT coins coinsB =
     (if length coinsB = 0 then Inr False
      else anyE (\<lambda>coin. bindE (Coins_AmountOf coinsB (Denom coin)) (\<lambda>amt.
             Inr (Amount coin > amt \<and> \<not> Int_IsZero amt))) coins)"

definition Coins_IsAnyGTE :: "Coins \<Rightarrow> Coins \<Rightarrow> bool result" where
  "Coins_IsAnyGTE coins coinsB =
     (if length coinsB = 0 then Inr False
      else anyE (\<lambda>coin. bindE (Coins_AmountOf coinsB (Denom coin)) (\<lambda>amt.
             Inr (Amount coin \<ge> amt \<and> \<not> Int_IsZero amt))) coins)"

definition Coins_IsZero :: "Coins \<Rightarrow> bool" where
  "Coins_IsZero coins \<longleftrightarrow> list_all Coin_IsZero coins"

definition Coins_IsEqual :: "Coins \<Rightarrow> Coins \<Rightarrow> bool result" where
  "Coins_IsEqual coins coinsB =
     (if length coins \<noteq> length coinsB then Inr False
      else allE (\<lambda>(a, b). Coin_IsEqual a b) (zip (Coins_Sort coins) (Coins_Sort coinsB)))"

definition Coins_Empty :: "Coins \<Rightarrow> bool" where
  "Coins_Empty coins \<longleftrightarrow> length coins = 0"

definition Coins_IsAllPositive :: "Coins \<Rightarrow> bool" where
  "Coins_IsAllPositive coins \<longleftrightarrow> (if length coins = 0 then False else list_all Coin_IsPositive coins)"

subsection \<open>Maximum and minimum\<close>

function Coins_Max_loop :: "Coins \<Rightarrow> Coins \<Rightarrow> Coins \<Rightarrow> Coins" where
  "Coins_Max_loop mx [] bs = mx @ bs"
| "Coins_Max_loop mx (a # as) [] = mx @ a # as"
| "Coins_Max_loop mx (a # as) (b # bs) =
     (if Denom a < Denom b then Coins_Max_loop (mx @ [a]) as (b # bs)
      else if Denom a = Denom b then
        Coins_Max_loop (mx @ [if Amount b > Amount a then b else a]) as bs
      else Coins_Max_loop (mx @ [b]) (a # as) bs)"
  by pat_completeness auto
termination
  by (relation "measure (\<lambda>(mx, as, bs). length as + length bs)") auto

definition Coins_Max :: "Coins \<Rightarrow> Coins \<Rightarrow> Coins result" where
  "Coins_Max coins coinsB = NewCoins (Coins_Max_loop [] coins coinsB)"

function Coins_Min_loop :: "Coins \<Rightarrow> Coins \<Rightarrow> Coins \<Rightarrow> Coins" where
  "Coins_Min_loop mn [] bs = mn"
| "Coins_Min_loop mn (a # as) [] = mn"
| "Coins_Min_loop mn (a # as) (b # bs) =
     (if Denom a < Denom b then Coins_Min_loop mn as (b # bs)
      else if Denom a = Denom b then
        (let minCoin = (if Amount b < Amount a then b else a) in
         Coins_Min_loop (if \<not> Coin_IsZero minCoin then mn @ [minCoin] else mn) as bs)
      else Coins_Min_loop mn (a # as) bs)"
  by pat_completeness auto
termination
  by (relation "measure (\<lambda>(mn, as, bs). length as + length bs)") auto

definition Coins_Min :: "Coins \<Rightarrow> Coins \<Rightarrow> Coins result" where
  "Coins_Min coins coinsB = NewCoins (Coins_Min_loop [] coins coinsB)"

end
