(* ===== verification/Coin_Props.thy ===== *)
theory Coin_Props
  imports Coin
begin

section \<open>Coins as amounts per denomination\<close>

text \<open>
  The meaning of a \<open>Coins\<close> value is the amount it holds of each denomination,
  \<open>coin_total\<close>. The lemmas show that validation accepts exactly the sorted slices of
  positive amounts, that addition, subtraction, maximum and minimum compute the
  corresponding operation on the totals and keep validity, and that the binary search of
  \<open>AmountOf\<close> reads the total.
\<close>

abbreviation coin_total :: "Coins \<Rightarrow> string \<Rightarrow> int" where
  "coin_total \<equiv> total_of Denom Amount"

definition valid_coins :: "Coins \<Rightarrow> bool" where
  "valid_coins cs \<longleftrightarrow> strict_denoms Denom cs \<and> list_all (\<lambda>c. reDnm (Denom c) \<and> 0 < Amount c) cs"

text \<open>Every \<open>Int\<close> has at most 256 bits.\<close>

definition coins_ok :: "Coins \<Rightarrow> bool" where
  "coins_ok cs \<longleftrightarrow> list_all (\<lambda>c. \<bar>Amount c\<bar> < 2 ^ 256) cs"

lemma Coin_sign [simp]:
  "Coin_IsZero c \<longleftrightarrow> Amount c = 0" "Coin_IsPositive c \<longleftrightarrow> 0 < Amount c" "Coin_IsNegative c \<longleftrightarrow> Amount c < 0"
  by (auto simp: Coin_IsZero_def Coin_IsPositive_def Coin_IsNegative_def sgn_if)

lemma ValidateDenom_eq [simp]: "ValidateDenom d = Inr u \<longleftrightarrow> reDnm d"
  by (simp add: ValidateDenom_def)

lemma mustValidateDenom_eq [simp]: "mustValidateDenom d = Inr u \<longleftrightarrow> reDnm d"
  by (simp add: mustValidateDenom_def)

lemma removeZeroCoins_eq [simp]: "removeZeroCoins cs = filter (\<lambda>c. Amount c \<noteq> 0) cs"
  by (auto simp: removeZeroCoins_def list_all_iff intro: filter_True [symmetric])

lemma Coin_eqI: "Denom a = Denom b \<Longrightarrow> Amount a = Amount b \<Longrightarrow> a = (b :: Coin)"
  by simp

subsection \<open>Validation\<close>

lemma Coins_Validate_loop_eq:
  "\<forall>d \<in> seen. d \<le> low \<Longrightarrow>
     Coins_Validate_loop low seen cs = Inr u \<longleftrightarrow>
       (\<forall>c \<in> set cs. low < Denom c) \<and> valid_coins cs"
proof (induction low seen cs rule: Coins_Validate_loop.induct)
  case (2 low seen coin rest)
  show ?case
  proof (cases "Denom coin \<in> seen \<or> Denom coin \<le> low")
    case True
    then have "Denom coin \<le> low" using 2 by auto
    then show ?thesis by auto
  next
    case False
    then have low: "low < Denom coin" by auto
    moreover have "\<forall>d \<in> insert (Denom coin) seen. d \<le> Denom coin" using low 2 by fastforce
    ultimately have "Coins_Validate_loop low seen (coin # rest) = Inr u \<longleftrightarrow>
        reDnm (Denom coin) \<and> 0 < Amount coin \<and> (\<forall>c \<in> set rest. Denom coin < Denom c) \<and> valid_coins rest"
      using False 2 by auto
    then show ?thesis using low by (auto simp: valid_coins_def dest: order.strict_trans [OF low])
  qed
qed (simp add: valid_coins_def)

lemma Coins_Validate_eq: "Coins_Validate cs = Inr u \<longleftrightarrow> valid_coins cs"
proof (cases cs rule: Coins_Validate.cases)
  case (3 c v rest)
  then show ?thesis
    by (auto simp: Coins_Validate_loop_eq Coins_Validate_single_def) (auto simp: valid_coins_def)
qed (auto simp: valid_coins_def Coins_Validate_single_def)

lemma Coins_IsValid_eq [simp]: "Coins_IsValid cs \<longleftrightarrow> valid_coins cs"
  by (simp add: Coins_IsValid_def Coins_Validate_eq)

text \<open>
  C23: \<open>Coins.Validate\<close> accepts exactly the slices whose denominations match the pattern and
  strictly increase and whose amounts are positive.
\<close>

theorem Coins_Validate_correct:
  "Coins_Validate cs = Inr () \<longleftrightarrow>
     sorted_wrt (<) (map Denom cs) \<and> list_all (\<lambda>c. reDnm (Denom c) \<and> 0 < Amount c) cs"
  by (simp add: Coins_Validate_eq valid_coins_def strict_denoms_def)

lemma valid_coins_Nil [simp]: "valid_coins []"
  by (simp add: valid_coins_def)

lemma valid_coins_strict: "valid_coins cs \<Longrightarrow> strict_denoms Denom cs"
  by (simp add: valid_coins_def)

lemma valid_coins_pos: "valid_coins cs \<Longrightarrow> c \<in> set cs \<Longrightarrow> 0 < Amount c"
  by (auto simp: valid_coins_def list_all_iff)

lemma valid_coins_denom: "valid_coins cs \<Longrightarrow> c \<in> set cs \<Longrightarrow> reDnm (Denom c)"
  by (auto simp: valid_coins_def list_all_iff)

lemma valid_total_nonneg: "valid_coins cs \<Longrightarrow> 0 \<le> coin_total cs d"
  using total_of_nonneg [of cs Amount] valid_coins_pos by fastforce

lemma valid_total_pos: "valid_coins cs \<Longrightarrow> 0 < coin_total cs d \<longleftrightarrow> d \<in> Denom ` set cs"
  using total_of_absent [of d Denom cs Amount]
  by (cases "d \<in> Denom ` set cs") (auto simp: total_of_member [OF valid_coins_strict] valid_coins_pos)

lemma coins_ok_total:
  assumes "strict_denoms Denom cs" "coins_ok cs"
  shows "\<bar>coin_total cs d\<bar> < 2 ^ 256"
proof (cases "d \<in> Denom ` set cs")
  case True
  then obtain c where "c \<in> set cs" "d = Denom c" by auto
  then show ?thesis using total_of_member [OF assms(1)] assms(2) by (auto simp: coins_ok_def list_all_iff)
qed (simp add: total_of_absent)

text \<open>A valid slice is determined by its totals.\<close>

lemma valid_coins_ext:
  assumes "valid_coins as" "valid_coins bs" "\<And>d. coin_total as d = coin_total bs d"
  shows "as = bs"
  using assms by (intro total_of_ext [where denom = Denom and amount = Amount])
    (auto simp: valid_coins_strict dest: valid_coins_pos)

lemma isSorted_eq: "Coins_isSorted cs \<longleftrightarrow> sorted (map Denom cs)"
proof (induction cs rule: Coins_isSorted.induct)
  case (1 a b rest)
  then show ?case by (auto simp: not_less)
qed auto

lemma valid_isSorted [simp]: "strict_denoms Denom cs \<Longrightarrow> Coins_isSorted cs"
  by (simp add: isSorted_eq strict_denoms_sorted)

lemma sort_key_strict: "strict_denoms Denom cs \<Longrightarrow> sort_key Denom cs = cs"
  using strict_denoms_sorted by (induction cs) (auto simp: insort_is_Cons less_imp_le)

lemma NewCoins_valid: "valid_coins cs \<Longrightarrow> NewCoins cs = Inr cs"
proof -
  assume v: "valid_coins cs"
  then have "filter (\<lambda>c. Amount c \<noteq> 0) cs = cs" using valid_coins_pos by (intro filter_True) fastforce
  then have "sanitizeCoins cs = cs"
    using v by (auto simp: sanitizeCoins_def Coins_Sort_def sort_key_strict valid_coins_strict)
  moreover have "Coins_Validate cs = Inr ()" using v by (simp add: Coins_Validate_eq)
  ultimately show ?thesis by (simp add: NewCoins_def)
qed

lemma NewCoins_result:
  "NewCoins cs = Inr r \<Longrightarrow> valid_coins r \<and> (\<forall>d. coin_total r d = coin_total cs d)"
proof -
  assume "NewCoins cs = Inr r"
  then have "r = sanitizeCoins cs" "Coins_Validate r = Inr ()"
    by (auto simp: NewCoins_def Let_def split: sum.splits)
  moreover have "coin_total (sanitizeCoins cs) d = coin_total cs d" for d
    using total_of_filter_nonzero [of Denom Amount cs d]
    by (auto simp: sanitizeCoins_def Coins_Sort_def Let_def simp del: total_of_filter_nonzero)
  ultimately show ?thesis by (simp add: Coins_Validate_eq)
qed

subsection \<open>The merge of safeAdd\<close>

lemma safeAdd_loop_acc:
  "safeAdd_loop acc as bs = bindE (safeAdd_loop [] as bs) (\<lambda>r. Inr (acc @ r))"
proof (induction "length as + length bs" arbitrary: acc as bs rule: less_induct)
  case less
  show ?case
  proof (cases "as = [] \<or> bs = []")
    case True
    then show ?thesis by (cases as; cases bs) simp_all
  next
    case False
    then obtain a as' b bs' where ab: "as = a # as'" "bs = b # bs'" by (meson neq_Nil_conv)
    have less_step: "safeAdd_loop x as' (b # bs') = bindE (safeAdd_loop [] as' (b # bs')) (\<lambda>r. Inr (x @ r))" for x
      by (rule less) (simp add: ab)
    have equal_step: "safeAdd_loop x as' bs' = bindE (safeAdd_loop [] as' bs') (\<lambda>r. Inr (x @ r))" for x
      by (rule less) (simp add: ab)
    have greater_step: "safeAdd_loop x (a # as') bs' = bindE (safeAdd_loop [] (a # as') bs') (\<lambda>r. Inr (x @ r))" for x
      by (rule less) (simp add: ab)
    show ?thesis
      using less_step [of "acc @ [a]"] less_step [of "[a]"] less_step [of acc]
        greater_step [of "acc @ [b]"] greater_step [of "[b]"] greater_step [of acc]
        equal_step [of acc] equal_step [of "acc @ [x]" for x] equal_step [of "[x]" for x]
      by (cases "Coin_Add a b") (simp_all add: ab bindE_assoc)
  qed
qed
lemma Coin_Add_eq:
  "Denom a = Denom b \<Longrightarrow> Coin_Add a b =
     (if \<bar>Amount a + Amount b\<bar> < 2 ^ 256 then Inr \<lparr>Denom = Denom a, Amount = Amount a + Amount b\<rparr>
      else Inl (Panic ''Int overflow''))"
  by (simp add: Coin_Add_def Coin_same_denom_def guardE_def Int_Add_def maxBitLen_def Let_def)

interpretation coins: amount_merge Denom Amount "\<lambda>d i. \<lparr>Denom = d, Amount = i\<rparr>" "2 ^ 256" "safeAdd_loop []"
proof (unfold_locales, goal_cases)
  case (4 bs)
  show ?case by (cases bs) simp_all
next
  case (6 a b as bs)
  then show ?case using safeAdd_loop_acc [of "[a]" as "b # bs"] by simp
next
  case (7 b a as bs)
  then show ?case using safeAdd_loop_acc [of "[b]" "a # as" bs] by auto
next
  case (8 a b as bs)
  then show ?case
    using safeAdd_loop_acc [of "[\<lparr>Denom = Denom b, Amount = Amount a + Amount b\<rparr>]" as bs]
    by (simp add: Coin_Add_eq)
qed simp_all

subsection \<open>Addition\<close>

lemma safeAdd_strict:
  "strict_denoms Denom as \<Longrightarrow> strict_denoms Denom bs \<Longrightarrow> Coins_safeAdd as bs = safeAdd_loop [] as bs"
  by (simp add: Coins_safeAdd_def)

lemma safeAdd_valid:
  assumes "valid_coins as" "valid_coins bs" "safeAdd_loop [] as bs = Inr cs"
  shows "valid_coins cs"
proof -
  have strict: "strict_denoms Denom cs"
    using coins.merge_strict [OF assms(3)] assms(1,2) valid_coins_strict by blast
  have "reDnm (Denom c) \<and> 0 < Amount c" if c: "c \<in> set cs" for c
  proof
    have "Denom c \<in> Denom ` set as \<union> Denom ` set bs" using coins.merge_denoms [OF assms(3)] c by blast
    then show "reDnm (Denom c)" using assms(1,2) valid_coins_denom by auto
    have "Amount c = coin_total as (Denom c) + coin_total bs (Denom c)"
      using coins.merge_total [OF assms(3)] total_of_member [OF strict c] by metis
    then have "0 \<le> Amount c" using assms(1,2) valid_total_nonneg by (metis add_nonneg_nonneg)
    moreover have "Amount c \<noteq> 0" using coins.merge_nonzero [OF assms(3)] c by blast
    ultimately show "0 < Amount c" by simp
  qed
  then show ?thesis using strict by (auto simp: valid_coins_def list_all_iff)
qed

lemma safeAdd_error: "safeAdd_loop acc as bs = Inl e \<Longrightarrow> e = Panic ''Int overflow''"
  by (induction acc as bs rule: safeAdd_loop.induct)
    (auto simp: Coin_Add_eq bindE_Inl split: if_splits)

lemma coins_ok_iff:
  assumes "strict_denoms Denom cs"
  shows "coins_ok cs \<longleftrightarrow> (\<forall>d. \<bar>coin_total cs d\<bar> < 2 ^ 256)"
  using coins_ok_total [OF assms] total_of_member [OF assms, where amount = Amount]
  by (auto simp: coins_ok_def list_all_iff) metis

lemma Coins_Add_iff:
  assumes "valid_coins as" "valid_coins bs" "coins_ok as" "coins_ok bs"
  shows "(Coins_Add as bs = Inr cs \<longleftrightarrow>
            valid_coins cs \<and> coins_ok cs \<and> (\<forall>d. coin_total cs d = coin_total as d + coin_total bs d))
       \<and> (is_panic (Coins_Add as bs) \<longleftrightarrow> (\<exists>d. 2 ^ 256 \<le> coin_total as d + coin_total bs d))"
proof -
  let ?m = "safeAdd_loop [] as bs"
  note v = assms(1,2)
  note s = valid_coins_strict [OF v(1)] valid_coins_strict [OF v(2)]
  have add: "Coins_Add as bs = ?m" using s by (simp add: Coins_Add_def safeAdd_strict)
  have nonneg: "0 \<le> coin_total as d + coin_total bs d" for d using v valid_total_nonneg by simp
  have ok: "valid_coins r \<and> coins_ok r \<and> (\<forall>d. coin_total r d = coin_total as d + coin_total bs d)"
    if r: "?m = Inr r" for r
    using safeAdd_valid [OF v r] coins.merge_bounded [OF r] assms(3,4) coins.merge_total [OF r]
    by (auto simp: coins_ok_def list_all_iff)
  show ?thesis
  proof (cases ?m)
    case (Inl e)
    then have "\<not> (\<forall>d. \<bar>coin_total as d + coin_total bs d\<bar> < 2 ^ 256)"
      using coins.merge_defined [OF s] by fastforce
    then obtain d where d: "2 ^ 256 \<le> coin_total as d + coin_total bs d"
      using nonneg by (auto simp: not_less abs_of_nonneg)
    have "\<not> (coins_ok cs \<and> valid_coins cs \<and> (\<forall>d. coin_total cs d = coin_total as d + coin_total bs d))"
      using coins_ok_total [of cs d] d valid_coins_strict by fastforce
    then show ?thesis using Inl d safeAdd_error [OF Inl] add by auto
  next
    case (Inr r)
    then have "cs = r" if "valid_coins cs" "\<forall>d. coin_total cs d = coin_total as d + coin_total bs d"
      using ok [OF Inr] that by (intro valid_coins_ext) auto
    moreover have "coin_total as d + coin_total bs d < 2 ^ 256" for d
      using ok [OF Inr] coins_ok_total [of r d] nonneg [of d] valid_coins_strict by fastforce
    ultimately show ?thesis using ok [OF Inr] Inr add by (auto simp: not_le)
  qed
qed

lemma Coins_Add_error:
  "valid_coins as \<Longrightarrow> valid_coins bs \<Longrightarrow> Coins_Add as bs = Inl e \<Longrightarrow> e = Panic ''Int overflow''"
  using safeAdd_error by (simp add: Coins_Add_def safeAdd_strict valid_coins_strict)

text \<open>
  C20: \<open>Coins.Add\<close> of two valid coin sets is the valid coin set holding, of every
  denomination, the sum of the two amounts; it panics when and only when some sum leaves the
  256 bits of an \<open>Int\<close>.
\<close>

theorem Coins_Add_correct:
  assumes "Coins_IsValid as" "Coins_IsValid bs" "coins_ok as" "coins_ok bs"
  shows "(Coins_Add as bs = Inr cs \<longleftrightarrow>
            Coins_IsValid cs \<and> coins_ok cs \<and> (\<forall>d. coin_total cs d = coin_total as d + coin_total bs d))
       \<and> (is_panic (Coins_Add as bs) \<longleftrightarrow> (\<exists>d. 2 ^ 256 \<le> coin_total as d + coin_total bs d))"
  using Coins_Add_iff assms by simp

theorem Coins_Add_correct_witness:
  "let as = [\<lparr>Denom = ''atom'', Amount = 2\<rparr>];
       bs = [\<lparr>Denom = ''atom'', Amount = 1\<rparr>, \<lparr>Denom = ''cony'', Amount = 2\<rparr>];
       cs = [\<lparr>Denom = ''atom'', Amount = 3\<rparr>, \<lparr>Denom = ''cony'', Amount = 2\<rparr>] in
   Coins_IsValid as \<and> Coins_IsValid bs \<and> Coins_IsValid cs \<and> Coins_Add as bs = Inr cs"
proof -
  let ?as = "[\<lparr>Denom = ''atom'', Amount = 2\<rparr>]"
  let ?bs = "[\<lparr>Denom = ''atom'', Amount = 1\<rparr>, \<lparr>Denom = ''cony'', Amount = 2\<rparr>]"
  let ?cs = "[\<lparr>Denom = ''atom'', Amount = 3\<rparr>, \<lparr>Denom = ''cony'', Amount = 2\<rparr>]"
  have "Coins_IsValid ?as" "Coins_IsValid ?bs" "Coins_IsValid ?cs" by code_simp+
  moreover have "coins_ok ?as" "coins_ok ?bs" "coins_ok ?cs" by (simp_all add: coins_ok_def)
  ultimately show ?thesis using Coins_Add_correct [of ?as ?bs ?cs] by (simp add: Let_def)
qed

subsection \<open>Subtraction\<close>

lemma negative_strict [simp]: "strict_denoms Denom (Coins_negative cs) \<longleftrightarrow> strict_denoms Denom cs"
  by (simp add: strict_denoms_def Coins_negative_def comp_def)

lemma negative_total [simp]: "coin_total (Coins_negative cs) d = - coin_total cs d"
  by (induction cs) (auto simp: Coins_negative_def Int_Neg_def)

lemma any_negative_iff:
  "strict_denoms Denom cs \<Longrightarrow> Coins_IsAnyNegative cs \<longleftrightarrow> (\<exists>d. coin_total cs d < 0)"
  using total_of_member [of Denom cs _ Amount] total_of_nonneg [of cs Amount Denom]
  by (auto simp: Coins_IsAnyNegative_def list_ex_iff not_less [symmetric]) metis+

lemma negative_denoms [simp]: "Denom ` set (Coins_negative cs) = Denom ` set cs"
  by (auto simp: Coins_negative_def image_iff)

lemma Coins_Sub_iff:
  assumes "valid_coins as" "valid_coins bs" "coins_ok as" "coins_ok bs"
  shows "(Coins_Sub as bs = Inr cs \<longleftrightarrow>
            valid_coins cs \<and> (\<forall>d. coin_total cs d = coin_total as d - coin_total bs d))
       \<and> (is_panic (Coins_Sub as bs) \<longleftrightarrow> (\<exists>d. coin_total as d < coin_total bs d))"
proof -
  note v = assms(1,2)
  note s = valid_coins_strict [OF v(1)] valid_coins_strict [OF v(2)]
  let ?n = "Coins_negative bs"
  have bound: "\<bar>coin_total as d + coin_total ?n d\<bar> < 2 ^ 256" for d
    using coins_ok_total [OF s(1) assms(3), of d] coins_ok_total [OF s(2) assms(4), of d]
      valid_total_nonneg [OF v(1), of d] valid_total_nonneg [OF v(2), of d] by simp
  obtain r where r: "safeAdd_loop [] as ?n = Inr r"
    using coins.merge_defined [of as ?n] s bound by auto
  have sub: "Coins_Sub as bs = (if Coins_IsAnyNegative r then Inl (Panic ''negative coin amount'') else Inr r)"
    using s r by (simp add: Coins_Sub_def Coins_SafeSub_def safeAdd_strict)
  have total: "coin_total r d = coin_total as d - coin_total bs d" for d
    using coins.merge_total [OF r, of d] by simp
  have strict: "strict_denoms Denom r" using coins.merge_strict [OF r] s by simp
  have neg: "Coins_IsAnyNegative r \<longleftrightarrow> (\<exists>d. coin_total as d < coin_total bs d)"
    using any_negative_iff [OF strict] total by simp
  have "valid_coins r" if "\<not> Coins_IsAnyNegative r"
  proof -
    have "0 < Amount c" if c: "c \<in> set r" for c
      using c coins.merge_nonzero [OF r] \<open>\<not> Coins_IsAnyNegative r\<close>
      by (auto simp: Coins_IsAnyNegative_def list_ex_iff not_less le_less)
    moreover have "reDnm (Denom c)" if "c \<in> set r" for c
      using that coins.merge_denoms [OF r] v valid_coins_denom by auto
    ultimately show ?thesis using strict by (auto simp: valid_coins_def list_all_iff)
  qed
  moreover have "\<not> Coins_IsAnyNegative r" if "valid_coins cs" "\<forall>d. coin_total cs d = coin_total as d - coin_total bs d"
    using that neg valid_total_nonneg [OF that(1)] by (auto simp: not_less)
  moreover have "cs = r" if "valid_coins cs" "valid_coins r" "\<forall>d. coin_total cs d = coin_total as d - coin_total bs d"
    using that total by (intro valid_coins_ext) auto
  ultimately show ?thesis using sub neg total by auto
qed

text \<open>
  C21: \<open>Coins.Sub\<close> of two valid coin sets is the valid coin set of the differences, and
  panics when and only when some difference is negative.
\<close>

theorem Coins_Sub_correct:
  assumes "Coins_IsValid as" "Coins_IsValid bs" "coins_ok as" "coins_ok bs"
  shows "(Coins_Sub as bs = Inr cs \<longleftrightarrow>
            Coins_IsValid cs \<and> (\<forall>d. coin_total cs d = coin_total as d - coin_total bs d))
       \<and> (is_panic (Coins_Sub as bs) \<longleftrightarrow> (\<exists>d. coin_total as d < coin_total bs d))"
  using Coins_Sub_iff assms by simp

theorem Coins_Sub_correct_witness:
  "let as = [\<lparr>Denom = ''atom'', Amount = 2\<rparr>, \<lparr>Denom = ''cony'', Amount = 3\<rparr>];
       bs = [\<lparr>Denom = ''atom'', Amount = 2\<rparr>, \<lparr>Denom = ''cony'', Amount = 1\<rparr>];
       cs = [\<lparr>Denom = ''cony'', Amount = 2\<rparr>] in
   Coins_IsValid as \<and> Coins_IsValid bs \<and> Coins_Sub as bs = Inr cs \<and> is_panic (Coins_Sub bs as)"
proof -
  let ?as = "[\<lparr>Denom = ''atom'', Amount = 2\<rparr>, \<lparr>Denom = ''cony'', Amount = 3\<rparr>]"
  let ?bs = "[\<lparr>Denom = ''atom'', Amount = 2\<rparr>, \<lparr>Denom = ''cony'', Amount = 1\<rparr>]"
  let ?cs = "[\<lparr>Denom = ''cony'', Amount = 2\<rparr>]"
  have "Coins_IsValid ?as" "Coins_IsValid ?bs" "Coins_IsValid ?cs" by code_simp+
  moreover have "coins_ok ?as" "coins_ok ?bs" by (simp_all add: coins_ok_def)
  moreover have "coin_total ?bs ''cony'' < coin_total ?as ''cony''" by simp
  ultimately show ?thesis
    using Coins_Sub_correct [of ?as ?bs ?cs] Coins_Sub_correct [of ?bs ?as] by (auto simp: Let_def)
qed

subsection \<open>Lookup\<close>

lemma strict_total_mid:
  assumes "strict_denoms Denom cs" "m < length cs"
  shows "d < Denom (cs ! m) \<Longrightarrow> coin_total cs d = coin_total (take m cs) d"
    and "Denom (cs ! m) < d \<Longrightarrow> coin_total cs d = coin_total (drop (Suc m) cs) d"
    and "coin_total cs (Denom (cs ! m)) = Amount (cs ! m)"
proof -
  have split: "cs = take m cs @ cs ! m # drop (Suc m) cs" using assms(2) by (rule id_take_nth_drop)
  have s: "strict_denoms Denom (take m cs @ cs ! m # drop (Suc m) cs)" using assms(1) split by simp
  have total: "coin_total cs d = coin_total (take m cs) d
      + ((if Denom (cs ! m) = d then Amount (cs ! m) else 0) + coin_total (drop (Suc m) cs) d)" for d
    by (subst split) (simp only: total_of_append total_of_Cons)
  show "coin_total cs d = coin_total (take m cs) d" if "d < Denom (cs ! m)"
  proof -
    have "d \<notin> Denom ` set (drop (Suc m) cs)" using s that by (auto simp: strict_denoms_append)
    then show ?thesis using that total [of d] by (auto simp: total_of_absent)
  qed
  show "coin_total cs d = coin_total (drop (Suc m) cs) d" if "Denom (cs ! m) < d"
  proof -
    have "d \<notin> Denom ` set (take m cs)" using s that by (auto simp: strict_denoms_append)
    then show ?thesis using that total [of d] by (auto simp: total_of_absent)
  qed
  show "coin_total cs (Denom (cs ! m)) = Amount (cs ! m)"
    using total_of_member [OF assms(1)] assms(2) by simp
qed

lemma AmountOf_total:
  "strict_denoms Denom cs \<Longrightarrow> AmountOfNoDenomValidation cs d = coin_total cs d"
proof (induction cs d rule: AmountOfNoDenomValidation.induct)
  case (1 cs d)
  let ?m = "length cs div 2"
  consider "cs = []" | c where "cs = [c]" | "2 \<le> length cs"
    by (cases cs rule: remdups_adj.cases) auto
  then show ?case
  proof cases
    case 3
    then have m: "?m < length cs" by (cases cs) auto
    have sub: "strict_denoms Denom (take ?m cs)" "strict_denoms Denom (drop (Suc ?m) cs)"
      using "1.prems" m by (metis append_take_drop_id strict_denoms_append)+
    have len: "length cs \<noteq> 0" "length cs \<noteq> 1" using 3 by auto
    show ?thesis
    proof (cases d "Denom (cs ! ?m)" rule: linorder_cases)
      case less
      then have "AmountOfNoDenomValidation (take ?m cs) d = coin_total cs d"
        using "1.IH"(1) [OF len refl refl] sub strict_total_mid(1) [OF "1.prems" m] by simp
      then show ?thesis using less len by (subst AmountOfNoDenomValidation.simps) (simp add: Let_def)
    next
      case equal
      then show ?thesis using strict_total_mid(3) [OF "1.prems" m] len
        by (subst AmountOfNoDenomValidation.simps) (simp add: Let_def)
    next
      case greater
      then have "\<not> d < Denom (cs ! ?m)" "d \<noteq> Denom (cs ! ?m)" by auto
      moreover from this have "AmountOfNoDenomValidation (drop (Suc ?m) cs) d = coin_total cs d"
        using "1.IH"(2) [OF len refl refl] sub strict_total_mid(2) [OF "1.prems" m greater] by simp
      ultimately show ?thesis using len by (subst AmountOfNoDenomValidation.simps) (simp add: Let_def)
    qed
  qed (subst AmountOfNoDenomValidation.simps, simp)+
qed

text \<open>
  C24: the binary search of \<open>AmountOf\<close> finds, in every slice with strictly increasing
  denominations, the amount a linear scan adds up, and zero for a missing denomination.
\<close>

theorem AmountOfNoDenomValidation_correct:
  assumes "sorted_wrt (<) (map Denom cs)"
  shows "AmountOfNoDenomValidation cs d = sum_list (map Amount (filter (\<lambda>c. Denom c = d) cs))"
  using AmountOf_total [of cs d] assms by (simp add: strict_denoms_def total_of_def)

theorem AmountOfNoDenomValidation_correct_witness:
  "AmountOfNoDenomValidation
     [\<lparr>Denom = ''atom'', Amount = 7\<rparr>, \<lparr>Denom = ''cony'', Amount = 9\<rparr>, \<lparr>Denom = ''link'', Amount = 1\<rparr>] ''link'' = 1"
  by (subst AmountOfNoDenomValidation_correct) (code_simp, simp)

lemma Coins_AmountOf_eq:
  "valid_coins cs \<Longrightarrow> reDnm d \<Longrightarrow> Coins_AmountOf cs d = Inr (coin_total cs d)"
  by (simp add: Coins_AmountOf_def mustValidateDenom_def AmountOf_total valid_coins_strict guardE_def)

subsection \<open>Comparison\<close>

lemma valid_all_iff:
  assumes "valid_coins bs"
  shows "list_all (\<lambda>c. P (Denom c) (Amount c)) bs \<longleftrightarrow> (\<forall>d. 0 < coin_total bs d \<longrightarrow> P d (coin_total bs d))"
  using valid_total_pos [OF assms] total_of_member [OF valid_coins_strict [OF assms], where amount = Amount]
  by (auto simp: list_all_iff)

text \<open>
  On valid coin sets \<open>IsAllGTE\<close> never panics and decides that the first holds at least
  as much of every denomination as the second; \<open>IsAllGT\<close> decides strict excess on every
  denomination of the second, for a non-empty first set.
\<close>

theorem Coins_IsAllGTE_correct:
  assumes "Coins_IsValid as" "Coins_IsValid bs"
  shows "Coins_IsAllGTE as bs = Inr (\<forall>d. coin_total bs d \<le> coin_total as d)"
proof -
  have v: "valid_coins as" "valid_coins bs" using assms by simp_all
  have loop: "allE (\<lambda>coinB. bindE (Coins_AmountOf as (Denom coinB)) (\<lambda>a. Inr (\<not> Amount coinB > a))) bs
      = Inr (list_all (\<lambda>c. Amount c \<le> coin_total as (Denom c)) bs)"
    using Coins_AmountOf_eq [OF v(1) valid_coins_denom [OF v(2)]]
    by (intro allE_total) (auto simp: not_less)
  have "list_all (\<lambda>c. Amount c \<le> coin_total as (Denom c)) bs \<longleftrightarrow> (\<forall>d. coin_total bs d \<le> coin_total as d)"
    using valid_total_nonneg [OF v(1)] valid_total_nonneg [OF v(2)]
    by (auto simp: valid_all_iff [OF v(2), of "\<lambda>d x. x \<le> coin_total as d"]) (metis le_less order_trans)
  moreover have "as = [] \<Longrightarrow> bs \<noteq> [] \<Longrightarrow> \<not> (\<forall>d. coin_total bs d \<le> coin_total as d)"
    using valid_total_pos [OF v(2)] by (cases bs) (auto simp: not_le)
  ultimately show ?thesis using loop valid_total_nonneg [OF v(1)] by (auto simp: Coins_IsAllGTE_def)
qed

theorem Coins_IsAllGTE_correct_witness:
  "Coins_IsAllGTE [\<lparr>Denom = ''atom'', Amount = 7\<rparr>] [\<lparr>Denom = ''atom'', Amount = 5\<rparr>] = Inr True"
proof -
  have "Coins_IsValid [\<lparr>Denom = ''atom'', Amount = 7\<rparr>]" "Coins_IsValid [\<lparr>Denom = ''atom'', Amount = 5\<rparr>]"
    by code_simp+
  then show ?thesis using Coins_IsAllGTE_correct by fastforce
qed

subsection \<open>Maximum and minimum\<close>

lemma Max_loop_acc: "Coins_Max_loop mx as bs = mx @ Coins_Max_loop [] as bs"
proof (induction "length as + length bs" arbitrary: mx as bs rule: less_induct)
  case less
  show ?case
  proof (cases "as = [] \<or> bs = []")
    case False
    then obtain a as' b bs' where ab: "as = a # as'" "bs = b # bs'" by (meson neq_Nil_conv)
    have "Coins_Max_loop x as' (b # bs') = x @ Coins_Max_loop [] as' (b # bs')"
      "Coins_Max_loop x as' bs' = x @ Coins_Max_loop [] as' bs'"
      "Coins_Max_loop x (a # as') bs' = x @ Coins_Max_loop [] (a # as') bs'" for x
      by (rule less; simp add: ab)+
    note this [of "mx @ [x]" for x] this [of "[x]" for x]
    then show ?thesis by (simp add: ab)
  qed (cases as; cases bs; simp)
qed

lemma Min_loop_acc: "Coins_Min_loop mn as bs = mn @ Coins_Min_loop [] as bs"
proof (induction "length as + length bs" arbitrary: mn as bs rule: less_induct)
  case less
  show ?case
  proof (cases "as = [] \<or> bs = []")
    case False
    then obtain a as' b bs' where ab: "as = a # as'" "bs = b # bs'" by (meson neq_Nil_conv)
    have "Coins_Min_loop x as' (b # bs') = x @ Coins_Min_loop [] as' (b # bs')"
      "Coins_Min_loop x as' bs' = x @ Coins_Min_loop [] as' bs'"
      "Coins_Min_loop x (a # as') bs' = x @ Coins_Min_loop [] (a # as') bs'" for x
      by (rule less; simp add: ab)+
    note this [of "mn @ [x]" for x] this [of "[x]" for x] this [of mn]
    then show ?thesis by (simp add: ab Let_def)
  qed (cases as; cases bs; simp)
qed

lemma Max_loop_simps:
  "Coins_Max_loop [] [] bs = bs"
  "Coins_Max_loop [] (a # as) [] = a # as"
  "Denom a < Denom b \<Longrightarrow> Coins_Max_loop [] (a # as) (b # bs) = a # Coins_Max_loop [] as (b # bs)"
  "Denom b < Denom a \<Longrightarrow> Coins_Max_loop [] (a # as) (b # bs) = b # Coins_Max_loop [] (a # as) bs"
  "Denom a = Denom b \<Longrightarrow> Coins_Max_loop [] (a # as) (b # bs)
     = (if Amount b > Amount a then b else a) # Coins_Max_loop [] as bs"
  using Max_loop_acc [of "[a]" as "b # bs"] Max_loop_acc [of "[b]" "a # as" bs]
    Max_loop_acc [of "[if Amount b > Amount a then b else a]" as bs]
  by (auto simp del: Coins_Max_loop.simps(3) simp: Coins_Max_loop.simps(3) [of "[]"])

lemma Min_loop_simps:
  "Coins_Min_loop [] [] bs = []"
  "Coins_Min_loop [] (a # as) [] = []"
  "Denom a < Denom b \<Longrightarrow> Coins_Min_loop [] (a # as) (b # bs) = Coins_Min_loop [] as (b # bs)"
  "Denom b < Denom a \<Longrightarrow> Coins_Min_loop [] (a # as) (b # bs) = Coins_Min_loop [] (a # as) bs"
  "Denom a = Denom b \<Longrightarrow> Coins_Min_loop [] (a # as) (b # bs)
     = (if min (Amount a) (Amount b) = 0 then [] else [if Amount b < Amount a then b else a])
       @ Coins_Min_loop [] as bs"
  using Min_loop_acc [of "[if Amount b < Amount a then b else a]" as bs]
  by (auto simp: Let_def min_def)

declare Coins_Max_loop.simps [simp del] Coins_Min_loop.simps [simp del]

lemma valid_coins_Cons:
  "valid_coins (c # cs) \<longleftrightarrow> reDnm (Denom c) \<and> 0 < Amount c \<and> (\<forall>x \<in> Denom ` set cs. Denom c < x) \<and> valid_coins cs"
  by (auto simp: valid_coins_def)

lemma Max_loop_denoms: "Denom ` set (Coins_Max_loop [] as bs) = Denom ` set as \<union> Denom ` set bs"
  by (induction as bs rule: coins.merge_induct) (auto simp: Max_loop_simps)

lemma Min_loop_denoms: "Denom ` set (Coins_Min_loop [] as bs) \<subseteq> Denom ` set as \<inter> Denom ` set bs"
  by (induction as bs rule: coins.merge_induct) (auto simp: Min_loop_simps)

lemma Max_loop_valid: "valid_coins as \<Longrightarrow> valid_coins bs \<Longrightarrow> valid_coins (Coins_Max_loop [] as bs)"
proof (induction as bs rule: coins.merge_induct)
  case (less a as b bs)
  then show ?case by (auto simp: Max_loop_simps valid_coins_Cons Max_loop_denoms dest: order.strict_trans)
next
  case (greater a as b bs)
  then show ?case by (auto simp: Max_loop_simps valid_coins_Cons Max_loop_denoms dest: order.strict_trans)
next
  case (equal a as b bs)
  then show ?case by (auto simp: Max_loop_simps valid_coins_Cons Max_loop_denoms)
qed (simp_all add: Max_loop_simps)

lemma Min_loop_valid: "valid_coins as \<Longrightarrow> valid_coins bs \<Longrightarrow> valid_coins (Coins_Min_loop [] as bs)"
proof (induction as bs rule: coins.merge_induct)
  case (equal a as b bs)
  have "\<forall>x \<in> Denom ` set (Coins_Min_loop [] as bs). Denom b < x"
    using Min_loop_denoms [of as bs] equal.prems by (auto simp: valid_coins_Cons)
  then show ?case using equal by (simp add: Min_loop_simps valid_coins_Cons)
qed (simp_all add: Min_loop_simps valid_coins_Cons)

lemma valid_coins_head_absent:
  "valid_coins (c # cs) \<Longrightarrow> coin_total cs (Denom c) = 0"
  "valid_coins (c # cs) \<Longrightarrow> d < Denom c \<Longrightarrow> coin_total cs d = 0"
  by (rule total_of_absent; force simp: valid_coins_Cons)+

lemma Max_loop_total:
  "valid_coins as \<Longrightarrow> valid_coins bs \<Longrightarrow>
     coin_total (Coins_Max_loop [] as bs) d = max (coin_total as d) (coin_total bs d)"
proof (induction as bs rule: coins.merge_induct)
  case (nil_left bs)
  then show ?case using valid_total_nonneg [of bs d] by (simp add: Max_loop_simps)
next
  case (nil_right a as)
  then show ?case using valid_total_nonneg [of "a # as" d] by (simp add: Max_loop_simps)
next
  case (less a as b bs)
  then show ?case
    using valid_coins_head_absent(1) [of a as] valid_coins_head_absent(2) [of b bs "Denom a"]
    by (auto simp: Max_loop_simps valid_coins_Cons)
next
  case (greater a as b bs)
  then show ?case
    using valid_coins_head_absent(1) [of b bs] valid_coins_head_absent(2) [of a as "Denom b"]
    by (auto simp: Max_loop_simps valid_coins_Cons)
next
  case (equal a as b bs)
  then show ?case
    using valid_coins_head_absent(1) [of b bs] valid_coins_head_absent(1) [of a as]
    by (auto simp: Max_loop_simps valid_coins_Cons)
qed

lemma Min_loop_total:
  "valid_coins as \<Longrightarrow> valid_coins bs \<Longrightarrow>
     coin_total (Coins_Min_loop [] as bs) d = min (coin_total as d) (coin_total bs d)"
proof (induction as bs rule: coins.merge_induct)
  case (nil_left bs)
  then show ?case using valid_total_nonneg [of bs d] by (simp add: Min_loop_simps)
next
  case (nil_right a as)
  then show ?case using valid_total_nonneg [of "a # as" d] by (simp add: Min_loop_simps)
next
  case (less a as b bs)
  then show ?case
    using valid_coins_head_absent(1) [of a as] valid_coins_head_absent(2) [of b bs "Denom a"]
    by (auto simp: Min_loop_simps valid_coins_Cons)
next
  case (greater a as b bs)
  then show ?case
    using valid_coins_head_absent(1) [of b bs] valid_coins_head_absent(2) [of a as "Denom b"]
    by (auto simp: Min_loop_simps valid_coins_Cons)
next
  case (equal a as b bs)
  then show ?case
    using valid_coins_head_absent(1) [of b bs] valid_coins_head_absent(1) [of a as]
    by (auto simp: Min_loop_simps valid_coins_Cons)
qed

text \<open>
  C22: \<open>Max\<close> and \<open>Min\<close> of valid coin sets never panic and return the valid coin sets of the
  pointwise maximum and minimum; the law \<open>a + b = min a b + max a b\<close> of the source comment
  holds of the code.
\<close>

theorem Coins_Max_Min_correct:
  assumes "Coins_IsValid as" "Coins_IsValid bs"
  shows "\<exists>mx mn. Coins_Max as bs = Inr mx \<and> Coins_Min as bs = Inr mn \<and>
           Coins_IsValid mx \<and> (\<forall>d. coin_total mx d = max (coin_total as d) (coin_total bs d)) \<and>
           Coins_IsValid mn \<and> (\<forall>d. coin_total mn d = min (coin_total as d) (coin_total bs d)) \<and>
           (coins_ok as \<and> coins_ok bs \<longrightarrow> Coins_Add mn mx = Coins_Add as bs)"
proof -
  let ?mx = "Coins_Max_loop [] as bs" and ?mn = "Coins_Min_loop [] as bs"
  have v: "valid_coins as" "valid_coins bs" using assms by simp_all
  have vm: "valid_coins ?mx" "valid_coins ?mn" using v Max_loop_valid Min_loop_valid by blast+
  have tot: "coin_total ?mx d = max (coin_total as d) (coin_total bs d)"
    "coin_total ?mn d = min (coin_total as d) (coin_total bs d)" for d
    using v Max_loop_total Min_loop_total by blast+
  have "Coins_Add ?mn ?mx = Coins_Add as bs" if ok: "coins_ok as" "coins_ok bs"
  proof -
    note s = valid_coins_strict [OF v(1)] valid_coins_strict [OF v(2)]
    have okm: "coins_ok ?mx" "coins_ok ?mn"
      using coins_ok_total [OF s(1) ok(1)] coins_ok_total [OF s(2) ok(2)] tot
      by (auto simp: coins_ok_iff [OF valid_coins_strict [OF vm(1)]]
          coins_ok_iff [OF valid_coins_strict [OF vm(2)]] max_def min_def)
    have sum: "coin_total ?mn d + coin_total ?mx d = coin_total as d + coin_total bs d" for d
      using tot by simp
    have iff: "Coins_Add ?mn ?mx = Inr r \<longleftrightarrow> Coins_Add as bs = Inr r" for r
      using Coins_Add_iff [OF vm(2,1) okm(2,1), of r] Coins_Add_iff [OF v ok, of r] sum by simp
    show ?thesis
    proof (cases "Coins_Add as bs")
      case (Inl e)
      then obtain e' where "Coins_Add ?mn ?mx = Inl e'" using iff by (cases "Coins_Add ?mn ?mx") auto
      then show ?thesis using Inl Coins_Add_error [OF v Inl] Coins_Add_error [OF vm(2,1)] by simp
    qed (use iff in simp)
  qed
  then show ?thesis using NewCoins_valid vm tot by (auto simp: Coins_Max_def Coins_Min_def)
qed

theorem Coins_Max_Min_correct_witness:
  "let as = [\<lparr>Denom = ''atom'', Amount = 2\<rparr>, \<lparr>Denom = ''cony'', Amount = 3\<rparr>];
       bs = [\<lparr>Denom = ''cony'', Amount = 1\<rparr>] in
   Coins_IsValid as \<and> Coins_IsValid bs \<and> coins_ok as \<and> coins_ok bs \<and>
   (\<exists>mx mn. Coins_Max as bs = Inr mx \<and> Coins_Min as bs = Inr mn \<and>
      coin_total mx ''cony'' = 3 \<and> coin_total mn ''cony'' = 1 \<and> Coins_Add mn mx = Coins_Add as bs)"
proof -
  let ?as = "[\<lparr>Denom = ''atom'', Amount = 2\<rparr>, \<lparr>Denom = ''cony'', Amount = 3\<rparr>]"
  let ?bs = "[\<lparr>Denom = ''cony'', Amount = 1\<rparr>]"
  have v: "Coins_IsValid ?as" "Coins_IsValid ?bs" by code_simp+
  have ok: "coins_ok ?as" "coins_ok ?bs" by (simp_all add: coins_ok_def)
  show ?thesis using v ok Coins_Max_Min_correct [OF v] by (fastforce simp: Let_def)
qed

subsection \<open>Sums and differences of coin sets\<close>

lemma Coins_Sub_below:
  assumes "valid_coins as" "coins_ok as" "strict_denoms Denom bs" "\<And>b. b \<in> set bs \<Longrightarrow> reDnm (Denom b)"
    and le: "\<And>d. 0 \<le> coin_total bs d \<and> coin_total bs d \<le> coin_total as d"
  obtains cs where "Coins_Sub as bs = Inr cs" "valid_coins cs" "coins_ok cs"
    "\<And>d. coin_total cs d = coin_total as d - coin_total bs d"
proof -
  note s = valid_coins_strict [OF assms(1)] assms(3)
  have bound: "\<bar>coin_total as d + coin_total (Coins_negative bs) d\<bar> < 2 ^ 256" for d
    using coins_ok_total [OF s(1) assms(2), of d] le [of d] by simp
  then obtain r where r: "safeAdd_loop [] as (Coins_negative bs) = Inr r"
    using coins.merge_defined [of as "Coins_negative bs"] s by auto
  have total: "coin_total r d = coin_total as d - coin_total bs d" for d
    using coins.merge_total [OF r, of d] by simp
  have strict: "strict_denoms Denom r" using coins.merge_strict [OF r] s by simp
  have neg: "\<not> Coins_IsAnyNegative r" using any_negative_iff [OF strict] total le by (simp add: not_less)
  have "0 < Amount c" if "c \<in> set r" for c
    using that coins.merge_nonzero [OF r] neg by (auto simp: Coins_IsAnyNegative_def list_ex_iff not_less le_less)
  moreover have "reDnm (Denom c)" if "c \<in> set r" for c
  proof -
    have "Denom c \<in> Denom ` set as \<union> Denom ` set bs" using that coins.merge_denoms [OF r] by auto
    then show ?thesis using assms(4) valid_coins_denom [OF assms(1)] by auto
  qed
  ultimately have "valid_coins r" using strict by (auto simp: valid_coins_def list_all_iff)
  moreover have "coins_ok r" using bound total by (simp add: coins_ok_iff [OF strict])
  moreover have "Coins_Sub as bs = Inr r"
    using s r neg by (simp add: Coins_Sub_def Coins_SafeSub_def safeAdd_strict)
  ultimately show thesis using that total by blast
qed

lemma Coins_Add_facts:
  assumes "valid_coins as" "valid_coins bs" "coins_ok as" "coins_ok bs" "Coins_Add as bs = Inr cs"
  shows "valid_coins cs" "coins_ok cs" "coin_total cs d = coin_total as d + coin_total bs d"
  using Coins_Add_iff [OF assms(1-4), of cs] assms(5) by auto

lemma Coins_Add_below:
  assumes "valid_coins as" "valid_coins bs" "coins_ok as" "coins_ok bs"
    and "\<And>d. coin_total as d + coin_total bs d < 2 ^ 256"
  obtains cs where "Coins_Add as bs = Inr cs" "valid_coins cs" "coins_ok cs"
    "\<And>d. coin_total cs d = coin_total as d + coin_total bs d"
proof (cases "Coins_Add as bs")
  case (Inl e)
  then have "is_panic (Coins_Add as bs)" using Coins_Add_error [OF assms(1,2)] by simp
  then show thesis using Coins_Add_iff [OF assms(1-4)] assms(5) by (meson not_less)
next
  case (Inr cs)
  then show thesis using that Coins_Add_facts [OF assms(1-4) Inr] by blast
qed

lemma Coins_Sub_facts:
  assumes "valid_coins as" "valid_coins bs" "coins_ok as" "coins_ok bs" "Coins_Sub as bs = Inr cs"
  shows "valid_coins cs" "coins_ok cs" "coin_total cs d = coin_total as d - coin_total bs d"
proof -
  show v: "valid_coins cs" and t: "coin_total cs d = coin_total as d - coin_total bs d" for d
    using Coins_Sub_iff [OF assms(1-4), of cs] assms(5) by auto
  show "coins_ok cs"
    unfolding coins_ok_iff [OF valid_coins_strict [OF v]] t
  proof
    fix d
    show "\<bar>coin_total as d - coin_total bs d\<bar> < 2 ^ 256"
      using coins_ok_total [OF valid_coins_strict [OF assms(1)] assms(3), of d] valid_total_nonneg [OF v, of d]
        valid_total_nonneg [OF assms(2), of d] t [of d] by simp
  qed
qed

lemma valid_single: "valid_coins [c] \<longleftrightarrow> reDnm (Denom c) \<and> 0 < Amount c"
  by (simp add: valid_coins_Cons)

lemma coins_ok_single: "coins_ok [c] \<longleftrightarrow> \<bar>Amount c\<bar> < 2 ^ 256"
  by (simp add: coins_ok_def)

lemma NewCoin_eq [simp]: "NewCoin d a = Inr c \<longleftrightarrow> c = \<lparr>Denom = d, Amount = a\<rparr> \<and> reDnm d \<and> 0 \<le> a"
  by (auto simp: NewCoin_def Coin_Validate_def Let_def guardE_def Int_IsNegative_def ValidateDenom_def sgn_if split: if_splits)

lemma valid_head:
  assumes "valid_coins (c # cs)" "coins_ok (c # cs)"
  shows "reDnm (Denom c)" "0 < Amount c" "Amount c < 2 ^ 256" "valid_coins cs" "coins_ok cs" "coin_total cs (Denom c) = 0"
  using assms valid_coins_head_absent(1) [OF assms(1)] by (simp_all add: valid_coins_Cons coins_ok_def)

end
