(* ===== verification/DecCoin.thy ===== *)
theory DecCoin
  imports Coin_Props Decimal_Props
begin

section \<open>Decimal coins and units: types/dec\_coin.go, types/denom.go\<close>

text \<open>
  \<open>DecCoin\<close> pairs a denomination with a decimal amount; \<open>DecCoins\<close> repeats the operations
  of \<open>Coins\<close> on decimal amounts and adds multiplication, division and truncation. The
  package-level registry of denomination units is passed explicitly. Texts are ASCII: the
  Unicode spaces of \<open>strings.TrimSpace\<close> are not modelled.
\<close>

record DecCoin =
  dDenom :: string
  dAmount :: SdkDec

type_synonym DecCoins = "DecCoin list"

definition Int_ToDec :: "SdkInt \<Rightarrow> SdkDec result" where
  "Int_ToDec i = NewDecFromInt i"

subsection \<open>One decimal coin\<close>

definition DecCoin_IsZero :: "DecCoin \<Rightarrow> bool" where
  "DecCoin_IsZero coin \<longleftrightarrow> Dec_IsZero (dAmount coin)"

definition DecCoin_IsPositive :: "DecCoin \<Rightarrow> bool" where
  "DecCoin_IsPositive coin \<longleftrightarrow> Dec_IsPositive (dAmount coin)"

definition DecCoin_IsNegative :: "DecCoin \<Rightarrow> bool" where
  "DecCoin_IsNegative coin \<longleftrightarrow> Dec_IsNegative (dAmount coin)"

definition NewDecCoin :: "string \<Rightarrow> SdkInt \<Rightarrow> DecCoin result" where
  "NewDecCoin denom amount =
     bindE (NewCoin denom amount) (\<lambda>coin.
     bindE (Int_ToDec (Amount coin)) (\<lambda>a. Inr \<lparr>dDenom = Denom coin, dAmount = a\<rparr>))"

definition NewDecCoinFromDec :: "string \<Rightarrow> SdkDec \<Rightarrow> DecCoin result" where
  "NewDecCoinFromDec denom amount =
     bindE (mustValidateDenom denom) (\<lambda>_.
       if Dec_IsNegative amount then Inl (Panic ''negative decimal coin amount'')
       else Inr \<lparr>dDenom = denom, dAmount = amount\<rparr>)"

definition NewDecCoinFromCoin :: "Coin \<Rightarrow> DecCoin result" where
  "NewDecCoinFromCoin coin =
     (case Coin_Validate coin of
        Inl _ \<Rightarrow> Inl (Panic ''invalid coin'')
      | Inr _ \<Rightarrow> bindE (Int_ToDec (Amount coin)) (\<lambda>a. Inr \<lparr>dDenom = Denom coin, dAmount = a\<rparr>))"

definition NewInt64DecCoin :: "string \<Rightarrow> int64 \<Rightarrow> DecCoin result" where
  "NewInt64DecCoin denom amount = NewDecCoin denom (NewInt amount)"

definition DecCoin_same_denom :: "DecCoin \<Rightarrow> DecCoin \<Rightarrow> unit result" where
  "DecCoin_same_denom coin other =
     guardE (dDenom coin = dDenom other) (Panic ''invalid coin denominations'')"

definition DecCoin_IsGTE :: "DecCoin \<Rightarrow> DecCoin \<Rightarrow> bool result" where
  "DecCoin_IsGTE coin other =
     bindE (DecCoin_same_denom coin other) (\<lambda>_. Inr (\<not> Dec_LT (dAmount coin) (dAmount other)))"

definition DecCoin_IsLT :: "DecCoin \<Rightarrow> DecCoin \<Rightarrow> bool result" where
  "DecCoin_IsLT coin other =
     bindE (DecCoin_same_denom coin other) (\<lambda>_. Inr (Dec_LT (dAmount coin) (dAmount other)))"

definition DecCoin_IsEqual :: "DecCoin \<Rightarrow> DecCoin \<Rightarrow> bool result" where
  "DecCoin_IsEqual coin other =
     bindE (DecCoin_same_denom coin other) (\<lambda>_. Inr (dAmount coin = dAmount other))"

definition DecCoin_Add :: "DecCoin \<Rightarrow> DecCoin \<Rightarrow> DecCoin result" where
  "DecCoin_Add coin coinB =
     (if dDenom coin \<noteq> dDenom coinB then Inl (Panic ''coin denom different'')
      else bindE (Dec_Add (dAmount coin) (dAmount coinB)) (\<lambda>a.
        Inr \<lparr>dDenom = dDenom coin, dAmount = a\<rparr>))"

definition DecCoin_Sub :: "DecCoin \<Rightarrow> DecCoin \<Rightarrow> DecCoin result" where
  "DecCoin_Sub coin coinB =
     (if dDenom coin \<noteq> dDenom coinB then Inl (Panic ''coin denom different'')
      else bindE (Dec_Sub (dAmount coin) (dAmount coinB)) (\<lambda>a.
        let res = \<lparr>dDenom = dDenom coin, dAmount = a\<rparr> in
        if DecCoin_IsNegative res then Inl (Panic ''negative decimal coin amount'') else Inr res))"

definition DecCoin_TruncateDecimal :: "DecCoin \<Rightarrow> (Coin \<times> DecCoin) result" where
  "DecCoin_TruncateDecimal coin =
     bindE (Dec_TruncateInt (dAmount coin)) (\<lambda>truncated.
     bindE (Int_ToDec truncated) (\<lambda>t.
     bindE (Dec_Sub (dAmount coin) t) (\<lambda>change.
     bindE (NewCoin (dDenom coin) truncated) (\<lambda>c.
     bindE (NewDecCoinFromDec (dDenom coin) change) (\<lambda>dc. Inr (c, dc))))))"

definition DecCoin_String :: "DecCoin \<Rightarrow> string" where
  "DecCoin_String coin = Dec_String (dAmount coin) @ dDenom coin"

definition DecCoin_Validate :: "DecCoin \<Rightarrow> unit result" where
  "DecCoin_Validate coin =
     bindE (ValidateDenom (dDenom coin)) (\<lambda>_.
       guardE (\<not> DecCoin_IsNegative coin) (Error ErrPlain ''decimal coin amount cannot be negative''))"

definition DecCoin_IsValid :: "DecCoin \<Rightarrow> bool" where
  "DecCoin_IsValid coin \<longleftrightarrow> DecCoin_Validate coin = Inr ()"

subsection \<open>Sets of decimal coins\<close>

definition DecCoins_Sort :: "DecCoins \<Rightarrow> DecCoins" where
  "DecCoins_Sort coins = sort_key dDenom coins"

definition removeZeroDecCoins :: "DecCoins \<Rightarrow> DecCoins" where
  "removeZeroDecCoins coins = filter (\<lambda>c. \<not> DecCoin_IsZero c) coins"

definition sanitizeDecCoins :: "DecCoins \<Rightarrow> DecCoins" where
  "sanitizeDecCoins decCoins =
     (let newDecCoins = removeZeroDecCoins decCoins in
      if length newDecCoins = 0 then [] else DecCoins_Sort newDecCoins)"

definition DecCoins_Validate_single :: "DecCoin \<Rightarrow> unit result" where
  "DecCoins_Validate_single coin =
     bindE (ValidateDenom (dDenom coin)) (\<lambda>_.
       guardE (DecCoin_IsPositive coin) (Error ErrPlain ''coin amount is not positive''))"

fun DecCoins_Validate_loop :: "string \<Rightarrow> string set \<Rightarrow> DecCoins \<Rightarrow> unit result" where
  "DecCoins_Validate_loop lowDenom seenDenoms [] = Inr ()"
| "DecCoins_Validate_loop lowDenom seenDenoms (coin # rest) =
     (if dDenom coin \<in> seenDenoms then Inl (Error ErrPlain ''duplicate denomination'')
      else
        bindE (ValidateDenom (dDenom coin)) (\<lambda>_.
        if dDenom coin \<le> lowDenom then Inl (Error ErrPlain ''denomination is not sorted'')
        else if \<not> DecCoin_IsPositive coin then Inl (Error ErrPlain ''coin amount is not positive'')
        else DecCoins_Validate_loop (dDenom coin) (insert (dDenom coin) seenDenoms) rest))"

fun DecCoins_Validate :: "DecCoins \<Rightarrow> unit result" where
  "DecCoins_Validate [] = Inr ()"
| "DecCoins_Validate [c] = DecCoins_Validate_single c"
| "DecCoins_Validate (c # rest) =
     bindE (DecCoins_Validate_single c) (\<lambda>_. DecCoins_Validate_loop (dDenom c) {dDenom c} rest)"

definition DecCoins_IsValid :: "DecCoins \<Rightarrow> bool" where
  "DecCoins_IsValid coins \<longleftrightarrow> DecCoins_Validate coins = Inr ()"

definition NewDecCoins :: "DecCoins \<Rightarrow> DecCoins result" where
  "NewDecCoins decCoins =
     (let newDecCoins = sanitizeDecCoins decCoins in
      case DecCoins_Validate newDecCoins of
        Inl _ \<Rightarrow> Inl (Panic ''invalid coin set'') | Inr _ \<Rightarrow> Inr newDecCoins)"

text \<open>
  The slice is made with the length of the argument and filled from the sanitized set, so
  what is past the end of that set stays a zero \<open>DecCoin\<close> (whose nil amount is a 0 here).
\<close>

definition NewDecCoinsFromCoins :: "Coins \<Rightarrow> DecCoins result" where
  "NewDecCoinsFromCoins coins =
     bindE (NewCoins coins) (\<lambda>newCoins.
     bindE (mapE NewDecCoinFromCoin newCoins) (\<lambda>filled.
       Inr (filled @ replicate (length coins - length newCoins) \<lparr>dDenom = [], dAmount = 0\<rparr>)))"

fun DecCoins_String :: "DecCoins \<Rightarrow> string" where
  "DecCoins_String [] = ''''"
| "DecCoins_String [c] = DecCoin_String c"
| "DecCoins_String (c # rest) = DecCoin_String c @ '','' @ DecCoins_String rest"

function dec_safeAdd_loop :: "DecCoins \<Rightarrow> DecCoins \<Rightarrow> DecCoins \<Rightarrow> DecCoins result" where
  "dec_safeAdd_loop acc [] [] = Inr acc"
| "dec_safeAdd_loop acc [] (b # bs) = Inr (acc @ removeZeroDecCoins (b # bs))"
| "dec_safeAdd_loop acc (a # as) [] = Inr (acc @ removeZeroDecCoins (a # as))"
| "dec_safeAdd_loop acc (a # as) (b # bs) =
     (if dDenom a < dDenom b then
        dec_safeAdd_loop (if \<not> DecCoin_IsZero a then acc @ [a] else acc) as (b # bs)
      else if dDenom a = dDenom b then
        bindE (DecCoin_Add a b) (\<lambda>res.
          dec_safeAdd_loop (if \<not> DecCoin_IsZero res then acc @ [res] else acc) as bs)
      else
        dec_safeAdd_loop (if \<not> DecCoin_IsZero b then acc @ [b] else acc) (a # as) bs)"
  by pat_completeness auto
termination
  by (relation "measure (\<lambda>(acc, as, bs). length as + length bs)") auto

definition DecCoins_safeAdd :: "DecCoins \<Rightarrow> DecCoins \<Rightarrow> DecCoins result" where
  "DecCoins_safeAdd coins coinsB = dec_safeAdd_loop [] coins coinsB"

definition DecCoins_Add :: "DecCoins \<Rightarrow> DecCoins \<Rightarrow> DecCoins result" where
  "DecCoins_Add coins coinsB = DecCoins_safeAdd coins coinsB"

definition DecCoins_negative :: "DecCoins \<Rightarrow> DecCoins" where
  "DecCoins_negative coins = map (\<lambda>c. \<lparr>dDenom = dDenom c, dAmount = Dec_Neg (dAmount c)\<rparr>) coins"

definition DecCoins_IsAnyNegative :: "DecCoins \<Rightarrow> bool" where
  "DecCoins_IsAnyNegative coins \<longleftrightarrow> list_ex DecCoin_IsNegative coins"

definition DecCoins_SafeSub :: "DecCoins \<Rightarrow> DecCoins \<Rightarrow> (DecCoins \<times> bool) result" where
  "DecCoins_SafeSub coins coinsB =
     bindE (DecCoins_safeAdd coins (DecCoins_negative coinsB)) (\<lambda>diff.
       Inr (diff, DecCoins_IsAnyNegative diff))"

definition DecCoins_Sub :: "DecCoins \<Rightarrow> DecCoins \<Rightarrow> DecCoins result" where
  "DecCoins_Sub coins coinsB =
     bindE (DecCoins_SafeSub coins coinsB) (\<lambda>(diff, hasNeg).
       if hasNeg then Inl (Panic ''negative coin amount'') else Inr diff)"

function DecCoins_AmountOf :: "DecCoins \<Rightarrow> string \<Rightarrow> SdkDec result" where
  "DecCoins_AmountOf coins denom =
     bindE (mustValidateDenom denom) (\<lambda>_.
       if length coins = 0 then Inr ZeroDec
       else if length coins = 1 then
         (let coin = coins ! 0 in if dDenom coin = denom then Inr (dAmount coin) else Inr ZeroDec)
       else
         let midIdx = length coins div 2; coin = coins ! midIdx in
         if denom < dDenom coin then DecCoins_AmountOf (take midIdx coins) denom
         else if denom = dDenom coin then Inr (dAmount coin)
         else DecCoins_AmountOf (drop (midIdx + 1) coins) denom)"
  by pat_completeness auto
termination
  by (relation "measure (\<lambda>(coins, denom). length coins)") auto

declare DecCoins_AmountOf.simps [simp del]

definition DecCoins_Intersect :: "DecCoins \<Rightarrow> DecCoins \<Rightarrow> DecCoins result" where
  "DecCoins_Intersect coins coinsB =
     bindE (mapE (\<lambda>coin. bindE (DecCoins_AmountOf coinsB (dDenom coin)) (\<lambda>a.
              Inr \<lparr>dDenom = dDenom coin, dAmount = MinDec (dAmount coin) a\<rparr>)) coins)
       (\<lambda>res. Inr (removeZeroDecCoins res))"

text \<open>
  The loop shared by the four scalings: each coin's new amount, when not zero, is added to
  the result.
\<close>

definition DecCoins_scale :: "(SdkDec \<Rightarrow> SdkDec result) \<Rightarrow> DecCoins \<Rightarrow> DecCoins result" where
  "DecCoins_scale f coins =
     foldE (\<lambda>coin res. bindE (f (dAmount coin)) (\<lambda>a.
        let product = \<lparr>dDenom = dDenom coin, dAmount = a\<rparr> in
        if \<not> DecCoin_IsZero product then DecCoins_Add res [product] else Inr res)) coins []"

definition DecCoins_MulDec :: "DecCoins \<Rightarrow> SdkDec \<Rightarrow> DecCoins result" where
  "DecCoins_MulDec coins d = DecCoins_scale (\<lambda>a. Dec_Mul a d) coins"

definition DecCoins_MulDecTruncate :: "DecCoins \<Rightarrow> SdkDec \<Rightarrow> DecCoins result" where
  "DecCoins_MulDecTruncate coins d = DecCoins_scale (\<lambda>a. Dec_MulTruncate a d) coins"

definition DecCoins_QuoDec :: "DecCoins \<Rightarrow> SdkDec \<Rightarrow> DecCoins result" where
  "DecCoins_QuoDec coins d =
     (if Dec_IsZero d then Inl (Panic ''invalid zero decimal'')
      else DecCoins_scale (\<lambda>a. Dec_Quo a d) coins)"

definition DecCoins_QuoDecTruncate :: "DecCoins \<Rightarrow> SdkDec \<Rightarrow> DecCoins result" where
  "DecCoins_QuoDecTruncate coins d =
     (if Dec_IsZero d then Inl (Panic ''invalid zero decimal'')
      else DecCoins_scale (\<lambda>a. Dec_QuoTruncate a d) coins)"

definition DecCoins_TruncateDecimal :: "DecCoins \<Rightarrow> (Coins \<times> DecCoins) result" where
  "DecCoins_TruncateDecimal coins =
     foldE (\<lambda>coin (truncatedCoins, changeCoins).
       bindE (DecCoin_TruncateDecimal coin) (\<lambda>(truncated, change).
       bindE (if \<not> Coin_IsZero truncated then Coins_Add truncatedCoins [truncated]
              else Inr truncatedCoins) (\<lambda>ts.
       bindE (if \<not> DecCoin_IsZero change then DecCoins_Add changeCoins [change]
              else Inr changeCoins) (\<lambda>cs. Inr (ts, cs))))) coins ([], [])"

definition DecCoins_Empty :: "DecCoins \<Rightarrow> bool" where
  "DecCoins_Empty coins \<longleftrightarrow> length coins = 0"

definition DecCoins_IsEqual :: "DecCoins \<Rightarrow> DecCoins \<Rightarrow> bool result" where
  "DecCoins_IsEqual coins coinsB =
     (if length coins \<noteq> length coinsB then Inr False
      else allE (\<lambda>(a, b). DecCoin_IsEqual a b) (zip (DecCoins_Sort coins) (DecCoins_Sort coinsB)))"

definition DecCoins_IsZero :: "DecCoins \<Rightarrow> bool" where
  "DecCoins_IsZero coins \<longleftrightarrow> list_all (\<lambda>c. Dec_IsZero (dAmount c)) coins"

definition DecCoins_IsAllPositive :: "DecCoins \<Rightarrow> bool" where
  "DecCoins_IsAllPositive coins \<longleftrightarrow>
     (if length coins = 0 then False else list_all DecCoin_IsPositive coins)"

subsection \<open>Parsing\<close>


text \<open>The amount pattern \<open>[[:digit:]]+(?:\.[[:digit:]]+)?|\.[[:digit:]]+\<close>.\<close>

definition reDecAmt :: "string \<Rightarrow> bool" where
  "reDecAmt s \<longleftrightarrow>
     (let ip = takeWhile is_digit s; rest = dropWhile is_digit s in
      (ip \<noteq> [] \<and> rest = []) \<or>
      (case rest of c # fp \<Rightarrow> c = CHR ''.'' \<and> fp \<noteq> [] \<and> list_all is_digit fp | [] \<Rightarrow> False))"

text \<open>
  The pattern of a decimal coin, an amount, optional spaces and a denomination. The three
  parts use disjoint characters at their borders, so the match is unique.
\<close>

definition reDecCoin :: "string \<Rightarrow> (string \<times> string) option" where
  "reDecCoin s =
     (let amt = takeWhile (\<lambda>c. is_digit c \<or> c = CHR ''.'') s;
          rest = dropWhile is_space (dropWhile (\<lambda>c. is_digit c \<or> c = CHR ''.'') s)
      in if reDecAmt amt \<and> reDnm rest then Some (amt, rest) else None)"

definition ParseDecCoin :: "string \<Rightarrow> DecCoin result" where
  "ParseDecCoin coinStr0 =
     (let coinStr = TrimSpace coinStr0 in
      case reDecCoin coinStr of
        None \<Rightarrow> Inl (Error ErrPlain ''invalid decimal coin expression'')
      | Some (amountStr, denomStr) \<Rightarrow>
          bindE (NewDecFromStr amountStr) (\<lambda>amount.
          bindE (ValidateDenom denomStr) (\<lambda>_. NewDecCoinFromDec denomStr amount)))"

text \<open>The nil slice returned for an empty text is kept apart, as \<open>None\<close>.\<close>

definition ParseDecCoins :: "string \<Rightarrow> DecCoins option result" where
  "ParseDecCoins coinsStr0 =
     (let coinsStr = TrimSpace coinsStr0 in
      if length coinsStr = 0 then Inr None
      else
        bindE (mapE ParseDecCoin (split_on CHR '','' coinsStr)) (\<lambda>decCoins.
          let newDecCoins = sanitizeDecCoins decCoins in
          bindE (DecCoins_Validate newDecCoins) (\<lambda>_. Inr (Some newDecCoins))))"

subsection \<open>Units\<close>

record DenomRegistry =
  denomUnits :: "string \<rightharpoonup> SdkDec"
  baseDenom :: string

definition RegisterDenom :: "DenomRegistry \<Rightarrow> string \<Rightarrow> SdkDec \<Rightarrow> DenomRegistry result" where
  "RegisterDenom r denom unt =
     bindE (ValidateDenom denom) (\<lambda>_.
       if denomUnits r denom \<noteq> None then Inl (Error ErrPlain ''denom already registered'')
       else
         let r1 = r\<lparr>denomUnits := (denomUnits r)(denom \<mapsto> unt)\<rparr> in
         if baseDenom r1 = [] \<or>
            (case denomUnits r1 (baseDenom r1) of Some u \<Rightarrow> Dec_LT unt u | None \<Rightarrow> False)
         then Inr (r1\<lparr>baseDenom := denom\<rparr>) else Inr r1)"

definition GetDenomUnit :: "DenomRegistry \<Rightarrow> string \<Rightarrow> SdkDec option" where
  "GetDenomUnit r denom = (if ValidateDenom denom \<noteq> Inr () then None else denomUnits r denom)"

definition GetBaseDenom :: "DenomRegistry \<Rightarrow> string result" where
  "GetBaseDenom r =
     (if baseDenom r = [] then Inl (Error ErrPlain ''no denom is registered'') else Inr (baseDenom r))"

definition ConvertCoin :: "DenomRegistry \<Rightarrow> Coin \<Rightarrow> string \<Rightarrow> Coin result" where
  "ConvertCoin r coin denom =
     bindE (ValidateDenom denom) (\<lambda>_.
       case GetDenomUnit r (Denom coin) of
         None \<Rightarrow> Inl (Error ErrPlain ''source denom not registered'')
       | Some srcUnit \<Rightarrow>
           (case GetDenomUnit r denom of
              None \<Rightarrow> Inl (Error ErrPlain ''destination denom not registered'')
            | Some dstUnit \<Rightarrow>
                if srcUnit = dstUnit then NewCoin denom (Amount coin)
                else
                  bindE (Int_ToDec (Amount coin)) (\<lambda>a.
                  bindE (Dec_Mul a srcUnit) (\<lambda>m.
                  bindE (Dec_Quo m dstUnit) (\<lambda>q.
                  bindE (Dec_TruncateInt q) (\<lambda>t. NewCoin denom t))))))"

definition ConvertDecCoin :: "DenomRegistry \<Rightarrow> DecCoin \<Rightarrow> string \<Rightarrow> DecCoin result" where
  "ConvertDecCoin r coin denom =
     bindE (ValidateDenom denom) (\<lambda>_.
       case GetDenomUnit r (dDenom coin) of
         None \<Rightarrow> Inl (Error ErrPlain ''source denom not registered'')
       | Some srcUnit \<Rightarrow>
           (case GetDenomUnit r denom of
              None \<Rightarrow> Inl (Error ErrPlain ''destination denom not registered'')
            | Some dstUnit \<Rightarrow>
                if srcUnit = dstUnit then NewDecCoinFromDec denom (dAmount coin)
                else
                  bindE (Dec_Mul (dAmount coin) srcUnit) (\<lambda>m.
                  bindE (Dec_Quo m dstUnit) (\<lambda>q. NewDecCoinFromDec denom q))))"

text \<open>The caller returns its argument when the conversion returns an error; a panic passes.\<close>

definition or_else :: "'a \<Rightarrow> 'a result \<Rightarrow> 'a result" where
  "or_else x r = (case r of Inl (Error _ _) \<Rightarrow> Inr x | _ \<Rightarrow> r)"

definition NormalizeCoin :: "DenomRegistry \<Rightarrow> Coin \<Rightarrow> Coin result" where
  "NormalizeCoin r coin = or_else coin (bindE (GetBaseDenom r) (\<lambda>base. ConvertCoin r coin base))"

definition NormalizeDecCoin :: "DenomRegistry \<Rightarrow> DecCoin \<Rightarrow> DecCoin result" where
  "NormalizeDecCoin r coin = or_else coin (bindE (GetBaseDenom r) (\<lambda>base. ConvertDecCoin r coin base))"

definition NormalizeCoins :: "DenomRegistry \<Rightarrow> DecCoins \<Rightarrow> Coins result" where
  "NormalizeCoins r coins =
     mapE (\<lambda>coin. bindE (NormalizeDecCoin r coin) (\<lambda>n.
        bindE (DecCoin_TruncateDecimal n) (\<lambda>(newCoin, _). Inr newCoin))) coins"

definition ParseCoinNormalized :: "DenomRegistry \<Rightarrow> string \<Rightarrow> Coin result" where
  "ParseCoinNormalized r coinStr =
     bindE (ParseDecCoin coinStr) (\<lambda>decCoin.
     bindE (NormalizeDecCoin r decCoin) (\<lambda>n.
     bindE (DecCoin_TruncateDecimal n) (\<lambda>(coin, _). Inr coin)))"

definition ParseCoinsNormalized :: "DenomRegistry \<Rightarrow> string \<Rightarrow> Coins option result" where
  "ParseCoinsNormalized r coinStr =
     bindE (ParseDecCoins coinStr) (\<lambda>coins.
       case coins of None \<Rightarrow> Inr None | Some cs \<Rightarrow> bindE (NormalizeCoins r cs) (\<lambda>x. Inr (Some x)))"

end
