(* ===== verification/DecCoin_Props.thy ===== *)
theory DecCoin_Props
  imports DecCoin
begin

section \<open>Decimal coins as amounts per denomination\<close>

text \<open>
  The merge of \<open>DecCoins\<close> satisfies the same contract as the one of \<open>Coins\<close>. On top of it:
  addition, the lookup by binary search, the scaling loops and the split of a set into
  whole coins and change.
\<close>

abbreviation dec_total :: "DecCoins \<Rightarrow> string \<Rightarrow> int" where
  "dec_total \<equiv> total_of dDenom dAmount"

definition valid_dec_coins :: "DecCoins \<Rightarrow> bool" where
  "valid_dec_coins cs \<longleftrightarrow> strict_denoms dDenom cs \<and> list_all (\<lambda>c. reDnm (dDenom c) \<and> 0 < dAmount c) cs"

text \<open>Every \<open>Dec\<close> has at most 315 bits.\<close>

definition dec_coins_ok :: "DecCoins \<Rightarrow> bool" where
  "dec_coins_ok cs \<longleftrightarrow> list_all (\<lambda>c. \<bar>dAmount c\<bar> < 2 ^ 315) cs"

lemma DecCoin_sign [simp]:
  "DecCoin_IsZero c \<longleftrightarrow> dAmount c = 0" "DecCoin_IsPositive c \<longleftrightarrow> 0 < dAmount c" "DecCoin_IsNegative c \<longleftrightarrow> dAmount c < 0"
  by (simp_all add: DecCoin_IsZero_def DecCoin_IsPositive_def DecCoin_IsNegative_def)

lemma removeZeroDecCoins_eq [simp]: "removeZeroDecCoins cs = filter (\<lambda>c. dAmount c \<noteq> 0) cs"
  by (simp add: removeZeroDecCoins_def)

subsection \<open>Validation\<close>

lemma DecCoins_Validate_loop_eq:
  "\<forall>d \<in> seen. d \<le> low \<Longrightarrow>
     DecCoins_Validate_loop low seen cs = Inr u \<longleftrightarrow>
       (\<forall>c \<in> set cs. low < dDenom c) \<and> valid_dec_coins cs"
proof (induction low seen cs rule: DecCoins_Validate_loop.induct)
  case (2 low seen coin rest)
  show ?case
  proof (cases "dDenom coin \<in> seen \<or> dDenom coin \<le> low")
    case True
    then have "dDenom coin \<le> low" using 2 by auto
    then show ?thesis by auto
  next
    case False
    then have low: "low < dDenom coin" by auto
    moreover have "\<forall>d \<in> insert (dDenom coin) seen. d \<le> dDenom coin" using low 2 by fastforce
    ultimately have "DecCoins_Validate_loop low seen (coin # rest) = Inr u \<longleftrightarrow>
        reDnm (dDenom coin) \<and> 0 < dAmount coin \<and> (\<forall>c \<in> set rest. dDenom coin < dDenom c) \<and> valid_dec_coins rest"
      using False 2 by auto
    then show ?thesis using low by (auto simp: valid_dec_coins_def dest: order.strict_trans [OF low])
  qed
qed (simp add: valid_dec_coins_def)

lemma DecCoins_Validate_eq: "DecCoins_Validate cs = Inr u \<longleftrightarrow> valid_dec_coins cs"
proof (cases cs rule: DecCoins_Validate.cases)
  case (3 c v rest)
  then show ?thesis
    by (auto simp: DecCoins_Validate_loop_eq DecCoins_Validate_single_def) (auto simp: valid_dec_coins_def)
qed (auto simp: valid_dec_coins_def DecCoins_Validate_single_def)

lemma DecCoins_IsValid_eq [simp]: "DecCoins_IsValid cs \<longleftrightarrow> valid_dec_coins cs"
  by (simp add: DecCoins_IsValid_def DecCoins_Validate_eq)

lemma valid_dec_strict: "valid_dec_coins cs \<Longrightarrow> strict_denoms dDenom cs"
  by (simp add: valid_dec_coins_def)

lemma valid_dec_member: "valid_dec_coins cs \<Longrightarrow> c \<in> set cs \<Longrightarrow> 0 < dAmount c \<and> reDnm (dDenom c)"
  by (auto simp: valid_dec_coins_def list_all_iff)

lemma valid_dec_nonneg: "valid_dec_coins cs \<Longrightarrow> 0 \<le> dec_total cs d"
  using total_of_nonneg [of cs dAmount] valid_dec_member by fastforce

subsection \<open>The merge\<close>

lemma dec_safeAdd_loop_acc:
  "dec_safeAdd_loop acc as bs = bindE (dec_safeAdd_loop [] as bs) (\<lambda>r. Inr (acc @ r))"
proof (induction "length as + length bs" arbitrary: acc as bs rule: less_induct)
  case less
  show ?case
  proof (cases "as = [] \<or> bs = []")
    case True
    then show ?thesis by (cases as; cases bs) simp_all
  next
    case False
    then obtain a as' b bs' where ab: "as = a # as'" "bs = b # bs'" by (meson neq_Nil_conv)
    have less_step: "dec_safeAdd_loop x as' (b # bs') = bindE (dec_safeAdd_loop [] as' (b # bs')) (\<lambda>r. Inr (x @ r))" for x
      by (rule less) (simp add: ab)
    have equal_step: "dec_safeAdd_loop x as' bs' = bindE (dec_safeAdd_loop [] as' bs') (\<lambda>r. Inr (x @ r))" for x
      by (rule less) (simp add: ab)
    have greater_step: "dec_safeAdd_loop x (a # as') bs' = bindE (dec_safeAdd_loop [] (a # as') bs') (\<lambda>r. Inr (x @ r))" for x
      by (rule less) (simp add: ab)
    show ?thesis
      using less_step [of "acc @ [a]"] less_step [of "[a]"] less_step [of acc]
        greater_step [of "acc @ [b]"] greater_step [of "[b]"] greater_step [of acc]
        equal_step [of acc] equal_step [of "acc @ [x]" for x] equal_step [of "[x]" for x]
      by (cases "DecCoin_Add a b") (simp_all add: ab bindE_assoc)
  qed
qed

lemma DecCoin_Add_eq:
  "dDenom a = dDenom b \<Longrightarrow> DecCoin_Add a b =
     (if \<bar>dAmount a + dAmount b\<bar> < 2 ^ 315 then Inr \<lparr>dDenom = dDenom a, dAmount = dAmount a + dAmount b\<rparr>
      else Inl (Panic ''Int overflow''))"
  by (simp add: DecCoin_Add_def Dec_Add_def Dec_checked_def)

interpretation dec_coins: amount_merge dDenom dAmount "\<lambda>d i. \<lparr>dDenom = d, dAmount = i\<rparr>" "2 ^ 315"
  "dec_safeAdd_loop []"
proof (unfold_locales, goal_cases)
  case (4 bs)
  show ?case by (cases bs) simp_all
next
  case (6 a b as bs)
  then show ?case using dec_safeAdd_loop_acc [of "[a]" as "b # bs"] by simp
next
  case (7 b a as bs)
  then show ?case using dec_safeAdd_loop_acc [of "[b]" "a # as" bs] by auto
next
  case (8 a b as bs)
  then show ?case
    using dec_safeAdd_loop_acc [of "[\<lparr>dDenom = dDenom b, dAmount = dAmount a + dAmount b\<rparr>]" as bs]
    by (simp add: DecCoin_Add_eq)
qed simp_all

lemma DecCoins_Add_loop: "DecCoins_Add as bs = dec_safeAdd_loop [] as bs"
  by (simp add: DecCoins_Add_def DecCoins_safeAdd_def)

text \<open>
  \<open>DecCoins.Add\<close> of two valid sets, when it does not overflow, is a valid set and holds
  of every denomination the sum of the two amounts.
\<close>

lemma DecCoins_Add_correct:
  assumes "DecCoins_IsValid as" "DecCoins_IsValid bs"
    and "\<And>d. dec_total as d + dec_total bs d < 2 ^ 315"
  shows "\<exists>cs. DecCoins_Add as bs = Inr cs \<and> DecCoins_IsValid cs
           \<and> (\<forall>d. dec_total cs d = dec_total as d + dec_total bs d)"
proof -
  have v: "valid_dec_coins as" "valid_dec_coins bs" using assms by simp_all
  note s = valid_dec_strict [OF v(1)] valid_dec_strict [OF v(2)]
  have "\<bar>dec_total as d + dec_total bs d\<bar> < 2 ^ 315" for d
    using assms(3) [of d] valid_dec_nonneg [OF v(1)] valid_dec_nonneg [OF v(2)] by (simp add: add_nonneg_nonneg)
  then obtain cs where cs: "dec_safeAdd_loop [] as bs = Inr cs" using dec_coins.merge_defined [OF s] by blast
  note total = dec_coins.merge_total [OF cs]
  have strict: "strict_denoms dDenom cs" using dec_coins.merge_strict [OF cs s] .
  have "reDnm (dDenom c) \<and> 0 < dAmount c" if c: "c \<in> set cs" for c
  proof
    have "dDenom c \<in> dDenom ` set as \<union> dDenom ` set bs" using dec_coins.merge_denoms [OF cs] c by blast
    then show "reDnm (dDenom c)" using v valid_dec_member by auto
    have "0 \<le> dAmount c"
      using total [of "dDenom c"] total_of_member [OF strict c, where amount = dAmount]
        valid_dec_nonneg [OF v(1), of "dDenom c"] valid_dec_nonneg [OF v(2), of "dDenom c"] by linarith
    then show "0 < dAmount c" using dec_coins.merge_nonzero [OF cs] c by force
  qed
  then show ?thesis using cs total strict by (auto simp: DecCoins_Add_loop valid_dec_coins_def list_all_iff)
qed

subsection \<open>Truncation\<close>

lemma Int_ToDec_eq [simp]: "Int_ToDec i = Inr (i * unit_dec)"
  by (simp add: Int_ToDec_def NewDecFromInt_def NewDecFromIntWithPrec_def precisionMultiplier_def
      calcPrecisionMultiplier_def)

lemma DecCoin_TruncateDecimal_eq:
  assumes "reDnm (dDenom c)" "0 \<le> dAmount c" "dAmount c < 2 ^ 315"
  shows "DecCoin_TruncateDecimal c =
     Inr (\<lparr>Denom = dDenom c, Amount = dAmount c div unit_dec\<rparr>,
          \<lparr>dDenom = dDenom c, dAmount = dAmount c mod unit_dec\<rparr>)"
proof -
  have q: "0 \<le> dAmount c div unit_dec" "dAmount c div unit_dec < 2 ^ 256"
    using assms(2,3) by (simp_all add: pos_imp_zdiv_nonneg_iff div_less_iff_less_mult)
  have "Dec_TruncateInt (dAmount c) = Inr (dAmount c div unit_dec)"
    using q assms(2) by (simp add: Dec_TruncateInt_def NewIntFromBigInt_def trunc_eq maxBitLen_def)
  moreover obtain r where r: "r = dAmount c mod unit_dec" "0 \<le> r" "r < unit_dec" by simp
  moreover have "dAmount c - dAmount c div unit_dec * unit_dec = r"
    unfolding r(1) by (rule minus_div_mult_eq_mod)
  ultimately show ?thesis
    using assms(1) q(1) unfolding r(1) [symmetric]
    by (simp add: DecCoin_TruncateDecimal_def NewCoin_def Coin_Validate_def NewDecCoinFromDec_def
        ValidateDenom_def mustValidateDenom_def guardE_def Dec_Sub_def Dec_checked_def)
qed

definition whole_part :: "DecCoins \<Rightarrow> Coins" where
  "whole_part cs = filter (\<lambda>c. Amount c \<noteq> 0) (map (\<lambda>c. \<lparr>Denom = dDenom c, Amount = dAmount c div unit_dec\<rparr>) cs)"

definition change_part :: "DecCoins \<Rightarrow> DecCoins" where
  "change_part cs = filter (\<lambda>c. dAmount c \<noteq> 0) (map (\<lambda>c. \<lparr>dDenom = dDenom c, dAmount = dAmount c mod unit_dec\<rparr>) cs)"

lemma whole_part_total: "coin_total (whole_part cs) d = sum_list (map (\<lambda>c. dAmount c div unit_dec) (filter (\<lambda>c. dDenom c = d) cs))"
  unfolding whole_part_def total_of_filter_nonzero by (simp add: total_of_def filter_map comp_def)

lemma change_part_total: "dec_total (change_part cs) d = sum_list (map (\<lambda>c. dAmount c mod unit_dec) (filter (\<lambda>c. dDenom c = d) cs))"
  unfolding change_part_def total_of_filter_nonzero by (simp add: total_of_def filter_map comp_def)

lemma parts_denoms:
  "c \<in> set (whole_part cs) \<Longrightarrow> Amount c \<noteq> 0 \<and> Denom c \<in> dDenom ` set cs"
  "x \<in> set (change_part cs) \<Longrightarrow> dAmount x \<noteq> 0 \<and> dDenom x \<in> dDenom ` set cs"
  by (auto simp: whole_part_def change_part_def)

lemma parts_strict:
  "strict_denoms dDenom cs \<Longrightarrow> strict_denoms Denom (whole_part cs)"
  "strict_denoms dDenom cs \<Longrightarrow> strict_denoms dDenom (change_part cs)"
  unfolding whole_part_def change_part_def
  by (intro strict_denoms_filter; simp add: strict_denoms_def comp_def)+

lemma parts_valid:
  assumes "valid_dec_coins cs"
  shows "valid_coins (whole_part cs)" "valid_dec_coins (change_part cs)"
proof -
  have div: "0 \<le> dAmount c div unit_dec" if "c \<in> set cs" for c
    using valid_dec_member [OF assms that] by (simp add: pos_imp_zdiv_nonneg_iff)
  have "reDnm (Denom c) \<and> 0 < Amount c" if "c \<in> set (whole_part cs)" for c
    using that div valid_dec_member [OF assms] by (auto simp: whole_part_def order.not_eq_order_implies_strict)
  then show "valid_coins (whole_part cs)"
    using parts_strict [OF valid_dec_strict [OF assms]] by (auto simp: valid_coins_def list_all_iff)
  have "reDnm (dDenom c) \<and> 0 < dAmount c" if "c \<in> set (change_part cs)" for c
    using that valid_dec_member [OF assms] by (auto simp: change_part_def order.not_eq_order_implies_strict)
  then show "valid_dec_coins (change_part cs)"
    using parts_strict [OF valid_dec_strict [OF assms]] by (auto simp: valid_dec_coins_def list_all_iff)
qed

lemma parts_snoc:
  "whole_part (cs @ [c]) = whole_part cs @
     (if dAmount c div unit_dec = 0 then [] else [\<lparr>Denom = dDenom c, Amount = dAmount c div unit_dec\<rparr>])"
  "change_part (cs @ [c]) = change_part cs @
     (if dAmount c mod unit_dec = 0 then [] else [\<lparr>dDenom = dDenom c, dAmount = dAmount c mod unit_dec\<rparr>])"
  by (simp_all add: whole_part_def change_part_def)

lemma TruncateDecimal_parts:
  assumes "valid_dec_coins cs" "dec_coins_ok cs"
  shows "DecCoins_TruncateDecimal cs = Inr (whole_part cs, change_part cs)"
  using assms
proof (induction cs rule: rev_induct)
  case Nil
  then show ?case by (simp add: DecCoins_TruncateDecimal_def whole_part_def change_part_def)
next
  case (snoc c cs)
  have v: "valid_dec_coins cs" and below: "\<forall>x \<in> set cs. dDenom x < dDenom c"
    using snoc.prems(1) by (auto simp: valid_dec_coins_def strict_denoms_append)
  have ok: "dec_coins_ok cs" "0 < dAmount c" "dAmount c < 2 ^ 315" "reDnm (dDenom c)"
    using snoc.prems by (auto simp: dec_coins_ok_def valid_dec_coins_def)
  note IH = snoc.IH [OF v ok(1)]
  note t = DecCoin_TruncateDecimal_eq [OF ok(4) less_imp_le [OF ok(2)] ok(3)]
  have whole: "Coins_Add (whole_part cs) [x] = Inr (whole_part cs @ [x])"
    if "Amount x \<noteq> 0" "Denom x = dDenom c" for x
  proof -
    have "\<forall>a \<in> set (whole_part cs). Amount a \<noteq> 0 \<and> Denom a < Denom x"
      using parts_denoms(1) below that(2) by fastforce
    then have "safeAdd_loop [] (whole_part cs) [x] = Inr (whole_part cs @ [x])"
      using coins.merge_snoc that(1) by blast
    then show ?thesis
      using parts_strict(1) [OF valid_dec_strict [OF v]] by (simp add: Coins_Add_def safeAdd_strict)
  qed
  have change: "DecCoins_Add (change_part cs) [x] = Inr (change_part cs @ [x])"
    if "dAmount x \<noteq> 0" "dDenom x = dDenom c" for x
  proof -
    have "\<forall>a \<in> set (change_part cs). dAmount a \<noteq> 0 \<and> dDenom a < dDenom x"
      using parts_denoms(2) below that(2) by fastforce
    then show ?thesis using dec_coins.merge_snoc that(1) by (simp add: DecCoins_Add_loop)
  qed
  show ?case
    using IH whole change
    by (simp add: DecCoins_TruncateDecimal_def foldE_append t parts_snoc)
qed

text \<open>
  C25: \<open>DecCoins.TruncateDecimal\<close> of a valid set never panics and loses nothing: it returns
  a valid set of whole coins and a valid set of change, less than one unit of every
  denomination, that add up to the argument.
\<close>

theorem DecCoins_TruncateDecimal_conserves:
  assumes "DecCoins_IsValid cs" "dec_coins_ok cs"
  shows "\<exists>ts ch. DecCoins_TruncateDecimal cs = Inr (ts, ch) \<and> Coins_IsValid ts \<and> DecCoins_IsValid ch \<and>
           (\<forall>d. dec_total cs d = coin_total ts d * 10 ^ 18 + dec_total ch d
              \<and> 0 \<le> dec_total ch d \<and> dec_total ch d < 10 ^ 18)"
proof -
  have v: "valid_dec_coins cs" using assms by simp
  have "dec_total cs d = coin_total (whole_part cs) d * unit_dec + dec_total (change_part cs) d" for d
    unfolding whole_part_total change_part_total by (induction cs) (auto simp: distrib_right)
  moreover have "0 \<le> dec_total (change_part cs) d \<and> dec_total (change_part cs) d < unit_dec" for d
  proof (cases "d \<in> dDenom ` set (change_part cs)")
    case True
    then obtain c where c: "c \<in> set (change_part cs)" "d = dDenom c" by auto
    then have "dec_total (change_part cs) d = dAmount c"
      using parts_strict(2) [OF valid_dec_strict [OF v]] by (simp add: total_of_member)
    moreover have "0 \<le> dAmount c \<and> dAmount c < unit_dec" using c(1) by (auto simp: change_part_def)
    ultimately show ?thesis by simp
  qed (simp add: total_of_absent)
  ultimately show ?thesis
    using TruncateDecimal_parts [OF v assms(2)] parts_valid [OF v]
    by (intro exI [of _ "whole_part cs"] exI [of _ "change_part cs"]) simp
qed

theorem DecCoins_TruncateDecimal_conserves_witness:
  "let cs = [\<lparr>dDenom = ''atom'', dAmount = 1500000000000000000\<rparr>] in
   DecCoins_IsValid cs \<and> dec_coins_ok cs \<and>
   (\<exists>ts ch. DecCoins_TruncateDecimal cs = Inr (ts, ch) \<and> coin_total ts ''atom'' * 10 ^ 18 + dec_total ch ''atom'' = 1500000000000000000)"
proof -
  let ?cs = "[\<lparr>dDenom = ''atom'', dAmount = 1500000000000000000\<rparr>]"
  have v: "DecCoins_IsValid ?cs" by code_simp
  have ok: "dec_coins_ok ?cs" by (simp add: dec_coins_ok_def)
  obtain ts ch where "DecCoins_TruncateDecimal ?cs = Inr (ts, ch)"
    "dec_total ?cs ''atom'' = coin_total ts ''atom'' * 10 ^ 18 + dec_total ch ''atom''"
    using DecCoins_TruncateDecimal_conserves [OF v ok] by blast
  then show ?thesis using v ok by (simp add: Let_def)
qed

end
