(* ===== verification/Address.thy ===== *)
theory Address
  imports GoText
begin

section \<open>Account addresses: types/address.go, types/bech32\<close>

text \<open>
  An \<open>AccAddress\<close> is a byte slice, printed in Bech32. The Bech32 coder is a third-party
  package: its three functions are parameters, fields of the record \<open>Config\<close>, beside the
  account prefix and the optional address verifier of the SDK configuration. The cache of
  \<open>AccAddress.String\<close> stores the results of a function that does not change once the
  configuration is sealed, and is left out.
\<close>

type_synonym AccAddress = string

record Config =
  ConvertBits :: "string \<Rightarrow> nat \<Rightarrow> nat \<Rightarrow> bool \<Rightarrow> string result"
  Bech32Encode :: "string \<Rightarrow> string \<Rightarrow> string result"
  Bech32Decode :: "string \<Rightarrow> nat \<Rightarrow> (string \<times> string) result"
  Bech32AccountAddrPrefix :: string
  AddressVerifier :: "(string \<Rightarrow> unit result) option"

definition MaxAddrLen :: nat where
  "MaxAddrLen = 255"

definition ConvertAndEncode :: "Config \<Rightarrow> string \<Rightarrow> string \<Rightarrow> string result" where
  "ConvertAndEncode cfg hrp data =
     bindE (ConvertBits cfg data 8 5 True) (\<lambda>converted. Bech32Encode cfg hrp converted)"

definition DecodeAndConvert :: "Config \<Rightarrow> string \<Rightarrow> (string \<times> string) result" where
  "DecodeAndConvert cfg bech =
     bindE (Bech32Decode cfg bech 1023) (\<lambda>(hrp, data).
     bindE (ConvertBits cfg data 5 8 False) (\<lambda>converted. Inr (hrp, converted)))"

definition GetFromBech32 :: "Config \<Rightarrow> string \<Rightarrow> string \<Rightarrow> string result" where
  "GetFromBech32 cfg bech32str prefix =
     (if length bech32str = 0 then Inl (Error ErrPlain ''must provide a non empty address'')
      else
        bindE (DecodeAndConvert cfg bech32str) (\<lambda>(hrp, bz).
          if hrp \<noteq> prefix then Inl (Error ErrPlain ''invalid Bech32 prefix'') else Inr bz))"

definition VerifyAddressFormat :: "Config \<Rightarrow> string \<Rightarrow> unit result" where
  "VerifyAddressFormat cfg bz =
     (case AddressVerifier cfg of
        Some verifier \<Rightarrow> verifier bz
      | None \<Rightarrow>
          if length bz = 0 then Inl (Error ErrUnknownAddress ''addresses cannot be empty'')
          else if length bz > MaxAddrLen then Inl (Error ErrUnknownAddress ''address max length'')
          else Inr ())"

definition AccAddressFromBech32 :: "Config \<Rightarrow> string \<Rightarrow> AccAddress result" where
  "AccAddressFromBech32 cfg addr =
     (if length (TrimSpace addr) = 0
      then Inl (Error ErrPlain ''empty address string is not allowed'')
      else
        bindE (GetFromBech32 cfg addr (Bech32AccountAddrPrefix cfg)) (\<lambda>bz.
        bindE (VerifyAddressFormat cfg bz) (\<lambda>_. Inr bz)))"

definition AccAddress_String :: "Config \<Rightarrow> AccAddress \<Rightarrow> string result" where
  "AccAddress_String cfg aa =
     (if length aa = 0 then Inr []
      else case ConvertAndEncode cfg (Bech32AccountAddrPrefix cfg) aa of
        Inl _ \<Rightarrow> Inl (Panic ''encoding bech32 failed'') | Inr s \<Rightarrow> Inr s)"

definition MustAccAddressFromBech32 :: "Config \<Rightarrow> string \<Rightarrow> AccAddress result" where
  "MustAccAddressFromBech32 cfg address =
     (case AccAddressFromBech32 cfg address of Inl _ \<Rightarrow> Inl (Panic ''invalid address'') | Inr a \<Rightarrow> Inr a)"

text \<open>The length in one byte before an address that is part of a store key; nothing before an empty one.\<close>

definition LengthPrefix :: "string \<Rightarrow> string result" where
  "LengthPrefix bz =
     (if length bz = 0 then Inr bz
      else if length bz > MaxAddrLen then Inl (Error ErrUnknownAddress ''address length should be max 255 bytes'')
      else Inr (byte (length bz) # bz))"

definition MustLengthPrefix :: "string \<Rightarrow> string result" where
  "MustLengthPrefix bz =
     (case LengthPrefix bz of Inl _ \<Rightarrow> Inl (Panic ''address length'') | Inr r \<Rightarrow> Inr r)"

subsection \<open>Round trip\<close>

text \<open>
  What the coder is documented to do: regrouping bits with padding and back is the identity,
  and a decoded text is the human-readable part and the data it was encoded from, when the
  text is within the length limit passed to the decoder.
\<close>

definition bech32_lawful :: "Config \<Rightarrow> bool" where
  "bech32_lawful cfg \<longleftrightarrow>
     (\<forall>bz d. ConvertBits cfg bz 8 5 True = Inr d \<longrightarrow> ConvertBits cfg d 5 8 False = Inr bz) \<and>
     (\<forall>hrp d s. Bech32Encode cfg hrp d = Inr s \<longrightarrow> length s \<le> 1023 \<longrightarrow> Bech32Decode cfg s 1023 = Inr (hrp, d)) \<and>
     (\<forall>hrp d s. Bech32Encode cfg hrp d = Inr s \<longrightarrow> TrimSpace s \<noteq> [])"

lemma AccAddress_reads_back:
  assumes "bech32_lawful cfg" "AddressVerifier cfg = None"
    and "aa \<noteq> []" "length aa \<le> MaxAddrLen" "AccAddress_String cfg aa = Inr s" "length s \<le> 1023"
  shows "AccAddressFromBech32 cfg s = Inr aa"
proof -
  obtain d where d: "ConvertBits cfg aa 8 5 True = Inr d"
    "Bech32Encode cfg (Bech32AccountAddrPrefix cfg) d = Inr s"
    using assms(3,5) by (auto simp: AccAddress_String_def ConvertAndEncode_def split: sum.splits)
  have dec: "Bech32Decode cfg s 1023 = Inr (Bech32AccountAddrPrefix cfg, d)"
    "ConvertBits cfg d 5 8 False = Inr aa" "TrimSpace s \<noteq> []"
    using assms(1,6) d unfolding bech32_lawful_def by blast+
  moreover have "s \<noteq> []" using dec(3) by (auto simp: TrimSpace_def)
  ultimately show ?thesis
    using assms(2-4)
    by (simp add: AccAddressFromBech32_def GetFromBech32_def DecodeAndConvert_def VerifyAddressFormat_def)
qed


text \<open>A coder that writes the prefix, a separator and the data satisfies the hypotheses.\<close>

definition plain_config :: Config where
  "plain_config = \<lparr>ConvertBits = \<lambda>bz f t p. Inr bz,
     Bech32Encode = \<lambda>hrp d. if CHR ''1'' \<in> set hrp then Inl (Error ErrPlain ''prefix'') else Inr (hrp @ CHR ''1'' # d),
     Bech32Decode = \<lambda>s n. case dropWhile (\<lambda>c. c \<noteq> CHR ''1'') s of
        [] \<Rightarrow> Inl (Error ErrPlain ''no separator'')
      | _ # d \<Rightarrow> Inr (takeWhile (\<lambda>c. c \<noteq> CHR ''1'') s, d),
     Bech32AccountAddrPrefix = ''link'', AddressVerifier = None\<rparr>"

lemma TrimSpace_nonempty: "c \<in> set s \<Longrightarrow> \<not> is_space c \<Longrightarrow> TrimSpace s \<noteq> []"
proof -
  assume c: "c \<in> set s" "\<not> is_space c"
  have "set s = set (takeWhile is_space s) \<union> set (dropWhile is_space s)"
    by (subst takeWhile_dropWhile_id [of is_space s, symmetric]) (simp only: set_append)
  then have "c \<in> set (dropWhile is_space s)" using c by (auto dest: set_takeWhileD)
  then show ?thesis using c(2) by (auto simp: TrimSpace_def)
qed

lemma plain_config_lawful: "bech32_lawful plain_config"
proof -
  have "dropWhile (\<lambda>c. c \<noteq> CHR ''1'') (hrp @ CHR ''1'' # d) = CHR ''1'' # d \<and>
      takeWhile (\<lambda>c. c \<noteq> CHR ''1'') (hrp @ CHR ''1'' # d) = hrp" if "CHR ''1'' \<notin> set hrp" for hrp d
    using that by (induction hrp) auto
  moreover have "TrimSpace (hrp @ CHR ''1'' # d) \<noteq> []" for hrp d
    by (rule TrimSpace_nonempty [of "CHR ''1''"]) (auto simp: is_space_def)
  ultimately show ?thesis by (auto simp: bech32_lawful_def plain_config_def)
qed


lemma demo_address: "AccAddressFromBech32 plain_config ''link1a'' = Inr ''a''"
    "AccAddressFromBech32 plain_config ''link1b'' = Inr ''b''"
    "AccAddress_String plain_config ''a'' = Inr ''link1a''" "AccAddress_String plain_config [] = Inr []"
  by (simp_all add: AccAddressFromBech32_def TrimSpace_def is_space_def GetFromBech32_def DecodeAndConvert_def
      VerifyAddressFormat_def MaxAddrLen_def AccAddress_String_def ConvertAndEncode_def plain_config_def)

end
