(* ===== verification/TokenKeys.thy ===== *)
theory TokenKeys
  imports Address
begin

section \<open>Store keys of the token module: x/token/keeper/keys.go\<close>

text \<open>
  The keeper packs contract ids, addresses and permissions into byte keys, each part but the
  last preceded by its length in one byte, and unpacks them while iterating. The locale
  \<open>key_codec\<close> states what a pair of such functions promises; the three pairs of the module
  satisfy it for parts shorter than 256 bytes, so distinct entries never share a key.
\<close>

datatype Permission = PermissionUnspecified | PermissionModify | PermissionMint | PermissionBurn

fun permission_value :: "Permission \<Rightarrow> nat" where
  "permission_value PermissionUnspecified = 0"
| "permission_value PermissionModify = 1"
| "permission_value PermissionMint = 2"
| "permission_value PermissionBurn = 3"

definition balanceKeyPrefix :: string where "balanceKeyPrefix = [byte 0]"

definition classKeyPrefix :: string where "classKeyPrefix = [byte 1]"

definition grantKeyPrefix :: string where "grantKeyPrefix = [byte 2]"

definition authorizationKeyPrefix :: string where "authorizationKeyPrefix = [byte 3]"

definition supplyKeyPrefix :: string where "supplyKeyPrefix = [byte 4]"

definition mintKeyPrefix :: string where "mintKeyPrefix = [byte 5]"

definition burnKeyPrefix :: string where "burnKeyPrefix = [byte 6]"

definition classKey :: "string \<Rightarrow> string" where
  "classKey cid = classKeyPrefix @ cid"

definition balanceKeyPrefixByContractID :: "string \<Rightarrow> string" where
  "balanceKeyPrefixByContractID contractID = balanceKeyPrefix @ byte (length contractID) # contractID"

definition balanceKey :: "string \<Rightarrow> AccAddress \<Rightarrow> string" where
  "balanceKey contractID address = balanceKeyPrefixByContractID contractID @ address"

definition splitBalanceKey :: "string \<Rightarrow> (string \<times> AccAddress) result" where
  "splitBalanceKey key =
     (let begin1 = length balanceKeyPrefix + 1 in
      bindE (index_at key (begin1 - 1)) (\<lambda>l.
      let end1 = begin1 + of_char l in
      bindE (slice key begin1 end1) (\<lambda>contractID.
      bindE (slice key end1 (length key)) (\<lambda>address. Inr (contractID, address)))))"

definition statisticsKey :: "string \<Rightarrow> string \<Rightarrow> string" where
  "statisticsKey keyPrefix contractID = keyPrefix @ contractID"

definition splitStatisticsKey :: "string \<Rightarrow> string \<Rightarrow> string result" where
  "splitStatisticsKey key keyPrefix = slice key (length keyPrefix) (length key)"

definition grantKeyPrefixByContractID :: "string \<Rightarrow> string" where
  "grantKeyPrefixByContractID contractID = grantKeyPrefix @ byte (length contractID) # contractID"

definition grantKeyPrefixByGrantee :: "string \<Rightarrow> AccAddress \<Rightarrow> string" where
  "grantKeyPrefixByGrantee contractID grantee =
     grantKeyPrefixByContractID contractID @ byte (length grantee) # grantee"

definition grantKey :: "string \<Rightarrow> AccAddress \<Rightarrow> Permission \<Rightarrow> string" where
  "grantKey contractID grantee permission =
     grantKeyPrefixByGrantee contractID grantee @ [byte (permission_value permission)]"

text \<open>The last part is the permission's number, read as a byte.\<close>

definition splitGrantKey :: "string \<Rightarrow> (string \<times> AccAddress \<times> nat) result" where
  "splitGrantKey key =
     (let begin1 = length grantKeyPrefix + 1 in
      bindE (index_at key (begin1 - 1)) (\<lambda>l.
      let end1 = begin1 + of_char l in
      bindE (slice key begin1 end1) (\<lambda>contractID.
      let begin2 = end1 + 1 in
      bindE (index_at key (begin2 - 1)) (\<lambda>l2.
      let end2 = begin2 + of_char l2 in
      bindE (slice key begin2 end2) (\<lambda>grantee.
      bindE (index_at key end2) (\<lambda>p. Inr (contractID, grantee, of_char p)))))))"

definition authorizationKeyPrefixByContractID :: "string \<Rightarrow> string" where
  "authorizationKeyPrefixByContractID contractID =
     authorizationKeyPrefix @ byte (length contractID) # contractID"

definition authorizationKeyPrefixByOperator :: "string \<Rightarrow> AccAddress \<Rightarrow> string" where
  "authorizationKeyPrefixByOperator contractID operator =
     authorizationKeyPrefixByContractID contractID @ byte (length operator) # operator"

definition authorizationKey :: "string \<Rightarrow> AccAddress \<Rightarrow> AccAddress \<Rightarrow> string" where
  "authorizationKey contractID operator holder =
     authorizationKeyPrefixByOperator contractID operator @ holder"

definition splitAuthorizationKey :: "string \<Rightarrow> (string \<times> AccAddress \<times> AccAddress) result" where
  "splitAuthorizationKey key =
     (let begin1 = length authorizationKeyPrefix + 1 in
      bindE (index_at key (begin1 - 1)) (\<lambda>l.
      let end1 = begin1 + of_char l in
      bindE (slice key begin1 end1) (\<lambda>contractID.
      let begin2 = end1 + 1 in
      bindE (index_at key (begin2 - 1)) (\<lambda>l2.
      let end2 = begin2 + of_char l2 in
      bindE (slice key begin2 end2) (\<lambda>operator.
      bindE (slice key end2 (length key)) (\<lambda>holder. Inr (contractID, operator, holder)))))))"

subsection \<open>Codecs\<close>

locale key_codec =
  fixes key :: "'a \<Rightarrow> string" and split :: "string \<Rightarrow> 'b result" and view :: "'a \<Rightarrow> 'b"
    and ok :: "'a \<Rightarrow> bool" and tag :: nat
  assumes split_key: "ok x \<Longrightarrow> split (key x) = Inr (view x)"
    and view_inj: "view x = view y \<Longrightarrow> x = y"
    and key_tag: "\<exists>rest. key x = byte tag # rest"
    and tag_small: "tag < 256"
begin

lemma key_inj: "ok x \<Longrightarrow> ok y \<Longrightarrow> key x = key y \<Longrightarrow> x = y"
  using split_key view_inj by (metis sum.inject(2))

end

text \<open>Entries of two kinds never share a key.\<close>

lemma tags_disjoint:
  assumes "key_codec key split view ok tag" "key_codec key' split' view' ok' tag'" "tag \<noteq> tag'"
  shows "key x \<noteq> key' y"
  using key_codec.key_tag [OF assms(1), of x] key_codec.key_tag [OF assms(2), of y]
    key_codec.tag_small [OF assms(1)] key_codec.tag_small [OF assms(2)] assms(3)
  by (auto simp: byte_inj)

lemmas key_defs = balanceKey_def balanceKeyPrefixByContractID_def grantKey_def grantKeyPrefixByGrantee_def
  grantKeyPrefixByContractID_def authorizationKey_def authorizationKeyPrefixByOperator_def
  authorizationKeyPrefixByContractID_def classKey_def statisticsKey_def
  balanceKeyPrefix_def classKeyPrefix_def grantKeyPrefix_def authorizationKeyPrefix_def
  supplyKeyPrefix_def mintKeyPrefix_def burnKeyPrefix_def

definition short :: "string \<Rightarrow> bool" where
  "short s \<longleftrightarrow> length s < 256"

lemma permission_small [simp]: "permission_value p < 256"
  by (cases p) simp_all

lemma permission_value_inj [simp]: "permission_value p = permission_value q \<longleftrightarrow> p = q"
  by (cases p; cases q) simp_all

lemma splitBalanceKey_key: "short c \<Longrightarrow> splitBalanceKey (balanceKey c a) = Inr (c, a)"
  by (simp add: short_def splitBalanceKey_def key_defs index_at_def Let_def slice_def)

lemma splitGrantKey_key:
  "short c \<Longrightarrow> short a \<Longrightarrow> splitGrantKey (grantKey c a p) = Inr (c, a, permission_value p)"
  by (simp add: short_def splitGrantKey_def key_defs index_at_def Let_def slice_def nth_append)

lemma splitAuthorizationKey_key:
  "short c \<Longrightarrow> short op \<Longrightarrow> splitAuthorizationKey (authorizationKey c op h) = Inr (c, op, h)"
  by (simp add: short_def splitAuthorizationKey_def key_defs index_at_def Let_def slice_def nth_append)

interpretation balance_key: key_codec "\<lambda>(c, a). balanceKey c a" splitBalanceKey id
  "\<lambda>(c, a). short c" 0
  by unfold_locales (auto simp: splitBalanceKey_key, auto simp: key_defs)

interpretation grant_key: key_codec "\<lambda>(c, a, p). grantKey c a p" splitGrantKey
  "\<lambda>(c, a, p). (c, a, permission_value p)" "\<lambda>(c, a, p). short c \<and> short a" 2
  by unfold_locales (auto simp: splitGrantKey_key, auto simp: key_defs)

interpretation authorization_key: key_codec "\<lambda>(c, op, h). authorizationKey c op h" splitAuthorizationKey id
  "\<lambda>(c, op, h). short c \<and> short op" 3
  by unfold_locales (auto simp: splitAuthorizationKey_key, auto simp: key_defs)

interpretation class_key: key_codec classKey "\<lambda>k. splitStatisticsKey k classKeyPrefix" id "\<lambda>c. True" 1
  by unfold_locales (auto simp: splitStatisticsKey_def slice_def key_defs)

interpretation supply_key: key_codec "statisticsKey supplyKeyPrefix"
  "\<lambda>k. splitStatisticsKey k supplyKeyPrefix" id "\<lambda>c. True" 4
  by unfold_locales (auto simp: splitStatisticsKey_def slice_def key_defs)

interpretation mint_key: key_codec "statisticsKey mintKeyPrefix"
  "\<lambda>k. splitStatisticsKey k mintKeyPrefix" id "\<lambda>c. True" 5
  by unfold_locales (auto simp: splitStatisticsKey_def slice_def key_defs)

interpretation burn_key: key_codec "statisticsKey burnKeyPrefix"
  "\<lambda>k. splitStatisticsKey k burnKeyPrefix" id "\<lambda>c. True" 6
  by unfold_locales (auto simp: splitStatisticsKey_def slice_def key_defs)

text \<open>
  C31: every key of the module is unpacked to the parts it was built from, for contract ids
  and addresses shorter than 256 bytes, so two entries of a kind have the same key only when
  they are the same entry; a longer contract id makes two balances share a key.
\<close>

theorem token_keys_unpack:
  assumes "length c < 256" "length a < 256"
  shows "splitBalanceKey (balanceKey c h) = Inr (c, h)
       \<and> splitGrantKey (grantKey c a p) = Inr (c, a, permission_value p)
       \<and> splitAuthorizationKey (authorizationKey c a h) = Inr (c, a, h)
       \<and> balanceKey c h \<noteq> grantKey c' a' p' \<and> balanceKey c h \<noteq> authorizationKey c' a' h'
       \<and> grantKey c a p \<noteq> authorizationKey c' a' h'
       \<and> balanceKey (replicate 256 x) h = balanceKey [] (replicate 256 x @ h)"
  using assms balance_key.split_key [of "(c, h)"] grant_key.split_key [of "(c, a, p)"]
    authorization_key.split_key [of "(c, a, h)"]
    tags_disjoint [OF balance_key.key_codec_axioms grant_key.key_codec_axioms, of "(c, h)" "(c', a', p')"]
    tags_disjoint [OF balance_key.key_codec_axioms authorization_key.key_codec_axioms, of "(c, h)" "(c', a', h')"]
    tags_disjoint [OF grant_key.key_codec_axioms authorization_key.key_codec_axioms, of "(c, a, p)" "(c', a', h')"]
  by (simp add: short_def) (simp add: key_defs byte_def)

theorem token_keys_unpack_witness:
  "splitGrantKey (grantKey ''9be17165'' ''alice'' PermissionMint) = Inr (''9be17165'', ''alice'', 2)"
  using token_keys_unpack [of "''9be17165''" "''alice''" "[]" PermissionMint] by simp

end
