(* ===== verification/ClassKeeper.thy ===== *)
theory ClassKeeper
  imports SdkInt GoText
begin

section \<open>Contract ids: x/token/class\<close>

text \<open>
  The class keeper issues contract ids, shared by the token and collection modules: a nonce
  is hashed to 32 bits (FNV-1 over its eight little-endian bytes) and printed as eight
  hexadecimal digits, skipping ids in use. The state is the stored nonce, absent before
  genesis, and the set of ids.
\<close>

unbundle bit_operations_syntax

record ClassState =
  nonce :: "SdkUint option"
  ids :: "string set"

definition MaxUint64 :: uint64 where
  "MaxUint64 = -1"

lemma uint_MaxUint64 [simp]: "uint MaxUint64 = 2 ^ 64 - 1"
  by (simp add: MaxUint64_def unsigned_minus_1_eq_mask mask_eq_exp_minus_1)

definition getNonce :: "ClassState \<Rightarrow> SdkUint result" where
  "getNonce s = (case nonce s of None \<Rightarrow> Inl (Panic ''next id must exist'') | Some n \<Rightarrow> Inr n)"

definition setNonce :: "SdkUint \<Rightarrow> ClassState \<Rightarrow> ClassState" where
  "setNonce n s = s\<lparr>nonce := Some n\<rparr>"

definition addID :: "string \<Rightarrow> ClassState \<Rightarrow> ClassState" where
  "addID cid s = s\<lparr>ids := insert cid (ids s)\<rparr>"

definition HasID :: "ClassState \<Rightarrow> string \<Rightarrow> bool" where
  "HasID s cid \<longleftrightarrow> cid \<in> ids s"

definition DeleteID :: "string \<Rightarrow> ClassState \<Rightarrow> ClassState" where
  "DeleteID cid s = s\<lparr>ids := ids s - {cid}\<rparr>"

text \<open>\<open>binary.LittleEndian.PutUint64\<close> and \<open>fnv.New32\<close> of the standard library.\<close>

definition PutUint64 :: "uint64 \<Rightarrow> 8 word list" where
  "PutUint64 n = map (\<lambda>i. ucast (drop_bit (8 * i) n)) [0..<8]"

definition fnv32 :: "8 word list \<Rightarrow> 32 word" where
  "fnv32 bz = foldl (\<lambda>h b. (h * 16777619) XOR ucast b) 2166136261 bz"

definition nonceToID :: "uint64 \<Rightarrow> string" where
  "nonceToID n =
     (let hid = hex_text (unat (fnv32 (PutUint64 n))) in
      if length hid < 8 then drop (length hid) ''00000000'' @ hid else hid)"

text \<open>The loop over the nonce; it ends because the nonce only grows.\<close>

function NewID_loop :: "SdkUint \<Rightarrow> ClassState \<Rightarrow> (string \<times> ClassState) result" where
  "NewID_loop n s =
     (if n \<le> uint MaxUint64 then
        bindE (Uint_Uint64 n) (\<lambda>w.
          let encoded = nonceToID w in
          if \<not> HasID s encoded then
            bindE (Uint_Incr n) (\<lambda>n'. Inr (encoded, setNonce n' (addID encoded s)))
          else bindE (Uint_Incr n) (\<lambda>n'. NewID_loop n' s))
      else Inl (Panic ''contract id space exhausted: uint64''))"
  by pat_completeness auto
termination
  by (relation "measure (\<lambda>(n, s). nat (2 ^ 64 - n))")
    (auto simp: Uint_Incr_def Uint_Add_def)

declare NewID_loop.simps [simp del]

definition NewID :: "ClassState \<Rightarrow> (string \<times> ClassState) result" where
  "NewID s = bindE (getNonce s) (\<lambda>n. NewID_loop n s)"

text \<open>The pattern \<open>[0-9a-f]{8,8}\<close>, anchored.\<close>

definition is_lower_hex :: "char \<Rightarrow> bool" where
  "is_lower_hex c \<longleftrightarrow> is_digit c \<or> (CHR ''a'' \<le> c \<and> c \<le> CHR ''f'')"

definition ValidateID :: "string \<Rightarrow> unit result" where
  "ValidateID cid =
     guardE (length cid = 8 \<and> list_all is_lower_hex cid) (Error ErrInvalidRequest ''invalid contract id'')"

record ClassGenesisState =
  cg_Nonce :: SdkUint
  cg_Ids :: "string list"

definition ValidateClassGenesis :: "ClassGenesisState \<Rightarrow> unit result" where
  "ValidateClassGenesis d =
     guardE (\<not> Uint_GT (cg_Nonce d) (uint MaxUint64)) (Error ErrInvalidRequest ''Invalid nonce'')"

definition DefaultClassGenesisState :: ClassGenesisState where
  "DefaultClassGenesisState = \<lparr>cg_Nonce = 0, cg_Ids = []\<rparr>"

definition class_InitGenesis :: "ClassGenesisState \<Rightarrow> ClassState \<Rightarrow> ClassState" where
  "class_InitGenesis d s = fold addID (cg_Ids d) (setNonce (cg_Nonce d) s)"

subsection \<open>Ids are well formed and fresh\<close>

lemma is_lower_hex_digit: "k < 16 \<Longrightarrow> is_lower_hex (hex_digit k)"
  by (auto simp: is_lower_hex_def is_digit_def hex_digit_def less_eq_char_def)

lemma hex_text_digits: "list_all is_lower_hex (hex_text n)"
proof (induction n rule: hex_text.induct)
  case (1 n)
  then show ?case by (subst hex_text.simps) (simp add: is_lower_hex_digit)
qed

lemma length_hex_text: "n < 16 ^ k \<Longrightarrow> 0 < k \<Longrightarrow> length (hex_text n) \<le> k"
proof (induction n arbitrary: k rule: hex_text.induct)
  case (1 n)
  show ?case
  proof (cases "n < 16")
    case True
    then show ?thesis using 1(3) by (subst hex_text.simps) simp
  next
    case False
    obtain j where k: "k = Suc j" using 1(3) by (cases k) auto
    have "0 < j" using False 1(2) k by (cases j) auto
    moreover have "n div 16 < 16 ^ j" using 1(2) k by (simp add: div_less_iff_less_mult mult.commute)
    ultimately have "length (hex_text (n div 16)) \<le> j" using 1(1) False by blast
    then show ?thesis using False k by (subst hex_text.simps) simp
  qed
qed

lemma nonceToID_valid: "ValidateID (nonceToID n) = Inr ()"
proof -
  let ?h = "hex_text (unat (fnv32 (PutUint64 n)))"
  have "unat (fnv32 (PutUint64 n)) < 16 ^ 8"
    using unsigned_less [where 'b = 32, of "fnv32 (PutUint64 n)"] by simp
  then have len: "length ?h \<le> 8" by (rule length_hex_text) simp
  have "list_all is_lower_hex ''00000000''" by (simp add: is_lower_hex_def)
  then have "list_all is_lower_hex (drop (length ?h) ''00000000'')"
    by (auto simp: list_all_iff dest: in_set_dropD)
  then show ?thesis
    using len hex_text_digits by (auto simp: ValidateID_def nonceToID_def Let_def)
qed

lemma Uint64_word: "0 \<le> n \<Longrightarrow> n < 2 ^ 64 \<Longrightarrow> Uint_Uint64 n = Inr (word_of_int n)"
  by (simp add: Uint_Uint64_def uint64_range_def)

lemma NewID_loop_step:
  assumes "0 \<le> n" "n < 2 ^ 64"
  shows "NewID_loop n s =
    (if nonceToID (word_of_int n) \<in> ids s then NewID_loop (n + 1) s
     else Inr (nonceToID (word_of_int n), s\<lparr>nonce := Some (n + 1), ids := insert (nonceToID (word_of_int n)) (ids s)\<rparr>))"
proof -
  have "Uint_Incr n = Inr (n + 1)" using assms by (intro Uint_Incr_eq) (simp_all add: Uint_ok_def)
  then show ?thesis
    using assms Uint64_word [OF assms]
    by (subst NewID_loop.simps) (simp add: HasID_def setNonce_def addID_def Let_def)
qed

text \<open>The loop stops at the first free id.\<close>

lemma NewID_loop_first:
  assumes "0 \<le> n" "n \<le> m" "m < 2 ^ 64" "nonceToID (word_of_int m) \<notin> ids s"
    and "\<And>k. n \<le> k \<Longrightarrow> k < m \<Longrightarrow> nonceToID (word_of_int k) \<in> ids s"
  shows "NewID_loop n s =
    Inr (nonceToID (word_of_int m), s\<lparr>nonce := Some (m + 1), ids := insert (nonceToID (word_of_int m)) (ids s)\<rparr>)"
  using assms
proof (induction "nat (m - n)" arbitrary: n)
  case 0
  then show ?case using NewID_loop_step [of n s] by simp
next
  case (Suc d)
  then have "n < m" by simp
  then have "NewID_loop n s = NewID_loop (n + 1) s" using Suc.prems by (subst NewID_loop_step) auto
  then show ?case using Suc.hyps(1) [of "n + 1"] Suc.hyps(2) Suc.prems \<open>n < m\<close> by simp
qed

lemma NewID_loop_none:
  assumes "0 \<le> n" "\<And>k. n \<le> k \<Longrightarrow> k < 2 ^ 64 \<Longrightarrow> nonceToID (word_of_int k) \<in> ids s"
  shows "is_panic (NewID_loop n s)"
  using assms
proof (induction "nat (2 ^ 64 - n)" arbitrary: n)
  case 0
  then show ?case by (subst NewID_loop.simps) simp
next
  case (Suc d)
  then have "NewID_loop n s = NewID_loop (n + 1) s" by (subst NewID_loop_step) auto
  then show ?case using Suc.hyps(1) [of "n + 1"] Suc.hyps(2) Suc.prems by simp
qed

lemma first_free:
  fixes n m :: int
  assumes "n \<le> m" "P m"
  obtains k where "n \<le> k" "k \<le> m" "P k" "\<And>j. n \<le> j \<Longrightarrow> j < k \<Longrightarrow> \<not> P j"
proof -
  define d where "d = (LEAST d. P (n + int d))"
  have ex: "P (n + int (nat (m - n)))" using assms by simp
  have "P (n + int d)" unfolding d_def by (rule LeastI) (rule ex)
  moreover have "d \<le> nat (m - n)" unfolding d_def by (rule Least_le) (rule ex)
  moreover have "\<not> P j" if "n \<le> j" "j < n + int d" for j
  proof -
    have "nat (j - n) < d" using that by simp
    then have "\<not> P (n + int (nat (j - n)))" unfolding d_def by (rule not_less_Least)
    then show ?thesis using that(1) by simp
  qed
  ultimately show ?thesis using that [of "n + int d"] assms(1) by simp
qed

lemma NewID_cases:
  assumes "nonce s = Some n" "0 \<le> n"
  obtains (found) m where "n \<le> m" "m < 2 ^ 64" "nonceToID (word_of_int m) \<notin> ids s"
      "\<And>k. n \<le> k \<Longrightarrow> k < m \<Longrightarrow> nonceToID (word_of_int k) \<in> ids s"
      "NewID s = Inr (nonceToID (word_of_int m),
         s\<lparr>nonce := Some (m + 1), ids := insert (nonceToID (word_of_int m)) (ids s)\<rparr>)"
    | (exhausted) "\<And>k. n \<le> k \<Longrightarrow> k < 2 ^ 64 \<Longrightarrow> nonceToID (word_of_int k) \<in> ids s" "is_panic (NewID s)"
proof (cases "\<exists>m. n \<le> m \<and> m < 2 ^ 64 \<and> nonceToID (word_of_int m) \<notin> ids s")
  case True
  then obtain m where m: "n \<le> m" "m < 2 ^ 64" "nonceToID (word_of_int m) \<notin> ids s" by blast
  obtain k where k: "n \<le> k" "k \<le> m" "nonceToID (word_of_int k) \<notin> ids s"
    "\<And>j. n \<le> j \<Longrightarrow> j < k \<Longrightarrow> nonceToID (word_of_int j) \<in> ids s"
    using first_free [of n m "\<lambda>j. nonceToID (word_of_int j) \<notin> ids s"] m by metis
  then show ?thesis
    using found [of k] NewID_loop_first [OF assms(2) k(1) _ k(3,4)] m(2) assms(1)
    by (simp add: NewID_def getNonce_def)
next
  case False
  then show ?thesis
    using exhausted NewID_loop_none [OF assms(2)] assms(1) by (simp add: NewID_def getNonce_def)
qed

text \<open>
  C30: \<open>NewID\<close> ends and returns the id of the first nonce from the stored one whose id is not
  in use, which is well formed, records it and stores the next nonce; it panics exactly when
  every remaining nonce leads to an id in use.
\<close>

theorem NewID_correct:
  assumes "nonce s = Some n" "0 \<le> n"
  shows "(\<exists>m. n \<le> m \<and> m < 2 ^ 64 \<and> (\<forall>k. n \<le> k \<and> k < m \<longrightarrow> nonceToID (word_of_int k) \<in> ids s) \<and>
           nonceToID (word_of_int m) \<notin> ids s \<and> ValidateID (nonceToID (word_of_int m)) = Inr () \<and>
           NewID s = Inr (nonceToID (word_of_int m),
             s\<lparr>nonce := Some (m + 1), ids := insert (nonceToID (word_of_int m)) (ids s)\<rparr>))
       \<or> (is_panic (NewID s) \<and> (\<forall>k. n \<le> k \<and> k < 2 ^ 64 \<longrightarrow> nonceToID (word_of_int k) \<in> ids s))"
  using assms
proof (cases rule: NewID_cases)
  case (found m)
  then show ?thesis using nonceToID_valid by (intro disjI1 exI [of _ m]) auto
next
  case exhausted
  then show ?thesis by blast
qed

theorem NewID_correct_witness:
  "\<exists>cid s'. NewID \<lparr>nonce = Some 0, ids = {}\<rparr> = Inr (cid, s') \<and> ValidateID cid = Inr ()"
proof -
  have "\<not> (\<forall>k::int. 0 \<le> k \<and> k < 2 ^ 64 \<longrightarrow> nonceToID (word_of_int k) \<in> {})"
    by (auto intro: exI [of _ 0])
  then show ?thesis
    using NewID_correct [of "\<lparr>nonce = Some 0, ids = {}\<rparr>" 0] by auto
qed

lemma NewID_fresh:
  assumes "NewID s = Inr (cid, s')" "nonce s = Some n" "0 \<le> n"
  shows "cid \<notin> ids s \<and> ids s' = insert cid (ids s) \<and> ValidateID cid = Inr () \<and> (\<exists>m. nonce s' = Some m \<and> n < m)"
  using assms(2,3)
proof (cases rule: NewID_cases)
  case (found m)
  then show ?thesis using assms(1) nonceToID_valid by auto
next
  case exhausted
  then show ?thesis using assms(1) by simp
qed

end
