(* ===== verification/Ledger.thy ===== *)
theory Ledger
  imports Main
begin

section \<open>Ledgers\<close>

text \<open>
  Three keepers of the repository hold balances: they store an amount per asset and holder
  and change one of them at a time. The locale states what such a store promises, the law of
  a write, for a possible holder, followed by a read and that only finitely many balances are
  not zero, and proves what follows for the total of an asset.
\<close>

definition ledger_total :: "('k \<Rightarrow> int) \<Rightarrow> int" where
  "ledger_total f = sum f {k. f k \<noteq> 0}"

lemma ledger_total_finite: "finite A \<Longrightarrow> {k. f k \<noteq> 0} \<subseteq> A \<Longrightarrow> ledger_total f = sum f A"
  unfolding ledger_total_def by (rule sum.mono_neutral_left) auto

lemma ledger_total_zero [simp]: "ledger_total (\<lambda>_. 0) = 0"
  by (simp add: ledger_total_def)

lemma ledger_total_update:
  assumes "finite {k. f k \<noteq> 0}"
  shows "ledger_total (f(k := v)) = ledger_total f - f k + v"
proof -
  let ?A = "insert k {k. f k \<noteq> 0}"
  have fin: "finite ?A" using assms by simp
  have "ledger_total (f(k := v)) = sum (f(k := v)) ?A"
    by (rule ledger_total_finite [OF fin]) (auto split: if_splits)
  also have "\<dots> = v + sum (f(k := v)) (?A - {k})"
    using fin by (simp add: sum.remove [of _ k])
  also have "sum (f(k := v)) (?A - {k}) = sum f (?A - {k})"
    by (rule sum.cong) auto
  also have "sum f (?A - {k}) = sum f ?A - f k"
    using sum.remove [OF fin, of k f] by simp
  also have "sum f ?A = ledger_total f"
    by (rule ledger_total_finite [OF fin, symmetric]) auto
  finally show ?thesis by linarith
qed

lemma ledger_member_le:
  assumes "finite {k. f k \<noteq> 0}" "\<And>k. 0 \<le> f k"
  shows "f k \<le> ledger_total f"
proof (cases "f k = 0")
  case True
  have "0 \<le> ledger_total f" unfolding ledger_total_def by (rule sum_nonneg) (simp add: assms(2))
  then show ?thesis using True by simp
next
  case False
  then show ?thesis unfolding ledger_total_def using assms by (intro member_le_sum) auto
qed

locale ledger =
  fixes get :: "'s \<Rightarrow> 'a \<Rightarrow> 'k \<Rightarrow> int"
    and put :: "'s \<Rightarrow> 'a \<Rightarrow> 'k \<Rightarrow> int \<Rightarrow> 's"
    and wf :: "'s \<Rightarrow> bool"
    and holder :: "'k \<Rightarrow> bool"
  assumes get_put: "holder k \<Longrightarrow> get (put s a k v) a' k' = (if a' = a \<and> k' = k then v else get s a' k')"
    and finite_holders: "wf s \<Longrightarrow> finite {k. get s a k \<noteq> 0}"
    and wf_put: "wf s \<Longrightarrow> holder k \<Longrightarrow> wf (put s a k v)"
begin

lemma get_put_fun: "holder k \<Longrightarrow> get (put s a k v) a' = (if a' = a then (get s a)(k := v) else get s a')"
  by (rule ext) (simp add: get_put)

lemma total_put:
  "wf s \<Longrightarrow> holder k \<Longrightarrow> ledger_total (get (put s a k v) a') =
     (if a' = a then ledger_total (get s a) - get s a k + v else ledger_total (get s a'))"
  by (simp add: get_put_fun ledger_total_update finite_holders)

text \<open>Taking an amount from one holder and giving it to another leaves every total alone.\<close>

lemma total_transfer:
  assumes "wf s" "holder from" "holder dst"
    and "s1 = put s a from (get s a from - n)" "s2 = put s1 a dst (get s1 a dst + n)"
  shows "ledger_total (get s2 a') = ledger_total (get s a')"
  using assms by (simp add: total_put wf_put)

lemma transfer_nonneg:
  assumes "\<And>a k. 0 \<le> get s a k" "0 \<le> n" "n \<le> get s a from" "holder from" "holder dst"
    and "s1 = put s a from (get s a from - n)" "s2 = put s1 a dst (get s1 a dst + n)"
  shows "0 \<le> get s2 a' k"
  using assms by (simp add: get_put)

end

end
