(* ===== verification/Token.thy ===== *)
theory Token
  imports TokenKeys ClassKeeper Ledger
begin

section \<open>The token module: x/token\<close>

text \<open>
  The keeper's store is a record with one map per key prefix; the theory on the module's keys
  shows that entries of the store do not collide. Balances and statistics are absent when
  zero. Accounts are the addresses the account keeper knows. Events are recorded in the order
  they are emitted: a typed event as itself, a legacy event by the function that builds it and
  its arguments (its attributes are appended in the order of a Go map iteration, which is not
  fixed). A handler returns the new state or an error; on an error the caller discards the
  state.
\<close>

record TokenClass =
  ContractId :: string
  Name :: string
  Symbol :: string
  ImageUri :: string
  Meta :: string
  Decimals :: "32 word"
  Mintable :: bool

type_synonym Pair = "string \<times> string"

datatype TokenEvent =
    EventSent string string string string SdkInt
  | EventAuthorizedOperator string string string
  | EventRevokedOperator string string string
  | EventIssued string TokenClass
  | EventGranted string string string Permission
  | EventRenounced string string Permission
  | EventMinted string string string SdkInt
  | EventBurned string string string SdkInt
  | EventModified string string "Pair list"

datatype EventLog =
    Typed TokenEvent
  | Legacy string TokenEvent
  | LegacyIssue TokenEvent string SdkInt

record TokenState =
  balances :: "string \<times> AccAddress \<rightharpoonup> SdkInt"
  classes :: "string \<rightharpoonup> TokenClass"
  grants :: "(string \<times> AccAddress \<times> Permission) set"
  authorizations :: "(string \<times> AccAddress \<times> AccAddress) set"
  supplies :: "string \<rightharpoonup> SdkInt"
  minteds :: "string \<rightharpoonup> SdkInt"
  burnts :: "string \<rightharpoonup> SdkInt"
  class_state :: ClassState
  accounts :: "AccAddress set"
  events :: "EventLog list"

definition emit :: "EventLog \<Rightarrow> TokenState \<Rightarrow> TokenState" where
  "emit e s = s\<lparr>events := events s @ [e]\<rparr>"

definition ensureAccount :: "AccAddress \<Rightarrow> TokenState \<Rightarrow> TokenState" where
  "ensureAccount a s = (if a \<in> accounts s then s else s\<lparr>accounts := insert a (accounts s)\<rparr>)"

subsection \<open>Balances and operators: keeper/send.go\<close>

definition GetBalance :: "TokenState \<Rightarrow> string \<Rightarrow> AccAddress \<Rightarrow> SdkInt" where
  "GetBalance s contractID addr = (case balances s (contractID, addr) of None \<Rightarrow> 0 | Some v \<Rightarrow> v)"

definition setBalance :: "string \<Rightarrow> AccAddress \<Rightarrow> SdkInt \<Rightarrow> TokenState \<Rightarrow> TokenState" where
  "setBalance contractID addr balance s =
     (if Int_IsZero balance then s\<lparr>balances := (balances s)((contractID, addr) := None)\<rparr>
      else s\<lparr>balances := (balances s)((contractID, addr) \<mapsto> balance)\<rparr>)"

definition subtractToken :: "string \<Rightarrow> AccAddress \<Rightarrow> SdkInt \<Rightarrow> TokenState \<Rightarrow> TokenState result" where
  "subtractToken contractID addr amount s =
     bindE (Int_Sub (GetBalance s contractID addr) amount) (\<lambda>newBalance.
       if Int_IsNegative newBalance then Inl (Error ErrInvalidRequest ''balance is smaller than amount'')
       else Inr (setBalance contractID addr newBalance s))"

definition addToken :: "string \<Rightarrow> AccAddress \<Rightarrow> SdkInt \<Rightarrow> TokenState \<Rightarrow> TokenState result" where
  "addToken contractID addr amount s =
     bindE (Int_Add (GetBalance s contractID addr) amount) (\<lambda>newBalance.
       Inr (ensureAccount addr (setBalance contractID addr newBalance s)))"

definition Send :: "string \<Rightarrow> AccAddress \<Rightarrow> AccAddress \<Rightarrow> SdkInt \<Rightarrow> TokenState \<Rightarrow> TokenState result" where
  "Send contractID from dst amount s =
     (if \<not> Int_IsPositive amount then Inl (Panic ''amount must be positive'')
      else bindE (subtractToken contractID from amount s) (addToken contractID dst amount))"

definition GetClass :: "TokenState \<Rightarrow> string \<Rightarrow> TokenClass result" where
  "GetClass s contractID =
     (case classes s contractID of None \<Rightarrow> Inl (Error ErrNotFound ''no class'') | Some c \<Rightarrow> Inr c)"

definition setClass :: "TokenClass \<Rightarrow> TokenState \<Rightarrow> TokenState" where
  "setClass class s = s\<lparr>classes := (classes s)(ContractId class \<mapsto> class)\<rparr>"

definition GetAuthorization :: "TokenState \<Rightarrow> string \<Rightarrow> AccAddress \<Rightarrow> AccAddress \<Rightarrow> unit result" where
  "GetAuthorization s contractID holder operator =
     guardE ((contractID, operator, holder) \<in> authorizations s) (Error ErrNotFound ''no authorization'')"

definition setAuthorization :: "string \<Rightarrow> AccAddress \<Rightarrow> AccAddress \<Rightarrow> TokenState \<Rightarrow> TokenState" where
  "setAuthorization contractID holder operator s =
     s\<lparr>authorizations := insert (contractID, operator, holder) (authorizations s)\<rparr>"

definition deleteAuthorization :: "string \<Rightarrow> AccAddress \<Rightarrow> AccAddress \<Rightarrow> TokenState \<Rightarrow> TokenState" where
  "deleteAuthorization contractID holder operator s =
     s\<lparr>authorizations := authorizations s - {(contractID, operator, holder)}\<rparr>"

definition AuthorizeOperator :: "string \<Rightarrow> AccAddress \<Rightarrow> AccAddress \<Rightarrow> TokenState \<Rightarrow> TokenState result" where
  "AuthorizeOperator contractID holder operator s =
     bindE (GetClass s contractID) (\<lambda>_.
       if GetAuthorization s contractID holder operator = Inr ()
       then Inl (Error ErrInvalidRequest ''Already authorized'')
       else Inr (ensureAccount operator (setAuthorization contractID holder operator s)))"

definition RevokeOperator :: "string \<Rightarrow> AccAddress \<Rightarrow> AccAddress \<Rightarrow> TokenState \<Rightarrow> TokenState result" where
  "RevokeOperator contractID holder operator s =
     bindE (GetClass s contractID) (\<lambda>_.
     bindE (GetAuthorization s contractID holder operator) (\<lambda>_.
       Inr (deleteAuthorization contractID holder operator s)))"

subsection \<open>Statistics and supply: keeper/supply.go\<close>

definition getStatistics :: "(string \<rightharpoonup> SdkInt) \<Rightarrow> string \<Rightarrow> SdkInt" where
  "getStatistics m contractID = (case m contractID of None \<Rightarrow> 0 | Some v \<Rightarrow> v)"

definition setStatistics :: "string \<Rightarrow> SdkInt \<Rightarrow> (string \<rightharpoonup> SdkInt) \<Rightarrow> (string \<rightharpoonup> SdkInt)" where
  "setStatistics contractID amount m =
     (if Int_IsZero amount then m(contractID := None) else m(contractID \<mapsto> amount))"

definition GetSupply :: "TokenState \<Rightarrow> string \<Rightarrow> SdkInt" where
  "GetSupply s contractID = getStatistics (supplies s) contractID"

definition GetMinted :: "TokenState \<Rightarrow> string \<Rightarrow> SdkInt" where
  "GetMinted s contractID = getStatistics (minteds s) contractID"

definition GetBurnt :: "TokenState \<Rightarrow> string \<Rightarrow> SdkInt" where
  "GetBurnt s contractID = getStatistics (burnts s) contractID"

definition setSupply :: "string \<Rightarrow> SdkInt \<Rightarrow> TokenState \<Rightarrow> TokenState" where
  "setSupply contractID amount s = s\<lparr>supplies := setStatistics contractID amount (supplies s)\<rparr>"

definition setMinted :: "string \<Rightarrow> SdkInt \<Rightarrow> TokenState \<Rightarrow> TokenState" where
  "setMinted contractID amount s = s\<lparr>minteds := setStatistics contractID amount (minteds s)\<rparr>"

definition setBurnt :: "string \<Rightarrow> SdkInt \<Rightarrow> TokenState \<Rightarrow> TokenState" where
  "setBurnt contractID amount s = s\<lparr>burnts := setStatistics contractID amount (burnts s)\<rparr>"

definition mintToken :: "string \<Rightarrow> AccAddress \<Rightarrow> SdkInt \<Rightarrow> TokenState \<Rightarrow> TokenState result" where
  "mintToken contractID addr amount s =
     bindE (addToken contractID addr amount s) (\<lambda>s1.
     bindE (Int_Add (GetMinted s1 contractID) amount) (\<lambda>minted.
     let s2 = setMinted contractID minted s1 in
     bindE (Int_Add (GetSupply s2 contractID) amount) (\<lambda>supply.
       Inr (setSupply contractID supply s2))))"

definition burnToken :: "string \<Rightarrow> AccAddress \<Rightarrow> SdkInt \<Rightarrow> TokenState \<Rightarrow> TokenState result" where
  "burnToken contractID addr amount s =
     bindE (subtractToken contractID addr amount s) (\<lambda>s1.
     bindE (Int_Add (GetBurnt s1 contractID) amount) (\<lambda>burnt.
     let s2 = setBurnt contractID burnt s1 in
     bindE (Int_Sub (GetSupply s2 contractID) amount) (\<lambda>supply.
       Inr (setSupply contractID supply s2))))"

definition GetGrant :: "TokenState \<Rightarrow> string \<Rightarrow> AccAddress \<Rightarrow> Permission \<Rightarrow> unit result" where
  "GetGrant s contractID grantee permission =
     guardE ((contractID, grantee, permission) \<in> grants s) (Error ErrNotFound ''no permission'')"

definition setGrant :: "string \<Rightarrow> AccAddress \<Rightarrow> Permission \<Rightarrow> TokenState \<Rightarrow> TokenState" where
  "setGrant contractID grantee permission s =
     s\<lparr>grants := insert (contractID, grantee, permission) (grants s)\<rparr>"

definition deleteGrant :: "string \<Rightarrow> AccAddress \<Rightarrow> Permission \<Rightarrow> TokenState \<Rightarrow> TokenState" where
  "deleteGrant contractID grantee permission s =
     s\<lparr>grants := grants s - {(contractID, grantee, permission)}\<rparr>"

definition grant :: "string \<Rightarrow> AccAddress \<Rightarrow> Permission \<Rightarrow> TokenState \<Rightarrow> TokenState" where
  "grant contractID grantee permission s =
     ensureAccount grantee (setGrant contractID grantee permission s)"

text \<open>A nil granter, the granter of a contract's first permissions, prints as the empty text.\<close>

definition Grant :: "Config \<Rightarrow> string \<Rightarrow> AccAddress \<Rightarrow> AccAddress \<Rightarrow> Permission \<Rightarrow> TokenState \<Rightarrow> TokenState result" where
  "Grant cfg contractID granter grantee permission s =
     (let s1 = grant contractID grantee permission s in
      bindE (AccAddress_String cfg granter) (\<lambda>g.
      bindE (AccAddress_String cfg grantee) (\<lambda>e.
        let event = EventGranted contractID g e permission in
        Inr (emit (Typed event) (emit (Legacy ''NewEventGrantPermToken'' event) s1)))))"

definition Abandon :: "Config \<Rightarrow> string \<Rightarrow> AccAddress \<Rightarrow> Permission \<Rightarrow> TokenState \<Rightarrow> TokenState result" where
  "Abandon cfg contractID grantee permission s =
     (let s1 = deleteGrant contractID grantee permission s in
      bindE (AccAddress_String cfg grantee) (\<lambda>e.
        let event = EventRenounced contractID e permission in
        Inr (emit (Typed event) (emit (Legacy ''NewEventRevokePermToken'' event) s1))))"

definition issue :: "TokenClass \<Rightarrow> TokenState \<Rightarrow> TokenState result" where
  "issue class s =
     (case GetClass s (ContractId class) of
        Inr _ \<Rightarrow> Inl (Panic ''ID already exists'')
      | Inl _ \<Rightarrow> Inr (setClass class s))"

definition Issue :: "Config \<Rightarrow> TokenClass \<Rightarrow> AccAddress \<Rightarrow> AccAddress \<Rightarrow> SdkInt \<Rightarrow> TokenState \<Rightarrow> TokenState result" where
  "Issue cfg class owner dst amount s =
     bindE (issue class s) (\<lambda>s1.
     bindE (AccAddress_String cfg owner) (\<lambda>creator.
     bindE (AccAddress_String cfg dst) (\<lambda>dstStr.
     let event = EventIssued creator class;
         s2 = emit (Typed event) (emit (LegacyIssue event dstStr amount) s1);
         permissions = PermissionModify # (if Mintable class then [PermissionMint, PermissionBurn] else []);
         s3 = emit (Legacy ''NewEventGrantPermTokenHead''
                (EventGranted (ContractId class) [] dstStr PermissionUnspecified)) s2 in
     bindE (foldE (\<lambda>permission st.
         Grant cfg (ContractId class) [] owner permission
           (emit (Legacy ''NewEventGrantPermTokenBody''
              (EventGranted (ContractId class) [] dstStr permission)) st)) permissions s3) (\<lambda>s4.
     bindE (mintToken (ContractId class) dst amount s4) (\<lambda>s5.
       Inr (emit (Typed (EventMinted (ContractId class) creator dstStr amount)) s5))))))"

definition mint :: "string \<Rightarrow> AccAddress \<Rightarrow> AccAddress \<Rightarrow> SdkInt \<Rightarrow> TokenState \<Rightarrow> TokenState result" where
  "mint contractID grantee dst amount s =
     bindE (wrapE ErrUnauthorized ''no mint permission'' (GetGrant s contractID grantee PermissionMint)) (\<lambda>_.
       mintToken contractID dst amount s)"

definition Mint :: "Config \<Rightarrow> string \<Rightarrow> AccAddress \<Rightarrow> AccAddress \<Rightarrow> SdkInt \<Rightarrow> TokenState \<Rightarrow> TokenState result" where
  "Mint cfg contractID grantee dst amount s =
     bindE (mint contractID grantee dst amount s) (\<lambda>s1.
     bindE (AccAddress_String cfg grantee) (\<lambda>g.
     bindE (AccAddress_String cfg dst) (\<lambda>d.
       let event = EventMinted contractID g d amount in
       Inr (emit (Typed event) (emit (Legacy ''NewEventMintToken'' event) s1)))))"

definition burn :: "string \<Rightarrow> AccAddress \<Rightarrow> SdkInt \<Rightarrow> TokenState \<Rightarrow> TokenState result" where
  "burn contractID from amount s =
     bindE (wrapE ErrUnauthorized ''no burn permission'' (GetGrant s contractID from PermissionBurn)) (\<lambda>_.
       burnToken contractID from amount s)"

definition Burn :: "Config \<Rightarrow> string \<Rightarrow> AccAddress \<Rightarrow> SdkInt \<Rightarrow> TokenState \<Rightarrow> TokenState result" where
  "Burn cfg contractID from amount s =
     bindE (burn contractID from amount s) (\<lambda>s1.
     bindE (AccAddress_String cfg from) (\<lambda>f.
       let event = EventBurned contractID f f amount in
       Inr (emit (Typed event) (emit (Legacy ''NewEventBurnToken'' event) s1))))"

definition operatorBurn :: "string \<Rightarrow> AccAddress \<Rightarrow> AccAddress \<Rightarrow> SdkInt \<Rightarrow> TokenState \<Rightarrow> TokenState result" where
  "operatorBurn contractID operator from amount s =
     bindE (wrapE ErrUnauthorized ''no burn permission'' (GetGrant s contractID operator PermissionBurn)) (\<lambda>_.
     bindE (wrapE ErrUnauthorized ''no authorization'' (GetAuthorization s contractID from operator)) (\<lambda>_.
       burnToken contractID from amount s))"

definition OperatorBurn :: "Config \<Rightarrow> string \<Rightarrow> AccAddress \<Rightarrow> AccAddress \<Rightarrow> SdkInt \<Rightarrow> TokenState \<Rightarrow> TokenState result" where
  "OperatorBurn cfg contractID operator from amount s =
     bindE (operatorBurn contractID operator from amount s) (\<lambda>s1.
     bindE (AccAddress_String cfg operator) (\<lambda>opr.
     bindE (AccAddress_String cfg from) (\<lambda>f.
       let event = EventBurned contractID opr f amount in
       Inr (emit (Typed event) (emit (Legacy ''NewEventBurnTokenFrom'' event) s1)))))"

text \<open>A field without modifier calls a nil function.\<close>

definition apply_change :: "Pair \<Rightarrow> TokenClass \<Rightarrow> TokenClass result" where
  "apply_change change class =
     (if fst change = ''name'' then Inr (class\<lparr>Name := snd change\<rparr>)
      else if fst change = ''img_uri'' then Inr (class\<lparr>ImageUri := snd change\<rparr>)
      else if fst change = ''meta'' then Inr (class\<lparr>Meta := snd change\<rparr>)
      else Inl (Panic ''nil pointer dereference''))"

definition modify :: "string \<Rightarrow> Pair list \<Rightarrow> TokenState \<Rightarrow> TokenState result" where
  "modify contractID changes s =
     bindE (GetClass s contractID) (\<lambda>class.
     bindE (foldE apply_change changes class) (\<lambda>class'. Inr (setClass class' s)))"

definition Modify :: "Config \<Rightarrow> string \<Rightarrow> AccAddress \<Rightarrow> Pair list \<Rightarrow> TokenState \<Rightarrow> TokenState result" where
  "Modify cfg contractID grantee changes s =
     bindE (modify contractID changes s) (\<lambda>s1.
     bindE (AccAddress_String cfg grantee) (\<lambda>g.
       let event = EventModified contractID g changes in
       Inr (emit (Typed event) (emit (Legacy ''NewEventModifyToken'' event) s1))))"

end
