(* ===== verification/TokenMsg.thy ===== *)
theory TokenMsg
  imports Token
begin

section \<open>Messages of the token module: x/token/msgs.go, keeper/msg\_server.go\<close>

text \<open>
  The messages with their stateless validation, the handlers of the message server, the
  delivery of a message (validation, then the handler, as the application runs them) and the
  states reached by delivering messages from the default genesis. Texts are ASCII where they
  are changed to upper case.
\<close>

subsection \<open>Validation: validation.go, token.go, event.go\<close>

definition maxName :: nat where "maxName = 20"

definition maxImageURI :: nat where "maxImageURI = 1000"

definition maxMeta :: nat where "maxMeta = 1000"

definition stringInSize :: "string \<Rightarrow> nat \<Rightarrow> bool" where
  "stringInSize str sz \<longleftrightarrow> RuneCount str \<le> sz"

definition validateName :: "string \<Rightarrow> unit result" where
  "validateName name =
     (if length name = 0 then Inl (Error ErrInvalidRequest ''name cannot be empty'')
      else if \<not> stringInSize name maxName then Inl (Error ErrInvalidRequest ''name cannot be longer'')
      else Inr ())"

definition is_upper :: "char \<Rightarrow> bool" where
  "is_upper c \<longleftrightarrow> CHR ''A'' \<le> c \<and> c \<le> CHR ''Z''"

text \<open>The pattern \<open>[A-Z][A-Z0-9]{1,4}\<close>, anchored.\<close>

definition reSymbol :: "string \<Rightarrow> bool" where
  "reSymbol symbol \<longleftrightarrow>
     (case symbol of
        [] \<Rightarrow> False
      | c # cs \<Rightarrow> is_upper c \<and> 1 \<le> length cs \<and> length cs \<le> 4 \<and> list_all (\<lambda>x. is_upper x \<or> is_digit x) cs)"

definition validateSymbol :: "string \<Rightarrow> unit result" where
  "validateSymbol symbol = guardE (reSymbol symbol) (Error ErrInvalidRequest ''invalid symbol'')"

definition validateImageURI :: "string \<Rightarrow> unit result" where
  "validateImageURI uri =
     guardE (stringInSize uri maxImageURI) (Error ErrInvalidRequest ''image_uri cannot be longer'')"

definition validateMeta :: "string \<Rightarrow> unit result" where
  "validateMeta meta = guardE (stringInSize meta maxMeta) (Error ErrInvalidRequest ''meta cannot be longer'')"

definition validateDecimals :: "32 word \<Rightarrow> unit result" where
  "validateDecimals decimals =
     (if sint decimals < 0 \<or> sint decimals > 18 then Inl (Error ErrInvalidRequest ''invalid decimals'')
      else Inr ())"

definition validateAmount :: "SdkInt \<Rightarrow> unit result" where
  "validateAmount amount =
     guardE (Int_IsPositive amount) (Error ErrInvalidRequest ''amount must be positive'')"

definition LegacyPermissionFromString :: "string \<Rightarrow> Permission" where
  "LegacyPermissionFromString name =
     (let n = ToUpper name in
      if n = ''MODIFY'' then PermissionModify
      else if n = ''MINT'' then PermissionMint
      else if n = ''BURN'' then PermissionBurn
      else PermissionUnspecified)"

definition ValidatePermission :: "Permission \<Rightarrow> unit result" where
  "ValidatePermission permission =
     guardE (permission_value permission \<noteq> 0) (Error ErrInvalidRequest ''invalid permission'')"

definition validateLegacyPermission :: "string \<Rightarrow> unit result" where
  "validateLegacyPermission permission = ValidatePermission (LegacyPermissionFromString permission)"

datatype AttributeKey =
    AttributeKeyUnspecified | AttributeKeyName | AttributeKeySymbol | AttributeKeyMeta
  | AttributeKeyContractID | AttributeKeyOwner | AttributeKeyAmount | AttributeKeyDecimals
  | AttributeKeyImageURI | AttributeKeyMintable | AttributeKeyFrom | AttributeKeyTo
  | AttributeKeyPerm | AttributeKeyApprover | AttributeKeyProxy

definition AttributeKeyFromString :: "string \<Rightarrow> AttributeKey" where
  "AttributeKeyFromString name =
     (case map_of [(''NAME'', AttributeKeyName), (''SYMBOL'', AttributeKeySymbol), (''META'', AttributeKeyMeta),
        (''CONTRACT_ID'', AttributeKeyContractID), (''OWNER'', AttributeKeyOwner), (''AMOUNT'', AttributeKeyAmount),
        (''DECIMALS'', AttributeKeyDecimals), (''IMG_URI'', AttributeKeyImageURI), (''MINTABLE'', AttributeKeyMintable),
        (''FROM'', AttributeKeyFrom), (''TO'', AttributeKeyTo), (''PERM'', AttributeKeyPerm),
        (''APPROVER'', AttributeKeyApprover), (''PROXY'', AttributeKeyProxy)] (ToUpper name) of
        None \<Rightarrow> AttributeKeyUnspecified | Some k \<Rightarrow> k)"

definition validateChange :: "Pair \<Rightarrow> unit result" where
  "validateChange change =
     (case AttributeKeyFromString (fst change) of
        AttributeKeyName \<Rightarrow> validateName (snd change)
      | AttributeKeyImageURI \<Rightarrow> validateImageURI (snd change)
      | AttributeKeyMeta \<Rightarrow> validateMeta (snd change)
      | _ \<Rightarrow> Inl (Error ErrInvalidRequest ''invalid field''))"

definition ValidateContractID :: "string \<Rightarrow> unit result" where
  "ValidateContractID cid = ValidateID cid"

subsection \<open>Messages\<close>

text \<open>
  The fields, in order: \<open>MsgSend\<close> contract id, from, to, amount; \<open>MsgTransferFrom\<close> contract
  id, proxy, from, to, amount; \<open>MsgRevokeOperator\<close> contract id, holder, operator;
  \<open>MsgApprove\<close> contract id, approver, proxy; \<open>MsgIssue\<close> name, symbol, image uri, meta,
  decimals, mintable, owner, to, amount; \<open>MsgGrantPermission\<close> contract id, from, to,
  permission; \<open>MsgRevokePermission\<close> contract id, from, permission; \<open>MsgMint\<close> contract id,
  from, to, amount; \<open>MsgBurn\<close> contract id, from, amount; \<open>MsgBurnFrom\<close> contract id, proxy,
  from, amount; \<open>MsgModify\<close> contract id, owner, changes.
\<close>

datatype TokenMsg =
    MsgSend string string string SdkInt
  | MsgTransferFrom string string string string SdkInt
  | MsgRevokeOperator string string string
  | MsgApprove string string string
  | MsgIssue string string string string "32 word" bool string string SdkInt
  | MsgGrantPermission string string string string
  | MsgRevokePermission string string string
  | MsgMint string string string SdkInt
  | MsgBurn string string SdkInt
  | MsgBurnFrom string string string SdkInt
  | MsgModify string string "Pair list"

definition addrE :: "Config \<Rightarrow> string \<Rightarrow> AccAddress result" where
  "addrE cfg a = wrapE ErrInvalidAddress ''invalid address'' (AccAddressFromBech32 cfg a)"

definition checkAddr :: "Config \<Rightarrow> string \<Rightarrow> unit result" where
  "checkAddr cfg a = bindE (addrE cfg a) (\<lambda>_. Inr ())"

text \<open>The loop over the changes with the fields already checked.\<close>

fun checkChanges :: "string set \<Rightarrow> Pair list \<Rightarrow> unit result" where
  "checkChanges checkedFields [] =
     (if checkedFields = {} then Inl (Error ErrInvalidRequest ''no field provided'') else Inr ())"
| "checkChanges checkedFields (change # rest) =
     (if fst change \<in> checkedFields then Inl (Error ErrInvalidRequest ''duplicate fields'')
      else bindE (validateChange change) (\<lambda>_. checkChanges (insert (fst change) checkedFields) rest))"

definition MsgSend_ValidateBasic :: "Config \<Rightarrow> string \<Rightarrow> string \<Rightarrow> string \<Rightarrow> SdkInt \<Rightarrow> unit result" where
  "MsgSend_ValidateBasic cfg c from dst amount =
     bindE (ValidateContractID c) (\<lambda>_. bindE (checkAddr cfg from) (\<lambda>_. bindE (checkAddr cfg dst) (\<lambda>_.
       validateAmount amount)))"

definition MsgTransferFrom_ValidateBasic :: "Config \<Rightarrow> string \<Rightarrow> string \<Rightarrow> string \<Rightarrow> string \<Rightarrow> SdkInt \<Rightarrow> unit result" where
  "MsgTransferFrom_ValidateBasic cfg c proxy from dst amount =
     bindE (ValidateContractID c) (\<lambda>_. bindE (checkAddr cfg proxy) (\<lambda>_. bindE (checkAddr cfg from) (\<lambda>_.
       bindE (checkAddr cfg dst) (\<lambda>_. validateAmount amount))))"

definition MsgRevokeOperator_ValidateBasic :: "Config \<Rightarrow> string \<Rightarrow> string \<Rightarrow> string \<Rightarrow> unit result" where
  "MsgRevokeOperator_ValidateBasic cfg c holder operator =
     bindE (ValidateContractID c) (\<lambda>_. bindE (checkAddr cfg holder) (\<lambda>_. checkAddr cfg operator))"

definition MsgApprove_ValidateBasic :: "Config \<Rightarrow> string \<Rightarrow> string \<Rightarrow> string \<Rightarrow> unit result" where
  "MsgApprove_ValidateBasic cfg c approver proxy =
     bindE (ValidateContractID c) (\<lambda>_. bindE (checkAddr cfg approver) (\<lambda>_. checkAddr cfg proxy))"

definition MsgIssue_ValidateBasic :: "Config \<Rightarrow> string \<Rightarrow> string \<Rightarrow> string \<Rightarrow> string \<Rightarrow> 32 word \<Rightarrow> bool \<Rightarrow> string \<Rightarrow> string \<Rightarrow> SdkInt \<Rightarrow> unit result" where
  "MsgIssue_ValidateBasic cfg name symbol uri meta decimals mintable owner dst amount =
     bindE (checkAddr cfg owner) (\<lambda>_. bindE (checkAddr cfg dst) (\<lambda>_. bindE (validateName name) (\<lambda>_.
       bindE (validateSymbol symbol) (\<lambda>_. bindE (validateImageURI uri) (\<lambda>_. bindE (validateMeta meta) (\<lambda>_.
       bindE (validateDecimals decimals) (\<lambda>_. validateAmount amount)))))))"

definition MsgGrantPermission_ValidateBasic :: "Config \<Rightarrow> string \<Rightarrow> string \<Rightarrow> string \<Rightarrow> string \<Rightarrow> unit result" where
  "MsgGrantPermission_ValidateBasic cfg c from dst permission =
     bindE (ValidateContractID c) (\<lambda>_. bindE (checkAddr cfg from) (\<lambda>_. bindE (checkAddr cfg dst) (\<lambda>_.
       validateLegacyPermission permission)))"

definition MsgRevokePermission_ValidateBasic :: "Config \<Rightarrow> string \<Rightarrow> string \<Rightarrow> string \<Rightarrow> unit result" where
  "MsgRevokePermission_ValidateBasic cfg c from permission =
     bindE (ValidateContractID c) (\<lambda>_. bindE (checkAddr cfg from) (\<lambda>_. validateLegacyPermission permission))"

definition MsgMint_ValidateBasic :: "Config \<Rightarrow> string \<Rightarrow> string \<Rightarrow> string \<Rightarrow> SdkInt \<Rightarrow> unit result" where
  "MsgMint_ValidateBasic cfg c from dst amount =
     bindE (ValidateContractID c) (\<lambda>_. bindE (checkAddr cfg from) (\<lambda>_. bindE (checkAddr cfg dst) (\<lambda>_.
       validateAmount amount)))"

definition MsgBurn_ValidateBasic :: "Config \<Rightarrow> string \<Rightarrow> string \<Rightarrow> SdkInt \<Rightarrow> unit result" where
  "MsgBurn_ValidateBasic cfg c from amount =
     bindE (ValidateContractID c) (\<lambda>_. bindE (checkAddr cfg from) (\<lambda>_. validateAmount amount))"

definition MsgBurnFrom_ValidateBasic :: "Config \<Rightarrow> string \<Rightarrow> string \<Rightarrow> string \<Rightarrow> SdkInt \<Rightarrow> unit result" where
  "MsgBurnFrom_ValidateBasic cfg c proxy from amount =
     bindE (ValidateContractID c) (\<lambda>_. bindE (checkAddr cfg proxy) (\<lambda>_. bindE (checkAddr cfg from) (\<lambda>_.
       validateAmount amount)))"

definition MsgModify_ValidateBasic :: "Config \<Rightarrow> string \<Rightarrow> string \<Rightarrow> Pair list \<Rightarrow> unit result" where
  "MsgModify_ValidateBasic cfg c owner changes =
     bindE (ValidateContractID c) (\<lambda>_. bindE (checkAddr cfg owner) (\<lambda>_. checkChanges {} changes))"

lemmas ValidateBasic_defs [simp] =
  MsgSend_ValidateBasic_def
  MsgTransferFrom_ValidateBasic_def
  MsgRevokeOperator_ValidateBasic_def
  MsgApprove_ValidateBasic_def
  MsgIssue_ValidateBasic_def
  MsgGrantPermission_ValidateBasic_def
  MsgRevokePermission_ValidateBasic_def
  MsgMint_ValidateBasic_def
  MsgBurn_ValidateBasic_def
  MsgBurnFrom_ValidateBasic_def
  MsgModify_ValidateBasic_def

fun ValidateBasic :: "Config \<Rightarrow> TokenMsg \<Rightarrow> unit result" where
  "ValidateBasic cfg (MsgSend c from dst amount) =
     MsgSend_ValidateBasic cfg c from dst amount"
| "ValidateBasic cfg (MsgTransferFrom c proxy from dst amount) =
     MsgTransferFrom_ValidateBasic cfg c proxy from dst amount"
| "ValidateBasic cfg (MsgRevokeOperator c holder operator) =
     MsgRevokeOperator_ValidateBasic cfg c holder operator"
| "ValidateBasic cfg (MsgApprove c approver proxy) =
     MsgApprove_ValidateBasic cfg c approver proxy"
| "ValidateBasic cfg (MsgIssue name symbol uri meta decimals mintable owner dst amount) =
     MsgIssue_ValidateBasic cfg name symbol uri meta decimals mintable owner dst amount"
| "ValidateBasic cfg (MsgGrantPermission c from dst permission) =
     MsgGrantPermission_ValidateBasic cfg c from dst permission"
| "ValidateBasic cfg (MsgRevokePermission c from permission) =
     MsgRevokePermission_ValidateBasic cfg c from permission"
| "ValidateBasic cfg (MsgMint c from dst amount) =
     MsgMint_ValidateBasic cfg c from dst amount"
| "ValidateBasic cfg (MsgBurn c from amount) =
     MsgBurn_ValidateBasic cfg c from amount"
| "ValidateBasic cfg (MsgBurnFrom c proxy from amount) =
     MsgBurnFrom_ValidateBasic cfg c proxy from amount"
| "ValidateBasic cfg (MsgModify c owner changes) =
     MsgModify_ValidateBasic cfg c owner changes"

text \<open>The field the signer is read from, and the signer; an unreadable address is nil.\<close>

fun signer_text :: "TokenMsg \<Rightarrow> string" where
  "signer_text (MsgSend c from dst amount) = from"
| "signer_text (MsgTransferFrom c proxy from dst amount) = proxy"
| "signer_text (MsgRevokeOperator c holder operator) = holder"
| "signer_text (MsgApprove c approver proxy) = approver"
| "signer_text (MsgIssue name symbol uri meta decimals mintable owner dst amount) = owner"
| "signer_text (MsgGrantPermission c from dst permission) = from"
| "signer_text (MsgRevokePermission c from permission) = from"
| "signer_text (MsgMint c from dst amount) = from"
| "signer_text (MsgBurn c from amount) = from"
| "signer_text (MsgBurnFrom c proxy from amount) = proxy"
| "signer_text (MsgModify c owner changes) = owner"

definition GetSigners :: "Config \<Rightarrow> TokenMsg \<Rightarrow> AccAddress list" where
  "GetSigners cfg m = [case AccAddressFromBech32 cfg (signer_text m) of Inl _ \<Rightarrow> [] | Inr a \<Rightarrow> a]"

subsection \<open>The message server\<close>

definition msg_Send :: "Config \<Rightarrow> string \<Rightarrow> string \<Rightarrow> string \<Rightarrow> SdkInt \<Rightarrow> TokenState \<Rightarrow> TokenState result" where
  "msg_Send cfg c fromS dstS amount s =
     bindE (addrE cfg fromS) (\<lambda>from.
     bindE (addrE cfg dstS) (\<lambda>dst.
     bindE (Send c from dst amount s) (\<lambda>s1.
       let event = EventSent c fromS fromS dstS amount in
       Inr (emit (Typed event) (emit (Legacy ''NewEventTransfer'' event) s1)))))"

definition msg_TransferFrom :: "Config \<Rightarrow> string \<Rightarrow> string \<Rightarrow> string \<Rightarrow> string \<Rightarrow> SdkInt \<Rightarrow> TokenState \<Rightarrow> TokenState result" where
  "msg_TransferFrom cfg c proxyS fromS dstS amount s =
     bindE (addrE cfg fromS) (\<lambda>from.
     bindE (addrE cfg proxyS) (\<lambda>proxy.
     bindE (addrE cfg dstS) (\<lambda>dst.
     bindE (wrapE ErrUnauthorized ''no authorization'' (GetAuthorization s c from proxy)) (\<lambda>_.
     bindE (Send c from dst amount s) (\<lambda>s1.
       let event = EventSent c proxyS fromS dstS amount in
       Inr (emit (Typed event) (emit (Legacy ''NewEventTransferFrom'' event) s1)))))))"

definition msg_RevokeOperator :: "Config \<Rightarrow> string \<Rightarrow> string \<Rightarrow> string \<Rightarrow> TokenState \<Rightarrow> TokenState result" where
  "msg_RevokeOperator cfg c holderS operatorS s =
     bindE (addrE cfg holderS) (\<lambda>holder.
     bindE (addrE cfg operatorS) (\<lambda>operator.
     bindE (RevokeOperator c holder operator s) (\<lambda>s1.
       Inr (emit (Typed (EventRevokedOperator c holderS operatorS)) s1))))"

definition msg_Approve :: "Config \<Rightarrow> string \<Rightarrow> string \<Rightarrow> string \<Rightarrow> TokenState \<Rightarrow> TokenState result" where
  "msg_Approve cfg c approverS proxyS s =
     bindE (addrE cfg approverS) (\<lambda>approver.
     bindE (addrE cfg proxyS) (\<lambda>proxy.
     bindE (AuthorizeOperator c approver proxy s) (\<lambda>s1.
       let event = EventAuthorizedOperator c approverS proxyS in
       Inr (emit (Typed event) (emit (Legacy ''NewEventApproveToken'' event) s1)))))"

definition msg_Issue :: "Config \<Rightarrow> string \<Rightarrow> string \<Rightarrow> string \<Rightarrow> string \<Rightarrow> 32 word \<Rightarrow> bool \<Rightarrow> string \<Rightarrow> string
    \<Rightarrow> SdkInt \<Rightarrow> TokenState \<Rightarrow> TokenState result" where
  "msg_Issue cfg name symbol uri meta decimals mintable ownerS dstS amount s =
     bindE (NewID (class_state s)) (\<lambda>(contractID, cs).
     let s1 = s\<lparr>class_state := cs\<rparr>;
         class = \<lparr>ContractId = contractID, Name = name, Symbol = symbol, ImageUri = uri, Meta = meta,
                  Decimals = decimals, Mintable = mintable\<rparr> in
     bindE (addrE cfg ownerS) (\<lambda>owner.
     bindE (addrE cfg dstS) (\<lambda>dst. Issue cfg class owner dst amount s1)))"

definition msg_GrantPermission :: "Config \<Rightarrow> string \<Rightarrow> string \<Rightarrow> string \<Rightarrow> string \<Rightarrow> TokenState \<Rightarrow> TokenState result" where
  "msg_GrantPermission cfg c fromS dstS perm s =
     bindE (addrE cfg fromS) (\<lambda>granter.
     bindE (addrE cfg dstS) (\<lambda>grantee.
     let permission = LegacyPermissionFromString perm in
     bindE (wrapE ErrUnauthorized ''no permission'' (GetGrant s c granter permission)) (\<lambda>_.
       if GetGrant s c grantee permission = Inr ()
       then Inl (Error ErrInvalidRequest ''already granted'')
       else
         bindE (Grant cfg c granter grantee permission s) (\<lambda>s1.
           Inr (emit (Legacy ''NewEventGrantPermToken'' (EventGranted c fromS dstS permission)) s1)))))"

definition msg_RevokePermission :: "Config \<Rightarrow> string \<Rightarrow> string \<Rightarrow> string \<Rightarrow> TokenState \<Rightarrow> TokenState result" where
  "msg_RevokePermission cfg c fromS perm s =
     bindE (addrE cfg fromS) (\<lambda>grantee.
     let permission = LegacyPermissionFromString perm in
     bindE (wrapE ErrUnauthorized ''no permission'' (GetGrant s c grantee permission)) (\<lambda>_.
     bindE (Abandon cfg c grantee permission s) (\<lambda>s1.
       Inr (emit (Legacy ''NewEventRevokePermToken'' (EventRenounced c fromS permission)) s1))))"

definition msg_Mint :: "Config \<Rightarrow> string \<Rightarrow> string \<Rightarrow> string \<Rightarrow> SdkInt \<Rightarrow> TokenState \<Rightarrow> TokenState result" where
  "msg_Mint cfg c fromS dstS amount s =
     bindE (addrE cfg fromS) (\<lambda>from.
     bindE (addrE cfg dstS) (\<lambda>dst. Mint cfg c from dst amount s))"

definition msg_Burn :: "Config \<Rightarrow> string \<Rightarrow> string \<Rightarrow> SdkInt \<Rightarrow> TokenState \<Rightarrow> TokenState result" where
  "msg_Burn cfg c fromS amount s = bindE (addrE cfg fromS) (\<lambda>from. Burn cfg c from amount s)"

definition msg_BurnFrom :: "Config \<Rightarrow> string \<Rightarrow> string \<Rightarrow> string \<Rightarrow> SdkInt \<Rightarrow> TokenState \<Rightarrow> TokenState result" where
  "msg_BurnFrom cfg c proxyS fromS amount s =
     bindE (addrE cfg proxyS) (\<lambda>proxy.
     bindE (addrE cfg fromS) (\<lambda>from. OperatorBurn cfg c proxy from amount s))"

definition msg_Modify :: "Config \<Rightarrow> string \<Rightarrow> string \<Rightarrow> Pair list \<Rightarrow> TokenState \<Rightarrow> TokenState result" where
  "msg_Modify cfg c ownerS changes s =
     bindE (addrE cfg ownerS) (\<lambda>grantee.
     bindE (wrapE ErrUnauthorized ''no modify permission'' (GetGrant s c grantee PermissionModify)) (\<lambda>_.
       Modify cfg c grantee changes s))"

fun handle :: "Config \<Rightarrow> TokenMsg \<Rightarrow> TokenState \<Rightarrow> TokenState result" where
  "handle cfg (MsgSend c from dst amount) = msg_Send cfg c from dst amount"
| "handle cfg (MsgTransferFrom c proxy from dst amount) = msg_TransferFrom cfg c proxy from dst amount"
| "handle cfg (MsgRevokeOperator c holder operator) = msg_RevokeOperator cfg c holder operator"
| "handle cfg (MsgApprove c approver proxy) = msg_Approve cfg c approver proxy"
| "handle cfg (MsgIssue name symbol uri meta decimals mintable owner dst amount) =
     msg_Issue cfg name symbol uri meta decimals mintable owner dst amount"
| "handle cfg (MsgGrantPermission c from dst permission) = msg_GrantPermission cfg c from dst permission"
| "handle cfg (MsgRevokePermission c from permission) = msg_RevokePermission cfg c from permission"
| "handle cfg (MsgMint c from dst amount) = msg_Mint cfg c from dst amount"
| "handle cfg (MsgBurn c from amount) = msg_Burn cfg c from amount"
| "handle cfg (MsgBurnFrom c proxy from amount) = msg_BurnFrom cfg c proxy from amount"
| "handle cfg (MsgModify c owner changes) = msg_Modify cfg c owner changes"

definition DeliverTokenMsg :: "Config \<Rightarrow> TokenMsg \<Rightarrow> TokenState \<Rightarrow> TokenState result" where
  "DeliverTokenMsg cfg m s = bindE (ValidateBasic cfg m) (\<lambda>_. handle cfg m s)"

subsection \<open>Genesis: genesis.go, keeper/genesis.go\<close>

record TokenGenesis =
  g_ClassState :: "ClassGenesisState option"
  g_Balances :: "(string \<times> (string \<times> SdkInt) list) list"
  g_Classes :: "TokenClass list"
  g_Grants :: "(string \<times> (string \<times> Permission) list) list"
  g_Authorizations :: "(string \<times> (string \<times> string) list) list"
  g_Supplies :: "(string \<times> SdkInt) list"
  g_Mints :: "(string \<times> SdkInt) list"
  g_Burns :: "(string \<times> SdkInt) list"

definition forE :: "('a \<Rightarrow> unit result) \<Rightarrow> 'a list \<Rightarrow> unit result" where
  "forE f xs = foldE (\<lambda>x _. f x) xs ()"

definition ValidateGenesis :: "Config \<Rightarrow> TokenGenesis \<Rightarrow> unit result" where
  "ValidateGenesis cfg d =
     bindE (case g_ClassState d of None \<Rightarrow> Inr () | Some c \<Rightarrow> ValidateClassGenesis c) (\<lambda>_.
     bindE (forE (\<lambda>(c, bs).
        bindE (ValidateContractID c) (\<lambda>_.
        bindE (guardE (length bs \<noteq> 0) (Error ErrInvalidRequest ''balances cannot be empty'')) (\<lambda>_.
        forE (\<lambda>(a, amount). bindE (AccAddressFromBech32 cfg a) (\<lambda>_. validateAmount amount)) bs)))
        (g_Balances d)) (\<lambda>_.
     bindE (forE (\<lambda>c.
        bindE (ValidateContractID (ContractId c)) (\<lambda>_.
        bindE (validateName (Name c)) (\<lambda>_.
        bindE (validateSymbol (Symbol c)) (\<lambda>_.
        bindE (validateImageURI (ImageUri c)) (\<lambda>_.
        bindE (validateMeta (Meta c)) (\<lambda>_. validateDecimals (Decimals c))))))) (g_Classes d)) (\<lambda>_.
     bindE (forE (\<lambda>(c, gs).
        bindE (ValidateContractID c) (\<lambda>_.
        bindE (guardE (length gs \<noteq> 0) (Error ErrInvalidRequest ''grants cannot be empty'')) (\<lambda>_.
        forE (\<lambda>(a, p). bindE (AccAddressFromBech32 cfg a) (\<lambda>_. ValidatePermission p)) gs)))
        (g_Grants d)) (\<lambda>_.
     forE (\<lambda>(c, as).
        bindE (ValidateContractID c) (\<lambda>_.
        bindE (guardE (length as \<noteq> 0) (Error ErrInvalidRequest ''authorizations cannot be empty'')) (\<lambda>_.
        forE (\<lambda>(h, opr). bindE (AccAddressFromBech32 cfg h) (\<lambda>_.
          bindE (AccAddressFromBech32 cfg opr) (\<lambda>_. Inr ()))) as)))
        (g_Authorizations d)))))"

definition mustAddr :: "Config \<Rightarrow> string \<Rightarrow> AccAddress result" where
  "mustAddr cfg a = (case AccAddressFromBech32 cfg a of Inl _ \<Rightarrow> Inl (Panic ''address'') | Inr x \<Rightarrow> Inr x)"

definition token_InitGenesis :: "Config \<Rightarrow> TokenGenesis \<Rightarrow> TokenState \<Rightarrow> TokenState result" where
  "token_InitGenesis cfg d s0 =
     (let cd = (case g_ClassState d of None \<Rightarrow> DefaultClassGenesisState | Some c \<Rightarrow> c);
          s1 = s0\<lparr>class_state := class_InitGenesis cd (class_state s0)\<rparr> in
      bindE (foldE (\<lambda>(c, bs) st. foldE (\<lambda>(a, amount) st'.
          bindE (mustAddr cfg a) (\<lambda>addr. Inr (setBalance c addr amount st'))) bs st) (g_Balances d) s1) (\<lambda>s2.
      let s3 = fold setClass (g_Classes d) s2 in
      bindE (foldE (\<lambda>(c, gs) st. foldE (\<lambda>(a, p) st'.
          bindE (mustAddr cfg a) (\<lambda>addr. Inr (setGrant c addr p st'))) gs st) (g_Grants d) s3) (\<lambda>s4.
      bindE (foldE (\<lambda>(c, as) st. foldE (\<lambda>(h, opr) st'.
          bindE (mustAddr cfg h) (\<lambda>holder.
          bindE (mustAddr cfg opr) (\<lambda>operator. Inr (setAuthorization c holder operator st')))) as st)
          (g_Authorizations d) s4) (\<lambda>s5.
        Inr (fold (\<lambda>(c, a). setBurnt c a) (g_Burns d)
              (fold (\<lambda>(c, a). setMinted c a) (g_Mints d)
              (fold (\<lambda>(c, a). setSupply c a) (g_Supplies d) s5)))))))"

definition empty_token_state :: TokenState where
  "empty_token_state = \<lparr>balances = Map.empty, classes = Map.empty, grants = {}, authorizations = {},
     supplies = Map.empty, minteds = Map.empty, burnts = Map.empty,
     class_state = \<lparr>nonce = None, ids = {}\<rparr>, accounts = {}, events = []\<rparr>"

definition DefaultGenesisState :: TokenGenesis where
  "DefaultGenesisState = \<lparr>g_ClassState = Some DefaultClassGenesisState, g_Balances = [], g_Classes = [],
     g_Grants = [], g_Authorizations = [], g_Supplies = [], g_Mints = [], g_Burns = []\<rparr>"

subsection \<open>Reachable states\<close>

text \<open>
  Runs start from the default genesis. The import of another one stores balances, supplies and
  classes as they are given and the validation does not compare them with each other, so that a
  supply need not be the sum of its balances after it. That a message keeps the invariants is
  proved for every state that has them, whatever it was imported from.
\<close>

inductive token_reachable :: "Config \<Rightarrow> TokenState \<Rightarrow> bool" for cfg where
  genesis: "token_InitGenesis cfg DefaultGenesisState empty_token_state = Inr s \<Longrightarrow> token_reachable cfg s"
| deliver: "token_reachable cfg s \<Longrightarrow> DeliverTokenMsg cfg m s = Inr s' \<Longrightarrow> token_reachable cfg s'"

end
