(* ===== verification/Token_Props.thy ===== *)
theory Token_Props
  imports TokenMsg
begin

section \<open>Conservation and authorization in the token module\<close>

text \<open>
  The supply of every contract is the sum of its balances and the difference of what was
  minted and burnt, in every state messages lead to. No message takes tokens from an account
  that neither signed it nor authorized its signer, and supply and permissions change only
  by the holders of a permission.
\<close>

subsection \<open>Reads after writes\<close>

named_theorems token_simps \<open>views of a token state after an update\<close>

lemma GetBalance_set [token_simps]:
  "GetBalance (setBalance c a v s) c' a' = (if c' = c \<and> a' = a then v else GetBalance s c' a')"
  by (simp add: GetBalance_def setBalance_def)

lemma getStatistics_set [token_simps]:
  "getStatistics (setStatistics c v m) c' = (if c' = c then v else getStatistics m c')"
  by (simp add: getStatistics_def setStatistics_def)

lemma setBalance_views [token_simps]:
  "GetSupply (setBalance c a v s) = GetSupply s" "GetMinted (setBalance c a v s) = GetMinted s"
  "GetBurnt (setBalance c a v s) = GetBurnt s" "grants (setBalance c a v s) = grants s"
  "authorizations (setBalance c a v s) = authorizations s" "classes (setBalance c a v s) = classes s"
  "class_state (setBalance c a v s) = class_state s" "accounts (setBalance c a v s) = accounts s"
  by (auto simp: setBalance_def GetSupply_def GetMinted_def GetBurnt_def fun_eq_iff)

lemma emit_views [token_simps]:
  "GetBalance (emit e s) = GetBalance s" "balances (emit e s) = balances s" "GetSupply (emit e s) = GetSupply s"
  "GetMinted (emit e s) = GetMinted s" "GetBurnt (emit e s) = GetBurnt s" "grants (emit e s) = grants s"
  "authorizations (emit e s) = authorizations s" "classes (emit e s) = classes s"
  "class_state (emit e s) = class_state s"
  by (auto simp: emit_def GetBalance_def GetSupply_def GetMinted_def GetBurnt_def fun_eq_iff)

lemma ensureAccount_views [token_simps]:
  "GetBalance (ensureAccount a s) = GetBalance s" "balances (ensureAccount a s) = balances s"
  "GetSupply (ensureAccount a s) = GetSupply s" "GetMinted (ensureAccount a s) = GetMinted s"
  "GetBurnt (ensureAccount a s) = GetBurnt s" "grants (ensureAccount a s) = grants s"
  "authorizations (ensureAccount a s) = authorizations s" "classes (ensureAccount a s) = classes s"
  "class_state (ensureAccount a s) = class_state s"
  by (auto simp: ensureAccount_def GetBalance_def GetSupply_def GetMinted_def GetBurnt_def fun_eq_iff)

lemma statistics_views [token_simps]:
  "GetBalance (setSupply c v s) = GetBalance s" "balances (setSupply c v s) = balances s"
  "GetBalance (setMinted c v s) = GetBalance s" "balances (setMinted c v s) = balances s"
  "GetBalance (setBurnt c v s) = GetBalance s" "balances (setBurnt c v s) = balances s"
  "grants (setSupply c v s) = grants s" "grants (setMinted c v s) = grants s" "grants (setBurnt c v s) = grants s"
  "authorizations (setSupply c v s) = authorizations s" "authorizations (setMinted c v s) = authorizations s"
  "authorizations (setBurnt c v s) = authorizations s"
  "classes (setSupply c v s) = classes s" "classes (setMinted c v s) = classes s" "classes (setBurnt c v s) = classes s"
  "class_state (setSupply c v s) = class_state s" "class_state (setMinted c v s) = class_state s"
  "class_state (setBurnt c v s) = class_state s"
  by (auto simp: setSupply_def setMinted_def setBurnt_def GetBalance_def fun_eq_iff)

lemma statistics_reads [token_simps]:
  "GetSupply (setSupply c v s) c' = (if c' = c then v else GetSupply s c')"
  "GetSupply (setMinted c v s) = GetSupply s" "GetSupply (setBurnt c v s) = GetSupply s"
  "GetMinted (setMinted c v s) c' = (if c' = c then v else GetMinted s c')"
  "GetMinted (setSupply c v s) = GetMinted s" "GetMinted (setBurnt c v s) = GetMinted s"
  "GetBurnt (setBurnt c v s) c' = (if c' = c then v else GetBurnt s c')"
  "GetBurnt (setSupply c v s) = GetBurnt s" "GetBurnt (setMinted c v s) = GetBurnt s"
  by (auto simp: setSupply_def setMinted_def setBurnt_def GetSupply_def GetMinted_def GetBurnt_def
      getStatistics_set fun_eq_iff)

lemma permission_views [token_simps]:
  "GetBalance (setGrant c a p s) = GetBalance s" "GetBalance (deleteGrant c a p s) = GetBalance s"
  "GetBalance (setAuthorization c h opr s) = GetBalance s" "GetBalance (deleteAuthorization c h opr s) = GetBalance s"
  "balances (setGrant c a p s) = balances s" "balances (deleteGrant c a p s) = balances s"
  "balances (setAuthorization c h opr s) = balances s" "balances (deleteAuthorization c h opr s) = balances s"
  "GetSupply (setGrant c a p s) = GetSupply s" "GetSupply (deleteGrant c a p s) = GetSupply s"
  "GetSupply (setAuthorization c h opr s) = GetSupply s" "GetSupply (deleteAuthorization c h opr s) = GetSupply s"
  "GetMinted (setGrant c a p s) = GetMinted s" "GetMinted (deleteGrant c a p s) = GetMinted s"
  "GetMinted (setAuthorization c h opr s) = GetMinted s" "GetMinted (deleteAuthorization c h opr s) = GetMinted s"
  "GetBurnt (setGrant c a p s) = GetBurnt s" "GetBurnt (deleteGrant c a p s) = GetBurnt s"
  "GetBurnt (setAuthorization c h opr s) = GetBurnt s" "GetBurnt (deleteAuthorization c h opr s) = GetBurnt s"
  "classes (setGrant c a p s) = classes s" "classes (deleteGrant c a p s) = classes s"
  "classes (setAuthorization c h opr s) = classes s" "classes (deleteAuthorization c h opr s) = classes s"
  "class_state (setGrant c a p s) = class_state s" "class_state (deleteGrant c a p s) = class_state s"
  "class_state (setAuthorization c h opr s) = class_state s" "class_state (deleteAuthorization c h opr s) = class_state s"
  "authorizations (setGrant c a p s) = authorizations s" "authorizations (deleteGrant c a p s) = authorizations s"
  "grants (setAuthorization c h opr s) = grants s" "grants (deleteAuthorization c h opr s) = grants s"
  by (auto simp: setGrant_def deleteGrant_def setAuthorization_def deleteAuthorization_def GetBalance_def
      GetSupply_def GetMinted_def GetBurnt_def fun_eq_iff)

lemma class_views [token_simps]:
  "GetBalance (setClass k s) = GetBalance s" "balances (setClass k s) = balances s"
  "GetSupply (setClass k s) = GetSupply s" "GetMinted (setClass k s) = GetMinted s"
  "GetBurnt (setClass k s) = GetBurnt s" "grants (setClass k s) = grants s"
  "authorizations (setClass k s) = authorizations s" "class_state (setClass k s) = class_state s"
  "GetBalance (s\<lparr>class_state := x\<rparr>) = GetBalance s" "balances (s\<lparr>class_state := x\<rparr>) = balances s"
  "GetSupply (s\<lparr>class_state := x\<rparr>) = GetSupply s" "GetMinted (s\<lparr>class_state := x\<rparr>) = GetMinted s"
  "GetBurnt (s\<lparr>class_state := x\<rparr>) = GetBurnt s"
  by (auto simp: setClass_def GetBalance_def GetSupply_def GetMinted_def GetBurnt_def fun_eq_iff)

interpretation token_ledger: ledger GetBalance "\<lambda>s c a v. setBalance c a v s" "\<lambda>s. finite (dom (balances s))" "\<lambda>_. True"
proof
  fix s :: TokenState and c a assume fin: "finite (dom (balances s))"
  have "{k. GetBalance s c k \<noteq> 0} \<subseteq> snd ` dom (balances s)"
    by (force simp: GetBalance_def split: option.splits)
  then show "finite {k. GetBalance s c k \<noteq> 0}" using fin finite_surj by blast
next
  fix s :: TokenState and c a v assume fin: "finite (dom (balances s))"
  have "dom (balances (setBalance c a v s)) \<subseteq> insert (c, a) (dom (balances s))"
    by (auto simp: setBalance_def split: if_splits)
  then show "finite (dom (balances (setBalance c a v s)))" using fin finite_subset by blast
qed (simp add: GetBalance_set)

subsection \<open>The operations on balances\<close>

lemma subtractToken_Inr:
  "subtractToken c a n s = Inr s' \<longleftrightarrow>
     \<bar>GetBalance s c a - n\<bar> < 2 ^ 256 \<and> n \<le> GetBalance s c a \<and> s' = setBalance c a (GetBalance s c a - n) s"
  by (auto simp: subtractToken_def)

lemma addToken_Inr:
  "addToken c a n s = Inr s' \<longleftrightarrow>
     \<bar>GetBalance s c a + n\<bar> < 2 ^ 256 \<and> s' = ensureAccount a (setBalance c a (GetBalance s c a + n) s)"
  by (auto simp: addToken_def)

lemma Send_Inr:
  "Send c from dst n s = Inr s' \<Longrightarrow> 0 < n \<and> n \<le> GetBalance s c from \<and>
     (\<exists>s1. s1 = setBalance c from (GetBalance s c from - n) s \<and>
           s' = ensureAccount dst (setBalance c dst (GetBalance s1 c dst + n) s1))"
  by (auto simp: Send_def subtractToken_Inr addToken_Inr split: if_splits)

lemma mintToken_Inr:
  "mintToken c a n s = Inr s' \<Longrightarrow>
     s' = setSupply c (GetSupply s c + n) (setMinted c (GetMinted s c + n)
            (ensureAccount a (setBalance c a (GetBalance s c a + n) s)))"
  by (auto simp: mintToken_def addToken_Inr Let_def token_simps)

lemma burnToken_Inr:
  "burnToken c a n s = Inr s' \<Longrightarrow> n \<le> GetBalance s c a \<and>
     s' = setSupply c (GetSupply s c - n) (setBurnt c (GetBurnt s c + n)
            (setBalance c a (GetBalance s c a - n) s))"
  by (auto simp: burnToken_def subtractToken_Inr Let_def token_simps)

subsection \<open>Conservation\<close>

definition supply_inv :: "TokenState \<Rightarrow> bool" where
  "supply_inv s \<longleftrightarrow> finite (dom (balances s)) \<and> (\<forall>c a. 0 \<le> GetBalance s c a) \<and>
     (\<forall>c. ledger_total (GetBalance s c) = GetSupply s c) \<and> (\<forall>c. GetSupply s c = GetMinted s c - GetBurnt s c)"

lemma supply_inv_same:
  "balances s' = balances s \<Longrightarrow> GetBalance s' = GetBalance s \<Longrightarrow> GetSupply s' = GetSupply s \<Longrightarrow>
     GetMinted s' = GetMinted s \<Longrightarrow> GetBurnt s' = GetBurnt s \<Longrightarrow> supply_inv s' \<longleftrightarrow> supply_inv s"
  by (simp add: supply_inv_def)

lemma supply_inv_views [simp]:
  "supply_inv (emit e s) \<longleftrightarrow> supply_inv s" "supply_inv (ensureAccount a s) \<longleftrightarrow> supply_inv s"
  "supply_inv (setGrant c a p s) \<longleftrightarrow> supply_inv s" "supply_inv (deleteGrant c a p s) \<longleftrightarrow> supply_inv s"
  "supply_inv (setAuthorization c h opr s) \<longleftrightarrow> supply_inv s"
  "supply_inv (deleteAuthorization c h opr s) \<longleftrightarrow> supply_inv s"
  "supply_inv (setClass k s) \<longleftrightarrow> supply_inv s" "supply_inv (s\<lparr>class_state := x\<rparr>) \<longleftrightarrow> supply_inv s"
  by (rule supply_inv_same; simp add: token_simps)+

lemma Send_supply: "Send c from dst n s = Inr s' \<Longrightarrow> supply_inv s \<Longrightarrow> supply_inv s'"
proof -
  assume "Send c from dst n s = Inr s'" and inv: "supply_inv s"
  then obtain s1 where n: "0 < n" "n \<le> GetBalance s c from"
    and s1: "s1 = setBalance c from (GetBalance s c from - n) s"
    and s': "s' = ensureAccount dst (setBalance c dst (GetBalance s1 c dst + n) s1)"
    using Send_Inr by blast
  let ?s2 = "setBalance c dst (GetBalance s1 c dst + n) s1"
  have fin: "finite (dom (balances s))" using inv by (simp add: supply_inv_def)
  have "ledger_total (GetBalance ?s2 c') = ledger_total (GetBalance s c')" for c'
    by (rule token_ledger.total_transfer [OF fin TrueI TrueI s1 refl])
  moreover have "0 \<le> GetBalance ?s2 c' k" for c' k
    using inv n by (intro token_ledger.transfer_nonneg [OF _ _ _ TrueI TrueI s1 refl]) (auto simp: supply_inv_def)
  moreover have "finite (dom (balances ?s2))"
    unfolding s1 by (intro token_ledger.wf_put fin TrueI)
  moreover have "GetSupply ?s2 = GetSupply s" "GetMinted ?s2 = GetMinted s" "GetBurnt ?s2 = GetBurnt s"
    by (simp_all add: s1 token_simps)
  ultimately have "supply_inv ?s2" using inv by (simp add: supply_inv_def)
  then show ?thesis by (simp add: s')
qed

lemma mintToken_supply: "mintToken c a n s = Inr s' \<Longrightarrow> 0 \<le> n \<Longrightarrow> supply_inv s \<Longrightarrow> supply_inv s'"
  using token_ledger.total_put [of s c a "GetBalance s c a + n"] token_ledger.wf_put [of s c a "GetBalance s c a + n"]
  by (auto dest!: mintToken_Inr simp: supply_inv_def token_simps)

lemma burnToken_supply: "burnToken c a n s = Inr s' \<Longrightarrow> supply_inv s \<Longrightarrow> supply_inv s'"
  using token_ledger.total_put [of s c a "GetBalance s c a - n"] token_ledger.wf_put [of s c a "GetBalance s c a - n"]
  by (auto dest!: burnToken_Inr simp: supply_inv_def token_simps)

lemma Grant_supply: "Grant cfg c g e p s = Inr s' \<Longrightarrow> supply_inv s' \<longleftrightarrow> supply_inv s"
  by (auto simp: Grant_def grant_def Let_def)

lemma Grant_Inr:
  "Grant cfg c g e p s = Inr s' \<Longrightarrow>
     \<exists>ev ev'. s' = emit ev (emit ev' (ensureAccount e (setGrant c e p s)))"
  by (auto simp: Grant_def grant_def Let_def)

lemma Abandon_Inr:
  "Abandon cfg c e p s = Inr s' \<Longrightarrow> \<exists>ev ev'. s' = emit ev (emit ev' (deleteGrant c e p s))"
  by (auto simp: Abandon_def Let_def)

definition first_permissions :: "TokenClass \<Rightarrow> Permission set" where
  "first_permissions k = {PermissionModify} \<union> (if Mintable k then {PermissionMint, PermissionBurn} else {})"

text \<open>Two states that differ in permissions, accounts and events only.\<close>

definition same_funds :: "TokenState \<Rightarrow> TokenState \<Rightarrow> bool" where
  "same_funds s s' \<longleftrightarrow>
     balances s' = balances s \<and> supplies s' = supplies s \<and> minteds s' = minteds s \<and> burnts s' = burnts s \<and>
     authorizations s' = authorizations s \<and> class_state s' = class_state s \<and> classes s' = classes s"

lemma same_funds_trans: "same_funds s s' \<Longrightarrow> same_funds s' s'' \<Longrightarrow> same_funds s s''"
  by (simp add: same_funds_def)

lemma emit_same [simp]: "same_funds s (emit e s')  \<longleftrightarrow> same_funds s s'" "same_funds (emit e s) s' \<longleftrightarrow> same_funds s s'"
  "grants (emit e s) = grants s"
  by (simp_all add: same_funds_def emit_def)

lemma Grant_same:
  "Grant cfg c g e p s = Inr s' \<Longrightarrow> same_funds s s' \<and> grants s' = insert (c, e, p) (grants s)"
proof -
  assume "Grant cfg c g e p s = Inr s'"
  then obtain ev ev' where "s' = emit ev (emit ev' (ensureAccount e (setGrant c e p s)))" using Grant_Inr by blast
  then show ?thesis by (cases "e \<in> accounts s") (simp_all add: same_funds_def ensureAccount_def setGrant_def emit_def)
qed

lemma Grant_fold_same:
  assumes "foldE (\<lambda>p st. Grant cfg c g e p (emit (ev p) st)) ps s = Inr s'"
  shows "same_funds s s' \<and> grants s' = grants s \<union> (\<lambda>p. (c, e, p)) ` set ps"
  using assms
proof (induction ps arbitrary: s)
  case Nil
  then show ?case by (simp add: same_funds_def)
next
  case (Cons p ps)
  then obtain s1 where s1: "Grant cfg c g e p (emit (ev p) s) = Inr s1"
    "foldE (\<lambda>p st. Grant cfg c g e p (emit (ev p) st)) ps s1 = Inr s'" by auto
  then show ?case using Cons.IH [OF s1(2)] Grant_same [OF s1(1)] same_funds_trans by auto
qed

text \<open>The state of an issue before its tokens are minted.\<close>

definition issued :: "TokenClass \<Rightarrow> AccAddress \<Rightarrow> TokenState \<Rightarrow> TokenState \<Rightarrow> bool" where
  "issued k owner s s4 \<longleftrightarrow> same_funds (setClass k s) s4 \<and>
     grants s4 = grants s \<union> (\<lambda>p. (ContractId k, owner, p)) ` first_permissions k"

lemma Issue_Inr:
  assumes "Issue cfg k owner dst n s = Inr s'"
  shows "classes s (ContractId k) = None \<and>
    (\<exists>s4 s5 ev. issued k owner s s4 \<and> mintToken (ContractId k) dst n s4 = Inr s5 \<and> s' = emit ev s5)"
proof -
  have new: "classes s (ContractId k) = None" "issue k s = Inr (setClass k s)"
    using assms by (auto simp: Issue_def issue_def GetClass_def split: option.splits)
  let ?perms = "PermissionModify # (if Mintable k then [PermissionMint, PermissionBurn] else [])"
  let ?s3 = "\<lambda>creator dstStr. emit (Legacy ''NewEventGrantPermTokenHead''
      (EventGranted (ContractId k) [] dstStr PermissionUnspecified))
      (emit (Typed (EventIssued creator k)) (emit (LegacyIssue (EventIssued creator k) dstStr n) (setClass k s)))"
  obtain creator dstStr s4 s5 where fold: "foldE (\<lambda>permission st. Grant cfg (ContractId k) [] owner permission
        (emit (Legacy ''NewEventGrantPermTokenBody'' (EventGranted (ContractId k) [] dstStr permission)) st))
        ?perms (?s3 creator dstStr) = Inr s4"
    and mint: "mintToken (ContractId k) dst n s4 = Inr s5"
      "s' = emit (Typed (EventMinted (ContractId k) creator dstStr n)) s5"
    using assms unfolding Issue_def new(2) Let_def by (auto simp del: foldE.simps)
  have "set ?perms = first_permissions k" by (auto simp: first_permissions_def)
  then have "issued k owner s s4"
    using Grant_fold_same [OF fold] by (simp add: issued_def token_simps)
  then show ?thesis using new(1) mint by blast
qed

lemma issued_views:
  assumes "issued k owner s s4"
  shows "GetBalance s4 = GetBalance s" "GetSupply s4 = GetSupply s" "GetMinted s4 = GetMinted s"
    "GetBurnt s4 = GetBurnt s" "supply_inv s4 \<longleftrightarrow> supply_inv s"
proof -
  show *: "GetBalance s4 = GetBalance s" "GetSupply s4 = GetSupply s" "GetMinted s4 = GetMinted s"
    "GetBurnt s4 = GetBurnt s"
    using assms by (intro ext; simp add: issued_def same_funds_def setClass_def GetBalance_def GetSupply_def
        GetMinted_def GetBurnt_def)+
  show "supply_inv s4 \<longleftrightarrow> supply_inv s" using * assms by (intro supply_inv_same) (auto simp: issued_def same_funds_def token_simps)
qed

lemma Issue_supply: "Issue cfg k owner dst n s = Inr s' \<Longrightarrow> 0 \<le> n \<Longrightarrow> supply_inv s \<Longrightarrow> supply_inv s'"
  using Issue_Inr [of cfg k owner dst n s s'] issued_views(5) mintToken_supply by fastforce

lemma validateAmount_pos [simp]: "validateAmount n = Inr u \<longleftrightarrow> 0 < n"
  by (simp add: validateAmount_def)

lemmas handler_defs = msg_Send_def msg_TransferFrom_def msg_RevokeOperator_def msg_Approve_def
  msg_GrantPermission_def msg_RevokePermission_def msg_Mint_def msg_Burn_def msg_BurnFrom_def msg_Modify_def
  RevokeOperator_def AuthorizeOperator_def Mint_def mint_def Burn_def burn_def OperatorBurn_def
  operatorBurn_def Modify_def modify_def Let_def

lemma Deliver_supply:
  assumes "DeliverTokenMsg cfg m s = Inr s'" "supply_inv s"
  shows "supply_inv s'"
proof -
  have valid: "ValidateBasic cfg m = Inr ()" and handled: "handle cfg m s = Inr s'"
    using assms(1) by (auto simp: DeliverTokenMsg_def)
  show ?thesis
  proof (cases m)
    case (MsgIssue nm sy ur me de mi ow ds n)
    then show ?thesis using handled valid assms(2)
      by (auto simp: msg_Issue_def Let_def dest!: Issue_supply)
  qed (use handled valid assms(2) in \<open>auto simp: handler_defs split: if_splits
      dest!: Send_supply mintToken_supply burnToken_supply Grant_Inr Abandon_Inr\<close>)
qed

lemma genesis_state:
  "token_InitGenesis cfg DefaultGenesisState empty_token_state =
     Inr (empty_token_state\<lparr>class_state := \<lparr>nonce = Some 0, ids = {}\<rparr>\<rparr>)"
  by (simp add: token_InitGenesis_def DefaultGenesisState_def empty_token_state_def class_InitGenesis_def
      DefaultClassGenesisState_def setNonce_def Let_def)

lemma empty_supply: "supply_inv empty_token_state"
proof -
  have "GetBalance empty_token_state c = (\<lambda>_. 0)" for c
    by (simp add: GetBalance_def empty_token_state_def fun_eq_iff)
  then show ?thesis
    by (simp add: supply_inv_def GetSupply_def GetMinted_def GetBurnt_def getStatistics_def)
      (simp add: empty_token_state_def)
qed

lemma reachable_supply: "token_reachable cfg s \<Longrightarrow> supply_inv s"
proof (induction rule: token_reachable.induct)
  case (genesis s)
  then show ?case using empty_supply by (auto simp: genesis_state)
next
  case (deliver s m s')
  then show ?case using Deliver_supply by blast
qed

text \<open>
  C1: in every state reached from the default genesis by delivering messages, the supply of
  every contract is the sum of the balances of its holders and equals what was minted less
  what was burnt, and no balance is negative.
\<close>

theorem token_supply_conserved:
  assumes "token_reachable cfg s"
  shows "(\<Sum>a | GetBalance s c a \<noteq> 0. GetBalance s c a) = GetSupply s c
       \<and> GetSupply s c = GetMinted s c - GetBurnt s c \<and> 0 \<le> GetBalance s c a"
  using reachable_supply [OF assms] by (simp add: supply_inv_def ledger_total_def)

theorem token_supply_conserved_witness:
  "token_reachable plain_config (empty_token_state\<lparr>class_state := \<lparr>nonce = Some 0, ids = {}\<rparr>\<rparr>) \<and>
   GetSupply (empty_token_state\<lparr>class_state := \<lparr>nonce = Some 0, ids = {}\<rparr>\<rparr>) ''9be17165'' = 0"
proof -
  let ?s = "empty_token_state\<lparr>class_state := \<lparr>nonce = Some 0, ids = {}\<rparr>\<rparr>"
  have r: "token_reachable plain_config ?s" by (rule token_reachable.genesis) (rule genesis_state)
  have "{a. GetBalance ?s ''9be17165'' a \<noteq> 0} = {}" by (simp add: GetBalance_def empty_token_state_def)
  then show ?thesis using r token_supply_conserved [OF r, of "''9be17165''"] by simp
qed

subsection \<open>Classes and ids\<close>

definition class_inv :: "TokenState \<Rightarrow> bool" where
  "class_inv s \<longleftrightarrow> (\<forall>c k. classes s c = Some k \<longrightarrow> ContractId k = c) \<and>
     dom (classes s) \<subseteq> ids (class_state s) \<and> (\<exists>n. nonce (class_state s) = Some n \<and> 0 \<le> n)"

lemma class_inv_same:
  "classes s' = classes s \<Longrightarrow> class_state s' = class_state s \<Longrightarrow> class_inv s' \<longleftrightarrow> class_inv s"
  by (simp add: class_inv_def)

lemma Send_classes: "Send c fr dst n s = Inr s' \<Longrightarrow> classes s' = classes s \<and> class_state s' = class_state s
    \<and> grants s' = grants s \<and> authorizations s' = authorizations s \<and> GetMinted s' = GetMinted s \<and> GetBurnt s' = GetBurnt s"
  by (auto dest!: Send_Inr simp: token_simps)

lemma mintToken_classes: "mintToken c a n s = Inr s' \<Longrightarrow> classes s' = classes s \<and> class_state s' = class_state s
    \<and> grants s' = grants s \<and> authorizations s' = authorizations s"
  by (auto dest!: mintToken_Inr simp: token_simps)

lemma burnToken_classes: "burnToken c a n s = Inr s' \<Longrightarrow> classes s' = classes s \<and> class_state s' = class_state s
    \<and> grants s' = grants s \<and> authorizations s' = authorizations s"
  by (auto dest!: burnToken_Inr simp: token_simps)

lemma apply_change_id: "apply_change ch k = Inr k' \<Longrightarrow> ContractId k' = ContractId k"
  by (auto simp: apply_change_def split: if_splits)

lemma modify_Inr:
  assumes "modify c chs s = Inr s'"
  shows "\<exists>k k'. classes s c = Some k \<and> ContractId k' = ContractId k \<and> s' = setClass k' s"
proof -
  obtain k k' where k: "classes s c = Some k" "foldE apply_change chs k = Inr k'" "s' = setClass k' s"
    using assms by (auto simp: modify_def GetClass_def split: option.splits)
  have "ContractId k' = ContractId k"
    by (rule foldE_invariant [OF k(2), of "\<lambda>x. ContractId x = ContractId k"]) (auto dest: apply_change_id)
  then show ?thesis using k by blast
qed

lemma msg_Issue_Inr:
  assumes "msg_Issue cfg nm sy ur me de mi ow ds n s = Inr s'"
  shows "\<exists>cid cs owner dst s4 s5 ev k. NewID (class_state s) = Inr (cid, cs) \<and> addrE cfg ow = Inr owner \<and>
     ContractId k = cid \<and> classes s cid = None \<and> issued k owner (s\<lparr>class_state := cs\<rparr>) s4 \<and>
     mintToken cid dst n s4 = Inr s5 \<and> s' = emit ev s5"
  using assms by (auto simp: msg_Issue_def Let_def dest!: Issue_Inr) (metis TokenClass.select_convs(1))

lemma Deliver_class_inv:
  assumes "DeliverTokenMsg cfg m s = Inr s'" "class_inv s"
  shows "class_inv s'"
proof -
  have handled: "handle cfg m s = Inr s'" using assms(1) by (auto simp: DeliverTokenMsg_def)
  show ?thesis
  proof (cases m)
    case (MsgIssue nm sy ur me de mi ow ds n)
    then obtain cid cs owner dst s4 s5 ev k where i: "NewID (class_state s) = Inr (cid, cs)" "ContractId k = cid"
      "issued k owner (s\<lparr>class_state := cs\<rparr>) s4" "mintToken cid dst n s4 = Inr s5" "s' = emit ev s5"
      using handled msg_Issue_Inr by fastforce
    obtain j where j: "nonce (class_state s) = Some j" "0 \<le> j" using assms(2) by (auto simp: class_inv_def)
    have fresh: "ids cs = insert cid (ids (class_state s))" "\<exists>m. nonce cs = Some m \<and> j < m"
      using NewID_fresh [OF i(1) j] by auto
    have "classes s4 = (classes s)(cid \<mapsto> k)" "class_state s4 = cs"
      using i(2,3) by (simp_all add: issued_def same_funds_def setClass_def)
    then have "class_inv s4" using fresh j assms(2) i(2) by (fastforce simp: class_inv_def)
    then show ?thesis using mintToken_classes [OF i(4)] i(5) class_inv_same [of s' s4] by (simp add: token_simps)
  next
    case (MsgModify c ow ch)
    then obtain k k' s1 where "classes s c = Some k" "ContractId k' = ContractId k" "s1 = setClass k' s"
      "classes s' = classes s1" "class_state s' = class_state s1"
      using handled modify_Inr by (fastforce simp: msg_Modify_def Modify_def Let_def token_simps)
    then show ?thesis using assms(2) by (auto simp: class_inv_def setClass_def)
  qed (use handled assms(2) class_inv_same [of s' s] in \<open>auto simp: handler_defs token_simps split: if_splits
      dest!: Send_classes mintToken_classes burnToken_classes Grant_Inr Abandon_Inr\<close>)
qed

lemma reachable_class: "token_reachable cfg s \<Longrightarrow> class_inv s"
proof (induction rule: token_reachable.induct)
  case (genesis s)
  then have "s = empty_token_state\<lparr>class_state := \<lparr>nonce = Some 0, ids = {}\<rparr>\<rparr>" by (simp add: genesis_state)
  then show ?case by (simp add: class_inv_def empty_token_state_def)
next
  case (deliver s m s')
  then show ?case using Deliver_class_inv by blast
qed

text \<open>
  In a reachable state an issue never finds its new contract id taken, so the keeper
  does not panic on an existing id.
\<close>

theorem token_issue_id_free:
  assumes "token_reachable cfg s" "NewID (class_state s) = Inr (ContractId k, cs)"
  shows "issue k (s\<lparr>class_state := cs\<rparr>) = Inr (setClass k (s\<lparr>class_state := cs\<rparr>))"
proof -
  obtain n where n: "nonce (class_state s) = Some n" "0 \<le> n" and sub: "dom (classes s) \<subseteq> ids (class_state s)"
    using reachable_class [OF assms(1)] by (auto simp: class_inv_def)
  have "ContractId k \<notin> ids (class_state s)" using NewID_fresh [OF assms(2) n] by simp
  then have "classes s (ContractId k) = None" using sub by blast
  then show ?thesis by (simp add: issue_def GetClass_def)
qed

lemma setClass_classes: "classes (setClass k s) c = (if c = ContractId k then Some k else classes s c)"
  by (simp add: setClass_def)

lemma grants_set:
  "grants (setGrant c e p s) = insert (c, e, p) (grants s)" "grants (deleteGrant c e p s) = grants s - {(c, e, p)}"
  by (simp_all add: setGrant_def deleteGrant_def)

lemma addrE_signer: "addrE cfg (signer_text m) = Inr a \<Longrightarrow> GetSigners cfg m = [a]"
  by (simp add: addrE_def GetSigners_def)

lemma GetGrant_Inr [simp]: "GetGrant s c e p = Inr u \<longleftrightarrow> (c, e, p) \<in> grants s"
  by (simp add: GetGrant_def)

lemma GetAuthorization_Inr [simp]: "GetAuthorization s c h opr = Inr u \<longleftrightarrow> (c, opr, h) \<in> authorizations s"
  by (simp add: GetAuthorization_def)

lemma Send_balance:
  "Send c fr dst n s = Inr s' \<Longrightarrow> GetBalance s' c' a < GetBalance s c' a \<Longrightarrow> a = fr \<and> c' = c"
  by (auto dest!: Send_Inr simp: token_simps split: if_splits)

lemma mintToken_balance:
  "mintToken c dst n s = Inr s' \<Longrightarrow> 0 < n \<Longrightarrow> GetBalance s c' a \<le> GetBalance s' c' a"
  by (auto dest!: mintToken_Inr simp: token_simps)

lemma burnToken_balance:
  "burnToken c fr n s = Inr s' \<Longrightarrow> GetBalance s' c' a < GetBalance s c' a \<Longrightarrow> a = fr \<and> c' = c"
  by (auto dest!: burnToken_Inr simp: token_simps split: if_splits)

lemma msg_Issue_balance:
  assumes "msg_Issue cfg nm sy ur me de mi ow ds n s = Inr s'" "0 < n"
  shows "GetBalance s c a \<le> GetBalance s' c a"
proof -
  obtain k cs owner dst s4 s5 ev cid where i: "issued k owner (s\<lparr>class_state := cs\<rparr>) s4"
    "mintToken cid dst n s4 = Inr s5" "s' = emit ev s5" using msg_Issue_Inr [OF assms(1)] by blast
  have "GetBalance s4 = GetBalance s" using issued_views(1) [OF i(1)] by (simp add: token_simps)
  then show ?thesis using mintToken_balance [OF i(2) assms(2), of c a] i(3) by (simp add: token_simps)
qed

text \<open>
  C2: a message lowers a balance only when the holder signed it or had authorized its
  signer as an operator for that contract.
\<close>

theorem token_debit_authorized:
  assumes "DeliverTokenMsg cfg m s = Inr s'" "GetBalance s' c a < GetBalance s c a"
  shows "GetSigners cfg m = [a] \<or> (\<exists>p. GetSigners cfg m = [p] \<and> (c, p, a) \<in> authorizations s)"
proof -
  have valid: "ValidateBasic cfg m = Inr ()" and handled: "handle cfg m s = Inr s'"
    using assms(1) by (auto simp: DeliverTokenMsg_def)
  show ?thesis
  proof (cases m)
    case (MsgIssue nm sy ur me de mi ow ds n)
    then show ?thesis using handled valid assms(2) msg_Issue_balance
      by (fastforce simp: not_less [symmetric])
  next
    case (MsgSend c' fr dst n)
    then show ?thesis using handled assms(2) addrE_signer [of cfg m]
      by (auto simp: handler_defs token_simps dest!: Send_balance)
  next
    case (MsgTransferFrom c' proxy fr dst n)
    then show ?thesis using handled assms(2) addrE_signer [of cfg m]
      by (auto simp: handler_defs token_simps dest!: Send_balance)
  next
    case (MsgMint c' f d n)
    then show ?thesis using handled valid assms(2) mintToken_balance [of c' _ n s _ c a]
      by (fastforce simp: handler_defs token_simps)
  next
    case (MsgBurn c' f n)
    then show ?thesis using handled assms(2) addrE_signer [of cfg m]
      by (auto simp: handler_defs token_simps dest!: burnToken_balance)
  next
    case (MsgBurnFrom c' p f n)
    then show ?thesis using handled assms(2) addrE_signer [of cfg m]
      by (auto simp: handler_defs token_simps dest!: burnToken_balance)
  qed (use handled assms(2) in \<open>auto simp: handler_defs token_simps split: if_splits dest!: Grant_Inr Abandon_Inr\<close>)
qed

lemma mintToken_minted:
  "mintToken c d n s = Inr s' \<Longrightarrow> GetMinted s' c' \<noteq> GetMinted s c' \<Longrightarrow> c' = c"
  "mintToken c d n s = Inr s' \<Longrightarrow> GetBurnt s' = GetBurnt s"
  by (auto dest!: mintToken_Inr simp: token_simps split: if_splits)

lemma burnToken_burnt:
  "burnToken c d n s = Inr s' \<Longrightarrow> GetBurnt s' c' \<noteq> GetBurnt s c' \<Longrightarrow> c' = c"
  "burnToken c d n s = Inr s' \<Longrightarrow> GetMinted s' = GetMinted s"
  by (auto dest!: burnToken_Inr simp: token_simps split: if_splits)

text \<open>What a message may change of a contract, and the permission its signer then has.\<close>

definition licensed :: "string \<Rightarrow> AccAddress \<Rightarrow> TokenState \<Rightarrow> TokenState \<Rightarrow> bool" where
  "licensed c a s s' \<longleftrightarrow>
     (GetMinted s' c \<noteq> GetMinted s c \<longrightarrow> (c, a, PermissionMint) \<in> grants s) \<and>
     (GetBurnt s' c \<noteq> GetBurnt s c \<longrightarrow> (c, a, PermissionBurn) \<in> grants s) \<and>
     (\<forall>e p. (c, e, p) \<in> grants s' - grants s \<longrightarrow> (c, a, p) \<in> grants s) \<and>
     (\<forall>e p. (c, e, p) \<in> grants s - grants s' \<longrightarrow> e = a) \<and>
     (classes s' c \<noteq> classes s c \<longrightarrow> (c, a, PermissionModify) \<in> grants s)"

lemma licensed_emit [simp]: "licensed c a s (emit e s') \<longleftrightarrow> licensed c a s s'"
  by (simp add: licensed_def token_simps)

lemma licensed_Send: "Send c' fr dst n s = Inr s' \<Longrightarrow> licensed c a s s'"
  by (auto dest!: Send_classes simp: licensed_def)

lemma licensed_mint:
  "mintToken c' d n s = Inr s' \<Longrightarrow> (c', a, PermissionMint) \<in> grants s \<Longrightarrow> licensed c a s s'"
  using mintToken_minted [of c' d n s s'] mintToken_classes [of c' d n s s'] by (fastforce simp: licensed_def)

lemma licensed_burn:
  "burnToken c' d n s = Inr s' \<Longrightarrow> (c', a, PermissionBurn) \<in> grants s \<Longrightarrow> licensed c a s s'"
  using burnToken_burnt [of c' d n s s'] burnToken_classes [of c' d n s s'] by (fastforce simp: licensed_def)

lemma licensed_issue:
  assumes "msg_Issue cfg nm sy ur me de mi ow ds n s = Inr s'" "classes s c \<noteq> None"
  shows "licensed c a s s'"
proof -
  obtain k cs owner dst s4 s5 ev cid where i: "classes s cid = None" "ContractId k = cid"
    "issued k owner (s\<lparr>class_state := cs\<rparr>) s4" "mintToken cid dst n s4 = Inr s5" "s' = emit ev s5"
    using msg_Issue_Inr [OF assms(1)] by blast
  have ne: "c \<noteq> cid" using i(1) assms(2) by auto
  have s4: "GetMinted s4 c = GetMinted s c" "GetBurnt s4 c = GetBurnt s c" "classes s4 c = classes s c"
    "\<And>e p. (c, e, p) \<in> grants s4 \<longleftrightarrow> (c, e, p) \<in> grants s"
    using issued_views [OF i(3)] i(2,3) ne by (auto simp: token_simps issued_def same_funds_def setClass_def)
  have "GetMinted s5 c = GetMinted s4 c" "GetBurnt s5 = GetBurnt s4" "classes s5 = classes s4" "grants s5 = grants s4"
    using mintToken_minted [OF i(4)] mintToken_classes [OF i(4)] ne by auto
  then show ?thesis using s4 i(5) by (simp add: licensed_def token_simps)
qed

lemma Deliver_licensed:
  assumes "class_inv s" "DeliverTokenMsg cfg m s = Inr s'" "classes s c \<noteq> None" "GetSigners cfg m = [a]"
  shows "licensed c a s s'"
proof -
  have handled: "handle cfg m s = Inr s'" using assms(2) by (auto simp: DeliverTokenMsg_def)
  have signer: "addrE cfg (signer_text m) = Inr x \<Longrightarrow> x = a" for x using addrE_signer [of cfg m x] assms(4) by simp
  show ?thesis
  proof (cases m)
    case (MsgIssue nm sy ur me de mi ow ds n)
    then show ?thesis using handled licensed_issue assms(3) by auto
  next
    case (MsgModify c' ow ch)
    then obtain k' s1 where "(c', a, PermissionModify) \<in> grants s" "modify c' ch s = Inr s1" "\<exists>e e'. s' = emit e (emit e' s1)"
      using handled signer by (auto simp: msg_Modify_def Modify_def Let_def)
    then show ?thesis
      using assms(1) modify_Inr [of c' ch s s1]
      by (auto simp: licensed_def class_inv_def setClass_classes token_simps split: if_splits)
  next
    case (MsgGrantPermission c' f d p)
    then show ?thesis using handled signer
      by (auto simp: msg_GrantPermission_def Let_def licensed_def token_simps grants_set split: if_splits dest!: Grant_Inr)
  next
    case (MsgRevokePermission c' f p)
    then show ?thesis using handled signer
      by (auto simp: msg_RevokePermission_def Let_def licensed_def token_simps grants_set dest!: Abandon_Inr)
  next
    case (MsgSend c' fr dst n)
    then show ?thesis using handled by (auto simp: handler_defs dest: licensed_Send)
  next
    case (MsgTransferFrom c' proxy fr dst n)
    then show ?thesis using handled by (auto simp: handler_defs dest: licensed_Send)
  next
    case (MsgMint c' f d n)
    then show ?thesis using handled signer by (auto simp: handler_defs dest: licensed_mint)
  next
    case (MsgBurn c' f n)
    then show ?thesis using handled signer by (auto simp: handler_defs dest: licensed_burn)
  next
    case (MsgBurnFrom c' p f n)
    then show ?thesis using handled signer by (auto simp: handler_defs dest: licensed_burn)
  qed (use handled in \<open>auto simp: handler_defs licensed_def token_simps split: if_splits\<close>)
qed

text \<open>
  C3: a message changes what was minted of an existing contract only when its signer has the
  mint permission, what was burnt only when its signer has the burn permission, and changes
  the class only when its signer may modify it. It adds a permission only when its signer has
  that permission, and the only permissions it removes are permissions of its signer.
\<close>

theorem token_permission_required:
  assumes "token_reachable cfg s" "DeliverTokenMsg cfg m s = Inr s'" "classes s c \<noteq> None"
    and "GetSigners cfg m = [a]"
  shows "(GetMinted s' c \<noteq> GetMinted s c \<longrightarrow> (c, a, PermissionMint) \<in> grants s)
       \<and> (GetBurnt s' c \<noteq> GetBurnt s c \<longrightarrow> (c, a, PermissionBurn) \<in> grants s)
       \<and> ((c, e, p) \<in> grants s' - grants s \<longrightarrow> (c, a, p) \<in> grants s)
       \<and> ((c, e, p) \<in> grants s - grants s' \<longrightarrow> e = a)
       \<and> (classes s' c \<noteq> classes s c \<longrightarrow> (c, a, PermissionModify) \<in> grants s)"
  using Deliver_licensed [OF reachable_class [OF assms(1)] assms(2-4)] by (auto simp: licensed_def)

subsection \<open>A contract in use\<close>

text \<open>
  A run for the witnesses: one account issues a mintable token from the default genesis.
\<close>

definition demo_genesis :: TokenState where
  "demo_genesis = empty_token_state\<lparr>class_state := \<lparr>nonce = Some 0, ids = {}\<rparr>\<rparr>"

definition demo_issue :: TokenMsg where
  "demo_issue = MsgIssue ''Link'' ''LN'' [] [] 6 True ''link1a'' ''link1a'' 10"

lemma demo_addrE: "addrE plain_config ''link1a'' = Inr ''a''" "addrE plain_config ''link1b'' = Inr ''b''"
  by (simp_all add: addrE_def demo_address)

lemma demo_valid: "ValidateBasic plain_config demo_issue = Inr ()"
  by (simp add: demo_issue_def checkAddr_def demo_addrE validateName_def stringInSize_def RuneCount.simps
      rune_width_def maxName_def in_range_def validateSymbol_def reSymbol_def is_upper_def less_eq_char_def
      guardE_def validateImageURI_def validateMeta_def maxImageURI_def maxMeta_def validateDecimals_def
      validateAmount_def)

lemma demo_views [simp]:
  "GetBalance demo_genesis c a = 0" "GetSupply demo_genesis c = 0" "GetMinted demo_genesis c = 0"
  "grants demo_genesis = {}" "classes demo_genesis = Map.empty" "class_state demo_genesis = \<lparr>nonce = Some 0, ids = {}\<rparr>"
  by (simp_all add: demo_genesis_def empty_token_state_def GetBalance_def GetSupply_def GetMinted_def getStatistics_def)

lemma demo_handled:
  "\<exists>s. handle plain_config demo_issue demo_genesis = Inr s \<and> classes s (nonceToID 0) \<noteq> None \<and>
     (nonceToID 0, ''a'', PermissionMint) \<in> grants s \<and> GetMinted s (nonceToID 0) = 10 \<and>
     GetSupply s (nonceToID 0) = 10 \<and> GetBalance s (nonceToID 0) ''a'' = 10"
proof -
  have "NewID (class_state demo_genesis) = Inr (nonceToID 0, \<lparr>nonce = Some 1, ids = {nonceToID 0}\<rparr>)"
    using NewID_loop_step [of 0 "\<lparr>nonce = Some 0, ids = {}\<rparr>"]
    by (simp add: NewID_def getNonce_def)
  then show ?thesis
    by (simp add: demo_issue_def msg_Issue_def demo_addrE Issue_def issue_def GetClass_def Int_Add_total
        demo_address Grant_def grant_def mintToken_def addToken_def Let_def token_simps grants_set setClass_classes)
qed

lemma demo_reachable:
  obtains s where "token_reachable plain_config s" "classes s (nonceToID 0) \<noteq> None"
    "(nonceToID 0, ''a'', PermissionMint) \<in> grants s" "GetMinted s (nonceToID 0) = 10"
    "GetSupply s (nonceToID 0) = 10" "GetBalance s (nonceToID 0) ''a'' = 10"
proof -
  obtain s where s: "handle plain_config demo_issue demo_genesis = Inr s" "classes s (nonceToID 0) \<noteq> None"
    "(nonceToID 0, ''a'', PermissionMint) \<in> grants s" "GetMinted s (nonceToID 0) = 10"
    "GetSupply s (nonceToID 0) = 10" "GetBalance s (nonceToID 0) ''a'' = 10"
    using demo_handled by blast
  have g: "token_reachable plain_config demo_genesis"
    by (rule token_reachable.genesis) (simp add: genesis_state demo_genesis_def)
  have "DeliverTokenMsg plain_config demo_issue demo_genesis = Inr s"
    using s(1) demo_valid by (simp add: DeliverTokenMsg_def)
  then show ?thesis using that s token_reachable.deliver [OF g] by blast
qed

theorem token_issue_id_free_witness:
  "\<exists>k cs. NewID (class_state demo_genesis) = Inr (ContractId k, cs) \<and>
     issue k (demo_genesis\<lparr>class_state := cs\<rparr>) = Inr (setClass k (demo_genesis\<lparr>class_state := cs\<rparr>))"
proof -
  have g: "token_reachable plain_config demo_genesis"
    by (rule token_reachable.genesis) (simp add: genesis_state demo_genesis_def)
  define k where "k = \<lparr>ContractId = nonceToID 0, Name = [], Symbol = [], ImageUri = [], Meta = [], Decimals = 0, Mintable = True\<rparr>"
  have "NewID (class_state demo_genesis) = Inr (ContractId k, \<lparr>nonce = Some 1, ids = {nonceToID 0}\<rparr>)"
    using NewID_loop_step [of 0 "\<lparr>nonce = Some 0, ids = {}\<rparr>"] by (simp add: NewID_def getNonce_def k_def)
  then show ?thesis using token_issue_id_free [OF g] by blast
qed

text \<open>Two messages on the issued contract: a mint by its owner and a transfer.\<close>

lemma demo_mint:
  assumes "(nonceToID 0, ''a'', PermissionMint) \<in> grants s" "GetMinted s (nonceToID 0) = 10"
    "GetSupply s (nonceToID 0) = 10" "GetBalance s (nonceToID 0) ''a'' = 10"
  shows "\<exists>s'. DeliverTokenMsg plain_config (MsgMint (nonceToID 0) ''link1a'' ''link1a'' 5) s = Inr s'
     \<and> GetMinted s' (nonceToID 0) = 15"
  using assms nonceToID_valid [of 0]
  by (simp add: DeliverTokenMsg_def ValidateContractID_def checkAddr_def demo_addrE validateAmount_def guardE_def
      msg_Mint_def Mint_def mint_def GetGrant_def wrapE_def mintToken_def addToken_def Let_def token_simps
      demo_address Int_Add_total)

lemma demo_send:
  assumes "GetBalance s (nonceToID 0) ''a'' = 10" "GetBalance s (nonceToID 0) ''b'' = 0"
  shows "\<exists>s'. DeliverTokenMsg plain_config (MsgSend (nonceToID 0) ''link1a'' ''link1b'' 4) s = Inr s'
     \<and> GetBalance s' (nonceToID 0) ''a'' = 6"
  using assms nonceToID_valid [of 0]
  by (simp add: DeliverTokenMsg_def ValidateContractID_def checkAddr_def demo_addrE validateAmount_def guardE_def
      msg_Send_def Send_def subtractToken_def addToken_def Let_def token_simps Int_Add_total)

theorem token_permission_required_witness:
  "\<exists>s s'. token_reachable plain_config s \<and>
     DeliverTokenMsg plain_config (MsgMint (nonceToID 0) ''link1a'' ''link1a'' 5) s = Inr s' \<and>
     GetMinted s' (nonceToID 0) \<noteq> GetMinted s (nonceToID 0) \<and> (nonceToID 0, ''a'', PermissionMint) \<in> grants s"
proof -
  obtain s where s: "token_reachable plain_config s" "classes s (nonceToID 0) \<noteq> None"
    "(nonceToID 0, ''a'', PermissionMint) \<in> grants s" "GetMinted s (nonceToID 0) = 10"
    "GetSupply s (nonceToID 0) = 10" "GetBalance s (nonceToID 0) ''a'' = 10" using demo_reachable by metis
  obtain s' where d: "DeliverTokenMsg plain_config (MsgMint (nonceToID 0) ''link1a'' ''link1a'' 5) s = Inr s'"
    "GetMinted s' (nonceToID 0) = 15" using demo_mint [OF s(3-6)] by blast
  have "GetSigners plain_config (MsgMint (nonceToID 0) ''link1a'' ''link1a'' 5) = [''a'']"
    by (simp add: GetSigners_def demo_address)
  from token_permission_required [OF s(1) d(1) s(2) this] show ?thesis using s(1,4) d by fastforce
qed

theorem token_debit_authorized_witness:
  "let s = empty_token_state\<lparr>balances := [(nonceToID 0, ''a'') \<mapsto> 10]\<rparr>; m = MsgSend (nonceToID 0) ''link1a'' ''link1b'' 4 in
   \<exists>s'. DeliverTokenMsg plain_config m s = Inr s' \<and> GetBalance s' (nonceToID 0) ''a'' < GetBalance s (nonceToID 0) ''a'' \<and>
     GetSigners plain_config m = [''a'']"
proof -
  let ?s = "empty_token_state\<lparr>balances := [(nonceToID 0, ''a'') \<mapsto> 10]\<rparr>"
  let ?m = "MsgSend (nonceToID 0) ''link1a'' ''link1b'' 4"
  have b: "GetBalance ?s (nonceToID 0) ''a'' = 10" "GetBalance ?s (nonceToID 0) ''b'' = 0"
    by (simp_all add: GetBalance_def)
  obtain s' where d: "DeliverTokenMsg plain_config ?m ?s = Inr s'" "GetBalance s' (nonceToID 0) ''a'' = 6"
    using demo_send [OF b] by blast
  have "GetSigners plain_config ?m = [''a''] \<or>
      (\<exists>p. GetSigners plain_config ?m = [p] \<and> (nonceToID 0, p, ''a'') \<in> authorizations ?s)"
    by (rule token_debit_authorized [OF d(1)]) (use b d(2) in simp)
  then have "GetSigners plain_config ?m = [''a'']" by (simp add: empty_token_state_def)
  then show ?thesis using d b by (simp add: Let_def)
qed

text \<open>
  A change of a field written in upper case passes the validation of \<open>MsgModify\<close>, which
  compares fields without case, and makes the handler call a missing modifier: the message
  panics in every state in which its signer may modify the contract.
\<close>

theorem token_modify_upper_case_panics:
  assumes "AccAddressFromBech32 cfg owner = Inr a" "ValidateContractID c = Inr ()"
    and "(c, a, PermissionModify) \<in> grants s" "classes s c = Some k"
  shows "ValidateBasic cfg (MsgModify c owner [(''NAME'', ''x'')]) = Inr ()
       \<and> is_panic (DeliverTokenMsg cfg (MsgModify c owner [(''NAME'', ''x'')]) s)"
proof -
  have "AttributeKeyFromString ''NAME'' = AttributeKeyName"
    by (simp add: AttributeKeyFromString_def ToUpper_def upper_char_def)
  moreover have "validateName ''x'' = Inr ()"
    by (simp add: validateName_def stringInSize_def RuneCount.simps rune_width_def maxName_def)
  ultimately have v: "ValidateBasic cfg (MsgModify c owner [(''NAME'', ''x'')]) = Inr ()"
    using assms(1,2) by (simp add: checkAddr_def addrE_def wrapE_def validateChange_def)
  then show ?thesis
    using assms by (simp add: DeliverTokenMsg_def msg_Modify_def addrE_def wrapE_def GetGrant_def guardE_def
        Modify_def modify_def GetClass_def apply_change_def)
qed

theorem token_modify_upper_case_panics_witness:
  "let k = \<lparr>ContractId = nonceToID 0, Name = ''t'', Symbol = ''TT'', ImageUri = [], Meta = [], Decimals = 0, Mintable = True\<rparr>;
       s = empty_token_state\<lparr>classes := [nonceToID 0 \<mapsto> k], grants := {(nonceToID 0, ''a'', PermissionModify)}\<rparr> in
   is_panic (DeliverTokenMsg plain_config (MsgModify (nonceToID 0) ''link1a'' [(''NAME'', ''x'')]) s)"
  unfolding Let_def
  by (rule token_modify_upper_case_panics [THEN conjunct2])
    (simp_all add: demo_address ValidateContractID_def nonceToID_valid)

end
