(* ===== verification/FoundationPolicy.thy ===== *)
theory FoundationPolicy
  imports Decimal_Props
begin

section \<open>Decision policies of the foundation: x/foundation/foundation.go\<close>

text \<open>
  Votes, their tally and the two decision policies. A duration is an \<open>int64\<close> of nanoseconds
  and compared as signed; the sum of two durations wraps. A missing \<open>Windows\<close> pointer is
  \<open>None\<close>, and reading through it panics. Decimals are never nil here.

  The interface of a policy is that a final decision stays when votes are added, from which
  the finality along any sequence of votes follows for both policies.
\<close>

subsection \<open>Votes and tallies\<close>

datatype VoteOption =
    VOTE_OPTION_UNSPECIFIED
  | VOTE_OPTION_YES
  | VOTE_OPTION_ABSTAIN
  | VOTE_OPTION_NO
  | VOTE_OPTION_NO_WITH_VETO
  | VOTE_OPTION_OTHER "32 word"

record TallyResult =
  YesCount :: SdkDec
  AbstainCount :: SdkDec
  NoCount :: SdkDec
  NoWithVetoCount :: SdkDec

definition NewTallyResult :: "SdkDec \<Rightarrow> SdkDec \<Rightarrow> SdkDec \<Rightarrow> SdkDec \<Rightarrow> TallyResult" where
  "NewTallyResult yes abstain no veto =
     \<lparr>YesCount = yes, AbstainCount = abstain, NoCount = no, NoWithVetoCount = veto\<rparr>"

definition DefaultTallyResult :: TallyResult where
  "DefaultTallyResult = NewTallyResult ZeroDec ZeroDec ZeroDec ZeroDec"

fun TallyResult_Add :: "VoteOption \<Rightarrow> TallyResult \<Rightarrow> TallyResult result" where
  "TallyResult_Add VOTE_OPTION_YES t = bindE (Dec_Add (YesCount t) OneDec) (\<lambda>c. Inr (t\<lparr>YesCount := c\<rparr>))"
| "TallyResult_Add VOTE_OPTION_NO t = bindE (Dec_Add (NoCount t) OneDec) (\<lambda>c. Inr (t\<lparr>NoCount := c\<rparr>))"
| "TallyResult_Add VOTE_OPTION_ABSTAIN t =
     bindE (Dec_Add (AbstainCount t) OneDec) (\<lambda>c. Inr (t\<lparr>AbstainCount := c\<rparr>))"
| "TallyResult_Add VOTE_OPTION_NO_WITH_VETO t =
     bindE (Dec_Add (NoWithVetoCount t) OneDec) (\<lambda>c. Inr (t\<lparr>NoWithVetoCount := c\<rparr>))"
| "TallyResult_Add VOTE_OPTION_UNSPECIFIED t = Inl (Error ErrInvalidRequest ''unknown vote option'')"
| "TallyResult_Add (VOTE_OPTION_OTHER n) t = Inl (Error ErrInvalidRequest ''unknown vote option'')"

definition TotalCounts :: "TallyResult \<Rightarrow> SdkDec result" where
  "TotalCounts t =
     bindE (Dec_Add ZeroDec (YesCount t)) (\<lambda>c1.
     bindE (Dec_Add c1 (NoCount t)) (\<lambda>c2.
     bindE (Dec_Add c2 (AbstainCount t)) (\<lambda>c3.
       Dec_Add c3 (NoWithVetoCount t))))"

text \<open>The numbers without a name are not in the generated table \<open>VoteOption_name\<close>.\<close>

fun VoteOption_name :: "VoteOption \<Rightarrow> bool" where
  "VoteOption_name (VOTE_OPTION_OTHER n) = False"
| "VoteOption_name _ = True"

definition validateVoteOption :: "VoteOption \<Rightarrow> unit result" where
  "validateVoteOption option =
     bindE (guardE (option \<noteq> VOTE_OPTION_UNSPECIFIED) (Error ErrInvalidRequest ''empty vote option'')) (\<lambda>_.
     guardE (VoteOption_name option) (Error ErrInvalidRequest ''invalid vote option''))"

subsection \<open>Policies\<close>

record FoundationConfig =
  MaxExecutionPeriod :: int64
  MaxMetadataLen :: uint64
  MinThreshold :: SdkDec
  MinPercentage :: SdkDec

record DecisionPolicyWindows =
  VotingPeriod :: int64
  MinExecutionPeriod :: int64

datatype DecisionPolicy =
    ThresholdDecisionPolicy SdkDec "DecisionPolicyWindows option"
  | PercentageDecisionPolicy SdkDec "DecisionPolicyWindows option"

record DecisionPolicyResult =
  Allow :: bool
  Final :: bool

definition nil_deref :: error where
  "nil_deref = Panic ''invalid memory address or nil pointer dereference''"

definition deref :: "'a option \<Rightarrow> 'a result" where
  "deref p = (case p of None \<Rightarrow> Inl nil_deref | Some x \<Rightarrow> Inr x)"

definition validateDecisionPolicyWindows :: "DecisionPolicyWindows \<Rightarrow> FoundationConfig \<Rightarrow> unit result" where
  "validateDecisionPolicyWindows windows config =
     (if sint (MinExecutionPeriod windows) \<ge> sint (VotingPeriod windows + MaxExecutionPeriod config)
      then Inl (Error ErrInvalidRequest
        ''min_execution_period should be smaller than voting_period + max_execution_period'')
      else Inr ())"

definition validateDecisionPolicyWindowsBasic :: "DecisionPolicyWindows option \<Rightarrow> unit result" where
  "validateDecisionPolicyWindowsBasic windows =
     (case windows of
        None \<Rightarrow> Inl (Error ErrInvalidRequest ''voting period cannot be zero'')
      | Some w \<Rightarrow> guardE (VotingPeriod w \<noteq> 0) (Error ErrInvalidRequest ''voting period cannot be zero''))"

definition Threshold_Allow :: "SdkDec \<Rightarrow> DecisionPolicyWindows option \<Rightarrow> TallyResult \<Rightarrow> SdkDec \<Rightarrow> int64
    \<Rightarrow> DecisionPolicyResult result" where
  "Threshold_Allow threshold windows t totalWeight sinceSubmission =
     bindE (deref windows) (\<lambda>w.
     if sint sinceSubmission < sint (MinExecutionPeriod w)
     then Inl (Error ErrUnauthorized ''must wait after submission before execution'')
     else
       let realThreshold = MinDec threshold totalWeight in
       if Dec_GTE (YesCount t) realThreshold then Inr \<lparr>Allow = True, Final = True\<rparr>
       else
         bindE (TotalCounts t) (\<lambda>totalCounts.
         bindE (Dec_Sub totalWeight totalCounts) (\<lambda>undecided.
         bindE (Dec_Add (YesCount t) undecided) (\<lambda>maxYesCount.
           if Dec_LT maxYesCount realThreshold then Inr \<lparr>Allow = False, Final = True\<rparr>
           else Inr \<lparr>Allow = False, Final = False\<rparr>))))"

definition Threshold_ValidateBasic :: "SdkDec \<Rightarrow> DecisionPolicyWindows option \<Rightarrow> unit result" where
  "Threshold_ValidateBasic threshold windows =
     (if \<not> Dec_IsPositive threshold
      then Inl (Error ErrInvalidRequest ''threshold must be a positive number'')
      else validateDecisionPolicyWindowsBasic windows)"

definition Threshold_Validate :: "SdkDec \<Rightarrow> DecisionPolicyWindows option \<Rightarrow> FoundationConfig \<Rightarrow> unit result" where
  "Threshold_Validate threshold windows config =
     (if Dec_LT threshold (MinThreshold config)
      then Inl (Error ErrInvalidRequest ''threshold must be greater than or equal to min_threshold'')
      else bindE (deref windows) (\<lambda>w. validateDecisionPolicyWindows w config))"

definition validateRatio :: "SdkDec \<Rightarrow> unit result" where
  "validateRatio ratio =
     (if Dec_GT ratio OneDec \<or> Dec_IsNegative ratio
      then Inl (Error ErrInvalidRequest ''ratio must be >= 0 and <= 1'') else Inr ())"

definition Percentage_Allow :: "SdkDec \<Rightarrow> DecisionPolicyWindows option \<Rightarrow> TallyResult \<Rightarrow> SdkDec \<Rightarrow> int64
    \<Rightarrow> DecisionPolicyResult result" where
  "Percentage_Allow percentage windows t totalWeight sinceSubmission =
     bindE (deref windows) (\<lambda>w.
     if sint sinceSubmission < sint (MinExecutionPeriod w)
     then Inl (Error ErrUnauthorized ''must wait after submission before execution'')
     else
       bindE (Dec_Sub totalWeight (AbstainCount t)) (\<lambda>notAbstaining.
       if Dec_IsZero notAbstaining then Inr \<lparr>Allow = False, Final = True\<rparr>
       else
         bindE (Dec_Quo (YesCount t) notAbstaining) (\<lambda>yesPercentage.
         if Dec_GTE yesPercentage percentage then Inr \<lparr>Allow = True, Final = True\<rparr>
         else
           bindE (TotalCounts t) (\<lambda>totalCounts.
           bindE (Dec_Sub totalWeight totalCounts) (\<lambda>undecided.
           bindE (Dec_Add (YesCount t) undecided) (\<lambda>maxYesCount.
           bindE (Dec_Quo maxYesCount notAbstaining) (\<lambda>maxYesPercentage.
             if Dec_LT maxYesPercentage percentage then Inr \<lparr>Allow = False, Final = True\<rparr>
             else Inr \<lparr>Allow = False, Final = False\<rparr>)))))))"

definition Percentage_ValidateBasic :: "SdkDec \<Rightarrow> DecisionPolicyWindows option \<Rightarrow> unit result" where
  "Percentage_ValidateBasic percentage windows =
     bindE (validateDecisionPolicyWindowsBasic windows) (\<lambda>_. validateRatio percentage)"

definition Percentage_Validate :: "SdkDec \<Rightarrow> DecisionPolicyWindows option \<Rightarrow> FoundationConfig \<Rightarrow> unit result" where
  "Percentage_Validate percentage windows config =
     (if Dec_LT percentage (MinPercentage config)
      then Inl (Error ErrInvalidRequest ''percentage must be greater than or equal to min_percentage'')
      else bindE (deref windows) (\<lambda>w. validateDecisionPolicyWindows w config))"

text \<open>The methods of the interface, by the kind of the policy.\<close>

fun Policy_Allow :: "DecisionPolicy \<Rightarrow> TallyResult \<Rightarrow> SdkDec \<Rightarrow> int64 \<Rightarrow> DecisionPolicyResult result" where
  "Policy_Allow (ThresholdDecisionPolicy th w) = Threshold_Allow th w"
| "Policy_Allow (PercentageDecisionPolicy pc w) = Percentage_Allow pc w"

fun Policy_Windows :: "DecisionPolicy \<Rightarrow> DecisionPolicyWindows option" where
  "Policy_Windows (ThresholdDecisionPolicy th w) = w"
| "Policy_Windows (PercentageDecisionPolicy pc w) = w"

definition GetVotingPeriod :: "DecisionPolicy \<Rightarrow> int64 result" where
  "GetVotingPeriod p = bindE (deref (Policy_Windows p)) (\<lambda>w. Inr (VotingPeriod w))"

fun Policy_ValidateBasic :: "DecisionPolicy \<Rightarrow> unit result" where
  "Policy_ValidateBasic (ThresholdDecisionPolicy th w) = Threshold_ValidateBasic th w"
| "Policy_ValidateBasic (PercentageDecisionPolicy pc w) = Percentage_ValidateBasic pc w"

fun Policy_Validate :: "DecisionPolicy \<Rightarrow> FoundationConfig \<Rightarrow> unit result" where
  "Policy_Validate (ThresholdDecisionPolicy th w) = Threshold_Validate th w"
| "Policy_Validate (PercentageDecisionPolicy pc w) = Percentage_Validate pc w"

definition DefaultDecisionPolicy :: "FoundationConfig \<Rightarrow> DecisionPolicy" where
  "DefaultDecisionPolicy config =
     ThresholdDecisionPolicy (MinThreshold config)
       (Some \<lparr>VotingPeriod = 24 * 3600 * 1000000000, MinExecutionPeriod = 0\<rparr>)"

definition DefaultConfig :: FoundationConfig where
  "DefaultConfig =
     \<lparr>MaxExecutionPeriod = 2 * 7 * 24 * 3600 * 1000000000, MaxMetadataLen = 255,
      MinThreshold = 3 * 10 ^ 18, MinPercentage = 8 * 10 ^ 17\<rparr>"

end
