(* ===== verification/FoundationPolicy_Props.thy ===== *)
theory FoundationPolicy_Props
  imports FoundationPolicy
begin

section \<open>Finality of the decisions of a policy\<close>

text \<open>
  A final decision is not changed by votes cast later, and a decision is final once all
  votes are cast. The interface \<open>decision_policy\<close> states both for tallies that grow; its
  consequences for sequences of votes hold for the threshold and the percentage policy.
\<close>

subsection \<open>Tallies\<close>

definition total_votes :: "TallyResult \<Rightarrow> int" where
  "total_votes t = YesCount t + NoCount t + AbstainCount t + NoWithVetoCount t"

definition tally_ok :: "TallyResult \<Rightarrow> SdkDec \<Rightarrow> bool" where
  "tally_ok t W \<longleftrightarrow> 0 \<le> YesCount t \<and> 0 \<le> NoCount t \<and> 0 \<le> AbstainCount t \<and> 0 \<le> NoWithVetoCount t
     \<and> total_votes t \<le> W \<and> W < 2 ^ 314"

definition tally_le :: "TallyResult \<Rightarrow> TallyResult \<Rightarrow> bool" where
  "tally_le t t' \<longleftrightarrow> YesCount t \<le> YesCount t' \<and> NoCount t \<le> NoCount t' \<and> AbstainCount t \<le> AbstainCount t'
     \<and> NoWithVetoCount t \<le> NoWithVetoCount t'"

lemma tally_le_refl [simp]: "tally_le t t"
  by (simp add: tally_le_def)

lemma tally_le_trans: "tally_le t u \<Longrightarrow> tally_le u v \<Longrightarrow> tally_le t v"
  by (auto simp: tally_le_def)

lemma TallyResult_Add_le: "TallyResult_Add v t = Inr t' \<Longrightarrow> tally_le t t'"
  by (cases v) (auto simp: tally_le_def OneDec_def)

lemma votes_le: "foldE TallyResult_Add vs t = Inr t' \<Longrightarrow> tally_le t t'"
  by (induction vs arbitrary: t) (auto dest!: TallyResult_Add_le intro: tally_le_trans)

lemma TotalCounts_eq: "tally_ok t W \<Longrightarrow> TotalCounts t = Inr (total_votes t)"
  by (auto simp: TotalCounts_def tally_ok_def total_votes_def ZeroDec_def)

lemma undecided_eq:
  assumes "tally_ok t W"
  shows "Dec_Sub W (total_votes t) = Inr (W - total_votes t)"
    "Dec_Add (YesCount t) (W - total_votes t) = Inr (YesCount t + (W - total_votes t))"
    "Dec_Sub W (AbstainCount t) = Inr (W - AbstainCount t)"
  using assms by (auto simp: tally_ok_def total_votes_def)

subsection \<open>The interface of a policy\<close>

locale decision_policy =
  fixes allow :: "TallyResult \<Rightarrow> SdkDec \<Rightarrow> int64 \<Rightarrow> DecisionPolicyResult result"
  assumes final_grows:
    "\<lbrakk>tally_ok t W; tally_ok t' W; tally_le t t'; AbstainCount t' < W; sint d \<le> sint d';
      allow t W d = Inr r; Final r\<rbrakk> \<Longrightarrow> allow t' W d' = Inr r"
    and all_cast: "\<lbrakk>tally_ok t W; total_votes t = W; allow t W d = Inr r\<rbrakk> \<Longrightarrow> Final r"
begin

lemma final_votes:
  assumes "foldE TallyResult_Add vs t = Inr t'" "tally_ok t W" "tally_ok t' W" "AbstainCount t' < W"
    and "sint d \<le> sint d'" "allow t W d = Inr r" "Final r"
  shows "allow t' W d' = Inr r"
  using final_grows [OF assms(2,3) votes_le [OF assms(1)]] assms(4-) by blast

lemma final_agree:
  assumes "foldE TallyResult_Add vs t = Inr t'" "tally_ok t W" "tally_ok t' W" "AbstainCount t' < W"
    and "allow t W d = Inr r" "allow t' W d = Inr r'" "Final r"
  shows "r' = r"
  using final_votes [OF assms(1-4) order_refl assms(5,7)] assms(6) by simp

end

text \<open>Both policies decide only after the minimal execution period.\<close>

definition after_wait :: "DecisionPolicyWindows option \<Rightarrow> int64 \<Rightarrow> DecisionPolicyResult \<Rightarrow> DecisionPolicyResult result" where
  "after_wait w d x = bindE (deref w) (\<lambda>w.
     if sint d < sint (MinExecutionPeriod w)
     then Inl (Error ErrUnauthorized ''must wait after submission before execution'')
     else Inr x)"

lemma after_wait_Inr [simp]:
  "after_wait w d x = Inr r \<longleftrightarrow> (\<exists>v. w = Some v \<and> sint (MinExecutionPeriod v) \<le> sint d \<and> r = x)"
  by (cases w) (auto simp: after_wait_def deref_def)

subsection \<open>The threshold policy\<close>

lemma Threshold_Allow_eq:
  assumes "tally_ok t W"
  shows "Threshold_Allow th w t W d = after_wait w d
     \<lparr>Allow = min th W \<le> YesCount t,
       Final = (min th W \<le> YesCount t \<or> W - (total_votes t - YesCount t) < min th W)\<rparr>"
  unfolding Threshold_Allow_def Let_def TotalCounts_eq [OF assms] undecided_eq [OF assms] bindE.simps after_wait_def
  by (rule bindE_cong) (auto simp: algebra_simps)

lemma Threshold_grows:
  assumes "tally_ok t W" "tally_ok t' W" "tally_le t t'" "sint d \<le> sint d'"
    and "Threshold_Allow th w t W d = Inr r" "Final r"
  shows "Threshold_Allow th w t' W d' = Inr r"
  using assms unfolding Threshold_Allow_eq [OF assms(1)] Threshold_Allow_eq [OF assms(2)]
  by (auto simp: total_votes_def tally_le_def tally_ok_def)

interpretation threshold: decision_policy "Threshold_Allow th w" for th w
proof
  show "Threshold_Allow th w t' W d' = Inr r"
    if "tally_ok t W" "tally_ok t' W" "tally_le t t'" "sint d \<le> sint d'"
      "Threshold_Allow th w t W d = Inr r" "Final r" for t W t' d d' r
    using that by (rule Threshold_grows)
  show "Final r" if "tally_ok t W" "total_votes t = W" "Threshold_Allow th w t W d = Inr r" for t W d r
    using that by (auto simp: Threshold_Allow_eq split: if_splits)
qed

subsection \<open>The percentage policy\<close>

lemma Percentage_Allow_eq:
  assumes "tally_ok t W" "AbstainCount t < W"
  shows "Percentage_Allow pc w t W d = after_wait w d
     \<lparr>Allow = pc \<le> share (YesCount t) (W - AbstainCount t),
       Final = (pc \<le> share (YesCount t) (W - AbstainCount t) \<or>
         share (YesCount t + (W - total_votes t)) (W - AbstainCount t) < pc)\<rparr>"
proof -
  have q: "Dec_Quo (YesCount t) (W - AbstainCount t) = Inr (share (YesCount t) (W - AbstainCount t))"
    "Dec_Quo (YesCount t + (W - total_votes t)) (W - AbstainCount t)
       = Inr (share (YesCount t + (W - total_votes t)) (W - AbstainCount t))"
    using assms by (auto intro!: Dec_Quo_share simp: tally_ok_def total_votes_def)
  show ?thesis
    unfolding Percentage_Allow_def TotalCounts_eq [OF assms(1)] undecided_eq [OF assms(1)] q bindE.simps after_wait_def
    by (rule bindE_cong) (use assms(2) in auto)
qed

text \<open>Of the voters that do not abstain, those for and undecided become a smaller share.\<close>

lemma rest_cross:
  fixes X X' k k' :: int
  assumes "X' \<le> X" "0 \<le> k" "k \<le> k'" "k' \<le> X'"
  shows "(X' - k') * X \<le> (X - k) * X'"
proof -
  have "k * X' \<le> k' * X" using assms by (intro mult_mono) auto
  then show ?thesis by (simp add: algebra_simps)
qed

lemma Percentage_grows:
  assumes ok: "tally_ok t W" "tally_ok t' W" and le: "tally_le t t'" "AbstainCount t' < W" "sint d \<le> sint d'"
    and r: "Percentage_Allow pc w t W d = Inr r" "Final r"
  shows "Percentage_Allow pc w t' W d' = Inr r"
proof -
  have a: "AbstainCount t < W" using le by (simp add: tally_le_def)
  have yes: "share (YesCount t) (W - AbstainCount t) \<le> share (YesCount t') (W - AbstainCount t')"
    using ok le a by (intro share_mono mult_mono) (auto simp: tally_ok_def tally_le_def)
  have rest: "(YesCount t' + (W - total_votes t')) * (W - AbstainCount t)
      \<le> (YesCount t + (W - total_votes t)) * (W - AbstainCount t')"
    using rest_cross [of "W - AbstainCount t'" "W - AbstainCount t" "NoCount t + NoWithVetoCount t"
        "NoCount t' + NoWithVetoCount t'"] ok le
    by (simp add: tally_ok_def tally_le_def total_votes_def algebra_simps)
  have no: "share (YesCount t' + (W - total_votes t')) (W - AbstainCount t')
      \<le> share (YesCount t + (W - total_votes t)) (W - AbstainCount t)"
    using rest le(2) a by (intro share_mono) auto
  have "share (YesCount t') (W - AbstainCount t') \<le> share (YesCount t' + (W - total_votes t')) (W - AbstainCount t')"
    using ok(2) le(2) by (intro share_mono mult_right_mono) (auto simp: tally_ok_def)
  then show ?thesis
    using r yes no le(3) unfolding Percentage_Allow_eq [OF ok(1) a] Percentage_Allow_eq [OF ok(2) le(2)]
    by (auto split: if_splits)
qed

lemma Percentage_all_abstain:
  assumes "tally_ok t W" "AbstainCount t = W"
  shows "Percentage_Allow pc w t W d = after_wait w d
     \<lparr>Allow = False, Final = True\<rparr>"
  unfolding Percentage_Allow_def undecided_eq [OF assms(1)] after_wait_def by (rule bindE_cong) (simp_all add: assms(2))

lemma Percentage_all_cast:
  assumes "tally_ok t W" "total_votes t = W" "Percentage_Allow pc w t W d = Inr r"
  shows "Final r"
proof (cases "AbstainCount t < W")
  case True
  then show ?thesis using assms(2,3) unfolding Percentage_Allow_eq [OF assms(1) True] by (auto split: if_splits)
next
  case False
  then have "AbstainCount t = W" using assms(1) by (simp add: tally_ok_def total_votes_def)
  then show ?thesis using assms(3) unfolding Percentage_all_abstain [OF assms(1) \<open>AbstainCount t = W\<close>] by (auto split: if_splits)
qed

interpretation percentage: decision_policy "Percentage_Allow pc w" for pc w
  by unfold_locales (auto intro: Percentage_grows Percentage_all_cast)

lemma Percentage_votes:
  assumes "foldE TallyResult_Add vs t = Inr t'" "tally_ok t W" "tally_ok t' W" "0 < pc" "sint d \<le> sint d'"
    and "Percentage_Allow pc w t W d = Inr r" "Final r"
  shows "Percentage_Allow pc w t' W d' = Inr r"
proof (cases "AbstainCount t' < W")
  case True
  then show ?thesis using percentage.final_votes assms by blast
next
  case False
  then have all: "AbstainCount t' = W" "YesCount t' = 0"
    using assms(3) by (simp_all add: tally_ok_def total_votes_def)
  then have "YesCount t = 0" using votes_le [OF assms(1)] assms(2) by (simp add: tally_le_def tally_ok_def)
  then have "\<not> Allow r"
    using assms(2,4,6) by (cases "AbstainCount t < W")
      (auto simp: Percentage_Allow_eq Percentage_all_abstain tally_ok_def total_votes_def split: if_splits)
  then show ?thesis
    using assms(2,5-7) all(1) unfolding Percentage_all_abstain [OF assms(3) all(1)]
    by (cases "AbstainCount t < W")
      (auto simp: Percentage_Allow_eq Percentage_all_abstain tally_ok_def total_votes_def split: if_splits)
qed

subsection \<open>Both policies\<close>

text \<open>
  C32: a final decision of a valid policy is kept, whatever votes are cast later and however
  much time passes, as long as the total weight stays; the only exception is a percentage of
  zero, which accepts at once and rejects when everybody abstains.
\<close>

theorem decision_irrevocable:
  assumes "Policy_ValidateBasic pol = Inr ()" "pol \<noteq> PercentageDecisionPolicy 0 (Policy_Windows pol)"
    and "foldE TallyResult_Add vs t = Inr t'" "tally_ok t W" "tally_ok t' W" "sint d \<le> sint d'"
    and "Policy_Allow pol t W d = Inr r" "Final r"
  shows "Policy_Allow pol t' W d' = Inr r"
proof (cases pol)
  case (ThresholdDecisionPolicy th w)
  then show ?thesis using assms Threshold_grows votes_le by fastforce
next
  case (PercentageDecisionPolicy pc w)
  then have "0 < pc" using assms(1,2)
    by (auto simp: Percentage_ValidateBasic_def validateRatio_def split: if_splits)
  then show ?thesis using PercentageDecisionPolicy assms Percentage_votes by fastforce
qed

definition demo_policy :: DecisionPolicy where
  "demo_policy = PercentageDecisionPolicy (5 * 10 ^ 17) (Some \<lparr>VotingPeriod = 10, MinExecutionPeriod = 0\<rparr>)"

definition demo_tally :: "int \<Rightarrow> int \<Rightarrow> TallyResult" where
  "demo_tally yes no = NewTallyResult (yes * 10 ^ 18) 0 (no * 10 ^ 18) 0"

definition demo_weight :: SdkDec where
  "demo_weight = 3 * 10 ^ 18"

lemma demo_tally_ok: "0 \<le> y \<Longrightarrow> 0 \<le> n \<Longrightarrow> y + n \<le> 3 \<Longrightarrow> tally_ok (demo_tally y n) demo_weight"
  by (simp add: tally_ok_def total_votes_def demo_tally_def NewTallyResult_def demo_weight_def)

lemma demo_allow:
  "Policy_Allow demo_policy (demo_tally 2 0) demo_weight 0 = Inr \<lparr>Allow = True, Final = True\<rparr>"
proof -
  have "share 1 2 = 5 * 10 ^ 17"
    using round.chop_one_right [of "5 * 10 ^ 17"] by (simp add: share_def OneDec_def)
  moreover have "share 1 2 \<le> share (2 * 10 ^ 18) (3 * 10 ^ 18)"
    by (rule share_mono) simp_all
  ultimately have "5 * 10 ^ 17 \<le> share (YesCount (demo_tally 2 0)) (demo_weight - AbstainCount (demo_tally 2 0))"
    by (simp add: demo_tally_def NewTallyResult_def demo_weight_def)
  moreover have "AbstainCount (demo_tally 2 0) < demo_weight"
    by (simp add: demo_tally_def NewTallyResult_def demo_weight_def)
  ultimately show ?thesis
    by (simp add: demo_policy_def Percentage_Allow_eq demo_tally_ok)
qed

lemma demo_policy_valid: "Policy_ValidateBasic demo_policy = Inr ()"
  by (simp add: demo_policy_def Percentage_ValidateBasic_def validateDecisionPolicyWindowsBasic_def
      validateRatio_def OneDec_def)

lemma demo_vote: "foldE TallyResult_Add [VOTE_OPTION_NO] (demo_tally 2 0) = Inr (demo_tally 2 1)"
  by (simp add: demo_tally_def NewTallyResult_def OneDec_def)

theorem decision_irrevocable_witness:
  "Policy_Allow demo_policy (demo_tally 2 1) demo_weight 5 = Inr \<lparr>Allow = True, Final = True\<rparr>"
  by (rule decision_irrevocable [OF demo_policy_valid _ demo_vote demo_tally_ok demo_tally_ok _ demo_allow])
    (simp_all add: demo_policy_def)

text \<open>
  C33: once every member has voted and the minimal execution period is over, a policy with
  windows returns a final decision.
\<close>

theorem decision_reached:
  assumes "Policy_Windows pol = Some w" "sint (MinExecutionPeriod w) \<le> sint d"
    and "tally_ok t W" "total_votes t = W"
  shows "\<exists>r. Policy_Allow pol t W d = Inr r \<and> Final r"
proof (cases pol)
  case (ThresholdDecisionPolicy th w')
  then show ?thesis using assms by (auto simp: Threshold_Allow_eq deref_def)
next
  case (PercentageDecisionPolicy pc w')
  then show ?thesis
    using assms by (cases "AbstainCount t < W")
      (auto simp: Percentage_Allow_eq Percentage_all_abstain deref_def tally_ok_def total_votes_def)
qed

theorem decision_reached_witness:
  "\<exists>r. Policy_Allow demo_policy (demo_tally 1 2) demo_weight 0 = Inr r \<and> Final r"
proof (rule decision_reached [OF _ _ demo_tally_ok])
  show "Policy_Windows demo_policy = Some \<lparr>VotingPeriod = 10, MinExecutionPeriod = 0\<rparr>"
    by (simp add: demo_policy_def)
  show "total_votes (demo_tally 1 2) = demo_weight"
    by (simp add: demo_tally_def NewTallyResult_def total_votes_def demo_weight_def)
qed simp_all

end
