(* ===== verification/Store.thy ===== *)
theory Store
  imports Prelude "HOL-Library.Product_Lexorder"
begin

section \<open>Sections of a key-value store\<close>

text \<open>
  The entries of a store under one key prefix, as the list a prefix iterator walks: in
  ascending order of the keys, each key once. \<open>Get\<close> reads, \<open>Set\<close> writes or overwrites,
  \<open>Delete\<close> removes. The interface \<open>kv_store\<close> carries the lemmas on reads after sequences
  of writes.
\<close>

type_synonym ('k, 'v) store = "('k \<times> 'v) list"

definition store_get :: "('k, 'v) store \<Rightarrow> 'k \<Rightarrow> 'v option" where
  "store_get s k = map_of s k"

fun store_set :: "'k::linorder \<Rightarrow> 'v \<Rightarrow> ('k, 'v) store \<Rightarrow> ('k, 'v) store" where
  "store_set k v [] = [(k, v)]"
| "store_set k v ((k', v') # s) =
     (if k < k' then (k, v) # (k', v') # s
      else if k = k' then (k, v) # s
      else (k', v') # store_set k v s)"

definition store_delete :: "'k \<Rightarrow> ('k, 'v) store \<Rightarrow> ('k, 'v) store" where
  "store_delete k s = filter (\<lambda>e. fst e \<noteq> k) s"

definition store_wf :: "('k::linorder, 'v) store \<Rightarrow> bool" where
  "store_wf s \<longleftrightarrow> sorted_wrt (<) (map fst s)"

locale kv_store =
  fixes get :: "'s \<Rightarrow> 'k \<Rightarrow> 'v option"
    and put :: "'k \<Rightarrow> 'v \<Rightarrow> 's \<Rightarrow> 's"
    and del :: "'k \<Rightarrow> 's \<Rightarrow> 's"
    and wf :: "'s \<Rightarrow> bool"
  assumes get_put: "get (put k v s) k' = (if k' = k then Some v else get s k')"
    and get_del: "get (del k s) k' = (if k' = k then None else get s k')"
    and wf_put: "wf s \<Longrightarrow> wf (put k v s)"
    and wf_del: "wf s \<Longrightarrow> wf (del k s)"
begin

lemma get_dels: "get (fold del ks s) k = (if k \<in> set ks then None else get s k)"
  by (induction ks arbitrary: s) (auto simp: get_del)

lemma wf_dels: "wf s \<Longrightarrow> wf (fold del ks s)"
  by (induction ks arbitrary: s) (auto simp: wf_del)

lemma put_twice: "get (put k v (put k v' s)) = get (put k v s)"
  by (auto simp: get_put)

end

lemma store_set_keys: "fst ` set (store_set k v s) = insert k (fst ` set s)"
  by (induction k v s rule: store_set.induct) auto

lemma store_wf_Nil [simp]: "store_wf []"
  by (simp add: store_wf_def)

lemma store_wf_Cons: "store_wf ((k, v) # s) \<longleftrightarrow> (\<forall>k' \<in> fst ` set s. k < k') \<and> store_wf s"
  by (auto simp: store_wf_def)

lemma store_wf_set: "store_wf s \<Longrightarrow> store_wf (store_set k v s)"
  by (induction k v s rule: store_set.induct) (auto simp: store_wf_Cons store_wf_Nil store_set_keys)

lemma store_wf_delete: "store_wf s \<Longrightarrow> store_wf (store_delete k s)"
  by (simp add: store_wf_def store_delete_def sorted_wrt_filter sorted_wrt_map)

lemma store_get_set: "store_get (store_set k v s) k' = (if k' = k then Some v else store_get s k')"
  by (induction k v s rule: store_set.induct) (auto simp: store_get_def)

lemma store_get_delete: "store_get (store_delete k s) k' = (if k' = k then None else store_get s k')"
  by (induction s) (auto simp: store_get_def store_delete_def)

interpretation sorted_store: kv_store store_get store_set store_delete store_wf
  by unfold_locales (simp_all add: store_get_set store_get_delete store_wf_set store_wf_delete)

lemma store_wf_distinct: "store_wf s \<Longrightarrow> distinct (map fst s)"
  by (simp add: store_wf_def strict_sorted_iff)

lemma store_in_get: "store_wf s \<Longrightarrow> (k, v) \<in> set s \<longleftrightarrow> store_get s k = Some v"
  by (simp add: store_get_def store_wf_distinct map_of_eq_Some_iff)

end
