(* ===== verification/Foundation.thy ===== *)
theory Foundation
  imports FoundationPolicy_Props Address Store
begin

section \<open>The keeper of the foundation: x/foundation/keeper\<close>

text \<open>
  Members, proposals, votes, tallies and the execution of proposals. The state holds one
  store section per key prefix. Members are kept by address, proposals by id, votes by
  proposal id and voter; the queue of voting period ends is kept by the bytes of its keys,
  and its values are empty.

  A time is the number of nanoseconds since January 1 of year 1, which is Go's zero time.
  The messages of a proposal are of a type of their own, with their signers, validation and
  handlers given by the environment; a handler may change the whole state. Gas is not
  modelled.
\<close>

type_synonym Time = int

subsection \<open>Data\<close>

datatype ProposalStatus =
    PROPOSAL_STATUS_UNSPECIFIED
  | PROPOSAL_STATUS_SUBMITTED
  | PROPOSAL_STATUS_CLOSED
  | PROPOSAL_STATUS_ABORTED
  | PROPOSAL_STATUS_WITHDRAWN

datatype ProposalResult =
    PROPOSAL_RESULT_UNSPECIFIED
  | PROPOSAL_RESULT_UNFINALIZED
  | PROPOSAL_RESULT_ACCEPTED
  | PROPOSAL_RESULT_REJECTED

datatype ProposalExecutorResult =
    PROPOSAL_EXECUTOR_RESULT_UNSPECIFIED
  | PROPOSAL_EXECUTOR_RESULT_NOT_RUN
  | PROPOSAL_EXECUTOR_RESULT_SUCCESS
  | PROPOSAL_EXECUTOR_RESULT_FAILURE

record Member =
  MemberAddress :: string
  Participating :: bool
  MemberMetadata :: string
  AddedAt :: Time

record FoundationInfo =
  Operator :: string
  Version :: uint64
  TotalWeight :: SdkDec
  InfoPolicy :: "DecisionPolicy option"

record 'm Proposal =
  Id :: uint64
  Metadata :: string
  Proposers :: "string list"
  SubmitTime :: Time
  FoundationVersion :: uint64
  Status :: ProposalStatus
  Result :: ProposalResult
  VotingPeriodEnd :: Time
  ExecutorResult :: ProposalExecutorResult
  Messages :: "'m list"
  FinalTallyResult :: TallyResult

record Vote =
  VoteProposalId :: uint64
  Voter :: string
  Option :: VoteOption
  VoteMetadata :: string
  VoteSubmitTime :: Time

datatype 'm FoundationEvent =
    EventUpdateMembers "Member list"
  | EventUpdateDecisionPolicy "DecisionPolicy option"
  | EventSubmitProposal "'m Proposal"
  | EventWithdrawProposal uint64
  | EventVote Vote
  | EventExec uint64 ProposalExecutorResult
  | EventLeaveFoundation string

record 'm FoundationState =
  members :: "(AccAddress, Member) store"
  foundationInfo :: "FoundationInfo option"
  previousProposalID :: "uint64 option"
  proposals :: "(uint64, 'm Proposal) store"
  vpEndQueue :: "(string, unit) store"
  votes :: "(uint64 \<times> AccAddress, Vote) store"
  fevents :: "'m FoundationEvent list"

record 'm FoundationKeeper =
  addr_config :: Config
  config :: FoundationConfig
  msg_signers :: "'m \<Rightarrow> AccAddress list"
  msg_validate :: "'m \<Rightarrow> unit result"
  router :: "'m \<Rightarrow> ('m FoundationState \<Rightarrow> 'm FoundationState result) option"

definition emit_event :: "'m FoundationEvent \<Rightarrow> 'm FoundationState \<Rightarrow> 'm FoundationState" where
  "emit_event e s = s\<lparr>fevents := fevents s @ [e]\<rparr>"

subsection \<open>Times and keys: types/utils.go, keeper/keys.go\<close>

definition Time_Add :: "Time \<Rightarrow> int64 \<Rightarrow> Time" where
  "Time_Add t d = t + sint d"

text \<open>\<open>Time.Sub\<close> stops at the largest and the smallest duration.\<close>

definition Time_Sub :: "Time \<Rightarrow> Time \<Rightarrow> int64" where
  "Time_Sub t u = word_of_int (max (- (2 ^ 63)) (min (2 ^ 63 - 1) (t - u)))"

definition nanos_per_day :: int where
  "nanos_per_day = 86400 * 1000000000"

text \<open>Year, leap year and day of the year, by cycles of 400, 100, 4 and 1 years.\<close>

definition year_day :: "int \<Rightarrow> int \<times> bool \<times> int" where
  "year_day days =
     (let n400 = days div 146097; r400 = days mod 146097;
          n100 = min 3 (r400 div 36524); r100 = r400 - n100 * 36524;
          n4 = r100 div 1461; r4 = r100 mod 1461;
          n1 = min 3 (r4 div 365)
      in (400 * n400 + 100 * n100 + 4 * n4 + n1 + 1, n1 = 3 \<and> (n4 \<noteq> 24 \<or> n100 = 3), r4 - n1 * 365))"

fun month_day :: "int list \<Rightarrow> int \<Rightarrow> int \<Rightarrow> int \<times> int" where
  "month_day [] m d = (m, d + 1)"
| "month_day (l # ls) m d = (if d < l then (m, d + 1) else month_day ls (m + 1) (d - l))"

definition padded :: "nat \<Rightarrow> int \<Rightarrow> string" where
  "padded w i = (if i < 0 then CHR ''-'' # zero_pad w (nat_text (nat (- i))) else zero_pad w (nat_text (nat i)))"

text \<open>The layout \<open>2006-01-02T15:04:05.000000000\<close>.\<close>

definition FormatTimeBytes :: "Time \<Rightarrow> string" where
  "FormatTimeBytes t =
     (let (year, leap, yday) = year_day (t div nanos_per_day);
          (month, day) = month_day [31, if leap then 29 else 28, 31, 30, 31, 30, 31, 31, 30, 31, 30, 31] 1 yday;
          ns = t mod nanos_per_day; secs = ns div 1000000000
      in padded 4 year @ ''-'' @ padded 2 month @ ''-'' @ padded 2 day @ ''T'' @ padded 2 (secs div 3600) @ '':''
         @ padded 2 (secs div 60 mod 60) @ '':'' @ padded 2 (secs mod 60) @ ''.'' @ padded 9 (ns mod 1000000000))"

definition Uint64ToBytes :: "uint64 \<Rightarrow> string" where
  "Uint64ToBytes n = map (\<lambda>i. byte (unat (drop_bit (8 * i) n) mod 256)) [7, 6, 5, 4, 3, 2, 1, 0]"

definition proposalByVPEndKeyPrefix :: string where
  "proposalByVPEndKeyPrefix = [byte 19]"

definition proposalByVPEndKey :: "uint64 \<Rightarrow> Time \<Rightarrow> string" where
  "proposalByVPEndKey pid end_time =
     proposalByVPEndKeyPrefix @ [byte (length (Uint64ToBytes pid))] @ Uint64ToBytes pid @ FormatTimeBytes end_time"

text \<open>\<open>PrefixEndBytes\<close>; \<open>None\<close> is the nil slice, which bounds nothing.\<close>

fun prefix_end_rev :: "string \<Rightarrow> string option" where
  "prefix_end_rev [] = None"
| "prefix_end_rev (c # cs) =
     (if of_char c \<noteq> (255 :: nat) then Some (rev (byte (of_char c + 1) # cs)) else prefix_end_rev cs)"

definition PrefixEndBytes :: "string \<Rightarrow> string option" where
  "PrefixEndBytes prefix = prefix_end_rev (rev prefix)"

subsection \<open>Members: keeper/member.go\<close>

definition validateMetadata :: "string \<Rightarrow> FoundationConfig \<Rightarrow> unit result" where
  "validateMetadata metadata cfg =
     (if int (length metadata) > sint (MaxMetadataLen cfg)
      then Inl (Error ErrInvalidRequest ''metadata is too large'') else Inr ())"

definition GetFoundationInfo :: "'m FoundationState \<Rightarrow> FoundationInfo result" where
  "GetFoundationInfo s =
     (case foundationInfo s of
        None \<Rightarrow> Inl (Panic ''the foundation info must have been registered'') | Some info \<Rightarrow> Inr info)"

definition setFoundationInfo :: "FoundationInfo \<Rightarrow> 'm FoundationState \<Rightarrow> 'm FoundationState" where
  "setFoundationInfo info s = s\<lparr>foundationInfo := Some info\<rparr>"

definition GetMember :: "'m FoundationState \<Rightarrow> AccAddress \<Rightarrow> Member result" where
  "GetMember s address =
     (case store_get (members s) address of
        None \<Rightarrow> Inl (Error ErrNotFound ''No such member'') | Some m \<Rightarrow> Inr m)"

definition must_address :: "'m FoundationKeeper \<Rightarrow> string \<Rightarrow> AccAddress result" where
  "must_address k a =
     (case AccAddressFromBech32 (addr_config k) a of Inl _ \<Rightarrow> Inl (Panic ''address'') | Inr x \<Rightarrow> Inr x)"

definition setMember :: "'m FoundationKeeper \<Rightarrow> Member \<Rightarrow> 'm FoundationState \<Rightarrow> 'm FoundationState result" where
  "setMember k member s =
     bindE (must_address k (MemberAddress member)) (\<lambda>addr.
       Inr (s\<lparr>members := store_set addr member (members s)\<rparr>))"

definition deleteMember :: "AccAddress \<Rightarrow> 'm FoundationState \<Rightarrow> 'm FoundationState" where
  "deleteMember address s = s\<lparr>members := store_delete address (members s)\<rparr>"

definition GetMembers :: "'m FoundationState \<Rightarrow> Member list" where
  "GetMembers s = map snd (members s)"

definition GetOperator :: "'m FoundationKeeper \<Rightarrow> 'm FoundationState \<Rightarrow> AccAddress result" where
  "GetOperator k s = bindE (GetFoundationInfo s) (\<lambda>info. must_address k (Operator info))"

definition validateOperator :: "'m FoundationKeeper \<Rightarrow> string \<Rightarrow> 'm FoundationState \<Rightarrow> unit result" where
  "validateOperator k operator s =
     bindE (AccAddressFromBech32 (addr_config k) operator) (\<lambda>addr.
     bindE (GetOperator k s) (\<lambda>opr.
       guardE (addr = opr) (Error ErrUnauthorized ''is not the operator'')))"

definition validateMembers :: "'m FoundationKeeper \<Rightarrow> string list \<Rightarrow> 'm FoundationState \<Rightarrow> unit result" where
  "validateMembers k ms s =
     foldE (\<lambda>member _.
       bindE (wrapE ErrInvalidAddress ''invalid address'' (AccAddressFromBech32 (addr_config k) member)) (\<lambda>addr.
       bindE (wrapE ErrUnauthorized ''is not a member'' (GetMember s addr)) (\<lambda>_. Inr ()))) ms ()"

subsection \<open>Votes: keeper/vote.go\<close>

definition hasVote :: "uint64 \<Rightarrow> AccAddress \<Rightarrow> 'm FoundationState \<Rightarrow> bool" where
  "hasVote pid voter s \<longleftrightarrow> store_get (votes s) (pid, voter) \<noteq> None"

definition GetVote :: "'m FoundationState \<Rightarrow> uint64 \<Rightarrow> AccAddress \<Rightarrow> Vote result" where
  "GetVote s pid voter =
     (case store_get (votes s) (pid, voter) of
        None \<Rightarrow> Inl (Error ErrNotFound ''No vote for proposal'') | Some v \<Rightarrow> Inr v)"

definition setVote :: "'m FoundationKeeper \<Rightarrow> Vote \<Rightarrow> 'm FoundationState \<Rightarrow> 'm FoundationState result" where
  "setVote k vote s =
     bindE (must_address k (Voter vote)) (\<lambda>voter.
       Inr (s\<lparr>votes := store_set (VoteProposalId vote, voter) vote (votes s)\<rparr>))"

definition GetVotes :: "'m FoundationState \<Rightarrow> uint64 \<Rightarrow> Vote list" where
  "GetVotes s pid = map snd (filter (\<lambda>((i, _), _). i = pid) (votes s))"

text \<open>The loop of \<open>pruneVotes\<close> collects the voters up to the first unreadable one.\<close>

fun readable_voters :: "'m FoundationKeeper \<Rightarrow> Vote list \<Rightarrow> AccAddress list" where
  "readable_voters k [] = []"
| "readable_voters k (v # vs) =
     (case AccAddressFromBech32 (addr_config k) (Voter v) of
        Inl _ \<Rightarrow> [] | Inr voter \<Rightarrow> voter # readable_voters k vs)"

definition pruneVotes :: "'m FoundationKeeper \<Rightarrow> uint64 \<Rightarrow> 'm FoundationState \<Rightarrow> 'm FoundationState" where
  "pruneVotes k pid s =
     s\<lparr>votes := fold store_delete (map (Pair pid) (readable_voters k (GetVotes s pid))) (votes s)\<rparr>"

subsection \<open>Proposals: keeper/proposal.go\<close>

definition GetProposal :: "'m FoundationState \<Rightarrow> uint64 \<Rightarrow> 'm Proposal result" where
  "GetProposal s pid =
     (case store_get (proposals s) pid of
        None \<Rightarrow> Inl (Error ErrNotFound ''No proposal for id'') | Some p \<Rightarrow> Inr p)"

definition setProposal :: "'m Proposal \<Rightarrow> 'm FoundationState \<Rightarrow> 'm FoundationState" where
  "setProposal p s = s\<lparr>proposals := store_set (Id p) p (proposals s)\<rparr>"

definition deleteProposal :: "uint64 \<Rightarrow> 'm FoundationState \<Rightarrow> 'm FoundationState" where
  "deleteProposal pid s = s\<lparr>proposals := store_delete pid (proposals s)\<rparr>"

definition addProposalToVPEndQueue :: "'m Proposal \<Rightarrow> 'm FoundationState \<Rightarrow> 'm FoundationState" where
  "addProposalToVPEndQueue p s =
     s\<lparr>vpEndQueue := store_set (proposalByVPEndKey (Id p) (VotingPeriodEnd p)) () (vpEndQueue s)\<rparr>"

definition removeProposalFromVPEndQueue :: "'m Proposal \<Rightarrow> 'm FoundationState \<Rightarrow> 'm FoundationState" where
  "removeProposalFromVPEndQueue p s =
     s\<lparr>vpEndQueue := store_delete (proposalByVPEndKey (Id p) (VotingPeriodEnd p)) (vpEndQueue s)\<rparr>"

definition GetProposals :: "'m FoundationState \<Rightarrow> 'm Proposal list" where
  "GetProposals s = map snd (proposals s)"

definition newProposalID :: "'m FoundationState \<Rightarrow> (uint64 \<times> 'm FoundationState) result" where
  "newProposalID s =
     (case previousProposalID s of
        None \<Rightarrow> Inl (Panic ''previous proposal ID has not been set'')
      | Some n \<Rightarrow> Inr (n + 1, s\<lparr>previousProposalID := Some (n + 1)\<rparr>))"

definition ensureMsgAuthz :: "'m FoundationKeeper \<Rightarrow> 'm list \<Rightarrow> AccAddress \<Rightarrow> unit result" where
  "ensureMsgAuthz k msgs operator =
     foldE (\<lambda>msg _. foldE (\<lambda>signer _.
       guardE (operator = signer) (Error ErrUnauthorized ''signer of msg is not the operator''))
       (msg_signers k msg) ()) msgs ()"

definition SubmitProposal :: "'m FoundationKeeper \<Rightarrow> Time \<Rightarrow> string list \<Rightarrow> string \<Rightarrow> 'm list \<Rightarrow> 'm FoundationState
    \<Rightarrow> (uint64 \<times> 'm FoundationState) result" where
  "SubmitProposal k now proposers metadata msgs s =
     bindE (validateMetadata metadata (config k)) (\<lambda>_.
     bindE (GetFoundationInfo s) (\<lambda>info.
     bindE (AccAddressFromBech32 (addr_config k) (Operator info)) (\<lambda>operator.
     bindE (ensureMsgAuthz k msgs operator) (\<lambda>_.
     bindE (newProposalID s) (\<lambda>(pid, s1).
     bindE (deref (InfoPolicy info)) (\<lambda>policy.
     bindE (GetVotingPeriod policy) (\<lambda>period.
       let p = \<lparr>Id = pid, Metadata = metadata, Proposers = proposers, SubmitTime = now,
                FoundationVersion = Version info, Status = PROPOSAL_STATUS_SUBMITTED,
                Result = PROPOSAL_RESULT_UNFINALIZED, VotingPeriodEnd = Time_Add now period,
                ExecutorResult = PROPOSAL_EXECUTOR_RESULT_NOT_RUN, Messages = msgs,
                FinalTallyResult = DefaultTallyResult\<rparr>
       in Inr (pid, addProposalToVPEndQueue p (setProposal p s1)))))))))"

definition WithdrawProposal :: "uint64 \<Rightarrow> 'm FoundationState \<Rightarrow> 'm FoundationState result" where
  "WithdrawProposal pid s =
     bindE (GetProposal s pid) (\<lambda>p.
       if Status p \<noteq> PROPOSAL_STATUS_SUBMITTED
       then Inl (Error ErrInvalidRequest ''cannot withdraw a proposal with the status'')
       else Inr (setProposal (p\<lparr>Status := PROPOSAL_STATUS_WITHDRAWN\<rparr>) s))"

definition pruneProposal :: "'m FoundationKeeper \<Rightarrow> 'm Proposal \<Rightarrow> 'm FoundationState \<Rightarrow> 'm FoundationState" where
  "pruneProposal k p s =
     deleteProposal (Id p) (removeProposalFromVPEndQueue p (pruneVotes k (Id p) s))"

fun abort_loop :: "'m FoundationKeeper \<Rightarrow> uint64 \<Rightarrow> 'm Proposal list \<Rightarrow> 'm FoundationState \<Rightarrow> 'm FoundationState" where
  "abort_loop k latestVersion [] s = s"
| "abort_loop k latestVersion (p # ps) s =
     (if FoundationVersion p \<noteq> latestVersion - 1 then s
      else if Status p = PROPOSAL_STATUS_SUBMITTED
      then abort_loop k latestVersion ps
        (setProposal (p\<lparr>Status := PROPOSAL_STATUS_ABORTED\<rparr>) (pruneVotes k (Id p) s))
      else abort_loop k latestVersion ps s)"

definition abortOldProposals :: "'m FoundationKeeper \<Rightarrow> 'm FoundationState \<Rightarrow> 'm FoundationState result" where
  "abortOldProposals k s =
     bindE (GetFoundationInfo s) (\<lambda>info. Inr (abort_loop k (Version info) (GetProposals s) s))"

definition validateActorForProposal :: "string \<Rightarrow> 'm Proposal \<Rightarrow> unit result" where
  "validateActorForProposal address p =
     guardE (address \<in> set (Proposers p)) (Error ErrUnauthorized ''not a proposer'')"

end
