(* ===== verification/FoundationMsg.thy ===== *)
theory FoundationMsg
  imports Foundation
begin

section \<open>Voting, execution and messages of the foundation\<close>

text \<open>
  The operations of the keeper that change members and decide on proposals, and the end of a
  block. The treasury, the grants of the foundation and its genesis are not modelled.
\<close>

subsection \<open>Changes of members and of the policy: keeper/member.go\<close>

definition UpdateDecisionPolicy :: "'m FoundationKeeper \<Rightarrow> DecisionPolicy option \<Rightarrow> 'm FoundationState
    \<Rightarrow> 'm FoundationState result" where
  "UpdateDecisionPolicy k policy s =
     bindE (deref policy) (\<lambda>pol.
     bindE (Policy_Validate pol (config k)) (\<lambda>_.
     bindE (GetFoundationInfo s) (\<lambda>info.
       abortOldProposals k
         (setFoundationInfo (info\<lparr>InfoPolicy := Some pol, Version := Version info + 1\<rparr>) s))))"

text \<open>One round of the loop of \<open>UpdateMembers\<close>, with the weight collected so far.\<close>

definition update_member :: "'m FoundationKeeper \<Rightarrow> Time \<Rightarrow> Member \<Rightarrow> SdkDec \<times> 'm FoundationState
    \<Rightarrow> (SdkDec \<times> 'm FoundationState) result" where
  "update_member k now new0 = (\<lambda>(weightUpdate, s).
     bindE (validateMetadata (MemberMetadata new0) (config k)) (\<lambda>_.
     bindE (wrapE ErrInvalidAddress ''invalid new address''
       (AccAddressFromBech32 (addr_config k) (MemberAddress new0))) (\<lambda>newAddr.
     case GetMember s newAddr of
       Inl e \<Rightarrow>
         if \<not> Participating new0 then Inl e
         else
           bindE (Dec_Add weightUpdate OneDec) (\<lambda>w.
           bindE (setMember k (new0\<lparr>AddedAt := now\<rparr>) s) (\<lambda>s1. Inr (w, s1)))
     | Inr old \<Rightarrow>
         bindE (Dec_Sub weightUpdate OneDec) (\<lambda>w.
         if \<not> Participating new0 then
           bindE (wrapE ErrInvalidAddress ''invalid old address''
             (AccAddressFromBech32 (addr_config k) (MemberAddress old))) (\<lambda>oldAddr.
             Inr (w, deleteMember oldAddr s))
         else
           bindE (Dec_Add w OneDec) (\<lambda>w'.
           bindE (setMember k (new0\<lparr>AddedAt := AddedAt old\<rparr>) s) (\<lambda>s1. Inr (w', s1)))))))"

text \<open>The sum with the total weight is computed and dropped.\<close>

definition UpdateMembers :: "'m FoundationKeeper \<Rightarrow> Time \<Rightarrow> Member list \<Rightarrow> 'm FoundationState
    \<Rightarrow> 'm FoundationState result" where
  "UpdateMembers k now ms s =
     bindE (foldE (update_member k now) ms (ZeroDec, s)) (\<lambda>(weightUpdate, s1).
     bindE (GetFoundationInfo s1) (\<lambda>info.
     bindE (Dec_Add (TotalWeight info) weightUpdate) (\<lambda>_.
       abortOldProposals k (setFoundationInfo (info\<lparr>Version := Version info + 1\<rparr>) s1))))"

definition UpdateOperator :: "'m FoundationKeeper \<Rightarrow> AccAddress \<Rightarrow> 'm FoundationState \<Rightarrow> 'm FoundationState result" where
  "UpdateOperator k operator s =
     bindE (GetFoundationInfo s) (\<lambda>info.
     bindE (AccAddress_String (addr_config k) operator) (\<lambda>text.
       if text = Operator info then Inl (Error ErrInvalidRequest ''is already the operator'')
       else Inr (setFoundationInfo (info\<lparr>Operator := text\<rparr>) s)))"

subsection \<open>Votes and tallies: keeper/vote.go, keeper/tally.go\<close>

definition Vote_keeper :: "'m FoundationKeeper \<Rightarrow> Time \<Rightarrow> Vote \<Rightarrow> 'm FoundationState \<Rightarrow> 'm FoundationState result" where
  "Vote_keeper k now vote s =
     bindE (validateMetadata (VoteMetadata vote) (config k)) (\<lambda>_.
     bindE (AccAddressFromBech32 (addr_config k) (Voter vote)) (\<lambda>voter.
     if hasVote (VoteProposalId vote) voter s then Inl (Error ErrInvalidRequest ''Already voted'')
     else
       bindE (GetProposal s (VoteProposalId vote)) (\<lambda>p.
       if Status p \<noteq> PROPOSAL_STATUS_SUBMITTED
       then Inl (Error ErrInvalidRequest ''not possible with proposal status'')
       else if \<not> now < VotingPeriodEnd p
       then Inl (Error ErrInvalidRequest ''voting period has ended already'')
       else
         let v = vote\<lparr>VoteSubmitTime := now\<rparr> in
         bindE (setVote k v s) (\<lambda>s1. Inr (emit_event (EventVote v) s1)))))"

fun tally_loop :: "'m FoundationKeeper \<Rightarrow> 'm FoundationState \<Rightarrow> Vote list \<Rightarrow> TallyResult \<Rightarrow> TallyResult result" where
  "tally_loop k s [] t = Inr t"
| "tally_loop k s (v # vs) t =
     bindE (AccAddressFromBech32 (addr_config k) (Voter v)) (\<lambda>voter.
     case GetMember s voter of
       Inl (Error ErrNotFound _) \<Rightarrow> tally_loop k s vs t
     | Inl e \<Rightarrow> Inl e
     | Inr _ \<Rightarrow> bindE (TallyResult_Add (Option v) t) (tally_loop k s vs))"

definition tally :: "'m FoundationKeeper \<Rightarrow> 'm FoundationState \<Rightarrow> 'm Proposal \<Rightarrow> TallyResult result" where
  "tally k s p =
     (if Status p = PROPOSAL_STATUS_CLOSED then Inr (FinalTallyResult p)
      else tally_loop k s (GetVotes s (Id p)) DefaultTallyResult)"

text \<open>The range of a timestamp, years 1 to 9999.\<close>

definition valid_timestamp :: "Time \<Rightarrow> bool" where
  "valid_timestamp t \<longleftrightarrow> 0 \<le> t \<and> t < 3652059 * nanos_per_day"

definition doTallyAndUpdate :: "'m FoundationKeeper \<Rightarrow> Time \<Rightarrow> 'm Proposal \<Rightarrow> 'm FoundationState
    \<Rightarrow> ('m Proposal \<times> 'm FoundationState) result" where
  "doTallyAndUpdate k now p s =
     bindE (guardE (valid_timestamp (SubmitTime p)) (Error ErrPlain ''timestamp'')) (\<lambda>_.
     bindE (tally k s p) (\<lambda>tallyResult.
     bindE (GetFoundationInfo s) (\<lambda>info.
     bindE (deref (InfoPolicy info)) (\<lambda>policy.
     bindE (Policy_Allow policy tallyResult (TotalWeight info) (Time_Sub now (SubmitTime p))) (\<lambda>decision.
       if Final decision then
         Inr (p\<lparr>FinalTallyResult := tallyResult, Status := PROPOSAL_STATUS_CLOSED,
               Result := if Allow decision then PROPOSAL_RESULT_ACCEPTED else PROPOSAL_RESULT_REJECTED\<rparr>,
              pruneVotes k (Id p) s)
       else Inr (p, s))))))"

subsection \<open>Execution: keeper/exec.go\<close>

definition doExecuteMsgs :: "'m FoundationKeeper \<Rightarrow> 'm Proposal \<Rightarrow> 'm FoundationState \<Rightarrow> 'm FoundationState result" where
  "doExecuteMsgs k p s =
     bindE (GetOperator k s) (\<lambda>operator.
     bindE (ensureMsgAuthz k (Messages p) operator) (\<lambda>_.
       foldE (\<lambda>msg st.
         case router k msg of
           None \<Rightarrow> Inl (Error ErrUnknownRequest ''no message handler found'')
         | Some handler \<Rightarrow> handler st) (Messages p) s))"

text \<open>
  The messages of an accepted proposal run on a copy of the state, which is kept only when
  all of them succeed; a panic is not caught.
\<close>

definition run_accepted :: "'m FoundationKeeper \<Rightarrow> 'm Proposal \<Rightarrow> 'm FoundationState
    \<Rightarrow> ('m Proposal \<times> 'm FoundationState) result" where
  "run_accepted k p s =
     (if Status p = PROPOSAL_STATUS_CLOSED \<and> Result p = PROPOSAL_RESULT_ACCEPTED
         \<and> ExecutorResult p \<noteq> PROPOSAL_EXECUTOR_RESULT_SUCCESS
      then
        case doExecuteMsgs k p s of
          Inl (Panic m) \<Rightarrow> Inl (Panic m)
        | Inl (Error _ _) \<Rightarrow> Inr (p\<lparr>ExecutorResult := PROPOSAL_EXECUTOR_RESULT_FAILURE\<rparr>, s)
        | Inr s' \<Rightarrow> Inr (p\<lparr>ExecutorResult := PROPOSAL_EXECUTOR_RESULT_SUCCESS\<rparr>, s')
      else Inr (p, s))"

definition Exec :: "'m FoundationKeeper \<Rightarrow> Time \<Rightarrow> uint64 \<Rightarrow> 'm FoundationState \<Rightarrow> 'm FoundationState result" where
  "Exec k now pid s =
     bindE (GetProposal s pid) (\<lambda>p.
     if Status p \<noteq> PROPOSAL_STATUS_SUBMITTED \<and> Status p \<noteq> PROPOSAL_STATUS_CLOSED
     then Inl (Error ErrInvalidRequest ''not possible with proposal status'')
     else
       bindE (if Status p = PROPOSAL_STATUS_SUBMITTED then doTallyAndUpdate k now p s else Inr (p, s)) (\<lambda>(p1, s1).
       bindE (run_accepted k p1 s1) (\<lambda>(p2, s2).
         let s3 = (if ExecutorResult p2 = PROPOSAL_EXECUTOR_RESULT_SUCCESS then pruneProposal k p2 s2
                   else setProposal p2 s2)
         in Inr (emit_event (EventExec (Id p2) (ExecutorResult p2)) s3))))"

subsection \<open>The end of a block: keeper/abci.go, keeper/proposal.go\<close>

text \<open>The proposal that is read from the empty value of an entry of the queue.\<close>

definition zero_proposal :: "'m Proposal" where
  "zero_proposal = \<lparr>Id = 0, Metadata = [], Proposers = [], SubmitTime = 0, FoundationVersion = 0,
     Status = PROPOSAL_STATUS_UNSPECIFIED, Result = PROPOSAL_RESULT_UNSPECIFIED, VotingPeriodEnd = 0,
     ExecutorResult = PROPOSAL_EXECUTOR_RESULT_UNSPECIFIED, Messages = [],
     FinalTallyResult = DefaultTallyResult\<rparr>"

definition iterateProposalsByVPEnd :: "'m FoundationState \<Rightarrow> Time \<Rightarrow> 'm Proposal list" where
  "iterateProposalsByVPEnd s end_time =
     map (\<lambda>_. zero_proposal)
       (filter (\<lambda>(key, _). proposalByVPEndKeyPrefix \<le> key \<and>
          (case PrefixEndBytes (proposalByVPEndKeyPrefix @ FormatTimeBytes end_time) of
             None \<Rightarrow> True | Some e \<Rightarrow> key < e)) (vpEndQueue s))"

definition UpdateTallyOfVPEndProposals :: "'m FoundationKeeper \<Rightarrow> Time \<Rightarrow> 'm FoundationState \<Rightarrow> 'm FoundationState result" where
  "UpdateTallyOfVPEndProposals k now s =
     foldE (\<lambda>p st.
       case doTallyAndUpdate k now p st of
         Inl _ \<Rightarrow> Inl (Panic ''tally'')
       | Inr (p1, st1) \<Rightarrow> Inr (setProposal p1 st1)) (iterateProposalsByVPEnd s now) s"

definition PruneExpiredProposals :: "'m FoundationKeeper \<Rightarrow> Time \<Rightarrow> 'm FoundationState \<Rightarrow> 'm FoundationState" where
  "PruneExpiredProposals k now s =
     fold (pruneProposal k)
       (iterateProposalsByVPEnd s (Time_Add (Time_Add now (- MaxExecutionPeriod (config k))) 1)) s"

definition EndBlocker :: "'m FoundationKeeper \<Rightarrow> Time \<Rightarrow> 'm FoundationState \<Rightarrow> 'm FoundationState result" where
  "EndBlocker k now s =
     bindE (UpdateTallyOfVPEndProposals k now s) (\<lambda>s1. Inr (PruneExpiredProposals k now s1))"

end
