(* ===== verification/FoundationTx.thy ===== *)
theory FoundationTx
  imports FoundationMsg
begin

section \<open>Messages of the foundation: x/foundation/msgs.go, keeper/msg\_server.go\<close>

text \<open>
  The messages on members, policy, proposals and votes, with their stateless validation and
  their handlers, and the steps of the state: a delivered message or the end of a block.
\<close>

text \<open>The numbers without a name are not in the generated table \<open>Exec_name\<close>.\<close>

datatype Exec_option = EXEC_UNSPECIFIED | EXEC_TRY | EXEC_OTHER "32 word"

fun Exec_name :: "Exec_option \<Rightarrow> bool" where
  "Exec_name (EXEC_OTHER n) = False"
| "Exec_name _ = True"

datatype 'm FoundationMsg =
    MsgUpdateMembers string "Member list"
  | MsgUpdateDecisionPolicy string "DecisionPolicy option"
  | MsgSubmitProposal "string list" string "'m list" Exec_option
  | MsgWithdrawProposal uint64 string
  | MsgVote uint64 string VoteOption string Exec_option
  | MsgExec uint64 string
  | MsgLeaveFoundation string

subsection \<open>Validation: foundation.go, msgs.go\<close>

definition check_address :: "'m FoundationKeeper \<Rightarrow> string \<Rightarrow> unit result" where
  "check_address k a =
     bindE (wrapE ErrInvalidAddress ''invalid address'' (AccAddressFromBech32 (addr_config k) a)) (\<lambda>_. Inr ())"

fun proposers_loop :: "'m FoundationKeeper \<Rightarrow> string set \<Rightarrow> string list \<Rightarrow> unit result" where
  "proposers_loop k addrs [] = Inr ()"
| "proposers_loop k addrs (p # ps) =
     (if p \<in> addrs then Inl (Error ErrInvalidRequest ''duplicated proposer'')
      else bindE (check_address k p) (\<lambda>_. proposers_loop k (insert p addrs) ps))"

definition validateProposers :: "'m FoundationKeeper \<Rightarrow> string list \<Rightarrow> unit result" where
  "validateProposers k proposers =
     (if proposers = [] then Inl (Error ErrInvalidRequest ''no proposers'') else proposers_loop k {} proposers)"

definition validateMsgs :: "'m FoundationKeeper \<Rightarrow> 'm list \<Rightarrow> unit result" where
  "validateMsgs k msgs =
     (if msgs = [] then Inl (Error ErrInvalidRequest ''no msgs'')
      else foldE (\<lambda>msg _. msg_validate k msg) msgs ())"

definition Member_ValidateBasic :: "'m FoundationKeeper \<Rightarrow> Member \<Rightarrow> unit result" where
  "Member_ValidateBasic k m = bindE (AccAddressFromBech32 (addr_config k) (MemberAddress m)) (\<lambda>_. Inr ())"

fun members_loop :: "'m FoundationKeeper \<Rightarrow> string set \<Rightarrow> Member list \<Rightarrow> unit result" where
  "members_loop k addrs [] = Inr ()"
| "members_loop k addrs (m # ms) =
     bindE (Member_ValidateBasic k m) (\<lambda>_.
       if MemberAddress m \<in> addrs then Inl (Error ErrInvalidRequest ''duplicated address'')
       else members_loop k (insert (MemberAddress m) addrs) ms)"

definition validateMemberUpdates :: "'m FoundationKeeper \<Rightarrow> Member list \<Rightarrow> unit result" where
  "validateMemberUpdates k ms = members_loop k {} ms"

definition UpdateMembers_ValidateBasic :: "'m FoundationKeeper \<Rightarrow> string \<Rightarrow> Member list \<Rightarrow> unit result" where
  "UpdateMembers_ValidateBasic k operator ms =
     bindE (check_address k operator) (\<lambda>_.
       if ms = [] then Inl (Error ErrInvalidRequest ''empty updates'') else validateMemberUpdates k ms)"

definition UpdateDecisionPolicy_ValidateBasic :: "'m FoundationKeeper \<Rightarrow> string \<Rightarrow> DecisionPolicy option \<Rightarrow> unit result" where
  "UpdateDecisionPolicy_ValidateBasic k operator policy =
     bindE (check_address k operator) (\<lambda>_.
       case policy of
         None \<Rightarrow> Inl (Error ErrInvalidRequest ''nil decision policy'')
       | Some pol \<Rightarrow> Policy_ValidateBasic pol)"

definition SubmitProposal_ValidateBasic :: "'m FoundationKeeper \<Rightarrow> string list \<Rightarrow> 'm list \<Rightarrow> Exec_option \<Rightarrow> unit result" where
  "SubmitProposal_ValidateBasic k proposers msgs ex =
     bindE (validateProposers k proposers) (\<lambda>_.
     bindE (validateMsgs k msgs) (\<lambda>_.
       guardE (Exec_name ex) (Error ErrInvalidRequest ''invalid exec option'')))"

definition proposal_signer_ValidateBasic :: "'m FoundationKeeper \<Rightarrow> uint64 \<Rightarrow> string \<Rightarrow> unit result" where
  "proposal_signer_ValidateBasic k pid address =
     (if pid = 0 then Inl (Error ErrInvalidRequest ''empty proposal id'') else check_address k address)"

definition Vote_ValidateBasic :: "'m FoundationKeeper \<Rightarrow> uint64 \<Rightarrow> string \<Rightarrow> VoteOption \<Rightarrow> Exec_option \<Rightarrow> unit result" where
  "Vote_ValidateBasic k pid voter option ex =
     bindE (proposal_signer_ValidateBasic k pid voter) (\<lambda>_.
     bindE (validateVoteOption option) (\<lambda>_.
       guardE (Exec_name ex) (Error ErrInvalidRequest ''invalid exec option'')))"

fun fmsg_ValidateBasic :: "'m FoundationKeeper \<Rightarrow> 'm FoundationMsg \<Rightarrow> unit result" where
  "fmsg_ValidateBasic k (MsgUpdateMembers operator ms) = UpdateMembers_ValidateBasic k operator ms"
| "fmsg_ValidateBasic k (MsgUpdateDecisionPolicy operator policy) = UpdateDecisionPolicy_ValidateBasic k operator policy"
| "fmsg_ValidateBasic k (MsgSubmitProposal proposers metadata msgs ex) = SubmitProposal_ValidateBasic k proposers msgs ex"
| "fmsg_ValidateBasic k (MsgWithdrawProposal pid address) = proposal_signer_ValidateBasic k pid address"
| "fmsg_ValidateBasic k (MsgVote pid voter option metadata ex) = Vote_ValidateBasic k pid voter option ex"
| "fmsg_ValidateBasic k (MsgExec pid signer) = proposal_signer_ValidateBasic k pid signer"
| "fmsg_ValidateBasic k (MsgLeaveFoundation address) = check_address k address"

subsection \<open>Handlers\<close>

definition fmsg_UpdateMembers :: "'m FoundationKeeper \<Rightarrow> Time \<Rightarrow> string \<Rightarrow> Member list \<Rightarrow> 'm FoundationState \<Rightarrow> 'm FoundationState result" where
  "fmsg_UpdateMembers k now operator ms s =
     bindE (validateOperator k operator s) (\<lambda>_.
     bindE (UpdateMembers k now ms s) (\<lambda>s1. Inr (emit_event (EventUpdateMembers ms) s1)))"

definition fmsg_UpdateDecisionPolicy :: "'m FoundationKeeper \<Rightarrow> string \<Rightarrow> DecisionPolicy option \<Rightarrow> 'm FoundationState \<Rightarrow> 'm FoundationState result" where
  "fmsg_UpdateDecisionPolicy k operator policy s =
     bindE (validateOperator k operator s) (\<lambda>_.
     bindE (UpdateDecisionPolicy k policy s) (\<lambda>s1. Inr (emit_event (EventUpdateDecisionPolicy policy) s1)))"

text \<open>With \<open>EXEC_TRY\<close> every proposer votes yes and the proposal is tried at once.\<close>

definition fmsg_SubmitProposal :: "'m FoundationKeeper \<Rightarrow> Time \<Rightarrow> string list \<Rightarrow> string \<Rightarrow> 'm list \<Rightarrow> Exec_option
    \<Rightarrow> 'm FoundationState \<Rightarrow> 'm FoundationState result" where
  "fmsg_SubmitProposal k now proposers metadata msgs ex s =
     bindE (validateMembers k proposers s) (\<lambda>_.
     bindE (SubmitProposal k now proposers metadata msgs s) (\<lambda>(pid, s1).
     case GetProposal s1 pid of
       Inl _ \<Rightarrow> Inl (Panic ''proposal'')
     | Inr p \<Rightarrow>
       let s2 = emit_event (EventSubmitProposal p) s1 in
       if ex = EXEC_TRY then
         bindE (foldE (\<lambda>proposer st.
           Vote_keeper k now \<lparr>VoteProposalId = pid, Voter = proposer, Option = VOTE_OPTION_YES, VoteMetadata = [],
             VoteSubmitTime = 0\<rparr> st) proposers s2) (Exec k now pid)
       else Inr s2))"

definition fmsg_WithdrawProposal :: "'m FoundationKeeper \<Rightarrow> uint64 \<Rightarrow> string \<Rightarrow> 'm FoundationState \<Rightarrow> 'm FoundationState result" where
  "fmsg_WithdrawProposal k pid address s =
     bindE (GetProposal s pid) (\<lambda>p.
     bindE (GetOperator k s) (\<lambda>operator.
     bindE (AccAddress_String (addr_config k) operator) (\<lambda>text.
     bindE (if address \<noteq> text then validateActorForProposal address p else Inr ()) (\<lambda>_.
     bindE (WithdrawProposal pid s) (\<lambda>s1. Inr (emit_event (EventWithdrawProposal pid) s1))))))"

definition fmsg_Vote :: "'m FoundationKeeper \<Rightarrow> Time \<Rightarrow> uint64 \<Rightarrow> string \<Rightarrow> VoteOption \<Rightarrow> string \<Rightarrow> Exec_option
    \<Rightarrow> 'm FoundationState \<Rightarrow> 'm FoundationState result" where
  "fmsg_Vote k now pid voter option metadata ex s =
     bindE (validateMembers k [voter] s) (\<lambda>_.
     bindE (Vote_keeper k now \<lparr>VoteProposalId = pid, Voter = voter, Option = option, VoteMetadata = metadata,
       VoteSubmitTime = 0\<rparr> s) (\<lambda>s1.
       if ex = EXEC_TRY then Exec k now pid s1 else Inr s1))"

definition fmsg_Exec :: "'m FoundationKeeper \<Rightarrow> Time \<Rightarrow> uint64 \<Rightarrow> string \<Rightarrow> 'm FoundationState \<Rightarrow> 'm FoundationState result" where
  "fmsg_Exec k now pid signer s = bindE (validateMembers k [signer] s) (\<lambda>_. Exec k now pid s)"

definition fmsg_LeaveFoundation :: "'m FoundationKeeper \<Rightarrow> Time \<Rightarrow> string \<Rightarrow> 'm FoundationState \<Rightarrow> 'm FoundationState result" where
  "fmsg_LeaveFoundation k now address s =
     bindE (validateMembers k [address] s) (\<lambda>_.
     bindE (UpdateMembers k now [\<lparr>MemberAddress = address, Participating = False, MemberMetadata = [], AddedAt = 0\<rparr>] s)
       (\<lambda>s1. Inr (emit_event (EventLeaveFoundation address) s1)))"

fun fmsg_handle :: "'m FoundationKeeper \<Rightarrow> Time \<Rightarrow> 'm FoundationMsg \<Rightarrow> 'm FoundationState \<Rightarrow> 'm FoundationState result" where
  "fmsg_handle k now (MsgUpdateMembers operator ms) = fmsg_UpdateMembers k now operator ms"
| "fmsg_handle k now (MsgUpdateDecisionPolicy operator policy) = fmsg_UpdateDecisionPolicy k operator policy"
| "fmsg_handle k now (MsgSubmitProposal proposers metadata msgs ex) = fmsg_SubmitProposal k now proposers metadata msgs ex"
| "fmsg_handle k now (MsgWithdrawProposal pid address) = fmsg_WithdrawProposal k pid address"
| "fmsg_handle k now (MsgVote pid voter option metadata ex) = fmsg_Vote k now pid voter option metadata ex"
| "fmsg_handle k now (MsgExec pid signer) = fmsg_Exec k now pid signer"
| "fmsg_handle k now (MsgLeaveFoundation address) = fmsg_LeaveFoundation k now address"

definition DeliverFoundationMsg :: "'m FoundationKeeper \<Rightarrow> Time \<Rightarrow> 'm FoundationMsg \<Rightarrow> 'm FoundationState \<Rightarrow> 'm FoundationState result" where
  "DeliverFoundationMsg k now m s = bindE (fmsg_ValidateBasic k m) (\<lambda>_. fmsg_handle k now m s)"

end
