(* ===== verification/Foundation_Props.thy ===== *)
theory Foundation_Props
  imports FoundationTx
begin

section \<open>Properties of the foundation module\<close>

text \<open>
  The invariant of the stores, the meaning of a tally, what an execution needs, and what the
  update of members, the end of a block and the abort of proposals leave as it was.
\<close>

subsection \<open>The invariant of the stores\<close>

text \<open>
  Each section is in the order of its keys, each key is the one of its value, and a vote has a
  named option.
\<close>

fun castable :: "VoteOption \<Rightarrow> bool" where
  "castable VOTE_OPTION_UNSPECIFIED = False"
| "castable (VOTE_OPTION_OTHER n) = False"
| "castable _ = True"

lemma validateVoteOption_Inr: "validateVoteOption opt = Inr u \<longleftrightarrow> castable opt"
  by (cases opt) (simp_all add: validateVoteOption_def)

definition votes_ok :: "'m FoundationKeeper \<Rightarrow> (uint64 \<times> AccAddress, Vote) store \<Rightarrow> bool" where
  "votes_ok k vs \<longleftrightarrow> store_wf vs \<and>
     (\<forall>pid a v. store_get vs (pid, a) = Some v \<longrightarrow>
        VoteProposalId v = pid \<and> AccAddressFromBech32 (addr_config k) (Voter v) = Inr a
        \<and> castable (Option v))"

definition members_ok :: "'m FoundationKeeper \<Rightarrow> (AccAddress, Member) store \<Rightarrow> bool" where
  "members_ok k ms \<longleftrightarrow> store_wf ms \<and>
     (\<forall>a m. store_get ms a = Some m \<longrightarrow>
        AccAddressFromBech32 (addr_config k) (MemberAddress m) = Inr a \<and> Participating m)"

definition proposals_ok :: "(uint64, 'm Proposal) store \<Rightarrow> bool" where
  "proposals_ok ps \<longleftrightarrow> store_wf ps \<and> (\<forall>pid p. store_get ps pid = Some p \<longrightarrow> Id p = pid)"

definition foundation_inv :: "'m FoundationKeeper \<Rightarrow> 'm FoundationState \<Rightarrow> bool" where
  "foundation_inv k s \<longleftrightarrow> votes_ok k (votes s) \<and> members_ok k (members s) \<and> proposals_ok (proposals s)"

definition router_keeps :: "'m FoundationKeeper \<Rightarrow> ('m FoundationState \<Rightarrow> bool) \<Rightarrow> bool" where
  "router_keeps k P \<longleftrightarrow> (\<forall>m h s s'. router k m = Some h \<longrightarrow> h s = Inr s' \<longrightarrow> P s \<longrightarrow> P s')"

lemmas store_rules [simp] = store_get_set store_get_delete store_wf_set store_wf_delete
  sorted_store.get_dels sorted_store.wf_dels

lemma votes_ok_set:
  "votes_ok k vs \<Longrightarrow> AccAddressFromBech32 (addr_config k) (Voter v) = Inr a \<Longrightarrow> castable (Option v)
     \<Longrightarrow> votes_ok k (store_set (VoteProposalId v, a) v vs)"
  by (auto simp: votes_ok_def)

lemma votes_ok_dels: "votes_ok k vs \<Longrightarrow> votes_ok k (fold store_delete ks vs)"
  by (auto simp: votes_ok_def split: if_splits)

lemma members_ok_set:
  "members_ok k ms \<Longrightarrow> AccAddressFromBech32 (addr_config k) (MemberAddress m) = Inr a \<Longrightarrow> Participating m
     \<Longrightarrow> members_ok k (store_set a m ms)"
  by (auto simp: members_ok_def)

lemma members_ok_delete: "members_ok k ms \<Longrightarrow> members_ok k (store_delete a ms)"
  by (auto simp: members_ok_def split: if_splits)

lemma proposals_ok_set: "proposals_ok ps \<Longrightarrow> Id p = pid \<Longrightarrow> proposals_ok (store_set pid p ps)"
  by (auto simp: proposals_ok_def)

lemma proposals_ok_delete: "proposals_ok ps \<Longrightarrow> proposals_ok (store_delete pid ps)"
  by (auto simp: proposals_ok_def split: if_splits)

lemma must_address_Inr [simp]:
  "must_address k a = Inr x \<longleftrightarrow> AccAddressFromBech32 (addr_config k) a = Inr x"
  by (auto simp: must_address_def split: sum.splits)

lemma inv_emit [simp]: "foundation_inv k (emit_event e s) = foundation_inv k s"
  by (simp add: foundation_inv_def emit_event_def)

lemma inv_info [simp]: "foundation_inv k (setFoundationInfo i s) = foundation_inv k s"
  by (simp add: foundation_inv_def setFoundationInfo_def)

lemma inv_setProposal: "foundation_inv k s \<Longrightarrow> foundation_inv k (setProposal p s)"
  by (simp add: foundation_inv_def setProposal_def proposals_ok_set)

lemma inv_pruneVotes: "foundation_inv k s \<Longrightarrow> foundation_inv k (pruneVotes k pid s)"
  by (simp add: foundation_inv_def pruneVotes_def votes_ok_dels)

lemma inv_pruneProposal: "foundation_inv k s \<Longrightarrow> foundation_inv k (pruneProposal k p s)"
  using inv_pruneVotes [of k s "Id p"]
  by (simp add: pruneProposal_def foundation_inv_def deleteProposal_def removeProposalFromVPEndQueue_def
      proposals_ok_delete)

lemma inv_abort_loop: "foundation_inv k s \<Longrightarrow> foundation_inv k (abort_loop k n ps s)"
  by (induction k n ps s rule: abort_loop.induct) (simp_all add: inv_setProposal inv_pruneVotes)

lemma inv_abort: "abortOldProposals k s = Inr s' \<Longrightarrow> foundation_inv k s \<Longrightarrow> foundation_inv k s'"
  by (auto simp: abortOldProposals_def inv_abort_loop)

lemma inv_UpdateDecisionPolicy:
  "UpdateDecisionPolicy k pol s = Inr s' \<Longrightarrow> foundation_inv k s \<Longrightarrow> foundation_inv k s'"
  by (auto simp: UpdateDecisionPolicy_def dest!: inv_abort)

lemma update_member_cases:
  assumes "update_member k now m (w, s) = Inr (w', s')"
  obtains a t where "AccAddressFromBech32 (addr_config k) (MemberAddress m) = Inr a" "Participating m"
      "s' = s\<lparr>members := store_set a (m\<lparr>AddedAt := t\<rparr>) (members s)\<rparr>"
  | a where "\<not> Participating m" "s' = deleteMember a s"
proof -
  obtain a where a: "AccAddressFromBech32 (addr_config k) (MemberAddress m) = Inr a"
    using assms by (auto simp: update_member_def)
  show thesis
    using assms that a
    by (cases "GetMember s a"; cases "Participating m") (auto simp: update_member_def setMember_def)
qed

lemma inv_update_member:
  assumes "update_member k now m (w, s) = Inr (w', s')" "foundation_inv k s"
  shows "foundation_inv k s'"
  using assms(1)
  by (cases rule: update_member_cases)
    (use assms(2) in \<open>auto simp: foundation_inv_def deleteMember_def members_ok_set members_ok_delete\<close>)

lemma inv_update_members:
  "foldE (update_member k now) ms (w, s) = Inr (w', s') \<Longrightarrow> foundation_inv k s \<Longrightarrow> foundation_inv k s'"
  using foldE_invariant [of "update_member k now" ms "(w, s)" "(w', s')" "\<lambda>(w, s). foundation_inv k s"]
    inv_update_member by fastforce

lemma inv_UpdateMembers: "UpdateMembers k now ms s = Inr s' \<Longrightarrow> foundation_inv k s \<Longrightarrow> foundation_inv k s'"
  by (auto simp: UpdateMembers_def dest!: inv_abort inv_update_members)

lemma inv_Vote:
  "Vote_keeper k now v s = Inr s' \<Longrightarrow> castable (Option v) \<Longrightarrow> foundation_inv k s \<Longrightarrow> foundation_inv k s'"
  using votes_ok_set [of k "votes s" "v\<lparr>VoteSubmitTime := now\<rparr>"]
  by (auto simp: Vote_keeper_def setVote_def Let_def foundation_inv_def emit_event_def split: if_splits)

lemma inv_doTally: "doTallyAndUpdate k now p s = Inr (p', s') \<Longrightarrow> foundation_inv k s \<Longrightarrow> foundation_inv k s'"
  by (auto simp: doTallyAndUpdate_def inv_pruneVotes split: if_splits)

lemma inv_doExecuteMsgs:
  assumes "doExecuteMsgs k p s = Inr s'" "router_keeps k P" "P s"
  shows "P s'"
proof -
  let ?f = "\<lambda>msg st. case router k msg of
      None \<Rightarrow> Inl (Error ErrUnknownRequest ''no message handler found'') | Some handler \<Rightarrow> handler st"
  have "foldE ?f (Messages p) s = Inr s'" using assms(1) by (auto simp: doExecuteMsgs_def)
  then show ?thesis
    by (rule foldE_invariant) (use assms(2,3) in \<open>auto simp: router_keeps_def split: option.splits\<close>)
qed

lemma run_accepted_cases:
  assumes "run_accepted k p s = Inr (p', s')"
  obtains "s' = s" "ExecutorResult p' = PROPOSAL_EXECUTOR_RESULT_SUCCESS \<longrightarrow> p' = p"
  | "doExecuteMsgs k p s = Inr s'" "Status p = PROPOSAL_STATUS_CLOSED" "Result p = PROPOSAL_RESULT_ACCEPTED"
      "ExecutorResult p \<noteq> PROPOSAL_EXECUTOR_RESULT_SUCCESS"
  using assms by (auto simp: run_accepted_def split: if_splits sum.splits error.splits)

definition exec_end :: "'m FoundationKeeper \<Rightarrow> 'm Proposal \<Rightarrow> 'm FoundationState \<Rightarrow> 'm FoundationState" where
  "exec_end k p s = emit_event (EventExec (Id p) (ExecutorResult p))
     (if ExecutorResult p = PROPOSAL_EXECUTOR_RESULT_SUCCESS then pruneProposal k p s else setProposal p s)"

lemma Exec_cases:
  assumes "Exec k now pid s = Inr s'"
  obtains (tallied) p p1 s1 p2 s2 where "GetProposal s pid = Inr p" "Status p = PROPOSAL_STATUS_SUBMITTED"
      "doTallyAndUpdate k now p s = Inr (p1, s1)" "run_accepted k p1 s1 = Inr (p2, s2)" "s' = exec_end k p2 s2"
  | (closed) p p2 s2 where "GetProposal s pid = Inr p" "Status p = PROPOSAL_STATUS_CLOSED"
      "run_accepted k p s = Inr (p2, s2)" "s' = exec_end k p2 s2"
proof -
  obtain p where p: "GetProposal s pid = Inr p" using assms by (auto simp: Exec_def)
  show thesis
    using assms that(1) [OF p] that(2) [OF p] p
    by (cases "Status p") (auto simp: Exec_def exec_end_def Let_def)
qed

lemma inv_run_accepted:
  assumes "run_accepted k p s = Inr (p', s')" "router_keeps k P" "P s"
  shows "P s'"
  using assms(1) by (cases rule: run_accepted_cases) (use assms(2,3) inv_doExecuteMsgs in blast)+

lemma inv_exec_end: "foundation_inv k s \<Longrightarrow> foundation_inv k (exec_end k p s)"
  by (simp add: exec_end_def inv_pruneProposal inv_setProposal)

lemma inv_Exec:
  assumes "Exec k now pid s = Inr s'" "router_keeps k (foundation_inv k)" "foundation_inv k s"
  shows "foundation_inv k s'"
  using assms(1)
  by (cases rule: Exec_cases) (use assms(2,3) inv_doTally inv_run_accepted inv_exec_end in metis)+

lemma inv_SubmitProposal:
  "SubmitProposal k now prs md msgs s = Inr (pid, s') \<Longrightarrow> foundation_inv k s \<Longrightarrow> foundation_inv k s'"
  by (auto simp: SubmitProposal_def newProposalID_def Let_def addProposalToVPEndQueue_def setProposal_def
      foundation_inv_def proposals_ok_set split: option.splits)

lemma inv_proposer_votes:
  assumes "foldE (\<lambda>proposer st. Vote_keeper k now (f proposer) st) prs s = Inr s'"
    and "\<And>x. castable (Option (f x))" "foundation_inv k s"
  shows "foundation_inv k s'"
  using assms(1,3) by (rule foldE_invariant) (use assms(2) in \<open>auto intro: inv_Vote\<close>)

lemma inv_UpdateTally:
  assumes "UpdateTallyOfVPEndProposals k now s = Inr s'" "foundation_inv k s"
  shows "foundation_inv k s'"
  using assms unfolding UpdateTallyOfVPEndProposals_def
  by (rule foldE_invariant) (auto split: sum.splits prod.splits dest!: inv_doTally intro: inv_setProposal)

lemma inv_PruneExpired: "foundation_inv k s \<Longrightarrow> foundation_inv k (PruneExpiredProposals k now s)"
  unfolding PruneExpiredProposals_def by (rule fold_invariant [where Q = "\<lambda>_. True"]) (simp_all add: inv_pruneProposal)


lemmas fmsg_defs = fmsg_UpdateMembers_def fmsg_UpdateDecisionPolicy_def fmsg_SubmitProposal_def
  fmsg_WithdrawProposal_def fmsg_Vote_def fmsg_Exec_def fmsg_LeaveFoundation_def

lemma inv_fmsg_SubmitProposal:
  assumes "fmsg_SubmitProposal k now prs md msgs ex s = Inr s'" "router_keeps k (foundation_inv k)" "foundation_inv k s"
  shows "foundation_inv k s'"
proof -
  obtain pid s1 where s1: "SubmitProposal k now prs md msgs s = Inr (pid, s1)"
    using assms(1) by (auto simp: fmsg_SubmitProposal_def)
  have i1: "foundation_inv k s1" using s1 assms(3) by (rule inv_SubmitProposal)
  show ?thesis
  proof (cases "ex = EXEC_TRY")
    case True
    then obtain e s2 where
      s2: "foldE (\<lambda>x st. Vote_keeper k now \<lparr>VoteProposalId = pid, Voter = x, Option = VOTE_OPTION_YES,
        VoteMetadata = [], VoteSubmitTime = 0\<rparr> st) prs (emit_event e s1) = Inr s2" "Exec k now pid s2 = Inr s'"
      using assms(1) s1 by (auto simp: fmsg_SubmitProposal_def Let_def split: sum.splits)
    have "foundation_inv k s2" by (rule inv_proposer_votes [OF s2(1)]) (simp_all add: i1)
    then show ?thesis by (rule inv_Exec [OF s2(2) assms(2)])
  next
    case False
    then show ?thesis using assms(1) s1 i1 by (auto simp: fmsg_SubmitProposal_def Let_def split: sum.splits)
  qed
qed

lemma inv_deliver:
  assumes "DeliverFoundationMsg k now m s = Inr s'" "router_keeps k (foundation_inv k)" "foundation_inv k s"
  shows "foundation_inv k s'"
proof -
  have valid: "fmsg_ValidateBasic k m = Inr ()" and handled: "fmsg_handle k now m s = Inr s'"
    using assms(1) by (auto simp: DeliverFoundationMsg_def)
  show ?thesis
  proof (cases m)
    case (MsgSubmitProposal prs md msgs ex)
    then show ?thesis using handled assms(2,3) inv_fmsg_SubmitProposal by auto
  next
    case (MsgVote pid voter opt md ex)
    then obtain v s1 where v: "Vote_keeper k now v s = Inr s1" "castable (Option v)"
      and s': "s' = s1 \<or> Exec k now pid s1 = Inr s'"
      using handled valid by (auto simp: fmsg_Vote_def Vote_ValidateBasic_def validateVoteOption_Inr split: if_splits)
    have "foundation_inv k s1" using v assms(3) by (rule inv_Vote)
    then show ?thesis using s' inv_Exec [OF _ assms(2)] by auto
  qed (use handled assms(2,3) in \<open>auto simp: fmsg_defs WithdrawProposal_def split: if_splits
      dest!: inv_UpdateMembers inv_UpdateDecisionPolicy intro: inv_setProposal inv_Exec\<close>)
qed

text \<open>
  C34: every delivered message and every end of a block keeps the invariant of the stores:
  sections in the order of their keys, members under their own address and participating,
  proposals under their id, votes under their proposal and voter and with an option. The
  handlers that a proposal may run are assumed to keep it too.
\<close>

theorem foundation_inv_preserved:
  assumes "router_keeps k (foundation_inv k)" "foundation_inv k s"
    and "DeliverFoundationMsg k now m s = Inr s' \<or> EndBlocker k now s = Inr s'"
  shows "foundation_inv k s'"
  using assms(3)
proof
  assume "DeliverFoundationMsg k now m s = Inr s'"
  then show ?thesis using assms(1,2) by (rule inv_deliver)
next
  assume "EndBlocker k now s = Inr s'"
  then show ?thesis using assms(2) by (auto simp: EndBlocker_def dest!: inv_UpdateTally intro: inv_PruneExpired)
qed

subsection \<open>What a tally counts\<close>

definition counted :: "'m FoundationState \<Rightarrow> uint64 \<Rightarrow> VoteOption \<Rightarrow> AccAddress set" where
  "counted s pid opt =
     {a. \<exists>v. store_get (votes s) (pid, a) = Some v \<and> Option v = opt \<and> store_get (members s) a \<noteq> None}"

fun option_count :: "VoteOption \<Rightarrow> TallyResult \<Rightarrow> SdkDec" where
  "option_count VOTE_OPTION_YES t = YesCount t"
| "option_count VOTE_OPTION_NO t = NoCount t"
| "option_count VOTE_OPTION_ABSTAIN t = AbstainCount t"
| "option_count VOTE_OPTION_NO_WITH_VETO t = NoWithVetoCount t"
| "option_count VOTE_OPTION_UNSPECIFIED t = 0"
| "option_count (VOTE_OPTION_OTHER n) t = 0"

text \<open>The votes of members among a list of entries of the section.\<close>

definition member_votes :: "'m FoundationState \<Rightarrow> VoteOption \<Rightarrow> ((uint64 \<times> AccAddress) \<times> Vote) list \<Rightarrow> nat" where
  "member_votes s opt es = length (filter (\<lambda>((_, a), v). Option v = opt \<and> store_get (members s) a \<noteq> None) es)"

lemma all_VoteOption:
  "(\<forall>x. P x) \<longleftrightarrow> P VOTE_OPTION_UNSPECIFIED \<and> P VOTE_OPTION_YES \<and> P VOTE_OPTION_ABSTAIN \<and> P VOTE_OPTION_NO
     \<and> P VOTE_OPTION_NO_WITH_VETO \<and> (\<forall>n. P (VOTE_OPTION_OTHER n))"
  by (metis VoteOption.exhaust)

lemma TallyResult_Add_count:
  assumes "castable opt" "\<bar>option_count opt t + unit_dec\<bar> < 2 ^ 315"
  shows "\<exists>t'. TallyResult_Add opt t = Inr t' \<and>
    (\<forall>o'. option_count o' t' = option_count o' t + (if o' = opt then unit_dec else 0))"
  using assms by (cases opt) (auto simp: OneDec_def all_VoteOption)

definition entry_ok :: "'m FoundationKeeper \<Rightarrow> (uint64 \<times> AccAddress) \<times> Vote \<Rightarrow> bool" where
  "entry_ok k = (\<lambda>((_, a), v). AccAddressFromBech32 (addr_config k) (Voter v) = Inr a
     \<and> castable (Option v))"

lemma tally_loop_counts:
  assumes "list_all (entry_ok k) es"
    and "\<And>o'. 0 \<le> option_count o' t" "\<And>o'. option_count o' t + unit_dec * int (length es) < 2 ^ 315"
  shows "\<exists>t'. tally_loop k s (map snd es) t = Inr t' \<and>
    (\<forall>o'. castable o' \<longrightarrow> option_count o' t' = option_count o' t + unit_dec * int (member_votes s o' es))"
  using assms
proof (induction es arbitrary: t)
  case Nil
  then show ?case by (simp add: member_votes_def)
next
  case (Cons e es)
  obtain pid a v where e: "e = ((pid, a), v)" by (metis surj_pair)
  have v: "AccAddressFromBech32 (addr_config k) (Voter v) = Inr a" "castable (Option v)"
    and es: "list_all (entry_ok k) es"
    using Cons.prems(1) by (simp_all add: e entry_ok_def)
  have room: "option_count o' t + unit_dec + unit_dec * int (length es) < 2 ^ 315" for o'
    using Cons.prems(3) [of o'] by (simp add: algebra_simps)
  show ?case
  proof (cases "store_get (members s) a")
    case None
    have "option_count o' t + unit_dec * int (length es) < 2 ^ 315" for o'
      using room [of o'] by linarith
    then obtain t' where "tally_loop k s (map snd es) t = Inr t'"
      "\<forall>o'. castable o' \<longrightarrow> option_count o' t' = option_count o' t + unit_dec * int (member_votes s o' es)"
      using Cons.IH [OF es Cons.prems(2)] by blast
    then show ?thesis using v None by (simp add: e GetMember_def member_votes_def)
  next
    case (Some m)
    have "0 \<le> unit_dec * int (length es)" by simp
    then have "\<bar>option_count (Option v) t + unit_dec\<bar> < 2 ^ 315"
      using room [of "Option v"] Cons.prems(2) [of "Option v"] by linarith
    then obtain u where u: "TallyResult_Add (Option v) t = Inr u"
      "\<And>o'. option_count o' u = option_count o' t + (if o' = Option v then unit_dec else 0)"
      using TallyResult_Add_count [OF v(2)] by blast
    have "\<And>o'. 0 \<le> option_count o' u" using Cons.prems(2) u(2) by simp
    moreover have "option_count o' u + unit_dec * int (length es) < 2 ^ 315" for o'
      using room [of o'] u(2) [of o'] by (auto split: if_splits)
    ultimately obtain t' where "tally_loop k s (map snd es) u = Inr t'"
      "\<forall>o'. castable o' \<longrightarrow> option_count o' t' = option_count o' u + unit_dec * int (member_votes s o' es)"
      using Cons.IH [OF es] by blast
    then show ?thesis using v Some u by (simp add: e GetMember_def member_votes_def algebra_simps)
  qed
qed

lemma member_votes_card:
  assumes "store_wf (votes s)"
  shows "member_votes s opt (filter (\<lambda>((i, _), _). i = pid) (votes s)) = card (counted s pid opt)"
proof -
  let ?es = "filter (\<lambda>e. fst (fst e) = pid \<and> Option (snd e) = opt \<and> store_get (members s) (snd (fst e)) \<noteq> None)
    (votes s)"
  have es: "filter (\<lambda>((_, a), v). Option v = opt \<and> store_get (members s) a \<noteq> None)
      (filter (\<lambda>((i, _), _). i = pid) (votes s)) = ?es"
    unfolding filter_filter by (rule filter_cong) (auto simp: case_prod_beta)
  have "distinct (map fst (votes s))" using assms by (rule store_wf_distinct)
  then have "distinct (map fst ?es)" by (rule distinct_map_filter)
  moreover have "inj_on snd (set (map fst ?es))" by (rule inj_onI) (auto simp: prod_eq_iff)
  ultimately have dist: "distinct (map snd (map fst ?es))" by (simp only: distinct_map [of snd] simp_thms)
  have "x \<in> set (map snd (map fst ?es)) \<longleftrightarrow> x \<in> counted s pid opt" for x
  proof -
    have "x \<in> set (map snd (map fst ?es)) \<longleftrightarrow>
        (\<exists>v. ((pid, x), v) \<in> set (votes s) \<and> Option v = opt \<and> store_get (members s) x \<noteq> None)"
      unfolding set_map set_filter by (auto simp: image_iff prod_eq_iff)
    also have "\<dots> \<longleftrightarrow> x \<in> counted s pid opt"
      unfolding counted_def mem_Collect_eq store_in_get [OF assms] by (rule refl)
    finally show ?thesis .
  qed
  then have "set (map snd (map fst ?es)) = counted s pid opt" by (rule set_eqI)
  then have "card (counted s pid opt) = length ?es"
    using distinct_card [OF dist] by (simp only: length_map)
  then show ?thesis by (simp only: member_votes_def es)
qed

text \<open>
  C35: the tally of an open proposal never fails on a state that keeps the invariant, and it
  counts each current member that voted once, under the option of the vote; votes of
  accounts that are no longer members do not count.
\<close>

theorem tally_counts_members:
  assumes "foundation_inv k s" "Status p \<noteq> PROPOSAL_STATUS_CLOSED" "length (votes s) < 2 ^ 200"
  shows "\<exists>t. tally k s p = Inr t
     \<and> YesCount t = 10 ^ 18 * int (card (counted s (Id p) VOTE_OPTION_YES))
     \<and> NoCount t = 10 ^ 18 * int (card (counted s (Id p) VOTE_OPTION_NO))
     \<and> AbstainCount t = 10 ^ 18 * int (card (counted s (Id p) VOTE_OPTION_ABSTAIN))
     \<and> NoWithVetoCount t = 10 ^ 18 * int (card (counted s (Id p) VOTE_OPTION_NO_WITH_VETO))"
proof -
  let ?es = "filter (\<lambda>((i, _), _). i = Id p) (votes s)"
  have wf: "store_wf (votes s)" using assms(1) by (simp add: foundation_inv_def votes_ok_def)
  have zero: "option_count o' DefaultTallyResult = 0" for o'
    by (cases o') (simp_all add: DefaultTallyResult_def NewTallyResult_def ZeroDec_def)
  have "length ?es < 2 ^ 200"
    using assms(3) length_filter_le [of "\<lambda>((i, _), _). i = Id p" "votes s"] by (rule le_less_trans [rotated])
  then have "int (length ?es) < 2 ^ 200" by simp
  then have "unit_dec * int (length ?es) < unit_dec * 2 ^ 200" by (simp only: mult_strict_left_mono)
  then have small: "unit_dec * int (length ?es) < 2 ^ 315" by simp
  have "list_all (entry_ok k) (votes s)"
    using assms(1) store_in_get [OF wf] by (auto simp: list_all_iff entry_ok_def foundation_inv_def votes_ok_def)
  then have ok: "list_all (entry_ok k) ?es" by (auto simp: list_all_iff)
  obtain t where t: "tally_loop k s (map snd ?es) DefaultTallyResult = Inr t"
    "\<forall>o'. castable o' \<longrightarrow>
       option_count o' t = option_count o' DefaultTallyResult + unit_dec * int (member_votes s o' ?es)"
    using tally_loop_counts [OF ok, of DefaultTallyResult s] small unfolding zero by auto
  then have count: "option_count o' t = unit_dec * int (card (counted s (Id p) o'))" if "castable o'" for o'
    using that unfolding zero member_votes_card [OF wf] by simp
  have "tally k s p = Inr t" using t(1) assms(2) by (simp add: tally_def GetVotes_def)
  then show ?thesis
    using count [of VOTE_OPTION_YES] count [of VOTE_OPTION_NO] count [of VOTE_OPTION_ABSTAIN]
      count [of VOTE_OPTION_NO_WITH_VETO] by simp
qed

subsection \<open>What an execution needs\<close>

lemma doTally_closed:
  assumes "doTallyAndUpdate k now p s = Inr (p1, s1)" "Status p \<noteq> PROPOSAL_STATUS_CLOSED"
    and "Status p1 = PROPOSAL_STATUS_CLOSED" "Result p1 = PROPOSAL_RESULT_ACCEPTED"
  shows "\<exists>t info pol. tally k s p = Inr t \<and> foundationInfo s = Some info \<and> InfoPolicy info = Some pol \<and>
    Policy_Allow pol t (TotalWeight info) (Time_Sub now (SubmitTime p)) = Inr \<lparr>Allow = True, Final = True\<rparr>"
proof -
  obtain t info pol d where t: "tally k s p = Inr t" "foundationInfo s = Some info" "InfoPolicy info = Some pol"
    "Policy_Allow pol t (TotalWeight info) (Time_Sub now (SubmitTime p)) = Inr d" "Final d \<and> Allow d"
  proof -
    obtain t info pol d where t: "tally k s p = Inr t" "GetFoundationInfo s = Inr info" "deref (InfoPolicy info) = Inr pol"
      "Policy_Allow pol t (TotalWeight info) (Time_Sub now (SubmitTime p)) = Inr d"
      using assms(1) unfolding doTallyAndUpdate_def bindE_Inr by blast
    then have "Final d \<and> Allow d"
      using assms by (cases "Final d"; cases "Allow d") (auto simp: doTallyAndUpdate_def)
    then show thesis using that t by (auto simp: GetFoundationInfo_def deref_def split: option.splits)
  qed
  moreover have "d = \<lparr>Allow = True, Final = True\<rparr>" using t(5) by (cases d) simp
  ultimately show ?thesis by blast
qed

text \<open>The parts of the state an execution changes only through the messages of a proposal.\<close>

definition governed :: "'m FoundationState \<Rightarrow> (AccAddress, Member) store \<times> FoundationInfo option \<times> uint64 option" where
  "governed s = (members s, foundationInfo s, previousProposalID s)"

lemma governed_simps [simp]:
  "governed (emit_event e s) = governed s" "governed (setProposal p s) = governed s"
  "governed (pruneVotes k pid s) = governed s" "governed (pruneProposal k p s) = governed s"
  "governed (exec_end k p s) = governed s"
  by (simp_all add: governed_def emit_event_def setProposal_def pruneVotes_def pruneProposal_def deleteProposal_def
      removeProposalFromVPEndQueue_def exec_end_def)

lemma doTally_governed: "doTallyAndUpdate k now p s = Inr (p1, s1) \<Longrightarrow> governed s1 = governed s"
  by (auto simp: doTallyAndUpdate_def split: if_splits)

lemma doTally_fields:
  "doTallyAndUpdate k now p s = Inr (p1, s1) \<Longrightarrow> Messages p1 = Messages p"
  by (auto simp: doTallyAndUpdate_def split: if_splits)

lemma ensureMsgAuthz_Inr [simp]:
  "ensureMsgAuthz k msgs opr = Inr u \<longleftrightarrow> (\<forall>m \<in> set msgs. \<forall>a \<in> set (msg_signers k m). a = opr)"
proof -
  have "foldE (\<lambda>a _. guardE (opr = a) e) as () = Inr u \<longleftrightarrow> (\<forall>a \<in> set as. a = opr)" for as e
    by (induction as) auto
  then show ?thesis unfolding ensureMsgAuthz_def by (induction msgs) auto
qed

text \<open>
  C36: an execution changes the members, the policy, the version or the weight of the
  foundation only when the proposal had been accepted and not yet run, or is open and the
  policy of the foundation accepts its tally at that moment, and then only when every signer
  its messages require is the operator.
\<close>

theorem exec_needs_acceptance:
  assumes "Exec k now pid s = Inr s'"
    and "(members s', foundationInfo s', previousProposalID s') \<noteq> (members s, foundationInfo s, previousProposalID s)"
  shows "\<exists>p opr. GetProposal s pid = Inr p \<and>
    (Status p = PROPOSAL_STATUS_CLOSED \<and> Result p = PROPOSAL_RESULT_ACCEPTED
       \<and> ExecutorResult p \<noteq> PROPOSAL_EXECUTOR_RESULT_SUCCESS
     \<or> Status p = PROPOSAL_STATUS_SUBMITTED \<and>
       (\<exists>t info pol. tally k s p = Inr t \<and> foundationInfo s = Some info \<and> InfoPolicy info = Some pol \<and>
         Policy_Allow pol t (TotalWeight info) (Time_Sub now (SubmitTime p)) = Inr \<lparr>Allow = True, Final = True\<rparr>)) \<and>
    GetOperator k s = Inr opr \<and> (\<forall>m \<in> set (Messages p). set (msg_signers k m) \<subseteq> {opr})"
proof -
  have changed: "governed s' \<noteq> governed s" using assms(2) by (simp add: governed_def)
  have ran: "doExecuteMsgs k q u = Inr v \<and> Status q = PROPOSAL_STATUS_CLOSED \<and> Result q = PROPOSAL_RESULT_ACCEPTED
      \<and> ExecutorResult q \<noteq> PROPOSAL_EXECUTOR_RESULT_SUCCESS"
    if "run_accepted k q u = Inr (q', v)" "governed v \<noteq> governed u" for q q' u v
    using that(1) by (cases rule: run_accepted_cases) (use that(2) in auto)
  have signed: "\<exists>opr. GetOperator k s = Inr opr \<and> (\<forall>m \<in> set (Messages q). set (msg_signers k m) \<subseteq> {opr})"
    if "doExecuteMsgs k q u = Inr v" "governed u = governed s" for q u v
    using that by (auto simp: doExecuteMsgs_def GetOperator_def GetFoundationInfo_def governed_def)
  show ?thesis
    using assms(1)
  proof (cases rule: Exec_cases)
    case (tallied p p1 s1 p2 s2)
    have g: "governed s1 = governed s" using tallied(3) by (rule doTally_governed)
    then have r: "doExecuteMsgs k p1 s1 = Inr s2" "Status p1 = PROPOSAL_STATUS_CLOSED"
      "Result p1 = PROPOSAL_RESULT_ACCEPTED"
      using ran [OF tallied(4)] changed tallied(5) by auto
    have "Status p \<noteq> PROPOSAL_STATUS_CLOSED" using tallied(2) by simp
    from doTally_closed [OF tallied(3) this r(2,3)] signed [OF r(1) g] show ?thesis
      using tallied(1,2) doTally_fields [OF tallied(3)] by auto
  next
    case (closed p p2 s2)
    then have r: "doExecuteMsgs k p s = Inr s2" "Result p = PROPOSAL_RESULT_ACCEPTED"
      "ExecutorResult p \<noteq> PROPOSAL_EXECUTOR_RESULT_SUCCESS"
      using ran [OF closed(3)] changed by auto
    then show ?thesis using signed [OF r(1) refl] closed(1,2) by auto
  qed
qed

subsection \<open>What stays as it was\<close>

lemma abort_loop_governed: "governed (abort_loop k n ps s) = governed s"
  by (induction k n ps s rule: abort_loop.induct) simp_all

lemma abort_loop_info [simp]: "foundationInfo (abort_loop k n ps s) = foundationInfo s"
  using abort_loop_governed [of k n ps s] by (simp add: governed_def)

lemma update_member_info: "update_member k now m (w, s) = Inr (w', s') \<Longrightarrow> foundationInfo s' = foundationInfo s"
  by (erule update_member_cases) (simp_all add: deleteMember_def)

lemma update_members_info:
  "foldE (update_member k now) ms (w, s) = Inr (w', s') \<Longrightarrow> foundationInfo s' = foundationInfo s"
  using foldE_invariant [of "update_member k now" ms "(w, s)" "(w', s')" "\<lambda>(_, t). foundationInfo t = foundationInfo s"]
    update_member_info by fastforce

text \<open>
  An update of the members raises the version and leaves the total weight as it was,
  whatever members are added or removed.
\<close>

theorem UpdateMembers_keeps_weight:
  assumes "UpdateMembers k now ms s = Inr s'"
  shows "\<exists>info info'. foundationInfo s = Some info \<and> foundationInfo s' = Some info' \<and>
    Version info' = Version info + 1 \<and> TotalWeight info' = TotalWeight info"
proof -
  obtain w s1 info where u: "foldE (update_member k now) ms (ZeroDec, s) = Inr (w, s1)"
    "foundationInfo s1 = Some info" "abortOldProposals k (setFoundationInfo (info\<lparr>Version := Version info + 1\<rparr>) s1) = Inr s'"
    using assms by (auto simp: UpdateMembers_def GetFoundationInfo_def split: option.splits)
  have "foundationInfo s' = Some (info\<lparr>Version := Version info + 1\<rparr>)"
    using u(3) by (auto simp: abortOldProposals_def setFoundationInfo_def)
  then show ?thesis using u(2) update_members_info [OF u(1)] by simp
qed

lemma pruneVotes_other: "pid \<noteq> i \<Longrightarrow> store_get (votes (pruneVotes k i s)) (pid, a) = store_get (votes s) (pid, a)"
  by (auto simp: pruneVotes_def)

definition same_but_zero :: "'m FoundationState \<Rightarrow> 'm FoundationState \<Rightarrow> bool" where
  "same_but_zero s s' \<longleftrightarrow> (\<forall>pid. pid \<noteq> 0 \<longrightarrow> store_get (proposals s') pid = store_get (proposals s) pid \<and>
     (\<forall>a. store_get (votes s') (pid, a) = store_get (votes s) (pid, a)))"

lemma same_but_zero_set: "same_but_zero s t \<Longrightarrow> Id p = 0 \<Longrightarrow> same_but_zero s (setProposal p t)"
  by (simp add: same_but_zero_def setProposal_def)

lemma same_but_zero_votes: "same_but_zero s t \<Longrightarrow> same_but_zero s (pruneVotes k 0 t)"
  by (simp add: same_but_zero_def pruneVotes_other) (simp add: pruneVotes_def)

lemma same_but_zero_prune: "same_but_zero s t \<Longrightarrow> Id p = 0 \<Longrightarrow> same_but_zero s (pruneProposal k p t)"
  using same_but_zero_votes [of s t k]
  by (simp add: pruneProposal_def same_but_zero_def deleteProposal_def removeProposalFromVPEndQueue_def)

lemma doTally_same_but_zero:
  "doTallyAndUpdate k now p t = Inr (p', t') \<Longrightarrow> Id p = 0 \<Longrightarrow> same_but_zero s t \<Longrightarrow> same_but_zero s t' \<and> Id p' = 0"
  by (auto simp: doTallyAndUpdate_def same_but_zero_votes split: if_splits)

lemma iterate_zero: "p \<in> set (iterateProposalsByVPEnd s t) \<Longrightarrow> Id p = 0"
  by (auto simp: iterateProposalsByVPEnd_def zero_proposal_def)

lemma UpdateTally_same_but_zero:
  assumes "UpdateTallyOfVPEndProposals k now s = Inr s'"
  shows "same_but_zero s s'"
  using assms unfolding UpdateTallyOfVPEndProposals_def
proof (rule foldE_invariant)
  show "same_but_zero s s" by (simp add: same_but_zero_def)
  show "same_but_zero s v" if p: "p \<in> set (iterateProposalsByVPEnd s now)" and u: "same_but_zero s u"
    and v: "(case doTallyAndUpdate k now p u of Inl _ \<Rightarrow> Inl (Panic ''tally'') | Inr (p1, st1) \<Rightarrow> Inr (setProposal p1 st1)) = Inr v"
    for p u v
  proof -
    obtain p1 u1 where u1: "doTallyAndUpdate k now p u = Inr (p1, u1)" "v = setProposal p1 u1"
      using v by (auto split: sum.splits)
    then show ?thesis
      using doTally_same_but_zero [OF u1(1) iterate_zero [OF p] u] same_but_zero_set by blast
  qed
qed

text \<open>
  The end of a block neither decides nor prunes a proposal, even when its voting period
  has ended: of the proposals and votes it changes only those of the id zero, which it reads
  from the empty values of the queue.
\<close>

theorem EndBlocker_decides_nothing:
  assumes "EndBlocker k now s = Inr s'" "pid \<noteq> 0"
  shows "store_get (proposals s') pid = store_get (proposals s) pid
    \<and> store_get (votes s') (pid, a) = store_get (votes s) (pid, a)"
proof -
  obtain s1 where s1: "UpdateTallyOfVPEndProposals k now s = Inr s1" "s' = PruneExpiredProposals k now s1"
    using assms(1) by (auto simp: EndBlocker_def)
  have "same_but_zero s (PruneExpiredProposals k now s1)"
    unfolding PruneExpiredProposals_def
    by (rule fold_invariant [where Q = "\<lambda>p. Id p = 0"])
      (auto dest: iterate_zero intro: same_but_zero_prune UpdateTally_same_but_zero [OF s1(1)])
  then show ?thesis
    using assms(2) by (simp_all add: s1(2) same_but_zero_def)
qed

text \<open>
  A change of the policy leaves every proposal as it is, also those that are open, when
  the first stored proposal is of an older version than the current one.
\<close>

theorem stale_proposal_stops_abort:
  assumes "UpdateDecisionPolicy k pol s = Inr s'" "foundationInfo s = Some info"
    and "GetProposals s = q # ps" "FoundationVersion q \<noteq> Version info"
  shows "proposals s' = proposals s"
  using assms by (auto simp: UpdateDecisionPolicy_def GetFoundationInfo_def abortOldProposals_def setFoundationInfo_def
      GetProposals_def)

subsection \<open>Runs of a small foundation\<close>

text \<open>One member, an open proposal and a vote; the one message moves the last proposal id.\<close>

definition demo_keeper :: "unit FoundationKeeper" where
  "demo_keeper = \<lparr>addr_config = plain_config, config = DefaultConfig, msg_signers = (\<lambda>_. [''a'']),
     msg_validate = (\<lambda>_. Inr ()), router = (\<lambda>_. Some (\<lambda>s. Inr (s\<lparr>previousProposalID := Some 99\<rparr>)))\<rparr>"

definition demo_windows :: DecisionPolicyWindows where
  "demo_windows = \<lparr>VotingPeriod = 10, MinExecutionPeriod = 0\<rparr>"

definition demo_info :: FoundationInfo where
  "demo_info = \<lparr>Operator = ''link1a'', Version = 2, TotalWeight = 10 ^ 18,
     InfoPolicy = Some (ThresholdDecisionPolicy (10 ^ 18) (Some demo_windows))\<rparr>"

definition demo_proposal :: "unit Proposal" where
  "demo_proposal = \<lparr>Id = 1, Metadata = [], Proposers = [''link1a''], SubmitTime = 0, FoundationVersion = 1,
     Status = PROPOSAL_STATUS_SUBMITTED, Result = PROPOSAL_RESULT_UNFINALIZED, VotingPeriodEnd = 10,
     ExecutorResult = PROPOSAL_EXECUTOR_RESULT_NOT_RUN, Messages = [()], FinalTallyResult = DefaultTallyResult\<rparr>"

definition demo_state :: "unit FoundationState" where
  "demo_state = \<lparr>members = [(''a'', \<lparr>MemberAddress = ''link1a'', Participating = True, MemberMetadata = [], AddedAt = 0\<rparr>)],
     foundationInfo = Some demo_info, previousProposalID = Some 1, proposals = [(1, demo_proposal)],
     vpEndQueue = [(proposalByVPEndKey 1 10, ())],
     votes = [((1, ''a''), \<lparr>VoteProposalId = 1, Voter = ''link1a'', Option = VOTE_OPTION_YES, VoteMetadata = [],
       VoteSubmitTime = 0\<rparr>)], fevents = []\<rparr>"

lemmas demo_defs = demo_keeper_def demo_windows_def demo_info_def demo_proposal_def demo_state_def DefaultConfig_def

lemma demo_router: "router_keeps demo_keeper (foundation_inv demo_keeper)"
  by (auto simp: router_keeps_def demo_keeper_def foundation_inv_def)

lemma demo_inv: "foundation_inv demo_keeper demo_state"
  by (simp add: foundation_inv_def votes_ok_def members_ok_def proposals_ok_def demo_defs store_wf_def store_get_def
      demo_address)

lemma demo_counts: "length (votes demo_state) < 2 ^ 200"
  by (simp add: demo_defs)

theorem foundation_inv_preserved_witness:
  "\<exists>s'. DeliverFoundationMsg demo_keeper 5 (MsgWithdrawProposal 1 ''link1a'') demo_state = Inr s' \<and> foundation_inv demo_keeper s'"
proof -
  have "\<exists>s'. DeliverFoundationMsg demo_keeper 5 (MsgWithdrawProposal 1 ''link1a'') demo_state = Inr s'"
    by (simp add: DeliverFoundationMsg_def proposal_signer_ValidateBasic_def check_address_def fmsg_WithdrawProposal_def
        GetProposal_def GetOperator_def GetFoundationInfo_def must_address_def WithdrawProposal_def demo_defs store_get_def
        demo_address wrapE_def)
  then show ?thesis using foundation_inv_preserved [OF demo_router demo_inv] by blast
qed

theorem tally_counts_members_witness:
  "\<exists>t. tally demo_keeper demo_state demo_proposal = Inr t \<and> YesCount t = 10 ^ 18"
proof -
  have c: "counted demo_state (Id demo_proposal) VOTE_OPTION_YES = {''a''}"
    by (auto simp: counted_def demo_defs store_get_def split: if_splits)
  have "Status demo_proposal \<noteq> PROPOSAL_STATUS_CLOSED" by (simp add: demo_defs)
  from tally_counts_members [OF demo_inv this demo_counts] show ?thesis by (auto simp: c)
qed

lemma demo_tallied:
  "doTallyAndUpdate demo_keeper 5 demo_proposal demo_state =
     Inr (demo_proposal\<lparr>FinalTallyResult := NewTallyResult (10 ^ 18) 0 0 0, Status := PROPOSAL_STATUS_CLOSED,
            Result := PROPOSAL_RESULT_ACCEPTED\<rparr>, pruneVotes demo_keeper 1 demo_state)"
  by (simp add: doTallyAndUpdate_def tally_def GetVotes_def GetMember_def GetFoundationInfo_def deref_def Threshold_Allow_def
      valid_timestamp_def nanos_per_day_def Time_Sub_def demo_defs store_get_def demo_address DefaultTallyResult_def
      NewTallyResult_def ZeroDec_def OneDec_def Dec_Add_def Dec_checked_def)

lemma demo_lookup:
  "GetProposal demo_state 1 = Inr demo_proposal" "GetOperator demo_keeper demo_state = Inr ''a''"
  by (simp add: GetProposal_def demo_state_def store_get_def)
    (simp add: GetOperator_def GetFoundationInfo_def must_address_def demo_defs demo_address)

lemma demo_exec: "\<exists>s'. Exec demo_keeper 5 1 demo_state = Inr s' \<and> previousProposalID s' = Some 99"
proof -
  have st: "Status demo_proposal = PROPOSAL_STATUS_SUBMITTED" by (simp add: demo_proposal_def)
  define p1 where "p1 = demo_proposal\<lparr>FinalTallyResult := NewTallyResult (10 ^ 18) 0 0 0,
    Status := PROPOSAL_STATUS_CLOSED, Result := PROPOSAL_RESULT_ACCEPTED\<rparr>"
  define s1 where "s1 = pruneVotes demo_keeper 1 demo_state"
  define p2 where "p2 = p1\<lparr>ExecutorResult := PROPOSAL_EXECUTOR_RESULT_SUCCESS\<rparr>"
  have msgs: "Messages p1 = [()]" by (simp add: p1_def demo_proposal_def)
  have p1: "Status p1 = PROPOSAL_STATUS_CLOSED" "Result p1 = PROPOSAL_RESULT_ACCEPTED"
    "ExecutorResult p1 = PROPOSAL_EXECUTOR_RESULT_NOT_RUN" by (simp_all add: p1_def demo_proposal_def)
  have router: "router demo_keeper () = Some (\<lambda>s. Inr (s\<lparr>previousProposalID := Some 99\<rparr>))"
    by (simp add: demo_keeper_def)
  have "GetOperator demo_keeper s1 = Inr ''a''"
    using demo_lookup(2) by (simp add: s1_def GetOperator_def GetFoundationInfo_def pruneVotes_def)
  moreover have "ensureMsgAuthz demo_keeper (Messages p1) ''a'' = Inr ()"
    by (simp add: demo_keeper_def)
  ultimately have "doExecuteMsgs demo_keeper p1 s1 = Inr (s1\<lparr>previousProposalID := Some 99\<rparr>)"
    unfolding doExecuteMsgs_def msgs by (simp add: router)
  then have run: "run_accepted demo_keeper p1 s1 = Inr (p2, s1\<lparr>previousProposalID := Some 99\<rparr>)"
    unfolding run_accepted_def p2_def by (simp add: p1)
  have "Exec demo_keeper 5 1 demo_state = Inr (exec_end demo_keeper p2 (s1\<lparr>previousProposalID := Some 99\<rparr>))"
    unfolding Exec_def demo_lookup(1) bindE.simps st demo_tallied [folded p1_def s1_def]
    by (simp add: run exec_end_def)
  moreover have "previousProposalID (exec_end demo_keeper p2 (s1\<lparr>previousProposalID := Some 99\<rparr>)) = Some 99"
    using governed_simps(5) [of demo_keeper p2 "s1\<lparr>previousProposalID := Some 99\<rparr>"] by (simp add: governed_def)
  ultimately show ?thesis by blast
qed

theorem exec_needs_acceptance_witness:
  "\<exists>s' p. Exec demo_keeper 5 1 demo_state = Inr s' \<and> previousProposalID s' = Some 99 \<and>
     GetProposal demo_state 1 = Inr p \<and> (\<forall>m \<in> set (Messages p). set (msg_signers demo_keeper m) \<subseteq> {''a''})"
proof -
  obtain s' where s': "Exec demo_keeper 5 1 demo_state = Inr s'" "previousProposalID s' = Some 99"
    using demo_exec by blast
  have "previousProposalID demo_state = Some 1" by (simp add: demo_state_def)
  with s'(2) have "(members s', foundationInfo s', previousProposalID s')
      \<noteq> (members demo_state, foundationInfo demo_state, previousProposalID demo_state)" by simp
  from exec_needs_acceptance [OF s'(1) this] obtain q opr' where
    q: "GetProposal demo_state 1 = Inr q" "GetOperator demo_keeper demo_state = Inr opr'"
      "\<forall>m \<in> set (Messages q). set (msg_signers demo_keeper m) \<subseteq> {opr'}" by blast
  have "opr' = ''a''" using q(2) demo_lookup(2) by simp
  then show ?thesis using s' q(1,3) by blast
qed

theorem UpdateMembers_keeps_weight_witness:
  "\<exists>s' info'. UpdateMembers demo_keeper 5
       [\<lparr>MemberAddress = ''link1b'', Participating = True, MemberMetadata = [], AddedAt = 0\<rparr>] demo_state = Inr s' \<and>
     length (members s') = 2 \<and> foundationInfo s' = Some info' \<and> TotalWeight info' = 10 ^ 18"
proof -
  let ?ms = "[\<lparr>MemberAddress = ''link1b'', Participating = True, MemberMetadata = [], AddedAt = 0\<rparr>]"
  have "\<exists>s'. UpdateMembers demo_keeper 5 ?ms demo_state = Inr s' \<and> length (members s') = 2"
    by (simp add: UpdateMembers_def update_member_def GetMember_def setMember_def validateMetadata_def must_address_def
        GetFoundationInfo_def abortOldProposals_def setFoundationInfo_def GetProposals_def demo_defs store_get_def
        demo_address Dec_Add_def Dec_checked_def ZeroDec_def OneDec_def wrapE_def)
  then obtain s' where s': "UpdateMembers demo_keeper 5 ?ms demo_state = Inr s'" "length (members s') = 2" by blast
  have "foundationInfo demo_state = Some demo_info" "TotalWeight demo_info = 10 ^ 18" by (simp_all add: demo_defs)
  then show ?thesis using UpdateMembers_keeps_weight [OF s'(1)] s' by auto
qed

theorem stale_proposal_stops_abort_witness:
  "\<exists>s'. UpdateDecisionPolicy demo_keeper (Some (ThresholdDecisionPolicy (3 * 10 ^ 18) (Some demo_windows))) demo_state = Inr s' \<and>
     Version (the (foundationInfo s')) = 3 \<and> map (Status \<circ> snd) (proposals s') = [PROPOSAL_STATUS_SUBMITTED]"
proof -
  let ?p = "Some (ThresholdDecisionPolicy (3 * 10 ^ 18) (Some demo_windows))"
  have "\<exists>s'. UpdateDecisionPolicy demo_keeper ?p demo_state = Inr s' \<and> Version (the (foundationInfo s')) = 3"
    by (simp add: UpdateDecisionPolicy_def deref_def Threshold_Validate_def validateDecisionPolicyWindows_def
        GetFoundationInfo_def abortOldProposals_def setFoundationInfo_def GetProposals_def demo_defs)
  then obtain s' where s': "UpdateDecisionPolicy demo_keeper ?p demo_state = Inr s'" "Version (the (foundationInfo s')) = 3"
    by blast
  have "proposals s' = proposals demo_state"
    by (rule stale_proposal_stops_abort [OF s'(1), of demo_info demo_proposal "[]"])
      (simp_all add: demo_state_def GetProposals_def, simp add: demo_defs)
  then show ?thesis using s' by (simp add: demo_defs)
qed

lemma demo_zero_tally:
  "doTallyAndUpdate demo_keeper 11 zero_proposal demo_state = Inr (zero_proposal, demo_state)"
  by (simp add: doTallyAndUpdate_def tally_def GetVotes_def GetFoundationInfo_def deref_def Threshold_Allow_def
      TotalCounts_def valid_timestamp_def nanos_per_day_def Time_Sub_def demo_defs zero_proposal_def DefaultTallyResult_def
      NewTallyResult_def ZeroDec_def Dec_Add_def Dec_Sub_def Dec_checked_def)

theorem EndBlocker_decides_nothing_witness:
  "\<exists>s'. VotingPeriodEnd demo_proposal < 11 \<and> EndBlocker demo_keeper 11 demo_state = Inr s' \<and>
     store_get (proposals s') 1 = Some demo_proposal"
proof -
  have "length (iterateProposalsByVPEnd demo_state 11) \<le> 1"
    by (simp add: iterateProposalsByVPEnd_def demo_state_def)
  then have "iterateProposalsByVPEnd demo_state 11 = [] \<or> iterateProposalsByVPEnd demo_state 11 = [zero_proposal]"
    by (auto simp: iterateProposalsByVPEnd_def le_Suc_eq length_Suc_conv)
  then have "\<exists>s'. EndBlocker demo_keeper 11 demo_state = Inr s'"
    by (auto simp: EndBlocker_def UpdateTallyOfVPEndProposals_def demo_zero_tally)
  then obtain s' where s': "EndBlocker demo_keeper 11 demo_state = Inr s'" by blast
  have "store_get (proposals demo_state) 1 = Some demo_proposal" by (simp add: demo_state_def store_get_def)
  then show ?thesis using EndBlocker_decides_nothing [OF s', of 1] s' by (simp add: demo_proposal_def)
qed

end
