(* ===== verification/CacheKV.thy ===== *)
theory CacheKV
  imports Store
begin

section \<open>The caching store: store/cachekv\<close>

text \<open>
  A store that keeps writes in memory over a parent and hands them down by \<open>Write\<close>. The
  parent, the cache and the sorted copy of the dirty items, an in-memory database ordered by
  its keys, are store sections; a missing value is the nil slice. Locks and telemetry are not
  modelled: the operations are called one after the other.

  The merging iterator is the pair of the entries the parent and the cache have left, a
  deleted entry of the cache carrying no value, and its run is the list of the pairs a
  loop over \<open>Valid\<close>, \<open>Key\<close>, \<open>Value\<close> and \<open>Next\<close> sees. The memory iterator works on its own copy
  of the deleted keys, so the last key it remembers has no effect.
\<close>

record cValue =
  cv_value :: "string option"
  cv_dirty :: bool

record CacheStore =
  cache :: "(string, cValue) store"
  deleted :: "string set"
  unsortedCache :: "string set"
  sortedCache :: "(string, string) store"
  parent :: "(string, string) store"

definition NewStore :: "(string, string) store \<Rightarrow> CacheStore" where
  "NewStore p = \<lparr>cache = [], deleted = {}, unsortedCache = {}, sortedCache = [], parent = p\<rparr>"

definition AssertValidKey :: "string \<Rightarrow> unit result" where
  "AssertValidKey key = (if length key = 0 then Inl (Panic ''key is nil'') else Inr ())"

definition AssertValidValue :: "string option \<Rightarrow> unit result" where
  "AssertValidValue v = (if v = None then Inl (Panic ''value is nil'') else Inr ())"

subsection \<open>Reads and writes: store.go\<close>

definition setCacheValue :: "string \<Rightarrow> string option \<Rightarrow> bool \<Rightarrow> bool \<Rightarrow> CacheStore \<Rightarrow> CacheStore" where
  "setCacheValue key v del dirty s =
     s\<lparr>cache := store_set key \<lparr>cv_value = v, cv_dirty = dirty\<rparr> (cache s),
       deleted := (if del then insert key (deleted s) else deleted s - {key}),
       unsortedCache := (if dirty then insert key (unsortedCache s) else unsortedCache s)\<rparr>"

definition cache_Get :: "string \<Rightarrow> CacheStore \<Rightarrow> (string option \<times> CacheStore) result" where
  "cache_Get key s =
     bindE (AssertValidKey key) (\<lambda>_.
       case store_get (cache s) key of
         Some cv \<Rightarrow> Inr (cv_value cv, s)
       | None \<Rightarrow> let v = store_get (parent s) key in Inr (v, setCacheValue key v False False s))"

definition cache_Set :: "string \<Rightarrow> string option \<Rightarrow> CacheStore \<Rightarrow> CacheStore result" where
  "cache_Set key v s =
     bindE (AssertValidKey key) (\<lambda>_.
     bindE (AssertValidValue v) (\<lambda>_. Inr (setCacheValue key v False True s)))"

definition cache_Has :: "string \<Rightarrow> CacheStore \<Rightarrow> (bool \<times> CacheStore) result" where
  "cache_Has key s = bindE (cache_Get key s) (\<lambda>(v, s'). Inr (v \<noteq> None, s'))"

definition cache_Delete :: "string \<Rightarrow> CacheStore \<Rightarrow> CacheStore result" where
  "cache_Delete key s = bindE (AssertValidKey key) (\<lambda>_. Inr (setCacheValue key None True True s))"

definition isDeleted :: "CacheStore \<Rightarrow> string \<Rightarrow> bool" where
  "isDeleted s key \<longleftrightarrow> key \<in> deleted s"

text \<open>
  The keys of the dirty entries in ascending order, each handed to the parent; a value that
  is nil without being deleted would make the parent panic.
\<close>

definition write_key :: "CacheStore \<Rightarrow> string \<times> cValue \<Rightarrow> (string, string) store \<Rightarrow> (string, string) store result" where
  "write_key s = (\<lambda>(key, cv) p.
     if isDeleted s key then Inr (store_delete key p)
     else case cv_value cv of None \<Rightarrow> Inl (Panic ''value is nil'') | Some v \<Rightarrow> Inr (store_set key v p))"

definition cache_Write :: "CacheStore \<Rightarrow> CacheStore result" where
  "cache_Write s =
     bindE (foldE (write_key s) (filter (\<lambda>(_, cv). cv_dirty cv) (cache s)) (parent s)) (\<lambda>p. Inr (NewStore p))"

subsection \<open>Iteration: store.go, memiterator.go\<close>

definition IsKeyInDomain :: "string \<Rightarrow> string option \<Rightarrow> string option \<Rightarrow> bool" where
  "IsKeyInDomain key start end_key \<longleftrightarrow>
     \<not> key < (case start of None \<Rightarrow> [] | Some a \<Rightarrow> a) \<and>
     \<not> (case end_key of None \<Rightarrow> False | Some e \<Rightarrow> e \<le> key)"

definition entries_in :: "string option \<Rightarrow> string option \<Rightarrow> bool \<Rightarrow> (string \<times> 'v) list \<Rightarrow> (string \<times> 'v) list" where
  "entries_in start end_key ascending es =
     (let d = filter (\<lambda>(k, _). IsKeyInDomain k start end_key) es in if ascending then d else rev d)"

definition clearUnsortedCacheSubset :: "(string \<times> cValue) list \<Rightarrow> CacheStore \<Rightarrow> CacheStore" where
  "clearUnsortedCacheSubset unsorted s =
     s\<lparr>unsortedCache := unsortedCache s - fst ` set unsorted,
       sortedCache := fold (\<lambda>(k, cv). store_set k (case cv_value cv of None \<Rightarrow> [] | Some v \<Rightarrow> v)) unsorted (sortedCache s)\<rparr>"

definition dirtyItems :: "string option \<Rightarrow> string option \<Rightarrow> CacheStore \<Rightarrow> CacheStore" where
  "dirtyItems start end_key s =
     clearUnsortedCacheSubset
       (filter (\<lambda>(k, _). k \<in> unsortedCache s \<and> IsKeyInDomain k start end_key) (cache s)) s"

definition newMemIterator :: "string option \<Rightarrow> string option \<Rightarrow> bool \<Rightarrow> CacheStore \<Rightarrow> (string \<times> string option) list" where
  "newMemIterator start end_key ascending s =
     map (\<lambda>(k, v). (k, if k \<in> deleted s then None else Some v)) (entries_in start end_key ascending (sortedCache s))"

subsection \<open>The merging iterator: mergeiterator.go\<close>

type_synonym merge_iter = "(string \<times> string) list \<times> (string \<times> string option) list"

definition before :: "bool \<Rightarrow> string \<Rightarrow> string \<Rightarrow> bool" where
  "before ascending a b \<longleftrightarrow> (if ascending then a < b else b < a)"

definition skipCacheDeletes :: "bool \<Rightarrow> string option \<Rightarrow> (string \<times> string option) list \<Rightarrow> (string \<times> string option) list" where
  "skipCacheDeletes ascending until cs =
     dropWhile (\<lambda>(k, v). v = None \<and> (case until of None \<Rightarrow> True | Some u \<Rightarrow> before ascending k u)) cs"

lemma before_linear: "\<not> before asc a b \<Longrightarrow> a \<noteq> b \<Longrightarrow> before asc b a"
  by (auto simp: before_def split: if_splits)

lemma skipCacheDeletes_le: "length (skipCacheDeletes asc until cs) \<le> length cs"
  by (simp add: skipCacheDeletes_def length_dropWhile_le)

lemma skipCacheDeletes_less:
  "snd c = None \<Longrightarrow> before asc (fst c) u \<Longrightarrow> length (skipCacheDeletes asc (Some u) (c # cs)) \<le> length cs"
  using skipCacheDeletes_le [of asc "Some u" cs] by (cases c) (simp add: skipCacheDeletes_def)

function skipUntilExistsOrInvalid :: "bool \<Rightarrow> (string \<times> string) list \<Rightarrow> (string \<times> string option) list \<Rightarrow> merge_iter" where
  "skipUntilExistsOrInvalid asc [] cs = ([], skipCacheDeletes asc None cs)"
| "skipUntilExistsOrInvalid asc (p # ps) [] = (p # ps, [])"
| "skipUntilExistsOrInvalid asc (p # ps) (c # cs) =
     (if before asc (fst p) (fst c) then (p # ps, c # cs)
      else if fst p = fst c then
        if snd c = None then skipUntilExistsOrInvalid asc ps cs else (p # ps, c # cs)
      else if snd c = None
      then skipUntilExistsOrInvalid asc (p # ps) (skipCacheDeletes asc (Some (fst p)) (c # cs))
      else (p # ps, c # cs))"
  by pat_completeness auto
termination
proof (relation "measure (\<lambda>(asc, ps, cs). length ps + length cs)", goal_cases)
  case (3 asc p ps c cs)
  then have "before asc (fst c) (fst p)" using before_linear by metis
  then show ?case using skipCacheDeletes_less [of c asc "fst p" cs] 3 by simp
qed simp_all

text \<open>The current pair and the rest, at a position that exists.\<close>

fun merge_current :: "bool \<Rightarrow> merge_iter \<Rightarrow> (string \<times> string option) option" where
  "merge_current asc ([], []) = None"
| "merge_current asc ([], c # cs) = Some c"
| "merge_current asc (p # ps, []) = Some (fst p, Some (snd p))"
| "merge_current asc (p # ps, c # cs) =
     (if before asc (fst p) (fst c) then Some (fst p, Some (snd p)) else Some c)"

fun merge_Next :: "bool \<Rightarrow> merge_iter \<Rightarrow> merge_iter" where
  "merge_Next asc ([], cs) = ([], tl cs)"
| "merge_Next asc (p # ps, []) = (ps, [])"
| "merge_Next asc (p # ps, c # cs) =
     (if before asc (fst p) (fst c) then (ps, c # cs)
      else if fst p = fst c then (ps, cs) else (p # ps, cs))"

lemma skip_length:
  "skipUntilExistsOrInvalid asc ps cs = (ps', cs') \<Longrightarrow> length ps' + length cs' \<le> length ps + length cs"
proof (induction asc ps cs rule: skipUntilExistsOrInvalid.induct)
  case (1 asc cs)
  then show ?case using skipCacheDeletes_le [of asc None cs] by auto
next
  case (3 asc p ps c cs)
  consider "before asc (fst p) (fst c) \<or> snd c \<noteq> None" | "\<not> before asc (fst p) (fst c)" "fst p = fst c" "snd c = None"
    | "\<not> before asc (fst p) (fst c)" "fst p \<noteq> fst c" "snd c = None" by blast
  then show ?case
  proof cases
    case 1
    then show ?thesis using 3(3) by (auto split: if_splits)
  next
    case 2
    then show ?thesis using 3 by fastforce
  next
    case c: 3
    then show ?thesis using 3(2,3) skipCacheDeletes_le [of asc "Some (fst p)" "c # cs"] by fastforce
  qed
qed auto

lemma next_length: "it \<noteq> ([], []) \<Longrightarrow> length (fst (merge_Next asc it)) + length (snd (merge_Next asc it)) < length (fst it) + length (snd it)"
  by (cases "(asc, it)" rule: merge_Next.cases) (auto simp: neq_Nil_conv)

function run_iterator :: "bool \<Rightarrow> merge_iter \<Rightarrow> (string \<times> string option) list" where
  "run_iterator asc it =
     (let it' = skipUntilExistsOrInvalid asc (fst it) (snd it) in
      case merge_current asc it' of None \<Rightarrow> [] | Some e \<Rightarrow> e # run_iterator asc (merge_Next asc it'))"
  by pat_completeness auto
termination
proof (relation "measure (\<lambda>(asc, it). length (fst it) + length (snd it))", goal_cases)
  case (2 asc it it' e)
  have "it' \<noteq> ([], [])" using 2 by auto
  then show ?case
    using next_length [of it' asc] skip_length [of asc "fst it" "snd it" "fst it'" "snd it'"] 2(1) by simp
qed simp

declare run_iterator.simps [simp del]

definition cache_iterator :: "string option \<Rightarrow> string option \<Rightarrow> bool \<Rightarrow> CacheStore
    \<Rightarrow> ((string \<times> string option) list \<times> CacheStore) result" where
  "cache_iterator start end_key ascending s =
     (let s' = dirtyItems start end_key s in
      if start = Some [] \<or> end_key = Some [] then Inl (Panic ''key cannot be empty'')
      else Inr (run_iterator ascending
             (entries_in start end_key ascending (parent s'), newMemIterator start end_key ascending s'), s'))"

end
