(* ===== verification/Gas.thy ===== *)
theory Gas
  imports CacheKV SdkInt
begin

section \<open>Gas meters and the metering store: store/types/gas.go, store/gaskv\<close>

text \<open>
  A meter counts in \<open>uint64\<close>. A charge that panics leaves the meter changed, so an operation
  on it returns the new meter together with the panic, if any. The metering store charges
  the meter and hands the operation to its parent, which is the caching store a context puts
  under it; the cost per byte is a product that wraps. Telemetry is not modelled.
\<close>

type_synonym Gas = uint64

datatype GasMeter = basicGasMeter Gas Gas | infiniteGasMeter Gas

text \<open>The fields of \<open>basicGasMeter\<close> are the limit and what is consumed.\<close>

datatype gas_panic = ErrorOutOfGas string | ErrorGasOverflow string | ErrorNegativeGasConsumed string

definition NewGasMeter :: "Gas \<Rightarrow> GasMeter" where
  "NewGasMeter limit = basicGasMeter limit 0"

definition NewInfiniteGasMeter :: GasMeter where
  "NewInfiniteGasMeter = infiniteGasMeter 0"

fun GasConsumed :: "GasMeter \<Rightarrow> Gas" where
  "GasConsumed (basicGasMeter limit consumed) = consumed"
| "GasConsumed (infiniteGasMeter consumed) = consumed"

fun Limit :: "GasMeter \<Rightarrow> Gas" where
  "Limit (basicGasMeter limit consumed) = limit"
| "Limit (infiniteGasMeter consumed) = 0"

fun IsPastLimit :: "GasMeter \<Rightarrow> bool" where
  "IsPastLimit (basicGasMeter limit consumed) \<longleftrightarrow> consumed > limit"
| "IsPastLimit (infiniteGasMeter consumed) \<longleftrightarrow> False"

fun IsOutOfGas :: "GasMeter \<Rightarrow> bool" where
  "IsOutOfGas (basicGasMeter limit consumed) \<longleftrightarrow> consumed \<ge> limit"
| "IsOutOfGas (infiniteGasMeter consumed) \<longleftrightarrow> False"

fun GasConsumedToLimit :: "GasMeter \<Rightarrow> Gas" where
  "GasConsumedToLimit (basicGasMeter limit consumed) =
     (if IsPastLimit (basicGasMeter limit consumed) then limit else consumed)"
| "GasConsumedToLimit (infiniteGasMeter consumed) = consumed"

definition addUint64Overflow :: "uint64 \<Rightarrow> uint64 \<Rightarrow> uint64 \<times> bool" where
  "addUint64Overflow a b = (if (- 1) - a < b then (0, True) else (a + b, False))"

fun ConsumeGas :: "Gas \<Rightarrow> string \<Rightarrow> GasMeter \<Rightarrow> GasMeter \<times> gas_panic option" where
  "ConsumeGas amount descriptor (basicGasMeter limit consumed) =
     (let (c, overflow) = addUint64Overflow consumed amount in
      if overflow then (basicGasMeter limit (- 1), Some (ErrorGasOverflow descriptor))
      else if c > limit then (basicGasMeter limit c, Some (ErrorOutOfGas descriptor))
      else (basicGasMeter limit c, None))"
| "ConsumeGas amount descriptor (infiniteGasMeter consumed) =
     (let (c, overflow) = addUint64Overflow consumed amount in
      (infiniteGasMeter c, if overflow then Some (ErrorGasOverflow descriptor) else None))"

fun RefundGas :: "Gas \<Rightarrow> string \<Rightarrow> GasMeter \<Rightarrow> GasMeter \<times> gas_panic option" where
  "RefundGas amount descriptor (basicGasMeter limit consumed) =
     (if consumed < amount then (basicGasMeter limit consumed, Some (ErrorNegativeGasConsumed descriptor))
      else (basicGasMeter limit (consumed - amount), None))"
| "RefundGas amount descriptor (infiniteGasMeter consumed) =
     (if consumed < amount then (infiniteGasMeter consumed, Some (ErrorNegativeGasConsumed descriptor))
      else (infiniteGasMeter (consumed - amount), None))"

subsection \<open>The metering store\<close>

record GasConfig =
  HasCost :: Gas
  DeleteCost :: Gas
  ReadCostFlat :: Gas
  ReadCostPerByte :: Gas
  WriteCostFlat :: Gas
  WriteCostPerByte :: Gas
  IterNextCostFlat :: Gas

definition KVGasConfig :: GasConfig where
  "KVGasConfig = \<lparr>HasCost = 1000, DeleteCost = 1000, ReadCostFlat = 1000, ReadCostPerByte = 3,
     WriteCostFlat = 2000, WriteCostPerByte = 30, IterNextCostFlat = 30\<rparr>"

definition TransientGasConfig :: GasConfig where
  "TransientGasConfig = \<lparr>HasCost = 100, DeleteCost = 100, ReadCostFlat = 100, ReadCostPerByte = 0,
     WriteCostFlat = 200, WriteCostPerByte = 3, IterNextCostFlat = 3\<rparr>"

record GasStore =
  gasMeter :: GasMeter
  gasConfig :: GasConfig
  gparent :: CacheStore

definition gas_NewStore :: "CacheStore \<Rightarrow> GasMeter \<Rightarrow> GasConfig \<Rightarrow> GasStore" where
  "gas_NewStore p m config = \<lparr>gasMeter = m, gasConfig = config, gparent = p\<rparr>"

datatype gas_error = GasPanic gas_panic | ParentPanic error

type_synonym 'a gas_op = "GasStore \<Rightarrow> (gas_error + 'a) \<times> GasStore"

text \<open>
  An operation keeps the state it reached when it panics: the deferred recovery of a
  transaction reads the meter. The four combinators are a returned value, the sequence of two
  statements, a charge and a call of the parent.
\<close>

definition returnG :: "'a \<Rightarrow> 'a gas_op" where
  "returnG x s = (Inr x, s)"

definition bindG :: "'a gas_op \<Rightarrow> ('a \<Rightarrow> 'b gas_op) \<Rightarrow> 'b gas_op" where
  "bindG m f s = (case m s of (Inl e, s') \<Rightarrow> (Inl e, s') | (Inr x, s') \<Rightarrow> f x s')"

definition charge :: "(GasConfig \<Rightarrow> Gas) \<Rightarrow> string \<Rightarrow> unit gas_op" where
  "charge cost descriptor s =
     (case ConsumeGas (cost (gasConfig s)) descriptor (gasMeter s) of
        (m, e) \<Rightarrow> (case e of None \<Rightarrow> Inr () | Some p \<Rightarrow> Inl (GasPanic p), s\<lparr>gasMeter := m\<rparr>))"

definition call_parent :: "(CacheStore \<Rightarrow> ('a \<times> CacheStore) result) \<Rightarrow> 'a gas_op" where
  "call_parent f s =
     (case f (gparent s) of Inl e \<Rightarrow> (Inl (ParentPanic e), s) | Inr (x, p) \<Rightarrow> (Inr x, s\<lparr>gparent := p\<rparr>))"

definition assertG :: "unit result \<Rightarrow> unit gas_op" where
  "assertG r s = (case r of Inl e \<Rightarrow> (Inl (ParentPanic e), s) | Inr _ \<Rightarrow> (Inr (), s))"

definition per_byte :: "Gas \<Rightarrow> string option \<Rightarrow> Gas" where
  "per_byte cost bytes = cost * of_nat (case bytes of None \<Rightarrow> 0 | Some b \<Rightarrow> length b)"

definition gas_Get :: "string \<Rightarrow> string option gas_op" where
  "gas_Get key =
     bindG (charge ReadCostFlat ''ReadFlat'') (\<lambda>_.
     bindG (call_parent (cache_Get key)) (\<lambda>v.
     bindG (charge (\<lambda>c. per_byte (ReadCostPerByte c) (Some key)) ''ReadPerByte'') (\<lambda>_.
     bindG (charge (\<lambda>c. per_byte (ReadCostPerByte c) v) ''ReadPerByte'') (\<lambda>_. returnG v))))"

definition gas_Set :: "string \<Rightarrow> string option \<Rightarrow> unit gas_op" where
  "gas_Set key v =
     bindG (assertG (AssertValidKey key)) (\<lambda>_.
     bindG (assertG (AssertValidValue v)) (\<lambda>_.
     bindG (charge WriteCostFlat ''WriteFlat'') (\<lambda>_.
     bindG (charge (\<lambda>c. per_byte (WriteCostPerByte c) (Some key)) ''WritePerByte'') (\<lambda>_.
     bindG (charge (\<lambda>c. per_byte (WriteCostPerByte c) v) ''WritePerByte'') (\<lambda>_.
     call_parent (\<lambda>p. bindE (cache_Set key v p) (\<lambda>p'. Inr ((), p'))))))))"

definition gas_Has :: "string \<Rightarrow> bool gas_op" where
  "gas_Has key = bindG (charge HasCost ''Has'') (\<lambda>_. call_parent (cache_Has key))"

definition gas_Delete :: "string \<Rightarrow> unit gas_op" where
  "gas_Delete key =
     bindG (charge DeleteCost ''Delete'') (\<lambda>_.
     call_parent (\<lambda>p. bindE (cache_Delete key p) (\<lambda>p'. Inr ((), p'))))"

subsection \<open>The metering iterator\<close>

text \<open>
  The iterator is the list of the entries it has left. Creating it charges for the entry it
  stands on, and so does every \<open>Next\<close> before it moves: a loop pays for the first entry twice.
\<close>

type_synonym gas_iter = "(string \<times> string option) list"

definition consumeSeekGas :: "gas_iter \<Rightarrow> unit gas_op" where
  "consumeSeekGas it =
     bindG (case it of [] \<Rightarrow> returnG () | (key, v) # _ \<Rightarrow>
         bindG (charge (\<lambda>c. per_byte (ReadCostPerByte c) (Some key)) ''ValuePerByte'') (\<lambda>_.
         charge (\<lambda>c. per_byte (ReadCostPerByte c) v) ''ValuePerByte''))
       (\<lambda>_. charge IterNextCostFlat ''IterNextFlat'')"

definition gas_iterator :: "string option \<Rightarrow> string option \<Rightarrow> bool \<Rightarrow> gas_iter gas_op" where
  "gas_iterator start end_key ascending =
     bindG (call_parent (cache_iterator start end_key ascending)) (\<lambda>it.
     bindG (consumeSeekGas it) (\<lambda>_. returnG it))"

definition gas_Next :: "gas_iter \<Rightarrow> gas_iter gas_op" where
  "gas_Next it = bindG (consumeSeekGas it) (\<lambda>_. returnG (tl it))"

text \<open>The loop \<open>for ; it.Valid(); it.Next()\<close> with a body that does not use the store.\<close>

fun gas_loop :: "nat \<Rightarrow> gas_iter \<Rightarrow> gas_iter gas_op" where
  "gas_loop 0 it = returnG it"
| "gas_loop (Suc n) it = (if it = [] then returnG it else bindG (gas_Next it) (gas_loop n))"

end
