(* ===== verification/CacheKV_Props.thy ===== *)
theory CacheKV_Props
  imports CacheKV
begin

section \<open>The caching store refines a map\<close>

text \<open>
  The contents of a caching store are the parent overridden by the cache. Every operation
  acts on the contents as on a map, \<open>Write\<close> makes the parent equal to them, and the merging
  iterator runs through exactly the entries of a domain in order.
\<close>

subsection \<open>The merging iterator as a merge of lists\<close>

definition live :: "string \<times> string option \<Rightarrow> (string \<times> string option) list" where
  "live c = (if snd c = None then [] else [c])"

fun overlay :: "bool \<Rightarrow> (string \<times> string) list \<Rightarrow> (string \<times> string option) list \<Rightarrow> (string \<times> string option) list" where
  "overlay asc [] cs = filter (\<lambda>c. snd c \<noteq> None) cs"
| "overlay asc (p # ps) [] = map (\<lambda>(k, v). (k, Some v)) (p # ps)"
| "overlay asc (p # ps) (c # cs) =
     (if before asc (fst p) (fst c) then (fst p, Some (snd p)) # overlay asc ps (c # cs)
      else if fst p = fst c then live c @ overlay asc ps cs
      else live c @ overlay asc (p # ps) cs)"

lemma overlay_Nil [simp]: "overlay asc ps [] = map (\<lambda>(k, v). (k, Some v)) ps"
  by (cases ps) simp_all

lemma filter_skip: "filter (\<lambda>c. snd c \<noteq> None) (skipCacheDeletes asc None cs) = filter (\<lambda>c. snd c \<noteq> None) cs"
  by (induction cs) (auto simp: skipCacheDeletes_def)

lemma overlay_skip: "overlay asc (p # ps) (skipCacheDeletes asc (Some (fst p)) cs) = overlay asc (p # ps) cs"
proof (induction cs)
  case (Cons c cs)
  have "\<not> before asc (fst p) (fst c)" "fst p \<noteq> fst c" if "before asc (fst c) (fst p)"
    using that by (auto simp: before_def split: if_splits)
  then show ?case using Cons by (cases c) (auto simp: skipCacheDeletes_def live_def)
qed (simp add: skipCacheDeletes_def)

lemma overlay_skipUntil:
  "skipUntilExistsOrInvalid asc ps cs = (ps', cs') \<Longrightarrow> overlay asc ps' cs' = overlay asc ps cs"
proof (induction asc ps cs rule: skipUntilExistsOrInvalid.induct)
  case (1 asc cs)
  then show ?case using filter_skip [of asc cs] by auto
next
  case (3 asc p ps c cs)
  consider "before asc (fst p) (fst c) \<or> snd c \<noteq> None" | "\<not> before asc (fst p) (fst c)" "fst p = fst c" "snd c = None"
    | "\<not> before asc (fst p) (fst c)" "fst p \<noteq> fst c" "snd c = None" by blast
  then show ?case
  proof cases
    case 1
    then show ?thesis using 3(3) by (auto split: if_splits)
  next
    case 2
    then have "overlay asc ps' cs' = overlay asc ps cs" using 3(1,3) by simp
    then show ?thesis using 2 by (simp add: live_def)
  next
    case c: 3
    then have "overlay asc ps' cs' = overlay asc (p # ps) (skipCacheDeletes asc (Some (fst p)) (c # cs))"
      using 3(2,3) by simp
    then show ?thesis by (simp only: overlay_skip)
  qed
qed auto

text \<open>Where the skipping stops, the current pair is the first one of the merge.\<close>

definition stopped :: "bool \<Rightarrow> merge_iter \<Rightarrow> bool" where
  "stopped asc it \<longleftrightarrow> (case it of
      ([], c # cs) \<Rightarrow> snd c \<noteq> None
    | (p # ps, c # cs) \<Rightarrow> before asc (fst p) (fst c) \<or> snd c \<noteq> None
    | _ \<Rightarrow> True)"

lemma skip_stopped: "stopped asc (skipUntilExistsOrInvalid asc ps cs)"
proof (induction asc ps cs rule: skipUntilExistsOrInvalid.induct)
  case (1 asc cs)
  show ?case
    by (auto simp: stopped_def skipCacheDeletes_def dropWhile_eq_Cons_conv split: list.splits)
qed (auto simp: stopped_def)

lemma stopped_step:
  assumes "stopped asc it"
  shows "case_prod (overlay asc) it =
    (case merge_current asc it of None \<Rightarrow> [] | Some e \<Rightarrow> e # case_prod (overlay asc) (merge_Next asc it))"
  using assms by (cases "(asc, it)" rule: merge_current.cases) (auto simp: stopped_def live_def)

lemma run_iterator_overlay: "run_iterator asc it = case_prod (overlay asc) it"
proof (induction asc it rule: run_iterator.induct)
  case (1 asc it)
  let ?it = "skipUntilExistsOrInvalid asc (fst it) (snd it)"
  have "case_prod (overlay asc) it = case_prod (overlay asc) ?it"
    using overlay_skipUntil [of asc "fst it" "snd it" "fst ?it" "snd ?it"] by (simp add: case_prod_beta)
  also have "\<dots> = (case merge_current asc ?it of None \<Rightarrow> [] | Some e \<Rightarrow> e # case_prod (overlay asc) (merge_Next asc ?it))"
    by (rule stopped_step) (rule skip_stopped)
  finally show ?case using 1 by (simp add: run_iterator.simps [of asc it] split: option.splits)
qed

subsection \<open>What the merge contains\<close>

definition in_order :: "bool \<Rightarrow> (string \<times> 'v) list \<Rightarrow> bool" where
  "in_order asc es \<longleftrightarrow> sorted_wrt (before asc) (map fst es)"

lemma in_order_Cons: "in_order asc (e # es) \<longleftrightarrow> (\<forall>e' \<in> set es. before asc (fst e) (fst e')) \<and> in_order asc es"
  by (simp add: in_order_def)

lemma before_trans: "before asc a b \<Longrightarrow> before asc b c \<Longrightarrow> before asc a c"
  by (auto simp: before_def split: if_splits)

lemma before_irrefl [simp]: "\<not> before asc a a"
  by (simp add: before_def)

lemma overlay_keys: "e \<in> set (overlay asc ps cs) \<Longrightarrow> fst e \<in> fst ` set ps \<or> fst e \<in> fst ` set cs"
proof (induction asc ps cs rule: overlay.induct)
  case (2 asc p ps)
  then have "fst e \<in> fst ` set (map (\<lambda>(k, v). (k, Some v)) (p # ps))" by (simp only: overlay_Nil imageI)
  also have "\<dots> = fst ` set (p # ps)" unfolding set_map image_image by (simp add: case_prod_beta)
  finally show ?case by (rule disjI1)
qed (auto simp: live_def split: if_splits)

lemma overlay_below:
  "(\<And>e. e \<in> set ps \<Longrightarrow> before asc k (fst e)) \<Longrightarrow> (\<And>e. e \<in> set cs \<Longrightarrow> before asc k (fst e))
     \<Longrightarrow> e \<in> set (overlay asc ps cs) \<Longrightarrow> before asc k (fst e)"
  using overlay_keys [of e asc ps cs] by fastforce

lemma overlay_in_order: "in_order asc ps \<Longrightarrow> in_order asc cs \<Longrightarrow> in_order asc (overlay asc ps cs)"
proof (induction asc ps cs rule: overlay.induct)
  case (1 asc cs)
  then show ?case by (induction cs) (auto simp: in_order_Cons in_order_def)
next
  case (2 asc p ps)
  then show ?case by (simp add: in_order_def comp_def case_prod_beta')
next
  case (3 asc p ps c cs)
  have p: "\<And>e. e \<in> set ps \<Longrightarrow> before asc (fst p) (fst e)" and c: "\<And>e. e \<in> set cs \<Longrightarrow> before asc (fst c) (fst e)"
    using 3(4,5) by (auto simp: in_order_Cons)
  consider (lt) "before asc (fst p) (fst c)" | (eq) "\<not> before asc (fst p) (fst c)" "fst p = fst c"
    | (gt) "\<not> before asc (fst p) (fst c)" "fst p \<noteq> fst c" "before asc (fst c) (fst p)"
    using before_linear by blast
  then show ?case
  proof cases
    case lt
    have "before asc (fst p) (fst e)" if "e \<in> set (overlay asc ps (c # cs))" for e
      using that by (rule overlay_below [rotated 2]) (use p c lt before_trans in auto)
    then show ?thesis using 3(1,4,5) lt by (simp add: in_order_Cons)
  next
    case eq
    have "before asc (fst c) (fst e)" if "e \<in> set (overlay asc ps cs)" for e
      using that by (rule overlay_below [rotated 2]) (use p c eq in auto)
    then show ?thesis using 3(2,4,5) eq by (simp add: in_order_Cons live_def)
  next
    case gt
    have "before asc (fst c) (fst e)" if "e \<in> set (overlay asc (p # ps) cs)" for e
      using that by (rule overlay_below [rotated 2]) (use p c gt before_trans in auto)
    then show ?thesis using 3(3,4,5) gt by (simp add: in_order_Cons live_def)
  qed
qed

lemma map_of_not_before: "(\<And>e. e \<in> set es \<Longrightarrow> before asc k (fst e)) \<Longrightarrow> map_of es k = None"
  using before_irrefl by (fastforce simp: map_of_eq_None_iff)

lemma map_of_Some_map: "map_of (map (\<lambda>(k, v). (k, Some v)) ps) k = map_option Some (map_of ps k)"
  by (induction ps) auto

lemma map_of_live: "in_order asc cs \<Longrightarrow> map_of (filter (\<lambda>c. snd c \<noteq> None) cs) k =
    (case map_of cs k of Some (Some v) \<Rightarrow> Some (Some v) | _ \<Rightarrow> None)"
proof (induction cs)
  case (Cons c cs)
  then show ?case using map_of_not_before [of cs asc "fst c"] by (auto simp: in_order_Cons split: option.splits)
qed simp

lemma overlay_lookup:
  "in_order asc ps \<Longrightarrow> in_order asc cs \<Longrightarrow> map_of (overlay asc ps cs) k =
     (case map_of cs k of Some None \<Rightarrow> None | Some (Some v) \<Rightarrow> Some (Some v) | None \<Rightarrow> map_option Some (map_of ps k))"
proof (induction asc ps cs rule: overlay.induct)
  case (1 asc cs)
  then show ?case unfolding overlay.simps map_of_live [OF 1(2)] by (simp split: option.splits)
next
  case (2 asc p ps)
  then show ?case using map_of_Some_map [of "p # ps" k] by simp
next
  case (3 asc p ps c cs)
  have p: "map_of ps (fst p) = None" and c: "map_of cs (fst c) = None"
    using 3(4,5) map_of_not_before [of ps asc "fst p"] map_of_not_before [of cs asc "fst c"] by (auto simp: in_order_Cons)
  have before_p: "map_of (c # cs) (fst p) = None" if "before asc (fst p) (fst c)"
    by (rule map_of_not_before [of _ asc]) (use that 3(5) before_trans in \<open>auto simp: in_order_Cons\<close>)
  have gt_p: "map_of (p # ps) (fst c) = None" if "\<not> before asc (fst p) (fst c)" "fst p \<noteq> fst c"
  proof (rule map_of_not_before [of _ asc])
    show "before asc (fst c) (fst e)" if "e \<in> set (p # ps)" for e
      using that before_linear [OF \<open>\<not> before asc (fst p) (fst c)\<close> \<open>fst p \<noteq> fst c\<close>] 3(4) before_trans
      by (auto simp: in_order_Cons)
  qed
  have tails: "in_order asc ps" "in_order asc cs" using 3(4,5) by (simp_all add: in_order_Cons)
  consider (lt) "before asc (fst p) (fst c)" | (eq) "\<not> before asc (fst p) (fst c)" "fst p = fst c"
    | (gt) "\<not> before asc (fst p) (fst c)" "fst p \<noteq> fst c" by blast
  then show ?case
  proof cases
    case lt
    have "map_of (overlay asc (p # ps) (c # cs)) k =
        (if k = fst p then Some (Some (snd p)) else map_of (overlay asc ps (c # cs)) k)" using lt by simp
    then show ?thesis using 3(1) [OF lt tails(1) 3(5)] before_p [OF lt] by (cases p) (auto split: option.splits)
  next
    case eq
    have "map_of (overlay asc (p # ps) (c # cs)) k =
        (if k = fst c \<and> snd c \<noteq> None then Some (snd c) else map_of (overlay asc ps cs) k)"
      using eq by (cases c) (auto simp: live_def)
    then show ?thesis using 3(2) [OF eq tails] eq p c by (cases p; cases c; cases "snd c") (auto split: option.splits)
  next
    case gt
    have "map_of (overlay asc (p # ps) (c # cs)) k =
        (if k = fst c \<and> snd c \<noteq> None then Some (snd c) else map_of (overlay asc (p # ps) cs) k)"
      using gt by (cases c) (auto simp: live_def)
    then show ?thesis using 3(3) [OF gt 3(4) tails(2)] c gt_p [OF gt] by (cases c; cases "snd c") (auto split: option.splits)
  qed
qed

subsection \<open>The contents and the invariant\<close>

definition contents :: "CacheStore \<Rightarrow> string \<Rightarrow> string option" where
  "contents s k = (case store_get (cache s) k of Some cv \<Rightarrow> cv_value cv | None \<Rightarrow> store_get (parent s) k)"

text \<open>
  Clean entries agree with the parent, the deleted keys are the dirty ones without a value,
  and each dirty key is either waiting to be sorted or in the sorted copy with its value.
\<close>

definition entry_inv :: "CacheStore \<Rightarrow> string \<Rightarrow> bool" where
  "entry_inv s k \<longleftrightarrow>
     (case store_get (cache s) k of
        None \<Rightarrow> k \<notin> deleted s \<and> k \<notin> unsortedCache s \<and> store_get (sortedCache s) k = None
      | Some cv \<Rightarrow>
          (k \<in> deleted s \<longleftrightarrow> cv_dirty cv \<and> cv_value cv = None) \<and>
          (if cv_dirty cv
           then k \<notin> unsortedCache s \<longrightarrow> store_get (sortedCache s) k = Some (case cv_value cv of None \<Rightarrow> [] | Some v \<Rightarrow> v)
           else cv_value cv = store_get (parent s) k \<and> k \<notin> unsortedCache s \<and> store_get (sortedCache s) k = None))"

definition cache_inv :: "CacheStore \<Rightarrow> bool" where
  "cache_inv s \<longleftrightarrow> store_wf (cache s) \<and> store_wf (sortedCache s) \<and> store_wf (parent s) \<and> (\<forall>k. entry_inv s k)"

lemma NewStore_inv: "store_wf p \<Longrightarrow> cache_inv (NewStore p)"
  by (simp add: cache_inv_def entry_inv_def NewStore_def store_get_def)

lemma NewStore_contents: "contents (NewStore p) = store_get p"
  by (auto simp: contents_def NewStore_def store_get_def)

lemma entry_inv_set:
  "entry_inv (setCacheValue key v del dirty s) k =
     (if k = key then (del \<longleftrightarrow> dirty \<and> v = None) \<and>
        (if dirty then True else v = store_get (parent s) k \<and> k \<notin> unsortedCache s \<and> store_get (sortedCache s) k = None)
      else entry_inv s k)"
  by (auto simp: entry_inv_def setCacheValue_def store_get_set split: option.splits)

lemma setCacheValue_inv:
  assumes "cache_inv s" "del \<longleftrightarrow> dirty \<and> v = None" "\<not> dirty \<Longrightarrow> store_get (cache s) key = None \<and> v = store_get (parent s) key"
  shows "cache_inv (setCacheValue key v del dirty s)"
proof -
  have ent: "entry_inv s k" for k using assms(1) by (simp add: cache_inv_def)
  have "key \<notin> unsortedCache s \<and> store_get (sortedCache s) key = None" if "store_get (cache s) key = None"
    using ent [of key] that by (simp add: entry_inv_def)
  then have "entry_inv (setCacheValue key v del dirty s) k" for k
    using assms(2,3) ent [of k] unfolding entry_inv_set by auto
  then show ?thesis using assms(1) by (simp add: cache_inv_def setCacheValue_def store_wf_set)
qed

lemma setCacheValue_contents: "contents (setCacheValue key v del dirty s) = (contents s)(key := v)"
  by (rule ext) (auto simp: contents_def setCacheValue_def store_get_set split: option.splits)

definition valid_key :: "string \<Rightarrow> bool" where
  "valid_key k \<longleftrightarrow> k \<noteq> []"

lemma AssertValidKey_Inr [simp]: "AssertValidKey k = Inr u \<longleftrightarrow> valid_key k"
  by (simp add: AssertValidKey_def valid_key_def)

text \<open>The total operations behind the checks of the key, as an instance of the store interface.\<close>

definition put_value :: "string \<Rightarrow> string \<Rightarrow> CacheStore \<Rightarrow> CacheStore" where
  "put_value k v = setCacheValue k (Some v) False True"

definition delete_value :: "string \<Rightarrow> CacheStore \<Rightarrow> CacheStore" where
  "delete_value k = setCacheValue k None True True"

interpretation cache_store: kv_store contents put_value delete_value cache_inv
  by unfold_locales
    (auto simp: put_value_def delete_value_def setCacheValue_contents intro: setCacheValue_inv)

subsection \<open>Writing down\<close>

lemma write_keys:
  assumes "\<And>k cv. (k, cv) \<in> set es \<Longrightarrow> k \<in> deleted s \<longleftrightarrow> cv_value cv = None" "distinct (map fst es)" "store_wf p"
  shows "\<exists>p'. foldE (write_key s) es p = Inr p' \<and> store_wf p' \<and>
    (\<forall>k. store_get p' k = (case map_of es k of Some cv \<Rightarrow> cv_value cv | None \<Rightarrow> store_get p k))"
  using assms
proof (induction es arbitrary: p)
  case (Cons e es)
  obtain k cv where e: "e = (k, cv)" by fastforce
  define q where "q = (case cv_value cv of None \<Rightarrow> store_delete k p | Some v \<Rightarrow> store_set k v p)"
  have step: "write_key s e p = Inr q"
    using Cons.prems(1) [of k cv] e by (auto simp: write_key_def isDeleted_def q_def split: option.splits)
  have q: "store_wf q" "\<And>k'. store_get q k' = (if k' = k then cv_value cv else store_get p k')"
    using Cons.prems(3) by (auto simp: q_def store_wf_set store_wf_delete store_get_set store_get_delete split: option.splits)
  obtain p' where p': "foldE (write_key s) es q = Inr p'" "store_wf p'"
    "\<And>k. store_get p' k = (case map_of es k of Some cv \<Rightarrow> cv_value cv | None \<Rightarrow> store_get q k)"
    using Cons.IH [OF _ _ q(1)] Cons.prems(1,2) by (auto simp: e)
  have "map_of es k = None" using Cons.prems(2) by (simp add: e map_of_eq_None_iff)
  then have "store_get p' k' = (case map_of (e # es) k' of Some cv \<Rightarrow> cv_value cv | None \<Rightarrow> store_get p k')" for k'
    using p'(3) [of k'] q(2) [of k'] by (auto simp: e split: option.splits)
  then show ?case using step p'(1,2) by auto
qed simp

lemma map_of_filter_wf:
  assumes "store_wf s"
  shows "map_of (filter (\<lambda>(k, v). P k v) s) k = (case store_get s k of Some v \<Rightarrow> if P k v then Some v else None | None \<Rightarrow> None)"
  using store_wf_distinct [OF assms] unfolding store_get_def
  by (induction s) (auto split: option.splits simp: map_of_eq_None_iff image_iff)

lemma Write_correct:
  assumes "cache_inv s"
  shows "\<exists>s'. cache_Write s = Inr s' \<and> cache_inv s' \<and> store_get (parent s') = contents s \<and> contents s' = contents s"
proof -
  let ?es = "filter (\<lambda>(_, cv). cv_dirty cv) (cache s)"
  have wf: "store_wf (cache s)" "store_wf (parent s)" and ent: "\<And>k. entry_inv s k"
    using assms by (simp_all add: cache_inv_def)
  have "k \<in> deleted s \<longleftrightarrow> cv_value cv = None" if "(k, cv) \<in> set ?es" for k cv
    using that ent [of k] store_in_get [OF wf(1), of k cv] by (auto simp: entry_inv_def)
  moreover have "distinct (map fst ?es)" using store_wf_distinct [OF wf(1)] by (rule distinct_map_filter)
  ultimately obtain p where p: "foldE (write_key s) ?es (parent s) = Inr p" "store_wf p"
    "\<And>k. store_get p k = (case map_of ?es k of Some cv \<Rightarrow> cv_value cv | None \<Rightarrow> store_get (parent s) k)"
    using write_keys [OF _ _ wf(2), of ?es s] by blast
  have "store_get p k = contents s k" for k
    using p(3) [of k] ent [of k] map_of_filter_wf [OF wf(1), of "\<lambda>_. cv_dirty" k]
    by (auto simp: contents_def entry_inv_def split: option.splits if_splits)
  then have "store_get p = contents s" by (rule ext)
  moreover have "cache_Write s = Inr (NewStore p)" using p(1) by (simp add: cache_Write_def)
  moreover have "parent (NewStore p) = p" by (simp add: NewStore_def)
  ultimately show ?thesis using NewStore_inv [OF p(2)] NewStore_contents [of p] by simp
qed

subsection \<open>Iterating\<close>

lemma fold_store_set:
  assumes "distinct (map fst es)" "store_wf p"
  shows "store_wf (fold (\<lambda>(k, x). store_set k (f x)) es p) \<and>
    store_get (fold (\<lambda>(k, x). store_set k (f x)) es p) k = (case map_of es k of Some x \<Rightarrow> Some (f x) | None \<Rightarrow> store_get p k)"
  using assms
proof (induction es arbitrary: p)
  case (Cons e es)
  have "map_of es (fst e) = None" using Cons.prems(1) by (simp add: map_of_eq_None_iff)
  then show ?case
    using Cons.IH [of "store_set (fst e) (f (snd e)) p"] Cons.prems
    by (cases e) (auto simp: store_wf_set store_get_set split: option.splits)
qed simp

lemma dirtyItems_fields:
  "cache (dirtyItems a b s) = cache s" "deleted (dirtyItems a b s) = deleted s" "parent (dirtyItems a b s) = parent s"
  by (simp_all add: dirtyItems_def clearUnsortedCacheSubset_def)

lemma dirtyItems_contents: "contents (dirtyItems a b s) = contents s"
  by (rule ext) (simp add: contents_def dirtyItems_fields split: option.splits)

lemma dirtyItems_sorted:
  assumes "cache_inv s"
  shows "store_wf (sortedCache (dirtyItems a b s))"
    and "store_get (sortedCache (dirtyItems a b s)) k =
      (if k \<in> unsortedCache s \<and> IsKeyInDomain k a b
       then map_option (\<lambda>cv. case cv_value cv of None \<Rightarrow> [] | Some v \<Rightarrow> v) (store_get (cache s) k)
       else store_get (sortedCache s) k)"
    and "k \<in> unsortedCache (dirtyItems a b s) \<longleftrightarrow> k \<in> unsortedCache s \<and> \<not> IsKeyInDomain k a b"
proof -
  let ?P = "\<lambda>k. k \<in> unsortedCache s \<and> IsKeyInDomain k a b"
  let ?es = "filter (\<lambda>(k, _). ?P k) (cache s)"
  have wf: "store_wf (cache s)" "store_wf (sortedCache s)" and ent: "\<And>k. entry_inv s k"
    using assms by (simp_all add: cache_inv_def)
  have d: "distinct (map fst ?es)" using store_wf_distinct [OF wf(1)] by (rule distinct_map_filter)
  have cached: "store_get (cache s) k \<noteq> None" if "k \<in> unsortedCache s" for k
    using ent [of k] that by (auto simp: entry_inv_def split: option.splits)
  show "store_wf (sortedCache (dirtyItems a b s))"
    using fold_store_set [OF d wf(2)] by (simp add: dirtyItems_def clearUnsortedCacheSubset_def)
  show "store_get (sortedCache (dirtyItems a b s)) k =
      (if ?P k then map_option (\<lambda>cv. case cv_value cv of None \<Rightarrow> [] | Some v \<Rightarrow> v) (store_get (cache s) k)
       else store_get (sortedCache s) k)"
    using fold_store_set [OF d wf(2), of "\<lambda>cv. case cv_value cv of None \<Rightarrow> [] | Some v \<Rightarrow> v" k]
      map_of_filter_wf [OF wf(1), of "\<lambda>k _. ?P k" k] cached [of k]
    by (auto simp: dirtyItems_def clearUnsortedCacheSubset_def split: option.splits if_splits)
  have "k \<in> fst ` set ?es \<longleftrightarrow> ?P k \<and> k \<in> fst ` set (cache s)" by force
  moreover have "k \<in> fst ` set (cache s) \<longleftrightarrow> store_get (cache s) k \<noteq> None"
    by (simp add: store_get_def map_of_eq_None_iff)
  ultimately show "k \<in> unsortedCache (dirtyItems a b s) \<longleftrightarrow> k \<in> unsortedCache s \<and> \<not> IsKeyInDomain k a b"
    using cached [of k] by (auto simp: dirtyItems_def clearUnsortedCacheSubset_def)
qed

lemma dirtyItems_inv:
  assumes "cache_inv s"
  shows "cache_inv (dirtyItems a b s)"
proof -
  have ent: "entry_inv s k" for k using assms by (simp add: cache_inv_def)
  have "entry_inv (dirtyItems a b s) k" for k
    using ent [of k] by (auto simp: entry_inv_def dirtyItems_fields dirtyItems_sorted [OF assms] split: option.splits if_splits)
  then show ?thesis using assms dirtyItems_sorted(1) [OF assms] by (simp add: cache_inv_def dirtyItems_fields)
qed

lemma before_fun: "before asc = (if asc then (<) else (\<lambda>a b. b < a))"
  by (auto simp: before_def fun_eq_iff)

lemma entries_in_order: "store_wf es \<Longrightarrow> in_order asc (entries_in a b asc es)"
proof -
  assume "store_wf es"
  then have "sorted_wrt (<) (map fst (filter (\<lambda>(k, _). IsKeyInDomain k a b) es))"
    by (simp add: store_wf_def sorted_wrt_map sorted_wrt_filter)
  then show ?thesis
    unfolding in_order_def before_fun by (cases asc) (simp_all add: entries_in_def rev_map [symmetric] sorted_wrt_rev)
qed

lemma map_of_rev_wf: "distinct (map fst es) \<Longrightarrow> map_of (rev es) = map_of es"
  by (rule map_of_inject_set [THEN iffD2]) (simp_all add: rev_map [symmetric])

lemma entries_in_lookup:
  assumes "store_wf es"
  shows "map_of (entries_in a b asc es) k = (if IsKeyInDomain k a b then store_get es k else None)"
proof -
  let ?d = "filter (\<lambda>(k, _). IsKeyInDomain k a b) es"
  have "distinct (map fst ?d)" using store_wf_distinct [OF assms] by (rule distinct_map_filter)
  then have "map_of (entries_in a b asc es) k = map_of ?d k"
    using map_of_rev_wf [of ?d] by (simp add: entries_in_def Let_def)
  then show ?thesis using map_of_filter_wf [OF assms, of "\<lambda>k _. IsKeyInDomain k a b" k] by (auto split: option.splits)
qed

lemma in_order_map: "in_order asc es \<Longrightarrow> in_order asc (map (\<lambda>(k, v). (k, f k v)) es)"
  by (simp add: in_order_def comp_def case_prod_beta')

lemma map_of_map_key: "map_of (map (\<lambda>(k, v). (k, f k v)) es) k = map_option (f k) (map_of es k)"
  by (induction es) auto

lemma run_iterator_lookup:
  assumes "cache_inv s" and unsorted: "\<And>k. IsKeyInDomain k a b \<Longrightarrow> k \<notin> unsortedCache s"
    and run: "r = run_iterator asc (entries_in a b asc (parent s), newMemIterator a b asc s)"
  shows "in_order asc r" and "map_of r k = (if IsKeyInDomain k a b then map_option Some (contents s k) else None)"
proof -
  have wf: "store_wf (sortedCache s)" "store_wf (parent s)" and ent: "entry_inv s k"
    using assms(1) by (simp_all add: cache_inv_def)
  have ord: "in_order asc (entries_in a b asc (parent s))" "in_order asc (newMemIterator a b asc s)"
    using entries_in_order [OF wf(2)] in_order_map [OF entries_in_order [OF wf(1)]]
    by (simp_all add: newMemIterator_def)
  have r: "r = overlay asc (entries_in a b asc (parent s)) (newMemIterator a b asc s)"
    by (simp add: run run_iterator_overlay)
  show "in_order asc r" unfolding r using ord by (rule overlay_in_order)
  have "map_of (newMemIterator a b asc s) k = (if IsKeyInDomain k a b
      then map_option (\<lambda>v. if k \<in> deleted s then None else Some v) (store_get (sortedCache s) k) else None)"
    unfolding newMemIterator_def map_of_map_key entries_in_lookup [OF wf(1)] by simp
  then show "map_of r k = (if IsKeyInDomain k a b then map_option Some (contents s k) else None)"
    unfolding r overlay_lookup [OF ord] entries_in_lookup [OF wf(2)]
    using ent unsorted [of k] by (auto simp: entry_inv_def contents_def split: option.splits if_splits)
qed

lemma in_order_distinct: "in_order asc es \<Longrightarrow> distinct (map fst es)"
  unfolding in_order_def by (induction es) auto

lemma cache_Get_refines:
  assumes "cache_inv s" "k \<noteq> []"
  shows "\<exists>s'. cache_Get k s = Inr (contents s k, s') \<and> cache_inv s' \<and> contents s' = contents s"
proof (cases "store_get (cache s) k")
  case None
  have "cache_inv (setCacheValue k (store_get (parent s) k) False False s)"
    using assms(1) None by (intro setCacheValue_inv) simp_all
  moreover have "contents s k = store_get (parent s) k" by (simp add: contents_def None)
  then have "contents (setCacheValue k (store_get (parent s) k) False False s) = contents s"
    by (simp add: setCacheValue_contents fun_upd_idem_iff)
  ultimately show ?thesis using assms(2) by (simp add: cache_Get_def AssertValidKey_def None contents_def Let_def)
next
  case (Some cv)
  then show ?thesis using assms by (simp add: cache_Get_def AssertValidKey_def contents_def)
qed

subsection \<open>The theorems\<close>

text \<open>
  C37: on a caching store that keeps its invariant, for a key that is not empty, \<open>Get\<close> returns
  the contents under the key and leaves them, \<open>Set\<close> and \<open>Delete\<close> change the contents like
  an update of a map, and \<open>Write\<close> succeeds and makes the parent equal to the contents.
\<close>

theorem cachekv_refines_map:
  assumes "cache_inv s" "k \<noteq> []"
  shows "(\<exists>s'. cache_Get k s = Inr (contents s k, s') \<and> cache_inv s' \<and> contents s' = contents s)
    \<and> (\<exists>s'. cache_Set k (Some v) s = Inr s' \<and> cache_inv s' \<and> contents s' = (contents s)(k \<mapsto> v))
    \<and> (\<exists>s'. cache_Delete k s = Inr s' \<and> cache_inv s' \<and> contents s' = (contents s)(k := None))
    \<and> (\<exists>s'. cache_Write s = Inr s' \<and> cache_inv s' \<and> store_get (parent s') = contents s)"
proof (intro conjI)
  have k: "valid_key k" using assms(2) by (simp add: valid_key_def)
  show "\<exists>s'. cache_Get k s = Inr (contents s k, s') \<and> cache_inv s' \<and> contents s' = contents s"
    using assms by (rule cache_Get_refines)
  show "\<exists>s'. cache_Set k (Some v) s = Inr s' \<and> cache_inv s' \<and> contents s' = (contents s)(k \<mapsto> v)"
    using cache_store.wf_put [OF assms(1)] k
    by (simp add: cache_Set_def AssertValidValue_def put_value_def [symmetric] fun_eq_iff cache_store.get_put)
  show "\<exists>s'. cache_Delete k s = Inr s' \<and> cache_inv s' \<and> contents s' = (contents s)(k := None)"
    using cache_store.wf_del [OF assms(1)] k
    by (simp add: cache_Delete_def delete_value_def [symmetric] fun_eq_iff cache_store.get_del)
  show "\<exists>s'. cache_Write s = Inr s' \<and> cache_inv s' \<and> store_get (parent s') = contents s"
    using Write_correct [OF assms(1)] by blast
qed

text \<open>
  C38: an iterator of the caching store over a domain ends, runs through exactly the entries of
  the contents in the domain, in ascending or descending order of the keys and each once, and
  leaves the contents as they are, however reads, writes, deletions and earlier iterations
  have distributed them over the parent and the cache.
\<close>

theorem cachekv_iterator_exact:
  assumes "cache_inv s" "start \<noteq> Some []" "end_key \<noteq> Some []"
  shows "\<exists>r s'. cache_iterator start end_key asc s = Inr (r, s') \<and> cache_inv s' \<and> contents s' = contents s
    \<and> sorted_wrt (before asc) (map fst r)
    \<and> set r = {(k, Some v) | k v. IsKeyInDomain k start end_key \<and> contents s k = Some v}"
proof -
  define s' where "s' = dirtyItems start end_key s"
  define r where "r = run_iterator asc (entries_in start end_key asc (parent s'), newMemIterator start end_key asc s')"
  have inv: "cache_inv s'" and same: "contents s' = contents s"
    using dirtyItems_inv [OF assms(1)] dirtyItems_contents by (simp_all add: s'_def)
  have unsorted: "k \<notin> unsortedCache s'" if "IsKeyInDomain k start end_key" for k
    using that dirtyItems_sorted(3) [OF assms(1)] by (simp add: s'_def)
  note r = run_iterator_lookup [OF inv unsorted r_def]
  have "e \<in> set r \<longleftrightarrow> e \<in> {(k, Some v) | k v. IsKeyInDomain k start end_key \<and> contents s k = Some v}" for e
  proof (cases e)
    case (Pair k x)
    have "(k, x) \<in> set r \<longleftrightarrow> map_of r k = Some x"
      using in_order_distinct [OF r(1)] by (simp add: map_of_eq_Some_iff)
    then show ?thesis using r(2) [of k] same by (auto simp: Pair split: if_splits)
  qed
  then have "set r = {(k, Some v) | k v. IsKeyInDomain k start end_key \<and> contents s k = Some v}" by blast
  moreover have "cache_iterator start end_key asc s = Inr (r, s')"
    using assms(2,3) by (simp add: cache_iterator_def r_def s'_def Let_def)
  ultimately show ?thesis using inv same r(1) by (auto simp: in_order_def)
qed

text \<open>A store with a parent entry deleted, one overwritten and a new one.\<close>

definition demo_cache :: CacheStore where
  "demo_cache = put_value ''c'' ''3'' (delete_value ''b'' (put_value ''a'' ''9'' (NewStore [(''a'', ''1''), (''b'', ''2'')])))"

lemma demo_cache_inv: "cache_inv demo_cache"
  by (simp add: demo_cache_def cache_store.wf_put cache_store.wf_del NewStore_inv store_wf_def)

lemma demo_cache_contents: "contents demo_cache = [''a'' \<mapsto> ''9'', ''c'' \<mapsto> ''3'']"
  by (auto simp: demo_cache_def cache_store.get_put cache_store.get_del NewStore_contents store_get_def fun_eq_iff)

theorem cachekv_refines_map_witness:
  "(\<exists>s'. cache_Get ''b'' demo_cache = Inr (None, s')) \<and>
   (\<exists>s'. cache_Write demo_cache = Inr s' \<and> store_get (parent s') = [''a'' \<mapsto> ''9'', ''c'' \<mapsto> ''3''])"
  using cachekv_refines_map [OF demo_cache_inv, of "''b''"] by (auto simp: demo_cache_contents)

theorem cachekv_iterator_exact_witness:
  "\<exists>r s'. cache_iterator None None False demo_cache = Inr (r, s') \<and> set r = {(''a'', Some ''9''), (''c'', Some ''3'')}"
proof -
  have "{(k, Some v) | k v. IsKeyInDomain k None None \<and> contents demo_cache k = Some v} = {(''a'', Some ''9''), (''c'', Some ''3'')}"
    by (auto simp: demo_cache_contents IsKeyInDomain_def split: if_splits)
  then show ?thesis using cachekv_iterator_exact [OF demo_cache_inv, of None None False] by auto
qed

end
