(* ===== verification/Gas_Props.thy ===== *)
theory Gas_Props
  imports Gas CacheKV_Props
begin

section \<open>Metering charges exactly what it says\<close>

text \<open>
  The interface \<open>gas_meter\<close> is a meter seen from its budget: a charge within the budget
  succeeds and adds its amount, a charge beyond it fails. Sequences of charges are treated once
  in it, and both meters of the code implement it.
\<close>

fun consume_all :: "(Gas \<Rightarrow> string \<Rightarrow> 'm \<Rightarrow> 'm \<times> gas_panic option) \<Rightarrow> (Gas \<times> string) list \<Rightarrow> 'm \<Rightarrow> 'm \<times> gas_panic option" where
  "consume_all consume [] m = (m, None)"
| "consume_all consume ((a, d) # cs) m =
     (case consume a d m of (m', None) \<Rightarrow> consume_all consume cs m' | (m', Some e) \<Rightarrow> (m', Some e))"

definition total_gas :: "(Gas \<times> string) list \<Rightarrow> nat" where
  "total_gas cs = sum_list (map (unat \<circ> fst) cs)"

locale gas_meter =
  fixes consume :: "Gas \<Rightarrow> string \<Rightarrow> 'm \<Rightarrow> 'm \<times> gas_panic option"
    and used :: "'m \<Rightarrow> nat" and budget :: "'m \<Rightarrow> nat"
  assumes within: "used m + unat a \<le> budget m \<Longrightarrow>
      snd (consume a d m) = None \<and> used (fst (consume a d m)) = used m + unat a"
    and beyond: "budget m < used m + unat a \<Longrightarrow> snd (consume a d m) \<noteq> None"
    and same_budget: "budget (fst (consume a d m)) = budget m"
begin

lemma consume_within:
  assumes "used m + unat a \<le> budget m"
  obtains m' where "consume a d m = (m', None)" "used m' = used m + unat a" "budget m' = budget m"
  using within [OF assms, of d] same_budget [of a d m] by (cases "consume a d m") auto

lemma consume_beyond:
  assumes "budget m < used m + unat a"
  obtains m' e where "consume a d m = (m', Some e)"
  using beyond [OF assms, of d] by (cases "consume a d m") auto

lemma consume_all_within:
  "used m + total_gas cs \<le> budget m \<Longrightarrow>
     \<exists>m'. consume_all consume cs m = (m', None) \<and> used m' = used m + total_gas cs \<and> budget m' = budget m"
proof (induction cs arbitrary: m)
  case (Cons c cs)
  obtain a d where c: "c = (a, d)" by (cases c)
  then have "used m + unat a \<le> budget m" using Cons.prems by (simp add: total_gas_def)
  then obtain m' where m': "consume a d m = (m', None)" "used m' = used m + unat a" "budget m' = budget m"
    by (rule consume_within)
  show ?case using Cons.IH [of m'] Cons.prems m' by (simp add: c total_gas_def ac_simps)
qed (simp add: total_gas_def)

lemma consume_all_beyond:
  "used m \<le> budget m \<Longrightarrow> budget m < used m + total_gas cs \<Longrightarrow> \<exists>m' e. consume_all consume cs m = (m', Some e)"
proof (induction cs arbitrary: m)
  case (Cons c cs)
  obtain a d where c: "c = (a, d)" by (cases c)
  show ?case
  proof (cases "used m + unat a \<le> budget m")
    case True
    then obtain m' where m': "consume a d m = (m', None)" "used m' = used m + unat a" "budget m' = budget m"
      by (rule consume_within)
    show ?thesis using Cons.IH [of m'] Cons.prems True m' by (simp add: c total_gas_def ac_simps)
  next
    case False
    then have "budget m < used m + unat a" by simp
    then show ?thesis by (rule consume_beyond [of m a d]) (simp add: c)
  qed
qed (simp add: total_gas_def)

end

subsection \<open>The meters of the code\<close>

definition gas_used :: "GasMeter \<Rightarrow> nat" where
  "gas_used m = unat (GasConsumed m)"

fun gas_budget :: "GasMeter \<Rightarrow> nat" where
  "gas_budget (basicGasMeter limit consumed) = unat limit"
| "gas_budget (infiniteGasMeter consumed) = 2 ^ 64 - 1"

lemma add_overflow_iff: "snd (addUint64Overflow a b) \<longleftrightarrow> 2 ^ 64 \<le> unat a + unat b"
proof -
  have bound: "unat a < 2 ^ 64" using unsigned_less [of a] by simp
  have "unat (- 1 - a :: 64 word) = unat (- 1 :: 64 word) - unat a"
    by (rule unat_sub) (simp add: word_order.extremum)
  also have "unat (- 1 :: 64 word) = 2 ^ 64 - 1" by (simp add: unsigned_minus_1_eq_mask mask_eq_exp_minus_1)
  finally show ?thesis
    using bound unfolding addUint64Overflow_def word_less_nat_alt
    by (auto split: if_splits)
qed

lemma add_no_overflow:
  "unat a + unat b < 2 ^ 64 \<Longrightarrow> addUint64Overflow a b = (a + b, False) \<and> unat (a + b) = unat a + unat b"
  using add_overflow_iff [of a b] by (auto simp: addUint64Overflow_def unat_word_ariths split: if_splits)

lemma add_overflow: "2 ^ 64 \<le> unat a + unat b \<Longrightarrow> addUint64Overflow a b = (0, True)"
  using add_overflow_iff [of a b] by (auto simp: addUint64Overflow_def split: if_splits)

lemma gas_budget_bound: "gas_budget m < 2 ^ 64"
proof (cases m)
  case (basicGasMeter l c)
  then show ?thesis using unsigned_less [of l] by simp
qed simp

lemma ConsumeGas_within:
  assumes "gas_used m + unat a \<le> gas_budget m"
  shows "snd (ConsumeGas a d m) = None \<and> gas_used (fst (ConsumeGas a d m)) = gas_used m + unat a"
proof -
  have "unat (GasConsumed m) + unat a < 2 ^ 64"
    using assms gas_budget_bound [of m] by (simp add: gas_used_def)
  note add = add_no_overflow [OF this]
  show ?thesis using assms add by (cases m) (simp_all add: gas_used_def word_less_nat_alt)
qed

lemma ConsumeGas_beyond:
  assumes "gas_budget m < gas_used m + unat a"
  shows "snd (ConsumeGas a d m) \<noteq> None"
proof (cases "unat (GasConsumed m) + unat a < 2 ^ 64")
  case True
  note add = add_no_overflow [OF this]
  show ?thesis using assms add True by (cases m) (simp_all add: gas_used_def word_less_nat_alt)
next
  case False
  then have "addUint64Overflow (GasConsumed m) a = (0, True)" by (intro add_overflow) simp
  then show ?thesis by (cases m) simp_all
qed

lemma ConsumeGas_budget: "gas_budget (fst (ConsumeGas a d m)) = gas_budget m"
  by (cases m) (simp_all add: case_prod_beta Let_def)

interpretation meter: gas_meter ConsumeGas gas_used gas_budget
  by unfold_locales (blast intro: ConsumeGas_within [THEN conjunct1] ConsumeGas_within [THEN conjunct2]
      dest: ConsumeGas_beyond | simp add: ConsumeGas_budget ConsumeGas_within ConsumeGas_beyond)+

lemma ConsumeGas_panic_out: "snd (ConsumeGas a d (basicGasMeter l c)) \<noteq> None \<Longrightarrow> IsOutOfGas (fst (ConsumeGas a d (basicGasMeter l c)))"
  by (simp add: case_prod_beta Let_def split: if_splits)

lemma ConsumeGas_refund:
  "snd (ConsumeGas a d m) = None \<Longrightarrow> RefundGas a d' (fst (ConsumeGas a d m)) = (m, None)"
proof -
  assume ok: "snd (ConsumeGas a d m) = None"
  then have le: "gas_used m + unat a \<le> gas_budget m" using ConsumeGas_beyond [of m a d] by force
  then have "unat (GasConsumed m) + unat a < 2 ^ 64" using gas_budget_bound [of m] by (simp add: gas_used_def)
  note add = add_no_overflow [OF this]
  show ?thesis using ok add by (cases m) (simp_all add: word_less_nat_alt split: if_splits)
qed

lemma ConsumeGas_basic: "\<exists>c' r. ConsumeGas a d (basicGasMeter l c) = (basicGasMeter l c', r)"
  by (simp add: case_prod_beta Let_def)

lemma consume_all_basic: "\<exists>c' r. consume_all ConsumeGas cs (basicGasMeter l c) = (basicGasMeter l c', r)"
proof (induction cs arbitrary: c)
  case (Cons x cs)
  obtain a d where x: "x = (a, d)" by (cases x)
  obtain c' r where "ConsumeGas a d (basicGasMeter l c) = (basicGasMeter l c', r)"
    using ConsumeGas_basic by blast
  then show ?case using Cons.IH [of c'] by (cases r) (simp_all add: x del: ConsumeGas.simps)
qed simp

lemma consume_all_panic_out:
  "consume_all ConsumeGas cs (basicGasMeter l c) = (m, Some e) \<Longrightarrow> IsOutOfGas m"
proof (induction cs arbitrary: c)
  case (Cons x cs)
  obtain a d where x: "x = (a, d)" by (cases x)
  obtain c' r where step: "ConsumeGas a d (basicGasMeter l c) = (basicGasMeter l c', r)"
    using ConsumeGas_basic by blast
  show ?case
    using Cons.prems Cons.IH [of c'] ConsumeGas_panic_out [of a d l c] step
    by (cases r) (auto simp: x simp del: ConsumeGas.simps IsOutOfGas.simps)
qed simp

text \<open>
  C39: on a meter with a limit, whose consumption is within it, a sequence of charges goes
  through exactly when the consumption and the sum of the amounts, as numbers, are at most the
  limit; the meter then shows that sum. Otherwise a charge panics and the meter is out of gas,
  also when the sum passes the width of \<open>uint64\<close>. A successful charge refunded gives
  the meter back.
\<close>

theorem gas_charges_exact:
  assumes "c \<le> l"
  shows "(unat c + total_gas cs \<le> unat l \<longrightarrow>
      (\<exists>c'. consume_all ConsumeGas cs (basicGasMeter l c) = (basicGasMeter l c', None) \<and> unat c' = unat c + total_gas cs))
    \<and> (unat l < unat c + total_gas cs \<longrightarrow>
      (\<exists>m e. consume_all ConsumeGas cs (basicGasMeter l c) = (m, Some e) \<and> IsOutOfGas m))
    \<and> (unat c + unat a \<le> unat l \<longrightarrow> RefundGas a d' (fst (ConsumeGas a d (basicGasMeter l c))) = (basicGasMeter l c, None))"
proof (intro conjI impI)
  have u: "gas_used (basicGasMeter l c) = unat c" by (simp add: gas_used_def)
  { assume "unat c + total_gas cs \<le> unat l"
    then obtain m where m: "consume_all ConsumeGas cs (basicGasMeter l c) = (m, None)"
        "gas_used m = unat c + total_gas cs"
      using meter.consume_all_within [of "basicGasMeter l c" cs] u by auto
    obtain c' where "m = basicGasMeter l c'" using consume_all_basic [of cs l c] m(1) by auto
    then show "\<exists>c'. consume_all ConsumeGas cs (basicGasMeter l c) = (basicGasMeter l c', None) \<and> unat c' = unat c + total_gas cs"
      using m by (simp add: gas_used_def) }
  { assume "unat l < unat c + total_gas cs"
    then show "\<exists>m e. consume_all ConsumeGas cs (basicGasMeter l c) = (m, Some e) \<and> IsOutOfGas m"
      using meter.consume_all_beyond [of "basicGasMeter l c" cs] u assms consume_all_panic_out [of cs l c]
      by (force simp: word_le_nat_alt) }
  { assume "unat c + unat a \<le> unat l"
    then show "RefundGas a d' (fst (ConsumeGas a d (basicGasMeter l c))) = (basicGasMeter l c, None)"
      using ConsumeGas_within [of "basicGasMeter l c" a d] u
      by (intro ConsumeGas_refund) (simp del: ConsumeGas.simps) }
qed

theorem gas_charges_exact_witness:
  "(\<exists>c'. consume_all ConsumeGas [(30, ''a''), (20, ''b'')] (basicGasMeter 100 50) = (basicGasMeter 100 c', None) \<and> unat c' = 100)
   \<and> (\<exists>m e. consume_all ConsumeGas [(30, ''a''), (21, ''b'')] (basicGasMeter 100 50) = (m, Some e) \<and> IsOutOfGas m)"
  using gas_charges_exact [of 50 100 "[(30, ''a''), (20, ''b'')]"] gas_charges_exact [of 50 100 "[(30, ''a''), (21, ''b'')]"]
  by (simp add: total_gas_def)

subsection \<open>The metering store\<close>

lemma charge_within:
  assumes "gas_used (gasMeter s) + unat (cost (gasConfig s)) \<le> gas_budget (gasMeter s)"
  obtains m where "charge cost d s = (Inr (), s\<lparr>gasMeter := m\<rparr>)"
    "gas_used m = gas_used (gasMeter s) + unat (cost (gasConfig s))" "gas_budget m = gas_budget (gasMeter s)"
proof -
  obtain m where "ConsumeGas (cost (gasConfig s)) d (gasMeter s) = (m, None)"
    "gas_used m = gas_used (gasMeter s) + unat (cost (gasConfig s))" "gas_budget m = gas_budget (gasMeter s)"
    using assms by (rule meter.consume_within)
  then show thesis by (intro that [of m]) (simp_all add: charge_def)
qed

lemma charge_beyond:
  assumes "gas_budget (gasMeter s) < gas_used (gasMeter s) + unat (cost (gasConfig s))"
  obtains e m where "charge cost d s = (Inl (GasPanic e), s\<lparr>gasMeter := m\<rparr>)"
proof -
  obtain m e where "ConsumeGas (cost (gasConfig s)) d (gasMeter s) = (m, Some e)"
    using assms by (rule meter.consume_beyond)
  then show thesis by (intro that [of e m]) (simp add: charge_def)
qed

fun charges :: "((GasConfig \<Rightarrow> Gas) \<times> string) list \<Rightarrow> unit gas_op" where
  "charges [] = returnG ()"
| "charges ((cost, d) # cs) = bindG (charge cost d) (\<lambda>_. charges cs)"

definition charges_cost :: "((GasConfig \<Rightarrow> Gas) \<times> string) list \<Rightarrow> GasConfig \<Rightarrow> nat" where
  "charges_cost cs config = (\<Sum>(cost, d)\<leftarrow>cs. unat (cost config))"

lemma charges_within:
  "gas_used (gasMeter s) + charges_cost cs (gasConfig s) \<le> gas_budget (gasMeter s) \<Longrightarrow>
     \<exists>m. charges cs s = (Inr (), s\<lparr>gasMeter := m\<rparr>) \<and> gas_budget m = gas_budget (gasMeter s)
       \<and> gas_used m = gas_used (gasMeter s) + charges_cost cs (gasConfig s)"
proof (induction cs arbitrary: s)
  case Nil
  show ?case by (rule exI [of _ "gasMeter s"]) (simp add: returnG_def charges_cost_def)
next
  case (Cons x cs)
  obtain cost d where x: "x = (cost, d)" by (cases x)
  then have "gas_used (gasMeter s) + unat (cost (gasConfig s)) \<le> gas_budget (gasMeter s)"
    using Cons.prems by (simp add: charges_cost_def)
  then obtain m where "charge cost d s = (Inr (), s\<lparr>gasMeter := m\<rparr>)"
    "gas_used m = gas_used (gasMeter s) + unat (cost (gasConfig s))" "gas_budget m = gas_budget (gasMeter s)"
    by (rule charge_within)
  then show ?case
    using Cons.IH [of "s\<lparr>gasMeter := m\<rparr>"] Cons.prems by (simp add: x bindG_def charges_cost_def ac_simps)
qed

lemma charges_beyond:
  "gas_used (gasMeter s) \<le> gas_budget (gasMeter s) \<Longrightarrow>
   gas_budget (gasMeter s) < gas_used (gasMeter s) + charges_cost cs (gasConfig s) \<Longrightarrow>
     \<exists>e m. charges cs s = (Inl (GasPanic e), s\<lparr>gasMeter := m\<rparr>)"
proof (induction cs arbitrary: s)
  case (Cons x cs)
  obtain cost d where x: "x = (cost, d)" by (cases x)
  show ?case
  proof (cases "gas_used (gasMeter s) + unat (cost (gasConfig s)) \<le> gas_budget (gasMeter s)")
    case True
    then obtain m where "charge cost d s = (Inr (), s\<lparr>gasMeter := m\<rparr>)"
      "gas_used m = gas_used (gasMeter s) + unat (cost (gasConfig s))" "gas_budget m = gas_budget (gasMeter s)"
      by (rule charge_within)
    then show ?thesis
      using Cons.IH [of "s\<lparr>gasMeter := m\<rparr>"] Cons.prems True by (simp add: x bindG_def charges_cost_def ac_simps)
  next
    case False
    then have "gas_budget (gasMeter s) < gas_used (gasMeter s) + unat (cost (gasConfig s))" by simp
    then show ?thesis by (rule charge_beyond [of s cost d]) (simp add: x bindG_def, blast)
  qed
qed (simp add: charges_cost_def)

lemma bindG_assoc: "bindG (bindG m f) g = bindG m (\<lambda>x. bindG (f x) g)"
  by (auto simp: bindG_def fun_eq_iff split: prod.splits sum.splits)

lemma bindG_return [simp]: "bindG (returnG x) f = f x"
  by (simp add: bindG_def returnG_def fun_eq_iff)

lemma bindG_assert [simp]: "bindG (assertG (Inr ())) f = f ()"
  by (simp add: bindG_def assertG_def fun_eq_iff)

lemma unat_per_byte:
  "unat cost * length b < 2 ^ 64 \<Longrightarrow> unat (per_byte cost (Some b)) = unat cost * length b"
proof (cases "unat cost = 0")
  case False
  assume a: "unat cost * length b < 2 ^ 64"
  then have "length b < 2 ^ 64" using False by (metis le_less_trans mult_le_mono1 nat_mult_1 One_nat_def Suc_leI neq0_conv)
  then show ?thesis using a by (simp add: per_byte_def unat_word_ariths unat_of_nat)
qed (simp add: per_byte_def unat_eq_0)

definition write_cost :: "GasConfig \<Rightarrow> string \<Rightarrow> string \<Rightarrow> nat" where
  "write_cost config key v =
     unat (WriteCostFlat config) + unat (WriteCostPerByte config) * (length key + length v)"

definition read_cost :: "GasConfig \<Rightarrow> string \<Rightarrow> string option \<Rightarrow> nat" where
  "read_cost config key v = unat (ReadCostFlat config)
     + unat (ReadCostPerByte config) * (length key + (case v of None \<Rightarrow> 0 | Some b \<Rightarrow> length b))"

lemma per_byte_None [simp]: "per_byte cost None = 0"
  by (simp add: per_byte_def)

lemma per_byte_pair:
  assumes "unat cost * (length key + (case v of None \<Rightarrow> 0 | Some b \<Rightarrow> length b)) < 2 ^ 64"
  shows "unat (per_byte cost (Some key)) + unat (per_byte cost v)
    = unat cost * (length key + (case v of None \<Rightarrow> 0 | Some b \<Rightarrow> length b))"
proof -
  have "unat (per_byte cost (Some key)) = unat cost * length key"
    using assms by (intro unat_per_byte) (simp add: add_mult_distrib2)
  moreover have "unat (per_byte cost v) = unat cost * (case v of None \<Rightarrow> 0 | Some b \<Rightarrow> length b)"
    using assms by (cases v) (simp_all add: unat_per_byte add_mult_distrib2)
  ultimately show ?thesis by (simp add: add_mult_distrib2)
qed

definition write_charges :: "string \<Rightarrow> string \<Rightarrow> ((GasConfig \<Rightarrow> Gas) \<times> string) list" where
  "write_charges key v = [(WriteCostFlat, ''WriteFlat''),
     (\<lambda>c. per_byte (WriteCostPerByte c) (Some key), ''WritePerByte''),
     (\<lambda>c. per_byte (WriteCostPerByte c) (Some v), ''WritePerByte'')]"

definition read_charges :: "string \<Rightarrow> string option \<Rightarrow> ((GasConfig \<Rightarrow> Gas) \<times> string) list" where
  "read_charges key v = [(\<lambda>c. per_byte (ReadCostPerByte c) (Some key), ''ReadPerByte''),
     (\<lambda>c. per_byte (ReadCostPerByte c) v, ''ReadPerByte'')]"

lemma gas_Set_charges:
  "key \<noteq> [] \<Longrightarrow> gas_Set key (Some v) = bindG (charges (write_charges key v)) (\<lambda>_.
     call_parent (\<lambda>p. bindE (cache_Set key (Some v) p) (\<lambda>p'. Inr ((), p'))))"
  by (simp add: gas_Set_def write_charges_def bindG_assoc AssertValidKey_def AssertValidValue_def)

lemma gas_Get_charges:
  "gas_Get key = bindG (charges [(ReadCostFlat, ''ReadFlat'')]) (\<lambda>_. bindG (call_parent (cache_Get key)) (\<lambda>v.
     bindG (charges (read_charges key v)) (\<lambda>_. returnG v)))"
  by (simp add: gas_Get_def read_charges_def bindG_assoc)

lemma gas_Set_outcome:
  assumes "cache_inv (gparent s)" "key \<noteq> []" "gas_used (gasMeter s) \<le> gas_budget (gasMeter s)"
    and "unat (WriteCostPerByte (gasConfig s)) * (length key + length v) < 2 ^ 64"
    and n: "n = gas_used (gasMeter s) + write_cost (gasConfig s) key v"
  shows "if n \<le> gas_budget (gasMeter s)
    then \<exists>s'. gas_Set key (Some v) s = (Inr (), s') \<and> gas_used (gasMeter s') = n
      \<and> contents (gparent s') = (contents (gparent s))(key \<mapsto> v)
    else \<exists>e s'. gas_Set key (Some v) s = (Inl (GasPanic e), s') \<and> gparent s' = gparent s"
proof -
  have cost: "charges_cost (write_charges key v) (gasConfig s) = write_cost (gasConfig s) key v"
    using per_byte_pair [of "WriteCostPerByte (gasConfig s)" key "Some v"] assms(4)
    by (simp add: charges_cost_def write_charges_def write_cost_def)
  show ?thesis
  proof (cases "n \<le> gas_budget (gasMeter s)")
    case True
    then obtain m where m: "charges (write_charges key v) s = (Inr (), s\<lparr>gasMeter := m\<rparr>)" "gas_used m = n"
      using charges_within [of s "write_charges key v"] cost n by auto
    have "cache_Set key (Some v) (gparent s) = Inr (put_value key v (gparent s))"
      using assms(2) by (simp add: cache_Set_def AssertValidValue_def AssertValidKey_def put_value_def)
    then show ?thesis
      using True m assms(2) cache_store.get_put [of key v "gparent s"]
      by (simp add: gas_Set_charges bindG_def call_parent_def fun_eq_iff)
  next
    case False
    then obtain e m where "charges (write_charges key v) s = (Inl (GasPanic e), s\<lparr>gasMeter := m\<rparr>)"
      using charges_beyond [of s "write_charges key v"] assms(3) cost n by auto
    then show ?thesis using False assms(2) by (simp add: gas_Set_charges bindG_def)
  qed
qed

lemma gas_Get_outcome:
  assumes "cache_inv (gparent s)" "key \<noteq> []" "gas_used (gasMeter s) \<le> gas_budget (gasMeter s)"
    and v: "v = contents (gparent s) key"
    and "unat (ReadCostPerByte (gasConfig s)) * (length key + (case v of None \<Rightarrow> 0 | Some b \<Rightarrow> length b)) < 2 ^ 64"
    and n: "n = gas_used (gasMeter s) + read_cost (gasConfig s) key v"
  shows "if n \<le> gas_budget (gasMeter s)
    then \<exists>s'. gas_Get key s = (Inr v, s') \<and> gas_used (gasMeter s') = n \<and> contents (gparent s') = contents (gparent s)
    else \<exists>e s'. gas_Get key s = (Inl (GasPanic e), s') \<and> contents (gparent s') = contents (gparent s)"
proof -
  let ?flat = "[(ReadCostFlat, ''ReadFlat'')]"
  have cost: "charges_cost ?flat (gasConfig s) + charges_cost (read_charges key v) (gasConfig s) = read_cost (gasConfig s) key v"
    using per_byte_pair [OF assms(5)] by (simp add: charges_cost_def read_charges_def read_cost_def)
  obtain p where p: "cache_Get key (gparent s) = Inr (v, p)" "contents p = contents (gparent s)"
    using cache_Get_refines [OF assms(1,2)] v by blast
  show ?thesis
  proof (cases "gas_used (gasMeter s) + charges_cost ?flat (gasConfig s) \<le> gas_budget (gasMeter s)")
    case True
    then obtain m where m: "charges ?flat s = (Inr (), s\<lparr>gasMeter := m\<rparr>)" "gas_budget m = gas_budget (gasMeter s)"
      "gas_used m = gas_used (gasMeter s) + charges_cost ?flat (gasConfig s)"
      using charges_within by blast
    define t where "t = s\<lparr>gasMeter := m, gparent := p\<rparr>"
    have run: "gas_Get key s = bindG (charges (read_charges key v)) (\<lambda>_. returnG v) t"
      unfolding gas_Get_charges bindG_def [of "charges ?flat"] m(1)
      by (simp add: bindG_def [of "call_parent (cache_Get key)"] call_parent_def p t_def)
    show ?thesis
    proof (cases "n \<le> gas_budget (gasMeter s)")
      case le: True
      then obtain m' where "charges (read_charges key v) t = (Inr (), t\<lparr>gasMeter := m'\<rparr>)" "gas_used m' = n"
        using charges_within [of t "read_charges key v"] m cost n by (auto simp: t_def)
      then show ?thesis using le p(2) unfolding run by (simp add: bindG_def returnG_def t_def)
    next
      case gt: False
      then obtain e m' where "charges (read_charges key v) t = (Inl (GasPanic e), t\<lparr>gasMeter := m'\<rparr>)"
        using charges_beyond [of t "read_charges key v"] m cost n True by (auto simp: t_def)
      then show ?thesis using gt p(2) unfolding run by (simp add: bindG_def t_def)
    qed
  next
    case False
    then obtain e m where "charges ?flat s = (Inl (GasPanic e), s\<lparr>gasMeter := m\<rparr>)"
      using charges_beyond [of s ?flat] assms(3) by auto
    moreover have "\<not> n \<le> gas_budget (gasMeter s)" using False cost n by simp
    ultimately show ?thesis unfolding gas_Get_charges bindG_def [of "charges ?flat"] by simp
  qed
qed

text \<open>
  C40: over a caching store that keeps its invariant, with a meter within its budget and prices
  that do not wrap, a metered write costs the flat price and the price of the bytes of key and
  value. If the budget covers that cost the meter grows by exactly it and the contents
  are updated; otherwise the call panics for gas and the store below is untouched. A
  metered read returns the contents under the same rule, with the price of the bytes it found,
  and never changes the contents.
\<close>

theorem gaskv_pays_for_access:
  assumes "cache_inv (gparent s)" "key \<noteq> []" "gas_used (gasMeter s) \<le> gas_budget (gasMeter s)"
    and "unat (WriteCostPerByte (gasConfig s)) * (length key + length x) < 2 ^ 64"
    and "unat (ReadCostPerByte (gasConfig s)) * (length key + (case contents (gparent s) key of None \<Rightarrow> 0 | Some b \<Rightarrow> length b)) < 2 ^ 64"
  shows "(let n = gas_used (gasMeter s) + write_cost (gasConfig s) key x in
      if n \<le> gas_budget (gasMeter s)
      then \<exists>s'. gas_Set key (Some x) s = (Inr (), s') \<and> gas_used (gasMeter s') = n
        \<and> contents (gparent s') = (contents (gparent s))(key \<mapsto> x)
      else \<exists>e s'. gas_Set key (Some x) s = (Inl (GasPanic e), s') \<and> gparent s' = gparent s)
    \<and> (let v = contents (gparent s) key; n = gas_used (gasMeter s) + read_cost (gasConfig s) key v in
      if n \<le> gas_budget (gasMeter s)
      then \<exists>s'. gas_Get key s = (Inr v, s') \<and> gas_used (gasMeter s') = n \<and> contents (gparent s') = contents (gparent s)
      else \<exists>e s'. gas_Get key s = (Inl (GasPanic e), s') \<and> contents (gparent s') = contents (gparent s))"
  unfolding Let_def
  using gas_Set_outcome [OF assms(1-4) refl] gas_Get_outcome [OF assms(1-3) refl assms(5) refl] by blast

theorem gaskv_pays_for_access_witness:
  "(\<exists>s'. gas_Set ''k'' (Some ''xyz'') (gas_NewStore demo_cache (NewGasMeter 2120) KVGasConfig) = (Inr (), s')
      \<and> gas_used (gasMeter s') = 2120)
   \<and> (\<exists>e s'. gas_Set ''k'' (Some ''xyz'') (gas_NewStore demo_cache (NewGasMeter 2119) KVGasConfig) = (Inl (GasPanic e), s')
      \<and> gparent s' = demo_cache)"
  using gaskv_pays_for_access [of "gas_NewStore demo_cache (NewGasMeter 2120) KVGasConfig" "''k''" "''xyz''"]
    gaskv_pays_for_access [of "gas_NewStore demo_cache (NewGasMeter 2119) KVGasConfig" "''k''" "''xyz''"]
  by (simp add: gas_NewStore_def NewGasMeter_def KVGasConfig_def demo_cache_inv demo_cache_contents
      gas_used_def write_cost_def Let_def) blast

subsection \<open>Iteration pays for the first entry twice\<close>

definition seek_cost :: "GasConfig \<Rightarrow> string \<times> string option \<Rightarrow> nat" where
  "seek_cost config e = unat (per_byte (ReadCostPerByte config) (Some (fst e)))
     + unat (per_byte (ReadCostPerByte config) (snd e)) + unat (IterNextCostFlat config)"

lemma consumeSeekGas_charges:
  "consumeSeekGas (e # it) = charges [(\<lambda>c. per_byte (ReadCostPerByte c) (Some (fst e)), ''ValuePerByte''),
     (\<lambda>c. per_byte (ReadCostPerByte c) (snd e), ''ValuePerByte''), (IterNextCostFlat, ''IterNextFlat'')]"
  by (cases e) (auto simp: consumeSeekGas_def bindG_assoc bindG_def returnG_def fun_eq_iff split: prod.splits sum.splits)

lemma seek_within:
  assumes "gas_used (gasMeter s) + seek_cost (gasConfig s) e \<le> gas_budget (gasMeter s)"
  obtains m where "consumeSeekGas (e # it) s = (Inr (), s\<lparr>gasMeter := m\<rparr>)" "gas_budget m = gas_budget (gasMeter s)"
    "gas_used m = gas_used (gasMeter s) + seek_cost (gasConfig s) e"
proof -
  let ?cs = "[(\<lambda>c. per_byte (ReadCostPerByte c) (Some (fst e)), ''ValuePerByte''),
     (\<lambda>c. per_byte (ReadCostPerByte c) (snd e), ''ValuePerByte''), (IterNextCostFlat, ''IterNextFlat'')]"
  have "charges_cost ?cs (gasConfig s) = seek_cost (gasConfig s) e" by (simp add: charges_cost_def seek_cost_def)
  then show thesis using charges_within [of s ?cs] assms that unfolding consumeSeekGas_charges by auto
qed

lemma gas_loop_cost:
  "gas_used (gasMeter s) + (\<Sum>e\<leftarrow>it. seek_cost (gasConfig s) e) \<le> gas_budget (gasMeter s) \<Longrightarrow>
     \<exists>m. gas_loop (length it) it s = (Inr [], s\<lparr>gasMeter := m\<rparr>)
       \<and> gas_used m = gas_used (gasMeter s) + (\<Sum>e\<leftarrow>it. seek_cost (gasConfig s) e)"
proof (induction it arbitrary: s)
  case Nil
  show ?case by (rule exI [of _ "gasMeter s"]) (simp add: returnG_def)
next
  case (Cons e it)
  then have "gas_used (gasMeter s) + seek_cost (gasConfig s) e \<le> gas_budget (gasMeter s)" by simp
  then obtain m where "consumeSeekGas (e # it) s = (Inr (), s\<lparr>gasMeter := m\<rparr>)" "gas_budget m = gas_budget (gasMeter s)"
    "gas_used m = gas_used (gasMeter s) + seek_cost (gasConfig s) e" by (rule seek_within)
  then show ?case
    using Cons.IH [of "s\<lparr>gasMeter := m\<rparr>"] Cons.prems by (simp add: gas_Next_def bindG_def returnG_def ac_simps)
qed

end
