(* ===== verification/Account.thy ===== *)
theory Account
  imports Address SdkInt
begin

section \<open>Accounts: x/auth/types/account.go, permissions.go\<close>

text \<open>
  Base accounts and module accounts. An account keeps its address as text. A public key is
  represented by the address it hashes to, which is all the methods here read of it; the hash
  of a module's name is a function of a third-party package and a parameter. The YAML and JSON
  encodings are not modelled.
\<close>

record BaseAccount =
  AccountAddress :: string
  PubKey :: "AccAddress option"
  AccountNumber :: uint64
  Sequence :: uint64

definition ProtoBaseAccount :: BaseAccount where
  "ProtoBaseAccount = \<lparr>AccountAddress = [], PubKey = None, AccountNumber = 0, Sequence = 0\<rparr>"

definition NewBaseAccount :: "Config \<Rightarrow> AccAddress \<Rightarrow> AccAddress option \<Rightarrow> uint64 \<Rightarrow> uint64 \<Rightarrow> BaseAccount result" where
  "NewBaseAccount cfg address pubKey accountNumber seq =
     bindE (AccAddress_String cfg address) (\<lambda>s.
       Inr \<lparr>AccountAddress = s, PubKey = pubKey, AccountNumber = accountNumber, Sequence = seq\<rparr>)"

definition NewBaseAccountWithAddress :: "Config \<Rightarrow> AccAddress \<Rightarrow> BaseAccount result" where
  "NewBaseAccountWithAddress cfg addr =
     bindE (AccAddress_String cfg addr) (\<lambda>s. Inr (ProtoBaseAccount\<lparr>AccountAddress := s\<rparr>))"

text \<open>The error of the decoder is dropped; the address is then nil.\<close>

definition GetAddress :: "Config \<Rightarrow> BaseAccount \<Rightarrow> AccAddress" where
  "GetAddress cfg acc = (case AccAddressFromBech32 cfg (AccountAddress acc) of Inl _ \<Rightarrow> [] | Inr a \<Rightarrow> a)"

definition SetAddress :: "Config \<Rightarrow> AccAddress \<Rightarrow> BaseAccount \<Rightarrow> BaseAccount result" where
  "SetAddress cfg addr acc =
     (if length (AccountAddress acc) \<noteq> 0 then Inl (Error ErrPlain ''cannot override BaseAccount address'')
      else bindE (AccAddress_String cfg addr) (\<lambda>s. Inr (acc\<lparr>AccountAddress := s\<rparr>)))"

definition SetAccountNumber :: "uint64 \<Rightarrow> BaseAccount \<Rightarrow> BaseAccount" where
  "SetAccountNumber accNumber acc = acc\<lparr>AccountNumber := accNumber\<rparr>"

definition SetSequence :: "uint64 \<Rightarrow> BaseAccount \<Rightarrow> BaseAccount" where
  "SetSequence seq acc = acc\<lparr>Sequence := seq\<rparr>"

definition BaseAccount_Validate :: "Config \<Rightarrow> BaseAccount \<Rightarrow> unit result" where
  "BaseAccount_Validate cfg acc =
     (if AccountAddress acc = [] then Inr ()
      else case PubKey acc of
        None \<Rightarrow> Inr ()
      | Some key \<Rightarrow>
          bindE (AccAddressFromBech32 cfg (AccountAddress acc)) (\<lambda>accAddr.
            guardE (key = accAddr) (Error ErrPlain ''account address and pubkey address do not match'')))"

subsection \<open>Module accounts\<close>

record ModuleAccount =
  ModuleBase :: BaseAccount
  ModuleName :: string
  ModulePermissions :: "string list"

record PermissionsForAddress =
  permissions :: "string list"
  perm_address :: AccAddress

definition Minter :: string where "Minter = ''minter''"

definition Burner :: string where "Burner = ''burner''"

definition Staking :: string where "Staking = ''staking''"

definition NewModuleAddress :: "(string \<Rightarrow> AccAddress) \<Rightarrow> string \<Rightarrow> AccAddress" where
  "NewModuleAddress hash name = hash name"

definition validatePermissions :: "string list \<Rightarrow> unit result" where
  "validatePermissions perms =
     guardE (\<not> list_ex (\<lambda>perm. TrimSpace perm = []) perms) (Error ErrPlain ''module permission is empty'')"

definition NewEmptyModuleAccount :: "Config \<Rightarrow> (string \<Rightarrow> AccAddress) \<Rightarrow> string \<Rightarrow> string list \<Rightarrow> ModuleAccount result" where
  "NewEmptyModuleAccount cfg hash name perms =
     bindE (NewBaseAccountWithAddress cfg (NewModuleAddress hash name)) (\<lambda>baseAcc.
       case validatePermissions perms of
         Inl _ \<Rightarrow> Inl (Panic ''module permission is empty'')
       | Inr _ \<Rightarrow> Inr \<lparr>ModuleBase = baseAcc, ModuleName = name, ModulePermissions = perms\<rparr>)"

definition NewModuleAccount :: "BaseAccount \<Rightarrow> string \<Rightarrow> string list \<Rightarrow> ModuleAccount result" where
  "NewModuleAccount ba name perms =
     (case validatePermissions perms of
        Inl _ \<Rightarrow> Inl (Panic ''module permission is empty'')
      | Inr _ \<Rightarrow> Inr \<lparr>ModuleBase = ba, ModuleName = name, ModulePermissions = perms\<rparr>)"

definition HasPermission :: "ModuleAccount \<Rightarrow> string \<Rightarrow> bool" where
  "HasPermission ma permission \<longleftrightarrow> list_ex (\<lambda>perm. perm = permission) (ModulePermissions ma)"

definition ModuleAccount_Validate :: "Config \<Rightarrow> (string \<Rightarrow> AccAddress) \<Rightarrow> ModuleAccount \<Rightarrow> unit result" where
  "ModuleAccount_Validate cfg hash ma =
     (if TrimSpace (ModuleName ma) = [] then Inl (Error ErrPlain ''module account name cannot be blank'')
      else bindE (AccAddress_String cfg (hash (ModuleName ma))) (\<lambda>s.
        if AccountAddress (ModuleBase ma) \<noteq> s
        then Inl (Error ErrPlain ''address cannot be derived from the module name'')
        else BaseAccount_Validate cfg (ModuleBase ma)))"

definition NewPermissionsForAddress :: "(string \<Rightarrow> AccAddress) \<Rightarrow> string \<Rightarrow> string list \<Rightarrow> PermissionsForAddress" where
  "NewPermissionsForAddress hash name perms = \<lparr>permissions = perms, perm_address = NewModuleAddress hash name\<rparr>"

definition PermissionsForAddress_HasPermission :: "PermissionsForAddress \<Rightarrow> string \<Rightarrow> bool" where
  "PermissionsForAddress_HasPermission pa permission \<longleftrightarrow> list_ex (\<lambda>perm. perm = permission) (permissions pa)"

end
