(* ===== verification/Vesting.thy ===== *)
theory Vesting
  imports Account Coin Decimal
begin

section \<open>Vesting accounts: x/auth/vesting/types\<close>

text \<open>
  The four kinds of vesting accounts over their common base, which holds the original vesting
  coins and what of them is delegated. A block time is given in nanoseconds since January 1 of
  year 1; the schedules read it in seconds since 1970, an \<open>int64\<close>, and compute with it in the
  same width. A nil set of coins is an empty one. The YAML encoding is not modelled.
\<close>

record BaseVestingAccount =
  vBaseAccount :: BaseAccount
  OriginalVesting :: Coins
  DelegatedFree :: Coins
  DelegatedVesting :: Coins
  EndTime :: int64

record Period =
  Length :: int64
  PeriodAmount :: Coins

type_synonym Periods = "Period list"

datatype VestingAccount =
    ContinuousVestingAccount BaseVestingAccount int64
  | PeriodicVestingAccount BaseVestingAccount int64 Periods
  | DelayedVestingAccount BaseVestingAccount
  | PermanentLockedAccount BaseVestingAccount

definition Unix :: "int \<Rightarrow> int64" where
  "Unix t = word_of_int (t div 10 ^ 9 - 62135596800)"

subsection \<open>Periods: period.go\<close>

definition Period_Duration :: "Period \<Rightarrow> int64" where
  "Period_Duration p = Length p * 1000000000"

definition TotalLength :: "Periods \<Rightarrow> int64" where
  "TotalLength ps = foldl (\<lambda>total p. total + Length p) 0 ps"

definition TotalDuration :: "Periods \<Rightarrow> int64" where
  "TotalDuration ps = TotalLength ps * 1000000000"

definition TotalAmount :: "Periods \<Rightarrow> Coins result" where
  "TotalAmount ps = foldE (\<lambda>p total. Coins_Add total (PeriodAmount p)) ps []"

subsection \<open>The base: vesting_account.go\<close>

definition NewBaseVestingAccount :: "BaseAccount \<Rightarrow> Coins \<Rightarrow> int64 \<Rightarrow> BaseVestingAccount" where
  "NewBaseVestingAccount baseAccount originalVesting endTime =
     \<lparr>vBaseAccount = baseAccount, OriginalVesting = originalVesting, DelegatedFree = [], DelegatedVesting = [],
      EndTime = endTime\<rparr>"

definition LockedCoinsFromVesting :: "BaseVestingAccount \<Rightarrow> Coins \<Rightarrow> Coins result" where
  "LockedCoinsFromVesting bva vestingCoins =
     bindE (Coins_Min vestingCoins (DelegatedVesting bva)) (\<lambda>m. Coins_Sub vestingCoins m)"

text \<open>
  The amounts of the two parts of a delegation: a part that is zero leaves the coins as they
  are, another is added to them or taken from them.
\<close>

definition add_nonzero :: "string \<Rightarrow> SdkInt \<Rightarrow> Coins \<Rightarrow> Coins result" where
  "add_nonzero denom x coins =
     (if Int_IsZero x then Inr coins else bindE (NewCoin denom x) (\<lambda>xCoin. Coins_Add coins [xCoin]))"

definition sub_nonzero :: "string \<Rightarrow> SdkInt \<Rightarrow> Coins \<Rightarrow> Coins result" where
  "sub_nonzero denom x coins =
     (if Int_IsZero x then Inr coins else bindE (NewCoin denom x) (\<lambda>xCoin. Coins_Sub coins [xCoin]))"

text \<open>One round of the loop of \<open>TrackDelegation\<close>: the coin is split into a vesting and a free part.\<close>

definition track_delegation_coin :: "Coins \<Rightarrow> Coins \<Rightarrow> Coin \<Rightarrow> BaseVestingAccount \<Rightarrow> BaseVestingAccount result" where
  "track_delegation_coin balance vestingCoins coin bva =
     bindE (Coins_AmountOf balance (Denom coin)) (\<lambda>baseAmt.
     bindE (Coins_AmountOf vestingCoins (Denom coin)) (\<lambda>vestingAmt.
     bindE (Coins_AmountOf (DelegatedVesting bva) (Denom coin)) (\<lambda>delVestingAmt.
     if Int_IsZero (Amount coin) \<or> baseAmt < Amount coin
     then Inl (Panic ''delegation attempt with zero coins or insufficient funds'')
     else
       bindE (Int_Sub vestingAmt delVestingAmt) (\<lambda>left.
       let x = MinInt (MaxInt left 0) (Amount coin) in
       bindE (Int_Sub (Amount coin) x) (\<lambda>y.
       bindE (add_nonzero (Denom coin) x (DelegatedVesting bva)) (\<lambda>dv.
       bindE (add_nonzero (Denom coin) y (DelegatedFree bva)) (\<lambda>df.
         Inr (bva\<lparr>DelegatedVesting := dv, DelegatedFree := df\<rparr>))))))))"

definition Base_TrackDelegation :: "Coins \<Rightarrow> Coins \<Rightarrow> Coins \<Rightarrow> BaseVestingAccount \<Rightarrow> BaseVestingAccount result" where
  "Base_TrackDelegation balance vestingCoins amount bva = foldE (track_delegation_coin balance vestingCoins) amount bva"

definition track_undelegation_coin :: "Coin \<Rightarrow> BaseVestingAccount \<Rightarrow> BaseVestingAccount result" where
  "track_undelegation_coin coin bva =
     (if Int_IsZero (Amount coin) then Inl (Panic ''undelegation attempt with zero coins'')
      else
       bindE (Coins_AmountOf (DelegatedFree bva) (Denom coin)) (\<lambda>delegatedFree.
       bindE (Coins_AmountOf (DelegatedVesting bva) (Denom coin)) (\<lambda>delegatedVesting.
       let x = MinInt delegatedFree (Amount coin) in
       bindE (Int_Sub (Amount coin) x) (\<lambda>left.
       let y = MinInt delegatedVesting left in
       bindE (sub_nonzero (Denom coin) x (DelegatedFree bva)) (\<lambda>df.
       bindE (sub_nonzero (Denom coin) y (DelegatedVesting bva)) (\<lambda>dv.
         Inr (bva\<lparr>DelegatedFree := df, DelegatedVesting := dv\<rparr>)))))))"

definition Base_TrackUndelegation :: "Coins \<Rightarrow> BaseVestingAccount \<Rightarrow> BaseVestingAccount result" where
  "Base_TrackUndelegation amount bva = foldE track_undelegation_coin amount bva"

definition Base_Validate :: "Config \<Rightarrow> BaseVestingAccount \<Rightarrow> unit result" where
  "Base_Validate cfg bva =
     bindE (Coins_IsAllLTE (DelegatedVesting bva) (OriginalVesting bva)) (\<lambda>le.
       if \<not> le then Inl (Error ErrPlain ''delegated vesting amount cannot be greater than original vesting amount'')
       else BaseAccount_Validate cfg (vBaseAccount bva))"

subsection \<open>Construction\<close>

text \<open>The constructors that leave the delegated coins nil.\<close>

definition base_without_delegations :: "BaseAccount \<Rightarrow> Coins \<Rightarrow> int64 \<Rightarrow> BaseVestingAccount" where
  "base_without_delegations baseAcc originalVesting endTime =
     \<lparr>vBaseAccount = baseAcc, OriginalVesting = originalVesting, DelegatedFree = [], DelegatedVesting = [],
      EndTime = endTime\<rparr>"

definition NewContinuousVestingAccountRaw :: "BaseVestingAccount \<Rightarrow> int64 \<Rightarrow> VestingAccount" where
  "NewContinuousVestingAccountRaw bva startTime = ContinuousVestingAccount bva startTime"

definition NewContinuousVestingAccount :: "BaseAccount \<Rightarrow> Coins \<Rightarrow> int64 \<Rightarrow> int64 \<Rightarrow> VestingAccount" where
  "NewContinuousVestingAccount baseAcc originalVesting startTime endTime =
     ContinuousVestingAccount (base_without_delegations baseAcc originalVesting endTime) startTime"

definition NewPeriodicVestingAccountRaw :: "BaseVestingAccount \<Rightarrow> int64 \<Rightarrow> Periods \<Rightarrow> VestingAccount" where
  "NewPeriodicVestingAccountRaw bva startTime periods = PeriodicVestingAccount bva startTime periods"

definition NewPeriodicVestingAccount :: "BaseAccount \<Rightarrow> Coins \<Rightarrow> int64 \<Rightarrow> Periods \<Rightarrow> VestingAccount" where
  "NewPeriodicVestingAccount baseAcc originalVesting startTime periods =
     (let endTime = foldl (\<lambda>e p. e + Length p) startTime periods in
      PeriodicVestingAccount (base_without_delegations baseAcc originalVesting endTime) startTime periods)"

definition NewDelayedVestingAccountRaw :: "BaseVestingAccount \<Rightarrow> VestingAccount" where
  "NewDelayedVestingAccountRaw bva = DelayedVestingAccount bva"

definition NewDelayedVestingAccount :: "BaseAccount \<Rightarrow> Coins \<Rightarrow> int64 \<Rightarrow> VestingAccount" where
  "NewDelayedVestingAccount baseAcc originalVesting endTime =
     DelayedVestingAccount (base_without_delegations baseAcc originalVesting endTime)"

definition NewPermanentLockedAccount :: "BaseAccount \<Rightarrow> Coins \<Rightarrow> VestingAccount" where
  "NewPermanentLockedAccount baseAcc coins = PermanentLockedAccount (base_without_delegations baseAcc coins 0)"

subsection \<open>Schedules\<close>

definition Continuous_GetVestedCoins :: "BaseVestingAccount \<Rightarrow> int64 \<Rightarrow> int \<Rightarrow> Coins result" where
  "Continuous_GetVestedCoins bva startTime blockTime =
     (if sint (Unix blockTime) \<le> sint startTime then Inr []
      else if sint (Unix blockTime) \<ge> sint (EndTime bva) then Inr (OriginalVesting bva)
      else
        bindE (NewDec (Unix blockTime - startTime)) (\<lambda>x.
        bindE (NewDec (EndTime bva - startTime)) (\<lambda>y.
        bindE (Dec_Quo x y) (\<lambda>s.
        mapE (\<lambda>ovc.
          bindE (NewDecFromInt (Amount ovc)) (\<lambda>d.
          bindE (Dec_Mul d s) (\<lambda>m.
          bindE (Dec_RoundInt m) (\<lambda>vestedAmt. NewCoin (Denom ovc) vestedAmt)))) (OriginalVesting bva)))))"

fun vested_periods :: "int64 \<Rightarrow> int64 \<Rightarrow> Periods \<Rightarrow> Coins \<Rightarrow> Coins result" where
  "vested_periods now currentPeriodStartTime [] vestedCoins = Inr vestedCoins"
| "vested_periods now currentPeriodStartTime (period # ps) vestedCoins =
     (if sint (now - currentPeriodStartTime) < sint (Length period) then Inr vestedCoins
      else bindE (Coins_Add vestedCoins (PeriodAmount period)) (\<lambda>v.
        vested_periods now (currentPeriodStartTime + Length period) ps v))"

definition Periodic_GetVestedCoins :: "BaseVestingAccount \<Rightarrow> int64 \<Rightarrow> Periods \<Rightarrow> int \<Rightarrow> Coins result" where
  "Periodic_GetVestedCoins bva startTime periods blockTime =
     (if sint (Unix blockTime) \<le> sint startTime then Inr []
      else if sint (Unix blockTime) \<ge> sint (EndTime bva) then Inr (OriginalVesting bva)
      else vested_periods (Unix blockTime) startTime periods [])"

definition Delayed_GetVestedCoins :: "BaseVestingAccount \<Rightarrow> int \<Rightarrow> Coins result" where
  "Delayed_GetVestedCoins bva blockTime =
     (if sint (Unix blockTime) \<ge> sint (EndTime bva) then Inr (OriginalVesting bva) else Inr [])"

fun GetVestedCoins :: "VestingAccount \<Rightarrow> int \<Rightarrow> Coins result" where
  "GetVestedCoins (ContinuousVestingAccount bva startTime) t = Continuous_GetVestedCoins bva startTime t"
| "GetVestedCoins (PeriodicVestingAccount bva startTime periods) t = Periodic_GetVestedCoins bva startTime periods t"
| "GetVestedCoins (DelayedVestingAccount bva) t = Delayed_GetVestedCoins bva t"
| "GetVestedCoins (PermanentLockedAccount bva) t = Inr []"

fun vesting_base :: "VestingAccount \<Rightarrow> BaseVestingAccount" where
  "vesting_base (ContinuousVestingAccount bva startTime) = bva"
| "vesting_base (PeriodicVestingAccount bva startTime periods) = bva"
| "vesting_base (DelayedVestingAccount bva) = bva"
| "vesting_base (PermanentLockedAccount bva) = bva"

fun with_base :: "BaseVestingAccount \<Rightarrow> VestingAccount \<Rightarrow> VestingAccount" where
  "with_base b (ContinuousVestingAccount bva startTime) = ContinuousVestingAccount b startTime"
| "with_base b (PeriodicVestingAccount bva startTime periods) = PeriodicVestingAccount b startTime periods"
| "with_base b (DelayedVestingAccount bva) = DelayedVestingAccount b"
| "with_base b (PermanentLockedAccount bva) = PermanentLockedAccount b"

text \<open>Three of the kinds take the vested coins from the original ones; the fourth vests nothing.\<close>

fun GetVestingCoins :: "VestingAccount \<Rightarrow> int \<Rightarrow> Coins result" where
  "GetVestingCoins (PermanentLockedAccount bva) t = Inr (OriginalVesting bva)"
| "GetVestingCoins va t =
     bindE (GetVestedCoins va t) (\<lambda>vested. Coins_Sub (OriginalVesting (vesting_base va)) vested)"

definition vesting_LockedCoins :: "VestingAccount \<Rightarrow> int \<Rightarrow> Coins result" where
  "vesting_LockedCoins va t =
     bindE (GetVestingCoins va t) (\<lambda>vestingCoins. LockedCoinsFromVesting (vesting_base va) vestingCoins)"

definition TrackDelegation :: "int \<Rightarrow> Coins \<Rightarrow> Coins \<Rightarrow> VestingAccount \<Rightarrow> VestingAccount result" where
  "TrackDelegation t balance amount va =
     bindE (GetVestingCoins va t) (\<lambda>vestingCoins.
     bindE (Base_TrackDelegation balance vestingCoins amount (vesting_base va)) (\<lambda>b. Inr (with_base b va)))"

definition TrackUndelegation :: "Coins \<Rightarrow> VestingAccount \<Rightarrow> VestingAccount result" where
  "TrackUndelegation amount va =
     bindE (Base_TrackUndelegation amount (vesting_base va)) (\<lambda>b. Inr (with_base b va))"

fun GetStartTime :: "VestingAccount \<Rightarrow> int64" where
  "GetStartTime (ContinuousVestingAccount bva startTime) = startTime"
| "GetStartTime (PeriodicVestingAccount bva startTime periods) = startTime"
| "GetStartTime (DelayedVestingAccount bva) = 0"
| "GetStartTime (PermanentLockedAccount bva) = 0"

fun GetEndTime :: "VestingAccount \<Rightarrow> int64" where
  "GetEndTime (PermanentLockedAccount bva) = 0"
| "GetEndTime va = EndTime (vesting_base va)"

subsection \<open>Validation\<close>

definition Continuous_Validate :: "Config \<Rightarrow> BaseVestingAccount \<Rightarrow> int64 \<Rightarrow> unit result" where
  "Continuous_Validate cfg bva startTime =
     (if sint startTime \<ge> sint (EndTime bva) then Inl (Error ErrPlain ''vesting start-time cannot be before end-time'')
      else Base_Validate cfg bva)"

definition Periodic_Validate :: "Config \<Rightarrow> BaseVestingAccount \<Rightarrow> int64 \<Rightarrow> Periods \<Rightarrow> unit result" where
  "Periodic_Validate cfg bva startTime periods =
     (if sint startTime \<ge> sint (EndTime bva) then Inl (Error ErrPlain ''vesting start-time cannot be before end-time'')
      else
        bindE (foldE (\<lambda>p (endTime, ov). bindE (Coins_Add ov (PeriodAmount p)) (\<lambda>ov'. Inr (endTime + Length p, ov')))
          periods (startTime, [])) (\<lambda>(endTime, originalVesting).
        if endTime \<noteq> EndTime bva
        then Inl (Error ErrPlain ''vesting end time does not match length of all vesting periods'')
        else bindE (Coins_IsEqual originalVesting (OriginalVesting bva)) (\<lambda>eq.
          if \<not> eq
          then Inl (Error ErrPlain ''original vesting coins does not match the sum of all coins in vesting periods'')
          else Base_Validate cfg bva)))"

definition Permanent_Validate :: "Config \<Rightarrow> BaseVestingAccount \<Rightarrow> unit result" where
  "Permanent_Validate cfg bva =
     (if sint (EndTime bva) > 0 then Inl (Error ErrPlain ''permanently vested accounts cannot have an end-time'')
      else Base_Validate cfg bva)"

fun vesting_Validate :: "Config \<Rightarrow> VestingAccount \<Rightarrow> unit result" where
  "vesting_Validate cfg (ContinuousVestingAccount bva startTime) = Continuous_Validate cfg bva startTime"
| "vesting_Validate cfg (PeriodicVestingAccount bva startTime periods) = Periodic_Validate cfg bva startTime periods"
| "vesting_Validate cfg (DelayedVestingAccount bva) = Base_Validate cfg bva"
| "vesting_Validate cfg (PermanentLockedAccount bva) = Permanent_Validate cfg bva"

end
