(* ===== verification/AccountKeeper.thy ===== *)
theory AccountKeeper
  imports Vesting Store
begin

section \<open>The account keeper: x/auth/keeper\<close>

text \<open>
  Accounts by address, as one ordered section of the store, and the counter of account numbers.
  The prototype of a new account is the base account, as the application configures it. The
  codec is lossless, so the section holds the accounts themselves.
\<close>

datatype Account = BaseAcc BaseAccount | ModuleAcc ModuleAccount | VestingAcc VestingAccount

fun account_base :: "Account \<Rightarrow> BaseAccount" where
  "account_base (BaseAcc b) = b"
| "account_base (ModuleAcc m) = ModuleBase m"
| "account_base (VestingAcc v) = vBaseAccount (vesting_base v)"

fun with_number :: "uint64 \<Rightarrow> Account \<Rightarrow> Account" where
  "with_number n (BaseAcc b) = BaseAcc (SetAccountNumber n b)"
| "with_number n (ModuleAcc m) = ModuleAcc (m\<lparr>ModuleBase := SetAccountNumber n (ModuleBase m)\<rparr>)"
| "with_number n (VestingAcc v) =
     VestingAcc (with_base ((vesting_base v)\<lparr>vBaseAccount := SetAccountNumber n (vBaseAccount (vesting_base v))\<rparr>) v)"

record AccountKeeper =
  addr_cfg :: Config
  AddressHash :: "string \<Rightarrow> AccAddress"
  permAddrs :: "string \<Rightarrow> PermissionsForAddress option"

definition NewAccountKeeper :: "Config \<Rightarrow> (string \<Rightarrow> AccAddress) \<Rightarrow> (string \<Rightarrow> string list option) \<Rightarrow> AccountKeeper" where
  "NewAccountKeeper cfg hash maccPerms =
     \<lparr>addr_cfg = cfg, AddressHash = hash,
      permAddrs = (\<lambda>name. map_option (NewPermissionsForAddress hash name) (maccPerms name))\<rparr>"

record AuthState =
  accounts :: "(AccAddress, Account) store"
  globalAccountNumber :: "uint64 option"

definition HasAccount :: "AuthState \<Rightarrow> AccAddress \<Rightarrow> bool" where
  "HasAccount s addr \<longleftrightarrow> store_get (accounts s) addr \<noteq> None"

definition GetAccount :: "AuthState \<Rightarrow> AccAddress \<Rightarrow> Account option" where
  "GetAccount s addr = store_get (accounts s) addr"

definition GetAllAccounts :: "AuthState \<Rightarrow> Account list" where
  "GetAllAccounts s = map snd (accounts s)"

definition SetAccount :: "AccountKeeper \<Rightarrow> Account \<Rightarrow> AuthState \<Rightarrow> AuthState" where
  "SetAccount ak acc s = s\<lparr>accounts := store_set (GetAddress (addr_cfg ak) (account_base acc)) acc (accounts s)\<rparr>"

definition RemoveAccount :: "AccountKeeper \<Rightarrow> Account \<Rightarrow> AuthState \<Rightarrow> AuthState" where
  "RemoveAccount ak acc s = s\<lparr>accounts := store_delete (GetAddress (addr_cfg ak) (account_base acc)) (accounts s)\<rparr>"

definition GetPubKey_at :: "AuthState \<Rightarrow> AccAddress \<Rightarrow> AccAddress option result" where
  "GetPubKey_at s addr =
     (case GetAccount s addr of
        None \<Rightarrow> Inl (Error ErrUnknownAddress ''account does not exist'') | Some acc \<Rightarrow> Inr (PubKey (account_base acc)))"

definition GetSequence_at :: "AuthState \<Rightarrow> AccAddress \<Rightarrow> uint64 result" where
  "GetSequence_at s addr =
     (case GetAccount s addr of
        None \<Rightarrow> Inl (Error ErrUnknownAddress ''account does not exist'') | Some acc \<Rightarrow> Inr (Sequence (account_base acc)))"

definition GetNextAccountNumber :: "AuthState \<Rightarrow> uint64 \<times> AuthState" where
  "GetNextAccountNumber s =
     (let accNumber = (case globalAccountNumber s of None \<Rightarrow> 0 | Some n \<Rightarrow> n) in
      (accNumber, s\<lparr>globalAccountNumber := Some (accNumber + 1)\<rparr>))"

definition NewAccount :: "Account \<Rightarrow> AuthState \<Rightarrow> Account \<times> AuthState" where
  "NewAccount acc s = (let (n, s') = GetNextAccountNumber s in (with_number n acc, s'))"

definition NewAccountWithAddress :: "AccountKeeper \<Rightarrow> AccAddress \<Rightarrow> AuthState \<Rightarrow> (Account \<times> AuthState) result" where
  "NewAccountWithAddress ak addr s =
     (case SetAddress (addr_cfg ak) addr ProtoBaseAccount of
        Inl _ \<Rightarrow> Inl (Panic ''SetAddress'') | Inr b \<Rightarrow> Inr (NewAccount (BaseAcc b) s))"

subsection \<open>Module accounts\<close>

definition ValidatePermissions :: "AccountKeeper \<Rightarrow> ModuleAccount \<Rightarrow> unit result" where
  "ValidatePermissions ak macc =
     (let permAddr = (case permAddrs ak (ModuleName macc) of
        None \<Rightarrow> \<lparr>permissions = [], perm_address = []\<rparr> | Some pa \<Rightarrow> pa) in
      guardE (list_all (PermissionsForAddress_HasPermission permAddr) (ModulePermissions macc))
        (Error ErrPlain ''invalid module permission''))"

definition GetModuleAddress :: "AccountKeeper \<Rightarrow> string \<Rightarrow> AccAddress" where
  "GetModuleAddress ak moduleName = (case permAddrs ak moduleName of None \<Rightarrow> [] | Some pa \<Rightarrow> perm_address pa)"

definition GetModuleAddressAndPermissions :: "AccountKeeper \<Rightarrow> string \<Rightarrow> AccAddress \<times> string list" where
  "GetModuleAddressAndPermissions ak moduleName =
     (case permAddrs ak moduleName of None \<Rightarrow> ([], []) | Some pa \<Rightarrow> (perm_address pa, permissions pa))"

definition SetModuleAccount :: "AccountKeeper \<Rightarrow> Account \<Rightarrow> AuthState \<Rightarrow> AuthState" where
  "SetModuleAccount ak macc s = SetAccount ak macc s"

definition GetModuleAccountAndPermissions :: "AccountKeeper \<Rightarrow> string \<Rightarrow> AuthState
    \<Rightarrow> (ModuleAccount option \<times> string list \<times> AuthState) result" where
  "GetModuleAccountAndPermissions ak moduleName s =
     (let (addr, perms) = GetModuleAddressAndPermissions ak moduleName in
      if addr = [] then Inr (None, [], s)
      else case GetAccount s addr of
        Some (ModuleAcc macc) \<Rightarrow> Inr (Some macc, perms, s)
      | Some _ \<Rightarrow> Inl (Panic ''account is not a module account'')
      | None \<Rightarrow>
          bindE (NewEmptyModuleAccount (addr_cfg ak) (AddressHash ak) moduleName perms) (\<lambda>macc.
            case NewAccount (ModuleAcc macc) s of
              (ModuleAcc maccI, s1) \<Rightarrow> Inr (Some maccI, perms, SetModuleAccount ak (ModuleAcc maccI) s1)
            | _ \<Rightarrow> Inl (Panic ''interface conversion'')))"

definition GetModuleAccount :: "AccountKeeper \<Rightarrow> string \<Rightarrow> AuthState \<Rightarrow> (ModuleAccount option \<times> AuthState) result" where
  "GetModuleAccount ak moduleName s =
     bindE (GetModuleAccountAndPermissions ak moduleName s) (\<lambda>(acc, _, s'). Inr (acc, s'))"

end
