(* ===== verification/Bank.thy ===== *)
theory Bank
  imports AccountKeeper
begin

section \<open>The bank keeper: x/bank/keeper\<close>

text \<open>
  The state holds one ordered section of the store per key prefix: balances under the length
  prefixed address followed by the denomination, the supply by denomination, the metadata by
  its base denomination written twice. Beside them are the parameters, the accounts of the
  account keeper and the events in the order they are emitted. The block time is an
  argument of what reads it. Logs and telemetry are not modelled. On an error or panic the
  caller discards the state.
\<close>

type_synonym Event = "string \<times> (string \<times> string) list"

record SendEnabled =
  EnabledDenom :: string
  Enabled :: bool

record Params =
  SendEnabledParams :: "SendEnabled list"
  DefaultSendEnabled :: bool

record DenomUnit =
  UnitDenom :: string
  Exponent :: "32 word"
  Aliases :: "string list"

record Metadata =
  DenomUnits :: "DenomUnit list"
  Base :: string
  Display :: string
  MetadataName :: string
  Symbol :: string

record BankState =
  bank_balances :: "(string, Coin) store"
  bank_supply :: "(string, SdkInt) store"
  bank_metadata :: "(string, Metadata) store"
  bank_params :: Params
  bank_auth :: AuthState
  bank_events :: "Event list"

record BankKeeper =
  bank_ak :: AccountKeeper
  blockedAddrs :: "string \<Rightarrow> bool"
  mintCoinsRestrictionFn :: "Coins \<Rightarrow> unit result"

definition EmitEvents :: "Event list \<Rightarrow> BankState \<Rightarrow> BankState" where
  "EmitEvents es s = s\<lparr>bank_events := bank_events s @ es\<rparr>"

text \<open>The address a printed text of which goes into an event.\<close>

abbreviation addr_text :: "BankKeeper \<Rightarrow> AccAddress \<Rightarrow> string result" where
  "addr_text k \<equiv> AccAddress_String (addr_cfg (bank_ak k))"

definition coins_event :: "BankKeeper \<Rightarrow> string \<Rightarrow> string \<Rightarrow> AccAddress \<Rightarrow> Coins \<Rightarrow> Event result" where
  "coins_event k ty role addr amount =
     bindE (addr_text k addr) (\<lambda>a. Inr (ty, [(role, a), (''amount'', Coins_String amount)]))"

definition NewCoinSpentEvent :: "BankKeeper \<Rightarrow> AccAddress \<Rightarrow> Coins \<Rightarrow> Event result" where
  "NewCoinSpentEvent k spender amount = coins_event k ''coin_spent'' ''spender'' spender amount"

definition NewCoinReceivedEvent :: "BankKeeper \<Rightarrow> AccAddress \<Rightarrow> Coins \<Rightarrow> Event result" where
  "NewCoinReceivedEvent k receiver amount = coins_event k ''coin_received'' ''receiver'' receiver amount"

definition NewCoinMintEvent :: "BankKeeper \<Rightarrow> AccAddress \<Rightarrow> Coins \<Rightarrow> Event result" where
  "NewCoinMintEvent k minter amount = coins_event k ''coinbase'' ''minter'' minter amount"

definition NewCoinBurnEvent :: "BankKeeper \<Rightarrow> AccAddress \<Rightarrow> Coins \<Rightarrow> Event result" where
  "NewCoinBurnEvent k burner amount = coins_event k ''burn'' ''burner'' burner amount"

subsection \<open>Keys: types/key.go\<close>

text \<open>The prefix of an account in the section of the balances.\<close>

definition CreateAccountBalancesPrefix :: "AccAddress \<Rightarrow> string result" where
  "CreateAccountBalancesPrefix addr = MustLengthPrefix addr"

definition AddressFromBalancesStore :: "string \<Rightarrow> AccAddress result" where
  "AddressFromBalancesStore key =
     (case key of
        [] \<Rightarrow> Inl (Error ErrInvalidKey ''invalid key'')
      | addrLen # rest \<Rightarrow>
          if length rest < of_char addrLen then Inl (Error ErrInvalidKey ''invalid key'')
          else Inr (take (of_char addrLen) rest))"

subsection \<open>Views: view.go\<close>

definition GetBalance_bank :: "BankState \<Rightarrow> AccAddress \<Rightarrow> string \<Rightarrow> Coin result" where
  "GetBalance_bank s addr denom =
     bindE (CreateAccountBalancesPrefix addr) (\<lambda>p.
       case store_get (bank_balances s) (p @ denom) of
         None \<Rightarrow> NewCoin denom 0 | Some balance \<Rightarrow> Inr balance)"

definition HasBalance :: "BankState \<Rightarrow> AccAddress \<Rightarrow> Coin \<Rightarrow> bool result" where
  "HasBalance s addr amt = bindE (GetBalance_bank s addr (Denom amt)) (\<lambda>b. Coin_IsGTE b amt)"

text \<open>The balances a prefix iterator walks through, in the order of their keys.\<close>

definition account_balances :: "BankState \<Rightarrow> string \<Rightarrow> Coins" where
  "account_balances s p = map snd (filter (\<lambda>(k, _). take (length p) k = p) (bank_balances s))"

definition GetAllBalances :: "BankState \<Rightarrow> AccAddress \<Rightarrow> Coins result" where
  "GetAllBalances s addr =
     bindE (CreateAccountBalancesPrefix addr) (\<lambda>p.
     bindE (foldE (\<lambda>balance balances. Coins_Add balances [balance]) (account_balances s p) []) (\<lambda>balances.
       Inr (Coins_Sort balances)))"

definition IterateAllBalances :: "BankState \<Rightarrow> (AccAddress \<times> Coin) list result" where
  "IterateAllBalances s =
     mapE (\<lambda>(key, balance).
       case AddressFromBalancesStore key of Inl _ \<Rightarrow> Inl (Panic ''invalid key'') | Inr a \<Rightarrow> Inr (a, balance))
       (bank_balances s)"

definition LockedCoins :: "int \<Rightarrow> BankState \<Rightarrow> AccAddress \<Rightarrow> Coins result" where
  "LockedCoins t s addr =
     (case GetAccount (bank_auth s) addr of Some (VestingAcc vacc) \<Rightarrow> vesting_LockedCoins vacc t | _ \<Rightarrow> Inr [])"

definition spendableCoins :: "int \<Rightarrow> BankState \<Rightarrow> AccAddress \<Rightarrow> (Coins \<times> Coins) result" where
  "spendableCoins t s addr =
     bindE (GetAllBalances s addr) (\<lambda>total.
     bindE (LockedCoins t s addr) (\<lambda>locked.
     bindE (Coins_SafeSub total locked) (\<lambda>(spendable, hasNeg).
       if hasNeg then Inr ([], total) else Inr (spendable, total))))"

definition SpendableCoins :: "int \<Rightarrow> BankState \<Rightarrow> AccAddress \<Rightarrow> Coins result" where
  "SpendableCoins t s addr = bindE (spendableCoins t s addr) (\<lambda>(spendable, _). Inr spendable)"

definition ValidateBalance :: "BankState \<Rightarrow> AccAddress \<Rightarrow> unit result" where
  "ValidateBalance s addr =
     (case GetAccount (bank_auth s) addr of
        None \<Rightarrow> Inl (Error ErrUnknownAddress ''account does not exist'')
      | Some acc \<Rightarrow>
          bindE (GetAllBalances s addr) (\<lambda>balances.
          if \<not> Coins_IsValid balances then Inl (Error ErrPlain ''account balance is invalid'')
          else case acc of
            VestingAcc vacc \<Rightarrow>
              bindE (Coins_IsAnyGT (OriginalVesting (vesting_base vacc)) balances) (\<lambda>gt.
                guardE (\<not> gt) (Error ErrPlain ''vesting amount cannot be greater than total amount''))
          | _ \<Rightarrow> Inr ()))"

subsection \<open>Sending: send.go\<close>

definition setBalance_bank :: "AccAddress \<Rightarrow> Coin \<Rightarrow> BankState \<Rightarrow> BankState result" where
  "setBalance_bank addr balance s =
     (if \<not> Coin_IsValid balance then Inl (Error ErrInvalidCoins ''balance'')
      else bindE (CreateAccountBalancesPrefix addr) (\<lambda>p.
        if Coin_IsZero balance
        then Inr (s\<lparr>bank_balances := store_delete (p @ Denom balance) (bank_balances s)\<rparr>)
        else Inr (s\<lparr>bank_balances := store_set (p @ Denom balance) balance (bank_balances s)\<rparr>)))"

definition sub_unlocked_coin :: "AccAddress \<Rightarrow> Coins \<Rightarrow> Coin \<Rightarrow> BankState \<Rightarrow> BankState result" where
  "sub_unlocked_coin addr lockedCoins coin s =
     bindE (GetBalance_bank s addr (Denom coin)) (\<lambda>balance.
     bindE (Coins_AmountOf lockedCoins (Denom coin)) (\<lambda>l.
     bindE (NewCoin (Denom coin) l) (\<lambda>locked.
     bindE (Coin_Sub balance locked) (\<lambda>spendable.
     bindE (Coins_SafeSub [spendable] [coin]) (\<lambda>(_, hasNeg).
     if hasNeg then Inl (Error ErrInsufficientFunds ''spendable balance is smaller'')
     else bindE (Coin_Sub balance coin) (\<lambda>newBalance. setBalance_bank addr newBalance s))))))"

definition subUnlockedCoins :: "BankKeeper \<Rightarrow> int \<Rightarrow> AccAddress \<Rightarrow> Coins \<Rightarrow> BankState \<Rightarrow> BankState result" where
  "subUnlockedCoins k t addr amt s =
     (if \<not> Coins_IsValid amt then Inl (Error ErrInvalidCoins ''amount'')
      else
        bindE (LockedCoins t s addr) (\<lambda>lockedCoins.
        bindE (foldE (sub_unlocked_coin addr lockedCoins) amt s) (\<lambda>s1.
        bindE (NewCoinSpentEvent k addr amt) (\<lambda>e. Inr (EmitEvents [e] s1)))))"

definition add_coin :: "AccAddress \<Rightarrow> Coin \<Rightarrow> BankState \<Rightarrow> BankState result" where
  "add_coin addr coin s =
     bindE (GetBalance_bank s addr (Denom coin)) (\<lambda>balance.
     bindE (Coin_Add balance coin) (\<lambda>newBalance. setBalance_bank addr newBalance s))"

definition addCoins :: "BankKeeper \<Rightarrow> AccAddress \<Rightarrow> Coins \<Rightarrow> BankState \<Rightarrow> BankState result" where
  "addCoins k addr amt s =
     (if \<not> Coins_IsValid amt then Inl (Error ErrInvalidCoins ''amount'')
      else
        bindE (foldE (add_coin addr) amt s) (\<lambda>s1.
        bindE (NewCoinReceivedEvent k addr amt) (\<lambda>e. Inr (EmitEvents [e] s1))))"

text \<open>The account of a recipient is created when there is none.\<close>

definition create_account :: "BankKeeper \<Rightarrow> AccAddress \<Rightarrow> BankState \<Rightarrow> BankState result" where
  "create_account k addr s =
     (if HasAccount (bank_auth s) addr then Inr s
      else bindE (NewAccountWithAddress (bank_ak k) addr (bank_auth s)) (\<lambda>(acc, a).
        Inr (s\<lparr>bank_auth := SetAccount (bank_ak k) acc a\<rparr>)))"

definition SendCoins :: "BankKeeper \<Rightarrow> int \<Rightarrow> AccAddress \<Rightarrow> AccAddress \<Rightarrow> Coins \<Rightarrow> BankState \<Rightarrow> BankState result" where
  "SendCoins k t fromAddr toAddr amt s =
     bindE (subUnlockedCoins k t fromAddr amt s) (\<lambda>s1.
     bindE (addCoins k toAddr amt s1) (\<lambda>s2.
     bindE (create_account k toAddr s2) (\<lambda>s3.
     bindE (addr_text k toAddr) (\<lambda>toText.
     bindE (addr_text k fromAddr) (\<lambda>fromText.
       Inr (EmitEvents
         [(''transfer'', [(''recipient'', toText), (''sender'', fromText), (''amount'', Coins_String amt)]),
          (''message'', [(''sender'', fromText)])] s3))))))"

definition initBalances :: "AccAddress \<Rightarrow> Coins \<Rightarrow> BankState \<Rightarrow> BankState result" where
  "initBalances addr balances s =
     bindE (CreateAccountBalancesPrefix addr) (\<lambda>p.
     foldE (\<lambda>balance s.
       if \<not> Coin_IsValid balance then Inl (Error ErrInvalidCoins ''balance'')
       else if \<not> Coin_IsZero balance
       then Inr (s\<lparr>bank_balances := store_set (p @ Denom balance) balance (bank_balances s)\<rparr>)
       else Inr s) balances s)"

definition SendEnabledDenom :: "Params \<Rightarrow> string \<Rightarrow> bool" where
  "SendEnabledDenom p denom =
     (case filter (\<lambda>pse. EnabledDenom pse = denom) (SendEnabledParams p) of
        [] \<Rightarrow> DefaultSendEnabled p | pse # _ \<Rightarrow> Enabled pse)"

definition SetSendEnabledParam :: "Params \<Rightarrow> string \<Rightarrow> bool \<Rightarrow> Params" where
  "SetSendEnabledParam p denom enabled =
     \<lparr>SendEnabledParams = filter (\<lambda>se. EnabledDenom se \<noteq> denom) (SendEnabledParams p)
        @ [\<lparr>EnabledDenom = denom, Enabled = enabled\<rparr>],
      DefaultSendEnabled = DefaultSendEnabled p\<rparr>"

definition IsSendEnabledCoin :: "BankState \<Rightarrow> Coin \<Rightarrow> bool" where
  "IsSendEnabledCoin s coin = SendEnabledDenom (bank_params s) (Denom coin)"

definition IsSendEnabledCoins :: "BankState \<Rightarrow> Coins \<Rightarrow> unit result" where
  "IsSendEnabledCoins s coins =
     guardE (list_all (IsSendEnabledCoin s) coins) (Error ErrSendDisabled ''transfers are currently disabled'')"

definition BlockedAddr :: "BankKeeper \<Rightarrow> AccAddress \<Rightarrow> bool result" where
  "BlockedAddr k addr = bindE (addr_text k addr) (\<lambda>a. Inr (blockedAddrs k a))"

end
