(* ===== verification/BankModule.thy ===== *)
theory BankModule
  imports Bank
begin

section \<open>Minting and delegation: x/bank/keeper/keeper.go\<close>

text \<open>
  The operations of the bank keeper that the other modules call: supply and metadata, minting
  and burning, delegation and the sends from and to module accounts. The last ones are given
  the \<open>SendCoins\<close> of the keeper they are built on, which bankplus overrides. Pages of the
  supply are not modelled.
\<close>

subsection \<open>Supply: keeper.go\<close>

definition GetSupply_bank :: "BankState \<Rightarrow> string \<Rightarrow> Coin" where
  "GetSupply_bank s denom =
     \<lparr>Denom = denom, Amount = (case store_get (bank_supply s) denom of None \<Rightarrow> 0 | Some amount \<Rightarrow> amount)\<rparr>"

definition HasSupply :: "BankState \<Rightarrow> string \<Rightarrow> bool" where
  "HasSupply s denom \<longleftrightarrow> store_get (bank_supply s) denom \<noteq> None"

definition setSupply_bank :: "Coin \<Rightarrow> BankState \<Rightarrow> BankState" where
  "setSupply_bank coin s =
     (if Coin_IsZero coin then s\<lparr>bank_supply := store_delete (Denom coin) (bank_supply s)\<rparr>
      else s\<lparr>bank_supply := store_set (Denom coin) (Amount coin) (bank_supply s)\<rparr>)"

definition IterateTotalSupply :: "BankState \<Rightarrow> Coins" where
  "IterateTotalSupply s = map (\<lambda>(d, amount). \<lparr>Denom = d, Amount = amount\<rparr>) (bank_supply s)"

definition GetDenomMetaData :: "BankState \<Rightarrow> string \<Rightarrow> Metadata option" where
  "GetDenomMetaData s denom = store_get (bank_metadata s) (denom @ denom)"

definition SetDenomMetaData :: "Metadata \<Rightarrow> BankState \<Rightarrow> BankState" where
  "SetDenomMetaData m s = s\<lparr>bank_metadata := store_set (Base m @ Base m) m (bank_metadata s)\<rparr>"

definition GetAllDenomMetaData :: "BankState \<Rightarrow> Metadata list" where
  "GetAllDenomMetaData s = map snd (bank_metadata s)"

text \<open>A restriction is checked before the ones set earlier.\<close>

definition WithMintCoinsRestriction :: "(Coins \<Rightarrow> unit result) \<Rightarrow> BankKeeper \<Rightarrow> BankKeeper" where
  "WithMintCoinsRestriction check k =
     k\<lparr>mintCoinsRestrictionFn := (\<lambda>coins. bindE (check coins) (\<lambda>_. mintCoinsRestrictionFn k coins))\<rparr>"

text \<open>The module account of a name, with its address; there must be one.\<close>

definition must_module :: "BankKeeper \<Rightarrow> string \<Rightarrow> BankState \<Rightarrow> (ModuleAccount \<times> BankState) result" where
  "must_module k name s =
     bindE (GetModuleAccount (bank_ak k) name (bank_auth s)) (\<lambda>(acc, a).
       case acc of None \<Rightarrow> Inl (Panic ''module account does not exist'') | Some m \<Rightarrow> Inr (m, s\<lparr>bank_auth := a\<rparr>))"

definition must_permit :: "BankKeeper \<Rightarrow> string \<Rightarrow> string \<Rightarrow> BankState \<Rightarrow> (AccAddress \<times> BankState) result" where
  "must_permit k name perm s =
     bindE (must_module k name s) (\<lambda>(m, s1).
       if \<not> HasPermission m perm then Inl (Panic ''module account does not have permissions'')
       else Inr (GetAddress (addr_cfg (bank_ak k)) (ModuleBase m), s1))"

definition MintCoins :: "BankKeeper \<Rightarrow> string \<Rightarrow> Coins \<Rightarrow> BankState \<Rightarrow> BankState result" where
  "MintCoins k moduleName amounts s =
     bindE (mintCoinsRestrictionFn k amounts) (\<lambda>_.
     bindE (must_permit k moduleName Minter s) (\<lambda>(addr, s1).
     bindE (addCoins k addr amounts s1) (\<lambda>s2.
     bindE (foldE (\<lambda>amount s. bindE (Coin_Add (GetSupply_bank s (Denom amount)) amount) (\<lambda>c. Inr (setSupply_bank c s)))
       amounts s2) (\<lambda>s3.
     bindE (NewCoinMintEvent k addr amounts) (\<lambda>e. Inr (EmitEvents [e] s3))))))"

definition BurnCoins :: "BankKeeper \<Rightarrow> int \<Rightarrow> string \<Rightarrow> Coins \<Rightarrow> BankState \<Rightarrow> BankState result" where
  "BurnCoins k t moduleName amounts s =
     bindE (must_permit k moduleName Burner s) (\<lambda>(addr, s1).
     bindE (subUnlockedCoins k t addr amounts s1) (\<lambda>s2.
     bindE (foldE (\<lambda>amount s. bindE (Coin_Sub (GetSupply_bank s (Denom amount)) amount) (\<lambda>c. Inr (setSupply_bank c s)))
       amounts s2) (\<lambda>s3.
     bindE (NewCoinBurnEvent k addr amounts) (\<lambda>e. Inr (EmitEvents [e] s3)))))"

subsection \<open>Delegation\<close>

text \<open>\<open>sdkerrors.Wrap\<close> of an error under its own code.\<close>

definition rewrapE :: "string \<Rightarrow> 'a result \<Rightarrow> 'a result" where
  "rewrapE m r = (case r of Inl (Error c _) \<Rightarrow> Inl (Error c m) | _ \<Rightarrow> r)"

definition trackDelegation_bank :: "BankKeeper \<Rightarrow> int \<Rightarrow> AccAddress \<Rightarrow> Coins \<Rightarrow> Coins \<Rightarrow> BankState \<Rightarrow> BankState result" where
  "trackDelegation_bank k t addr balance amt s =
     (case GetAccount (bank_auth s) addr of
        None \<Rightarrow> Inl (Error ErrUnknownAddress ''account does not exist'')
      | Some (VestingAcc vacc) \<Rightarrow>
          bindE (TrackDelegation t balance amt vacc) (\<lambda>v.
            Inr (s\<lparr>bank_auth := SetAccount (bank_ak k) (VestingAcc v) (bank_auth s)\<rparr>))
      | Some _ \<Rightarrow> Inr s)"

definition trackUndelegation_bank :: "BankKeeper \<Rightarrow> AccAddress \<Rightarrow> Coins \<Rightarrow> BankState \<Rightarrow> BankState result" where
  "trackUndelegation_bank k addr amt s =
     (case GetAccount (bank_auth s) addr of
        None \<Rightarrow> Inl (Error ErrUnknownAddress ''account does not exist'')
      | Some (VestingAcc vacc) \<Rightarrow>
          bindE (TrackUndelegation amt vacc) (\<lambda>v.
            Inr (s\<lparr>bank_auth := SetAccount (bank_ak k) (VestingAcc v) (bank_auth s)\<rparr>))
      | Some _ \<Rightarrow> Inr s)"

text \<open>One round of the loop of \<open>DelegateCoins\<close>, with the balances collected so far.\<close>

definition delegate_coin :: "AccAddress \<Rightarrow> Coin \<Rightarrow> Coins \<times> BankState \<Rightarrow> (Coins \<times> BankState) result" where
  "delegate_coin delegatorAddr coin = (\<lambda>(balances, s).
     bindE (GetBalance_bank s delegatorAddr (Denom coin)) (\<lambda>balance.
     bindE (Coin_IsLT balance coin) (\<lambda>lt.
     if lt then Inl (Error ErrInsufficientFunds ''failed to delegate'')
     else
       bindE (Coins_Add balances [balance]) (\<lambda>balances'.
       bindE (Coin_Sub balance coin) (\<lambda>newBalance.
       bindE (setBalance_bank delegatorAddr newBalance s) (\<lambda>s'. Inr (balances', s')))))))"

definition DelegateCoins :: "BankKeeper \<Rightarrow> int \<Rightarrow> AccAddress \<Rightarrow> AccAddress \<Rightarrow> Coins \<Rightarrow> BankState \<Rightarrow> BankState result" where
  "DelegateCoins k t delegatorAddr moduleAccAddr amt s =
     (if GetAccount (bank_auth s) moduleAccAddr = None
      then Inl (Error ErrUnknownAddress ''module account does not exist'')
      else if \<not> Coins_IsValid amt then Inl (Error ErrInvalidCoins ''amount'')
      else
        bindE (foldE (delegate_coin delegatorAddr) amt ([], s)) (\<lambda>(balances, s1).
        bindE (rewrapE ''failed to track delegation'' (trackDelegation_bank k t delegatorAddr balances amt s1)) (\<lambda>s2.
        bindE (NewCoinSpentEvent k delegatorAddr amt) (\<lambda>e.
          addCoins k moduleAccAddr amt (EmitEvents [e] s2)))))"

definition UndelegateCoins :: "BankKeeper \<Rightarrow> int \<Rightarrow> AccAddress \<Rightarrow> AccAddress \<Rightarrow> Coins \<Rightarrow> BankState \<Rightarrow> BankState result" where
  "UndelegateCoins k t moduleAccAddr delegatorAddr amt s =
     (if GetAccount (bank_auth s) moduleAccAddr = None
      then Inl (Error ErrUnknownAddress ''module account does not exist'')
      else if \<not> Coins_IsValid amt then Inl (Error ErrInvalidCoins ''amount'')
      else
        bindE (subUnlockedCoins k t moduleAccAddr amt s) (\<lambda>s1.
        bindE (rewrapE ''failed to track undelegation'' (trackUndelegation_bank k delegatorAddr amt s1)) (\<lambda>s2.
          addCoins k delegatorAddr amt s2)))"

definition DelegateCoinsFromAccountToModule :: "BankKeeper \<Rightarrow> int \<Rightarrow> AccAddress \<Rightarrow> string \<Rightarrow> Coins \<Rightarrow> BankState \<Rightarrow> BankState result" where
  "DelegateCoinsFromAccountToModule k t senderAddr recipientModule amt s =
     bindE (must_permit k recipientModule Staking s) (\<lambda>(addr, s1). DelegateCoins k t senderAddr addr amt s1)"

definition UndelegateCoinsFromModuleToAccount :: "BankKeeper \<Rightarrow> int \<Rightarrow> string \<Rightarrow> AccAddress \<Rightarrow> Coins \<Rightarrow> BankState \<Rightarrow> BankState result" where
  "UndelegateCoinsFromModuleToAccount k t senderModule recipientAddr amt s =
     bindE (must_permit k senderModule Staking s) (\<lambda>(addr, s1). UndelegateCoins k t addr recipientAddr amt s1)"

subsection \<open>Sends of modules\<close>

type_synonym send_coins = "int \<Rightarrow> AccAddress \<Rightarrow> AccAddress \<Rightarrow> Coins \<Rightarrow> BankState \<Rightarrow> BankState result"

definition SendCoinsFromModuleToAccount :: "BankKeeper \<Rightarrow> int \<Rightarrow> string \<Rightarrow> AccAddress \<Rightarrow> Coins \<Rightarrow> BankState \<Rightarrow> BankState result" where
  "SendCoinsFromModuleToAccount k t senderModule recipientAddr amt s =
     (let senderAddr = GetModuleAddress (bank_ak k) senderModule in
      if senderAddr = [] then Inl (Panic ''module account does not exist'')
      else bindE (BlockedAddr k recipientAddr) (\<lambda>blocked.
        if blocked then Inl (Error ErrUnauthorized ''not allowed to receive funds'')
        else SendCoins k t senderAddr recipientAddr amt s))"

definition SendCoinsFromModuleToModule :: "BankKeeper \<Rightarrow> send_coins \<Rightarrow> int \<Rightarrow> string \<Rightarrow> string \<Rightarrow> Coins \<Rightarrow> BankState \<Rightarrow> BankState result" where
  "SendCoinsFromModuleToModule k send t senderModule recipientModule amt s =
     (let senderAddr = GetModuleAddress (bank_ak k) senderModule in
      if senderAddr = [] then Inl (Panic ''module account does not exist'')
      else bindE (must_module k recipientModule s) (\<lambda>(m, s1).
        send t senderAddr (GetAddress (addr_cfg (bank_ak k)) (ModuleBase m)) amt s1))"

definition SendCoinsFromAccountToModule :: "BankKeeper \<Rightarrow> send_coins \<Rightarrow> int \<Rightarrow> AccAddress \<Rightarrow> string \<Rightarrow> Coins \<Rightarrow> BankState \<Rightarrow> BankState result" where
  "SendCoinsFromAccountToModule k send t senderAddr recipientModule amt s =
     bindE (must_module k recipientModule s) (\<lambda>(m, s1).
       send t senderAddr (GetAddress (addr_cfg (bank_ak k)) (ModuleBase m)) amt s1)"

end
