(* ===== verification/BankMsg.thy ===== *)
theory BankMsg
  imports BankModule
begin

section \<open>Messages and genesis: x/bank, x/auth/vesting\<close>

text \<open>
  The messages of the bank module with their validation and handlers, the handler that creates
  vesting accounts, and the import and validation of genesis. A handler is given the
  \<open>SendCoins\<close> of the keeper it is built on, which bankplus overrides.
\<close>

subsection \<open>Inputs and outputs: types/msgs.go, keeper/send.go\<close>

record Input =
  InputAddress :: string
  InputCoins :: Coins

record Output =
  OutputAddress :: string
  OutputCoins :: Coins

definition check_coins :: "Coins \<Rightarrow> unit result" where
  "check_coins coins =
     (if \<not> Coins_IsValid coins then Inl (Error ErrInvalidCoins ''coins'')
      else guardE (Coins_IsAllPositive coins) (Error ErrInvalidCoins ''coins''))"

definition Input_ValidateBasic :: "Config \<Rightarrow> Input \<Rightarrow> unit result" where
  "Input_ValidateBasic cfg i =
     bindE (AccAddressFromBech32 cfg (InputAddress i)) (\<lambda>_. check_coins (InputCoins i))"

definition Output_ValidateBasic :: "Config \<Rightarrow> Output \<Rightarrow> unit result" where
  "Output_ValidateBasic cfg out =
     bindE (wrapE ErrInvalidAddress ''Invalid output address'' (AccAddressFromBech32 cfg (OutputAddress out))) (\<lambda>_.
       check_coins (OutputCoins out))"

definition ValidateInputsOutputs :: "Config \<Rightarrow> Input list \<Rightarrow> Output list \<Rightarrow> unit result" where
  "ValidateInputsOutputs cfg inputs outputs =
     bindE (foldE (\<lambda>i total. bindE (Input_ValidateBasic cfg i) (\<lambda>_. Coins_Add total (InputCoins i))) inputs []) (\<lambda>totalIn.
     bindE (foldE (\<lambda>out total. bindE (Output_ValidateBasic cfg out) (\<lambda>_. Coins_Add total (OutputCoins out))) outputs []) (\<lambda>totalOut.
     bindE (Coins_IsEqual totalIn totalOut) (\<lambda>eq.
       guardE eq (Error ErrInputOutputMismatch ''sum inputs != sum outputs''))))"

definition spend_input :: "BankKeeper \<Rightarrow> int \<Rightarrow> Input \<Rightarrow> BankState \<Rightarrow> BankState result" where
  "spend_input k t i s =
     bindE (AccAddressFromBech32 (addr_cfg (bank_ak k)) (InputAddress i)) (\<lambda>inAddress.
     bindE (subUnlockedCoins k t inAddress (InputCoins i) s) (\<lambda>s1.
       Inr (EmitEvents [(''message'', [(''sender'', InputAddress i)])] s1)))"

definition receive_output :: "BankKeeper \<Rightarrow> Output \<Rightarrow> BankState \<Rightarrow> BankState result" where
  "receive_output k out s =
     bindE (AccAddressFromBech32 (addr_cfg (bank_ak k)) (OutputAddress out)) (\<lambda>outAddress.
     bindE (addCoins k outAddress (OutputCoins out) s) (\<lambda>s1.
       create_account k outAddress (EmitEvents
         [(''transfer'', [(''recipient'', OutputAddress out), (''amount'', Coins_String (OutputCoins out))])] s1)))"

definition InputOutputCoins :: "BankKeeper \<Rightarrow> int \<Rightarrow> Input list \<Rightarrow> Output list \<Rightarrow> BankState \<Rightarrow> BankState result" where
  "InputOutputCoins k t inputs outputs s =
     bindE (ValidateInputsOutputs (addr_cfg (bank_ak k)) inputs outputs) (\<lambda>_.
     bindE (foldE (spend_input k t) inputs s) (\<lambda>s1. foldE (receive_output k) outputs s1))"

subsection \<open>Messages: types/msgs.go, keeper/msg_server.go\<close>

definition bank_MsgSend_ValidateBasic :: "Config \<Rightarrow> string \<Rightarrow> string \<Rightarrow> Coins \<Rightarrow> unit result" where
  "bank_MsgSend_ValidateBasic cfg fromAddress toAddress amount =
     bindE (wrapE ErrInvalidAddress ''Invalid sender address'' (AccAddressFromBech32 cfg fromAddress)) (\<lambda>_.
     bindE (wrapE ErrInvalidAddress ''Invalid recipient address'' (AccAddressFromBech32 cfg toAddress)) (\<lambda>_.
       check_coins amount))"

definition MsgMultiSend_ValidateBasic :: "Config \<Rightarrow> Input list \<Rightarrow> Output list \<Rightarrow> unit result" where
  "MsgMultiSend_ValidateBasic cfg inputs outputs =
     (if length inputs = 0 then Inl (Error ErrNoInputs ''no inputs to send transaction'')
      else if length outputs = 0 then Inl (Error ErrNoOutputs ''no outputs to send transaction'')
      else ValidateInputsOutputs cfg inputs outputs)"

definition msg_module_event :: Event where
  "msg_module_event = (''message'', [(''module'', ''bank'')])"

definition bmsg_Send :: "BankKeeper \<Rightarrow> send_coins \<Rightarrow> int \<Rightarrow> string \<Rightarrow> string \<Rightarrow> Coins \<Rightarrow> BankState \<Rightarrow> BankState result" where
  "bmsg_Send k send t fromAddress toAddress amount s =
     bindE (IsSendEnabledCoins s amount) (\<lambda>_.
     bindE (AccAddressFromBech32 (addr_cfg (bank_ak k)) fromAddress) (\<lambda>src.
     bindE (AccAddressFromBech32 (addr_cfg (bank_ak k)) toAddress) (\<lambda>dst.
     bindE (BlockedAddr k dst) (\<lambda>blocked.
     if blocked then Inl (Error ErrUnauthorized ''not allowed to receive funds'')
     else bindE (send t src dst amount s) (\<lambda>s1. Inr (EmitEvents [msg_module_event] s1))))))"

definition bmsg_MultiSend :: "BankKeeper \<Rightarrow> int \<Rightarrow> Input list \<Rightarrow> Output list \<Rightarrow> BankState \<Rightarrow> BankState result" where
  "bmsg_MultiSend k t inputs outputs s =
     bindE (foldE (\<lambda>i _. IsSendEnabledCoins s (InputCoins i)) inputs ()) (\<lambda>_.
     bindE (foldE (\<lambda>out _.
       bindE (MustAccAddressFromBech32 (addr_cfg (bank_ak k)) (OutputAddress out)) (\<lambda>accAddr.
       bindE (BlockedAddr k accAddr) (\<lambda>blocked.
         guardE (\<not> blocked) (Error ErrUnauthorized ''not allowed to receive transactions'')))) outputs ()) (\<lambda>_.
     bindE (InputOutputCoins k t inputs outputs s) (\<lambda>s1. Inr (EmitEvents [msg_module_event] s1))))"

subsection \<open>Vesting accounts: x/auth/vesting/msg\_server.go, types/msgs.go\<close>

definition MsgCreateVestingAccount_ValidateBasic :: "Config \<Rightarrow> string \<Rightarrow> string \<Rightarrow> Coins \<Rightarrow> int64 \<Rightarrow> unit result" where
  "MsgCreateVestingAccount_ValidateBasic cfg fromAddress toAddress amount endTime =
     bindE (AccAddressFromBech32 cfg fromAddress) (\<lambda>src.
     bindE (AccAddressFromBech32 cfg toAddress) (\<lambda>dst.
     bindE (wrapE ErrInvalidAddress ''invalid sender address'' (VerifyAddressFormat cfg src)) (\<lambda>_.
     bindE (wrapE ErrInvalidAddress ''invalid recipient address'' (VerifyAddressFormat cfg dst)) (\<lambda>_.
     bindE (check_coins amount) (\<lambda>_.
       guardE (\<not> sint endTime \<le> 0) (Error ErrInvalidRequest ''invalid end time''))))))"

definition CreateVestingAccount :: "BankKeeper \<Rightarrow> send_coins \<Rightarrow> int \<Rightarrow> string \<Rightarrow> string \<Rightarrow> Coins \<Rightarrow> int64 \<Rightarrow> bool
    \<Rightarrow> BankState \<Rightarrow> BankState result" where
  "CreateVestingAccount k send t fromAddress toAddress amount endTime isDelayed s =
     bindE (IsSendEnabledCoins s amount) (\<lambda>_.
     bindE (AccAddressFromBech32 (addr_cfg (bank_ak k)) fromAddress) (\<lambda>src.
     bindE (AccAddressFromBech32 (addr_cfg (bank_ak k)) toAddress) (\<lambda>dst.
     bindE (BlockedAddr k dst) (\<lambda>blocked.
     if blocked then Inl (Error ErrUnauthorized ''not allowed to receive funds'')
     else if GetAccount (bank_auth s) dst \<noteq> None then Inl (Error ErrInvalidRequest ''account already exists'')
     else
       bindE (NewAccountWithAddress (bank_ak k) dst (bank_auth s)) (\<lambda>(baseAccount, a).
       case baseAccount of
         BaseAcc b \<Rightarrow>
           let bva = NewBaseVestingAccount b (Coins_Sort amount) endTime;
               acc = (if isDelayed then NewDelayedVestingAccountRaw bva
                      else NewContinuousVestingAccountRaw bva (Unix t)) in
           bindE (send t src dst amount (s\<lparr>bank_auth := SetAccount (bank_ak k) (VestingAcc acc) a\<rparr>)) (\<lambda>s1.
             Inr (EmitEvents [(''message'', [(''module'', ''vesting'')])] s1))
       | _ \<Rightarrow> Inl (Error ErrInvalidRequest ''invalid account type''))))))"

subsection \<open>Genesis: keeper/genesis.go, types/genesis.go, types/balance.go, types/metadata.go, types/params.go\<close>

record Balance =
  BalanceAddress :: string
  BalanceCoins :: Coins

record BankGenesis =
  GenParams :: Params
  GenBalances :: "Balance list"
  GenSupply :: Coins
  GenMetadata :: "Metadata list"

definition DefaultParams :: Params where
  "DefaultParams = \<lparr>SendEnabledParams = [], DefaultSendEnabled = True\<rparr>"

definition bank_DefaultGenesisState :: BankGenesis where
  "bank_DefaultGenesisState = \<lparr>GenParams = DefaultParams, GenBalances = [], GenSupply = [], GenMetadata = []\<rparr>"

definition SanitizeGenesisBalances :: "Config \<Rightarrow> Balance list \<Rightarrow> Balance list" where
  "SanitizeGenesisBalances cfg balances =
     sort_key (\<lambda>b. case AccAddressFromBech32 cfg (BalanceAddress b) of Inl _ \<Rightarrow> [] | Inr a \<Rightarrow> a) balances"

definition init_balance :: "Config \<Rightarrow> Balance \<Rightarrow> Coins \<times> BankState \<Rightarrow> (Coins \<times> BankState) result" where
  "init_balance cfg balance = (\<lambda>(totalSupply, s).
     bindE (MustAccAddressFromBech32 cfg (BalanceAddress balance)) (\<lambda>addr.
     bindE (case initBalances addr (BalanceCoins balance) s of
         Inl _ \<Rightarrow> Inl (Panic ''error on setting balances'') | Inr s1 \<Rightarrow> Inr s1) (\<lambda>s1.
     bindE (Coins_Add totalSupply (BalanceCoins balance)) (\<lambda>total. Inr (total, s1)))))"

definition bank_InitGenesis :: "BankKeeper \<Rightarrow> BankGenesis \<Rightarrow> BankState \<Rightarrow> BankState result" where
  "bank_InitGenesis k gs s =
     (let cfg = addr_cfg (bank_ak k) in
      bindE (foldE (init_balance cfg) (SanitizeGenesisBalances cfg (GenBalances gs))
        ([], s\<lparr>bank_params := GenParams gs\<rparr>)) (\<lambda>(totalSupply, s1).
      bindE (if Coins_Empty (GenSupply gs) then Inr True else Coins_IsEqual (GenSupply gs) totalSupply) (\<lambda>ok.
      if \<not> ok then Inl (Panic ''genesis supply is incorrect'')
      else Inr (fold SetDenomMetaData (GenMetadata gs) (fold setSupply_bank totalSupply s1)))))"

definition Balance_Validate :: "Config \<Rightarrow> Balance \<Rightarrow> unit result" where
  "Balance_Validate cfg b =
     bindE (AccAddressFromBech32 cfg (BalanceAddress b)) (\<lambda>_. Coins_Validate (BalanceCoins b))"

text \<open>The loops that refuse a key seen before carry the set of the keys seen.\<close>

definition validate_alias :: "string \<Rightarrow> string set \<Rightarrow> string set result" where
  "validate_alias al seenAliases =
     (if al \<in> seenAliases then Inl (Error ErrPlain ''duplicate denomination unit alias'')
      else if TrimSpace al = [] then Inl (Error ErrPlain ''alias for denom unit cannot be blank'')
      else Inr (insert al seenAliases))"

definition DenomUnit_Validate :: "DenomUnit \<Rightarrow> unit result" where
  "DenomUnit_Validate du =
     bindE (ValidateDenom (UnitDenom du)) (\<lambda>_.
     bindE (foldE validate_alias (Aliases du) {}) (\<lambda>_. Inr ()))"

record unit_loop =
  isFirst :: bool
  hasDisplay :: bool
  currentExponent :: "32 word"
  seenUnits :: "string set"

definition validate_unit :: "Metadata \<Rightarrow> DenomUnit \<Rightarrow> unit_loop \<Rightarrow> unit_loop result" where
  "validate_unit m du l =
     (if isFirst l \<and> UnitDenom du \<noteq> Base m then Inl (Error ErrPlain ''first denomination unit must be the base'')
      else if isFirst l \<and> Exponent du \<noteq> 0 then Inl (Error ErrPlain ''the exponent for base denomination unit must be 0'')
      else if \<not> isFirst l \<and> currentExponent l \<ge> Exponent du then Inl (Error ErrPlain ''denom units should be sorted asc by exponent'')
      else if UnitDenom du \<in> seenUnits l then Inl (Error ErrPlain ''duplicate denomination unit'')
      else bindE (DenomUnit_Validate du) (\<lambda>_.
        Inr \<lparr>isFirst = False, hasDisplay = (hasDisplay l \<or> UnitDenom du = Display m),
          currentExponent = Exponent du, seenUnits = insert (UnitDenom du) (seenUnits l)\<rparr>))"

definition Metadata_Validate :: "Metadata \<Rightarrow> unit result" where
  "Metadata_Validate m =
     (if TrimSpace (MetadataName m) = [] then Inl (Error ErrPlain ''name field cannot be blank'')
      else if TrimSpace (Symbol m) = [] then Inl (Error ErrPlain ''symbol field cannot be blank'')
      else
        bindE (ValidateDenom (Base m)) (\<lambda>_.
        bindE (ValidateDenom (Display m)) (\<lambda>_.
        bindE (foldE (validate_unit m) (DenomUnits m)
          \<lparr>isFirst = True, hasDisplay = False, currentExponent = 0, seenUnits = {}\<rparr>) (\<lambda>l.
          guardE (hasDisplay l) (Error ErrPlain ''metadata must contain a denomination unit with display denom'')))))"

definition validateSendEnabledParams :: "SendEnabled list \<Rightarrow> unit result" where
  "validateSendEnabledParams params =
     bindE (foldE (\<lambda>p registered.
       if EnabledDenom p \<in> registered then Inl (Error ErrPlain ''duplicate send enabled parameter found'')
       else bindE (ValidateDenom (EnabledDenom p)) (\<lambda>_. Inr (insert (EnabledDenom p) registered))) params {}) (\<lambda>_. Inr ())"

definition BankGenesis_Validate :: "Config \<Rightarrow> BankGenesis \<Rightarrow> unit result" where
  "BankGenesis_Validate cfg gs =
     bindE (validateSendEnabledParams (SendEnabledParams (GenParams gs))) (\<lambda>_.
     bindE (foldE (\<lambda>b (seen, totalSupply).
       if BalanceAddress b \<in> seen then Inl (Error ErrPlain ''duplicate balance for address'')
       else bindE (Balance_Validate cfg b) (\<lambda>_.
         bindE (Coins_Add totalSupply (BalanceCoins b)) (\<lambda>total. Inr (insert (BalanceAddress b) seen, total))))
       (GenBalances gs) ({}, [])) (\<lambda>(_, totalSupply).
     bindE (foldE (\<lambda>m seen.
       if Base m \<in> seen then Inl (Error ErrPlain ''duplicate client metadata for denom'')
       else bindE (Metadata_Validate m) (\<lambda>_. Inr (insert (Base m) seen))) (GenMetadata gs) {}) (\<lambda>_.
     if Coins_Empty (GenSupply gs) then Inr ()
     else bindE (Coins_Validate (GenSupply gs)) (\<lambda>_.
       bindE (Coins_IsEqual (GenSupply gs) totalSupply) (\<lambda>eq.
         guardE eq (Error ErrPlain ''genesis supply is incorrect''))))))"

end
