(* ===== verification/BankPlus.thy ===== *)
theory BankPlus
  imports BankMsg
begin

section \<open>The keeper of bankplus: x/bankplus/keeper\<close>

text \<open>
  Bankplus embeds the bank keeper and overrides the sends: coins are refused when the recipient
  is inactive. The inactive addresses are kept in the store, under their bytes with
  their text as the value, and as texts in a map in memory that the sends read and that is
  filled from the store when the application starts. The map is not part of the store, so
  a discarded transaction does not restore it.
\<close>

record PlusState =
  plus_bank :: BankState
  stored_inactive :: "(AccAddress, string) store"
  inactiveAddrs :: "string set"

definition isStoredInactiveAddr :: "PlusState \<Rightarrow> AccAddress \<Rightarrow> bool" where
  "isStoredInactiveAddr s address \<longleftrightarrow> store_get (stored_inactive s) address \<noteq> None"

definition addToInactiveAddr :: "BankKeeper \<Rightarrow> AccAddress \<Rightarrow> PlusState \<Rightarrow> PlusState result" where
  "addToInactiveAddr k address s =
     bindE (addr_text k address) (\<lambda>a. Inr (s\<lparr>stored_inactive := store_set address a (stored_inactive s)\<rparr>))"

definition deleteFromInactiveAddr :: "AccAddress \<Rightarrow> PlusState \<Rightarrow> PlusState" where
  "deleteFromInactiveAddr address s = s\<lparr>stored_inactive := store_delete address (stored_inactive s)\<rparr>"

definition loadAllInactiveAddrs :: "PlusState \<Rightarrow> PlusState" where
  "loadAllInactiveAddrs s = fold (\<lambda>(_, a) s. s\<lparr>inactiveAddrs := insert a (inactiveAddrs s)\<rparr>) (stored_inactive s) s"

definition InitializeBankPlus :: "PlusState \<Rightarrow> PlusState" where
  "InitializeBankPlus s = loadAllInactiveAddrs s"

definition AddToInactiveAddr :: "BankKeeper \<Rightarrow> AccAddress \<Rightarrow> PlusState \<Rightarrow> PlusState result" where
  "AddToInactiveAddr k address s =
     bindE (addr_text k address) (\<lambda>a.
       if a \<in> inactiveAddrs s then Inr s
       else addToInactiveAddr k address (s\<lparr>inactiveAddrs := insert a (inactiveAddrs s)\<rparr>))"

definition DeleteFromInactiveAddr :: "BankKeeper \<Rightarrow> AccAddress \<Rightarrow> PlusState \<Rightarrow> PlusState result" where
  "DeleteFromInactiveAddr k address s =
     bindE (addr_text k address) (\<lambda>a.
       if a \<in> inactiveAddrs s
       then Inr (deleteFromInactiveAddr address (s\<lparr>inactiveAddrs := inactiveAddrs s - {a}\<rparr>))
       else Inr s)"

definition isInactiveAddr :: "BankKeeper \<Rightarrow> string set \<Rightarrow> AccAddress \<Rightarrow> bool result" where
  "isInactiveAddr k inactive addr = bindE (addr_text k addr) (\<lambda>a. Inr (a \<in> inactive))"

definition plus_SendCoins :: "BankKeeper \<Rightarrow> string set \<Rightarrow> send_coins" where
  "plus_SendCoins k inactive t fromAddr toAddr amt s =
     bindE (isInactiveAddr k inactive toAddr) (\<lambda>b.
       if b then Inl (Error ErrUnauthorized ''not allowed to receive funds'')
       else SendCoins k t fromAddr toAddr amt s)"

definition plus_SendCoinsFromModuleToAccount :: "BankKeeper \<Rightarrow> string set \<Rightarrow> int \<Rightarrow> string \<Rightarrow> AccAddress \<Rightarrow> Coins
    \<Rightarrow> BankState \<Rightarrow> BankState result" where
  "plus_SendCoinsFromModuleToAccount k inactive t senderModule recipientAddr amt s =
     (let senderAddr = GetModuleAddress (bank_ak k) senderModule in
      if senderAddr = [] then Inl (Panic ''module account does not exist'')
      else plus_SendCoins k inactive t senderAddr recipientAddr amt s)"

definition plus_SendCoinsFromModuleToModule :: "BankKeeper \<Rightarrow> string set \<Rightarrow> int \<Rightarrow> string \<Rightarrow> string \<Rightarrow> Coins
    \<Rightarrow> BankState \<Rightarrow> BankState result" where
  "plus_SendCoinsFromModuleToModule k inactive =
     SendCoinsFromModuleToModule k (plus_SendCoins k inactive)"

definition plus_SendCoinsFromAccountToModule :: "BankKeeper \<Rightarrow> string set \<Rightarrow> int \<Rightarrow> AccAddress \<Rightarrow> string \<Rightarrow> Coins
    \<Rightarrow> BankState \<Rightarrow> BankState result" where
  "plus_SendCoinsFromAccountToModule k inactive =
     SendCoinsFromAccountToModule k (plus_SendCoins k inactive)"

subsection \<open>Messages on the two keepers\<close>

text \<open>
  The application builds the message servers on the keeper of bankplus; \<open>MultiSend\<close> calls
  \<open>InputOutputCoins\<close>, which bankplus does not override. A message is validated and then handled.
\<close>

datatype BankMsg =
    MsgSend string string Coins
  | MsgMultiSend "Input list" "Output list"
  | MsgCreateVestingAccount string string Coins int64 bool

fun bank_ValidateBasic :: "Config \<Rightarrow> BankMsg \<Rightarrow> unit result" where
  "bank_ValidateBasic cfg (MsgSend src dst amount) = bank_MsgSend_ValidateBasic cfg src dst amount"
| "bank_ValidateBasic cfg (MsgMultiSend inputs outputs) = MsgMultiSend_ValidateBasic cfg inputs outputs"
| "bank_ValidateBasic cfg (MsgCreateVestingAccount src dst amount endTime isDelayed) =
     MsgCreateVestingAccount_ValidateBasic cfg src dst amount endTime"

fun bank_handle :: "BankKeeper \<Rightarrow> string set \<Rightarrow> int \<Rightarrow> BankMsg \<Rightarrow> BankState \<Rightarrow> BankState result" where
  "bank_handle k inactive t (MsgSend src dst amount) = bmsg_Send k (plus_SendCoins k inactive) t src dst amount"
| "bank_handle k inactive t (MsgMultiSend inputs outputs) = bmsg_MultiSend k t inputs outputs"
| "bank_handle k inactive t (MsgCreateVestingAccount src dst amount endTime isDelayed) =
     CreateVestingAccount k (plus_SendCoins k inactive) t src dst amount endTime isDelayed"

definition DeliverBankMsg :: "BankKeeper \<Rightarrow> string set \<Rightarrow> int \<Rightarrow> BankMsg \<Rightarrow> BankState \<Rightarrow> BankState result" where
  "DeliverBankMsg k inactive t m s =
     bindE (bank_ValidateBasic (addr_cfg (bank_ak k)) m) (\<lambda>_. bank_handle k inactive t m s)"

text \<open>What other modules ask of the keeper.\<close>

datatype BankCall =
    CallMsg BankMsg
  | CallMint string Coins
  | CallBurn string Coins
  | CallModuleToAccount string AccAddress Coins
  | CallModuleToModule string string Coins
  | CallAccountToModule AccAddress string Coins
  | CallDelegate AccAddress string Coins
  | CallUndelegate string AccAddress Coins

fun bank_call :: "BankKeeper \<Rightarrow> string set \<Rightarrow> int \<Rightarrow> BankCall \<Rightarrow> BankState \<Rightarrow> BankState result" where
  "bank_call k inactive t (CallMsg m) = DeliverBankMsg k inactive t m"
| "bank_call k inactive t (CallMint name amt) = MintCoins k name amt"
| "bank_call k inactive t (CallBurn name amt) = BurnCoins k t name amt"
| "bank_call k inactive t (CallModuleToAccount name a amt) = plus_SendCoinsFromModuleToAccount k inactive t name a amt"
| "bank_call k inactive t (CallModuleToModule name name' amt) = plus_SendCoinsFromModuleToModule k inactive t name name' amt"
| "bank_call k inactive t (CallAccountToModule a name amt) = plus_SendCoinsFromAccountToModule k inactive t a name amt"
| "bank_call k inactive t (CallDelegate a name amt) = DelegateCoinsFromAccountToModule k t a name amt"
| "bank_call k inactive t (CallUndelegate name a amt) = UndelegateCoinsFromModuleToAccount k t name a amt"

end
