(* ===== verification/Vesting_Props.thy ===== *)
theory Vesting_Props
  imports Vesting Decimal_Props Coin_Props
begin

section \<open>Properties of vesting accounts\<close>

text \<open>
  What is vested grows from nothing to the original coins and, with what is still vesting,
  makes them up at every time; delegations are split between the vesting and the free part so
  that the locked coins shrink by what is delegated.
\<close>

subsection \<open>Delegated and locked coins\<close>

abbreviation original :: "BaseVestingAccount \<Rightarrow> string \<Rightarrow> int" where
  "original bva \<equiv> coin_total (OriginalVesting bva)"

abbreviation delegated_vesting :: "BaseVestingAccount \<Rightarrow> string \<Rightarrow> int" where
  "delegated_vesting bva \<equiv> coin_total (DelegatedVesting bva)"

abbreviation delegated_free :: "BaseVestingAccount \<Rightarrow> string \<Rightarrow> int" where
  "delegated_free bva \<equiv> coin_total (DelegatedFree bva)"

definition base_ok :: "BaseVestingAccount \<Rightarrow> bool" where
  "base_ok bva \<longleftrightarrow>
     valid_coins (OriginalVesting bva) \<and> coins_ok (OriginalVesting bva) \<and>
     valid_coins (DelegatedFree bva) \<and> coins_ok (DelegatedFree bva) \<and>
     valid_coins (DelegatedVesting bva) \<and> coins_ok (DelegatedVesting bva) \<and>
     (\<forall>d. delegated_vesting bva d \<le> original bva d)"

lemma LockedCoins_total:
  assumes "valid_coins v" "coins_ok v" "base_ok bva"
  obtains l where "LockedCoinsFromVesting bva v = Inr l" "valid_coins l" "coins_ok l"
    "\<And>d. coin_total l d = max (coin_total v d - delegated_vesting bva d) 0"
proof -
  let ?m = "Coins_Min_loop [] v (DelegatedVesting bva)"
  have dv: "valid_coins (DelegatedVesting bva)" using assms(3) by (simp add: base_ok_def)
  have m: "valid_coins ?m" "coin_total ?m d = min (coin_total v d) (delegated_vesting bva d)" for d
    using Min_loop_valid [OF assms(1) dv] Min_loop_total [OF assms(1) dv] by blast+
  have mn: "Coins_Min v (DelegatedVesting bva) = Inr ?m" by (simp add: Coins_Min_def NewCoins_valid m(1))
  obtain l where l: "Coins_Sub v ?m = Inr l" "valid_coins l" "coins_ok l"
    "\<And>d. coin_total l d = coin_total v d - coin_total ?m d"
    using Coins_Sub_below [of v ?m] assms(1,2) m valid_coins_strict [OF m(1)] valid_coins_denom [OF m(1)]
      valid_total_nonneg [OF m(1)] by (metis min.cobounded1)
  show thesis
    by (rule that [of l]) (use l m mn in \<open>auto simp: LockedCoinsFromVesting_def max_def min_def\<close>)
qed

lemma MinMaxInt_eq [simp]: "MinInt a b = min a b" "MaxInt a b = max a b"
  by (auto simp: MinInt_def MaxInt_def)

lemma Int_IsZero_eq [simp]: "Int_IsZero a \<longleftrightarrow> a = 0"
  by (simp add: Int_IsZero_def sgn_if)

lemma add_nonzero_facts:
  assumes "valid_coins cs" "coins_ok cs" "0 \<le> x" "x < 2 ^ 256" "add_nonzero n x cs = Inr cs'"
  shows "valid_coins cs'" "coins_ok cs'" "coin_total cs' d = coin_total cs d + (if d = n then x else 0)"
proof -
  have "valid_coins cs' \<and> coins_ok cs' \<and> coin_total cs' d = coin_total cs d + (if d = n then x else 0)" for d
  proof (cases "x = 0")
    case False
    let ?c = "\<lparr>Denom = n, Amount = x\<rparr>"
    have run: "Coins_Add cs [?c] = Inr cs'" "reDnm n" using assms(5) False by (auto simp: add_nonzero_def)
    have c: "valid_coins [?c]" "coins_ok [?c]" using run(2) assms(3,4) False by (simp_all add: valid_single coins_ok_single)
    note facts = Coins_Add_facts [OF assms(1) c(1) assms(2) c(2) run(1)]
    show ?thesis using facts(1,2) facts(3) [of d] by simp
  qed (use assms in \<open>simp add: add_nonzero_def\<close>)
  then show "valid_coins cs'" "coins_ok cs'" "coin_total cs' d = coin_total cs d + (if d = n then x else 0)" by blast+
qed

lemma sub_nonzero_facts:
  assumes "valid_coins cs" "coins_ok cs" "0 \<le> x" "x < 2 ^ 256" "sub_nonzero n x cs = Inr cs'"
  shows "valid_coins cs'" "coins_ok cs'" "coin_total cs' d = coin_total cs d - (if d = n then x else 0)"
proof -
  have "valid_coins cs' \<and> coins_ok cs' \<and> coin_total cs' d = coin_total cs d - (if d = n then x else 0)" for d
  proof (cases "x = 0")
    case False
    let ?c = "\<lparr>Denom = n, Amount = x\<rparr>"
    have run: "Coins_Sub cs [?c] = Inr cs'" "reDnm n" using assms(5) False by (auto simp: sub_nonzero_def)
    have c: "valid_coins [?c]" "coins_ok [?c]" using run(2) assms(3,4) False by (simp_all add: valid_single coins_ok_single)
    note facts = Coins_Sub_facts [OF assms(1) c(1) assms(2) c(2) run(1)]
    show ?thesis using facts(1,2) facts(3) [of d] by simp
  qed (use assms in \<open>simp add: sub_nonzero_def\<close>)
  then show "valid_coins cs'" "coins_ok cs'" "coin_total cs' d = coin_total cs d - (if d = n then x else 0)" by blast+
qed

definition same_account :: "BaseVestingAccount \<Rightarrow> BaseVestingAccount \<Rightarrow> bool" where
  "same_account b b' \<longleftrightarrow> vBaseAccount b' = vBaseAccount b \<and> OriginalVesting b' = OriginalVesting b \<and> EndTime b' = EndTime b"

definition vesting_part :: "int \<Rightarrow> int \<Rightarrow> int \<Rightarrow> int" where
  "vesting_part v dv a = min (max (v - dv) 0) a"

lemma track_delegation_coin_facts:
  assumes ok: "base_ok bva" "valid_coins v" "valid_coins b" "\<And>d. coin_total v d \<le> original bva d"
    and coin: "reDnm (Denom c)" "0 < Amount c" "Amount c < 2 ^ 256"
    and run: "track_delegation_coin b v c bva = Inr bva'"
    and x: "x = vesting_part (coin_total v (Denom c)) (delegated_vesting bva (Denom c)) (Amount c)"
  shows "base_ok bva' \<and> same_account bva bva'
    \<and> (\<forall>d. delegated_vesting bva' d = delegated_vesting bva d + (if d = Denom c then x else 0))
    \<and> (\<forall>d. delegated_free bva' d = delegated_free bva d + (if d = Denom c then Amount c - x else 0))"
proof -
  have v: "valid_coins (DelegatedVesting bva)" "valid_coins (DelegatedFree bva)"
    "coins_ok (DelegatedVesting bva)" "coins_ok (DelegatedFree bva)" using ok(1) by (simp_all add: base_ok_def)
  have xb: "0 \<le> x" "x \<le> Amount c" using coin x by (auto simp: vesting_part_def)
  note amt = Coins_AmountOf_eq [OF ok(3) coin(1)] Coins_AmountOf_eq [OF ok(2) coin(1)] Coins_AmountOf_eq [OF v(1) coin(1)]
  obtain dv df where parts: "add_nonzero (Denom c) x (DelegatedVesting bva) = Inr dv"
    "add_nonzero (Denom c) (Amount c - x) (DelegatedFree bva) = Inr df"
    "bva' = bva\<lparr>DelegatedVesting := dv, DelegatedFree := df\<rparr>"
    using run unfolding track_delegation_coin_def amt x vesting_part_def by (auto simp: Let_def split: if_splits)
  note dv = add_nonzero_facts [OF v(1,3) _ _ parts(1)] and df = add_nonzero_facts [OF v(2,4) _ _ parts(2)]
  have le: "delegated_vesting bva d \<le> original bva d" for d using ok(1) by (simp add: base_ok_def)
  have "coin_total dv d \<le> original bva d" for d
    using dv(3) [of d] xb coin(3) ok(4) [of d] le [of d] unfolding x vesting_part_def by (auto split: if_splits)
  then have "base_ok bva'" using ok(1) dv(1,2) df(1,2) xb coin by (simp add: base_ok_def parts(3))
  then show ?thesis using dv(3) df(3) xb coin by (simp add: parts(3) same_account_def)
qed

lemma track_undelegation_coin_facts:
  assumes ok: "base_ok bva"
    and coin: "reDnm (Denom c)" "0 < Amount c" "Amount c < 2 ^ 256"
    and run: "track_undelegation_coin c bva = Inr bva'"
    and x: "x = min (delegated_free bva (Denom c)) (Amount c)"
    and y: "y = min (delegated_vesting bva (Denom c)) (Amount c - x)"
  shows "base_ok bva' \<and> same_account bva bva'
    \<and> (\<forall>d. delegated_vesting bva' d = delegated_vesting bva d - (if d = Denom c then y else 0))
    \<and> (\<forall>d. delegated_free bva' d = delegated_free bva d - (if d = Denom c then x else 0))"
proof -
  have v: "valid_coins (DelegatedVesting bva)" "valid_coins (DelegatedFree bva)"
    "coins_ok (DelegatedVesting bva)" "coins_ok (DelegatedFree bva)" using ok(1) by (simp_all add: base_ok_def)
  have b: "0 \<le> x" "x \<le> Amount c" "0 \<le> y" "y \<le> Amount c"
    using coin x y valid_total_nonneg [OF v(1), of "Denom c"] valid_total_nonneg [OF v(2), of "Denom c"] by auto
  note amt = Coins_AmountOf_eq [OF v(1) coin(1)] Coins_AmountOf_eq [OF v(2) coin(1)]
  obtain dv df where parts: "sub_nonzero (Denom c) x (DelegatedFree bva) = Inr df"
    "sub_nonzero (Denom c) y (DelegatedVesting bva) = Inr dv"
    "bva' = bva\<lparr>DelegatedFree := df, DelegatedVesting := dv\<rparr>"
    using run unfolding track_undelegation_coin_def amt x y by (auto simp: Let_def split: if_splits)
  note dv = sub_nonzero_facts [OF v(1,3) _ _ parts(2)] and df = sub_nonzero_facts [OF v(2,4) _ _ parts(1)]
  have le: "delegated_vesting bva d \<le> original bva d" for d using ok(1) by (simp add: base_ok_def)
  have "coin_total dv d \<le> original bva d" for d
    using dv(3) [of d] b coin(3) le [of d] by (auto split: if_splits)
  then have "base_ok bva'" using ok(1) dv(1,2) df(1,2) b coin by (simp add: base_ok_def parts(3))
  then show ?thesis using dv(3) df(3) b coin by (simp add: parts(3) same_account_def)
qed

lemma same_account_trans: "same_account a b \<Longrightarrow> same_account b c \<Longrightarrow> same_account a c"
  by (simp add: same_account_def)

lemma same_account_refl [simp]: "same_account a a"
  by (simp add: same_account_def)

lemma vesting_part_zero [simp]: "vesting_part v dv 0 = 0"
  by (simp add: vesting_part_def)

lemma vesting_part_bounds: "0 \<le> a \<Longrightarrow> 0 \<le> vesting_part v dv a \<and> vesting_part v dv a \<le> a"
  by (simp add: vesting_part_def)

lemma Base_TrackDelegation_facts:
  assumes "base_ok bva" "valid_coins v" "valid_coins b" "\<And>d. coin_total v d \<le> original bva d"
    and "valid_coins amt" "coins_ok amt" "Base_TrackDelegation b v amt bva = Inr bva'"
  shows "base_ok bva' \<and> same_account bva bva'
    \<and> (\<forall>d. delegated_vesting bva' d = delegated_vesting bva d + vesting_part (coin_total v d) (delegated_vesting bva d) (coin_total amt d))
    \<and> (\<forall>d. delegated_free bva' d = delegated_free bva d + coin_total amt d - vesting_part (coin_total v d) (delegated_vesting bva d) (coin_total amt d))"
  using assms unfolding Base_TrackDelegation_def
proof (induction amt arbitrary: bva)
  case (Cons c cs)
  note h = valid_head [OF Cons.prems(5,6)]
  obtain b1 where b1: "track_delegation_coin b v c bva = Inr b1" "foldE (track_delegation_coin b v) cs b1 = Inr bva'"
    using Cons.prems(7) by auto
  have one: "base_ok b1" "same_account bva b1"
    "\<And>d. delegated_vesting b1 d = delegated_vesting bva d
      + (if d = Denom c then vesting_part (coin_total v (Denom c)) (delegated_vesting bva (Denom c)) (Amount c) else 0)"
    "\<And>d. delegated_free b1 d = delegated_free bva d
      + (if d = Denom c then Amount c - vesting_part (coin_total v (Denom c)) (delegated_vesting bva (Denom c)) (Amount c) else 0)"
    using track_delegation_coin_facts [OF Cons.prems(1-4) h(1-3) b1(1) refl] by blast+
  have le: "coin_total v d \<le> original b1 d" for d using Cons.prems(4) [of d] one(2) by (simp add: same_account_def)
  have rest: "base_ok bva'" "same_account b1 bva'"
    "\<And>d. delegated_vesting bva' d = delegated_vesting b1 d + vesting_part (coin_total v d) (delegated_vesting b1 d) (coin_total cs d)"
    "\<And>d. delegated_free bva' d = delegated_free b1 d + coin_total cs d - vesting_part (coin_total v d) (delegated_vesting b1 d) (coin_total cs d)"
    using Cons.IH [OF one(1) Cons.prems(2,3) le h(4,5) b1(2)] by blast+
  show ?case
    using rest(1) same_account_trans [OF one(2) rest(2)] rest(3,4) one(3,4) h(6) by auto
qed simp

lemma Base_TrackUndelegation_facts:
  assumes "base_ok bva" "valid_coins amt" "coins_ok amt" "Base_TrackUndelegation amt bva = Inr bva'"
  shows "base_ok bva' \<and> same_account bva bva'
    \<and> (\<forall>d. delegated_free bva' d = delegated_free bva d - min (delegated_free bva d) (coin_total amt d))
    \<and> (\<forall>d. delegated_vesting bva' d = delegated_vesting bva d
         - min (delegated_vesting bva d) (coin_total amt d - min (delegated_free bva d) (coin_total amt d)))"
  using assms unfolding Base_TrackUndelegation_def
proof (induction amt arbitrary: bva)
  case Nil
  have "0 \<le> delegated_free bva d" "0 \<le> delegated_vesting bva d" for d
    using Nil(1) valid_total_nonneg by (simp_all add: base_ok_def)
  then show ?case using Nil by (simp add: min_absorb2)
next
  case (Cons c cs)
  note h = valid_head [OF Cons.prems(2,3)]
  obtain b1 where b1: "track_undelegation_coin c bva = Inr b1" "foldE track_undelegation_coin cs b1 = Inr bva'"
    using Cons.prems(4) by auto
  let ?x = "min (delegated_free bva (Denom c)) (Amount c)"
  have one: "base_ok b1" "same_account bva b1"
    "\<And>d. delegated_vesting b1 d = delegated_vesting bva d
      - (if d = Denom c then min (delegated_vesting bva (Denom c)) (Amount c - ?x) else 0)"
    "\<And>d. delegated_free b1 d = delegated_free bva d - (if d = Denom c then ?x else 0)"
    using track_undelegation_coin_facts [OF Cons.prems(1) h(1-3) b1(1) refl refl] by blast+
  have rest: "base_ok bva'" "same_account b1 bva'"
    "\<And>d. delegated_free bva' d = delegated_free b1 d - min (delegated_free b1 d) (coin_total cs d)"
    "\<And>d. delegated_vesting bva' d = delegated_vesting b1 d
         - min (delegated_vesting b1 d) (coin_total cs d - min (delegated_free b1 d) (coin_total cs d))"
    using Cons.IH [OF one(1) h(4,5) b1(2)] by blast+
  have nn: "0 \<le> delegated_free b1 d" "0 \<le> delegated_vesting b1 d" for d
    using one(1) valid_total_nonneg by (simp_all add: base_ok_def)
  have "delegated_free bva' d = delegated_free bva d - min (delegated_free bva d) (coin_total (c # cs) d)"
    "delegated_vesting bva' d = delegated_vesting bva d
         - min (delegated_vesting bva d) (coin_total (c # cs) d - min (delegated_free bva d) (coin_total (c # cs) d))" for d
    using rest(3,4) [of d] one(3,4) [of d] h(6) nn [of d] by (cases "d = Denom c"; simp)+
  then show ?case using rest(1) same_account_trans [OF one(2) rest(2)] by blast
qed

subsection \<open>Schedules\<close>

text \<open>
  A schedule gives the vested coins at a time. Its interface: on the accounts it is made for the
  coins are defined, between nothing and the original coins, they never shrink, and
  they depend on nothing that delegations change.
\<close>

locale vesting_schedule =
  fixes vested :: "BaseVestingAccount \<Rightarrow> int \<Rightarrow> Coins result"
    and schedule :: "BaseVestingAccount \<Rightarrow> bool"
    and amount :: "BaseVestingAccount \<Rightarrow> int64 \<Rightarrow> string \<Rightarrow> int"
  assumes vested_coins: "base_ok b \<Longrightarrow> schedule b \<Longrightarrow> \<exists>vs. vested b t = Inr vs \<and> strict_denoms Denom vs
      \<and> (\<forall>c \<in> set vs. reDnm (Denom c)) \<and> (\<forall>d. coin_total vs d = amount b (Unix t) d)"
    and amount_bounds: "base_ok b \<Longrightarrow> schedule b \<Longrightarrow> 0 \<le> amount b n d \<and> amount b n d \<le> original b d"
    and amount_mono: "base_ok b \<Longrightarrow> schedule b \<Longrightarrow> sint n \<le> sint n' \<Longrightarrow> amount b n d \<le> amount b n' d"
    and same_schedule: "same_account b b' \<Longrightarrow> schedule b' = schedule b \<and> amount b' = amount b"
begin

lemma vesting_coins:
  assumes "base_ok b" "schedule b"
  obtains v where "bindE (vested b t) (\<lambda>vs. Coins_Sub (OriginalVesting b) vs) = Inr v" "valid_coins v" "coins_ok v"
    "\<And>d. coin_total v d = original b d - amount b (Unix t) d"
proof -
  obtain vs where vs: "vested b t = Inr vs" "strict_denoms Denom vs" "\<forall>c \<in> set vs. reDnm (Denom c)"
    "\<forall>d. coin_total vs d = amount b (Unix t) d" using vested_coins [OF assms] by blast
  have ov: "valid_coins (OriginalVesting b)" "coins_ok (OriginalVesting b)" using assms(1) by (simp_all add: base_ok_def)
  obtain v where "Coins_Sub (OriginalVesting b) vs = Inr v" "valid_coins v" "coins_ok v"
    "\<And>d. coin_total v d = original b d - coin_total vs d"
    by (rule Coins_Sub_below [OF ov vs(2)]) (use vs amount_bounds [OF assms] in auto)
  then show thesis using that [of v] vs by auto
qed

end

lemma sint_diff: "- (2 ^ 63) \<le> sint a - sint b \<Longrightarrow> sint a - sint b < 2 ^ 63 \<Longrightarrow> sint (a - b :: 64 word) = sint a - sint b"
  by (simp add: sint_word_ariths signed_take_bit_int_eq_self)

lemma sint_plus: "- (2 ^ 63) \<le> sint a + sint b \<Longrightarrow> sint a + sint b < 2 ^ 63 \<Longrightarrow> sint (a + b :: 64 word) = sint a + sint b"
  by (simp add: sint_word_ariths signed_take_bit_int_eq_self)

subsection \<open>The continuous schedule\<close>

definition rounded_part :: "int \<Rightarrow> int \<Rightarrow> int" where
  "rounded_part s a = chopPrecisionAndRound (chopPrecisionAndRound (a * unit_dec * s))"

lemma rounded_part_mono: "0 \<le> a \<Longrightarrow> s \<le> s' \<Longrightarrow> rounded_part s a \<le> rounded_part s' a"
  unfolding rounded_part_def by (intro round.chop_mono mult_left_mono) simp_all

lemma rounded_part_one: "rounded_part unit_dec a = a"
  using round.chop_one_right [of "a * unit_dec"] round.chop_one_right [of a]
  by (simp add: rounded_part_def OneDec_def)

lemma rounded_part_zero [simp]: "rounded_part 0 a = 0" "rounded_part s 0 = 0"
  using round.chop_one_right [of 0] by (simp_all add: rounded_part_def)

lemma rounded_part_bounds: "0 \<le> a \<Longrightarrow> 0 \<le> s \<Longrightarrow> s \<le> unit_dec \<Longrightarrow> 0 \<le> rounded_part s a \<and> rounded_part s a \<le> a"
  using rounded_part_mono [of a 0 s] rounded_part_mono [of a s unit_dec] rounded_part_one [of a] by simp

definition elapsed :: "int \<Rightarrow> int \<Rightarrow> int \<Rightarrow> int" where
  "elapsed start stop now = share ((now - start) * unit_dec) ((stop - start) * unit_dec)"

lemma elapsed_bounds:
  assumes "start < now" "now < stop"
  shows "0 \<le> elapsed start stop now" "elapsed start stop now \<le> unit_dec"
  using share_bounds [of "(now - start) * unit_dec" "(stop - start) * unit_dec"] assms
  by (simp_all add: elapsed_def)

lemma elapsed_mono: "start < stop \<Longrightarrow> now \<le> now' \<Longrightarrow> elapsed start stop now \<le> elapsed start stop now'"
  unfolding elapsed_def by (rule share_mono) (simp_all add: mult_right_mono)

definition continuous_amount :: "int64 \<Rightarrow> BaseVestingAccount \<Rightarrow> int64 \<Rightarrow> string \<Rightarrow> int" where
  "continuous_amount start b n d =
     (if sint n \<le> sint start then 0 else if sint (EndTime b) \<le> sint n then original b d
      else rounded_part (elapsed (sint start) (sint (EndTime b)) (sint n)) (original b d))"

definition continuous_schedule :: "int64 \<Rightarrow> BaseVestingAccount \<Rightarrow> bool" where
  "continuous_schedule start b \<longleftrightarrow> sint (EndTime b) - sint start < 2 ^ 63
     \<and> (\<forall>d. original b d * unit_dec < 2 ^ 315)"

lemma base_ok_original: "base_ok b \<Longrightarrow> 0 \<le> original b d"
  using valid_total_nonneg by (simp add: base_ok_def)

lemma total_of_map_amount:
  assumes "f 0 = 0" "strict_denoms Denom cs"
  shows "coin_total (map (\<lambda>c. \<lparr>Denom = Denom c, Amount = f (Amount c)\<rparr>) cs) d = f (coin_total cs d)"
  using assms(2)
proof (induction cs)
  case (Cons c cs)
  then have "Denom c = d \<Longrightarrow> coin_total cs d = 0" by (intro total_of_absent) auto
  then show ?case using Cons assms(1) by auto
qed (simp add: assms(1))

lemma NewDec_eq: "NewDec n = Inr (sint n * unit_dec)" "NewDecFromInt i = Inr (i * unit_dec)"
  by (simp_all add: NewDec_def NewDecWithPrec_def NewDecFromInt_def NewDecFromIntWithPrec_def
      precisionMultiplier_def calcPrecisionMultiplier_def)

lemma vested_coin:
  assumes "0 \<le> s" "s \<le> unit_dec" "reDnm n" "0 \<le> a" "a < 2 ^ 256" "a * unit_dec < 2 ^ 315"
  shows "bindE (NewDecFromInt a) (\<lambda>d. bindE (Dec_Mul d s) (\<lambda>m. bindE (Dec_RoundInt m) (\<lambda>v. NewCoin n v)))
    = Inr \<lparr>Denom = n, Amount = rounded_part s a\<rparr>"
proof -
  have "0 \<le> chopPrecisionAndRound (a * unit_dec * s)" using assms by (intro round.chop_nonneg) simp
  moreover have "(a * unit_dec) * s \<le> (a * unit_dec) * OneDec"
    by (rule mult_left_mono) (use assms in \<open>simp_all add: OneDec_def\<close>)
  then have "chopPrecisionAndRound (a * unit_dec * s) \<le> a * unit_dec"
    using round.chop_mono round.chop_one_right [of "a * unit_dec"] by fastforce
  ultimately have "Dec_Mul (a * unit_dec) s = Inr (chopPrecisionAndRound (a * unit_dec * s))"
    using assms(6) by (simp add: Dec_Mul_def)
  moreover have "0 \<le> rounded_part s a" "rounded_part s a < 2 ^ 256"
    using rounded_part_bounds [of a s] assms by linarith+
  ultimately show ?thesis
    using assms(3) by (simp add: NewDec_eq Dec_RoundInt_def NewIntFromBigInt_def rounded_part_def maxBitLen_def)
qed

lemma continuous_inside:
  assumes "base_ok b" "continuous_schedule start b" "sint start < sint (Unix t)" "sint (Unix t) < sint (EndTime b)"
  shows "Continuous_GetVestedCoins b start t = Inr (map (\<lambda>c. \<lparr>Denom = Denom c,
     Amount = rounded_part (elapsed (sint start) (sint (EndTime b)) (sint (Unix t))) (Amount c)\<rparr>) (OriginalVesting b))"
proof -
  let ?now = "Unix t" and ?s = "elapsed (sint start) (sint (EndTime b)) (sint (Unix t))"
  have x: "sint (?now - start) = sint ?now - sint start" "sint (EndTime b - start) = sint (EndTime b) - sint start"
    using assms(2-4) by (auto intro!: sint_diff simp: continuous_schedule_def)
  have quo: "Dec_Quo ((sint ?now - sint start) * unit_dec) ((sint (EndTime b) - sint start) * unit_dec) = Inr ?s"
    unfolding elapsed_def using assms(3,4) by (intro Dec_Quo_share) simp_all
  note s = elapsed_bounds [OF assms(3,4)]
  have ov: "valid_coins (OriginalVesting b)" "coins_ok (OriginalVesting b)" using assms(1) by (simp_all add: base_ok_def)
  have coins: "mapE (\<lambda>c. bindE (NewDecFromInt (Amount c)) (\<lambda>d. bindE (Dec_Mul d ?s) (\<lambda>m. bindE (Dec_RoundInt m)
      (\<lambda>v. NewCoin (Denom c) v)))) (OriginalVesting b)
    = Inr (map (\<lambda>c. \<lparr>Denom = Denom c, Amount = rounded_part ?s (Amount c)\<rparr>) (OriginalVesting b))"
  proof (rule mapE_total)
    fix c assume c: "c \<in> set (OriginalVesting b)"
    have "Amount c = original b (Denom c)" using total_of_member [OF valid_coins_strict [OF ov(1)] c, of Amount] by simp
    then have "Amount c * unit_dec < 2 ^ 315" using assms(2) by (simp add: continuous_schedule_def)
    moreover have "Amount c < 2 ^ 256" using ov(2) c by (auto simp: coins_ok_def list_all_iff)
    ultimately show "bindE (NewDecFromInt (Amount c)) (\<lambda>d. bindE (Dec_Mul d ?s) (\<lambda>m. bindE (Dec_RoundInt m)
        (\<lambda>v. NewCoin (Denom c) v))) = Inr \<lparr>Denom = Denom c, Amount = rounded_part ?s (Amount c)\<rparr>"
      using s valid_coins_denom [OF ov(1) c] valid_coins_pos [OF ov(1) c] by (intro vested_coin) simp_all
  qed
  show ?thesis
    unfolding Continuous_GetVestedCoins_def NewDec_eq(1) x bindE.simps quo coins using assms(3,4) by simp
qed

lemma continuous_coins:
  assumes "base_ok b" "continuous_schedule start b"
  shows "\<exists>vs. Continuous_GetVestedCoins b start t = Inr vs \<and> strict_denoms Denom vs
      \<and> (\<forall>c \<in> set vs. reDnm (Denom c)) \<and> (\<forall>d. coin_total vs d = continuous_amount start b (Unix t) d)"
proof -
  have ov: "strict_denoms Denom (OriginalVesting b)" "\<And>c. c \<in> set (OriginalVesting b) \<Longrightarrow> reDnm (Denom c)"
    using assms(1) valid_coins_strict valid_coins_denom by (auto simp: base_ok_def)
  consider "sint (Unix t) \<le> sint start" | "sint start < sint (Unix t)" "sint (EndTime b) \<le> sint (Unix t)"
    | "sint start < sint (Unix t)" "sint (Unix t) < sint (EndTime b)" by linarith
  then show ?thesis
  proof cases
    case 3
    let ?s = "elapsed (sint start) (sint (EndTime b)) (sint (Unix t))"
    let ?vs = "map (\<lambda>c. \<lparr>Denom = Denom c, Amount = rounded_part ?s (Amount c)\<rparr>) (OriginalVesting b)"
    have "strict_denoms Denom ?vs" using ov(1) by (simp add: strict_denoms_def comp_def)
    moreover have "coin_total ?vs d = continuous_amount start b (Unix t) d" for d
      using total_of_map_amount [of "rounded_part ?s", OF _ ov(1)] 3 by (simp add: continuous_amount_def)
    ultimately show ?thesis using continuous_inside [OF assms 3] ov(2) by auto
  qed (use ov assms in \<open>auto simp: Continuous_GetVestedCoins_def continuous_amount_def continuous_schedule_def\<close>)
qed

lemma continuous_bounds:
  assumes "base_ok b"
  shows "0 \<le> continuous_amount start b n d \<and> continuous_amount start b n d \<le> original b d"
  using base_ok_original [OF assms, of d] elapsed_bounds [of "sint start" "sint n" "sint (EndTime b)"]
    rounded_part_bounds [of "original b d"]
  unfolding continuous_amount_def by (auto simp: not_le)

lemma continuous_mono:
  assumes "base_ok b" "continuous_schedule start b" "sint n \<le> sint n'"
  shows "continuous_amount start b n d \<le> continuous_amount start b n' d"
proof (cases "sint start < sint (EndTime b)")
  case True
  then have "rounded_part (elapsed (sint start) (sint (EndTime b)) (sint n)) (original b d)
      \<le> rounded_part (elapsed (sint start) (sint (EndTime b)) (sint n')) (original b d)"
    using assms base_ok_original [OF assms(1)] by (intro rounded_part_mono elapsed_mono) simp_all
  then show ?thesis
    using continuous_bounds [OF assms(1), of start n d] continuous_bounds [OF assms(1), of start n' d] assms(3)
    unfolding continuous_amount_def by (auto split: if_splits)
next
  case False
  then show ?thesis using assms(3) base_ok_original [OF assms(1), of d] by (auto simp: continuous_amount_def)
qed

interpretation continuous: vesting_schedule "\<lambda>b. Continuous_GetVestedCoins b start" "continuous_schedule start"
  "continuous_amount start" for start
  by unfold_locales (use continuous_coins continuous_bounds continuous_mono in
    \<open>auto simp: same_account_def continuous_schedule_def continuous_amount_def fun_eq_iff\<close>)

subsection \<open>The other schedules\<close>

definition delayed_amount :: "BaseVestingAccount \<Rightarrow> int64 \<Rightarrow> string \<Rightarrow> int" where
  "delayed_amount b n d = (if sint (EndTime b) \<le> sint n then original b d else 0)"

lemma original_coins:
  assumes "base_ok b"
  shows "strict_denoms Denom (OriginalVesting b)" "c \<in> set (OriginalVesting b) \<Longrightarrow> reDnm (Denom c)"
  using assms valid_coins_strict valid_coins_denom by (auto simp: base_ok_def)

interpretation delayed: vesting_schedule Delayed_GetVestedCoins "\<lambda>_. True" delayed_amount
  by unfold_locales (use base_ok_original original_coins in
    \<open>auto simp: Delayed_GetVestedCoins_def delayed_amount_def same_account_def fun_eq_iff\<close>)

interpretation permanent: vesting_schedule "\<lambda>_ _. Inr []" "\<lambda>_. True" "\<lambda>_ _ _. 0"
  by unfold_locales (simp_all add: base_ok_original)

fun periods_amount :: "int \<Rightarrow> int \<Rightarrow> Periods \<Rightarrow> string \<Rightarrow> int" where
  "periods_amount now cur [] d = 0"
| "periods_amount now cur (p # ps) d =
     (if now - cur < sint (Length p) then 0
      else coin_total (PeriodAmount p) d + periods_amount now (cur + sint (Length p)) ps d)"

definition periods_ok :: "Periods \<Rightarrow> bool" where
  "periods_ok ps \<longleftrightarrow> list_all (\<lambda>p. 0 \<le> sint (Length p) \<and> valid_coins (PeriodAmount p) \<and> coins_ok (PeriodAmount p)) ps"

definition periods_total :: "Periods \<Rightarrow> string \<Rightarrow> int" where
  "periods_total ps d = (\<Sum>p\<leftarrow>ps. coin_total (PeriodAmount p) d)"

definition periods_length :: "Periods \<Rightarrow> int" where
  "periods_length ps = (\<Sum>p\<leftarrow>ps. sint (Length p))"

lemma periods_simps [simp]:
  "periods_ok []" "periods_total [] d = 0" "periods_length [] = 0"
  "periods_ok (p # ps) \<longleftrightarrow> 0 \<le> sint (Length p) \<and> valid_coins (PeriodAmount p) \<and> coins_ok (PeriodAmount p) \<and> periods_ok ps"
  "periods_total (p # ps) d = coin_total (PeriodAmount p) d + periods_total ps d"
  "periods_length (p # ps) = sint (Length p) + periods_length ps"
  by (auto simp: periods_ok_def periods_total_def periods_length_def)

lemma periods_total_nonneg: "periods_ok ps \<Longrightarrow> 0 \<le> periods_total ps d"
  by (induction ps) (simp_all add: valid_total_nonneg)

lemma periods_length_nonneg: "periods_ok ps \<Longrightarrow> 0 \<le> periods_length ps"
  by (induction ps) simp_all

lemma periods_bounds: "periods_ok ps \<Longrightarrow> 0 \<le> periods_amount now cur ps d \<and> periods_amount now cur ps d \<le> periods_total ps d"
proof (induction ps arbitrary: cur)
  case (Cons p ps)
  then show ?case
    using Cons.IH [of "cur + sint (Length p)"] valid_total_nonneg [of "PeriodAmount p" d] periods_total_nonneg [of ps d] by auto
qed simp

lemma periods_mono: "periods_ok ps \<Longrightarrow> now \<le> now' \<Longrightarrow> periods_amount now cur ps d \<le> periods_amount now' cur ps d"
proof (induction ps arbitrary: cur)
  case (Cons p ps)
  then show ?case
    using Cons.IH [of "cur + sint (Length p)"] valid_total_nonneg [of "PeriodAmount p" d]
      periods_bounds [of ps now' "cur + sint (Length p)" d] by auto
qed simp

lemma vested_periods_total:
  assumes "periods_ok ps" "valid_coins vs" "coins_ok vs" "\<And>d. coin_total vs d + periods_total ps d < 2 ^ 256"
    and "sint cur + periods_length ps = stop" "start \<le> sint cur" "start < sint now" "sint now < stop"
    and "stop - start < 2 ^ 63" "stop < 2 ^ 63" "- (2 ^ 63) \<le> start"
  shows "\<exists>r. vested_periods now cur ps vs = Inr r \<and> valid_coins r
    \<and> (\<forall>d. coin_total r d = coin_total vs d + periods_amount (sint now) (sint cur) ps d)"
  using assms
proof (induction ps arbitrary: cur vs)
  case (Cons p ps)
  have p: "0 \<le> sint (Length p)" "valid_coins (PeriodAmount p)" "coins_ok (PeriodAmount p)" "periods_ok ps"
    using Cons.prems(1) by simp_all
  have len: "0 \<le> periods_length ps" "sint cur + sint (Length p) + periods_length ps = stop"
    using periods_length_nonneg [OF p(4)] Cons.prems(5) by simp_all
  have diff: "sint (now - cur) = sint now - sint cur" using Cons.prems(6-9) p(1) len by (intro sint_diff) linarith+
  show ?case
  proof (cases "sint now - sint cur < sint (Length p)")
    case True
    then show ?thesis using diff Cons.prems(2) by simp
  next
    case False
    have le: "coin_total vs d + coin_total (PeriodAmount p) d + periods_total ps d < 2 ^ 256" for d
      using Cons.prems(4) [of d] by simp
    have "coin_total vs d + coin_total (PeriodAmount p) d < 2 ^ 256" for d
      using le [of d] periods_total_nonneg [OF p(4), of d] by simp
    then obtain v where v: "Coins_Add vs (PeriodAmount p) = Inr v" "valid_coins v" "coins_ok v"
      "\<And>d. coin_total v d = coin_total vs d + coin_total (PeriodAmount p) d"
      using Coins_Add_below [OF Cons.prems(2) p(2) Cons.prems(3) p(3)] by blast
    have cur: "sint (cur + Length p) = sint cur + sint (Length p)"
      using Cons.prems(6,10,11) p(1) len by (intro sint_plus) linarith+
    obtain r where "vested_periods now (cur + Length p) ps v = Inr r" "valid_coins r"
      "\<And>d. coin_total r d = coin_total v d + periods_amount (sint now) (sint (cur + Length p)) ps d"
      using Cons.IH [OF p(4) v(2,3), of "cur + Length p"] Cons.prems(6-11) p(1) len le v(4) cur by auto
    then show ?thesis using False diff v cur by auto
  qed
qed simp

definition periodic_amount :: "int64 \<Rightarrow> Periods \<Rightarrow> BaseVestingAccount \<Rightarrow> int64 \<Rightarrow> string \<Rightarrow> int" where
  "periodic_amount start ps b n d =
     (if sint n \<le> sint start then 0 else if sint (EndTime b) \<le> sint n then original b d
      else periods_amount (sint n) (sint start) ps d)"

definition periodic_schedule :: "int64 \<Rightarrow> Periods \<Rightarrow> BaseVestingAccount \<Rightarrow> bool" where
  "periodic_schedule start ps b \<longleftrightarrow> sint start < sint (EndTime b) \<and> sint (EndTime b) - sint start < 2 ^ 63
     \<and> periods_ok ps \<and> sint start + periods_length ps = sint (EndTime b) \<and> (\<forall>d. periods_total ps d = original b d)"

lemma sint_range: "sint (a :: 64 word) < 2 ^ 63" "- (2 ^ 63) \<le> sint a"
  using sint_lt [of a] sint_ge [of a] by simp_all

lemma periodic_coins:
  assumes "base_ok b" "periodic_schedule start ps b"
  shows "\<exists>vs. Periodic_GetVestedCoins b start ps t = Inr vs \<and> strict_denoms Denom vs
      \<and> (\<forall>c \<in> set vs. reDnm (Denom c)) \<and> (\<forall>d. coin_total vs d = periodic_amount start ps b (Unix t) d)"
proof -
  consider "sint (Unix t) \<le> sint start" | "sint start < sint (Unix t)" "sint (EndTime b) \<le> sint (Unix t)"
    | "sint start < sint (Unix t)" "sint (Unix t) < sint (EndTime b)" by linarith
  then show ?thesis
  proof cases
    case 3
    have small: "coin_total [] d + periods_total ps d < 2 ^ 256" for d
      using assms coins_ok_total [OF original_coins(1) [OF assms(1)], of d] by (simp add: periodic_schedule_def base_ok_def)
    obtain r where "vested_periods (Unix t) start ps [] = Inr r" "valid_coins r"
      "\<forall>d. coin_total r d = periods_amount (sint (Unix t)) (sint start) ps d"
      using vested_periods_total [of ps "[]" start "sint (EndTime b)" "sint start" "Unix t"] assms(2) 3 small
        sint_range [of "EndTime b"] sint_range [of start] by (auto simp: periodic_schedule_def coins_ok_def)
    then show ?thesis
      using 3 valid_coins_strict valid_coins_denom by (auto simp: Periodic_GetVestedCoins_def periodic_amount_def)
  qed (use assms original_coins in \<open>auto simp: Periodic_GetVestedCoins_def periodic_amount_def periodic_schedule_def\<close>)
qed

lemma periodic_bounds:
  assumes "base_ok b" "periodic_schedule start ps b"
  shows "0 \<le> periodic_amount start ps b n d \<and> periodic_amount start ps b n d \<le> original b d"
  using base_ok_original [OF assms(1), of d] assms(2) periods_bounds [of ps "sint n" "sint start" d]
  by (auto simp: periodic_amount_def periodic_schedule_def)

lemma periodic_mono:
  assumes "base_ok b" "periodic_schedule start ps b" "sint n \<le> sint n'"
  shows "periodic_amount start ps b n d \<le> periodic_amount start ps b n' d"
  using periods_mono [of ps "sint n" "sint n'" "sint start" d] assms(2,3)
    periodic_bounds [OF assms(1,2), of n d] periodic_bounds [OF assms(1,2), of n' d]
  unfolding periodic_amount_def by (auto simp: periodic_schedule_def split: if_splits)

interpretation periodic: vesting_schedule "\<lambda>b. Periodic_GetVestedCoins b start ps" "periodic_schedule start ps"
  "periodic_amount start ps" for start ps
  by unfold_locales (use periodic_coins periodic_bounds periodic_mono in
    \<open>auto simp: same_account_def periodic_schedule_def periodic_amount_def fun_eq_iff\<close>)

subsection \<open>Accounts\<close>

fun schedule_ok :: "VestingAccount \<Rightarrow> bool" where
  "schedule_ok (ContinuousVestingAccount b start) = continuous_schedule start b"
| "schedule_ok (PeriodicVestingAccount b start ps) = periodic_schedule start ps b"
| "schedule_ok (DelayedVestingAccount b) = True"
| "schedule_ok (PermanentLockedAccount b) = True"

fun vested_amount :: "VestingAccount \<Rightarrow> int64 \<Rightarrow> string \<Rightarrow> int" where
  "vested_amount (ContinuousVestingAccount b start) = continuous_amount start b"
| "vested_amount (PeriodicVestingAccount b start ps) = periodic_amount start ps b"
| "vested_amount (DelayedVestingAccount b) = delayed_amount b"
| "vested_amount (PermanentLockedAccount b) = (\<lambda>_ _. 0)"

definition vesting_ok :: "VestingAccount \<Rightarrow> bool" where
  "vesting_ok va \<longleftrightarrow> base_ok (vesting_base va) \<and> schedule_ok va"

lemma vested_amount_coins:
  assumes "vesting_ok va"
  obtains vs where "GetVestedCoins va t = Inr vs" "\<And>d. coin_total vs d = vested_amount va (Unix t) d"
proof -
  have "\<exists>vs. GetVestedCoins va t = Inr vs \<and> (\<forall>d. coin_total vs d = vested_amount va (Unix t) d)"
    using assms continuous.vested_coins periodic.vested_coins delayed.vested_coins
    by (cases va) (fastforce simp: vesting_ok_def)+
  then show thesis using that by blast
qed

lemma vesting_coins_total:
  assumes "vesting_ok va"
  obtains v where "GetVestingCoins va t = Inr v" "valid_coins v" "coins_ok v"
    "\<And>d. coin_total v d = original (vesting_base va) d - vested_amount va (Unix t) d"
proof (cases va)
  case (ContinuousVestingAccount b start)
  then show thesis using that assms continuous.vesting_coins [of b start t] by (auto simp: vesting_ok_def)
next
  case (PeriodicVestingAccount b start ps)
  then show thesis using that assms periodic.vesting_coins [of b start ps t] by (auto simp: vesting_ok_def)
next
  case (DelayedVestingAccount b)
  then show thesis using that assms delayed.vesting_coins [of b t] by (auto simp: vesting_ok_def)
next
  case (PermanentLockedAccount b)
  then show thesis using that assms by (auto simp: vesting_ok_def base_ok_def)
qed

lemma vested_amount_bounds:
  "vesting_ok va \<Longrightarrow> 0 \<le> vested_amount va n d \<and> vested_amount va n d \<le> original (vesting_base va) d"
  using continuous.amount_bounds periodic.amount_bounds delayed.amount_bounds permanent.amount_bounds
  by (cases va) (auto simp: vesting_ok_def base_ok_original)

lemma vested_amount_mono:
  "vesting_ok va \<Longrightarrow> sint n \<le> sint n' \<Longrightarrow> vested_amount va n d \<le> vested_amount va n' d"
  using continuous.amount_mono periodic.amount_mono delayed.amount_mono
  by (cases va) (auto simp: vesting_ok_def)

text \<open>An account may be created with an end before its start; then nothing is vested up to the start.\<close>

fun started :: "VestingAccount \<Rightarrow> int \<Rightarrow> bool" where
  "started (ContinuousVestingAccount b start) n = (sint start < n)"
| "started _ n = True"

lemma vested_amount_end:
  "vesting_ok va \<Longrightarrow> \<forall>b. va \<noteq> PermanentLockedAccount b \<Longrightarrow> sint (GetEndTime va) \<le> sint n \<Longrightarrow> started va (sint n)
    \<Longrightarrow> vested_amount va n d = original (vesting_base va) d"
  by (cases va) (auto simp: vesting_ok_def continuous_amount_def periodic_amount_def delayed_amount_def
      continuous_schedule_def periodic_schedule_def)

lemma with_base_facts [simp]: "vesting_base (with_base b va) = b" "with_base (vesting_base va) va = va"
  "with_base b (with_base b' va) = with_base b va"
  by (cases va; simp)+

lemma with_base_schedule:
  assumes "vesting_ok va" "base_ok b" "same_account (vesting_base va) b"
  shows "vesting_ok (with_base b va)" "vested_amount (with_base b va) = vested_amount va"
  using assms continuous.same_schedule periodic.same_schedule delayed.same_schedule
  by (cases va; auto simp: vesting_ok_def)+

definition locked_amount :: "VestingAccount \<Rightarrow> int64 \<Rightarrow> string \<Rightarrow> int" where
  "locked_amount va n d =
     max (original (vesting_base va) d - vested_amount va n d - delegated_vesting (vesting_base va) d) 0"

lemma locked_coins_total:
  assumes "vesting_ok va"
  obtains l where "vesting_LockedCoins va t = Inr l" "valid_coins l" "coins_ok l"
    "\<And>d. coin_total l d = locked_amount va (Unix t) d"
proof -
  obtain v where v: "GetVestingCoins va t = Inr v" "valid_coins v" "coins_ok v"
    "\<And>d. coin_total v d = original (vesting_base va) d - vested_amount va (Unix t) d"
    using vesting_coins_total [OF assms] by blast
  obtain l where "LockedCoinsFromVesting (vesting_base va) v = Inr l" "valid_coins l" "coins_ok l"
    "\<And>d. coin_total l d = max (coin_total v d - delegated_vesting (vesting_base va) d) 0"
    using LockedCoins_total [OF v(2,3), of "vesting_base va"] assms by (auto simp: vesting_ok_def)
  then show thesis using that [of l] v by (simp add: vesting_LockedCoins_def locked_amount_def)
qed

lemma locked_amount_mono: "vesting_ok va \<Longrightarrow> sint n \<le> sint n' \<Longrightarrow> locked_amount va n' d \<le> locked_amount va n d"
  using vested_amount_mono [of va n n' d] by (simp add: locked_amount_def)

lemma TrackDelegation_locked:
  assumes "vesting_ok va" "valid_coins b" "valid_coins amt" "coins_ok amt" "TrackDelegation t b amt va = Inr va'"
  shows "vesting_ok va'" "locked_amount va' (Unix t) d = max (locked_amount va (Unix t) d - coin_total amt d) 0"
    "delegated_vesting (vesting_base va') d + delegated_free (vesting_base va') d
      = delegated_vesting (vesting_base va) d + delegated_free (vesting_base va) d + coin_total amt d"
    "vested_amount va' = vested_amount va" "vBaseAccount (vesting_base va') = vBaseAccount (vesting_base va)"
proof -
  obtain v where v: "GetVestingCoins va t = Inr v" "valid_coins v" "coins_ok v"
    "\<And>d. coin_total v d = original (vesting_base va) d - vested_amount va (Unix t) d"
    using vesting_coins_total [OF assms(1)] by blast
  obtain b' where b': "Base_TrackDelegation b v amt (vesting_base va) = Inr b'" "va' = with_base b' va"
    using assms(5) v(1) by (auto simp: TrackDelegation_def)
  have le: "coin_total v d \<le> original (vesting_base va) d" for d
    using v(4) [of d] vested_amount_bounds [OF assms(1)] by simp
  have base: "base_ok (vesting_base va)" using assms(1) by (simp add: vesting_ok_def)
  note f = Base_TrackDelegation_facts [OF base v(2) assms(2) le assms(3,4) b'(1)]
  show "vesting_ok va'" "vested_amount va' = vested_amount va"
    using with_base_schedule [OF assms(1)] f by (simp_all add: b'(2))
  show "vBaseAccount (vesting_base va') = vBaseAccount (vesting_base va)" using f by (simp add: b'(2) same_account_def)
  have amt: "0 \<le> coin_total amt d" by (rule valid_total_nonneg [OF assms(3)])
  show "locked_amount va' (Unix t) d = max (locked_amount va (Unix t) d - coin_total amt d) 0"
    using f v(4) [of d] amt with_base_schedule(2) [OF assms(1), of b']
    by (simp add: locked_amount_def b'(2) same_account_def vesting_part_def)
  show "delegated_vesting (vesting_base va') d + delegated_free (vesting_base va') d
      = delegated_vesting (vesting_base va) d + delegated_free (vesting_base va) d + coin_total amt d"
    using f by (simp add: b'(2))
qed

lemma TrackUndelegation_locked:
  assumes "vesting_ok va" "valid_coins amt" "coins_ok amt" "TrackUndelegation amt va = Inr va'"
  shows "vesting_ok va'" "locked_amount va' n d \<le> locked_amount va n d + coin_total amt d"
    "delegated_vesting (vesting_base va') d + delegated_free (vesting_base va') d
      = max (delegated_vesting (vesting_base va) d + delegated_free (vesting_base va) d - coin_total amt d) 0"
    "vested_amount va' = vested_amount va" "vBaseAccount (vesting_base va') = vBaseAccount (vesting_base va)"
proof -
  obtain b' where b': "Base_TrackUndelegation amt (vesting_base va) = Inr b'" "va' = with_base b' va"
    using assms(4) by (auto simp: TrackUndelegation_def)
  have base: "base_ok (vesting_base va)" using assms(1) by (simp add: vesting_ok_def)
  note f = Base_TrackUndelegation_facts [OF base assms(2,3) b'(1)]
  show "vesting_ok va'" "vested_amount va' = vested_amount va"
    using with_base_schedule [OF assms(1)] f by (simp_all add: b'(2))
  show "vBaseAccount (vesting_base va') = vBaseAccount (vesting_base va)" using f by (simp add: b'(2) same_account_def)
  have nn: "0 \<le> coin_total amt d" "0 \<le> delegated_free (vesting_base va) d" "0 \<le> delegated_vesting (vesting_base va) d"
    using valid_total_nonneg assms(2) base by (auto simp: base_ok_def)
  show "locked_amount va' n d \<le> locked_amount va n d + coin_total amt d"
    using f nn with_base_schedule(2) [OF assms(1), of b'] by (simp add: locked_amount_def b'(2) same_account_def)
  show "delegated_vesting (vesting_base va') d + delegated_free (vesting_base va') d
      = max (delegated_vesting (vesting_base va) d + delegated_free (vesting_base va) d - coin_total amt d) 0"
    using f nn by (simp add: b'(2))
qed

subsection \<open>The theorems\<close>

text \<open>
  C18: for a vesting account of any kind whose coins and schedule are well formed, the vested and
  the vesting coins are defined at every time and add up to the original ones, the vested
  coins never shrink, and from the end of the schedule on, once the schedule has started,
  nothing is vesting; a permanently locked account vests nothing.
\<close>

theorem vesting_schedule_sound:
  assumes "vesting_ok va"
  shows "\<exists>vs v. GetVestedCoins va t = Inr vs \<and> GetVestingCoins va t = Inr v \<and> Coins_IsValid v
    \<and> (\<forall>d. 0 \<le> coin_total vs d \<and> coin_total vs d + coin_total v d = original (vesting_base va) d)
    \<and> (\<forall>t' vs' d. sint (Unix t) \<le> sint (Unix t') \<longrightarrow> GetVestedCoins va t' = Inr vs' \<longrightarrow> coin_total vs d \<le> coin_total vs' d)
    \<and> (sint (GetEndTime va) \<le> sint (Unix t) \<and> started va (sint (Unix t)) \<longrightarrow>
        v = [] \<or> va = PermanentLockedAccount (vesting_base va) \<and> vs = [])"
proof -
  obtain vs where vs: "GetVestedCoins va t = Inr vs" "\<And>d. coin_total vs d = vested_amount va (Unix t) d"
    using vested_amount_coins [OF assms] by blast
  obtain v where v: "GetVestingCoins va t = Inr v" "valid_coins v"
    "\<And>d. coin_total v d = original (vesting_base va) d - vested_amount va (Unix t) d"
    using vesting_coins_total [OF assms] by blast
  have mono: "coin_total vs d \<le> coin_total vs' d"
    if "sint (Unix t) \<le> sint (Unix t')" "GetVestedCoins va t' = Inr vs'" for t' vs' d
    using vested_amount_mono [OF assms that(1), of d] vested_amount_coins [OF assms, of t'] that(2) vs(2) by (metis sum.inject(2))
  have "v = [] \<or> va = PermanentLockedAccount (vesting_base va) \<and> vs = []"
    if "sint (GetEndTime va) \<le> sint (Unix t)" "started va (sint (Unix t))"
  proof (cases "\<exists>b. va = PermanentLockedAccount b")
    case False
    then have "coin_total v d = 0" for d using v(3) [of d] vested_amount_end [OF assms _ that(1,2), of d] by simp
    then show ?thesis using valid_coins_ext [OF v(2), of "[]"] by simp
  qed (use vs(1) in auto)
  then show ?thesis using vs v mono vested_amount_bounds [OF assms] by auto
qed

definition demo_base :: BaseVestingAccount where
  "demo_base = NewBaseVestingAccount ProtoBaseAccount [\<lparr>Denom = ''atom'', Amount = 100\<rparr>] 1000"

lemma demo_base_ok: "base_ok demo_base"
proof -
  have "Coins_IsValid [\<lparr>Denom = ''atom'', Amount = 100\<rparr>]" by code_simp
  then have "valid_coins [\<lparr>Denom = ''atom'', Amount = 100\<rparr>]" by (simp only: Coins_IsValid_eq)
  then show ?thesis by (simp add: base_ok_def demo_base_def NewBaseVestingAccount_def coins_ok_def)
qed

lemma demo_vesting_ok: "vesting_ok (ContinuousVestingAccount demo_base 0)"
  using demo_base_ok by (simp add: vesting_ok_def continuous_schedule_def demo_base_def NewBaseVestingAccount_def)

theorem vesting_schedule_sound_witness:
  "\<exists>vs v. GetVestedCoins (ContinuousVestingAccount demo_base 0) (62135598000 * 10 ^ 9) = Inr vs
     \<and> GetVestingCoins (ContinuousVestingAccount demo_base 0) (62135598000 * 10 ^ 9) = Inr v
     \<and> coin_total vs ''atom'' + coin_total v ''atom'' = 100 \<and> v = []"
proof -
  have "sint (Unix (62135598000 * 10 ^ 9)) = 1200" by (simp add: Unix_def)
  then show ?thesis
    using vesting_schedule_sound [OF demo_vesting_ok, of "62135598000 * 10 ^ 9"]
    by (auto simp: demo_base_def NewBaseVestingAccount_def)
qed

text \<open>
  C19: a delegation tracked by a vesting account is counted once, as delegated vesting or as
  delegated free, it lowers the locked coins by its amount, down to zero, and keeps the
  account well formed; an undelegation takes the same count back, raises the locked coins by
  at most its amount and leaves the schedule alone.
\<close>

theorem vesting_delegation_tracked:
  assumes "vesting_ok va" "Coins_IsValid amt" "coins_ok amt"
  shows "(Coins_IsValid b \<longrightarrow> TrackDelegation t b amt va = Inr va' \<longrightarrow>
      vesting_ok va' \<and> locked_amount va' (Unix t) d = max (locked_amount va (Unix t) d - coin_total amt d) 0
      \<and> delegated_vesting (vesting_base va') d + delegated_free (vesting_base va') d
        = delegated_vesting (vesting_base va) d + delegated_free (vesting_base va) d + coin_total amt d)
    \<and> (TrackUndelegation amt va = Inr va'' \<longrightarrow>
      vesting_ok va'' \<and> locked_amount va'' n d \<le> locked_amount va n d + coin_total amt d
      \<and> delegated_vesting (vesting_base va'') d + delegated_free (vesting_base va'') d
        = max (delegated_vesting (vesting_base va) d + delegated_free (vesting_base va) d - coin_total amt d) 0
      \<and> vested_amount va'' = vested_amount va)"
  using assms TrackDelegation_locked [OF assms(1), of b amt t va'] TrackUndelegation_locked [OF assms(1), of amt va'']
  by simp

theorem vesting_delegation_tracked_witness:
  "let va = DelayedVestingAccount demo_base; amt = [\<lparr>Denom = ''atom'', Amount = 30\<rparr>];
       va' = DelayedVestingAccount (demo_base\<lparr>DelegatedVesting := amt\<rparr>) in
   TrackDelegation 0 [\<lparr>Denom = ''atom'', Amount = 100\<rparr>] amt va = Inr va'
   \<and> vesting_ok va' \<and> locked_amount va' (Unix 0) ''atom'' = locked_amount va (Unix 0) ''atom'' - 30"
proof -
  let ?va = "DelayedVestingAccount demo_base" and ?amt = "[\<lparr>Denom = ''atom'', Amount = 30\<rparr>]"
  let ?b = "[\<lparr>Denom = ''atom'', Amount = 100\<rparr>]"
  have run: "TrackDelegation 0 ?b ?amt ?va = Inr (DelayedVestingAccount (demo_base\<lparr>DelegatedVesting := ?amt\<rparr>))"
    by code_simp
  have v: "Coins_IsValid ?amt" "Coins_IsValid ?b" by code_simp+
  have ok: "vesting_ok ?va" using demo_base_ok by (simp add: vesting_ok_def)
  have amt: "coins_ok ?amt" by (simp add: coins_ok_def)
  have "locked_amount ?va (Unix 0) ''atom'' = 100"
    by (simp add: locked_amount_def delayed_amount_def demo_base_def NewBaseVestingAccount_def Unix_def)
  then show ?thesis using vesting_delegation_tracked [OF ok v(1) amt] run v(2) by (fastforce simp: Let_def)
qed

end
