(* ===== verification/BankLedger.thy ===== *)
theory BankLedger
  imports BankPlus Vesting_Props Ledger
begin

section \<open>The balances of the bank as a ledger\<close>

text \<open>
  The balances under the keys of the store read as a ledger by denomination and holder, the
  well-formed states, and the effect of the loops over coins: each moves the balance of one
  holder by the coins it is given and leaves the rest alone.
\<close>

definition holder :: "AccAddress \<Rightarrow> bool" where
  "holder a \<longleftrightarrow> a \<noteq> [] \<and> length a \<le> MaxAddrLen"

definition balance_key :: "AccAddress \<Rightarrow> string \<Rightarrow> string" where
  "balance_key a d = byte (length a) # a @ d"

definition balance :: "BankState \<Rightarrow> string \<Rightarrow> AccAddress \<Rightarrow> int" where
  "balance s d a =
     (if holder a then (case store_get (bank_balances s) (balance_key a d) of None \<Rightarrow> 0 | Some c \<Rightarrow> Amount c) else 0)"

definition put_balance :: "BankState \<Rightarrow> string \<Rightarrow> AccAddress \<Rightarrow> int \<Rightarrow> BankState" where
  "put_balance s d a v =
     s\<lparr>bank_balances := (if v = 0 then store_delete (balance_key a d) (bank_balances s)
       else store_set (balance_key a d) \<lparr>Denom = d, Amount = v\<rparr> (bank_balances s))\<rparr>"

abbreviation bank_total :: "BankState \<Rightarrow> string \<Rightarrow> int" where
  "bank_total s d \<equiv> ledger_total (balance s d)"

abbreviation supply_of :: "BankState \<Rightarrow> string \<Rightarrow> int" where
  "supply_of s d \<equiv> Amount (GetSupply_bank s d)"

lemma balance_key_inj: "holder a \<Longrightarrow> holder b \<Longrightarrow> balance_key a d = balance_key b e \<longleftrightarrow> a = b \<and> d = e"
proof -
  assume h: "holder a" "holder b"
  have "byte (length a) = byte (length b) \<longleftrightarrow> length a = length b"
    using h by (intro byte_inj) (simp_all add: holder_def MaxAddrLen_def)
  then show ?thesis
    unfolding balance_key_def by (cases "length a = length b") (simp_all only: list.inject append_eq_append_conv, auto)
qed

lemma prefix_holder [simp]: "holder a \<Longrightarrow> CreateAccountBalancesPrefix a = Inr (byte (length a) # a)"
  by (simp add: CreateAccountBalancesPrefix_def MustLengthPrefix_def LengthPrefix_def holder_def MaxAddrLen_def)

lemma prefix_length: "CreateAccountBalancesPrefix a = Inr p \<Longrightarrow> length a \<le> MaxAddrLen"
  by (auto simp: CreateAccountBalancesPrefix_def MustLengthPrefix_def LengthPrefix_def MaxAddrLen_def split: if_splits)

lemma balance_put: "holder a \<Longrightarrow> balance (put_balance s d a v) e b = (if e = d \<and> b = a then v else balance s e b)"
  using balance_key_inj [of b a e d]
  by (auto simp: balance_def put_balance_def store_get_set store_get_delete)

lemma finite_balances: "finite {a. balance s d a \<noteq> 0}"
proof (rule finite_subset)
  let ?f = "\<lambda>(k, c :: Coin). take (of_char (hd k)) (tl k)"
  show "{a. balance s d a \<noteq> 0} \<subseteq> ?f ` set (bank_balances s)"
  proof
    fix a assume "a \<in> {a. balance s d a \<noteq> 0}"
    then obtain c where h: "holder a" and c: "store_get (bank_balances s) (balance_key a d) = Some c"
      by (auto simp: balance_def split: if_splits option.splits)
    have "(balance_key a d, c) \<in> set (bank_balances s)" using c by (simp add: store_get_def map_of_SomeD)
    moreover have "of_char (byte (length a)) = length a"
      using h by (intro of_char_byte) (simp add: holder_def MaxAddrLen_def)
    then have "a = ?f (balance_key a d, c)" by (simp add: balance_key_def)
    ultimately show "a \<in> ?f ` set (bank_balances s)" by (rule rev_image_eqI)
  qed
qed simp

lemma put_balance_simps [simp]:
  "bank_supply (put_balance s d a v) = bank_supply s" "bank_auth (put_balance s d a v) = bank_auth s"
  "store_wf (bank_balances s) \<Longrightarrow> store_wf (bank_balances (put_balance s d a v))"
  by (simp_all add: put_balance_def store_wf_set store_wf_delete)

interpretation bank_ledger: ledger balance put_balance "\<lambda>s. store_wf (bank_balances s)" holder
  by unfold_locales (simp_all add: balance_put finite_balances)

subsection \<open>Shifts of one account\<close>

definition bank_wf :: "BankState \<Rightarrow> bool" where
  "bank_wf s \<longleftrightarrow> store_wf (bank_balances s) \<and> store_wf (bank_supply s) \<and>
     (\<forall>k c. store_get (bank_balances s) k = Some c \<longrightarrow>
        (\<exists>a. holder a \<and> k = balance_key a (Denom c)) \<and> reDnm (Denom c) \<and> 0 < Amount c \<and> Amount c < 2 ^ 256) \<and>
     (\<forall>d v. store_get (bank_supply s) d = Some v \<longrightarrow> reDnm d \<and> 0 < v \<and> v < 2 ^ 256)"

text \<open>The holder \<open>a\<close> gains \<open>f d\<close> of each denomination and nothing else of the stores changes.\<close>

definition shifts :: "AccAddress \<Rightarrow> (string \<Rightarrow> int) \<Rightarrow> BankState \<Rightarrow> BankState \<Rightarrow> bool" where
  "shifts a f s s' \<longleftrightarrow> bank_wf s' \<and> bank_supply s' = bank_supply s \<and> bank_auth s' = bank_auth s
     \<and> (\<forall>d b. balance s' d b = balance s d b + (if b = a then f d else 0))
     \<and> (\<forall>d. bank_total s' d = bank_total s d + f d)"

lemma shifts_refl: "bank_wf s \<Longrightarrow> shifts a (\<lambda>_. 0) s s"
  by (simp add: shifts_def)

lemma shifts_trans: "shifts a f s s1 \<Longrightarrow> shifts a g s1 s2 \<Longrightarrow> shifts a (\<lambda>d. f d + g d) s s2"
  by (auto simp: shifts_def)

lemma EmitEvents_simps [simp]:
  "bank_balances (EmitEvents es s) = bank_balances s" "bank_supply (EmitEvents es s) = bank_supply s"
  "bank_auth (EmitEvents es s) = bank_auth s" "balance (EmitEvents es s) = balance s"
  "bank_wf (EmitEvents es s) = bank_wf s" "GetSupply_bank (EmitEvents es s) = GetSupply_bank s"
  by (simp_all add: EmitEvents_def balance_def fun_eq_iff bank_wf_def GetSupply_bank_def)

lemma shifts_emit [simp]: "shifts a f s (EmitEvents es s') = shifts a f s s'" "shifts a f (EmitEvents es s) s' = shifts a f s s'"
  by (simp_all add: shifts_def)

lemma balance_bounds: "bank_wf s \<Longrightarrow> 0 \<le> balance s d a \<and> balance s d a < 2 ^ 256"
  by (auto simp: balance_def bank_wf_def less_imp_le split: option.splits)

lemma supply_bounds: "bank_wf s \<Longrightarrow> 0 \<le> supply_of s d \<and> supply_of s d < 2 ^ 256"
  by (auto simp: GetSupply_bank_def bank_wf_def less_imp_le split: option.splits)

lemma GetBalance_facts:
  assumes "bank_wf s" "holder a" "GetBalance_bank s a d = Inr c"
  shows "c = \<lparr>Denom = d, Amount = balance s d a\<rparr>" "reDnm d"
proof -
  have "c = \<lparr>Denom = d, Amount = balance s d a\<rparr> \<and> reDnm d"
  proof (cases "store_get (bank_balances s) (balance_key a d)")
    case None
    then show ?thesis using assms by (auto simp: GetBalance_bank_def balance_key_def balance_def)
  next
    case (Some x)
    then obtain b where b: "holder b" "balance_key a d = balance_key b (Denom x)" "reDnm (Denom x)"
      using assms(1) unfolding bank_wf_def by blast
    then have "Denom x = d" using balance_key_inj [OF assms(2) b(1)] by simp
    moreover have "c = x" using assms(2,3) Some by (simp add: GetBalance_bank_def balance_key_def)
    ultimately show ?thesis using Some b assms(2) by (simp add: balance_def)
  qed
  then show "c = \<lparr>Denom = d, Amount = balance s d a\<rparr>" "reDnm d" by blast+
qed

lemma GetBalance_total:
  "bank_wf s \<Longrightarrow> holder a \<Longrightarrow> reDnm d \<Longrightarrow> GetBalance_bank s a d = Inr \<lparr>Denom = d, Amount = balance s d a\<rparr>"
proof -
  assume h: "bank_wf s" "holder a" "reDnm d"
  then obtain c where c: "GetBalance_bank s a d = Inr c"
    by (cases "store_get (bank_balances s) (byte (length a) # a @ d)") (auto simp: GetBalance_bank_def)
  then show ?thesis using GetBalance_facts(1) [OF h(1,2) c] by simp
qed

lemma Coin_IsValid_eq [simp]: "Coin_IsValid c \<longleftrightarrow> reDnm (Denom c) \<and> 0 \<le> Amount c"
  by (auto simp: Coin_IsValid_def Coin_Validate_def Int_IsNegative_def sgn_if)

lemma put_balance_shift:
  assumes wf: "bank_wf s" and a: "holder a" and d: "reDnm d" and v: "0 \<le> v" "v < 2 ^ 256"
  shows "shifts a (\<lambda>e. if e = d then v - balance s d a else 0) s (put_balance s d a v)"
proof -
  have entry: "(\<exists>b. holder b \<and> k = balance_key b (Denom c)) \<and> reDnm (Denom c) \<and> 0 < Amount c \<and> Amount c < 2 ^ 256"
    if "store_get (bank_balances (put_balance s d a v)) k = Some c" for k c
  proof (cases "k = balance_key a d")
    case True
    then have "c = \<lparr>Denom = d, Amount = v\<rparr>" "v \<noteq> 0"
      using that by (auto simp: put_balance_def store_get_set store_get_delete split: if_splits)
    then show ?thesis using True a d v by auto
  next
    case False
    then have "store_get (bank_balances s) k = Some c"
      using that by (simp add: put_balance_def store_get_set store_get_delete split: if_splits)
    then show ?thesis using wf unfolding bank_wf_def by blast
  qed
  then have "bank_wf (put_balance s d a v)" using wf unfolding bank_wf_def by simp
  moreover have "bank_total (put_balance s d a v) e = bank_total s e + (if e = d then v - balance s d a else 0)" for e
    using wf a bank_ledger.total_put [of s a d v e] by (simp add: bank_wf_def)
  ultimately show ?thesis using a by (simp add: shifts_def balance_put)
qed

lemma Coin_collapse: "\<lparr>Denom = Denom c, Amount = Amount c\<rparr> = c"
  by simp

lemma setBalance_put:
  "holder a \<Longrightarrow> setBalance_bank a c s = Inr s' \<longleftrightarrow> reDnm (Denom c) \<and> 0 \<le> Amount c \<and> s' = put_balance s (Denom c) a (Amount c)"
  by (auto simp: setBalance_bank_def put_balance_def balance_key_def Coin_collapse)

lemma fold_shifts:
  assumes "foldE step cs s = Inr s'" "bank_wf s"
    and step: "\<And>c u v. c \<in> set cs \<Longrightarrow> bank_wf u \<Longrightarrow> bank_auth u = bank_auth s \<Longrightarrow> step c u = Inr v \<Longrightarrow>
       shifts a (\<lambda>d. if d = Denom c then g * Amount c else 0) u v"
  shows "shifts a (\<lambda>d. g * coin_total cs d) s s'"
  using assms
proof (induction cs arbitrary: s)
  case Nil
  then show ?case by (simp add: shifts_refl)
next
  case (Cons c cs)
  obtain u where u: "step c s = Inr u" "foldE step cs u = Inr s'" using Cons.prems(1) by auto
  have one: "shifts a (\<lambda>d. if d = Denom c then g * Amount c else 0) s u"
    using Cons.prems(2) u(1) by (intro Cons.prems(3)) simp_all
  then have "bank_wf u" "bank_auth u = bank_auth s" by (simp_all add: shifts_def)
  then have "shifts a (\<lambda>d. g * coin_total cs d) u s'"
    using Cons.prems(3) by (intro Cons.IH [OF u(2)]) auto
  from shifts_trans [OF one this] show ?case
    by (rule back_subst [of "\<lambda>f. shifts a f s s'"]) (auto simp: fun_eq_iff algebra_simps)
qed

subsection \<open>Spending and receiving\<close>

lemma Coin_Sub_eq:
  "Coin_Sub a b = Inr c \<longleftrightarrow> Denom a = Denom b \<and> c = \<lparr>Denom = Denom a, Amount = Amount a - Amount b\<rparr>
     \<and> Amount b \<le> Amount a \<and> Amount a - Amount b < 2 ^ 256"
  by (auto simp: Coin_Sub_def Coin_same_denom_def Let_def)

lemma SafeSub_single:
  assumes "Denom a = Denom b" "\<bar>Amount a - Amount b\<bar> < 2 ^ 256"
  shows "\<exists>r. Coins_SafeSub [a] [b] = Inr (r, Amount a < Amount b)"
proof -
  let ?n = "Coins_negative [b]"
  have strict: "strict_denoms Denom [a]" "strict_denoms Denom ?n" by (simp_all add: Coins_negative_def)
  have bound: "\<bar>coin_total [a] d + coin_total ?n d\<bar> < 2 ^ 256" for d using assms by simp
  obtain r where r: "safeAdd_loop [] [a] ?n = Inr r" using coins.merge_defined [OF strict bound] by blast
  have "Coins_IsAnyNegative r \<longleftrightarrow> (\<exists>d. coin_total [a] d < coin_total [b] d)"
    using any_negative_iff [OF coins.merge_strict [OF r strict]] coins.merge_total [OF r] by simp
  also have "\<dots> \<longleftrightarrow> Amount a < Amount b" using assms(1) by auto
  finally show ?thesis using r safeAdd_strict [OF strict] by (auto simp: Coins_SafeSub_def)
qed

lemma balance_holder: "a \<noteq> [] \<Longrightarrow> GetBalance_bank s a d = Inr c \<Longrightarrow> holder a"
  using prefix_length by (auto simp: GetBalance_bank_def holder_def)

lemma sub_unlocked_coin_facts:
  assumes "bank_wf s" "a \<noteq> []" "0 < Amount c" "sub_unlocked_coin a l c s = Inr s'"
  shows "holder a" "shifts a (\<lambda>d. if d = Denom c then - 1 * Amount c else 0) s s'"
    "valid_coins l \<Longrightarrow> coin_total l (Denom c) + Amount c \<le> balance s (Denom c) a"
proof -
  obtain b where b: "GetBalance_bank s a (Denom c) = Inr b" using assms(4) by (auto simp: sub_unlocked_coin_def)
  show h: "holder a" by (rule balance_holder [OF assms(2) b])
  note bal = GetBalance_facts [OF assms(1) h b]
  obtain n sp r where run: "Coins_AmountOf l (Denom c) = Inr n" "Coin_Sub b \<lparr>Denom = Denom c, Amount = n\<rparr> = Inr sp"
    "Coins_SafeSub [sp] [c] = Inr (r, False)" "0 \<le> n"
    "setBalance_bank a \<lparr>Denom = Denom c, Amount = Amount b - Amount c\<rparr> s = Inr s'" "Amount c \<le> Amount b"
    using assms(4) b bal by (auto simp: sub_unlocked_coin_def Coin_Sub_eq split: if_splits)
  have sp: "sp = \<lparr>Denom = Denom c, Amount = Amount b - n\<rparr>" "n \<le> Amount b" using run(2) bal by (auto simp: Coin_Sub_eq)
  have put: "s' = put_balance s (Denom c) a (balance s (Denom c) a - Amount c)" "Amount c \<le> balance s (Denom c) a"
    using run(5,6) bal by (simp_all add: setBalance_put [OF h])
  show "shifts a (\<lambda>d. if d = Denom c then - 1 * Amount c else 0) s s'"
    using put_balance_shift [OF assms(1) h bal(2), of "balance s (Denom c) a - Amount c"] put assms(3)
      balance_bounds [OF assms(1), of "Denom c" a] by (simp cong: if_cong)
  show "coin_total l (Denom c) + Amount c \<le> balance s (Denom c) a" if "valid_coins l"
  proof -
    have "\<bar>Amount sp - Amount c\<bar> < 2 ^ 256"
      using sp bal put(2) run(4) balance_bounds [OF assms(1), of "Denom c" a] assms(3) by simp
    then have "\<not> Amount sp < Amount c" using SafeSub_single [of sp c] run(3) sp by auto
    then show ?thesis using sp bal run(1) Coins_AmountOf_eq [OF that bal(2)] by simp
  qed
qed

lemma add_coin_facts:
  assumes "bank_wf s" "a \<noteq> []" "0 < Amount c" "add_coin a c s = Inr s'"
  shows "holder a" "shifts a (\<lambda>d. if d = Denom c then 1 * Amount c else 0) s s'"
proof -
  obtain b where b: "GetBalance_bank s a (Denom c) = Inr b" using assms(4) by (auto simp: add_coin_def)
  show h: "holder a" by (rule balance_holder [OF assms(2) b])
  note bal = GetBalance_facts [OF assms(1) h b]
  have put: "s' = put_balance s (Denom c) a (balance s (Denom c) a + Amount c)" "\<bar>balance s (Denom c) a + Amount c\<bar> < 2 ^ 256"
    using assms(4) b bal by (auto simp: add_coin_def Coin_Add_eq setBalance_put [OF h] split: if_splits)
  show "shifts a (\<lambda>d. if d = Denom c then 1 * Amount c else 0) s s'"
    using put_balance_shift [OF assms(1) h bal(2), of "balance s (Denom c) a + Amount c"] put assms(3)
      balance_bounds [OF assms(1), of "Denom c" a] by (simp cong: if_cong)
qed

lemma sub_fold_spends:
  assumes "foldE (sub_unlocked_coin a l) amt s = Inr s'" "bank_wf s" "a \<noteq> []" "valid_coins amt" "valid_coins l"
    and "0 < coin_total amt d"
  shows "holder a" "coin_total l d + coin_total amt d \<le> balance s d a"
proof -
  have "holder a \<and> coin_total l d + coin_total amt d \<le> balance s d a"
    using assms
  proof (induction amt arbitrary: s)
    case (Cons c cs)
    have c: "0 < Amount c" "valid_coins cs" using Cons.prems(4) by (simp_all add: valid_coins_Cons)
    obtain u where u: "sub_unlocked_coin a l c s = Inr u" "foldE (sub_unlocked_coin a l) cs u = Inr s'"
      using Cons.prems(1) by auto
    note f = sub_unlocked_coin_facts [OF Cons.prems(2,3) c(1) u(1)]
    show ?case
    proof (cases "d = Denom c")
      case True
      then show ?thesis using f(1) f(3) [OF Cons.prems(5)] valid_coins_head_absent(1) [OF Cons.prems(4)] by simp
    next
      case False
      then have "balance u d a = balance s d a" "bank_wf u" using f(2) by (simp_all add: shifts_def)
      then show ?thesis using Cons.IH [OF u(2) _ Cons.prems(3) c(2) Cons.prems(5)] Cons.prems(6) False by auto
    qed
  qed simp
  then show "holder a" "coin_total l d + coin_total amt d \<le> balance s d a" by blast+
qed

lemma subUnlockedCoins_facts:
  assumes "bank_wf s" "a \<noteq> []" "subUnlockedCoins k t a amt s = Inr s'"
  obtains l where "valid_coins amt" "shifts a (\<lambda>d. - coin_total amt d) s s'" "LockedCoins t s a = Inr l"
    "\<And>d. valid_coins l \<Longrightarrow> 0 < coin_total amt d \<Longrightarrow> holder a \<and> coin_total l d + coin_total amt d \<le> balance s d a"
proof -
  obtain l u e where run: "valid_coins amt" "LockedCoins t s a = Inr l" "foldE (sub_unlocked_coin a l) amt s = Inr u"
    "s' = EmitEvents [e] u"
    using assms(3) by (auto simp: subUnlockedCoins_def split: if_splits)
  have "shifts a (\<lambda>d. - 1 * coin_total amt d) s u"
    using run(3) assms(1) by (rule fold_shifts)
      (use sub_unlocked_coin_facts(2) [OF _ assms(2)] valid_coins_pos [OF run(1)] in blast)
  then show thesis
    using that [of l] run sub_fold_spends [OF run(3) assms(1,2) run(1)] by simp
qed

lemma addCoins_facts:
  assumes "bank_wf s" "a \<noteq> []" "addCoins k a amt s = Inr s'"
  shows "valid_coins amt" "shifts a (coin_total amt) s s'" "0 < coin_total amt d \<Longrightarrow> holder a"
proof -
  obtain u e where run: "valid_coins amt" "foldE (add_coin a) amt s = Inr u" "s' = EmitEvents [e] u"
    using assms(3) by (auto simp: addCoins_def split: if_splits)
  show "valid_coins amt" by (rule run(1))
  have "shifts a (\<lambda>d. 1 * coin_total amt d) s u"
    using run(2) assms(1) by (rule fold_shifts)
      (use add_coin_facts(2) [OF _ assms(2)] valid_coins_pos [OF run(1)] in blast)
  then show "shifts a (coin_total amt) s s'" using run(3) by simp
  show "holder a" if "0 < coin_total amt d"
    using that run(2) add_coin_facts(1) [OF assms(1,2)] valid_coins_pos [OF run(1)] by (cases amt) auto
qed

end
