(* ===== verification/BankEffects.thy ===== *)
theory BankEffects
  imports BankLedger
begin

section \<open>Supply and totals of the bank\<close>

text \<open>
  The accounts a keeper works on, and the effect of every operation of the bank on the recorded
  supply and on the sum of the balances: minting and burning change both by the same coins,
  everything else changes neither.
\<close>

subsection \<open>Accounts and keepers\<close>

definition keeper_ok :: "BankKeeper \<Rightarrow> bool" where
  "keeper_ok k \<longleftrightarrow> (let cfg = addr_cfg (bank_ak k) in
     bech32_lawful cfg \<and> AddressVerifier cfg = None
     \<and> (\<forall>a s. holder a \<longrightarrow> AccAddress_String cfg a = Inr s \<longrightarrow> length s \<le> 1023)
     \<and> (\<forall>name. holder (AddressHash (bank_ak k) name))
     \<and> (\<exists>perms. bank_ak k = NewAccountKeeper cfg (AddressHash (bank_ak k)) perms))"

definition auth_ok :: "BankKeeper \<Rightarrow> AuthState \<Rightarrow> bool" where
  "auth_ok k A \<longleftrightarrow> (\<forall>a acc. GetAccount A a = Some acc \<longrightarrow> GetAddress (addr_cfg (bank_ak k)) (account_base acc) = a)"

definition vesting_at :: "AuthState \<Rightarrow> AccAddress \<Rightarrow> VestingAccount option" where
  "vesting_at A a = (case GetAccount A a of Some (VestingAcc va) \<Rightarrow> Some va | _ \<Rightarrow> None)"

lemma keeper_reads_back:
  assumes "keeper_ok k" "holder a" "AccAddress_String (addr_cfg (bank_ak k)) a = Inr s"
  shows "AccAddressFromBech32 (addr_cfg (bank_ak k)) s = Inr a"
  using assms AccAddress_reads_back unfolding keeper_ok_def holder_def Let_def by blast

lemma keeper_decodes_holder:
  assumes "keeper_ok k" "AccAddressFromBech32 (addr_cfg (bank_ak k)) s = Inr a"
  shows "holder a"
  using assms by (auto simp: keeper_ok_def AccAddressFromBech32_def VerifyAddressFormat_def holder_def Let_def split: if_splits)

lemma module_address:
  assumes "keeper_ok k" "permAddrs (bank_ak k) name = Some pa"
  shows "perm_address pa = AddressHash (bank_ak k) name" "holder (perm_address pa)"
proof -
  obtain perms where "bank_ak k = NewAccountKeeper (addr_cfg (bank_ak k)) (AddressHash (bank_ak k)) perms"
    using assms(1) by (auto simp: keeper_ok_def Let_def)
  from arg_cong [OF this, of permAddrs]
  have "permAddrs (bank_ak k) name = map_option (NewPermissionsForAddress (AddressHash (bank_ak k)) name) (perms name)"
    unfolding NewAccountKeeper_def by simp
  then show a: "perm_address pa = AddressHash (bank_ak k) name"
    using assms(2) by (cases "perms name") (auto simp: NewPermissionsForAddress_def NewModuleAddress_def)
  show "holder (perm_address pa)" unfolding a using assms(1) by (simp add: keeper_ok_def Let_def)
qed

lemma GetAccount_Set:
  "GetAccount (SetAccount ak acc A) a = (if a = GetAddress (addr_cfg ak) (account_base acc) then Some acc else GetAccount A a)"
  by (simp add: GetAccount_def SetAccount_def store_get_set)

lemma GetAccount_number [simp]: "GetAccount (A\<lparr>globalAccountNumber := n\<rparr>) a = GetAccount A a"
  by (simp add: GetAccount_def)

lemma auth_ok_Set: "auth_ok k A \<Longrightarrow> auth_ok k (SetAccount (bank_ak k) acc A)"
  by (auto simp: auth_ok_def GetAccount_Set split: if_splits)

lemma auth_ok_number [simp]: "auth_ok k (A\<lparr>globalAccountNumber := n\<rparr>) = auth_ok k A"
  by (simp add: auth_ok_def)

lemma GetAddress_number [simp]: "GetAddress cfg (SetAccountNumber n b) = GetAddress cfg b"
  by (simp add: GetAddress_def SetAccountNumber_def)

lemma with_number_base [simp]: "account_base (with_number n acc) = SetAccountNumber n (account_base acc)"
  by (cases acc) simp_all

lemma NewAccountWithAddress_facts:
  assumes "keeper_ok k" "holder a" "NewAccountWithAddress (bank_ak k) a A = Inr (acc, A')"
  obtains b n where "acc = BaseAcc b" "GetAddress (addr_cfg (bank_ak k)) b = a" "A' = A\<lparr>globalAccountNumber := n\<rparr>"
proof -
  obtain s where "AccAddress_String (addr_cfg (bank_ak k)) a = Inr s"
    "(acc, A') = NewAccount (BaseAcc (ProtoBaseAccount\<lparr>AccountAddress := s\<rparr>)) A"
    using assms(3) by (auto simp: NewAccountWithAddress_def SetAddress_def ProtoBaseAccount_def split: sum.splits)
  then obtain n where "AccAddressFromBech32 (addr_cfg (bank_ak k)) s = Inr a"
    "acc = BaseAcc (SetAccountNumber n (ProtoBaseAccount\<lparr>AccountAddress := s\<rparr>))" "A' = A\<lparr>globalAccountNumber := Some (n + 1)\<rparr>"
    using keeper_reads_back [OF assms(1,2)] by (auto simp: NewAccount_def GetNextAccountNumber_def Let_def)
  moreover have "AccountAddress (SetAccountNumber n (ProtoBaseAccount\<lparr>AccountAddress := s\<rparr>)) = s"
    by (simp add: SetAccountNumber_def)
  ultimately show thesis using that by (simp add: GetAddress_def)
qed

definition same_vesting :: "BankKeeper \<Rightarrow> AuthState \<Rightarrow> AuthState \<Rightarrow> bool" where
  "same_vesting k A A' \<longleftrightarrow> (auth_ok k A \<longrightarrow> auth_ok k A') \<and> vesting_at A' = vesting_at A"

lemma same_vesting_refl [simp]: "same_vesting k A A"
  by (simp add: same_vesting_def)

lemma create_account_facts:
  assumes "keeper_ok k" "holder a" "create_account k a s = Inr s'"
  obtains A where "s' = s\<lparr>bank_auth := A\<rparr>" "same_vesting k (bank_auth s) A"
proof (cases "HasAccount (bank_auth s) a")
  case True
  then show thesis using that [of "bank_auth s"] assms(3) by (simp add: create_account_def)
next
  case False
  then obtain acc A where run: "NewAccountWithAddress (bank_ak k) a (bank_auth s) = Inr (acc, A)"
    "s' = s\<lparr>bank_auth := SetAccount (bank_ak k) acc A\<rparr>"
    using assms(3) by (auto simp: create_account_def)
  have none: "GetAccount (bank_auth s) a = None" using False by (simp add: HasAccount_def GetAccount_def)
  obtain b n where b: "acc = BaseAcc b" "GetAddress (addr_cfg (bank_ak k)) b = a" "A = (bank_auth s)\<lparr>globalAccountNumber := n\<rparr>"
    using NewAccountWithAddress_facts [OF assms(1,2) run(1)] by blast
  have "vesting_at (SetAccount (bank_ak k) acc A) = vesting_at (bank_auth s)"
    using b none by (simp add: vesting_at_def fun_eq_iff GetAccount_Set)
  then show thesis using that run(2) b auth_ok_Set by (simp add: same_vesting_def)
qed

lemma must_module_facts:
  assumes "keeper_ok k" "auth_ok k (bank_auth s)" "must_module k name s = Inr (m, s')"
  obtains A where "s' = s\<lparr>bank_auth := A\<rparr>" "same_vesting k (bank_auth s) A"
    "holder (GetAddress (addr_cfg (bank_ak k)) (ModuleBase m))"
proof -
  obtain perms A where run: "GetModuleAccountAndPermissions (bank_ak k) name (bank_auth s) = Inr (Some m, perms, A)"
    "s' = s\<lparr>bank_auth := A\<rparr>"
    using assms(3) by (auto simp: must_module_def GetModuleAccount_def split: option.splits)
  then obtain pa where pa: "permAddrs (bank_ak k) name = Some pa"
    by (cases "permAddrs (bank_ak k) name")
      (simp_all add: GetModuleAccountAndPermissions_def GetModuleAddressAndPermissions_def)
  note addr = module_address [OF assms(1) pa]
  then have ne: "perm_address pa \<noteq> []" by (simp add: holder_def)
  show thesis
  proof (cases "GetAccount (bank_auth s) (perm_address pa)")
    case None
    obtain m0 where m0: "NewEmptyModuleAccount (addr_cfg (bank_ak k)) (AddressHash (bank_ak k)) name (permissions pa) = Inr m0"
      using run(1) pa ne None by (auto simp: GetModuleAccountAndPermissions_def GetModuleAddressAndPermissions_def)
    then obtain u where t: "AccAddress_String (addr_cfg (bank_ak k)) (perm_address pa) = Inr u"
      "AccountAddress (ModuleBase m0) = u"
      by (cases "validatePermissions (permissions pa)")
        (auto simp: NewEmptyModuleAccount_def NewBaseAccountWithAddress_def NewModuleAddress_def addr(1))
    have g: "GetAddress (addr_cfg (bank_ak k)) (ModuleBase m0) = perm_address pa"
      using keeper_reads_back [OF assms(1) addr(2) t(1)] t(2) by (simp add: GetAddress_def)
    obtain n where n: "m = m0\<lparr>ModuleBase := SetAccountNumber n (ModuleBase m0)\<rparr>"
      "A = SetAccount (bank_ak k) (ModuleAcc m) ((bank_auth s)\<lparr>globalAccountNumber := Some (n + 1)\<rparr>)"
      using run(1) pa ne None m0
      by (auto simp: GetModuleAccountAndPermissions_def GetModuleAddressAndPermissions_def NewAccount_def
          GetNextAccountNumber_def SetModuleAccount_def Let_def)
    have "vesting_at A = vesting_at (bank_auth s)"
      using n g None by (auto simp: vesting_at_def fun_eq_iff GetAccount_Set)
    then have "same_vesting k (bank_auth s) A" using n auth_ok_Set by (simp add: same_vesting_def)
    then show thesis using that run(2) n(1) g addr(2) by simp
  next
    case (Some acc)
    then have "acc = ModuleAcc m" "A = bank_auth s"
      using run(1) pa ne
      by (auto simp: GetModuleAccountAndPermissions_def GetModuleAddressAndPermissions_def split: Account.splits)
    then have "GetAddress (addr_cfg (bank_ak k)) (ModuleBase m) = perm_address pa"
      using assms(2) Some unfolding auth_ok_def by fastforce
    then show thesis using that [of A] run(2) addr(2) \<open>A = bank_auth s\<close> by simp
  qed
qed

subsection \<open>Supply and totals\<close>

definition bank_core :: "BankKeeper \<Rightarrow> BankState \<Rightarrow> bool" where
  "bank_core k s \<longleftrightarrow> bank_wf s \<and> auth_ok k (bank_auth s)"

text \<open>A step that changes the recorded supply by \<open>g\<close> and the balances, summed up, by \<open>f\<close>.\<close>

definition effect :: "BankKeeper \<Rightarrow> (string \<Rightarrow> int) \<Rightarrow> (string \<Rightarrow> int) \<Rightarrow> BankState \<Rightarrow> BankState \<Rightarrow> bool" where
  "effect k g f s s' \<longleftrightarrow> bank_core k s' \<and> (\<forall>d. supply_of s' d = supply_of s d + g d \<and> bank_total s' d = bank_total s d + f d)"

abbreviation none :: "string \<Rightarrow> int" where
  "none \<equiv> \<lambda>_. 0"

lemma effect_trans: "effect k g f s s1 \<Longrightarrow> effect k g' f' s1 s2 \<Longrightarrow> effect k (\<lambda>d. g d + g' d) (\<lambda>d. f d + f' d) s s2"
  by (auto simp: effect_def)

lemma effect_eq: "effect k g f s s' \<Longrightarrow> (\<And>d. g d = g' d) \<Longrightarrow> (\<And>d. f d = f' d) \<Longrightarrow> effect k g' f' s s'"
  by (simp add: effect_def)

lemma effect_core: "effect k g f s s' \<Longrightarrow> bank_core k s'"
  by (simp add: effect_def)

lemma bank_auth_simps [simp]:
  "balance (s\<lparr>bank_auth := A\<rparr>) = balance s" "GetSupply_bank (s\<lparr>bank_auth := A\<rparr>) = GetSupply_bank s"
  "bank_wf (s\<lparr>bank_auth := A\<rparr>) = bank_wf s"
  by (simp_all add: balance_def fun_eq_iff GetSupply_bank_def bank_wf_def)

lemma effect_emit [simp]: "effect k g f s (EmitEvents es s') = effect k g f s s'"
  "effect k g f (EmitEvents es s) s' = effect k g f s s'" "bank_core k (EmitEvents es s) = bank_core k s"
  by (simp_all add: effect_def bank_core_def)

lemma effect_auth: "bank_core k s \<Longrightarrow> same_vesting k (bank_auth s) A \<Longrightarrow> effect k none none s (s\<lparr>bank_auth := A\<rparr>)"
  by (simp add: effect_def bank_core_def same_vesting_def)

lemma shifts_effect: "bank_core k s \<Longrightarrow> shifts a f s s' \<Longrightarrow> effect k none f s s'"
  by (simp add: effect_def bank_core_def shifts_def GetSupply_bank_def)

lemma sub_effect:
  assumes "bank_core k s" "a \<noteq> []" "subUnlockedCoins k t a amt s = Inr s'"
  shows "effect k none (\<lambda>d. - coin_total amt d) s s'"
proof -
  have "bank_wf s" using assms(1) by (simp add: bank_core_def)
  from subUnlockedCoins_facts [OF this assms(2,3)] show ?thesis using shifts_effect [OF assms(1)] by blast
qed

lemma add_effect:
  assumes "bank_core k s" "a \<noteq> []" "addCoins k a amt s = Inr s'"
  shows "effect k none (coin_total amt) s s'"
  using assms addCoins_facts(2) shifts_effect unfolding bank_core_def by blast

lemma create_effect:
  assumes "keeper_ok k" "holder a" "bank_core k s" "create_account k a s = Inr s'"
  shows "effect k none none s s'"
  using create_account_facts [OF assms(1,2,4)] effect_auth [OF assms(3)] by metis

lemma SendCoins_effect:
  assumes "keeper_ok k" "bank_core k s" "a \<noteq> []" "holder b" "SendCoins k t a b amt s = Inr s'"
  shows "effect k none none s s'"
proof -
  obtain s1 s2 s3 es where run: "subUnlockedCoins k t a amt s = Inr s1" "addCoins k b amt s1 = Inr s2"
    "create_account k b s2 = Inr s3" "s' = EmitEvents es s3"
    using assms(5) by (auto simp: SendCoins_def)
  note 1 = sub_effect [OF assms(2,3) run(1)]
  have b: "b \<noteq> []" using assms(4) by (simp add: holder_def)
  note 2 = effect_trans [OF 1 add_effect [OF effect_core [OF 1] b run(2)]]
  note 3 = effect_trans [OF 2 create_effect [OF assms(1,4) effect_core [OF 2] run(3)]]
  then show ?thesis using run(4) by simp
qed

lemma must_permit_facts:
  assumes "keeper_ok k" "bank_core k s" "must_permit k name perm s = Inr (a, s')"
  obtains A where "holder a" "s' = s\<lparr>bank_auth := A\<rparr>" "same_vesting k (bank_auth s) A"
  using assms(3) must_module_facts [OF assms(1), of s name] assms(2)
  by (fastforce simp: must_permit_def bank_core_def split: if_splits)

lemma supply_denom [simp]: "Denom (GetSupply_bank s d) = d"
  by (simp add: GetSupply_bank_def)

lemma setSupply_rest [simp]: "balance (setSupply_bank c s) = balance s" "bank_auth (setSupply_bank c s) = bank_auth s"
  by (auto simp: setSupply_bank_def balance_def fun_eq_iff)

lemma setSupply_facts:
  assumes "bank_wf s" "reDnm d" "0 \<le> v" "v < 2 ^ 256"
  shows "bank_wf (setSupply_bank \<lparr>Denom = d, Amount = v\<rparr> s)"
    "supply_of (setSupply_bank \<lparr>Denom = d, Amount = v\<rparr> s) e = (if e = d then v else supply_of s e)"
  using assms
  by (auto simp: setSupply_bank_def bank_wf_def GetSupply_bank_def balance_def fun_eq_iff store_get_set store_get_delete
      store_wf_set store_wf_delete split: if_splits)

text \<open>The loop over the supply, with \<open>g\<close> the sign of the change.\<close>

lemma supply_fold_effect:
  assumes "foldE (\<lambda>c s. bindE (change (GetSupply_bank s (Denom c)) c) (\<lambda>c'. Inr (setSupply_bank c' s))) amt s = Inr s'"
    and "bank_core k s" "valid_coins amt"
    and change: "\<And>s c c'. change (GetSupply_bank s (Denom c)) c = Inr c' \<Longrightarrow>
      c' = \<lparr>Denom = Denom c, Amount = supply_of s (Denom c) + g * Amount c\<rparr> \<and> (bank_wf s \<longrightarrow> 0 < Amount c \<longrightarrow> 0 \<le> Amount c' \<and> Amount c' < 2 ^ 256)"
  shows "effect k (\<lambda>d. g * coin_total amt d) none s s'"
  using assms(1-3)
proof (induction amt arbitrary: s)
  case Nil
  then show ?case by (simp add: effect_def)
next
  case (Cons c cs)
  let ?v = "supply_of s (Denom c) + g * Amount c"
  obtain c' where c': "change (GetSupply_bank s (Denom c)) c = Inr c'" and
    rest: "foldE (\<lambda>c s. bindE (change (GetSupply_bank s (Denom c)) c) (\<lambda>c'. Inr (setSupply_bank c' s))) cs (setSupply_bank c' s) = Inr s'"
    using Cons.prems(1) by auto
  have c: "0 < Amount c" "reDnm (Denom c)" "valid_coins cs" using Cons.prems(3) by (simp_all add: valid_coins_Cons)
  have wf: "bank_wf s" using Cons.prems(2) by (simp add: bank_core_def)
  have v: "c' = \<lparr>Denom = Denom c, Amount = ?v\<rparr>" "0 \<le> ?v" "?v < 2 ^ 256" using change [OF c'] wf c(1) by auto
  have "effect k (\<lambda>d. if d = Denom c then g * Amount c else 0) none s (setSupply_bank c' s)"
    using setSupply_facts [OF wf c(2) v(2,3)] Cons.prems(2) by (simp add: effect_def bank_core_def v(1))
  note one = this
  from effect_trans [OF one Cons.IH [OF rest effect_core [OF one] c(3)]] show ?case
    by (rule effect_eq) (simp_all add: algebra_simps)
qed

lemma mint_supply:
  assumes "foldE (\<lambda>c s. bindE (Coin_Add (GetSupply_bank s (Denom c)) c) (\<lambda>c'. Inr (setSupply_bank c' s))) amt s = Inr s'"
    "bank_core k s" "valid_coins amt"
  shows "effect k (coin_total amt) none s s'"
proof -
  have "effect k (\<lambda>d. 1 * coin_total amt d) none s s'"
  proof (rule supply_fold_effect [OF assms])
    fix s c c' assume "Coin_Add (GetSupply_bank s (Denom c)) c = Inr c'"
    then show "c' = \<lparr>Denom = Denom c, Amount = supply_of s (Denom c) + 1 * Amount c\<rparr>
        \<and> (bank_wf s \<longrightarrow> 0 < Amount c \<longrightarrow> 0 \<le> Amount c' \<and> Amount c' < 2 ^ 256)"
      using supply_bounds [of s "Denom c"] by (auto simp: Coin_Add_eq split: if_splits)
  qed
  then show ?thesis by simp
qed

lemma burn_supply:
  assumes "foldE (\<lambda>c s. bindE (Coin_Sub (GetSupply_bank s (Denom c)) c) (\<lambda>c'. Inr (setSupply_bank c' s))) amt s = Inr s'"
    "bank_core k s" "valid_coins amt"
  shows "effect k (\<lambda>d. - coin_total amt d) none s s'"
proof -
  have "effect k (\<lambda>d. - 1 * coin_total amt d) none s s'"
    using assms by (rule supply_fold_effect) (auto simp: Coin_Sub_eq)
  then show ?thesis by simp
qed

lemma MintCoins_effect:
  assumes "keeper_ok k" "bank_core k s" "MintCoins k name amt s = Inr s'"
  shows "effect k (coin_total amt) (coin_total amt) s s'"
proof -
  obtain a s1 s2 s3 e where run: "must_permit k name Minter s = Inr (a, s1)" "addCoins k a amt s1 = Inr s2"
    "foldE (\<lambda>c s. bindE (Coin_Add (GetSupply_bank s (Denom c)) c) (\<lambda>c'. Inr (setSupply_bank c' s))) amt s2 = Inr s3"
    "s' = EmitEvents [e] s3"
    using assms(3) by (auto simp: MintCoins_def)
  obtain A where A: "holder a" "s1 = s\<lparr>bank_auth := A\<rparr>" "same_vesting k (bank_auth s) A"
    using must_permit_facts [OF assms(1,2) run(1)] by blast
  have 1: "effect k none none s s1" using effect_auth [OF assms(2) A(3)] A(2) by simp
  have a: "a \<noteq> []" using A(1) by (simp add: holder_def)
  note 2 = effect_trans [OF 1 add_effect [OF effect_core [OF 1] a run(2)]]
  have v: "valid_coins amt" using addCoins_facts(1) [OF _ a run(2)] effect_core [OF 1] by (simp add: bank_core_def)
  from effect_trans [OF 2 mint_supply [OF run(3) effect_core [OF 2] v]] show ?thesis
    unfolding run(4) effect_emit by (rule effect_eq) simp_all
qed

lemma BurnCoins_effect:
  assumes "keeper_ok k" "bank_core k s" "BurnCoins k t name amt s = Inr s'"
  shows "effect k (\<lambda>d. - coin_total amt d) (\<lambda>d. - coin_total amt d) s s'"
proof -
  obtain a s1 s2 s3 e where run: "must_permit k name Burner s = Inr (a, s1)" "subUnlockedCoins k t a amt s1 = Inr s2"
    "foldE (\<lambda>c s. bindE (Coin_Sub (GetSupply_bank s (Denom c)) c) (\<lambda>c'. Inr (setSupply_bank c' s))) amt s2 = Inr s3"
    "s' = EmitEvents [e] s3"
    using assms(3) by (auto simp: BurnCoins_def)
  obtain A where A: "holder a" "s1 = s\<lparr>bank_auth := A\<rparr>" "same_vesting k (bank_auth s) A"
    using must_permit_facts [OF assms(1,2) run(1)] by blast
  have 1: "effect k none none s s1" using effect_auth [OF assms(2) A(3)] A(2) by simp
  have a: "a \<noteq> []" using A(1) by (simp add: holder_def)
  note 2 = effect_trans [OF 1 sub_effect [OF effect_core [OF 1] a run(2)]]
  have v: "valid_coins amt" using run(2) by (simp add: subUnlockedCoins_def split: if_splits)
  from effect_trans [OF 2 burn_supply [OF run(3) effect_core [OF 2] v]] show ?thesis
    unfolding run(4) effect_emit by (rule effect_eq) simp_all
qed

lemma plus_SendCoins_run: "plus_SendCoins k inactive t a b amt s = Inr s' \<Longrightarrow> SendCoins k t a b amt s = Inr s'"
  by (auto simp: plus_SendCoins_def split: if_splits)

lemma module_sender:
  assumes "keeper_ok k" "GetModuleAddress (bank_ak k) name \<noteq> []"
  shows "holder (GetModuleAddress (bank_ak k) name)"
  using assms module_address(2) by (auto simp: GetModuleAddress_def split: option.splits)

lemma AccountToModule_facts:
  assumes "keeper_ok k" "bank_core k s" "SendCoinsFromAccountToModule k (plus_SendCoins k inactive) t a name amt s = Inr s'"
  obtains A b where "holder b" "same_vesting k (bank_auth s) A" "SendCoins k t a b amt (s\<lparr>bank_auth := A\<rparr>) = Inr s'"
proof -
  obtain m s1 where run: "must_module k name s = Inr (m, s1)"
    "SendCoins k t a (GetAddress (addr_cfg (bank_ak k)) (ModuleBase m)) amt s1 = Inr s'"
    using assms(3) plus_SendCoins_run by (fastforce simp: SendCoinsFromAccountToModule_def)
  show thesis using must_module_facts [OF assms(1) _ run(1)] assms(2) run(2) that by (metis bank_core_def)
qed

lemma ModuleToModule_run:
  assumes "SendCoinsFromModuleToModule k send t name name' amt s = Inr s'"
  shows "GetModuleAddress (bank_ak k) name \<noteq> []"
    "SendCoinsFromAccountToModule k send t (GetModuleAddress (bank_ak k) name) name' amt s = Inr s'"
  using assms by (auto simp: SendCoinsFromModuleToModule_def SendCoinsFromAccountToModule_def Let_def split: if_splits)

lemma AccountToModule_effect:
  assumes "keeper_ok k" "bank_core k s" "a \<noteq> []"
    "SendCoinsFromAccountToModule k (plus_SendCoins k inactive) t a name amt s = Inr s'"
  shows "effect k none none s s'"
proof -
  obtain A b where A: "holder b" "same_vesting k (bank_auth s) A" "SendCoins k t a b amt (s\<lparr>bank_auth := A\<rparr>) = Inr s'"
    using AccountToModule_facts [OF assms(1,2,4)] by blast
  note 1 = effect_auth [OF assms(2) A(2)]
  from effect_trans [OF 1 SendCoins_effect [OF assms(1) effect_core [OF 1] assms(3) A(1,3)]] show ?thesis by simp
qed

subsection \<open>Inputs and outputs\<close>

lemma Coins_Add_total:
  assumes "valid_coins as" "valid_coins bs" "Coins_Add as bs = Inr cs"
  shows "valid_coins cs" "coin_total cs d = coin_total as d + coin_total bs d"
proof -
  have "safeAdd_loop [] as bs = Inr cs"
    using assms(3) safeAdd_strict [OF valid_coins_strict [OF assms(1)] valid_coins_strict [OF assms(2)]] by (simp add: Coins_Add_def)
  then show "valid_coins cs" "coin_total cs d = coin_total as d + coin_total bs d"
    using safeAdd_valid [OF assms(1,2)] coins.merge_total by blast+
qed

lemma check_coins_valid: "check_coins cs = Inr u \<Longrightarrow> valid_coins cs"
  by (auto simp: check_coins_def split: if_splits)

lemma sum_coins:
  assumes "foldE (\<lambda>i total. bindE (check i) (\<lambda>_. Coins_Add total (coins i))) xs acc = Inr r" "valid_coins acc"
    and "\<And>i u. check i = Inr u \<Longrightarrow> valid_coins (coins i)"
  shows "valid_coins r \<and> (\<forall>d. coin_total r d = coin_total acc d + (\<Sum>i\<leftarrow>xs. coin_total (coins i) d))"
  using assms
proof (induction xs arbitrary: acc)
  case (Cons x xs)
  obtain u acc' where run: "check x = Inr u" "Coins_Add acc (coins x) = Inr acc'"
    "foldE (\<lambda>i total. bindE (check i) (\<lambda>_. Coins_Add total (coins i))) xs acc' = Inr r"
    using Cons.prems(1) by auto
  note t = Coins_Add_total [OF Cons.prems(2) Cons.prems(3) [OF run(1)] run(2)]
  show ?case using Cons.IH [OF run(3) t(1) Cons.prems(3)] t(2) by auto
qed simp

lemma IsEqual_valid:
  assumes "valid_coins as" "valid_coins bs" "Coins_IsEqual as bs = Inr True"
  shows "as = bs"
proof -
  have "allE (\<lambda>(a, b). Coin_IsEqual a b) (zip as bs) = Inr True \<Longrightarrow> length as = length bs \<Longrightarrow> as = bs" for as bs
  proof (induction as arbitrary: bs)
    case (Cons a as)
    then obtain b bs' where "bs = b # bs'" by (cases bs) auto
    then show ?case using Cons by (auto simp: Coin_IsEqual_def Coin_same_denom_def split: if_splits intro: Coin.equality)
  qed simp
  then show ?thesis
    using assms by (auto simp: Coins_IsEqual_def Coins_Sort_def sort_key_strict valid_coins_strict split: if_splits)
qed

lemma ValidateInputsOutputs_totals:
  assumes "ValidateInputsOutputs cfg ins outs = Inr ()"
  shows "(\<Sum>i\<leftarrow>ins. coin_total (InputCoins i) d) = (\<Sum>x\<leftarrow>outs. coin_total (OutputCoins x) d)"
proof -
  obtain r r' where run: "foldE (\<lambda>i total. bindE (Input_ValidateBasic cfg i) (\<lambda>_. Coins_Add total (InputCoins i))) ins [] = Inr r"
    "foldE (\<lambda>x total. bindE (Output_ValidateBasic cfg x) (\<lambda>_. Coins_Add total (OutputCoins x))) outs [] = Inr r'"
    "Coins_IsEqual r r' = Inr True"
    using assms by (auto simp: ValidateInputsOutputs_def)
  have nil: "valid_coins []" by simp
  have 1: "valid_coins r \<and> (\<forall>d. coin_total r d = coin_total [] d + (\<Sum>i\<leftarrow>ins. coin_total (InputCoins i) d))"
    using run(1) nil by (rule sum_coins) (auto simp: Input_ValidateBasic_def intro: check_coins_valid)
  have 2: "valid_coins r' \<and> (\<forall>d. coin_total r' d = coin_total [] d + (\<Sum>x\<leftarrow>outs. coin_total (OutputCoins x) d))"
    using run(2) nil by (rule sum_coins) (auto simp: Output_ValidateBasic_def intro: check_coins_valid)
  show ?thesis using IsEqual_valid [OF _ _ run(3)] 1 2 by simp
qed

lemma spend_input_run:
  assumes "spend_input k t i s = Inr w"
  obtains a u e where "AccAddressFromBech32 (addr_cfg (bank_ak k)) (InputAddress i) = Inr a"
    "subUnlockedCoins k t a (InputCoins i) s = Inr u" "w = EmitEvents [e] u"
  using assms by (auto simp: spend_input_def)

lemma receive_output_run:
  assumes "receive_output k x s = Inr v"
  obtains a u e where "AccAddressFromBech32 (addr_cfg (bank_ak k)) (OutputAddress x) = Inr a"
    "addCoins k a (OutputCoins x) s = Inr u" "create_account k a (EmitEvents [e] u) = Inr v"
  using assms by (auto simp: receive_output_def)

lemma spend_fold_effect:
  assumes "foldE (spend_input k t) ins s = Inr s'" "keeper_ok k" "bank_core k s"
  shows "effect k none (\<lambda>d. - (\<Sum>i\<leftarrow>ins. coin_total (InputCoins i) d)) s s'"
  using assms
proof (induction ins arbitrary: s)
  case (Cons i ins)
  obtain w where w: "spend_input k t i s = Inr w" "foldE (spend_input k t) ins w = Inr s'" using Cons.prems(1) by auto
  obtain a u e where run: "AccAddressFromBech32 (addr_cfg (bank_ak k)) (InputAddress i) = Inr a"
    "subUnlockedCoins k t a (InputCoins i) s = Inr u" "w = EmitEvents [e] u"
    by (rule spend_input_run [OF w(1)])
  have a: "a \<noteq> []" using keeper_decodes_holder [OF Cons.prems(2) run(1)] by (simp add: holder_def)
  have 1: "effect k none (\<lambda>d. - coin_total (InputCoins i) d) s w"
    using sub_effect [OF Cons.prems(3) a run(2)] run(3) by simp
  from effect_trans [OF 1 Cons.IH [OF w(2) Cons.prems(2) effect_core [OF 1]]]
  show ?case by (rule effect_eq) simp_all
qed (simp add: effect_def)

lemma receive_fold_effect:
  assumes "foldE (receive_output k) outs s = Inr s'" "keeper_ok k" "bank_core k s"
  shows "effect k none (\<lambda>d. \<Sum>x\<leftarrow>outs. coin_total (OutputCoins x) d) s s'"
  using assms
proof (induction outs arbitrary: s)
  case (Cons x outs)
  obtain v where v: "receive_output k x s = Inr v" and rest: "foldE (receive_output k) outs v = Inr s'"
    using Cons.prems(1) by auto
  obtain a u e where run: "AccAddressFromBech32 (addr_cfg (bank_ak k)) (OutputAddress x) = Inr a"
    "addCoins k a (OutputCoins x) s = Inr u" "create_account k a (EmitEvents [e] u) = Inr v"
    by (rule receive_output_run [OF v])
  note h = keeper_decodes_holder [OF Cons.prems(2) run(1)]
  then have a: "a \<noteq> []" by (simp add: holder_def)
  note 1 = add_effect [OF Cons.prems(3) a run(2)]
  have "effect k none none u v"
    using create_effect [OF Cons.prems(2) h _ run(3)] effect_core [OF 1] by simp
  note 2 = effect_trans [OF 1 this]
  from effect_trans [OF 2 Cons.IH [OF rest Cons.prems(2) effect_core [OF 2]]]
  show ?case by (rule effect_eq) simp_all
qed (simp add: effect_def)

lemma InputOutputCoins_effect:
  assumes "keeper_ok k" "bank_core k s" "InputOutputCoins k t ins outs s = Inr s'"
  shows "effect k none none s s'"
proof -
  obtain s1 where run: "ValidateInputsOutputs (addr_cfg (bank_ak k)) ins outs = Inr ()"
    "foldE (spend_input k t) ins s = Inr s1" "foldE (receive_output k) outs s1 = Inr s'"
    using assms(3) by (auto simp: InputOutputCoins_def)
  note 1 = spend_fold_effect [OF run(2) assms(1,2)]
  from effect_trans [OF 1 receive_fold_effect [OF run(3) assms(1) effect_core [OF 1]]] show ?thesis
    by (rule effect_eq) (simp_all add: ValidateInputsOutputs_totals [OF run(1)])
qed

subsection \<open>Delegation and vesting accounts\<close>

lemma delegate_coin_facts:
  assumes "bank_wf s" "a \<noteq> []" "0 < Amount c" "valid_coins bs" "delegate_coin a c (bs, s) = Inr (bs', s')"
  shows "holder a" "shifts a (\<lambda>d. if d = Denom c then - Amount c else 0) s s'" "valid_coins bs'" "Amount c \<le> balance s (Denom c) a"
proof -
  obtain b where b: "GetBalance_bank s a (Denom c) = Inr b" using assms(5) by (auto simp: delegate_coin_def)
  show h: "holder a" by (rule balance_holder [OF assms(2) b])
  note bal = GetBalance_facts [OF assms(1) h b]
  have run: "Coins_Add bs [b] = Inr bs'" "Amount c \<le> Amount b"
    "setBalance_bank a \<lparr>Denom = Denom c, Amount = Amount b - Amount c\<rparr> s = Inr s'"
    using assms(5) b bal(1) by (auto simp: delegate_coin_def Coin_Sub_eq split: if_splits)
  have "valid_coins [b]" using bal run(2) assms(3) by (simp add: valid_coins_def)
  then show "valid_coins bs'" using Coins_Add_total(1) [OF assms(4) _ run(1)] by blast
  have put: "s' = put_balance s (Denom c) a (balance s (Denom c) a - Amount c)" "Amount c \<le> balance s (Denom c) a"
    using run(2,3) bal by (simp_all add: setBalance_put [OF h])
  then show "Amount c \<le> balance s (Denom c) a" by simp
  show "shifts a (\<lambda>d. if d = Denom c then - Amount c else 0) s s'"
    using put_balance_shift [OF assms(1) h bal(2), of "balance s (Denom c) a - Amount c"] put assms(3)
      balance_bounds [OF assms(1), of "Denom c" a] by (simp cong: if_cong)
qed

lemma delegate_fold_facts:
  assumes "foldE (delegate_coin a) amt (bs, s) = Inr (bs', s')" "bank_wf s" "a \<noteq> []" "valid_coins amt" "valid_coins bs"
  shows "shifts a (\<lambda>d. - coin_total amt d) s s' \<and> valid_coins bs' \<and> coins_ok amt"
  using assms
proof (induction amt arbitrary: bs s)
  case Nil
  then show ?case by (simp add: shifts_refl coins_ok_def)
next
  case (Cons c cs)
  have c: "0 < Amount c" "valid_coins cs" using Cons.prems(4) by (simp_all add: valid_coins_Cons)
  obtain bs1 s1 where u: "delegate_coin a c (bs, s) = Inr (bs1, s1)" "foldE (delegate_coin a) cs (bs1, s1) = Inr (bs', s')"
    using Cons.prems(1) by (cases "delegate_coin a c (bs, s)") auto
  note f = delegate_coin_facts [OF Cons.prems(2,3) c(1) Cons.prems(5) u(1)]
  have wf: "bank_wf s1" using f(2) by (simp add: shifts_def)
  note IH = Cons.IH [OF u(2) wf Cons.prems(3) c(2) f(3)]
  have "Amount c < 2 ^ 256" using f(4) balance_bounds [OF Cons.prems(2), of "Denom c" a] by linarith
  then have "coins_ok (c # cs)" using IH c(1) by (simp add: coins_ok_def)
  moreover from shifts_trans [OF f(2) conjunct1 [OF IH]] have "shifts a (\<lambda>d. - coin_total (c # cs) d) s s'"
    by (rule back_subst [of "\<lambda>f. shifts a f s s'"]) (auto simp: fun_eq_iff)
  ultimately show ?case using IH by simp
qed

lemma rewrapE_Inr [simp]: "rewrapE m r = Inr x \<longleftrightarrow> r = Inr x"
  by (auto simp: rewrapE_def split: sum.splits error.splits)

text \<open>Tracking sets a vesting account, or nothing.\<close>

lemma trackDelegation_cases:
  assumes "trackDelegation_bank k t a b amt s = Inr s'"
  obtains "s' = s" "vesting_at (bank_auth s) a = None"
  | va va' where "vesting_at (bank_auth s) a = Some va" "TrackDelegation t b amt va = Inr va'"
      "s' = s\<lparr>bank_auth := SetAccount (bank_ak k) (VestingAcc va') (bank_auth s)\<rparr>"
  using assms by (auto simp: trackDelegation_bank_def vesting_at_def split: option.splits Account.splits)

lemma trackUndelegation_cases:
  assumes "trackUndelegation_bank k a amt s = Inr s'"
  obtains "s' = s" "vesting_at (bank_auth s) a = None"
  | va va' where "vesting_at (bank_auth s) a = Some va" "TrackUndelegation amt va = Inr va'"
      "s' = s\<lparr>bank_auth := SetAccount (bank_ak k) (VestingAcc va') (bank_auth s)\<rparr>"
  using assms by (auto simp: trackUndelegation_bank_def vesting_at_def split: option.splits Account.splits)

lemma effect_Set: "bank_core k s \<Longrightarrow> effect k none none s (s\<lparr>bank_auth := SetAccount (bank_ak k) acc (bank_auth s)\<rparr>)"
  by (simp add: effect_def bank_core_def auth_ok_Set)

lemma effect_refl: "bank_core k s \<Longrightarrow> effect k none none s s"
  by (simp add: effect_def)

lemma DelegateCoins_run:
  assumes "DelegateCoins k t a m amt s = Inr s'"
  obtains bs s1 s2 e where "valid_coins amt" "foldE (delegate_coin a) amt ([], s) = Inr (bs, s1)"
    "trackDelegation_bank k t a bs amt s1 = Inr s2" "addCoins k m amt (EmitEvents [e] s2) = Inr s'"
  using assms by (auto simp: DelegateCoins_def split: if_splits)

lemma UndelegateCoins_run:
  assumes "UndelegateCoins k t m a amt s = Inr s'"
  obtains s1 s2 where "valid_coins amt" "subUnlockedCoins k t m amt s = Inr s1"
    "trackUndelegation_bank k a amt s1 = Inr s2" "addCoins k a amt s2 = Inr s'"
  using assms by (auto simp: UndelegateCoins_def split: if_splits)

lemma DelegateCoins_effect:
  assumes "bank_core k s" "a \<noteq> []" "m \<noteq> []" "DelegateCoins k t a m amt s = Inr s'"
  shows "effect k none none s s'"
proof -
  obtain bs s1 s2 e where run: "valid_coins amt" "foldE (delegate_coin a) amt ([], s) = Inr (bs, s1)"
    "trackDelegation_bank k t a bs amt s1 = Inr s2" "addCoins k m amt (EmitEvents [e] s2) = Inr s'"
    by (rule DelegateCoins_run [OF assms(4)])
  have wf: "bank_wf s" using assms(1) by (simp add: bank_core_def)
  have nil: "valid_coins []" by simp
  have 1: "effect k none (\<lambda>d. - coin_total amt d) s s1"
    using delegate_fold_facts [OF run(2) wf assms(2) run(1) nil] shifts_effect [OF assms(1)] by blast
  have "effect k none none s1 s2"
    using run(3) effect_Set [OF effect_core [OF 1]] effect_refl [OF effect_core [OF 1]] by (elim trackDelegation_cases) simp_all
  note 2 = effect_trans [OF 1 this]
  have "effect k none (coin_total amt) s2 s'" using add_effect [OF _ assms(3) run(4)] effect_core [OF 2] by simp
  from effect_trans [OF 2 this] show ?thesis by (rule effect_eq) simp_all
qed

lemma UndelegateCoins_effect:
  assumes "bank_core k s" "a \<noteq> []" "m \<noteq> []" "UndelegateCoins k t m a amt s = Inr s'"
  shows "effect k none none s s'"
proof -
  obtain s1 s2 where run: "valid_coins amt" "subUnlockedCoins k t m amt s = Inr s1"
    "trackUndelegation_bank k a amt s1 = Inr s2" "addCoins k a amt s2 = Inr s'"
    by (rule UndelegateCoins_run [OF assms(4)])
  note 1 = sub_effect [OF assms(1,3) run(2)]
  have "effect k none none s1 s2"
    using run(3) effect_Set [OF effect_core [OF 1]] effect_refl [OF effect_core [OF 1]] by (elim trackUndelegation_cases) simp_all
  note 2 = effect_trans [OF 1 this]
  from effect_trans [OF 2 add_effect [OF effect_core [OF 2] assms(2) run(4)]] show ?thesis by (rule effect_eq) simp_all
qed

lemma CreateVestingAccount_run:
  assumes "CreateVestingAccount k send t src dst amt endTime isDelayed s = Inr s'" "keeper_ok k"
  obtains a b base n s1 e va where "holder a" "holder b" "GetAccount (bank_auth s) b = None"
    "GetAddress (addr_cfg (bank_ak k)) base = b"
    "va = (if isDelayed then DelayedVestingAccount (NewBaseVestingAccount base (Coins_Sort amt) endTime)
       else ContinuousVestingAccount (NewBaseVestingAccount base (Coins_Sort amt) endTime) (Unix t))"
    "send t a b amt (s\<lparr>bank_auth := SetAccount (bank_ak k) (VestingAcc va) ((bank_auth s)\<lparr>globalAccountNumber := n\<rparr>)\<rparr>) = Inr s1"
    "s' = EmitEvents [e] s1"
proof -
  obtain a b acc A where run: "AccAddressFromBech32 (addr_cfg (bank_ak k)) src = Inr a"
    "AccAddressFromBech32 (addr_cfg (bank_ak k)) dst = Inr b" "GetAccount (bank_auth s) b = None"
    "NewAccountWithAddress (bank_ak k) b (bank_auth s) = Inr (acc, A)"
    using assms(1) by (auto simp: CreateVestingAccount_def split: if_splits)
  note h = keeper_decodes_holder [OF assms(2) run(1)] keeper_decodes_holder [OF assms(2) run(2)]
  obtain base n where b: "acc = BaseAcc base" "GetAddress (addr_cfg (bank_ak k)) base = b" "A = (bank_auth s)\<lparr>globalAccountNumber := n\<rparr>"
    using NewAccountWithAddress_facts [OF assms(2) h(2) run(4)] by blast
  let ?bva = "NewBaseVestingAccount base (Coins_Sort amt) endTime"
  let ?va = "if isDelayed then DelayedVestingAccount ?bva else ContinuousVestingAccount ?bva (Unix t)"
  obtain s1 e where "s' = EmitEvents [e] s1"
    "send t a b amt (s\<lparr>bank_auth := SetAccount (bank_ak k) (VestingAcc ?va) ((bank_auth s)\<lparr>globalAccountNumber := n\<rparr>)\<rparr>) = Inr s1"
    using assms(1) run(1-3) run(4) [unfolded b(1,3)]
    by (cases isDelayed) (auto simp: CreateVestingAccount_def Let_def NewDelayedVestingAccountRaw_def
        NewContinuousVestingAccountRaw_def split: if_splits)
  then show thesis using that [OF h run(3) b(2) refl] by blast
qed

lemma effect_Set_number:
  "bank_core k s \<Longrightarrow> effect k none none s (s\<lparr>bank_auth := SetAccount (bank_ak k) acc ((bank_auth s)\<lparr>globalAccountNumber := n\<rparr>)\<rparr>)"
  by (simp add: effect_def bank_core_def auth_ok_Set)

lemma CreateVestingAccount_effect:
  assumes "keeper_ok k" "bank_core k s"
    "CreateVestingAccount k (plus_SendCoins k inactive) t src dst amt endTime isDelayed s = Inr s'"
  shows "effect k none none s s'"
proof -
  obtain a b n s1 e va where run: "holder a" "holder b"
    "plus_SendCoins k inactive t a b amt (s\<lparr>bank_auth := SetAccount (bank_ak k) (VestingAcc va) ((bank_auth s)\<lparr>globalAccountNumber := n\<rparr>)\<rparr>) = Inr s1"
    "s' = EmitEvents [e] s1"
    by (rule CreateVestingAccount_run [OF assms(3,1)])
  note 1 = effect_Set_number [OF assms(2), of "VestingAcc va" n]
  have "a \<noteq> []" using run(1) by (simp add: holder_def)
  from effect_trans [OF 1 SendCoins_effect [OF assms(1) effect_core [OF 1] this run(2) plus_SendCoins_run [OF run(3)]]]
  show ?thesis using run(4) by simp
qed

lemma bmsg_Send_run:
  assumes "bmsg_Send k (plus_SendCoins k inactive) t src dst amt s = Inr s'" "keeper_ok k"
  obtains a b s1 where "holder a" "holder b" "SendCoins k t a b amt s = Inr s1" "s' = EmitEvents [msg_module_event] s1"
    "isInactiveAddr k inactive b = Inr False" "AccAddressFromBech32 (addr_cfg (bank_ak k)) dst = Inr b"
proof -
  obtain a b s1 where "AccAddressFromBech32 (addr_cfg (bank_ak k)) src = Inr a"
    "AccAddressFromBech32 (addr_cfg (bank_ak k)) dst = Inr b" "plus_SendCoins k inactive t a b amt s = Inr s1"
    "s' = EmitEvents [msg_module_event] s1"
    using assms(1) by (auto simp: bmsg_Send_def split: if_splits)
  note run = this
  moreover have "SendCoins k t a b amt s = Inr s1" "isInactiveAddr k inactive b = Inr False"
    using run(3) by (auto simp: plus_SendCoins_def split: if_splits)
  ultimately show thesis using that keeper_decodes_holder [OF assms(2)] by blast
qed

lemma bmsg_MultiSend_run:
  assumes "bmsg_MultiSend k t ins outs s = Inr s'"
  obtains s1 where "InputOutputCoins k t ins outs s = Inr s1" "s' = EmitEvents [msg_module_event] s1"
  using assms by (auto simp: bmsg_MultiSend_def)

fun call_ok :: "BankCall \<Rightarrow> bool" where
  "call_ok (CallModuleToAccount name a amt) = holder a"
| "call_ok (CallAccountToModule a name amt) = holder a"
| "call_ok (CallDelegate a name amt) = holder a"
| "call_ok (CallUndelegate name a amt) = holder a"
| "call_ok _ = True"

fun minted :: "BankCall \<Rightarrow> string \<Rightarrow> int" where
  "minted (CallMint name amt) = coin_total amt"
| "minted (CallBurn name amt) = (\<lambda>d. - coin_total amt d)"
| "minted _ = none"

lemma DeliverBankMsg_effect:
  assumes "keeper_ok k" "bank_core k s" "DeliverBankMsg k inactive t m s = Inr s'"
  shows "effect k none none s s'"
proof (cases m)
  case (MsgSend src dst amt)
  then have "bmsg_Send k (plus_SendCoins k inactive) t src dst amt s = Inr s'" using assms(3) by (auto simp: DeliverBankMsg_def)
  then obtain a b s1 where "holder a" "holder b" "SendCoins k t a b amt s = Inr s1" "s' = EmitEvents [msg_module_event] s1"
    by (rule bmsg_Send_run [OF _ assms(1)])
  then show ?thesis using SendCoins_effect [OF assms(1,2), of a b t amt s1] by (simp add: holder_def)
next
  case (MsgMultiSend ins outs)
  then have "bmsg_MultiSend k t ins outs s = Inr s'" using assms(3) by (auto simp: DeliverBankMsg_def)
  then obtain s1 where "InputOutputCoins k t ins outs s = Inr s1" "s' = EmitEvents [msg_module_event] s1" by (rule bmsg_MultiSend_run)
  then show ?thesis using InputOutputCoins_effect [OF assms(1,2)] by simp
next
  case (MsgCreateVestingAccount src dst amt endTime isDelayed)
  then show ?thesis using assms(3) CreateVestingAccount_effect [OF assms(1,2)] by (auto simp: DeliverBankMsg_def)
qed

lemma bank_call_effect:
  assumes "keeper_ok k" "bank_core k s" "call_ok c" "bank_call k inactive t c s = Inr s'"
  shows "effect k (minted c) (minted c) s s'"
proof (cases c)
  case (CallMsg m)
  then show ?thesis using assms DeliverBankMsg_effect by simp
next
  case (CallMint name amt)
  then show ?thesis using assms MintCoins_effect by simp
next
  case (CallBurn name amt)
  then show ?thesis using assms BurnCoins_effect by simp
next
  case (CallModuleToAccount name a amt)
  then have "GetModuleAddress (bank_ak k) name \<noteq> []" "holder a"
    "SendCoins k t (GetModuleAddress (bank_ak k) name) a amt s = Inr s'"
    using assms(3,4) plus_SendCoins_run by (auto simp: plus_SendCoinsFromModuleToAccount_def Let_def split: if_splits)
  then show ?thesis using SendCoins_effect [OF assms(1,2)] CallModuleToAccount by simp
next
  case (CallModuleToModule name name' amt)
  then have run: "SendCoinsFromModuleToModule k (plus_SendCoins k inactive) t name name' amt s = Inr s'"
    using assms(4) by (simp add: plus_SendCoinsFromModuleToModule_def)
  then show ?thesis using AccountToModule_effect [OF assms(1,2) ModuleToModule_run [OF run]] CallModuleToModule by simp
next
  case (CallAccountToModule a name amt)
  then have "SendCoinsFromAccountToModule k (plus_SendCoins k inactive) t a name amt s = Inr s'" "a \<noteq> []"
    using assms(3,4) by (simp_all add: plus_SendCoinsFromAccountToModule_def holder_def)
  then show ?thesis using AccountToModule_effect [OF assms(1,2)] CallAccountToModule by simp
next
  case (CallDelegate a name amt)
  then obtain m s1 where run: "must_permit k name Staking s = Inr (m, s1)" "DelegateCoins k t a m amt s1 = Inr s'" "a \<noteq> []"
    using assms(3,4) by (auto simp: DelegateCoinsFromAccountToModule_def holder_def)
  obtain A where A: "holder m" "s1 = s\<lparr>bank_auth := A\<rparr>" "same_vesting k (bank_auth s) A"
    using must_permit_facts [OF assms(1,2) run(1)] by blast
  note 1 = effect_auth [OF assms(2) A(3), folded A(2)]
  have "m \<noteq> []" using A(1) by (simp add: holder_def)
  from effect_trans [OF 1 DelegateCoins_effect [OF effect_core [OF 1] run(3) this run(2)]] show ?thesis
    using CallDelegate by simp
next
  case (CallUndelegate name a amt)
  then obtain m s1 where run: "must_permit k name Staking s = Inr (m, s1)" "UndelegateCoins k t m a amt s1 = Inr s'" "a \<noteq> []"
    using assms(3,4) by (auto simp: UndelegateCoinsFromModuleToAccount_def holder_def)
  obtain A where A: "holder m" "s1 = s\<lparr>bank_auth := A\<rparr>" "same_vesting k (bank_auth s) A"
    using must_permit_facts [OF assms(1,2) run(1)] by blast
  note 1 = effect_auth [OF assms(2) A(3), folded A(2)]
  have "m \<noteq> []" using A(1) by (simp add: holder_def)
  from effect_trans [OF 1 UndelegateCoins_effect [OF effect_core [OF 1] run(3) this run(2)]] show ?thesis
    using CallUndelegate by simp
qed

end
