(* ===== verification/BankLocks.thy ===== *)
theory BankLocks
  imports BankEffects
begin

section \<open>Locked coins of the bank\<close>

text \<open>
  The balance of a vesting account covers what is locked at the time of the block, and every
  operation of the bank keeps it so: spending checks the spendable coins, delegation and
  undelegation change the locked coins with the balance, and a new vesting account is funded
  with its original coins.
\<close>

subsection \<open>Locked coins\<close>

text \<open>Every vesting account is well formed and its balance covers what is locked.\<close>

definition locked_safe :: "int \<Rightarrow> BankState \<Rightarrow> bool" where
  "locked_safe t s \<longleftrightarrow> (\<forall>a va. vesting_at (bank_auth s) a = Some va \<longrightarrow>
     vesting_ok va \<and> (\<forall>d. locked_amount va (Unix t) d \<le> balance s d a))"

lemma locked_safe_emit [simp]: "locked_safe t (EmitEvents es s) = locked_safe t s"
  by (simp add: locked_safe_def)

lemma safe_auth: "same_vesting k (bank_auth s) A \<Longrightarrow> locked_safe t (s\<lparr>bank_auth := A\<rparr>) = locked_safe t s"
  by (simp add: locked_safe_def same_vesting_def)

lemma safe_later: "locked_safe t s \<Longrightarrow> sint (Unix t) \<le> sint (Unix t') \<Longrightarrow> locked_safe t' s"
  unfolding locked_safe_def using locked_amount_mono order_trans by blast

lemma safe_grows:
  assumes "locked_safe t s" "bank_auth s' = bank_auth s" "\<And>d a. balance s d a \<le> balance s' d a"
  shows "locked_safe t s'"
  using assms(1) order_trans [OF _ assms(3)] unfolding locked_safe_def assms(2) by blast

lemma LockedCoins_vesting: "vesting_at (bank_auth s) a = Some va \<Longrightarrow> LockedCoins t s a = vesting_LockedCoins va t"
  by (auto simp: LockedCoins_def vesting_at_def split: option.splits Account.splits)

lemma LockedCoins_eq:
  assumes "locked_safe t s"
  obtains l where "LockedCoins t s a = Inr l" "valid_coins l" "coins_ok l"
    "\<And>d. coin_total l d = (case vesting_at (bank_auth s) a of None \<Rightarrow> 0 | Some va \<Rightarrow> locked_amount va (Unix t) d)"
proof (cases "vesting_at (bank_auth s) a")
  case None
  then have "LockedCoins t s a = Inr []"
    by (auto simp: LockedCoins_def vesting_at_def split: option.splits Account.splits)
  then show thesis using that [of "[]"] None by (simp add: coins_ok_def)
next
  case (Some va)
  then have "LockedCoins t s a = vesting_LockedCoins va t" by (rule LockedCoins_vesting)
  moreover have "vesting_ok va" using assms Some by (simp add: locked_safe_def)
  ultimately show thesis using locked_coins_total [of va t] that Some by (metis option.simps(5))
qed

lemma sub_locked:
  assumes "bank_wf s" "a \<noteq> []" "subUnlockedCoins k t a amt s = Inr s'" "vesting_at (bank_auth s) a = Some va" "vesting_ok va"
    and "0 < coin_total amt d"
  shows "locked_amount va (Unix t) d \<le> balance s d a - coin_total amt d"
proof -
  obtain l where l: "LockedCoins t s a = Inr l" "valid_coins l" "\<And>d. coin_total l d = locked_amount va (Unix t) d"
    using locked_coins_total [OF assms(5), of t] LockedCoins_vesting [OF assms(4), of t] by metis
  obtain l' where "LockedCoins t s a = Inr l'"
    "\<And>d. valid_coins l' \<Longrightarrow> 0 < coin_total amt d \<Longrightarrow> holder a \<and> coin_total l' d + coin_total amt d \<le> balance s d a"
    using subUnlockedCoins_facts [OF assms(1-3)] by metis
  then show ?thesis using l assms(6) by fastforce
qed

lemma safe_sub:
  assumes "bank_wf s" "a \<noteq> []" "locked_safe t s" "subUnlockedCoins k t a amt s = Inr s'"
  shows "locked_safe t s'"
proof -
  obtain l where sh: "valid_coins amt" "shifts a (\<lambda>d. - coin_total amt d) s s'"
    using subUnlockedCoins_facts [OF assms(1,2,4)] by metis
  have "locked_amount va (Unix t) d \<le> balance s' d b" if at: "vesting_at (bank_auth s) b = Some va" for b va d
  proof (cases "b = a \<and> 0 < coin_total amt d")
    case True
    then show ?thesis using at sub_locked [OF assms(1,2,4), of va d] assms(3) sh(2) by (simp add: shifts_def locked_safe_def)
  next
    case False
    then have "balance s' d b = balance s d b" using valid_total_nonneg [OF sh(1), of d] sh(2) by (auto simp: shifts_def)
    then show ?thesis using assms(3) at by (simp add: locked_safe_def)
  qed
  then show ?thesis using assms(3) sh(2) by (simp add: locked_safe_def shifts_def)
qed

lemma safe_add:
  assumes "bank_wf s" "a \<noteq> []" "locked_safe t s" "addCoins k a amt s = Inr s'"
  shows "locked_safe t s'"
proof (rule safe_grows [OF assms(3)])
  note f = addCoins_facts [OF assms(1,2,4)]
  show "bank_auth s' = bank_auth s" using f(2) by (simp add: shifts_def)
  show "balance s d b \<le> balance s' d b" for d b using f(2) valid_total_nonneg [OF f(1), of d] by (simp add: shifts_def)
qed

lemma safe_create:
  assumes "keeper_ok k" "holder a" "locked_safe t s" "create_account k a s = Inr s'"
  shows "locked_safe t s'"
  using create_account_facts [OF assms(1,2,4)] safe_auth assms(3) by metis

lemma SendCoins_run:
  assumes "SendCoins k t a b amt s = Inr s'"
  obtains s1 s2 s3 es where "subUnlockedCoins k t a amt s = Inr s1" "addCoins k b amt s1 = Inr s2"
    "create_account k b s2 = Inr s3" "s' = EmitEvents es s3"
  using assms by (auto simp: SendCoins_def)

lemma core_wf: "bank_core k s \<Longrightarrow> bank_wf s"
  by (simp add: bank_core_def)

lemma SendCoins_safe:
  assumes "keeper_ok k" "bank_core k s" "a \<noteq> []" "holder b" "locked_safe t s" "SendCoins k t a b amt s = Inr s'"
  shows "locked_safe t s'"
proof -
  obtain s1 s2 s3 es where run: "subUnlockedCoins k t a amt s = Inr s1" "addCoins k b amt s1 = Inr s2"
    "create_account k b s2 = Inr s3" "s' = EmitEvents es s3"
    by (rule SendCoins_run [OF assms(6)])
  have b: "b \<noteq> []" using assms(4) by (simp add: holder_def)
  have "locked_safe t s1" by (rule safe_sub [OF core_wf [OF assms(2)] assms(3,5) run(1)])
  then have "locked_safe t s2"
    using safe_add [OF _ b _ run(2)] core_wf [OF effect_core [OF sub_effect [OF assms(2,3) run(1)]]] by blast
  then show ?thesis using safe_create [OF assms(1,4) _ run(3)] run(4) by simp
qed

lemma supply_fold_rest:
  assumes "foldE (\<lambda>c s. bindE (change s c) (\<lambda>c'. Inr (setSupply_bank c' s))) amt s = Inr s'"
  shows "balance s' = balance s \<and> bank_auth s' = bank_auth s"
  using assms
  by (rule foldE_invariant) auto

lemma permit_safe:
  assumes "keeper_ok k" "bank_core k s" "locked_safe t s" "must_permit k name perm s = Inr (a, s')"
  shows "a \<noteq> []" "bank_core k s'" "locked_safe t s'"
proof -
  obtain A where A: "holder a" "s' = s\<lparr>bank_auth := A\<rparr>" "same_vesting k (bank_auth s) A"
    using must_permit_facts [OF assms(1,2,4)] by blast
  then show "a \<noteq> []" "bank_core k s'" "locked_safe t s'"
    using assms(3) safe_auth [OF A(3)] effect_core [OF effect_auth [OF assms(2) A(3)]] by (simp_all add: holder_def)
qed

lemma MintCoins_safe:
  assumes "keeper_ok k" "bank_core k s" "locked_safe t s" "MintCoins k name amt s = Inr s'"
  shows "locked_safe t s'"
proof -
  obtain a s1 s2 s3 e where run: "must_permit k name Minter s = Inr (a, s1)" "addCoins k a amt s1 = Inr s2"
    "foldE (\<lambda>c s. bindE (Coin_Add (GetSupply_bank s (Denom c)) c) (\<lambda>c'. Inr (setSupply_bank c' s))) amt s2 = Inr s3"
    "s' = EmitEvents [e] s3"
    using assms(4) by (auto simp: MintCoins_def)
  note p = permit_safe [OF assms(1-3) run(1)]
  have "locked_safe t s2" by (rule safe_add [OF core_wf [OF p(2)] p(1,3) run(2)])
  then show ?thesis using supply_fold_rest [OF run(3)] run(4) by (simp add: locked_safe_def)
qed

lemma BurnCoins_safe:
  assumes "keeper_ok k" "bank_core k s" "locked_safe t s" "BurnCoins k t name amt s = Inr s'"
  shows "locked_safe t s'"
proof -
  obtain a s1 s2 s3 e where run: "must_permit k name Burner s = Inr (a, s1)" "subUnlockedCoins k t a amt s1 = Inr s2"
    "foldE (\<lambda>c s. bindE (Coin_Sub (GetSupply_bank s (Denom c)) c) (\<lambda>c'. Inr (setSupply_bank c' s))) amt s2 = Inr s3"
    "s' = EmitEvents [e] s3"
    using assms(4) by (auto simp: BurnCoins_def)
  note p = permit_safe [OF assms(1-3) run(1)]
  have "locked_safe t s2" by (rule safe_sub [OF core_wf [OF p(2)] p(1,3) run(2)])
  then show ?thesis using supply_fold_rest [OF run(3)] run(4) by (simp add: locked_safe_def)
qed

lemma InputOutputCoins_safe:
  assumes "keeper_ok k" "bank_core k s" "locked_safe t s" "InputOutputCoins k t ins outs s = Inr s'"
  shows "locked_safe t s'"
proof -
  obtain s1 where run: "foldE (spend_input k t) ins s = Inr s1" "foldE (receive_output k) outs s1 = Inr s'"
    using assms(4) by (auto simp: InputOutputCoins_def)
  have "bank_core k s1 \<and> locked_safe t s1"
    using run(1)
  proof (rule foldE_invariant)
    fix i u v assume u: "bank_core k u \<and> locked_safe t u" and v: "spend_input k t i u = Inr v"
    obtain a w e where r: "AccAddressFromBech32 (addr_cfg (bank_ak k)) (InputAddress i) = Inr a"
      "subUnlockedCoins k t a (InputCoins i) u = Inr w" "v = EmitEvents [e] w"
      by (rule spend_input_run [OF v])
    have a: "a \<noteq> []" using keeper_decodes_holder [OF assms(1) r(1)] by (simp add: holder_def)
    have "bank_core k w" "locked_safe t w"
      using effect_core [OF sub_effect [OF _ a r(2)]] safe_sub [OF core_wf a _ r(2)] u by blast+
    then show "bank_core k v \<and> locked_safe t v" using r(3) by simp
  qed (use assms in simp)
  then have s1: "bank_core k s1 \<and> locked_safe t s1" .
  have "bank_core k s' \<and> locked_safe t s'"
    using run(2) s1
  proof (rule foldE_invariant)
    fix x u v assume u: "bank_core k u \<and> locked_safe t u" and v: "receive_output k x u = Inr v"
    obtain a w e where r: "AccAddressFromBech32 (addr_cfg (bank_ak k)) (OutputAddress x) = Inr a"
      "addCoins k a (OutputCoins x) u = Inr w" "create_account k a (EmitEvents [e] w) = Inr v"
      by (rule receive_output_run [OF v])
    note h = keeper_decodes_holder [OF assms(1) r(1)]
    then have a: "a \<noteq> []" by (simp add: holder_def)
    have "bank_core k w" "locked_safe t w"
      using effect_core [OF add_effect [OF _ a r(2)]] safe_add [OF core_wf a _ r(2)] u by blast+
    then show "bank_core k v \<and> locked_safe t v"
      using effect_core [OF create_effect [OF assms(1) h _ r(3)]] safe_create [OF assms(1) h _ r(3)] by simp
  qed
  then show ?thesis by simp
qed

text \<open>An account of the store set again with the same address.\<close>

lemma vesting_at_Set:
  "GetAddress (addr_cfg (bank_ak k)) (vBaseAccount (vesting_base va)) = a \<Longrightarrow>
   vesting_at (SetAccount (bank_ak k) (VestingAcc va) A) b = (if b = a then Some va else vesting_at A b)"
  by (simp add: vesting_at_def GetAccount_Set)

lemma vesting_at_address:
  assumes "bank_core k s" "vesting_at (bank_auth s) a = Some va"
  shows "GetAddress (addr_cfg (bank_ak k)) (vBaseAccount (vesting_base va)) = a"
proof -
  have "GetAccount (bank_auth s) a = Some (VestingAcc va)"
    using assms(2) by (auto simp: vesting_at_def split: option.splits Account.splits)
  then show ?thesis using assms(1) unfolding bank_core_def auth_ok_def by fastforce
qed

lemma DelegateCoins_safe:
  assumes "bank_core k s" "a \<noteq> []" "m \<noteq> []" "locked_safe t s" "DelegateCoins k t a m amt s = Inr s'"
  shows "locked_safe t s'"
proof -
  obtain bs s1 s2 e where run: "valid_coins amt" "foldE (delegate_coin a) amt ([], s) = Inr (bs, s1)"
    "trackDelegation_bank k t a bs amt s1 = Inr s2" "addCoins k m amt (EmitEvents [e] s2) = Inr s'"
    by (rule DelegateCoins_run [OF assms(5)])
  have nil: "valid_coins []" by simp
  note d = delegate_fold_facts [OF run(2) core_wf [OF assms(1)] assms(2) run(1) nil]
  have au: "bank_auth s1 = bank_auth s" and wf: "bank_wf s1" and
    bal: "\<And>d b. balance s1 d b = balance s d b - (if b = a then coin_total amt d else 0)"
    using d by (auto simp: shifts_def)
  have "bank_wf s2 \<and> locked_safe t s2"
    using run(3)
  proof (cases rule: trackDelegation_cases)
    case 1
    then show ?thesis using assms(4) bal au wf by (auto simp: locked_safe_def)
  next
    case (2 va va')
    have va: "vesting_ok va" "locked_amount va (Unix t) d \<le> balance s d a" for d
      using assms(4) 2(1) au by (auto simp: locked_safe_def)
    have t: "vesting_ok va'" "vBaseAccount (vesting_base va') = vBaseAccount (vesting_base va)"
      "\<And>d. locked_amount va' (Unix t) d = max (locked_amount va (Unix t) d - coin_total amt d) 0"
      using TrackDelegation_locked [OF va(1) _ run(1) _ 2(2)] d by blast+
    have at: "vesting_at (bank_auth s2) b = (if b = a then Some va' else vesting_at (bank_auth s) b)" for b
      using vesting_at_Set [of k va' a] vesting_at_address [OF assms(1)] 2(1) t(2) by (simp add: 2(3) au)
    have "locked_amount va' (Unix t) d \<le> balance s2 d a" for d
      using t(3) [of d] va(2) [of d] balance_bounds [OF wf, of d a] bal [of d a] by (simp add: 2(3))
    then show ?thesis
      using at t(1) assms(4) bal wf by (auto simp: locked_safe_def 2(3))
  qed
  then show ?thesis using safe_add [OF _ assms(3) _ run(4)] by simp
qed

lemma UndelegateCoins_safe:
  assumes "bank_core k s" "a \<noteq> []" "m \<noteq> []" "locked_safe t s" "UndelegateCoins k t m a amt s = Inr s'"
  shows "locked_safe t s'"
proof -
  obtain s1 s2 where run: "valid_coins amt" "subUnlockedCoins k t m amt s = Inr s1"
    "trackUndelegation_bank k a amt s1 = Inr s2" "addCoins k a amt s2 = Inr s'"
    by (rule UndelegateCoins_run [OF assms(5)])
  note 1 = effect_core [OF sub_effect [OF assms(1,3) run(2)]]
  have safe1: "locked_safe t s1" by (rule safe_sub [OF core_wf [OF assms(1)] assms(3,4) run(2)])
  show ?thesis
    using run(3)
  proof (cases rule: trackUndelegation_cases)
    case 1
    then show ?thesis using safe_add [OF _ assms(2) safe1] run(4) core_wf \<open>bank_core k s1\<close> by blast
  next
    case (2 va va')
    have wf2: "bank_wf s2" using core_wf [OF 1] by (simp add: 2(3))
    note f = addCoins_facts [OF wf2 assms(2) run(4)]
    have bal: "balance s' d b = balance s1 d b + (if b = a then coin_total amt d else 0)" for d b
      using f(2) by (simp add: shifts_def 2(3))
    have "0 < coin_total amt d \<Longrightarrow> coin_total amt d < 2 ^ 256" for d
      using bal [of d a] balance_bounds [OF core_wf [OF 1], of d a] balance_bounds [of s' d a] f(2) by (simp add: shifts_def)
    then have ok: "coins_ok amt"
      using coins_ok_iff [OF valid_coins_strict [OF run(1)]] valid_total_nonneg [OF run(1)] by (metis abs_of_nonneg less_le zero_less_power zero_less_numeral)
    have va: "vesting_ok va" and covered: "\<And>d. locked_amount va (Unix t) d \<le> balance s1 d a"
      using safe1 2(1) by (simp_all add: locked_safe_def)
    note t = TrackUndelegation_locked [OF va run(1) ok 2(2)]
    have at: "vesting_at (bank_auth s') b = (if b = a then Some va' else vesting_at (bank_auth s1) b)" for b
      using vesting_at_Set [of k va' a] vesting_at_address [OF 1 2(1)] t(5) f(2) by (simp add: 2(3) shifts_def)
    have "locked_amount va' (Unix t) d \<le> balance s' d a" for d
      using t(2) [of "Unix t" d] covered [of d] bal [of d a] by simp
    then show ?thesis
      using at t(1) safe1 bal by (auto simp: locked_safe_def)
  qed
qed

subsection \<open>Creating a vesting account\<close>

definition bank_ok :: "BankKeeper \<Rightarrow> BankState \<Rightarrow> bool" where
  "bank_ok k s \<longleftrightarrow> bank_core k s \<and> (\<forall>d. supply_of s d = bank_total s d)"

lemma balance_le_supply: "bank_ok k s \<Longrightarrow> balance s d a \<le> supply_of s d"
  using ledger_member_le [OF finite_balances, of s d a] balance_bounds by (simp add: bank_ok_def bank_core_def)

text \<open>What a send leaves in the balances.\<close>

lemma SendCoins_balances:
  assumes "keeper_ok k" "bank_wf s" "a \<noteq> []" "holder b" "SendCoins k t a b amt s = Inr s'"
  shows "valid_coins amt" "\<And>d. coin_total amt d \<le> balance s d a" "vesting_at (bank_auth s') = vesting_at (bank_auth s)"
    "\<And>d c. balance s' d c = balance s d c - (if c = a then coin_total amt d else 0) + (if c = b then coin_total amt d else 0)"
    "\<And>d va. vesting_at (bank_auth s) a = Some va \<Longrightarrow> vesting_ok va \<Longrightarrow> 0 < coin_total amt d \<Longrightarrow>
       locked_amount va (Unix t) d \<le> balance s d a - coin_total amt d"
proof -
  obtain s1 s2 s3 es where run: "subUnlockedCoins k t a amt s = Inr s1" "addCoins k b amt s1 = Inr s2"
    "create_account k b s2 = Inr s3" "s' = EmitEvents es s3"
    by (rule SendCoins_run [OF assms(5)])
  have b: "b \<noteq> []" using assms(4) by (simp add: holder_def)
  obtain l where f: "valid_coins amt" "shifts a (\<lambda>d. - coin_total amt d) s s1"
    using subUnlockedCoins_facts [OF assms(2,3) run(1)] by metis
  have wf1: "bank_wf s1" using f(2) by (simp add: shifts_def)
  note g = addCoins_facts(2) [OF wf1 b run(2)]
  obtain A where A: "s3 = s2\<lparr>bank_auth := A\<rparr>" "same_vesting k (bank_auth s2) A"
    by (rule create_account_facts [OF assms(1,4) run(3)])
  show "valid_coins amt" by (rule f(1))
  show "coin_total amt d \<le> balance s d a" for d
    using f(2) balance_bounds [OF wf1, of d a] by (simp add: shifts_def)
  show "vesting_at (bank_auth s') = vesting_at (bank_auth s)"
    using A f(2) g run(4) by (simp add: same_vesting_def shifts_def)
  show "balance s' d c = balance s d c - (if c = a then coin_total amt d else 0) + (if c = b then coin_total amt d else 0)" for d c
    using A(1) f(2) g run(4) by (simp add: shifts_def)
  show "locked_amount va (Unix t) d \<le> balance s d a - coin_total amt d"
    if "vesting_at (bank_auth s) a = Some va" "vesting_ok va" "0 < coin_total amt d" for d va
    by (rule sub_locked [OF assms(2,3) run(1) that])
qed

lemma new_vesting_ok:
  assumes "valid_coins amt" "coins_ok amt" "0 < sint endTime" "0 \<le> sint (Unix t)" "\<And>d. coin_total amt d \<le> 2 ^ 255"
    and "va = (if isDelayed then DelayedVestingAccount (NewBaseVestingAccount base (Coins_Sort amt) endTime)
       else ContinuousVestingAccount (NewBaseVestingAccount base (Coins_Sort amt) endTime) (Unix t))"
  shows "vesting_ok va" "locked_amount va n d \<le> coin_total amt d" "vBaseAccount (vesting_base va) = base"
proof -
  let ?b = "NewBaseVestingAccount base amt endTime"
  have sort: "Coins_Sort amt = amt" using assms(1) by (simp add: Coins_Sort_def sort_key_strict valid_coins_strict)
  have base: "base_ok ?b"
    using assms(1,2) valid_total_nonneg [OF assms(1)] by (simp add: base_ok_def NewBaseVestingAccount_def coins_ok_def)
  have "coin_total amt e * unit_dec \<le> 2 ^ 255 * unit_dec" for e using assms(5) by (intro mult_right_mono) simp_all
  then have small: "coin_total amt e * unit_dec < 2 ^ 315" for e by (rule le_less_trans) simp
  have "continuous_schedule (Unix t) ?b"
    using small assms(4) sint_range(1) [of endTime] by (simp add: continuous_schedule_def NewBaseVestingAccount_def)
  then show ok: "vesting_ok va" using base assms(6) sort by (simp add: vesting_ok_def)
  have vb: "vesting_base va = ?b" using assms(6) sort by simp
  then show "vBaseAccount (vesting_base va) = base" by (simp add: NewBaseVestingAccount_def)
  show "locked_amount va n d \<le> coin_total amt d"
    using vested_amount_bounds [OF ok, of n d] valid_total_nonneg [OF assms(1), of d]
    by (simp add: locked_amount_def vb NewBaseVestingAccount_def)
qed

lemma CreateVestingAccount_safe:
  assumes "keeper_ok k" "bank_ok k s" "locked_safe t s" "0 < sint endTime" "0 \<le> sint (Unix t)" "\<And>d. supply_of s d \<le> 2 ^ 255"
    and "CreateVestingAccount k (plus_SendCoins k inactive) t src dst amt endTime isDelayed s = Inr s'"
  shows "locked_safe t s'"
proof -
  obtain a b base n s1 e va where run: "holder a" "holder b" "GetAccount (bank_auth s) b = None"
    "GetAddress (addr_cfg (bank_ak k)) base = b"
    "va = (if isDelayed then DelayedVestingAccount (NewBaseVestingAccount base (Coins_Sort amt) endTime)
       else ContinuousVestingAccount (NewBaseVestingAccount base (Coins_Sort amt) endTime) (Unix t))"
    "plus_SendCoins k inactive t a b amt (s\<lparr>bank_auth := SetAccount (bank_ak k) (VestingAcc va) ((bank_auth s)\<lparr>globalAccountNumber := n\<rparr>)\<rparr>) = Inr s1"
    "s' = EmitEvents [e] s1"
    by (rule CreateVestingAccount_run [OF assms(7,1)])
  let ?s0 = "s\<lparr>bank_auth := SetAccount (bank_ak k) (VestingAcc va) ((bank_auth s)\<lparr>globalAccountNumber := n\<rparr>)\<rparr>"
  have wf: "bank_wf s" "bank_wf ?s0" and a: "a \<noteq> []" using assms(2) run(1) by (simp_all add: bank_ok_def bank_core_def holder_def)
  note f = SendCoins_balances [OF assms(1) wf(2) a run(2) plus_SendCoins_run [OF run(6)], simplified]
  have le: "coin_total amt d \<le> 2 ^ 255" for d using f(2) [of d] balance_le_supply [OF assms(2), of d a] assms(6) [of d] by linarith
  have "\<bar>coin_total amt d\<bar> < 2 ^ 256" for d
    using valid_total_nonneg [OF f(1), of d] le [of d] by simp
  then have ok: "coins_ok amt" using coins_ok_iff [OF valid_coins_strict [OF f(1)]] by blast
  note v = new_vesting_ok [OF f(1) ok assms(4,5) le run(5)]
  have at: "vesting_at (bank_auth ?s0) c = (if c = b then Some va else vesting_at (bank_auth s) c)" for c
    using vesting_at_Set [of k va b] v(3) run(4) by (simp add: vesting_at_def)
  have "vesting_ok w \<and> (\<forall>d. locked_amount w (Unix t) d \<le> balance s1 d c)"
    if c: "vesting_at (bank_auth ?s0) c = Some w" for c w
  proof (intro conjI allI)
    show w: "vesting_ok w" using c at assms(3) v(1) by (auto simp: locked_safe_def split: if_splits)
    have old: "c \<noteq> b \<Longrightarrow> locked_amount w (Unix t) d \<le> balance s d c" for d
      using c at assms(3) by (simp add: locked_safe_def)
    show "locked_amount w (Unix t) d \<le> balance s1 d c" for d
    proof (cases "c = a \<and> 0 < coin_total amt d")
      case True
      then have "locked_amount w (Unix t) d \<le> balance s d a - coin_total amt d" using f(5) [of w d] c w by simp
      then show ?thesis using f(4) [of d c] True by (cases "a = b") auto
    next
      case False
      then have "balance s1 d c = balance s d c + (if c = b then coin_total amt d else 0)"
        using f(4) [of d c] valid_total_nonneg [OF f(1), of d] by auto
      then show ?thesis using old [of d] v(2) [of "Unix t" d] c at balance_bounds [OF wf(1), of d c] by (cases "c = b") auto
    qed
  qed
  then show ?thesis using f(3) run(7) by (simp add: locked_safe_def)
qed

subsection \<open>Every call\<close>

lemma DeliverBankMsg_safe:
  assumes "keeper_ok k" "bank_ok k s" "locked_safe t s" "0 \<le> sint (Unix t)" "\<And>d. supply_of s d \<le> 2 ^ 255"
    and "DeliverBankMsg k inactive t m s = Inr s'"
  shows "locked_safe t s'"
proof -
  have core: "bank_core k s" using assms(2) by (simp add: bank_ok_def)
  show ?thesis
  proof (cases m)
    case (MsgSend src dst amt)
    then have "bmsg_Send k (plus_SendCoins k inactive) t src dst amt s = Inr s'" using assms(6) by (auto simp: DeliverBankMsg_def)
    then obtain a b s1 where "holder a" "holder b" "SendCoins k t a b amt s = Inr s1" "s' = EmitEvents [msg_module_event] s1"
      by (rule bmsg_Send_run [OF _ assms(1)])
    then show ?thesis using SendCoins_safe [OF assms(1) core, of a b t amt s1] assms(3) by (simp add: holder_def)
  next
    case (MsgMultiSend ins outs)
    then have "bmsg_MultiSend k t ins outs s = Inr s'" using assms(6) by (auto simp: DeliverBankMsg_def)
    then obtain s1 where "InputOutputCoins k t ins outs s = Inr s1" "s' = EmitEvents [msg_module_event] s1" by (rule bmsg_MultiSend_run)
    then show ?thesis using InputOutputCoins_safe [OF assms(1) core assms(3)] by simp
  next
    case (MsgCreateVestingAccount src dst amt endTime isDelayed)
    then have "0 < sint endTime" "CreateVestingAccount k (plus_SendCoins k inactive) t src dst amt endTime isDelayed s = Inr s'"
      using assms(6) by (auto simp: DeliverBankMsg_def MsgCreateVestingAccount_ValidateBasic_def)
    then show ?thesis using CreateVestingAccount_safe [OF assms(1-3) _ assms(4,5)] by blast
  qed
qed

lemma AccountToModule_safe:
  assumes "keeper_ok k" "bank_core k s" "a \<noteq> []" "locked_safe t s"
    "SendCoinsFromAccountToModule k (plus_SendCoins k inactive) t a name amt s = Inr s'"
  shows "locked_safe t s'"
proof -
  obtain A b where A: "holder b" "same_vesting k (bank_auth s) A" "SendCoins k t a b amt (s\<lparr>bank_auth := A\<rparr>) = Inr s'"
    using AccountToModule_facts [OF assms(1,2,5)] by blast
  show ?thesis
    using SendCoins_safe [OF assms(1) effect_core [OF effect_auth [OF assms(2) A(2)]] assms(3) A(1) _ A(3)]
      safe_auth [OF A(2)] assms(4) by simp
qed

lemma bank_call_safe:
  assumes "keeper_ok k" "bank_ok k s" "locked_safe t s" "0 \<le> sint (Unix t)" "\<And>d. supply_of s d \<le> 2 ^ 255"
    and "call_ok c" "bank_call k inactive t c s = Inr s'"
  shows "locked_safe t s'"
proof -
  have core: "bank_core k s" using assms(2) by (simp add: bank_ok_def)
  show ?thesis
  proof (cases c)
    case (CallMsg m)
    then show ?thesis using assms DeliverBankMsg_safe by simp
  next
    case (CallMint name amt)
    then show ?thesis using assms(7) MintCoins_safe [OF assms(1) core assms(3)] by simp
  next
    case (CallBurn name amt)
    then show ?thesis using assms(7) BurnCoins_safe [OF assms(1) core assms(3)] by simp
  next
    case (CallModuleToAccount name a amt)
    then have "GetModuleAddress (bank_ak k) name \<noteq> []" "holder a"
      "SendCoins k t (GetModuleAddress (bank_ak k) name) a amt s = Inr s'"
      using assms(6,7) plus_SendCoins_run by (auto simp: plus_SendCoinsFromModuleToAccount_def Let_def split: if_splits)
    then show ?thesis using SendCoins_safe [OF assms(1) core] assms(3) by blast
  next
    case (CallModuleToModule name name' amt)
    then have run: "SendCoinsFromModuleToModule k (plus_SendCoins k inactive) t name name' amt s = Inr s'"
      using assms(7) by (simp add: plus_SendCoinsFromModuleToModule_def)
    show ?thesis
      by (rule AccountToModule_safe [OF assms(1) core ModuleToModule_run(1) [OF run] assms(3) ModuleToModule_run(2) [OF run]])
  next
    case (CallAccountToModule a name amt)
    then have "SendCoinsFromAccountToModule k (plus_SendCoins k inactive) t a name amt s = Inr s'" "a \<noteq> []"
      using assms(6,7) by (simp_all add: plus_SendCoinsFromAccountToModule_def holder_def)
    then show ?thesis using AccountToModule_safe [OF assms(1) core] assms(3) by blast
  next
    case (CallDelegate a name amt)
    then obtain m s1 where run: "must_permit k name Staking s = Inr (m, s1)" "DelegateCoins k t a m amt s1 = Inr s'" "a \<noteq> []"
      using assms(6,7) by (auto simp: DelegateCoinsFromAccountToModule_def holder_def)
    note p = permit_safe [OF assms(1) core assms(3) run(1)]
    show ?thesis by (rule DelegateCoins_safe [OF p(2) run(3) p(1,3) run(2)])
  next
    case (CallUndelegate name a amt)
    then obtain m s1 where run: "must_permit k name Staking s = Inr (m, s1)" "UndelegateCoins k t m a amt s1 = Inr s'" "a \<noteq> []"
      using assms(6,7) by (auto simp: UndelegateCoinsFromModuleToAccount_def holder_def)
    note p = permit_safe [OF assms(1) core assms(3) run(1)]
    show ?thesis by (rule UndelegateCoins_safe [OF p(2) run(3) p(1,3) run(2)])
  qed
qed

lemma bank_call_ok:
  assumes "keeper_ok k" "bank_ok k s" "call_ok c" "bank_call k inactive t c s = Inr s'"
  shows "bank_ok k s'" "supply_of s' d = supply_of s d + minted c d"
  using bank_call_effect [OF assms(1) _ assms(3,4)] assms(2) by (auto simp: bank_ok_def effect_def)

end
