(* ===== verification/Bank_Props.thy ===== *)
theory Bank_Props
  imports BankLocks
begin

section \<open>Properties of the bank\<close>

text \<open>
  The theorems on the bank: genesis and every call keep the supply equal to the sum of the
  balances, locked coins stay covered over time, a send moves exactly its coins or is refused,
  and the recipients that the keepers refuse.
\<close>

subsection \<open>When a send goes through\<close>

definition locked_at :: "int \<Rightarrow> BankState \<Rightarrow> AccAddress \<Rightarrow> string \<Rightarrow> int" where
  "locked_at t s a d = (case vesting_at (bank_auth s) a of None \<Rightarrow> 0 | Some va \<Rightarrow> locked_amount va (Unix t) d)"

lemma locked_at_covered: "bank_wf s \<Longrightarrow> locked_safe t s \<Longrightarrow> locked_at t s a d \<le> balance s d a"
  using balance_bounds [of s d a] by (auto simp: locked_at_def locked_safe_def split: option.splits)

lemma sub_unlocked_coin_eq:
  assumes "bank_wf s" "holder a" "reDnm (Denom c)" "0 < Amount c" "Amount c < 2 ^ 256" "valid_coins l"
    and "coin_total l (Denom c) \<le> balance s (Denom c) a"
  shows "sub_unlocked_coin a l c s =
    (if coin_total l (Denom c) + Amount c \<le> balance s (Denom c) a
     then Inr (put_balance s (Denom c) a (balance s (Denom c) a - Amount c))
     else Inl (Error ErrInsufficientFunds ''spendable balance is smaller''))"
proof -
  let ?d = "Denom c" and ?b = "balance s (Denom c) a" and ?l = "coin_total l (Denom c)"
  let ?sp = "\<lparr>Denom = ?d, Amount = ?b - ?l\<rparr>"
  have b: "0 \<le> ?b" "?b < 2 ^ 256" using balance_bounds [OF assms(1)] by blast+
  have l: "0 \<le> ?l" by (rule valid_total_nonneg [OF assms(6)])
  have "\<bar>Amount ?sp - Amount c\<bar> < 2 ^ 256" using b l assms(4,5,7) by simp
  then obtain r where r: "Coins_SafeSub [?sp] [c] = Inr (r, ?b - ?l < Amount c)" using SafeSub_single [of ?sp c] by auto
  have sp: "Coin_Sub \<lparr>Denom = ?d, Amount = ?b\<rparr> \<lparr>Denom = ?d, Amount = ?l\<rparr> = Inr ?sp"
    using b l assms(7) by (simp add: Coin_Sub_eq)
  have nc: "NewCoin ?d ?l = Inr \<lparr>Denom = ?d, Amount = ?l\<rparr>" using assms(3) l by simp
  have head: "sub_unlocked_coin a l c s = (if ?b - ?l < Amount c then Inl (Error ErrInsufficientFunds ''spendable balance is smaller'')
     else bindE (Coin_Sub \<lparr>Denom = ?d, Amount = ?b\<rparr> c) (\<lambda>n. setBalance_bank a n s))"
    using GetBalance_total [OF assms(1-3)] Coins_AmountOf_eq [OF assms(6,3)] nc sp r
    by (simp add: sub_unlocked_coin_def del: NewCoin_eq)
  show ?thesis
  proof (cases "?l + Amount c \<le> ?b")
    case True
    then have "Coin_Sub \<lparr>Denom = ?d, Amount = ?b\<rparr> c = Inr \<lparr>Denom = ?d, Amount = ?b - Amount c\<rparr>"
      using b l assms(4) by (simp add: Coin_Sub_eq)
    moreover have "setBalance_bank a \<lparr>Denom = ?d, Amount = ?b - Amount c\<rparr> s = Inr (put_balance s ?d a (?b - Amount c))"
      using True l assms(3) by (simp add: setBalance_put [OF assms(2)])
    ultimately show ?thesis using head True by simp
  next
    case False
    then show ?thesis using head by simp
  qed
qed

lemma sub_fold_exact:
  assumes "bank_wf s" "holder a" "valid_coins amt" "coins_ok amt" "valid_coins l"
    and "\<And>c. c \<in> set amt \<Longrightarrow> coin_total l (Denom c) \<le> balance s (Denom c) a"
  shows "if \<forall>c \<in> set amt. coin_total l (Denom c) + Amount c \<le> balance s (Denom c) a
    then \<exists>s'. foldE (sub_unlocked_coin a l) amt s = Inr s'
    else \<exists>m. foldE (sub_unlocked_coin a l) amt s = Inl (Error ErrInsufficientFunds m)"
  using assms
proof (induction amt arbitrary: s)
  case (Cons c cs)
  have c: "reDnm (Denom c)" "0 < Amount c" "valid_coins cs" using Cons.prems(3) by (simp_all add: valid_coins_Cons)
  have ok: "Amount c < 2 ^ 256" "coins_ok cs" using Cons.prems(4) by (auto simp: coins_ok_def)
  let ?u = "put_balance s (Denom c) a (balance s (Denom c) a - Amount c)"
  note eq = sub_unlocked_coin_eq [OF Cons.prems(1,2) c(1,2) ok(1) Cons.prems(5) Cons.prems(6)]
  have other: "Denom e \<noteq> Denom c" if "e \<in> set cs" for e
    using that valid_coins_strict [OF Cons.prems(3)] by auto
  show ?case
  proof (cases "coin_total l (Denom c) + Amount c \<le> balance s (Denom c) a")
    case True
    then have "Amount c \<le> balance s (Denom c) a" using valid_total_nonneg [OF Cons.prems(5), of "Denom c"] by simp
    then have u: "bank_wf ?u"
      using put_balance_shift [OF Cons.prems(1,2) c(1), of "balance s (Denom c) a - Amount c"] c(2)
        balance_bounds [OF Cons.prems(1), of "Denom c" a] by (simp add: shifts_def)
    have same: "balance ?u (Denom e) a = balance s (Denom e) a" if "e \<in> set cs" for e
      using other [OF that] by (simp add: balance_put [OF Cons.prems(2)])
    have "sub_unlocked_coin a l c s = Inr ?u" using eq True by simp
    then show ?thesis using Cons.IH [OF u Cons.prems(2) c(3) ok(2) Cons.prems(5)] Cons.prems(6) same True by simp
  next
    case False
    then show ?thesis using eq by simp
  qed
qed simp

lemma add_fold_exact:
  assumes "bank_wf s" "holder a" "valid_coins amt" "\<And>c. c \<in> set amt \<Longrightarrow> balance s (Denom c) a + Amount c < 2 ^ 256"
  shows "\<exists>s'. foldE (add_coin a) amt s = Inr s'"
  using assms
proof (induction amt arbitrary: s)
  case (Cons c cs)
  have c: "reDnm (Denom c)" "0 < Amount c" "valid_coins cs" using Cons.prems(3) by (simp_all add: valid_coins_Cons)
  let ?n = "balance s (Denom c) a + Amount c"
  let ?u = "put_balance s (Denom c) a ?n"
  have n: "0 \<le> ?n" "?n < 2 ^ 256" using Cons.prems(4) [of c] c(2) balance_bounds [OF Cons.prems(1), of "Denom c" a] by simp_all
  have step: "add_coin a c s = Inr ?u"
    using GetBalance_total [OF Cons.prems(1,2) c(1)] n c(1) by (simp add: add_coin_def Coin_Add_eq setBalance_put [OF Cons.prems(2)])
  have u: "bank_wf ?u" using put_balance_shift [OF Cons.prems(1,2) c(1) n] by (simp add: shifts_def)
  have "Denom e \<noteq> Denom c" if "e \<in> set cs" for e using that valid_coins_strict [OF Cons.prems(3)] by auto
  then have "balance ?u (Denom e) a + Amount e < 2 ^ 256" if "e \<in> set cs" for e
    using that Cons.prems(4) by (simp add: balance_put [OF Cons.prems(2)])
  then show ?case using Cons.IH [OF u Cons.prems(2) c(3)] step by simp
qed simp

lemma per_coin:
  assumes "valid_coins amt"
  shows "(\<forall>c \<in> set amt. P (Denom c) (Amount c)) \<longleftrightarrow> (\<forall>d. 0 < coin_total amt d \<longrightarrow> P d (coin_total amt d))"
proof
  have member: "coin_total amt (Denom c) = Amount c" if "c \<in> set amt" for c
    using total_of_member [OF valid_coins_strict [OF assms] that, of Amount] by simp
  show "\<forall>c \<in> set amt. P (Denom c) (Amount c)" if "\<forall>d. 0 < coin_total amt d \<longrightarrow> P d (coin_total amt d)"
    using that member valid_coins_pos [OF assms] by metis
  show "\<forall>d. 0 < coin_total amt d \<longrightarrow> P d (coin_total amt d)" if "\<forall>c \<in> set amt. P (Denom c) (Amount c)"
  proof (intro allI impI)
    fix d assume "0 < coin_total amt d"
    then obtain c where "c \<in> set amt" "Denom c = d" using total_of_absent [of d Denom amt Amount] by fastforce
    then show "P d (coin_total amt d)" using that member by auto
  qed
qed

lemma create_account_defined:
  assumes "addr_text k a = Inr u"
  shows "\<exists>s'. create_account k a s = Inr s'"
  using assms by (auto simp: create_account_def NewAccountWithAddress_def SetAddress_def ProtoBaseAccount_def split: prod.splits)

lemma SendCoins_exact:
  assumes "keeper_ok k" "bank_ok k s" "locked_safe t s" "holder a" "holder b" "valid_coins amt" "coins_ok amt"
    and "addr_text k a = Inr ta" "addr_text k b = Inr tb"
  shows "if \<forall>d. 0 < coin_total amt d \<longrightarrow> locked_at t s a d + coin_total amt d \<le> balance s d a
    then \<exists>s'. SendCoins k t a b amt s = Inr s' else \<exists>m. SendCoins k t a b amt s = Inl (Error ErrInsufficientFunds m)"
proof -
  have wf: "bank_wf s" and ne: "a \<noteq> []" using assms(2,4) by (simp_all add: bank_ok_def bank_core_def holder_def)
  obtain l where l: "LockedCoins t s a = Inr l" "valid_coins l" "\<And>d. coin_total l d = locked_at t s a d"
    using LockedCoins_eq [OF assms(3), of a] unfolding locked_at_def by metis
  have cov: "coin_total l (Denom c) \<le> balance s (Denom c) a" for c using locked_at_covered [OF wf assms(3)] l(3) by simp
  have cond: "(\<forall>c \<in> set amt. coin_total l (Denom c) + Amount c \<le> balance s (Denom c) a)
      \<longleftrightarrow> (\<forall>d. 0 < coin_total amt d \<longrightarrow> locked_at t s a d + coin_total amt d \<le> balance s d a)"
    using per_coin [OF assms(6), of "\<lambda>d n. coin_total l d + n \<le> balance s d a"] l(3) by simp
  note fold = sub_fold_exact [OF wf assms(4,6,7) l(2) cov, unfolded cond]
  show ?thesis
  proof (cases "\<forall>d. 0 < coin_total amt d \<longrightarrow> locked_at t s a d + coin_total amt d \<le> balance s d a")
    case True
    then obtain u where "foldE (sub_unlocked_coin a l) amt s = Inr u" using fold by (metis (no_types))
    then obtain s1 where s1: "subUnlockedCoins k t a amt s = Inr s1"
      using assms(6,8) l(1) by (auto simp: subUnlockedCoins_def NewCoinSpentEvent_def coins_event_def)
    obtain l' where f: "shifts a (\<lambda>d. - coin_total amt d) s s1" using subUnlockedCoins_facts [OF wf ne s1] by metis
    have wf1: "bank_wf s1" using f by (simp add: shifts_def)
    have "balance s1 d b + coin_total amt d \<le> supply_of s d" for d
    proof -
      have "balance s1 d b \<le> bank_total s1 d" using ledger_member_le [OF finite_balances] balance_bounds [OF wf1] by blast
      then show ?thesis using f assms(2) by (simp add: shifts_def bank_ok_def)
    qed
    then have "balance s1 d b + coin_total amt d < 2 ^ 256" for d using supply_bounds [OF wf, of d] le_less_trans by blast
    then have "\<forall>c \<in> set amt. balance s1 (Denom c) b + Amount c < 2 ^ 256"
      using per_coin [OF assms(6), of "\<lambda>d n. balance s1 d b + n < 2 ^ 256"] by blast
    then obtain v where "foldE (add_coin b) amt s1 = Inr v" using add_fold_exact [OF wf1 assms(5,6)] by blast
    then obtain s2 where s2: "addCoins k b amt s1 = Inr s2"
      using assms(6,9) by (auto simp: addCoins_def NewCoinReceivedEvent_def coins_event_def)
    obtain s3 where "create_account k b s2 = Inr s3" using create_account_defined [OF assms(9)] by blast
    then show ?thesis using True s1 s2 assms(8,9) by (simp add: SendCoins_def)
  next
    case False
    then obtain m where "foldE (sub_unlocked_coin a l) amt s = Inl (Error ErrInsufficientFunds m)" using fold by (metis (no_types))
    then have "SendCoins k t a b amt s = Inl (Error ErrInsufficientFunds m)"
      using assms(6) l(1) by (simp add: SendCoins_def subUnlockedCoins_def)
    then show ?thesis using False by simp
  qed
qed

subsection \<open>Genesis\<close>

lemma foldE_visits:
  assumes "foldE f xs s = Inr t" "x \<in> set xs"
  obtains u v where "f x u = Inr v"
  using assms by (induction xs arbitrary: s) auto

lemma init_coins_shift:
  assumes "foldE (\<lambda>c s. if \<not> Coin_IsValid c then Inl (Error ErrInvalidCoins ''balance'')
       else if \<not> Coin_IsZero c then Inr (s\<lparr>bank_balances := store_set ((byte (length a) # a) @ Denom c) c (bank_balances s)\<rparr>)
       else Inr s) cs s = Inr s'"
    and "holder a" "bank_wf s" "valid_coins cs" "coins_ok cs" "\<And>c. c \<in> set cs \<Longrightarrow> balance s (Denom c) a = 0"
  shows "shifts a (coin_total cs) s s'"
  using assms
proof (induction cs arbitrary: s)
  case Nil
  then show ?case using shifts_refl [of s a] by simp
next
  case (Cons c cs)
  have c: "reDnm (Denom c)" "0 < Amount c" "valid_coins cs" using Cons.prems(4) by (simp_all add: valid_coins_Cons)
  have ok: "Amount c < 2 ^ 256" "coins_ok cs" using Cons.prems(5) by (auto simp: coins_ok_def)
  let ?u = "put_balance s (Denom c) a (Amount c)"
  have u: "?u = s\<lparr>bank_balances := store_set (byte (length a) # a @ Denom c) c (bank_balances s)\<rparr>"
    using c(2) by (simp add: put_balance_def balance_key_def Coin_collapse)
  have sh: "shifts a (\<lambda>d. if d = Denom c then Amount c else 0) s ?u"
    using put_balance_shift [OF Cons.prems(3,2) c(1), of "Amount c"] c(2) ok(1) Cons.prems(6) [of c] by (simp cong: if_cong)
  have "Denom e \<noteq> Denom c" if "e \<in> set cs" for e using that valid_coins_strict [OF Cons.prems(4)] by auto
  then have fresh: "balance ?u (Denom e) a = 0" if "e \<in> set cs" for e
    using that Cons.prems(6) by (simp add: balance_put [OF Cons.prems(2)])
  have wf: "bank_wf ?u" using sh by (simp add: shifts_def)
  have "shifts a (coin_total cs) ?u s'"
    by (rule Cons.IH [OF _ Cons.prems(2) wf c(3) ok(2) fresh]) (use Cons.prems(1) c u in \<open>auto simp: Coin_IsZero_def\<close>)
  from shifts_trans [OF sh this] show ?case
    by (rule back_subst [of "\<lambda>f. shifts a f s s'"]) (auto simp: fun_eq_iff)
qed

text \<open>
  The genesis a run starts from passes \<open>Validate\<close>. Two conditions are added that \<open>Validate\<close> leaves
  open: the texts of the addresses, which it compares, belong to different addresses, since
  Bech32 reads a text in upper and in lower case alike; and the amounts are below \<open>2^256\<close>, as
  those of every \<open>sdk.Int\<close> read from JSON or protobuf are.
\<close>

definition genesis_ok :: "BankKeeper \<Rightarrow> BankGenesis \<Rightarrow> bool" where
  "genesis_ok k gs \<longleftrightarrow> BankGenesis_Validate (addr_cfg (bank_ak k)) gs = Inr ()
     \<and> distinct (map (\<lambda>b. AccAddressFromBech32 (addr_cfg (bank_ak k)) (BalanceAddress b)) (GenBalances gs))
     \<and> list_all (\<lambda>b. coins_ok (BalanceCoins b)) (GenBalances gs)"

lemma genesis_balance_valid:
  assumes "BankGenesis_Validate cfg gs = Inr ()" "b \<in> set (GenBalances gs)"
  shows "valid_coins (BalanceCoins b)"
proof -
  obtain r where "foldE (\<lambda>b (seen, totalSupply).
       if BalanceAddress b \<in> seen then Inl (Error ErrPlain ''duplicate balance for address'')
       else bindE (Balance_Validate cfg b) (\<lambda>_.
         bindE (Coins_Add totalSupply (BalanceCoins b)) (\<lambda>total. Inr (insert (BalanceAddress b) seen, total))))
       (GenBalances gs) ({}, []) = Inr r"
    using assms(1) by (auto simp: BankGenesis_Validate_def)
  then obtain u v where "(case u of (seen, totalSupply) \<Rightarrow>
       if BalanceAddress b \<in> seen then Inl (Error ErrPlain ''duplicate balance for address'')
       else bindE (Balance_Validate cfg b) (\<lambda>_.
         bindE (Coins_Add totalSupply (BalanceCoins b)) (\<lambda>total. Inr (insert (BalanceAddress b) seen, total)))) = Inr v"
    using assms(2) by (rule foldE_visits)
  then obtain w where "Balance_Validate cfg b = Inr w" by (auto split: prod.splits if_splits)
  then show ?thesis by (auto simp: Balance_Validate_def Coins_Validate_eq)
qed

lemma init_balance_facts:
  assumes "keeper_ok k" "init_balance (addr_cfg (bank_ak k)) b (acc, s) = Inr (acc', s')" "bank_core k s"
    and "valid_coins acc" "coins_ok acc" "valid_coins (BalanceCoins b)" "coins_ok (BalanceCoins b)"
    and "\<And>a d. AccAddressFromBech32 (addr_cfg (bank_ak k)) (BalanceAddress b) = Inr a \<Longrightarrow> balance s d a = 0"
  obtains a where "AccAddressFromBech32 (addr_cfg (bank_ak k)) (BalanceAddress b) = Inr a"
    "shifts a (coin_total (BalanceCoins b)) s s'" "valid_coins acc'" "coins_ok acc'"
    "\<And>d. coin_total acc' d = coin_total acc d + coin_total (BalanceCoins b) d"
proof -
  obtain a where run: "AccAddressFromBech32 (addr_cfg (bank_ak k)) (BalanceAddress b) = Inr a"
    "initBalances a (BalanceCoins b) s = Inr s'" "Coins_Add acc (BalanceCoins b) = Inr acc'"
    using assms(2) by (auto simp: init_balance_def MustAccAddressFromBech32_def split: sum.splits)
  note h = keeper_decodes_holder [OF assms(1) run(1)]
  have "shifts a (coin_total (BalanceCoins b)) s s'"
    by (rule init_coins_shift [OF _ h core_wf [OF assms(3)] assms(6,7) assms(8) [OF run(1)]])
      (use run(2) in \<open>simp only: initBalances_def prefix_holder [OF h] bindE.simps\<close>)
  then show thesis using that run(1) Coins_Add_facts [OF assms(4,6,5,7) run(3)] by blast
qed

lemma init_fold_facts:
  assumes "foldE (init_balance (addr_cfg (bank_ak k))) bs (acc, s) = Inr (acc', s')" "keeper_ok k" "bank_core k s"
    and "valid_coins acc" "coins_ok acc" "\<And>b. b \<in> set bs \<Longrightarrow> valid_coins (BalanceCoins b) \<and> coins_ok (BalanceCoins b)"
    and "distinct (map (\<lambda>b. AccAddressFromBech32 (addr_cfg (bank_ak k)) (BalanceAddress b)) bs)"
    and "\<And>b a d. b \<in> set bs \<Longrightarrow> AccAddressFromBech32 (addr_cfg (bank_ak k)) (BalanceAddress b) = Inr a \<Longrightarrow> balance s d a = 0"
  shows "bank_core k s' \<and> valid_coins acc' \<and> coins_ok acc' \<and> bank_supply s' = bank_supply s
    \<and> (\<forall>d. bank_total s' d - coin_total acc' d = bank_total s d - coin_total acc d)"
  using assms
proof (induction bs arbitrary: acc s)
  case (Cons b bs)
  obtain t1 s1 where run: "init_balance (addr_cfg (bank_ak k)) b (acc, s) = Inr (t1, s1)"
    "foldE (init_balance (addr_cfg (bank_ak k))) bs (t1, s1) = Inr (acc', s')"
    using Cons.prems(1) by (cases "init_balance (addr_cfg (bank_ak k)) b (acc, s)") auto
  obtain a where f: "AccAddressFromBech32 (addr_cfg (bank_ak k)) (BalanceAddress b) = Inr a"
    "shifts a (coin_total (BalanceCoins b)) s s1" "valid_coins t1" "coins_ok t1"
    "\<And>d. coin_total t1 d = coin_total acc d + coin_total (BalanceCoins b) d"
    by (rule init_balance_facts [OF Cons.prems(2) run(1) Cons.prems(3-5)]) (use Cons.prems(6,8) in auto)
  have fresh: "balance s1 d c = 0"
    if "e \<in> set bs" "AccAddressFromBech32 (addr_cfg (bank_ak k)) (BalanceAddress e) = Inr c" for e c d
  proof -
    have "c \<noteq> a" using that f(1) Cons.prems(7) by (metis (no_types, lifting) distinct.simps(2) image_eqI list.set_map list.simps(9))
    then show ?thesis using f(2) Cons.prems(8) [of e c d] that by (simp add: shifts_def)
  qed
  have "bank_core k s1" using f(2) Cons.prems(3) by (simp add: bank_core_def shifts_def)
  note IH = Cons.IH [OF run(2) Cons.prems(2) this f(3,4) _ _ fresh]
  show ?case using IH Cons.prems(6,7) f(2,5) by (simp add: shifts_def)
qed simp

lemma fold_setSupply:
  assumes "bank_core k s" "valid_coins cs" "coins_ok cs" "\<And>c. c \<in> set cs \<Longrightarrow> supply_of s (Denom c) = 0"
  shows "bank_core k (fold setSupply_bank cs s)" "supply_of (fold setSupply_bank cs s) d = supply_of s d + coin_total cs d"
    "balance (fold setSupply_bank cs s) = balance s"
proof -
  have "bank_core k (fold setSupply_bank cs s) \<and> supply_of (fold setSupply_bank cs s) d = supply_of s d + coin_total cs d
      \<and> balance (fold setSupply_bank cs s) = balance s"
    using assms
  proof (induction cs arbitrary: s)
    case (Cons c cs)
    have c: "reDnm (Denom c)" "0 < Amount c" "valid_coins cs" using Cons.prems(2) by (simp_all add: valid_coins_Cons)
    have ok: "Amount c < 2 ^ 256" "coins_ok cs" using Cons.prems(3) by (auto simp: coins_ok_def)
    have f: "bank_wf (setSupply_bank c s)"
      "supply_of (setSupply_bank c s) e = (if e = Denom c then Amount c else supply_of s e)" for e
      using setSupply_facts [OF core_wf [OF Cons.prems(1)] c(1) _ ok(1)] c(2) by (simp_all add: Coin_collapse)
    have core: "bank_core k (setSupply_bank c s)" using Cons.prems(1) f(1) by (simp add: bank_core_def)
    have "Denom e \<noteq> Denom c" if "e \<in> set cs" for e using that valid_coins_strict [OF Cons.prems(2)] by auto
    then have "supply_of (setSupply_bank c s) (Denom e) = 0" if "e \<in> set cs" for e using that f(2) Cons.prems(4) by simp
    from Cons.IH [OF core c(3) ok(2) this] show ?case using f(2) Cons.prems(4) [of c] by (auto simp: fun_eq_iff)
  qed simp
  then show "bank_core k (fold setSupply_bank cs s)" "supply_of (fold setSupply_bank cs s) d = supply_of s d + coin_total cs d"
    "balance (fold setSupply_bank cs s) = balance s" by blast+
qed

lemma fold_metadata:
  "balance (fold SetDenomMetaData ms s) = balance s \<and> GetSupply_bank (fold SetDenomMetaData ms s) = GetSupply_bank s
   \<and> bank_core k (fold SetDenomMetaData ms s) = bank_core k s"
  by (induction ms arbitrary: s)
    (simp_all add: SetDenomMetaData_def balance_def GetSupply_bank_def bank_core_def bank_wf_def fun_eq_iff)

lemma empty_bank:
  assumes "bank_balances s = []" "bank_supply s = []" "auth_ok k (bank_auth s)"
  shows "bank_core k s" "balance s d a = 0" "supply_of s d = 0" "bank_total s d = 0"
proof -
  have b: "balance s d = (\<lambda>_. 0)" for d using assms(1) by (auto simp: balance_def fun_eq_iff store_get_def)
  then show "balance s d a = 0" "bank_total s d = 0" by simp_all
  show "bank_core k s" using assms by (simp add: bank_core_def bank_wf_def store_get_def store_wf_def)
  show "supply_of s d = 0" using assms(2) by (simp add: GetSupply_bank_def store_get_def)
qed

lemma bank_InitGenesis_ok:
  assumes "keeper_ok k" "genesis_ok k gs" "bank_balances s = []" "bank_supply s = []" "auth_ok k (bank_auth s)"
    and "bank_InitGenesis k gs s = Inr s'"
  shows "bank_ok k s'"
proof -
  let ?cfg = "addr_cfg (bank_ak k)" and ?s = "s\<lparr>bank_params := GenParams gs\<rparr>"
  let ?bs = "SanitizeGenesisBalances ?cfg (GenBalances gs)"
  obtain acc s1 where run: "foldE (init_balance ?cfg) ?bs ([], ?s) = Inr (acc, s1)"
    "s' = fold SetDenomMetaData (GenMetadata gs) (fold setSupply_bank acc s1)"
    using assms(6) by (auto simp: bank_InitGenesis_def Let_def split: if_splits)
  note e = empty_bank [of ?s k, simplified, OF assms(3-5)]
  have set_bs: "set ?bs = set (GenBalances gs)" by (simp add: SanitizeGenesisBalances_def)
  have dist: "distinct (map (\<lambda>b. AccAddressFromBech32 ?cfg (BalanceAddress b)) ?bs)"
    using assms(2) set_bs by (simp add: genesis_ok_def distinct_map SanitizeGenesisBalances_def)
  have coins: "valid_coins (BalanceCoins b) \<and> coins_ok (BalanceCoins b)" if "b \<in> set ?bs" for b
    using that assms(2) genesis_balance_valid set_bs by (auto simp: genesis_ok_def list_all_iff)
  have nil: "valid_coins []" "coins_ok []" by (simp_all add: coins_ok_def)
  note f = init_fold_facts [OF run(1) assms(1) e(1) nil coins dist]
  have g: "bank_core k s1" "valid_coins acc" "coins_ok acc" "bank_supply s1 = []" "\<And>d. bank_total s1 d = coin_total acc d"
    using f e assms(4) by auto
  have z: "supply_of s1 d = 0" for d using g(4) by (simp add: GetSupply_bank_def store_get_def)
  note h = fold_setSupply [OF g(1-3), simplified z]
  show ?thesis
    using h g(5) fold_metadata [of "GenMetadata gs" "fold setSupply_bank acc s1" k] by (simp add: bank_ok_def run(2))
qed

subsection \<open>The bank over time\<close>

inductive bank_reachable :: "BankKeeper \<Rightarrow> BankState \<Rightarrow> bool" for k :: BankKeeper where
  genesis: "genesis_ok k gs \<Longrightarrow> bank_balances s = [] \<Longrightarrow> bank_supply s = [] \<Longrightarrow> auth_ok k (bank_auth s)
    \<Longrightarrow> bank_InitGenesis k gs s = Inr s' \<Longrightarrow> bank_reachable k s'"
| call: "bank_reachable k s \<Longrightarrow> call_ok c \<Longrightarrow> bank_call k inactive t c s = Inr s' \<Longrightarrow> bank_reachable k s'"

text \<open>Calls at the time of the block, and the time of the next block.\<close>

inductive bank_run :: "BankKeeper \<Rightarrow> int \<Rightarrow> BankState \<Rightarrow> int \<Rightarrow> BankState \<Rightarrow> bool" for k :: BankKeeper where
  start: "bank_run k t s t s"
| call: "bank_run k t s t1 s1 \<Longrightarrow> 0 \<le> sint (Unix t1) \<Longrightarrow> \<forall>d. supply_of s1 d \<le> 2 ^ 255 \<Longrightarrow> call_ok c
    \<Longrightarrow> bank_call k inactive t1 c s1 = Inr s2 \<Longrightarrow> bank_run k t s t1 s2"
| later: "bank_run k t s t1 s1 \<Longrightarrow> sint (Unix t1) \<le> sint (Unix t2) \<Longrightarrow> bank_run k t s t2 s1"

lemma bank_reachable_ok: "bank_reachable k s \<Longrightarrow> keeper_ok k \<Longrightarrow> bank_ok k s"
proof (induction rule: bank_reachable.induct)
  case (genesis gs s s')
  then show ?case using bank_InitGenesis_ok by blast
next
  case (call s c inactive t s')
  then show ?case using bank_call_ok(1) by blast
qed

lemma bank_run_safe:
  assumes "bank_run k t s t' s'" "keeper_ok k" "bank_ok k s" "locked_safe t s"
  shows "bank_ok k s' \<and> locked_safe t' s'"
  using assms
proof (induction rule: bank_run.induct)
  case (call t s t1 s1 c inactive s2)
  then show ?case using bank_call_ok(1) [of k s1 c inactive t1 s2] bank_call_safe [of k s1 t1 c inactive s2] by blast
next
  case (later t s t1 s1 t2)
  then show ?case using safe_later by blast
qed simp

subsection \<open>Inactive recipients\<close>

fun guarded :: "BankCall \<Rightarrow> bool" where
  "guarded (CallMsg (MsgMultiSend ins outs)) = False"
| "guarded (CallMsg m) = True"
| "guarded (CallModuleToAccount name a amt) = True"
| "guarded (CallModuleToModule name name' amt) = True"
| "guarded (CallAccountToModule a name amt) = True"
| "guarded _ = False"

definition inactive_address :: "BankKeeper \<Rightarrow> string set \<Rightarrow> AccAddress \<Rightarrow> bool" where
  "inactive_address k inactive a \<longleftrightarrow> isInactiveAddr k inactive a = Inr True"

lemma plus_SendCoins_inactive:
  assumes "keeper_ok k" "bank_wf s" "a \<noteq> []" "holder b" "plus_SendCoins k inactive t a b amt s = Inr s'"
    and "inactive_address k inactive c"
  shows "balance s' d c \<le> balance s d c"
proof -
  have "c \<noteq> b" using assms(5,6) by (auto simp: plus_SendCoins_def inactive_address_def)
  moreover note f = SendCoins_balances [OF assms(1-4) plus_SendCoins_run [OF assms(5)]]
  ultimately show ?thesis using f(4) [of d c] valid_total_nonneg [OF f(1), of d] by auto
qed

lemma AccountToModule_inactive:
  assumes "keeper_ok k" "bank_core k s" "a \<noteq> []" "SendCoinsFromAccountToModule k (plus_SendCoins k inactive) t a name amt s = Inr s'"
    and "inactive_address k inactive c"
  shows "balance s' d c \<le> balance s d c"
proof -
  obtain m s1 where run: "must_module k name s = Inr (m, s1)"
    "plus_SendCoins k inactive t a (GetAddress (addr_cfg (bank_ak k)) (ModuleBase m)) amt s1 = Inr s'"
    using assms(4) by (auto simp: SendCoinsFromAccountToModule_def)
  have ok: "auth_ok k (bank_auth s)" using assms(2) by (simp add: bank_core_def)
  obtain A where A: "s1 = s\<lparr>bank_auth := A\<rparr>" "holder (GetAddress (addr_cfg (bank_ak k)) (ModuleBase m))"
    by (rule must_module_facts [OF assms(1) ok run(1)])
  have "bank_wf s1" using core_wf [OF assms(2)] A(1) by simp
  from plus_SendCoins_inactive [OF assms(1) this assms(3) A(2) run(2) assms(5)] show ?thesis using A(1) by simp
qed

lemma guarded_msg_inactive:
  assumes "keeper_ok k" "bank_core k s" "guarded (CallMsg m)" "DeliverBankMsg k inactive t m s = Inr s'"
    and "inactive_address k inactive c"
  shows "balance s' d c \<le> balance s d c"
proof (cases m)
  case (MsgSend src dst amt)
  then have "bmsg_Send k (plus_SendCoins k inactive) t src dst amt s = Inr s'" using assms(4) by (auto simp: DeliverBankMsg_def)
  then obtain a b s1 where run: "AccAddressFromBech32 (addr_cfg (bank_ak k)) src = Inr a"
    "AccAddressFromBech32 (addr_cfg (bank_ak k)) dst = Inr b" "plus_SendCoins k inactive t a b amt s = Inr s1"
    "s' = EmitEvents [msg_module_event] s1"
    by (auto simp: bmsg_Send_def split: if_splits)
  note h = keeper_decodes_holder [OF assms(1) run(1)] keeper_decodes_holder [OF assms(1) run(2)]
  then have "a \<noteq> []" by (simp add: holder_def)
  from plus_SendCoins_inactive [OF assms(1) core_wf [OF assms(2)] this h(2) run(3) assms(5)] show ?thesis using run(4) by simp
next
  case (MsgMultiSend ins outs)
  then show ?thesis using assms(3) by simp
next
  case (MsgCreateVestingAccount src dst amt endTime isDelayed)
  then have "CreateVestingAccount k (plus_SendCoins k inactive) t src dst amt endTime isDelayed s = Inr s'"
    using assms(4) by (auto simp: DeliverBankMsg_def)
  then obtain a b n s1 e va where run: "holder a" "holder b"
    "plus_SendCoins k inactive t a b amt (s\<lparr>bank_auth := SetAccount (bank_ak k) (VestingAcc va) ((bank_auth s)\<lparr>globalAccountNumber := n\<rparr>)\<rparr>) = Inr s1"
    "s' = EmitEvents [e] s1"
    by (rule CreateVestingAccount_run [OF _ assms(1)])
  have "a \<noteq> []" using run(1) by (simp add: holder_def)
  from plus_SendCoins_inactive [OF assms(1) _ this run(2,3) assms(5)] show ?thesis using run(4) core_wf [OF assms(2)] by simp
qed

lemma guarded_inactive:
  assumes "keeper_ok k" "bank_core k s" "call_ok call" "guarded call" "bank_call k inactive t call s = Inr s'"
    and "inactive_address k inactive c"
  shows "balance s' d c \<le> balance s d c"
proof (cases call)
  case (CallMsg m)
  then show ?thesis using guarded_msg_inactive [OF assms(1,2) _ _ assms(6)] assms(4,5) by simp
next
  case (CallModuleToAccount name a amt)
  then have "GetModuleAddress (bank_ak k) name \<noteq> []" "holder a"
    "plus_SendCoins k inactive t (GetModuleAddress (bank_ak k) name) a amt s = Inr s'"
    using assms(3,5) by (auto simp: plus_SendCoinsFromModuleToAccount_def Let_def split: if_splits)
  then show ?thesis using plus_SendCoins_inactive [OF assms(1) core_wf [OF assms(2)]] assms(6) by blast
next
  case (CallModuleToModule name name' amt)
  then have "SendCoinsFromModuleToModule k (plus_SendCoins k inactive) t name name' amt s = Inr s'"
    using assms(5) by (simp add: plus_SendCoinsFromModuleToModule_def)
  from AccountToModule_inactive [OF assms(1,2) ModuleToModule_run [OF this] assms(6)] show ?thesis .
next
  case (CallAccountToModule a name amt)
  then have "SendCoinsFromAccountToModule k (plus_SendCoins k inactive) t a name amt s = Inr s'" "a \<noteq> []"
    using assms(3,5) by (simp_all add: plus_SendCoinsFromAccountToModule_def holder_def)
  then show ?thesis using AccountToModule_inactive [OF assms(1,2)] assms(6) by blast
qed (use assms(4) in simp_all)

subsection \<open>A small bank\<close>

definition demo_bank_keeper :: BankKeeper where
  "demo_bank_keeper = \<lparr>bank_ak = NewAccountKeeper plain_config (\<lambda>_. ''m'') (\<lambda>name. if name = ''mint'' then Some [Minter] else None),
     blockedAddrs = (\<lambda>_. False), mintCoinsRestrictionFn = (\<lambda>_. Inr ())\<rparr>"

definition atoms :: "int \<Rightarrow> Coins" where
  "atoms n = [\<lparr>Denom = ''atom'', Amount = n\<rparr>]"

definition demo_bank_genesis :: BankGenesis where
  "demo_bank_genesis = \<lparr>GenParams = DefaultParams, GenBalances = [\<lparr>BalanceAddress = ''link1a'', BalanceCoins = atoms 100\<rparr>],
     GenSupply = [], GenMetadata = []\<rparr>"

definition empty_state :: BankState where
  "empty_state = \<lparr>bank_balances = [], bank_supply = [], bank_metadata = [], bank_params = DefaultParams,
     bank_auth = \<lparr>accounts = [], globalAccountNumber = None\<rparr>, bank_events = []\<rparr>"

definition demo_bank :: BankState where
  "demo_bank = empty_state\<lparr>bank_balances := [(byte 1 # ''aatom'', \<lparr>Denom = ''atom'', Amount = 100\<rparr>)], bank_supply := [(''atom'', 100)]\<rparr>"

lemma demo_init: "bank_InitGenesis demo_bank_keeper demo_bank_genesis empty_state = Inr demo_bank"
  by code_simp

lemma demo_validate: "BankGenesis_Validate (addr_cfg (bank_ak demo_bank_keeper)) demo_bank_genesis = Inr ()"
  by code_simp

lemma demo_bank_keeper_ok: "keeper_ok demo_bank_keeper"
proof -
  have "length s \<le> 1023" if "holder a" "AccAddress_String plain_config a = Inr s" for a s
    using that by (auto simp: AccAddress_String_def ConvertAndEncode_def plain_config_def holder_def MaxAddrLen_def)
  moreover have "AddressVerifier plain_config = None" by (simp add: plain_config_def)
  ultimately show ?thesis
    using plain_config_lawful by (auto simp: keeper_ok_def Let_def demo_bank_keeper_def NewAccountKeeper_def holder_def MaxAddrLen_def)
qed

lemma demo_bank_genesis_ok: "genesis_ok demo_bank_keeper demo_bank_genesis"
  using demo_validate by (simp add: genesis_ok_def demo_bank_genesis_def atoms_def coins_ok_def)

lemma demo_bank_reachable: "bank_reachable demo_bank_keeper demo_bank"
  by (rule bank_reachable.genesis [OF demo_bank_genesis_ok _ _ _ demo_init])
    (simp_all add: empty_state_def auth_ok_def GetAccount_def store_get_def)

lemma demo_ok: "bank_ok demo_bank_keeper demo_bank"
  by (rule bank_reachable_ok [OF demo_bank_reachable demo_bank_keeper_ok])

lemma demo_safe: "locked_safe t demo_bank"
  by (simp add: locked_safe_def vesting_at_def GetAccount_def demo_bank_def empty_state_def store_get_def)

subsection \<open>The theorems\<close>

text \<open>
  C4: in every state reached from a validated genesis, whose balances belong to different
  addresses and are below \<open>2^256\<close>, by messages and by the calls of other modules, the supply of each denomination is
  the sum of all balances of it and no balance is negative; only minting and burning change
  the supply, by the coins they are given.
\<close>

theorem bank_supply_matches_balances:
  assumes "keeper_ok k" "bank_reachable k s"
  shows "supply_of s d = bank_total s d \<and> 0 \<le> balance s d a \<and> balance s d a \<le> supply_of s d
    \<and> (call_ok c \<longrightarrow> bank_call k inactive t c s = Inr s' \<longrightarrow> supply_of s' d = supply_of s d + minted c d)"
proof -
  note ok = bank_reachable_ok [OF assms(2,1)]
  then show ?thesis
    using balance_le_supply [OF ok] balance_bounds [of s d a] bank_call_ok(2) [OF assms(1) ok, of c inactive t s' d]
    by (simp add: bank_ok_def bank_core_def)
qed

theorem bank_supply_matches_balances_witness:
  "\<exists>s'. bank_call demo_bank_keeper {} 0 (CallMint ''mint'' (atoms 7)) demo_bank = Inr s'
     \<and> supply_of demo_bank ''atom'' = bank_total demo_bank ''atom'' \<and> supply_of s' ''atom'' = 107"
proof -
  have "case bank_call demo_bank_keeper {} 0 (CallMint ''mint'' (atoms 7)) demo_bank of Inl _ \<Rightarrow> False | Inr _ \<Rightarrow> True"
    by code_simp
  then obtain s' where s': "bank_call demo_bank_keeper {} 0 (CallMint ''mint'' (atoms 7)) demo_bank = Inr s'"
    by (cases "bank_call demo_bank_keeper {} 0 (CallMint ''mint'' (atoms 7)) demo_bank") auto
  have "supply_of demo_bank ''atom'' = 100" by code_simp
  then show ?thesis
    using bank_supply_matches_balances [OF demo_bank_keeper_ok demo_bank_reachable, of "''atom''" "[]" "CallMint ''mint'' (atoms 7)" "{}" 0 s'] s'
    by (simp add: atoms_def)
qed

text \<open>
  C5: a bank whose vesting accounts are well formed and hold what is locked stays so whatever
  messages and calls follow and however time passes, delegations and new vesting accounts
  included, as long as no supply exceeds \<open>2^255\<close>: the locked coins of every address are
  defined and its balance covers them.
\<close>

theorem vesting_locked_covered:
  assumes "keeper_ok k" "bank_ok k s" "locked_safe t s" "bank_run k t s t' s'"
  shows "\<exists>l. LockedCoins t' s' a = Inr l \<and> Coins_IsValid l \<and> (\<forall>d. coin_total l d \<le> balance s' d a)"
proof -
  note r = bank_run_safe [OF assms(4,1-3)]
  obtain l where "LockedCoins t' s' a = Inr l" "valid_coins l" "\<And>d. coin_total l d = locked_at t' s' a d"
    using LockedCoins_eq [of t' s' a] r unfolding locked_at_def by metis
  then show ?thesis using r locked_at_covered [of s' t' a] by (auto simp: bank_ok_def bank_core_def)
qed

definition demo_time :: int where
  "demo_time = 62135598000 * 10 ^ 9"

definition demo_vest :: BankCall where
  "demo_vest = CallMsg (MsgCreateVestingAccount ''link1a'' ''link1b'' (atoms 30) 5000 True)"

theorem vesting_locked_covered_witness:
  "\<exists>s' l. bank_call demo_bank_keeper {} demo_time demo_vest demo_bank = Inr s' \<and> LockedCoins demo_time s' ''b'' = Inr l
     \<and> coin_total l ''atom'' = 30 \<and> coin_total l ''atom'' \<le> balance s' ''atom'' ''b''"
proof -
  have run: "case bank_call demo_bank_keeper {} demo_time demo_vest demo_bank of Inl _ \<Rightarrow> False
      | Inr s \<Rightarrow> LockedCoins demo_time s ''b'' = Inr (atoms 30)"
    by code_simp
  then obtain s' where s': "bank_call demo_bank_keeper {} demo_time demo_vest demo_bank = Inr s'" "LockedCoins demo_time s' ''b'' = Inr (atoms 30)"
    by (cases "bank_call demo_bank_keeper {} demo_time demo_vest demo_bank") auto
  have "bank_run demo_bank_keeper demo_time demo_bank demo_time s'"
    by (rule bank_run.call [OF bank_run.start _ _ _ s'(1)])
      (simp_all add: demo_time_def Unix_def demo_vest_def GetSupply_bank_def demo_bank_def store_get_def)
  from vesting_locked_covered [OF demo_bank_keeper_ok demo_ok demo_safe this, of "''b''"]
  have "coin_total (atoms 30) ''atom'' \<le> balance s' ''atom'' ''b''" using s'(2) by auto
  moreover have "coin_total (atoms 30) ''atom'' = 30" by (simp add: atoms_def)
  ultimately show ?thesis using s' by blast
qed

text \<open>
  C6: between addresses that print, a send of valid coins goes through exactly when, of every
  denomination sent, the balance less the locked coins is enough; then precisely the coins
  sent move from the sender to the recipient. Otherwise it is refused with insufficient funds.
  It never panics.
\<close>

theorem SendCoins_moves_or_refuses:
  assumes "keeper_ok k" "bank_ok k s" "locked_safe t s" "holder a" "holder b" "Coins_IsValid amt" "coins_ok amt"
    and "addr_text k a = Inr ta" "addr_text k b = Inr tb"
  shows "if \<forall>d. 0 < coin_total amt d \<longrightarrow> locked_at t s a d + coin_total amt d \<le> balance s d a
    then \<exists>s'. SendCoins k t a b amt s = Inr s' \<and> bank_ok k s' \<and> (\<forall>d c. balance s' d c =
        balance s d c - (if c = a then coin_total amt d else 0) + (if c = b then coin_total amt d else 0))
    else \<exists>m. SendCoins k t a b amt s = Inl (Error ErrInsufficientFunds m)"
proof -
  have v: "valid_coins amt" using assms(6) by simp
  have core: "bank_core k s" and ne: "a \<noteq> []" using assms(2,4) by (simp_all add: bank_ok_def holder_def)
  have moved: "bank_ok k s' \<and> (\<forall>d c. balance s' d c =
      balance s d c - (if c = a then coin_total amt d else 0) + (if c = b then coin_total amt d else 0))"
    if "SendCoins k t a b amt s = Inr s'" for s'
    using SendCoins_balances(4) [OF assms(1) core_wf [OF core] ne assms(5) that]
      SendCoins_effect [OF assms(1) core ne assms(5) that] assms(2) by (simp add: bank_ok_def effect_def)
  note exact = SendCoins_exact [OF assms(1-5) v assms(7-9)]
  show ?thesis
  proof (rule if_split [THEN iffD2], intro conjI impI, goal_cases)
    case 1
    then show ?case using exact moved by (metis (no_types))
  next
    case 2
    then show ?case using exact by (metis (no_types))
  qed
qed

theorem SendCoins_moves_or_refuses_witness:
  "(\<exists>s'. SendCoins demo_bank_keeper 0 ''a'' ''b'' (atoms 30) demo_bank = Inr s' \<and> balance s' ''atom'' ''b'' = 30)
   \<and> (\<exists>m. SendCoins demo_bank_keeper 0 ''b'' ''a'' (atoms 30) demo_bank = Inl (Error ErrInsufficientFunds m))"
proof -
  have v: "Coins_IsValid (atoms 30)" by code_simp
  have ok: "coins_ok (atoms 30)" by (simp add: atoms_def coins_ok_def)
  have h: "holder ''a''" "holder ''b''" by (simp_all add: holder_def MaxAddrLen_def)
  have p: "addr_text demo_bank_keeper ''a'' = Inr ''link1a''" "addr_text demo_bank_keeper ''b'' = Inr ''link1b''" by code_simp+
  have b: "balance demo_bank ''atom'' ''a'' = 100" "balance demo_bank ''atom'' ''b'' = 0" by code_simp+
  have l: "locked_at 0 demo_bank a d = 0" for a d
    by (simp add: locked_at_def vesting_at_def GetAccount_def demo_bank_def empty_state_def store_get_def)
  have tot: "coin_total (atoms 30) d = (if d = ''atom'' then 30 else 0)" for d by (simp add: atoms_def)
  have "\<forall>d. 0 < coin_total (atoms 30) d \<longrightarrow> locked_at 0 demo_bank ''a'' d + coin_total (atoms 30) d \<le> balance demo_bank d ''a''"
    using b(1) by (simp add: l tot)
  with SendCoins_moves_or_refuses [OF demo_bank_keeper_ok demo_ok demo_safe [of 0] h v ok p]
  have sent: "\<exists>s'. SendCoins demo_bank_keeper 0 ''a'' ''b'' (atoms 30) demo_bank = Inr s' \<and> balance s' ''atom'' ''b'' = 30"
    using b(2) by (auto simp: tot)
  have "\<not> (\<forall>d. 0 < coin_total (atoms 30) d \<longrightarrow> locked_at 0 demo_bank ''b'' d + coin_total (atoms 30) d \<le> balance demo_bank d ''b'')"
    using b(2) by (auto simp: l tot)
  with SendCoins_moves_or_refuses [OF demo_bank_keeper_ok demo_ok demo_safe [of 0] h(2,1) v ok p(2,1)] sent show ?thesis by simp
qed

text \<open>
  C7: on the keeper of bankplus no send, no vesting account and no transfer between an account
  and a module raises the balance of an inactive address, in any denomination.
\<close>

theorem bankplus_guards_inactive:
  assumes "keeper_ok k" "bank_ok k s" "call_ok call" "guarded call" "bank_call k inactive t call s = Inr s'"
    and "isInactiveAddr k inactive c = Inr True"
  shows "balance s' d c \<le> balance s d c"
  using guarded_inactive [OF assms(1) _ assms(3-5)] assms(2,6) by (simp add: bank_ok_def inactive_address_def)

theorem bankplus_guards_inactive_witness:
  "\<exists>s'. bank_call demo_bank_keeper {''link1c''} 0 (CallMsg (MsgSend ''link1a'' ''link1b'' (atoms 30))) demo_bank = Inr s'
     \<and> balance s' ''atom'' ''c'' \<le> 0
     \<and> bank_call demo_bank_keeper {''link1b''} 0 (CallMsg (MsgSend ''link1a'' ''link1b'' (atoms 30))) demo_bank
        = Inl (Error ErrUnauthorized ''not allowed to receive funds'')"
proof -
  let ?call = "CallMsg (MsgSend ''link1a'' ''link1b'' (atoms 30))"
  have "case bank_call demo_bank_keeper {''link1c''} 0 ?call demo_bank of Inl _ \<Rightarrow> False | Inr _ \<Rightarrow> True" by code_simp
  then obtain s' where s': "bank_call demo_bank_keeper {''link1c''} 0 ?call demo_bank = Inr s'"
    by (cases "bank_call demo_bank_keeper {''link1c''} 0 ?call demo_bank") auto
  have c: "isInactiveAddr demo_bank_keeper {''link1c''} ''c'' = Inr True" "balance demo_bank ''atom'' ''c'' = 0" by code_simp+
  have e: "bank_call demo_bank_keeper {''link1b''} 0 ?call demo_bank = Inl (Error ErrUnauthorized ''not allowed to receive funds'')"
    by code_simp
  have "call_ok ?call" "guarded ?call" by simp_all
  from bankplus_guards_inactive [OF demo_bank_keeper_ok demo_ok this s' c(1)] show ?thesis using s' c(2) e by metis
qed

text \<open>The call left out: a multi-send is not overridden, so it reaches an inactive address.\<close>

theorem MultiSend_reaches_inactive:
  "isInactiveAddr demo_bank_keeper {''link1b''} ''b'' = Inr True
   \<and> (\<exists>s'. bank_call demo_bank_keeper {''link1b''} 0 (CallMsg (MsgMultiSend
        [\<lparr>InputAddress = ''link1a'', InputCoins = atoms 30\<rparr>] [\<lparr>OutputAddress = ''link1b'', OutputCoins = atoms 30\<rparr>])) demo_bank = Inr s'
      \<and> balance demo_bank ''atom'' ''b'' < balance s' ''atom'' ''b'')"
proof -
  let ?call = "CallMsg (MsgMultiSend [\<lparr>InputAddress = ''link1a'', InputCoins = atoms 30\<rparr>]
     [\<lparr>OutputAddress = ''link1b'', OutputCoins = atoms 30\<rparr>])"
  have "case bank_call demo_bank_keeper {''link1b''} 0 ?call demo_bank of Inl _ \<Rightarrow> False
      | Inr s \<Rightarrow> balance demo_bank ''atom'' ''b'' < balance s ''atom'' ''b''" by code_simp
  then obtain s' where "bank_call demo_bank_keeper {''link1b''} 0 ?call demo_bank = Inr s'"
    "balance demo_bank ''atom'' ''b'' < balance s' ''atom'' ''b''"
    by (cases "bank_call demo_bank_keeper {''link1b''} 0 ?call demo_bank") auto
  moreover have "isInactiveAddr demo_bank_keeper {''link1b''} ''b'' = Inr True" by code_simp
  ultimately show ?thesis by blast
qed

text \<open>
  The handler does not compare the end time with the time of the block, so it stores a
  continuous account that its own validation refuses.
\<close>

theorem CreateVestingAccount_past_end:
  "\<exists>s' va e. bank_call demo_bank_keeper {} demo_time (CallMsg (MsgCreateVestingAccount ''link1a'' ''link1b'' (atoms 30) 1000 False)) demo_bank = Inr s'
     \<and> vesting_at (bank_auth s') ''b'' = Some va \<and> vesting_Validate plain_config va = Inl e"
proof -
  let ?call = "CallMsg (MsgCreateVestingAccount ''link1a'' ''link1b'' (atoms 30) 1000 False)"
  have "case bank_call demo_bank_keeper {} demo_time ?call demo_bank of Inl _ \<Rightarrow> False | Inr s \<Rightarrow>
      (case vesting_at (bank_auth s) ''b'' of None \<Rightarrow> False | Some va \<Rightarrow>
        (case vesting_Validate plain_config va of Inl _ \<Rightarrow> True | Inr _ \<Rightarrow> False))"
    by code_simp
  then obtain s' va where "bank_call demo_bank_keeper {} demo_time ?call demo_bank = Inr s'" "vesting_at (bank_auth s') ''b'' = Some va"
    "case vesting_Validate plain_config va of Inl _ \<Rightarrow> True | Inr _ \<Rightarrow> False"
    by (auto simp del: bank_call.simps split: sum.splits option.splits)
  then show ?thesis by (cases "vesting_Validate plain_config va") auto
qed

end
