(* ===== verification/CollectionTypes.thy ===== *)
theory CollectionTypes
  imports ClassKeeper Address
begin

section \<open>Ids, classes, coins and their validation: x/collection/msgs.go, collection.go\<close>

text \<open>
  A collection contract holds classes of fungible and of non-fungible tokens. A class id is
  eight lower-case hexadecimal digits, a token id a class id followed by eight more, all zero
  for the fungible token of the class. The anchored regular expressions of \<open>msgs.go\<close> are
  predicates on texts.
\<close>

subsection \<open>Identifiers\<close>

definition lengthClassID :: nat where "lengthClassID = 8"

definition patternZero :: string where "patternZero = ''00000000''"

definition reClassID :: "string \<Rightarrow> bool" where
  "reClassID i \<longleftrightarrow> length i = lengthClassID \<and> list_all is_lower_hex i"

definition reLegacyFTClassID :: "string \<Rightarrow> bool" where
  "reLegacyFTClassID i \<longleftrightarrow> reClassID i \<and> i ! 0 = CHR ''0''"

definition reLegacyNFTClassID :: "string \<Rightarrow> bool" where
  "reLegacyNFTClassID i \<longleftrightarrow> reClassID i \<and> i ! 0 \<noteq> CHR ''0''"

definition reTokenID :: "string \<Rightarrow> bool" where
  "reTokenID i \<longleftrightarrow> length i = 2 * lengthClassID \<and> list_all is_lower_hex i"

definition reFTID :: "string \<Rightarrow> bool" where
  "reFTID i \<longleftrightarrow> reTokenID i \<and> drop lengthClassID i = patternZero"

definition reLegacyNFTID :: "string \<Rightarrow> bool" where
  "reLegacyNFTID i \<longleftrightarrow> reTokenID i \<and> i ! 0 \<noteq> CHR ''0''"

definition validateID :: "string \<Rightarrow> (string \<Rightarrow> bool) \<Rightarrow> unit result" where
  "validateID i reg = guardE (reg i) (Error ErrInvalidRequest ''invalid id'')"

definition col_ValidateContractID :: "string \<Rightarrow> unit result" where
  "col_ValidateContractID i = ValidateID i"

definition ValidateClassID :: "string \<Rightarrow> unit result" where
  "ValidateClassID i = validateID i reClassID"

definition ValidateLegacyFTClassID :: "string \<Rightarrow> unit result" where
  "ValidateLegacyFTClassID i = validateID i reLegacyFTClassID"

definition ValidateLegacyNFTClassID :: "string \<Rightarrow> unit result" where
  "ValidateLegacyNFTClassID i = validateID i reLegacyNFTClassID"

definition ValidateTokenID :: "string \<Rightarrow> unit result" where
  "ValidateTokenID i = validateID i reTokenID"

definition ValidateFTID :: "string \<Rightarrow> unit result" where
  "ValidateFTID i = validateID i reFTID"

definition ValidateNFTID :: "string \<Rightarrow> unit result" where
  "ValidateNFTID i =
     bindE (ValidateTokenID i) (\<lambda>_.
       case ValidateFTID i of Inr _ \<Rightarrow> Inl (Error ErrInvalidRequest ''invalid id'') | Inl _ \<Rightarrow> Inr ())"

definition ValidateLegacyNFTID :: "string \<Rightarrow> unit result" where
  "ValidateLegacyNFTID i = validateID i reLegacyNFTID"

text \<open>A test \<open>if err := Validate...(id); err == nil\<close>.\<close>

definition passes :: "'a result \<Rightarrow> bool" where
  "passes r \<longleftrightarrow> (case r of Inr _ \<Rightarrow> True | Inl _ \<Rightarrow> False)"

text \<open>The format \<open>%08x\<close>.\<close>

definition hex8 :: "uint64 \<Rightarrow> string" where
  "hex8 n = zero_pad lengthClassID (hex_text (unat n))"

definition newTokenID :: "string \<Rightarrow> SdkUint \<Rightarrow> string result" where
  "newTokenID classID number = bindE (Uint_Uint64 number) (\<lambda>n. Inr (classID @ hex8 n))"

definition NewFTID :: "string \<Rightarrow> string result" where
  "NewFTID classID = newTokenID classID 0"

text \<open>The number is an \<open>int\<close> of 64 bits, converted to \<open>uint64\<close>.\<close>

definition NewNFTID :: "string \<Rightarrow> int64 \<Rightarrow> string result" where
  "NewNFTID classID number = bindE (NewUint number) (newTokenID classID)"

definition SplitTokenID :: "string \<Rightarrow> string result" where
  "SplitTokenID tokenID = slice tokenID 0 lengthClassID"

subsection \<open>Texts and numbers\<close>

definition nameLengthLimit :: nat where "nameLengthLimit = 20"

definition baseImgURILengthLimit :: nat where "baseImgURILengthLimit = 1000"

definition metaLengthLimit :: nat where "metaLengthLimit = 1000"

definition changesLimit :: nat where "changesLimit = 100"

definition validateStringSize :: "string \<Rightarrow> nat \<Rightarrow> string \<Rightarrow> unit result" where
  "validateStringSize str limit name =
     (if RuneCount str > limit then Inl (Error ErrInvalidRequest (name @ '' cannot exceed its limit in length''))
      else Inr ())"

definition col_validateName :: "string \<Rightarrow> unit result" where
  "col_validateName name = validateStringSize name nameLengthLimit ''name''"

definition validateBaseImgURI :: "string \<Rightarrow> unit result" where
  "validateBaseImgURI baseImgURI = validateStringSize baseImgURI baseImgURILengthLimit ''base_img_uri''"

definition col_validateMeta :: "string \<Rightarrow> unit result" where
  "col_validateMeta meta = validateStringSize meta metaLengthLimit ''meta''"

definition col_validateDecimals :: "32 word \<Rightarrow> unit result" where
  "col_validateDecimals decimals =
     (if sint decimals < 0 \<or> sint decimals > 18 then Inl (Error ErrInvalidRequest ''invalid decimals'')
      else Inr ())"

definition col_validateAmount :: "SdkInt \<Rightarrow> unit result" where
  "col_validateAmount amount =
     (if \<not> Int_IsPositive amount then Inl (Error ErrInvalidRequest ''amount must be positive'') else Inr ())"

subsection \<open>Permissions\<close>

datatype ColPermission =
    ColPermissionUnspecified | ColPermissionIssue | ColPermissionModify | ColPermissionMint | ColPermissionBurn

fun col_permission_value :: "ColPermission \<Rightarrow> nat" where
  "col_permission_value ColPermissionUnspecified = 0"
| "col_permission_value ColPermissionIssue = 1"
| "col_permission_value ColPermissionModify = 2"
| "col_permission_value ColPermissionMint = 3"
| "col_permission_value ColPermissionBurn = 4"

lemma col_permission_value_inj [simp]: "col_permission_value p = col_permission_value q \<longleftrightarrow> p = q"
  by (cases p; cases q) simp_all

lemma col_permission_small [simp]: "col_permission_value p < 256"
  by (cases p) simp_all

text \<open>Grants are stored in the order of the permissions' numbers.\<close>

instantiation ColPermission :: linorder
begin

definition less_eq_ColPermission :: "ColPermission \<Rightarrow> ColPermission \<Rightarrow> bool" where
  "p \<le> q \<longleftrightarrow> col_permission_value p \<le> col_permission_value q"

definition less_ColPermission :: "ColPermission \<Rightarrow> ColPermission \<Rightarrow> bool" where
  "p < q \<longleftrightarrow> col_permission_value p < col_permission_value q"

instance
  by standard (auto simp: less_eq_ColPermission_def less_ColPermission_def)

end

text \<open>The legacy permissions carry the same numbers as the permissions they are converted to.\<close>

definition col_LegacyPermissionFromString :: "string \<Rightarrow> ColPermission" where
  "col_LegacyPermissionFromString name =
     (case map_of [(''ISSUE'', ColPermissionIssue), (''MODIFY'', ColPermissionModify),
        (''MINT'', ColPermissionMint), (''BURN'', ColPermissionBurn)] (ToUpper name) of
        None \<Rightarrow> ColPermissionUnspecified | Some p \<Rightarrow> p)"

fun LegacyPermission_String :: "ColPermission \<Rightarrow> string" where
  "LegacyPermission_String ColPermissionUnspecified = ''unspecified''"
| "LegacyPermission_String ColPermissionIssue = ''issue''"
| "LegacyPermission_String ColPermissionModify = ''modify''"
| "LegacyPermission_String ColPermissionMint = ''mint''"
| "LegacyPermission_String ColPermissionBurn = ''burn''"

definition col_ValidatePermission :: "ColPermission \<Rightarrow> unit result" where
  "col_ValidatePermission permission =
     (if col_permission_value permission = 0 then Inl (Error ErrInvalidRequest ''invalid permission'') else Inr ())"

definition col_validateLegacyPermission :: "string \<Rightarrow> unit result" where
  "col_validateLegacyPermission permission = col_ValidatePermission (col_LegacyPermissionFromString permission)"

subsection \<open>Token classes\<close>

record NextClassIDs =
  ncContractId :: string
  Fungible :: SdkUint
  NonFungible :: SdkUint

definition DefaultNextClassIDs :: "string \<Rightarrow> NextClassIDs" where
  "DefaultNextClassIDs contractID = \<lparr>ncContractId = contractID, Fungible = 0, NonFungible = 2 ^ 28\<rparr>"

record FTClassData =
  ftId :: string
  ftName :: string
  ftMeta :: string
  ftDecimals :: "32 word"
  ftMintable :: bool

record NFTClassData =
  nftcId :: string
  nftcName :: string
  nftcMeta :: string

datatype ColTokenClass = FTClass FTClassData | NFTClass NFTClassData

fun GetId :: "ColTokenClass \<Rightarrow> string" where
  "GetId (FTClass c) = ftId c"
| "GetId (NFTClass c) = nftcId c"

definition FTClass_SetId :: "NextClassIDs \<Rightarrow> FTClassData \<Rightarrow> (NextClassIDs \<times> FTClassData) result" where
  "FTClass_SetId nc c =
     bindE (Uint_Incr (Fungible nc)) (\<lambda>next.
     bindE (Uint_Uint64 (Fungible nc)) (\<lambda>n.
       Inr (nc\<lparr>Fungible := next\<rparr>, c\<lparr>ftId := hex8 n\<rparr>)))"

definition NFTClass_SetId :: "NextClassIDs \<Rightarrow> NFTClassData \<Rightarrow> (NextClassIDs \<times> NFTClassData) result" where
  "NFTClass_SetId nc c =
     bindE (Uint_Incr (NonFungible nc)) (\<lambda>next.
     bindE (Uint_Uint64 (NonFungible nc)) (\<lambda>n.
       Inr (nc\<lparr>NonFungible := next\<rparr>, c\<lparr>nftcId := hex8 n\<rparr>)))"

fun SetId :: "NextClassIDs \<Rightarrow> ColTokenClass \<Rightarrow> (NextClassIDs \<times> ColTokenClass) result" where
  "SetId nc (FTClass c) = bindE (FTClass_SetId nc c) (\<lambda>(nc', c'). Inr (nc', FTClass c'))"
| "SetId nc (NFTClass c) = bindE (NFTClass_SetId nc c) (\<lambda>(nc', c'). Inr (nc', NFTClass c'))"

fun SetName :: "string \<Rightarrow> ColTokenClass \<Rightarrow> ColTokenClass" where
  "SetName name (FTClass c) = FTClass (c\<lparr>ftName := name\<rparr>)"
| "SetName name (NFTClass c) = NFTClass (c\<lparr>nftcName := name\<rparr>)"

fun SetMeta :: "string \<Rightarrow> ColTokenClass \<Rightarrow> ColTokenClass" where
  "SetMeta meta (FTClass c) = FTClass (c\<lparr>ftMeta := meta\<rparr>)"
| "SetMeta meta (NFTClass c) = NFTClass (c\<lparr>nftcMeta := meta\<rparr>)"

definition FTClass_ValidateBasic :: "FTClassData \<Rightarrow> unit result" where
  "FTClass_ValidateBasic c =
     bindE (ValidateClassID (ftId c)) (\<lambda>_.
     bindE (col_validateName (ftName c)) (\<lambda>_.
     bindE (col_validateMeta (ftMeta c)) (\<lambda>_. col_validateDecimals (ftDecimals c))))"

definition NFTClass_ValidateBasic :: "NFTClassData \<Rightarrow> unit result" where
  "NFTClass_ValidateBasic c =
     bindE (ValidateClassID (nftcId c)) (\<lambda>_.
     bindE (col_validateName (nftcName c)) (\<lambda>_. col_validateMeta (nftcMeta c)))"

fun TokenClass_ValidateBasic :: "ColTokenClass \<Rightarrow> unit result" where
  "TokenClass_ValidateBasic (FTClass c) = FTClass_ValidateBasic c"
| "TokenClass_ValidateBasic (NFTClass c) = NFTClass_ValidateBasic c"

subsection \<open>Coins\<close>

record ColCoin =
  TokenId :: string
  TokenAmount :: SdkInt

definition ColCoin_ValidateBasic :: "ColCoin \<Rightarrow> unit result" where
  "ColCoin_ValidateBasic c =
     bindE (ValidateTokenID (TokenId c)) (\<lambda>_.
       if \<not> Int_IsPositive (TokenAmount c) then Inl (Error ErrPlain ''invalid amount'')
       else if passes (ValidateNFTID (TokenId c)) \<and> TokenAmount c \<noteq> 1
       then Inl (Error ErrPlain ''duplicate non fungible tokens'')
       else Inr ())"

definition NewColCoin :: "string \<Rightarrow> SdkInt \<Rightarrow> ColCoin result" where
  "NewColCoin i amount =
     (let coin = \<lparr>TokenId = i, TokenAmount = amount\<rparr> in
      case ColCoin_ValidateBasic coin of Inl _ \<Rightarrow> Inl (Panic ''invalid coin'') | Inr _ \<Rightarrow> Inr coin)"

definition NewFTCoin :: "string \<Rightarrow> SdkInt \<Rightarrow> ColCoin result" where
  "NewFTCoin classID amount = bindE (NewFTID classID) (\<lambda>i. NewColCoin i amount)"

definition NewNFTCoin :: "string \<Rightarrow> int64 \<Rightarrow> ColCoin result" where
  "NewNFTCoin classID number = bindE (NewNFTID classID number) (\<lambda>i. NewColCoin i 1)"

definition ColCoin_String :: "ColCoin \<Rightarrow> string" where
  "ColCoin_String c = TokenId c @ '':'' @ int_text (TokenAmount c)"

fun ColCoins_check :: "string set \<Rightarrow> ColCoin list \<Rightarrow> unit result" where
  "ColCoins_check seenIDs [] = Inr ()"
| "ColCoins_check seenIDs (coin # rest) =
     (if TokenId coin \<in> seenIDs then Inl (Error ErrPlain ''duplicate id'')
      else bindE (wrapE ErrPlain ''invalid coin'' (ColCoin_ValidateBasic coin)) (\<lambda>_.
        ColCoins_check (insert (TokenId coin) seenIDs) rest))"

definition ColCoins_ValidateBasic :: "ColCoin list \<Rightarrow> unit result" where
  "ColCoins_ValidateBasic coins =
     (if length coins = 0 then Inl (Error ErrPlain ''empty coins'') else ColCoins_check {} coins)"

definition NewColCoins :: "ColCoin list \<Rightarrow> ColCoin list result" where
  "NewColCoins coins =
     (case ColCoins_ValidateBasic coins of Inl _ \<Rightarrow> Inl (Panic ''invalid coin'') | Inr _ \<Rightarrow> Inr coins)"

fun ColCoins_String :: "ColCoin list \<Rightarrow> string" where
  "ColCoins_String [] = []"
| "ColCoins_String [c] = ColCoin_String c"
| "ColCoins_String (c # d # rest) = ColCoin_String c @ '','' @ ColCoins_String (d # rest)"

definition validateCoinsWithIDValidator :: "ColCoin list \<Rightarrow> (string \<Rightarrow> unit result) \<Rightarrow> unit result" where
  "validateCoinsWithIDValidator amount validator =
     foldE (\<lambda>amt _. bindE (validator (TokenId amt)) (\<lambda>_. col_validateAmount (TokenAmount amt))) amount ()"

definition validateCoins :: "ColCoin list \<Rightarrow> unit result" where
  "validateCoins amount = validateCoinsWithIDValidator amount ValidateTokenID"

text \<open>
  \<open>NewIntFromString\<close> on a text of decimal digits: \<open>big.Int.SetString\<close> with base 0 reads a
  leading zero as the mark of an octal number.
\<close>

definition oct_digits_val :: "string \<Rightarrow> nat option" where
  "oct_digits_val s =
     (if list_all (\<lambda>c. is_digit c \<and> digit_val c < 8) s then Some (foldl (\<lambda>n c. 8 * n + digit_val c) 0 s)
      else None)"

definition NewIntFromDigits :: "string \<Rightarrow> SdkInt option" where
  "NewIntFromDigits s =
     (let v = (case s of
                 c # d # rest \<Rightarrow> if c = CHR ''0'' then oct_digits_val (d # rest) else digits_val s
               | _ \<Rightarrow> digits_val s) in
      case v of None \<Rightarrow> None | Some n \<Rightarrow> if BitLen (int n) > maxBitLen then None else Some (int n))"

definition ParseColCoin :: "string \<Rightarrow> ColCoin result" where
  "ParseColCoin coinStr =
     (let s = TrimSpace coinStr;
          i = take (2 * lengthClassID) s;
          rest = drop (2 * lengthClassID) s in
      if reTokenID i \<and> rest \<noteq> [] \<and> hd rest = CHR '':'' \<and> tl rest \<noteq> [] \<and> list_all is_digit (tl rest)
      then case NewIntFromDigits (tl rest) of
             None \<Rightarrow> Inl (Error ErrPlain ''failed to parse coin amount'')
           | Some amount \<Rightarrow> NewColCoin i amount
      else Inl (Error ErrPlain ''invalid coin expression''))"

definition ParseColCoins :: "string \<Rightarrow> ColCoin list result" where
  "ParseColCoins coinsStr =
     (let s = TrimSpace coinsStr in
      if length s = 0 then Inl (Error ErrPlain ''invalid string for coins'')
      else bindE (mapE ParseColCoin (split_on (CHR '','') s)) NewColCoins)"

end
