(* ===== verification/CollectionEvents.thy ===== *)
theory CollectionEvents
  imports CollectionTypes
begin

section \<open>Events of the collection module: x/collection/event.go\<close>

text \<open>
  The typed events with the fields of their messages in order, and the legacy events built
  from them. The attributes of a legacy event are appended in the order of a Go map iteration,
  which is not fixed: they are a set. A builder of the source that returns nil is an
  \<open>option\<close> or the empty list here.
\<close>

datatype ColEventType =
    EventTypeUnspecified | EventTypeCreateCollection | EventTypeIssueFT | EventTypeIssueNFT
  | EventTypeMintFT | EventTypeBurnFT | EventTypeMintNFT | EventTypeBurnNFT | EventTypeBurnFTFrom
  | EventTypeBurnNFTFrom | EventTypeModifyCollection | EventTypeModifyTokenType | EventTypeModifyToken
  | EventTypeTransfer | EventTypeTransferFT | EventTypeTransferNFT | EventTypeTransferFTFrom
  | EventTypeTransferNFTFrom | EventTypeGrantPermToken | EventTypeRevokePermToken | EventTypeAttachToken
  | EventTypeDetachToken | EventTypeAttachFrom | EventTypeDetachFrom | EventTypeApproveCollection
  | EventTypeDisapproveCollection | EventTypeOperationTransferNFT | EventTypeOperationBurnNFT
  | EventTypeOperationRootChanged

text \<open>The generated names without the prefix \<open>EVENT_TYPE_\<close>, in lower case.\<close>

definition EventType_String :: "ColEventType \<Rightarrow> string" where
  "EventType_String x =
     (case x of
        EventTypeUnspecified \<Rightarrow> ''unspecified''
      | EventTypeCreateCollection \<Rightarrow> ''create_collection''
      | EventTypeIssueFT \<Rightarrow> ''issue_ft''
      | EventTypeIssueNFT \<Rightarrow> ''issue_nft''
      | EventTypeMintFT \<Rightarrow> ''mint_ft''
      | EventTypeBurnFT \<Rightarrow> ''burn_ft''
      | EventTypeMintNFT \<Rightarrow> ''mint_nft''
      | EventTypeBurnNFT \<Rightarrow> ''burn_nft''
      | EventTypeBurnFTFrom \<Rightarrow> ''burn_ft_from''
      | EventTypeBurnNFTFrom \<Rightarrow> ''burn_nft_from''
      | EventTypeModifyCollection \<Rightarrow> ''modify_collection''
      | EventTypeModifyTokenType \<Rightarrow> ''modify_token_type''
      | EventTypeModifyToken \<Rightarrow> ''modify_token''
      | EventTypeTransfer \<Rightarrow> ''transfer''
      | EventTypeTransferFT \<Rightarrow> ''transfer_ft''
      | EventTypeTransferNFT \<Rightarrow> ''transfer_nft''
      | EventTypeTransferFTFrom \<Rightarrow> ''transfer_ft_from''
      | EventTypeTransferNFTFrom \<Rightarrow> ''transfer_nft_from''
      | EventTypeGrantPermToken \<Rightarrow> ''grant_perm''
      | EventTypeRevokePermToken \<Rightarrow> ''revoke_perm''
      | EventTypeAttachToken \<Rightarrow> ''attach''
      | EventTypeDetachToken \<Rightarrow> ''detach''
      | EventTypeAttachFrom \<Rightarrow> ''attach_from''
      | EventTypeDetachFrom \<Rightarrow> ''detach_from''
      | EventTypeApproveCollection \<Rightarrow> ''approve_collection''
      | EventTypeDisapproveCollection \<Rightarrow> ''disapprove_collection''
      | EventTypeOperationTransferNFT \<Rightarrow> ''operation_transfer_nft''
      | EventTypeOperationBurnNFT \<Rightarrow> ''operation_burn_nft''
      | EventTypeOperationRootChanged \<Rightarrow> ''operation_root_changed'')"

datatype ColAttributeKey =
    CAttrUnspecified | CAttrName | CAttrMeta | CAttrContractID | CAttrTokenID | CAttrOwner | CAttrAmount
  | CAttrDecimals | CAttrBaseImgURI | CAttrMintable | CAttrTokenType | CAttrFrom | CAttrTo | CAttrPerm
  | CAttrToTokenID | CAttrFromTokenID | CAttrApprover | CAttrProxy | CAttrOldRoot | CAttrNewRoot

definition col_AttributeKey_String :: "ColAttributeKey \<Rightarrow> string" where
  "col_AttributeKey_String x =
     (case x of
        CAttrUnspecified \<Rightarrow> ''unspecified''
      | CAttrName \<Rightarrow> ''name''
      | CAttrMeta \<Rightarrow> ''meta''
      | CAttrContractID \<Rightarrow> ''contract_id''
      | CAttrTokenID \<Rightarrow> ''token_id''
      | CAttrOwner \<Rightarrow> ''owner''
      | CAttrAmount \<Rightarrow> ''amount''
      | CAttrDecimals \<Rightarrow> ''decimals''
      | CAttrBaseImgURI \<Rightarrow> ''base_img_uri''
      | CAttrMintable \<Rightarrow> ''mintable''
      | CAttrTokenType \<Rightarrow> ''token_type''
      | CAttrFrom \<Rightarrow> ''from''
      | CAttrTo \<Rightarrow> ''to''
      | CAttrPerm \<Rightarrow> ''perm''
      | CAttrToTokenID \<Rightarrow> ''to_token_id''
      | CAttrFromTokenID \<Rightarrow> ''from_token_id''
      | CAttrApprover \<Rightarrow> ''approver''
      | CAttrProxy \<Rightarrow> ''proxy''
      | CAttrOldRoot \<Rightarrow> ''old_root_token_id''
      | CAttrNewRoot \<Rightarrow> ''new_root_token_id'')"

text \<open>The name is looked up, in upper case, in the generated table; an absent name gives zero.\<close>

definition col_AttributeKeyFromString :: "string \<Rightarrow> ColAttributeKey" where
  "col_AttributeKeyFromString name =
     (case map_of (map (\<lambda>k. (ToUpper (col_AttributeKey_String k), k))
        [CAttrUnspecified, CAttrName, CAttrMeta, CAttrContractID, CAttrTokenID, CAttrOwner, CAttrAmount,
         CAttrDecimals, CAttrBaseImgURI, CAttrMintable, CAttrTokenType, CAttrFrom, CAttrTo, CAttrPerm,
         CAttrToTokenID, CAttrFromTokenID, CAttrApprover, CAttrProxy, CAttrOldRoot, CAttrNewRoot])
        (ToUpper name) of
        None \<Rightarrow> CAttrUnspecified | Some k \<Rightarrow> k)"

subsection \<open>Typed events\<close>

type_synonym ColAttribute = "string \<times> string"

record NFT =
  nftId :: string
  nftName :: string
  nftMeta :: string

text \<open>
  The fields, in order: \<open>ColSent\<close> contract, operator, from, to, amount;
  \<open>ColAuthorizedOperator\<close>, \<open>ColRevokedOperator\<close> contract, holder, operator;
  \<open>ColCreatedContract\<close> creator, contract, name, meta, image uri; \<open>ColCreatedFTClass\<close> contract,
  operator, class, name, meta, decimals, mintable; \<open>ColCreatedNFTClass\<close> contract, operator,
  class, name, meta; \<open>ColGranted\<close> contract, granter, grantee, permission; \<open>ColRenounced\<close>
  contract, grantee, permission; \<open>ColMintedFT\<close>, \<open>ColMintedNFT\<close> contract, operator, to, tokens;
  \<open>ColBurned\<close> contract, operator, from, amount; \<open>ColModifiedContract\<close> contract, operator,
  changes; \<open>ColModifiedTokenClass\<close> contract, class, operator, changes, type name;
  \<open>ColModifiedNFT\<close> contract, token, operator, changes; \<open>ColAttached\<close> contract, operator,
  holder, subject, target; \<open>ColDetached\<close> contract, operator, holder, subject, previous parent;
  \<open>ColOwnerChanged\<close>, \<open>ColRootChanged\<close> contract, token, from, to.
\<close>

datatype ColEvent =
    ColSent string string string string "ColCoin list"
  | ColAuthorizedOperator string string string
  | ColRevokedOperator string string string
  | ColCreatedContract string string string string string
  | ColCreatedFTClass string string string string string "32 word" bool
  | ColCreatedNFTClass string string string string string
  | ColGranted string string string ColPermission
  | ColRenounced string string ColPermission
  | ColMintedFT string string string "ColCoin list"
  | ColMintedNFT string string string "NFT list"
  | ColBurned string string string "ColCoin list"
  | ColModifiedContract string string "ColAttribute list"
  | ColModifiedTokenClass string string string "ColAttribute list" string
  | ColModifiedNFT string string string "ColAttribute list"
  | ColAttached string string string string string
  | ColDetached string string string string string
  | ColOwnerChanged string string string string
  | ColRootChanged string string string string

subsection \<open>Legacy events\<close>

record SdkEvent =
  evType :: string
  evAttributes :: "(string \<times> string) set"

definition attrs_event :: "ColEventType \<Rightarrow> (ColAttributeKey \<times> string) list \<Rightarrow> SdkEvent" where
  "attrs_event t kvs =
     \<lparr>evType = EventType_String t, evAttributes = set (map (\<lambda>(k, v). (col_AttributeKey_String k, v)) kvs)\<rparr>"

definition bool_text :: "bool \<Rightarrow> string" where
  "bool_text b = (if b then ''true'' else ''false'')"

definition only_ft :: "ColCoin list \<Rightarrow> ColCoin list" where
  "only_ft = filter (\<lambda>c. passes (ValidateFTID (TokenId c)))"

definition only_nft :: "ColCoin list \<Rightarrow> ColCoin list" where
  "only_nft = filter (\<lambda>c. passes (ValidateNFTID (TokenId c)))"

definition NewEventCreateCollection :: "string \<Rightarrow> string \<Rightarrow> string \<Rightarrow> string \<Rightarrow> string \<Rightarrow> SdkEvent" where
  "NewEventCreateCollection creator contractID name meta uri =
     attrs_event EventTypeCreateCollection
       [(CAttrContractID, contractID), (CAttrName, name), (CAttrMeta, meta), (CAttrBaseImgURI, uri),
        (CAttrOwner, creator)]"

definition NewEventIssueFT :: "Config \<Rightarrow> string \<Rightarrow> string \<Rightarrow> string \<Rightarrow> string \<Rightarrow> string \<Rightarrow> 32 word \<Rightarrow> bool
    \<Rightarrow> AccAddress \<Rightarrow> SdkInt \<Rightarrow> SdkEvent result" where
  "NewEventIssueFT cfg contractID operator classID name meta decimals mintable dst amount =
     bindE (NewFTID classID) (\<lambda>tokenID.
     bindE (AccAddress_String cfg dst) (\<lambda>dstStr.
       Inr (attrs_event EventTypeIssueFT
         [(CAttrContractID, contractID), (CAttrTokenID, tokenID), (CAttrName, name), (CAttrMeta, meta),
          (CAttrDecimals, int_text (sint decimals)), (CAttrMintable, bool_text mintable),
          (CAttrOwner, operator), (CAttrTo, dstStr), (CAttrAmount, int_text amount)])))"

definition NewEventIssueNFT :: "string \<Rightarrow> string \<Rightarrow> string \<Rightarrow> string \<Rightarrow> string \<Rightarrow> SdkEvent" where
  "NewEventIssueNFT contractID operator classID name meta =
     attrs_event EventTypeIssueNFT
       [(CAttrContractID, contractID), (CAttrTokenType, classID), (CAttrName, name), (CAttrMeta, meta)]"

definition NewEventMintFT :: "string \<Rightarrow> string \<Rightarrow> string \<Rightarrow> ColCoin list \<Rightarrow> SdkEvent" where
  "NewEventMintFT contractID operator dst amount =
     attrs_event EventTypeMintFT
       [(CAttrContractID, contractID), (CAttrFrom, operator), (CAttrTo, dst),
        (CAttrAmount, ColCoins_String amount)]"

definition NewEventMintNFT :: "string \<Rightarrow> string \<Rightarrow> string \<Rightarrow> NFT list \<Rightarrow> SdkEvent list" where
  "NewEventMintNFT contractID operator dst tokens =
     map (\<lambda>token. attrs_event EventTypeMintNFT
       [(CAttrContractID, contractID), (CAttrFrom, operator), (CAttrTo, dst), (CAttrTokenID, nftId token),
        (CAttrName, nftName token), (CAttrMeta, nftMeta token)]) tokens"

definition NewEventBurnFT :: "string \<Rightarrow> string \<Rightarrow> string \<Rightarrow> ColCoin list \<Rightarrow> SdkEvent option" where
  "NewEventBurnFT contractID operator from amt =
     (let amount = only_ft amt in
      if length amount = 0 then None
      else Some (attrs_event EventTypeBurnFT
        [(CAttrContractID, contractID), (CAttrFrom, from), (CAttrAmount, ColCoins_String amount)]))"

definition NewEventBurnNFT :: "string \<Rightarrow> string \<Rightarrow> string \<Rightarrow> ColCoin list \<Rightarrow> SdkEvent list" where
  "NewEventBurnNFT contractID operator from amt =
     (let amount = only_nft amt in
      if length amount = 0 then []
      else attrs_event EventTypeBurnNFT [(CAttrContractID, contractID), (CAttrFrom, from)]
        # map (\<lambda>coin. attrs_event EventTypeBurnNFT [(CAttrTokenID, TokenId coin)]) amount)"

definition NewEventBurnFTFrom :: "string \<Rightarrow> string \<Rightarrow> string \<Rightarrow> ColCoin list \<Rightarrow> SdkEvent option" where
  "NewEventBurnFTFrom contractID operator from amt =
     (let amount = only_ft amt in
      if length amount = 0 then None
      else Some (attrs_event EventTypeBurnFTFrom
        [(CAttrContractID, contractID), (CAttrProxy, operator), (CAttrFrom, from),
         (CAttrAmount, ColCoins_String amount)]))"

definition NewEventBurnNFTFrom :: "string \<Rightarrow> string \<Rightarrow> string \<Rightarrow> ColCoin list \<Rightarrow> SdkEvent list" where
  "NewEventBurnNFTFrom contractID operator from amt =
     (let amount = only_nft amt in
      if length amount = 0 then []
      else attrs_event EventTypeBurnNFTFrom
             [(CAttrContractID, contractID), (CAttrProxy, operator), (CAttrFrom, from)]
        # map (\<lambda>coin. attrs_event EventTypeBurnNFTFrom [(CAttrTokenID, TokenId coin)]) amount)"

text \<open>One event per change; its key is the text of the change, not an attribute key.\<close>

definition change_events :: "ColEventType \<Rightarrow> ColAttribute list \<Rightarrow> SdkEvent list" where
  "change_events t changes = map (\<lambda>pair. \<lparr>evType = EventType_String t, evAttributes = {pair}\<rparr>) changes"

definition NewEventModifyCollection :: "string \<Rightarrow> string \<Rightarrow> ColAttribute list \<Rightarrow> SdkEvent list" where
  "NewEventModifyCollection contractID operator changes =
     attrs_event EventTypeModifyCollection [(CAttrContractID, contractID)]
     # change_events EventTypeModifyCollection changes"

definition NewEventModifyTokenType :: "string \<Rightarrow> string \<Rightarrow> string \<Rightarrow> ColAttribute list \<Rightarrow> SdkEvent list" where
  "NewEventModifyTokenType contractID classID operator changes =
     attrs_event EventTypeModifyTokenType [(CAttrContractID, contractID), (CAttrTokenType, classID)]
     # change_events EventTypeModifyTokenType changes"

definition NewEventModifyTokenOfFTClass :: "string \<Rightarrow> string \<Rightarrow> string \<Rightarrow> ColAttribute list \<Rightarrow> SdkEvent list result" where
  "NewEventModifyTokenOfFTClass contractID classID operator changes =
     bindE (NewFTID classID) (\<lambda>tokenID.
       Inr (attrs_event EventTypeModifyToken [(CAttrContractID, contractID), (CAttrTokenID, tokenID)]
         # change_events EventTypeModifyToken changes))"

definition NewEventModifyTokenOfNFT :: "string \<Rightarrow> string \<Rightarrow> string \<Rightarrow> ColAttribute list \<Rightarrow> SdkEvent list" where
  "NewEventModifyTokenOfNFT contractID tokenID operator changes =
     attrs_event EventTypeModifyToken [(CAttrContractID, contractID), (CAttrTokenID, tokenID)]
     # change_events EventTypeModifyToken changes"

definition NewEventTransferFT :: "string \<Rightarrow> string \<Rightarrow> string \<Rightarrow> string \<Rightarrow> ColCoin list \<Rightarrow> SdkEvent option" where
  "NewEventTransferFT contractID operator from dst amt =
     (let amount = only_ft amt in
      if length amount = 0 then None
      else Some (attrs_event EventTypeTransferFT
        [(CAttrContractID, contractID), (CAttrFrom, from), (CAttrTo, dst),
         (CAttrAmount, ColCoins_String amount)]))"

definition NewEventTransferNFT :: "string \<Rightarrow> string \<Rightarrow> string \<Rightarrow> string \<Rightarrow> ColCoin list \<Rightarrow> SdkEvent list" where
  "NewEventTransferNFT contractID operator from dst amt =
     (let amount = only_nft amt in
      if length amount = 0 then []
      else attrs_event EventTypeTransferNFT
             [(CAttrContractID, contractID), (CAttrFrom, from), (CAttrTo, dst)]
        # map (\<lambda>coin. attrs_event EventTypeTransferNFT [(CAttrTokenID, TokenId coin)]) amount)"

definition NewEventTransferFTFrom :: "string \<Rightarrow> string \<Rightarrow> string \<Rightarrow> string \<Rightarrow> ColCoin list \<Rightarrow> SdkEvent option" where
  "NewEventTransferFTFrom contractID operator from dst amt =
     (let amount = only_ft amt in
      if length amount = 0 then None
      else Some (attrs_event EventTypeTransferFTFrom
        [(CAttrContractID, contractID), (CAttrProxy, operator), (CAttrFrom, from), (CAttrTo, dst),
         (CAttrAmount, ColCoins_String amount)]))"

definition NewEventTransferNFTFrom :: "string \<Rightarrow> string \<Rightarrow> string \<Rightarrow> string \<Rightarrow> ColCoin list \<Rightarrow> SdkEvent list" where
  "NewEventTransferNFTFrom contractID operator from dst amt =
     (let amount = only_nft amt in
      if length amount = 0 then []
      else attrs_event EventTypeTransferNFTFrom
             [(CAttrContractID, contractID), (CAttrProxy, operator), (CAttrFrom, from), (CAttrTo, dst)]
        # map (\<lambda>coin. attrs_event EventTypeTransferNFTFrom [(CAttrTokenID, TokenId coin)]) amount)"

definition from_attr :: "string \<Rightarrow> (ColAttributeKey \<times> string) list" where
  "from_attr granter = (if length granter \<noteq> 0 then [(CAttrFrom, granter)] else [])"

definition col_NewEventGrantPermToken :: "string \<Rightarrow> string \<Rightarrow> string \<Rightarrow> ColPermission \<Rightarrow> SdkEvent" where
  "col_NewEventGrantPermToken contractID granter grantee permission =
     attrs_event EventTypeGrantPermToken
       ([(CAttrContractID, contractID), (CAttrTo, grantee), (CAttrPerm, LegacyPermission_String permission)]
        @ from_attr granter)"

definition col_NewEventGrantPermTokenHead :: "string \<Rightarrow> string \<Rightarrow> string \<Rightarrow> SdkEvent" where
  "col_NewEventGrantPermTokenHead contractID granter grantee =
     attrs_event EventTypeGrantPermToken
       ([(CAttrContractID, contractID), (CAttrTo, grantee)] @ from_attr granter)"

definition col_NewEventGrantPermTokenBody :: "ColPermission \<Rightarrow> SdkEvent" where
  "col_NewEventGrantPermTokenBody permission =
     attrs_event EventTypeGrantPermToken [(CAttrPerm, LegacyPermission_String permission)]"

definition col_NewEventRevokePermToken :: "string \<Rightarrow> string \<Rightarrow> ColPermission \<Rightarrow> SdkEvent" where
  "col_NewEventRevokePermToken contractID grantee permission =
     attrs_event EventTypeRevokePermToken
       [(CAttrContractID, contractID), (CAttrFrom, grantee), (CAttrPerm, LegacyPermission_String permission)]"

definition NewEventAttachToken :: "string \<Rightarrow> string \<Rightarrow> string \<Rightarrow> string \<Rightarrow> string \<Rightarrow> string \<Rightarrow> SdkEvent" where
  "NewEventAttachToken contractID operator holder subject target newRoot =
     attrs_event EventTypeAttachToken
       [(CAttrContractID, contractID), (CAttrFrom, holder), (CAttrTokenID, subject), (CAttrToTokenID, target),
        (CAttrOldRoot, subject), (CAttrNewRoot, newRoot)]"

definition NewEventDetachToken :: "string \<Rightarrow> string \<Rightarrow> string \<Rightarrow> string \<Rightarrow> string \<Rightarrow> SdkEvent" where
  "NewEventDetachToken contractID operator holder subject oldRoot =
     attrs_event EventTypeDetachToken
       [(CAttrContractID, contractID), (CAttrFrom, holder), (CAttrFromTokenID, subject),
        (CAttrOldRoot, oldRoot), (CAttrNewRoot, subject)]"

definition NewEventAttachFrom :: "string \<Rightarrow> string \<Rightarrow> string \<Rightarrow> string \<Rightarrow> string \<Rightarrow> string \<Rightarrow> SdkEvent" where
  "NewEventAttachFrom contractID operator holder subject target newRoot =
     attrs_event EventTypeAttachFrom
       [(CAttrContractID, contractID), (CAttrProxy, operator), (CAttrFrom, holder), (CAttrTokenID, subject),
        (CAttrToTokenID, target), (CAttrOldRoot, subject), (CAttrNewRoot, newRoot)]"

definition NewEventDetachFrom :: "string \<Rightarrow> string \<Rightarrow> string \<Rightarrow> string \<Rightarrow> string \<Rightarrow> SdkEvent" where
  "NewEventDetachFrom contractID operator holder subject oldRoot =
     attrs_event EventTypeDetachFrom
       [(CAttrContractID, contractID), (CAttrProxy, operator), (CAttrFrom, holder),
        (CAttrFromTokenID, subject), (CAttrOldRoot, oldRoot), (CAttrNewRoot, subject)]"

definition NewEventOperationTransferNFT :: "string \<Rightarrow> string \<Rightarrow> SdkEvent" where
  "NewEventOperationTransferNFT contractID tokenID =
     attrs_event EventTypeOperationTransferNFT [(CAttrContractID, contractID), (CAttrTokenID, tokenID)]"

definition NewEventOperationBurnNFT :: "string \<Rightarrow> string \<Rightarrow> SdkEvent" where
  "NewEventOperationBurnNFT contractID tokenID =
     attrs_event EventTypeOperationBurnNFT [(CAttrContractID, contractID), (CAttrTokenID, tokenID)]"

definition NewEventOperationRootChanged :: "string \<Rightarrow> string \<Rightarrow> SdkEvent" where
  "NewEventOperationRootChanged contractID tokenID =
     attrs_event EventTypeOperationRootChanged [(CAttrContractID, contractID), (CAttrTokenID, tokenID)]"

datatype ColEventLog = ColTyped ColEvent | ColLegacy SdkEvent

end
