(* ===== verification/Worklist.thy ===== *)
theory Worklist
  imports Main "HOL-Library.Monad_Syntax"
begin

section \<open>Traversals that may not end\<close>

text \<open>
  A traversal keeps a list of nodes to visit. A visit may change the state and gives the
  nodes to visit next, before the ones that wait: a recursive descent with its open loops
  written as a list. The result is the list of visited nodes and the last state, and None
  when the traversal does not end. It ends when every visit leads to smaller nodes of a
  well-founded order, and it does not when every node of a set leads back to the set.
\<close>

partial_function (option) walk :: "('n \<Rightarrow> 's \<Rightarrow> 'n list \<times> 's) \<Rightarrow> 'n list \<Rightarrow> 's \<Rightarrow> ('n list \<times> 's) option" where
  "walk visit work s =
     (case work of
        [] \<Rightarrow> Some ([], s)
      | n # rest \<Rightarrow>
          do { (ns, t) \<leftarrow> walk visit (fst (visit n s) @ rest) (snd (visit n s)); Some (n # ns, t) })"

lemma walk_Nil [simp]: "walk visit [] s = Some ([], s)"
  by (simp add: walk.simps)

lemma walk_Cons:
  "walk visit (n # rest) s =
     do { (ns, t) \<leftarrow> walk visit (fst (visit n s) @ rest) (snd (visit n s)); Some (n # ns, t) }"
  by (subst walk.simps) simp

declare walk.simps [simp del]

declare walk_Nil [code] walk_Cons [code]

lemma walk_induct [consumes 1, case_names Nil Cons]:
  assumes "walk visit work s = Some (ns, t)"
    and nil: "\<And>s. P [] s [] s"
    and cons: "\<And>n rest s ns t. walk visit (fst (visit n s) @ rest) (snd (visit n s)) = Some (ns, t)
      \<Longrightarrow> P (fst (visit n s) @ rest) (snd (visit n s)) ns t \<Longrightarrow> P (n # rest) s (n # ns) t"
  shows "P work s ns t"
proof -
  have "\<forall>ns t. y = (ns, t) \<longrightarrow> visit = v \<longrightarrow> (walk v work s = Some y \<and> P work s ns t)"
    if "walk v work s = Some y" for v work s y
  proof (rule walk.raw_induct [OF _ that], goal_cases)
    case 1: (1 w v work s y)
    show ?case
    proof (cases work)
      case Nil
      then show ?thesis using 1(2) nil by auto
    next
      case (Cons n rest)
      then obtain ms t where r: "w v (fst (v n s) @ rest) (snd (v n s)) = Some (ms, t)" "y = (n # ms, t)"
        using 1(2) by (auto simp: Option.bind_eq_Some_conv split: prod.splits)
      show ?thesis
      proof (intro allI impI)
        fix ns t' assume "y = (ns, t')" "visit = v"
        moreover have "walk v (fst (v n s) @ rest) (snd (v n s)) = Some (ms, t)
            \<and> P (fst (v n s) @ rest) (snd (v n s)) ms t"
          using 1(1) [OF r(1)] \<open>visit = v\<close> by blast
        ultimately show "walk v work s = Some y \<and> P work s ns t'"
          using r(2) Cons cons by (auto simp: walk_Cons)
      qed
    qed
  qed
  then show ?thesis using assms(1) by blast
qed

text \<open>The nodes that wait are visited after the others, in the state those leave.\<close>

lemma walk_append_Some:
  "walk visit xs s = Some (ns, t) \<Longrightarrow>
     walk visit (xs @ ys) s = do { (ms, u) \<leftarrow> walk visit ys t; Some (ns @ ms, u) }"
proof (induction rule: walk_induct)
  case (Nil s)
  then show ?case by (auto simp: bind_eq_Some_conv split: Option.bind_splits)
next
  case (Cons n rest s ns t)
  then show ?case by (auto simp: walk_Cons split: Option.bind_splits)
qed

lemma walk_prefix_Some:
  "walk visit work s = Some (ms, u) \<Longrightarrow> work = xs @ ys \<Longrightarrow> \<exists>ns t. walk visit xs s = Some (ns, t)"
proof (induction arbitrary: xs rule: walk_induct)
  case (Nil s)
  then show ?case by simp
next
  case (Cons n rest s ns t)
  show ?case
  proof (cases xs)
    case Nil
    then show ?thesis by simp
  next
    case (Cons m xs')
    then show ?thesis
      using Cons.prems Cons.IH [of "fst (visit n s) @ xs'"] by (auto simp: walk_Cons)
  qed
qed

lemma walk_append:
  "walk visit (xs @ ys) s =
     do { (ns, t) \<leftarrow> walk visit xs s; (ms, u) \<leftarrow> walk visit ys t; Some (ns @ ms, u) }"
proof (cases "walk visit xs s")
  case None
  then show ?thesis using walk_prefix_Some [of visit "xs @ ys" s _ _ xs ys]
    by (cases "walk visit (xs @ ys) s") auto
next
  case (Some r)
  then show ?thesis by (cases r) (simp add: walk_append_Some)
qed

text \<open>What every visit keeps, the traversal keeps.\<close>

lemma walk_invariant:
  assumes "walk visit work s = Some (ns, t)" "okay s" "\<And>n s. okay s \<Longrightarrow> okay (snd (visit n s))"
  shows "okay t"
proof -
  have "okay s \<longrightarrow> okay t" using assms(1) by (induction rule: walk_induct) (auto intro: assms(3))
  then show ?thesis using assms(2) by simp
qed

subsection \<open>Traversals that end\<close>

lemma walk_terminates:
  assumes "wf R"
    and step: "\<And>n s. okay s \<Longrightarrow> okay (snd (visit n s)) \<and> (\<forall>k \<in> set (fst (visit n s)). (k, n) \<in> R)"
    and "okay s"
  shows "\<exists>ns t. walk visit work s = Some (ns, t) \<and> okay t"
proof -
  have list: "\<exists>ns t. walk visit ks s = Some (ns, t) \<and> okay t"
    if "\<And>k s. k \<in> set ks \<Longrightarrow> okay s \<Longrightarrow> \<exists>ns t. walk visit [k] s = Some (ns, t) \<and> okay t" "okay s" for ks s
    using that
  proof (induction ks arbitrary: s)
    case (Cons k ks)
    obtain ns t where k: "walk visit [k] s = Some (ns, t)" "okay t"
      using Cons.prems(1) [of k s] Cons.prems(2) by auto
    obtain ms u where ks: "walk visit ks t = Some (ms, u)" "okay u"
      using Cons.IH [OF Cons.prems(1) k(2)] by auto
    show ?case using walk_append_Some [OF k(1), of ks] ks by simp
  qed simp
  have one: "\<exists>ns t. walk visit [n] s = Some (ns, t) \<and> okay t" if "okay s" for n s
    using \<open>wf R\<close> that
  proof (induction n arbitrary: s rule: wf_induct_rule)
    case (less n)
    have "\<exists>ns t. walk visit (fst (visit n s)) (snd (visit n s)) = Some (ns, t) \<and> okay t"
      using step [OF less.prems, of n] less.IH by - (rule list, blast+)
    then show ?case by (auto simp: walk_Cons)
  qed
  show ?thesis by (rule list [OF one assms(3)])
qed

subsection \<open>Traversals that do not end\<close>

lemma walk_diverges:
  assumes "\<And>n s. okay s \<Longrightarrow> okay (snd (visit n s)) \<and> (n \<in> D \<longrightarrow> set (fst (visit n s)) \<inter> D \<noteq> {})"
    and "okay s" and "set work \<inter> D \<noteq> {}"
  shows "walk visit work s = None"
proof -
  have "okay s \<longrightarrow> set work \<inter> D = {}" if "walk visit work s = Some (ns, t)" for ns t
    using that
  proof (induction rule: walk_induct)
    case (Cons n rest s ns t)
    then show ?case using assms(1) [of s n] by auto
  qed simp
  then show ?thesis using assms(2,3) by (cases "walk visit work s") auto
qed

end
