(* ===== verification/Collection.thy ===== *)
theory Collection
  imports CollectionEvents Worklist Store
begin

section \<open>The collection module's keeper: x/collection/keeper\<close>

text \<open>
  The keeper's store is a record with one section per key prefix, in the order a prefix
  iterator walks it; the theory on the module's keys shows that entries do not collide. The
  parts of a key that are addresses carry their length in front, as in the byte key, which
  fixes the order. Accounts are the addresses the account keeper knows. The recursive
  traversals of the tree of tokens may not end: on a chain they are cut by the gas meter, so a
  traversal that does not end is a panic here. A handler returns the new state or an error; on
  an error the caller discards the state.
\<close>

record Contract =
  colContractId :: string
  colName :: string
  colMeta :: string
  colBaseImgUri :: string

record ColParams =
  DepthLimit :: "32 word"
  WidthLimit :: "32 word"

record ColState =
  cParams :: "ColParams option"
  cContracts :: "(string, Contract) store"
  cClasses :: "(string \<times> string, ColTokenClass) store"
  cNextClassIDs :: "(string, NextClassIDs) store"
  cNextTokenIDs :: "(string \<times> string, SdkUint) store"
  cBalances :: "(string \<times> string \<times> string, SdkInt) store"
  cOwners :: "(string \<times> string, AccAddress) store"
  cNFTs :: "(string \<times> string, NFT) store"
  cParents :: "(string \<times> string, string) store"
  cChildren :: "(string \<times> string \<times> string, unit) store"
  cAuthorizations :: "(string \<times> string \<times> AccAddress, unit) store"
  cGrants :: "(string \<times> string \<times> ColPermission, unit) store"
  cSupplies :: "(string \<times> string, SdkInt) store"
  cMinteds :: "(string \<times> string, SdkInt) store"
  cBurnts :: "(string \<times> string, SdkInt) store"
  cLegacyTokens :: "(string \<times> string, unit) store"
  cLegacyTokenTypes :: "(string \<times> string, unit) store"
  cClassState :: ClassState
  cAccounts :: "AccAddress set"
  cEvents :: "ColEventLog list"

definition addrKey :: "AccAddress \<Rightarrow> string" where
  "addrKey a = byte (length a) # a"

lemma addrKey_inj [simp]: "addrKey a = addrKey b \<longleftrightarrow> a = b"
  by (auto simp: addrKey_def)

definition emitEvent :: "SdkEvent \<Rightarrow> ColState \<Rightarrow> ColState" where
  "emitEvent e s = s\<lparr>cEvents := cEvents s @ [ColLegacy e]\<rparr>"

definition emitEvents :: "SdkEvent list \<Rightarrow> ColState \<Rightarrow> ColState" where
  "emitEvents es s = s\<lparr>cEvents := cEvents s @ map ColLegacy es\<rparr>"

definition emitTypedEvent :: "ColEvent \<Rightarrow> ColState \<Rightarrow> ColState" where
  "emitTypedEvent e s = s\<lparr>cEvents := cEvents s @ [ColTyped e]\<rparr>"

definition createAccountOnAbsence :: "AccAddress \<Rightarrow> ColState \<Rightarrow> ColState" where
  "createAccountOnAbsence a s = (if a \<notin> cAccounts s then s\<lparr>cAccounts := insert a (cAccounts s)\<rparr> else s)"

definition ended :: "'a option \<Rightarrow> 'a result" where
  "ended r = (case r of None \<Rightarrow> Inl (Panic ''out of gas'') | Some x \<Rightarrow> Inr x)"

subsection \<open>Parameters: param.go\<close>

definition col_GetParams :: "ColState \<Rightarrow> ColParams result" where
  "col_GetParams s = (case cParams s of None \<Rightarrow> Inl (Panic ''params does not exist'') | Some p \<Rightarrow> Inr p)"

definition col_setParams :: "ColParams \<Rightarrow> ColState \<Rightarrow> ColState" where
  "col_setParams params s = s\<lparr>cParams := Some params\<rparr>"

subsection \<open>Tokens and their tree: nft.go\<close>

definition hasNFT :: "ColState \<Rightarrow> string \<Rightarrow> string \<Rightarrow> unit result" where
  "hasNFT s contractID tokenID =
     (case store_get (cNFTs s) (contractID, tokenID) of
        None \<Rightarrow> Inl (Error ErrNotFound ''nft not exists'') | Some _ \<Rightarrow> Inr ())"

definition GetNFT :: "ColState \<Rightarrow> string \<Rightarrow> string \<Rightarrow> NFT result" where
  "GetNFT s contractID tokenID =
     (case store_get (cNFTs s) (contractID, tokenID) of
        None \<Rightarrow> Inl (Error ErrNotFound ''nft not exists'') | Some token \<Rightarrow> Inr token)"

definition setNFT :: "string \<Rightarrow> NFT \<Rightarrow> ColState \<Rightarrow> ColState" where
  "setNFT contractID token s = s\<lparr>cNFTs := store_set (contractID, nftId token) token (cNFTs s)\<rparr>"

definition deleteNFT :: "string \<Rightarrow> string \<Rightarrow> ColState \<Rightarrow> ColState" where
  "deleteNFT contractID tokenID s = s\<lparr>cNFTs := store_delete (contractID, tokenID) (cNFTs s)\<rparr>"

definition getOwner :: "ColState \<Rightarrow> string \<Rightarrow> string \<Rightarrow> AccAddress result" where
  "getOwner s contractID tokenID =
     (case store_get (cOwners s) (contractID, tokenID) of
        None \<Rightarrow> Inl (Panic ''owner must exist'') | Some owner \<Rightarrow> Inr owner)"

definition setOwner :: "string \<Rightarrow> string \<Rightarrow> AccAddress \<Rightarrow> ColState \<Rightarrow> ColState" where
  "setOwner contractID tokenID owner s = s\<lparr>cOwners := store_set (contractID, tokenID) owner (cOwners s)\<rparr>"

definition deleteOwner :: "string \<Rightarrow> string \<Rightarrow> ColState \<Rightarrow> ColState" where
  "deleteOwner contractID tokenID s = s\<lparr>cOwners := store_delete (contractID, tokenID) (cOwners s)\<rparr>"

definition GetParent :: "ColState \<Rightarrow> string \<Rightarrow> string \<Rightarrow> string result" where
  "GetParent s contractID tokenID =
     (case store_get (cParents s) (contractID, tokenID) of
        None \<Rightarrow> Inl (Error ErrNotFound ''no parent'') | Some parent \<Rightarrow> Inr parent)"

definition setParent :: "string \<Rightarrow> string \<Rightarrow> string \<Rightarrow> ColState \<Rightarrow> ColState" where
  "setParent contractID tokenID parentID s =
     s\<lparr>cParents := store_set (contractID, tokenID) parentID (cParents s)\<rparr>"

definition deleteParent :: "string \<Rightarrow> string \<Rightarrow> ColState \<Rightarrow> ColState" where
  "deleteParent contractID tokenID s = s\<lparr>cParents := store_delete (contractID, tokenID) (cParents s)\<rparr>"

definition GetChildren :: "ColState \<Rightarrow> string \<Rightarrow> string \<Rightarrow> string list" where
  "GetChildren s contractID tokenID =
     map (\<lambda>((c, t, child), _). child) (filter (\<lambda>((c, t, child), _). c = contractID \<and> t = tokenID) (cChildren s))"

definition setChild :: "string \<Rightarrow> string \<Rightarrow> string \<Rightarrow> ColState \<Rightarrow> ColState" where
  "setChild contractID tokenID childID s =
     s\<lparr>cChildren := store_set (contractID, tokenID, childID) () (cChildren s)\<rparr>"

definition deleteChild :: "string \<Rightarrow> string \<Rightarrow> string \<Rightarrow> ColState \<Rightarrow> ColState" where
  "deleteChild contractID tokenID childID s =
     s\<lparr>cChildren := store_delete (contractID, tokenID, childID) (cChildren s)\<rparr>"

text \<open>
  \<open>iterateAncestors\<close> follows the parents; the result is the list of the ids it calls its
  argument on. \<open>iterateDescendants\<close> calls its argument on every child, with its depth, and on
  the child's own descendants before the next child; its callers never stop it.
\<close>

definition visit_parent :: "string \<Rightarrow> string \<Rightarrow> ColState \<Rightarrow> string list \<times> ColState" where
  "visit_parent contractID tokenID s =
     (case GetParent s contractID tokenID of Inl _ \<Rightarrow> ([], s) | Inr parent \<Rightarrow> ([parent], s))"

definition iterateAncestors :: "ColState \<Rightarrow> string \<Rightarrow> string \<Rightarrow> string list option" where
  "iterateAncestors s contractID tokenID = map_option fst (walk (visit_parent contractID) [tokenID] s)"

definition GetRoot :: "ColState \<Rightarrow> string \<Rightarrow> string \<Rightarrow> string result" where
  "GetRoot s contractID tokenID = bindE (ended (iterateAncestors s contractID tokenID)) (\<lambda>seen. Inr (last seen))"

definition GetRootOwner :: "ColState \<Rightarrow> string \<Rightarrow> string \<Rightarrow> AccAddress result" where
  "GetRootOwner s contractID tokenID = bindE (GetRoot s contractID tokenID) (getOwner s contractID)"

definition with_depth :: "nat \<Rightarrow> string list \<Rightarrow> (string \<times> nat) list" where
  "with_depth depth = map (\<lambda>child. (child, depth))"

definition visit_children :: "string \<Rightarrow> string \<times> nat \<Rightarrow> ColState \<Rightarrow> (string \<times> nat) list \<times> ColState" where
  "visit_children contractID n s = (with_depth (Suc (snd n)) (GetChildren s contractID (fst n)), s)"

definition iterateDescendants :: "ColState \<Rightarrow> string \<Rightarrow> string \<Rightarrow> (string \<times> nat) list option" where
  "iterateDescendants s contractID tokenID =
     map_option fst (walk (visit_children contractID) (with_depth 1 (GetChildren s contractID tokenID)) s)"

text \<open>
  \<open>pruneNFT\<close> removes every child of a token, then the child's own children before the next
  child; the children of a token are read when the loop over them starts.
\<close>

definition visit_prune :: "string \<Rightarrow> string \<times> string \<Rightarrow> ColState \<Rightarrow> (string \<times> string) list \<times> ColState" where
  "visit_prune contractID e s =
     (let tokenID = fst e; child = snd e;
          s1 = deleteNFT contractID child
                (deleteParent contractID child (deleteChild contractID tokenID child s)) in
      (map (Pair child) (GetChildren s1 contractID child), s1))"

definition pruneNFT :: "string \<Rightarrow> string \<Rightarrow> ColState \<Rightarrow> (string list \<times> ColState) option" where
  "pruneNFT contractID tokenID s =
     map_option (\<lambda>(es, t). (map snd es, t))
       (walk (visit_prune contractID) (map (Pair tokenID) (GetChildren s contractID tokenID)) s)"

text \<open>
  The map from depths to widths starts with depth 0 of width 1; its entries are the widths of
  the depths that occur.
\<close>

definition depth_width :: "(string \<times> nat) list \<Rightarrow> nat \<Rightarrow> nat" where
  "depth_width ds d = length (filter (\<lambda>n. snd n = d) ds) + (if d = 0 then 1 else 0)"

definition validateDepthAndWidth :: "ColState \<Rightarrow> string \<Rightarrow> string \<Rightarrow> unit result" where
  "validateDepthAndWidth s contractID tokenID =
     bindE (ended (iterateDescendants s contractID tokenID)) (\<lambda>ds.
     bindE (col_GetParams s) (\<lambda>params.
     let depths = remdups (0 # map snd ds) in
     if length depths - 1 > unat (DepthLimit params)
     then Inl (Error ErrInvalidRequest ''resulting depth exceeds its limit'')
     else if list_ex (\<lambda>d. depth_width ds d > unat (WidthLimit params)) depths
     then Inl (Error ErrInvalidRequest ''resulting width exceeds its limit'')
     else Inr ()))"

definition emit_root_changed :: "string \<Rightarrow> string \<Rightarrow> string \<Rightarrow> string \<times> nat \<Rightarrow> ColState \<Rightarrow> ColState" where
  "emit_root_changed contractID from dst d s =
     emitTypedEvent (ColRootChanged contractID (fst d) from dst)
       (emitEvent (NewEventOperationRootChanged contractID (fst d)) s)"

definition col_GetBalance :: "ColState \<Rightarrow> string \<Rightarrow> AccAddress \<Rightarrow> string \<Rightarrow> SdkInt" where
  "col_GetBalance s contractID address tokenID =
     (case store_get (cBalances s) (contractID, addrKey address, tokenID) of None \<Rightarrow> 0 | Some v \<Rightarrow> v)"

definition Attach :: "string \<Rightarrow> AccAddress \<Rightarrow> string \<Rightarrow> string \<Rightarrow> ColState \<Rightarrow> ColState result" where
  "Attach contractID owner subject target s =
     (if \<not> Int_IsPositive (col_GetBalance s contractID owner subject)
      then Inl (Error ErrInvalidRequest ''not owner of the subject'')
      else
        bindE (hasNFT s contractID target) (\<lambda>_.
        bindE (GetRoot s contractID target) (\<lambda>root.
        bindE (getOwner s contractID root) (\<lambda>rootOwner.
        if owner \<noteq> rootOwner then Inl (Error ErrInvalidRequest ''not owner of the target'')
        else if root = subject then Inl (Error ErrInvalidRequest ''cycles not allowed'')
        else
          let s1 = setChild contractID target subject
                     (setParent contractID subject target (deleteOwner contractID subject s)) in
          bindE (validateDepthAndWidth s1 contractID root) (\<lambda>_.
          bindE (ended (iterateDescendants s1 contractID subject)) (\<lambda>ds.
            Inr (fold (emit_root_changed contractID subject root) ds s1)))))))"

definition Detach :: "string \<Rightarrow> AccAddress \<Rightarrow> string \<Rightarrow> ColState \<Rightarrow> ColState result" where
  "Detach contractID owner subject s =
     bindE (hasNFT s contractID subject) (\<lambda>_.
     bindE (GetParent s contractID subject) (\<lambda>parent.
     bindE (GetRootOwner s contractID subject) (\<lambda>rootOwner.
     if owner \<noteq> rootOwner then Inl (Error ErrInvalidRequest ''not owner of the subject'')
     else
       let s1 = deleteChild contractID parent subject
                  (setOwner contractID subject owner (deleteParent contractID subject s)) in
       bindE (GetRoot s1 contractID parent) (\<lambda>root.
       bindE (ended (iterateDescendants s1 contractID subject)) (\<lambda>ds.
         Inr (fold (emit_root_changed contractID root subject) ds s1))))))"

definition setLegacyToken :: "string \<Rightarrow> string \<Rightarrow> ColState \<Rightarrow> ColState" where
  "setLegacyToken contractID tokenID s =
     s\<lparr>cLegacyTokens := store_set (contractID, tokenID) () (cLegacyTokens s)\<rparr>"

definition deleteLegacyToken :: "string \<Rightarrow> string \<Rightarrow> ColState \<Rightarrow> ColState" where
  "deleteLegacyToken contractID tokenID s =
     s\<lparr>cLegacyTokens := store_delete (contractID, tokenID) (cLegacyTokens s)\<rparr>"

definition setLegacyTokenType :: "string \<Rightarrow> string \<Rightarrow> ColState \<Rightarrow> ColState" where
  "setLegacyTokenType contractID tokenType s =
     s\<lparr>cLegacyTokenTypes := store_set (contractID, tokenType) () (cLegacyTokenTypes s)\<rparr>"

subsection \<open>Balances and operators: send.go\<close>

definition col_setBalance :: "string \<Rightarrow> AccAddress \<Rightarrow> string \<Rightarrow> SdkInt \<Rightarrow> ColState \<Rightarrow> ColState" where
  "col_setBalance contractID address tokenID balance s =
     (if Int_IsZero balance
      then s\<lparr>cBalances := store_delete (contractID, addrKey address, tokenID) (cBalances s)\<rparr>
      else s\<lparr>cBalances := store_set (contractID, addrKey address, tokenID) balance (cBalances s)\<rparr>)"

definition col_add_coin :: "string \<Rightarrow> AccAddress \<Rightarrow> ColCoin \<Rightarrow> ColState \<Rightarrow> ColState result" where
  "col_add_coin contractID address coin s =
     bindE (Int_Add (col_GetBalance s contractID address (TokenId coin)) (TokenAmount coin)) (\<lambda>newBalance.
     let s1 = col_setBalance contractID address (TokenId coin) newBalance s in
     Inr (if passes (ValidateNFTID (TokenId coin)) then setOwner contractID (TokenId coin) address s1 else s1))"

definition col_addCoins :: "string \<Rightarrow> AccAddress \<Rightarrow> ColCoin list \<Rightarrow> ColState \<Rightarrow> ColState result" where
  "col_addCoins contractID address amount s =
     bindE (foldE (col_add_coin contractID address) amount s) (\<lambda>s1. Inr (createAccountOnAbsence address s1))"

definition subtract_coin :: "string \<Rightarrow> AccAddress \<Rightarrow> ColCoin \<Rightarrow> ColState \<Rightarrow> ColState result" where
  "subtract_coin contractID address coin s =
     bindE (Int_Sub (col_GetBalance s contractID address (TokenId coin)) (TokenAmount coin)) (\<lambda>newBalance.
       if Int_IsNegative newBalance then Inl (Error ErrInvalidRequest ''balance is smaller than amount'')
       else Inr (col_setBalance contractID address (TokenId coin) newBalance s))"

definition col_subtractCoins :: "string \<Rightarrow> AccAddress \<Rightarrow> ColCoin list \<Rightarrow> ColState \<Rightarrow> ColState result" where
  "col_subtractCoins contractID address amount = foldE (subtract_coin contractID address) amount"

definition emit_owner_changed :: "string \<Rightarrow> string \<Rightarrow> string \<Rightarrow> string \<times> nat \<Rightarrow> ColState \<Rightarrow> ColState" where
  "emit_owner_changed contractID from dst d s =
     emitTypedEvent (ColOwnerChanged contractID (fst d) from dst)
       (emitEvent (NewEventOperationTransferNFT contractID (fst d)) s)"

text \<open>The addresses are printed inside the loop over the descendants only.\<close>

definition send_legacy :: "Config \<Rightarrow> string \<Rightarrow> AccAddress \<Rightarrow> AccAddress \<Rightarrow> ColCoin \<Rightarrow> ColState \<Rightarrow> ColState result" where
  "send_legacy cfg contractID from dst coin s =
     (if passes (ValidateNFTID (TokenId coin)) then
        bindE (ended (iterateDescendants s contractID (TokenId coin))) (\<lambda>ds.
        foldE (\<lambda>d st.
          bindE (AccAddress_String cfg from) (\<lambda>f.
          bindE (AccAddress_String cfg dst) (\<lambda>t. Inr (emit_owner_changed contractID f t d st)))) ds s)
      else Inr s)"

definition col_SendCoins :: "Config \<Rightarrow> string \<Rightarrow> AccAddress \<Rightarrow> AccAddress \<Rightarrow> ColCoin list \<Rightarrow> ColState \<Rightarrow> ColState result" where
  "col_SendCoins cfg contractID from dst amount s =
     bindE (col_subtractCoins contractID from amount s) (\<lambda>s1.
     bindE (col_addCoins contractID dst amount s1) (\<lambda>s2.
     foldE (send_legacy cfg contractID from dst) amount s2))"

definition GetContract :: "ColState \<Rightarrow> string \<Rightarrow> Contract result" where
  "GetContract s contractID =
     (case store_get (cContracts s) contractID of
        None \<Rightarrow> Inl (Error ErrNotFound ''no such a contract'') | Some c \<Rightarrow> Inr c)"

definition col_GetAuthorization :: "ColState \<Rightarrow> string \<Rightarrow> AccAddress \<Rightarrow> AccAddress \<Rightarrow> unit result" where
  "col_GetAuthorization s contractID holder operator =
     (case store_get (cAuthorizations s) (contractID, addrKey operator, holder) of
        None \<Rightarrow> Inl (Error ErrNotFound ''no authorization'') | Some _ \<Rightarrow> Inr ())"

definition col_setAuthorization :: "string \<Rightarrow> AccAddress \<Rightarrow> AccAddress \<Rightarrow> ColState \<Rightarrow> ColState" where
  "col_setAuthorization contractID holder operator s =
     s\<lparr>cAuthorizations := store_set (contractID, addrKey operator, holder) () (cAuthorizations s)\<rparr>"

definition col_deleteAuthorization :: "string \<Rightarrow> AccAddress \<Rightarrow> AccAddress \<Rightarrow> ColState \<Rightarrow> ColState" where
  "col_deleteAuthorization contractID holder operator s =
     s\<lparr>cAuthorizations := store_delete (contractID, addrKey operator, holder) (cAuthorizations s)\<rparr>"

definition col_AuthorizeOperator :: "string \<Rightarrow> AccAddress \<Rightarrow> AccAddress \<Rightarrow> ColState \<Rightarrow> ColState result" where
  "col_AuthorizeOperator contractID holder operator s =
     bindE (wrapE ErrNotFound ''contract does not exist'' (GetContract s contractID)) (\<lambda>_.
       if passes (col_GetAuthorization s contractID holder operator)
       then Inl (Error ErrInvalidRequest ''Already authorized'')
       else Inr (createAccountOnAbsence operator (col_setAuthorization contractID holder operator s)))"

definition col_RevokeOperator :: "string \<Rightarrow> AccAddress \<Rightarrow> AccAddress \<Rightarrow> ColState \<Rightarrow> ColState result" where
  "col_RevokeOperator contractID holder operator s =
     bindE (wrapE ErrNotFound ''contract does not exist'' (GetContract s contractID)) (\<lambda>_.
     bindE (col_GetAuthorization s contractID holder operator) (\<lambda>_.
       Inr (col_deleteAuthorization contractID holder operator s)))"

subsection \<open>Statistics, grants and contracts: supply.go\<close>

definition getStatistic :: "(string \<times> string, SdkInt) store \<Rightarrow> string \<Rightarrow> string \<Rightarrow> SdkInt" where
  "getStatistic m contractID classID = (case store_get m (contractID, classID) of None \<Rightarrow> 0 | Some v \<Rightarrow> v)"

definition setStatistic :: "string \<Rightarrow> string \<Rightarrow> SdkInt \<Rightarrow> (string \<times> string, SdkInt) store \<Rightarrow> (string \<times> string, SdkInt) store" where
  "setStatistic contractID classID amount m =
     (if Int_IsZero amount then store_delete (contractID, classID) m
      else store_set (contractID, classID) amount m)"

definition col_GetSupply :: "ColState \<Rightarrow> string \<Rightarrow> string \<Rightarrow> SdkInt" where
  "col_GetSupply s = getStatistic (cSupplies s)"

definition col_GetMinted :: "ColState \<Rightarrow> string \<Rightarrow> string \<Rightarrow> SdkInt" where
  "col_GetMinted s = getStatistic (cMinteds s)"

definition col_GetBurnt :: "ColState \<Rightarrow> string \<Rightarrow> string \<Rightarrow> SdkInt" where
  "col_GetBurnt s = getStatistic (cBurnts s)"

definition col_setSupply :: "string \<Rightarrow> string \<Rightarrow> SdkInt \<Rightarrow> ColState \<Rightarrow> ColState" where
  "col_setSupply contractID classID amount s = s\<lparr>cSupplies := setStatistic contractID classID amount (cSupplies s)\<rparr>"

definition col_setMinted :: "string \<Rightarrow> string \<Rightarrow> SdkInt \<Rightarrow> ColState \<Rightarrow> ColState" where
  "col_setMinted contractID classID amount s = s\<lparr>cMinteds := setStatistic contractID classID amount (cMinteds s)\<rparr>"

definition col_setBurnt :: "string \<Rightarrow> string \<Rightarrow> SdkInt \<Rightarrow> ColState \<Rightarrow> ColState" where
  "col_setBurnt contractID classID amount s = s\<lparr>cBurnts := setStatistic contractID classID amount (cBurnts s)\<rparr>"

definition col_GetGrant :: "ColState \<Rightarrow> string \<Rightarrow> AccAddress \<Rightarrow> ColPermission \<Rightarrow> unit result" where
  "col_GetGrant s contractID grantee permission =
     (case store_get (cGrants s) (contractID, addrKey grantee, permission) of
        None \<Rightarrow> Inl (Error ErrNotFound ''no permission granted'') | Some _ \<Rightarrow> Inr ())"

definition col_setGrant :: "string \<Rightarrow> AccAddress \<Rightarrow> ColPermission \<Rightarrow> ColState \<Rightarrow> ColState" where
  "col_setGrant contractID grantee permission s =
     s\<lparr>cGrants := store_set (contractID, addrKey grantee, permission) () (cGrants s)\<rparr>"

definition col_deleteGrant :: "string \<Rightarrow> AccAddress \<Rightarrow> ColPermission \<Rightarrow> ColState \<Rightarrow> ColState" where
  "col_deleteGrant contractID grantee permission s =
     s\<lparr>cGrants := store_delete (contractID, addrKey grantee, permission) (cGrants s)\<rparr>"

definition col_grant :: "string \<Rightarrow> AccAddress \<Rightarrow> ColPermission \<Rightarrow> ColState \<Rightarrow> ColState" where
  "col_grant contractID grantee permission s =
     createAccountOnAbsence grantee (col_setGrant contractID grantee permission s)"

definition col_Grant :: "Config \<Rightarrow> string \<Rightarrow> AccAddress \<Rightarrow> AccAddress \<Rightarrow> ColPermission \<Rightarrow> ColState \<Rightarrow> ColState result" where
  "col_Grant cfg contractID granter grantee permission s =
     (let s1 = col_grant contractID grantee permission s in
      bindE (AccAddress_String cfg granter) (\<lambda>g.
      bindE (AccAddress_String cfg grantee) (\<lambda>e.
        Inr (emitTypedEvent (ColGranted contractID g e permission) s1))))"

definition col_Abandon :: "Config \<Rightarrow> string \<Rightarrow> AccAddress \<Rightarrow> ColPermission \<Rightarrow> ColState \<Rightarrow> ColState result" where
  "col_Abandon cfg contractID grantee permission s =
     (let s1 = col_deleteGrant contractID grantee permission s in
      bindE (AccAddress_String cfg grantee) (\<lambda>e.
        Inr (emitTypedEvent (ColRenounced contractID e permission) s1)))"

definition setContract :: "Contract \<Rightarrow> ColState \<Rightarrow> ColState" where
  "setContract contract s = s\<lparr>cContracts := store_set (colContractId contract) contract (cContracts s)\<rparr>"

definition getNextClassIDs :: "ColState \<Rightarrow> string \<Rightarrow> NextClassIDs result" where
  "getNextClassIDs s contractID =
     (case store_get (cNextClassIDs s) contractID of
        None \<Rightarrow> Inl (Panic ''no next class ids of contract'') | Some x \<Rightarrow> Inr x)"

definition setNextClassIDs :: "NextClassIDs \<Rightarrow> ColState \<Rightarrow> ColState" where
  "setNextClassIDs nc s = s\<lparr>cNextClassIDs := store_set (ncContractId nc) nc (cNextClassIDs s)\<rparr>"

definition createContract :: "Contract \<Rightarrow> ColState \<Rightarrow> (string \<times> ColState) result" where
  "createContract contract s =
     bindE (NewID (cClassState s)) (\<lambda>(contractID, cs).
       Inr (contractID,
            setNextClassIDs (DefaultNextClassIDs contractID)
              (setContract (contract\<lparr>colContractId := contractID\<rparr>) (s\<lparr>cClassState := cs\<rparr>))))"

text \<open>
  The loop over the generated map of permissions runs in an order that is not fixed; here it
  is the order of their numbers. The grants do not depend on it, the events do.
\<close>

definition CreateContract :: "Config \<Rightarrow> AccAddress \<Rightarrow> Contract \<Rightarrow> ColState \<Rightarrow> (string \<times> ColState) result" where
  "CreateContract cfg creator contract s =
     bindE (createContract contract s) (\<lambda>(contractID, s1).
     bindE (AccAddress_String cfg creator) (\<lambda>c.
     let s2 = emitTypedEvent (ColCreatedContract c contractID (colName contract) (colMeta contract) (colBaseImgUri contract))
                (emitEvent (NewEventCreateCollection c contractID (colName contract) (colMeta contract)
                  (colBaseImgUri contract)) s1);
         s3 = emitEvent (col_NewEventGrantPermTokenHead contractID [] c) s2 in
     bindE (foldE (\<lambda>p st.
         if p = ColPermissionUnspecified then Inr st
         else col_Grant cfg contractID [] creator p (emitEvent (col_NewEventGrantPermTokenBody p) st))
         [ColPermissionUnspecified, ColPermissionIssue, ColPermissionModify, ColPermissionMint, ColPermissionBurn]
         s3) (\<lambda>s4. Inr (contractID, s4))))"

definition GetTokenClass :: "ColState \<Rightarrow> string \<Rightarrow> string \<Rightarrow> ColTokenClass result" where
  "GetTokenClass s contractID classID =
     (case store_get (cClasses s) (contractID, classID) of
        None \<Rightarrow> Inl (Error ErrNotFound ''no such a class in contract'') | Some c \<Rightarrow> Inr c)"

definition setTokenClass :: "string \<Rightarrow> ColTokenClass \<Rightarrow> ColState \<Rightarrow> ColState" where
  "setTokenClass contractID class s = s\<lparr>cClasses := store_set (contractID, GetId class) class (cClasses s)\<rparr>"

definition getNextTokenID :: "ColState \<Rightarrow> string \<Rightarrow> string \<Rightarrow> SdkUint result" where
  "getNextTokenID s contractID classID =
     (case store_get (cNextTokenIDs s) (contractID, classID) of
        None \<Rightarrow> Inl (Panic ''no next token id of token class'') | Some x \<Rightarrow> Inr x)"

definition setNextTokenID :: "string \<Rightarrow> string \<Rightarrow> SdkUint \<Rightarrow> ColState \<Rightarrow> ColState" where
  "setNextTokenID contractID classID tokenID s =
     s\<lparr>cNextTokenIDs := store_set (contractID, classID) tokenID (cNextTokenIDs s)\<rparr>"

definition CreateTokenClass :: "string \<Rightarrow> ColTokenClass \<Rightarrow> ColState \<Rightarrow> (string \<times> ColState) result" where
  "CreateTokenClass contractID class0 s =
     bindE (GetContract s contractID) (\<lambda>_.
     bindE (getNextClassIDs s contractID) (\<lambda>nextClassIDs.
     bindE (SetId nextClassIDs class0) (\<lambda>(nc, class).
     let s1 = setNextClassIDs nc s in
     bindE (TokenClass_ValidateBasic class) (\<lambda>_.
     let s2 = setTokenClass contractID class s1 in
     case class of
       NFTClass c \<Rightarrow>
         Inr (nftcId c, setLegacyTokenType contractID (nftcId c) (setNextTokenID contractID (nftcId c) 1 s2))
     | FTClass c \<Rightarrow>
         bindE (NewFTID (ftId c)) (\<lambda>tokenID. Inr (ftId c, setLegacyToken contractID tokenID s2))))))"

subsection \<open>Minting and burning: supply.go\<close>

definition mintFT :: "string \<Rightarrow> AccAddress \<Rightarrow> string \<Rightarrow> SdkInt \<Rightarrow> ColState \<Rightarrow> ColState result" where
  "mintFT contractID dst classID amount s =
     bindE (NewFTID classID) (\<lambda>tokenID.
     let s1 = col_setBalance contractID dst tokenID amount s in
     bindE (Int_Add (col_GetSupply s1 contractID classID) amount) (\<lambda>supply.
     let s2 = col_setSupply contractID classID supply s1 in
     bindE (Int_Add (col_GetMinted s2 contractID classID) amount) (\<lambda>minted.
       Inr (col_setMinted contractID classID minted s2))))"

definition mint_ft_coin :: "string \<Rightarrow> AccAddress \<Rightarrow> ColCoin \<Rightarrow> ColState \<Rightarrow> ColState result" where
  "mint_ft_coin contractID dst coin s =
     bindE (ValidateFTID (TokenId coin)) (\<lambda>_.
     bindE (SplitTokenID (TokenId coin)) (\<lambda>classID.
     bindE (GetTokenClass s contractID classID) (\<lambda>class.
     case class of
       NFTClass _ \<Rightarrow> Inl (Error ErrInvalidType ''not a class of fungible token'')
     | FTClass ftClass \<Rightarrow>
         if \<not> ftMintable ftClass then Inl (Error ErrInvalidRequest ''class is not mintable'')
         else mintFT contractID dst classID (TokenAmount coin) s)))"

definition MintFT :: "string \<Rightarrow> AccAddress \<Rightarrow> ColCoin list \<Rightarrow> ColState \<Rightarrow> ColState result" where
  "MintFT contractID dst amount = foldE (mint_ft_coin contractID dst) amount"

record MintNFTParam =
  mpTokenType :: string
  mpName :: string
  mpMeta :: string

definition mint_nft_param :: "string \<Rightarrow> AccAddress \<Rightarrow> MintNFTParam \<Rightarrow> NFT list \<times> ColState \<Rightarrow> (NFT list \<times> ColState) result" where
  "mint_nft_param contractID dst param acc =
     (let tokens = fst acc; s = snd acc; classID = mpTokenType param in
      bindE (GetTokenClass s contractID classID) (\<lambda>class.
      case class of
        FTClass _ \<Rightarrow> Inl (Error ErrInvalidType ''not a class of non-fungible token'')
      | NFTClass _ \<Rightarrow>
          bindE (getNextTokenID s contractID classID) (\<lambda>nextTokenID.
          bindE (Uint_Incr nextTokenID) (\<lambda>incr.
          let s1 = setNextTokenID contractID classID incr s in
          bindE (Uint_Uint64 nextTokenID) (\<lambda>number.
          bindE (NewNFTID classID number) (\<lambda>tokenID.
          let token = \<lparr>nftId = tokenID, nftName = mpName param, nftMeta = mpMeta param\<rparr>;
              s2 = setNFT contractID token
                     (setOwner contractID tokenID dst (col_setBalance contractID dst tokenID 1 s1)) in
          bindE (Int_Add (col_GetSupply s2 contractID classID) 1) (\<lambda>supply.
          let s3 = col_setSupply contractID classID supply s2 in
          bindE (Int_Add (col_GetMinted s3 contractID classID) 1) (\<lambda>minted.
          let s4 = col_setMinted contractID classID minted s3 in
            Inr (tokens @ [token], setLegacyToken contractID tokenID s4)))))))))"

definition MintNFT :: "string \<Rightarrow> AccAddress \<Rightarrow> MintNFTParam list \<Rightarrow> ColState \<Rightarrow> (NFT list \<times> ColState) result" where
  "MintNFT contractID dst params s = foldE (mint_nft_param contractID dst) params ([], s)"

definition burn_coin :: "string \<Rightarrow> ColCoin \<Rightarrow> ColCoin list \<times> ColState \<Rightarrow> (ColCoin list \<times> ColState) result" where
  "burn_coin contractID coin acc =
     (let burntAmount = fst acc @ [coin]; s = snd acc; tokenID = TokenId coin in
      if passes (ValidateNFTID tokenID) then
        bindE (ended (iterateDescendants s contractID tokenID)) (\<lambda>ds.
        let s1 = fold (\<lambda>d. emitEvent (NewEventOperationBurnNFT contractID (fst d))) ds s;
            s2 = deleteNFT contractID tokenID (deleteOwner contractID tokenID s1) in
        bindE (ended (pruneNFT contractID tokenID s2)) (\<lambda>(pruned, s3).
        bindE (mapE (\<lambda>i. NewColCoin i 1) pruned) (\<lambda>coins.
          Inr (burntAmount @ coins, deleteLegacyToken contractID tokenID s3))))
      else Inr (burntAmount, s))"

definition burn_statistics :: "string \<Rightarrow> ColCoin \<Rightarrow> ColState \<Rightarrow> ColState result" where
  "burn_statistics contractID coin s =
     bindE (SplitTokenID (TokenId coin)) (\<lambda>classID.
     bindE (Int_Sub (col_GetSupply s contractID classID) (TokenAmount coin)) (\<lambda>supply.
     let s1 = col_setSupply contractID classID supply s in
     bindE (Int_Add (col_GetBurnt s1 contractID classID) (TokenAmount coin)) (\<lambda>burnt.
       Inr (col_setBurnt contractID classID burnt s1))))"

definition col_BurnCoins :: "string \<Rightarrow> AccAddress \<Rightarrow> ColCoin list \<Rightarrow> ColState \<Rightarrow> (ColCoin list \<times> ColState) result" where
  "col_BurnCoins contractID from amount s =
     bindE (col_subtractCoins contractID from amount s) (\<lambda>s1.
     bindE (foldE (burn_coin contractID) amount ([], s1)) (\<lambda>(burntAmount, s2).
     bindE (foldE (burn_statistics contractID) burntAmount s2) (\<lambda>s3. Inr (burntAmount, s3))))"

subsection \<open>Modification: supply.go\<close>

text \<open>
  A key without modifier calls a nil function. The modifier of the image uri writes the name.
\<close>

definition modify_contract_field :: "ColAttribute \<Rightarrow> Contract \<Rightarrow> Contract result" where
  "modify_contract_field change contract =
     (if fst change = col_AttributeKey_String CAttrName then Inr (contract\<lparr>colName := snd change\<rparr>)
      else if fst change = col_AttributeKey_String CAttrBaseImgURI then Inr (contract\<lparr>colName := snd change\<rparr>)
      else if fst change = col_AttributeKey_String CAttrMeta then Inr (contract\<lparr>colMeta := snd change\<rparr>)
      else Inl (Panic ''nil pointer dereference''))"

definition ModifyContract :: "Config \<Rightarrow> string \<Rightarrow> AccAddress \<Rightarrow> ColAttribute list \<Rightarrow> ColState \<Rightarrow> ColState result" where
  "ModifyContract cfg contractID operator changes s =
     bindE (GetContract s contractID) (\<lambda>contract.
     bindE (foldE modify_contract_field changes contract) (\<lambda>contract'.
     let s1 = setContract contract' s in
     bindE (AccAddress_String cfg operator) (\<lambda>opr.
       Inr (emitTypedEvent (ColModifiedContract contractID opr changes) s1))))"

definition modify_class_field :: "ColAttribute \<Rightarrow> ColTokenClass \<Rightarrow> ColTokenClass result" where
  "modify_class_field change class =
     (if fst change = col_AttributeKey_String CAttrName then Inr (SetName (snd change) class)
      else if fst change = col_AttributeKey_String CAttrMeta then Inr (SetMeta (snd change) class)
      else Inl (Panic ''nil pointer dereference''))"

definition ModifyTokenClass :: "Config \<Rightarrow> string \<Rightarrow> string \<Rightarrow> AccAddress \<Rightarrow> ColAttribute list \<Rightarrow> ColState \<Rightarrow> ColState result" where
  "ModifyTokenClass cfg contractID classID operator changes s =
     bindE (GetTokenClass s contractID classID) (\<lambda>class.
     bindE (foldE modify_class_field changes class) (\<lambda>class'.
     let s1 = setTokenClass contractID class' s in
     bindE (AccAddress_String cfg operator) (\<lambda>opr.
       Inr (emitTypedEvent (ColModifiedTokenClass contractID (GetId class') opr changes []) s1))))"

definition modify_nft_field :: "ColAttribute \<Rightarrow> NFT \<Rightarrow> NFT result" where
  "modify_nft_field change token =
     (if fst change = col_AttributeKey_String CAttrName then Inr (token\<lparr>nftName := snd change\<rparr>)
      else if fst change = col_AttributeKey_String CAttrMeta then Inr (token\<lparr>nftMeta := snd change\<rparr>)
      else Inl (Panic ''nil pointer dereference''))"

definition ModifyNFT :: "Config \<Rightarrow> string \<Rightarrow> string \<Rightarrow> AccAddress \<Rightarrow> ColAttribute list \<Rightarrow> ColState \<Rightarrow> ColState result" where
  "ModifyNFT cfg contractID tokenID operator changes s =
     bindE (GetNFT s contractID tokenID) (\<lambda>token.
     bindE (foldE modify_nft_field changes token) (\<lambda>token'.
     let s1 = setNFT contractID token' s in
     bindE (AccAddress_String cfg operator) (\<lambda>opr.
       Inr (emitTypedEvent (ColModifiedNFT contractID tokenID opr changes) s1))))"

end
