(* ===== verification/CollectionMsg.thy ===== *)
theory CollectionMsg
  imports Collection
begin

section \<open>Messages of the collection module: x/collection/msgs.go, keeper/msg\_server.go\<close>

text \<open>
  The messages with their stateless validation, the handlers of the message server and the
  delivery of a message: validation, then the handler, as the application runs them.
\<close>

subsection \<open>Messages\<close>

text \<open>
  The fields, in order. Every message but the first starts with the contract id.
  \<open>MsgCreateContract\<close>: owner, name, image uri, meta. Transfers: (proxy,) from, to, coins or
  token ids. \<open>MsgColApprove\<close>, \<open>MsgDisapprove\<close>: approver, proxy. \<open>MsgIssueFT\<close>: name, meta,
  decimals, mintable, owner, to, amount. \<open>MsgIssueNFT\<close>: name, meta, owner. Mints: from, to,
  coins or parameters. Burns: (proxy,) from, coins or token ids. \<open>MsgColModify\<close>: owner, token
  type, token index, changes. \<open>MsgColGrantPermission\<close>: from, to, permission.
  \<open>MsgColRevokePermission\<close>: from, permission. \<open>MsgAttach\<close>, \<open>MsgAttachFrom\<close>: (proxy,) from,
  token, target. \<open>MsgDetach\<close>, \<open>MsgDetachFrom\<close>: (proxy,) from, token.
\<close>

datatype ColMsg =
    MsgCreateContract string string string string
  | MsgTransferFT string string string "ColCoin list"
  | MsgTransferFTFrom string string string string "ColCoin list"
  | MsgTransferNFT string string string "string list"
  | MsgTransferNFTFrom string string string string "string list"
  | MsgColApprove string string string
  | MsgDisapprove string string string
  | MsgIssueFT string string string "32 word" bool string string SdkInt
  | MsgIssueNFT string string string string
  | MsgMintFT string string string "ColCoin list"
  | MsgMintNFT string string string "MintNFTParam list"
  | MsgBurnFT string string "ColCoin list"
  | MsgBurnFTFrom string string string "ColCoin list"
  | MsgBurnNFT string string "string list"
  | MsgBurnNFTFrom string string string "string list"
  | MsgColModify string string string string "ColAttribute list"
  | MsgColGrantPermission string string string string
  | MsgColRevokePermission string string string
  | MsgAttach string string string string
  | MsgDetach string string string
  | MsgAttachFrom string string string string string
  | MsgDetachFrom string string string string

definition validAddr :: "Config \<Rightarrow> string \<Rightarrow> unit result" where
  "validAddr cfg a =
     bindE (wrapE ErrInvalidAddress ''invalid address'' (AccAddressFromBech32 cfg a)) (\<lambda>_. Inr ())"

definition eachE :: "('a \<Rightarrow> unit result) \<Rightarrow> 'a list \<Rightarrow> unit result" where
  "eachE f xs = foldE (\<lambda>x _. f x) xs ()"

definition MsgCreateContract_ValidateBasic :: "Config \<Rightarrow> string \<Rightarrow> string \<Rightarrow> string \<Rightarrow> string \<Rightarrow> unit result" where
  "MsgCreateContract_ValidateBasic cfg owner name uri meta =
     bindE (validAddr cfg owner) (\<lambda>_.
     bindE (col_validateName name) (\<lambda>_.
     bindE (validateBaseImgURI uri) (\<lambda>_. col_validateMeta meta)))"

definition MsgTransferFT_ValidateBasic :: "Config \<Rightarrow> string \<Rightarrow> string \<Rightarrow> string \<Rightarrow> ColCoin list \<Rightarrow> unit result" where
  "MsgTransferFT_ValidateBasic cfg c from dst amount =
     bindE (col_ValidateContractID c) (\<lambda>_.
     bindE (validAddr cfg from) (\<lambda>_.
     bindE (validAddr cfg dst) (\<lambda>_. validateCoins amount)))"

definition MsgTransferFTFrom_ValidateBasic :: "Config \<Rightarrow> string \<Rightarrow> string \<Rightarrow> string \<Rightarrow> string \<Rightarrow> ColCoin list \<Rightarrow> unit result" where
  "MsgTransferFTFrom_ValidateBasic cfg c proxy from dst amount =
     bindE (col_ValidateContractID c) (\<lambda>_.
     bindE (validAddr cfg proxy) (\<lambda>_.
     bindE (validAddr cfg from) (\<lambda>_.
     bindE (validAddr cfg dst) (\<lambda>_. validateCoins amount))))"

definition validTokenIds :: "(string \<Rightarrow> unit result) \<Rightarrow> string list \<Rightarrow> unit result" where
  "validTokenIds validator tokenIds =
     (if length tokenIds = 0 then Inl (Error ErrInvalidRequest ''token ids cannot be empty'')
      else eachE validator tokenIds)"

definition MsgTransferNFT_ValidateBasic :: "Config \<Rightarrow> string \<Rightarrow> string \<Rightarrow> string \<Rightarrow> string list \<Rightarrow> unit result" where
  "MsgTransferNFT_ValidateBasic cfg c from dst tokenIds =
     bindE (col_ValidateContractID c) (\<lambda>_.
     bindE (validAddr cfg from) (\<lambda>_.
     bindE (validAddr cfg dst) (\<lambda>_. validTokenIds ValidateTokenID tokenIds)))"

definition MsgTransferNFTFrom_ValidateBasic :: "Config \<Rightarrow> string \<Rightarrow> string \<Rightarrow> string \<Rightarrow> string \<Rightarrow> string list \<Rightarrow> unit result" where
  "MsgTransferNFTFrom_ValidateBasic cfg c proxy from dst tokenIds =
     bindE (col_ValidateContractID c) (\<lambda>_.
     bindE (validAddr cfg proxy) (\<lambda>_.
     bindE (validAddr cfg from) (\<lambda>_.
     bindE (validAddr cfg dst) (\<lambda>_. validTokenIds ValidateTokenID tokenIds))))"

definition MsgColApprove_ValidateBasic :: "Config \<Rightarrow> string \<Rightarrow> string \<Rightarrow> string \<Rightarrow> unit result" where
  "MsgColApprove_ValidateBasic cfg c approver proxy =
     bindE (col_ValidateContractID c) (\<lambda>_. bindE (validAddr cfg approver) (\<lambda>_. validAddr cfg proxy))"

definition MsgDisapprove_ValidateBasic :: "Config \<Rightarrow> string \<Rightarrow> string \<Rightarrow> string \<Rightarrow> unit result" where
  "MsgDisapprove_ValidateBasic cfg c approver proxy =
     bindE (col_ValidateContractID c) (\<lambda>_. bindE (validAddr cfg approver) (\<lambda>_. validAddr cfg proxy))"

definition MsgIssueFT_ValidateBasic :: "Config \<Rightarrow> string \<Rightarrow> string \<Rightarrow> string \<Rightarrow> 32 word \<Rightarrow> bool \<Rightarrow> string \<Rightarrow> string
    \<Rightarrow> SdkInt \<Rightarrow> unit result" where
  "MsgIssueFT_ValidateBasic cfg c name meta decimals mintable owner dst amount =
     bindE (col_ValidateContractID c) (\<lambda>_.
     bindE (validAddr cfg owner) (\<lambda>_.
     if length name = 0 then Inl (Error ErrInvalidRequest ''empty name'')
     else
       bindE (col_validateName name) (\<lambda>_.
       bindE (col_validateMeta meta) (\<lambda>_.
       bindE (col_validateDecimals decimals) (\<lambda>_.
       bindE (validAddr cfg dst) (\<lambda>_.
         if amount = 1 \<and> decimals = 0 \<and> \<not> mintable
         then Inl (Error ErrInvalidRequest ''invalid issue of ft'') else Inr ()))))))"

definition MsgIssueNFT_ValidateBasic :: "Config \<Rightarrow> string \<Rightarrow> string \<Rightarrow> string \<Rightarrow> string \<Rightarrow> unit result" where
  "MsgIssueNFT_ValidateBasic cfg c name meta owner =
     bindE (col_ValidateContractID c) (\<lambda>_.
     bindE (col_validateName name) (\<lambda>_.
     bindE (col_validateMeta meta) (\<lambda>_. validAddr cfg owner)))"

definition MsgMintFT_ValidateBasic :: "Config \<Rightarrow> string \<Rightarrow> string \<Rightarrow> string \<Rightarrow> ColCoin list \<Rightarrow> unit result" where
  "MsgMintFT_ValidateBasic cfg c from dst amount =
     bindE (col_ValidateContractID c) (\<lambda>_.
     bindE (validAddr cfg from) (\<lambda>_.
     bindE (validAddr cfg dst) (\<lambda>_. validateCoins amount)))"

definition MsgMintNFT_ValidateBasic :: "Config \<Rightarrow> string \<Rightarrow> string \<Rightarrow> string \<Rightarrow> MintNFTParam list \<Rightarrow> unit result" where
  "MsgMintNFT_ValidateBasic cfg c from dst params =
     bindE (col_ValidateContractID c) (\<lambda>_.
     bindE (validAddr cfg from) (\<lambda>_.
     bindE (validAddr cfg dst) (\<lambda>_.
     if length params = 0 then Inl (Error ErrInvalidRequest ''mint params cannot be empty'')
     else eachE (\<lambda>param.
       bindE (ValidateLegacyNFTClassID (mpTokenType param)) (\<lambda>_.
       bindE (col_validateName (mpName param)) (\<lambda>_. col_validateMeta (mpMeta param)))) params)))"

definition MsgBurnFT_ValidateBasic :: "Config \<Rightarrow> string \<Rightarrow> string \<Rightarrow> ColCoin list \<Rightarrow> unit result" where
  "MsgBurnFT_ValidateBasic cfg c from amount =
     bindE (col_ValidateContractID c) (\<lambda>_. bindE (validAddr cfg from) (\<lambda>_. validateCoins amount))"

definition MsgBurnFTFrom_ValidateBasic :: "Config \<Rightarrow> string \<Rightarrow> string \<Rightarrow> string \<Rightarrow> ColCoin list \<Rightarrow> unit result" where
  "MsgBurnFTFrom_ValidateBasic cfg c proxy from amount =
     bindE (col_ValidateContractID c) (\<lambda>_.
     bindE (validAddr cfg proxy) (\<lambda>_.
     bindE (validAddr cfg from) (\<lambda>_. validateCoins amount)))"

definition MsgBurnNFT_ValidateBasic :: "Config \<Rightarrow> string \<Rightarrow> string \<Rightarrow> string list \<Rightarrow> unit result" where
  "MsgBurnNFT_ValidateBasic cfg c from tokenIds =
     bindE (col_ValidateContractID c) (\<lambda>_.
     bindE (validAddr cfg from) (\<lambda>_. validTokenIds ValidateLegacyNFTID tokenIds))"

definition MsgBurnNFTFrom_ValidateBasic :: "Config \<Rightarrow> string \<Rightarrow> string \<Rightarrow> string \<Rightarrow> string list \<Rightarrow> unit result" where
  "MsgBurnNFTFrom_ValidateBasic cfg c proxy from tokenIds =
     bindE (col_ValidateContractID c) (\<lambda>_.
     bindE (validAddr cfg proxy) (\<lambda>_.
     bindE (validAddr cfg from) (\<lambda>_. validTokenIds ValidateLegacyNFTID tokenIds)))"

definition col_validateChange :: "ColAttribute \<Rightarrow> (ColAttributeKey \<rightharpoonup> (string \<Rightarrow> unit result)) \<Rightarrow> unit result" where
  "col_validateChange change validators =
     (case validators (col_AttributeKeyFromString (fst change)) of
        None \<Rightarrow> Inl (Error ErrInvalidRequest ''invalid field'')
      | Some validator \<Rightarrow> validator (snd change))"

definition validateContractChange :: "ColAttribute \<Rightarrow> unit result" where
  "validateContractChange change =
     col_validateChange change
       [CAttrName \<mapsto> col_validateName, CAttrBaseImgURI \<mapsto> validateBaseImgURI, CAttrMeta \<mapsto> col_validateMeta]"

definition validateTokenClassChange :: "ColAttribute \<Rightarrow> unit result" where
  "validateTokenClassChange change =
     col_validateChange change [CAttrName \<mapsto> col_validateName, CAttrMeta \<mapsto> col_validateMeta]"

text \<open>The loop over the changes with the keys already seen.\<close>

fun validChanges :: "(ColAttribute \<Rightarrow> unit result) \<Rightarrow> string set \<Rightarrow> ColAttribute list \<Rightarrow> unit result" where
  "validChanges validator seenKeys [] = Inr ()"
| "validChanges validator seenKeys (change # rest) =
     (if fst change \<in> seenKeys then Inl (Error ErrInvalidRequest ''duplicate keys'')
      else bindE (validator change) (\<lambda>_. validChanges validator (insert (fst change) seenKeys) rest))"

definition MsgColModify_ValidateBasic :: "Config \<Rightarrow> string \<Rightarrow> string \<Rightarrow> string \<Rightarrow> string \<Rightarrow> ColAttribute list \<Rightarrow> unit result" where
  "MsgColModify_ValidateBasic cfg c owner tokenType tokenIndex changes =
     bindE (col_ValidateContractID c) (\<lambda>_.
     bindE (validAddr cfg owner) (\<lambda>_.
     bindE (if length tokenType \<noteq> 0 then
              bindE (ValidateClassID tokenType) (\<lambda>_.
                if passes (ValidateLegacyFTClassID tokenType) \<and> length tokenIndex = 0
                then Inl (Error ErrInvalidRequest ''fungible token type without index'') else Inr ())
            else Inr ()) (\<lambda>_.
     bindE (if length tokenIndex \<noteq> 0 then ValidateTokenID (tokenType @ tokenIndex) else Inr ()) (\<lambda>_.
     if length tokenType = 0 \<and> length tokenIndex \<noteq> 0
     then Inl (Error ErrInvalidRequest ''token index without type'')
     else
       let validator = (if length tokenType = 0 then validateContractChange else validateTokenClassChange) in
       if length changes = 0 then Inl (Error ErrInvalidRequest ''empty changes'')
       else if length changes > changesLimit
       then Inl (Error ErrInvalidRequest ''the number of changes exceeds the limit'')
       else validChanges validator {} changes))))"

definition MsgColGrantPermission_ValidateBasic :: "Config \<Rightarrow> string \<Rightarrow> string \<Rightarrow> string \<Rightarrow> string \<Rightarrow> unit result" where
  "MsgColGrantPermission_ValidateBasic cfg c from dst permission =
     bindE (col_ValidateContractID c) (\<lambda>_.
     bindE (validAddr cfg from) (\<lambda>_.
     bindE (validAddr cfg dst) (\<lambda>_. col_validateLegacyPermission permission)))"

definition MsgColRevokePermission_ValidateBasic :: "Config \<Rightarrow> string \<Rightarrow> string \<Rightarrow> string \<Rightarrow> unit result" where
  "MsgColRevokePermission_ValidateBasic cfg c from permission =
     bindE (col_ValidateContractID c) (\<lambda>_.
     bindE (validAddr cfg from) (\<lambda>_. col_validateLegacyPermission permission))"

definition MsgAttach_ValidateBasic :: "Config \<Rightarrow> string \<Rightarrow> string \<Rightarrow> string \<Rightarrow> string \<Rightarrow> unit result" where
  "MsgAttach_ValidateBasic cfg c from tokenId toTokenId =
     bindE (col_ValidateContractID c) (\<lambda>_.
     bindE (validAddr cfg from) (\<lambda>_.
     bindE (ValidateTokenID tokenId) (\<lambda>_.
     bindE (ValidateTokenID toTokenId) (\<lambda>_.
       if tokenId = toTokenId then Inl (Error ErrInvalidRequest ''cannot attach token to itself'') else Inr ()))))"

definition MsgDetach_ValidateBasic :: "Config \<Rightarrow> string \<Rightarrow> string \<Rightarrow> string \<Rightarrow> unit result" where
  "MsgDetach_ValidateBasic cfg c from tokenId =
     bindE (col_ValidateContractID c) (\<lambda>_. bindE (validAddr cfg from) (\<lambda>_. ValidateTokenID tokenId))"

definition MsgAttachFrom_ValidateBasic :: "Config \<Rightarrow> string \<Rightarrow> string \<Rightarrow> string \<Rightarrow> string \<Rightarrow> string \<Rightarrow> unit result" where
  "MsgAttachFrom_ValidateBasic cfg c proxy from tokenId toTokenId =
     bindE (col_ValidateContractID c) (\<lambda>_.
     bindE (validAddr cfg proxy) (\<lambda>_.
     bindE (validAddr cfg from) (\<lambda>_.
     bindE (ValidateTokenID tokenId) (\<lambda>_.
     bindE (ValidateTokenID toTokenId) (\<lambda>_.
       if tokenId = toTokenId then Inl (Error ErrInvalidRequest ''cannot attach token to itself'') else Inr ())))))"

definition MsgDetachFrom_ValidateBasic :: "Config \<Rightarrow> string \<Rightarrow> string \<Rightarrow> string \<Rightarrow> string \<Rightarrow> unit result" where
  "MsgDetachFrom_ValidateBasic cfg c proxy from tokenId =
     bindE (col_ValidateContractID c) (\<lambda>_.
     bindE (validAddr cfg proxy) (\<lambda>_.
     bindE (validAddr cfg from) (\<lambda>_. ValidateTokenID tokenId)))"

fun ColMsg_ValidateBasic :: "Config \<Rightarrow> ColMsg \<Rightarrow> unit result" where
  "ColMsg_ValidateBasic cfg (MsgCreateContract owner name uri meta) =
     MsgCreateContract_ValidateBasic cfg owner name uri meta"
| "ColMsg_ValidateBasic cfg (MsgTransferFT c from dst amount) = MsgTransferFT_ValidateBasic cfg c from dst amount"
| "ColMsg_ValidateBasic cfg (MsgTransferFTFrom c proxy from dst amount) =
     MsgTransferFTFrom_ValidateBasic cfg c proxy from dst amount"
| "ColMsg_ValidateBasic cfg (MsgTransferNFT c from dst is) = MsgTransferNFT_ValidateBasic cfg c from dst is"
| "ColMsg_ValidateBasic cfg (MsgTransferNFTFrom c proxy from dst is) =
     MsgTransferNFTFrom_ValidateBasic cfg c proxy from dst is"
| "ColMsg_ValidateBasic cfg (MsgColApprove c approver proxy) = MsgColApprove_ValidateBasic cfg c approver proxy"
| "ColMsg_ValidateBasic cfg (MsgDisapprove c approver proxy) = MsgDisapprove_ValidateBasic cfg c approver proxy"
| "ColMsg_ValidateBasic cfg (MsgIssueFT c name meta decimals mintable owner dst amount) =
     MsgIssueFT_ValidateBasic cfg c name meta decimals mintable owner dst amount"
| "ColMsg_ValidateBasic cfg (MsgIssueNFT c name meta owner) = MsgIssueNFT_ValidateBasic cfg c name meta owner"
| "ColMsg_ValidateBasic cfg (MsgMintFT c from dst amount) = MsgMintFT_ValidateBasic cfg c from dst amount"
| "ColMsg_ValidateBasic cfg (MsgMintNFT c from dst params) = MsgMintNFT_ValidateBasic cfg c from dst params"
| "ColMsg_ValidateBasic cfg (MsgBurnFT c from amount) = MsgBurnFT_ValidateBasic cfg c from amount"
| "ColMsg_ValidateBasic cfg (MsgBurnFTFrom c proxy from amount) =
     MsgBurnFTFrom_ValidateBasic cfg c proxy from amount"
| "ColMsg_ValidateBasic cfg (MsgBurnNFT c from is) = MsgBurnNFT_ValidateBasic cfg c from is"
| "ColMsg_ValidateBasic cfg (MsgBurnNFTFrom c proxy from is) = MsgBurnNFTFrom_ValidateBasic cfg c proxy from is"
| "ColMsg_ValidateBasic cfg (MsgColModify c owner tokenType tokenIndex changes) =
     MsgColModify_ValidateBasic cfg c owner tokenType tokenIndex changes"
| "ColMsg_ValidateBasic cfg (MsgColGrantPermission c from dst p) =
     MsgColGrantPermission_ValidateBasic cfg c from dst p"
| "ColMsg_ValidateBasic cfg (MsgColRevokePermission c from p) = MsgColRevokePermission_ValidateBasic cfg c from p"
| "ColMsg_ValidateBasic cfg (MsgAttach c from i j) = MsgAttach_ValidateBasic cfg c from i j"
| "ColMsg_ValidateBasic cfg (MsgDetach c from i) = MsgDetach_ValidateBasic cfg c from i"
| "ColMsg_ValidateBasic cfg (MsgAttachFrom c proxy from i j) = MsgAttachFrom_ValidateBasic cfg c proxy from i j"
| "ColMsg_ValidateBasic cfg (MsgDetachFrom c proxy from i) = MsgDetachFrom_ValidateBasic cfg c proxy from i"

text \<open>The field the signer is read from, and the signer; an unreadable address is nil.\<close>

fun col_signer_text :: "ColMsg \<Rightarrow> string" where
  "col_signer_text (MsgCreateContract owner name uri meta) = owner"
| "col_signer_text (MsgTransferFT c from dst amount) = from"
| "col_signer_text (MsgTransferFTFrom c proxy from dst amount) = proxy"
| "col_signer_text (MsgTransferNFT c from dst is) = from"
| "col_signer_text (MsgTransferNFTFrom c proxy from dst is) = proxy"
| "col_signer_text (MsgColApprove c approver proxy) = approver"
| "col_signer_text (MsgDisapprove c approver proxy) = approver"
| "col_signer_text (MsgIssueFT c name meta decimals mintable owner dst amount) = owner"
| "col_signer_text (MsgIssueNFT c name meta owner) = owner"
| "col_signer_text (MsgMintFT c from dst amount) = from"
| "col_signer_text (MsgMintNFT c from dst params) = from"
| "col_signer_text (MsgBurnFT c from amount) = from"
| "col_signer_text (MsgBurnFTFrom c proxy from amount) = proxy"
| "col_signer_text (MsgBurnNFT c from is) = from"
| "col_signer_text (MsgBurnNFTFrom c proxy from is) = proxy"
| "col_signer_text (MsgColModify c owner tokenType tokenIndex changes) = owner"
| "col_signer_text (MsgColGrantPermission c from dst p) = from"
| "col_signer_text (MsgColRevokePermission c from p) = from"
| "col_signer_text (MsgAttach c from i j) = from"
| "col_signer_text (MsgDetach c from i) = from"
| "col_signer_text (MsgAttachFrom c proxy from i j) = proxy"
| "col_signer_text (MsgDetachFrom c proxy from i) = proxy"

definition col_GetSigners :: "Config \<Rightarrow> ColMsg \<Rightarrow> AccAddress list" where
  "col_GetSigners cfg m = [case AccAddressFromBech32 cfg (col_signer_text m) of Inl _ \<Rightarrow> [] | Inr a \<Rightarrow> a]"

subsection \<open>The message server\<close>

text \<open>The legacy event of a transfer of fungible tokens is dereferenced without a check for nil.\<close>

definition derefEvent :: "SdkEvent option \<Rightarrow> SdkEvent result" where
  "derefEvent e = (case e of None \<Rightarrow> Inl (Panic ''nil pointer dereference'') | Some x \<Rightarrow> Inr x)"

definition col_authorized :: "ColState \<Rightarrow> string \<Rightarrow> AccAddress \<Rightarrow> AccAddress \<Rightarrow> unit result" where
  "col_authorized s c holder operator =
     wrapE ErrUnauthorized ''no authorization'' (col_GetAuthorization s c holder operator)"

definition col_granted :: "ColState \<Rightarrow> string \<Rightarrow> AccAddress \<Rightarrow> ColPermission \<Rightarrow> unit result" where
  "col_granted s c grantee permission =
     wrapE ErrUnauthorized ''no permission granted'' (col_GetGrant s c grantee permission)"

definition one_coins :: "string list \<Rightarrow> ColCoin list" where
  "one_coins = map (\<lambda>i. \<lparr>TokenId = i, TokenAmount = 1\<rparr>)"

definition msg_TransferFT :: "Config \<Rightarrow> string \<Rightarrow> string \<Rightarrow> string \<Rightarrow> ColCoin list \<Rightarrow> ColState \<Rightarrow> ColState result" where
  "msg_TransferFT cfg c fromS dstS amount s =
     bindE (AccAddressFromBech32 cfg fromS) (\<lambda>from.
     bindE (AccAddressFromBech32 cfg dstS) (\<lambda>dst.
     bindE (col_SendCoins cfg c from dst amount s) (\<lambda>s1.
     bindE (derefEvent (NewEventTransferFT c fromS fromS dstS amount)) (\<lambda>e.
       Inr (emitTypedEvent (ColSent c fromS fromS dstS amount) (emitEvent e s1))))))"

definition msg_TransferFTFrom :: "Config \<Rightarrow> string \<Rightarrow> string \<Rightarrow> string \<Rightarrow> string \<Rightarrow> ColCoin list \<Rightarrow> ColState \<Rightarrow> ColState result" where
  "msg_TransferFTFrom cfg c proxyS fromS dstS amount s =
     bindE (AccAddressFromBech32 cfg fromS) (\<lambda>from.
     bindE (AccAddressFromBech32 cfg proxyS) (\<lambda>proxy.
     bindE (col_authorized s c from proxy) (\<lambda>_.
     bindE (AccAddressFromBech32 cfg dstS) (\<lambda>dst.
     bindE (col_SendCoins cfg c from dst amount s) (\<lambda>s1.
     bindE (derefEvent (NewEventTransferFTFrom c proxyS fromS dstS amount)) (\<lambda>e.
       Inr (emitTypedEvent (ColSent c proxyS fromS dstS amount) (emitEvent e s1))))))))"

definition msg_TransferNFT :: "Config \<Rightarrow> string \<Rightarrow> string \<Rightarrow> string \<Rightarrow> string list \<Rightarrow> ColState \<Rightarrow> ColState result" where
  "msg_TransferNFT cfg c fromS dstS tokenIds s =
     (let amount = one_coins tokenIds;
          s0 = emitEvents (NewEventTransferNFT c fromS fromS dstS amount) s in
      bindE (AccAddressFromBech32 cfg fromS) (\<lambda>from.
      bindE (AccAddressFromBech32 cfg dstS) (\<lambda>dst.
      bindE (col_SendCoins cfg c from dst amount s0) (\<lambda>s1.
        Inr (emitTypedEvent (ColSent c fromS fromS dstS amount) s1)))))"

definition msg_TransferNFTFrom :: "Config \<Rightarrow> string \<Rightarrow> string \<Rightarrow> string \<Rightarrow> string \<Rightarrow> string list \<Rightarrow> ColState \<Rightarrow> ColState result" where
  "msg_TransferNFTFrom cfg c proxyS fromS dstS tokenIds s =
     (let amount = one_coins tokenIds in
      bindE (AccAddressFromBech32 cfg fromS) (\<lambda>from.
      bindE (AccAddressFromBech32 cfg proxyS) (\<lambda>proxy.
      bindE (col_authorized s c from proxy) (\<lambda>_.
      let s0 = emitEvents (NewEventTransferNFTFrom c proxyS fromS dstS amount) s in
      bindE (AccAddressFromBech32 cfg dstS) (\<lambda>dst.
      bindE (col_SendCoins cfg c from dst amount s0) (\<lambda>s1.
        Inr (emitTypedEvent (ColSent c proxyS fromS dstS amount) s1)))))))"

definition col_msg_Approve :: "Config \<Rightarrow> string \<Rightarrow> string \<Rightarrow> string \<Rightarrow> ColState \<Rightarrow> ColState result" where
  "col_msg_Approve cfg c approverS proxyS s =
     bindE (AccAddressFromBech32 cfg approverS) (\<lambda>approver.
     bindE (AccAddressFromBech32 cfg proxyS) (\<lambda>proxy.
     bindE (col_AuthorizeOperator c approver proxy s) (\<lambda>s1.
       Inr (emitTypedEvent (ColAuthorizedOperator c approverS proxyS) s1))))"

definition msg_Disapprove :: "Config \<Rightarrow> string \<Rightarrow> string \<Rightarrow> string \<Rightarrow> ColState \<Rightarrow> ColState result" where
  "msg_Disapprove cfg c approverS proxyS s =
     bindE (AccAddressFromBech32 cfg approverS) (\<lambda>approver.
     bindE (AccAddressFromBech32 cfg proxyS) (\<lambda>proxy.
     bindE (col_RevokeOperator c approver proxy s) (\<lambda>s1.
       Inr (emitTypedEvent (ColRevokedOperator c approverS proxyS) s1))))"

definition msg_CreateContract :: "Config \<Rightarrow> string \<Rightarrow> string \<Rightarrow> string \<Rightarrow> string \<Rightarrow> ColState \<Rightarrow> ColState result" where
  "msg_CreateContract cfg ownerS name uri meta s =
     (let contract = \<lparr>colContractId = [], colName = name, colMeta = meta, colBaseImgUri = uri\<rparr> in
      bindE (AccAddressFromBech32 cfg ownerS) (\<lambda>owner.
      bindE (CreateContract cfg owner contract s) (\<lambda>(_, s1). Inr s1)))"

definition msg_IssueFT :: "Config \<Rightarrow> string \<Rightarrow> string \<Rightarrow> string \<Rightarrow> 32 word \<Rightarrow> bool \<Rightarrow> string \<Rightarrow> string \<Rightarrow> SdkInt
    \<Rightarrow> ColState \<Rightarrow> ColState result" where
  "msg_IssueFT cfg c name meta decimals mintable ownerS dstS amount s =
     bindE (AccAddressFromBech32 cfg ownerS) (\<lambda>owner.
     bindE (col_granted s c owner ColPermissionIssue) (\<lambda>_.
     let class = FTClass \<lparr>ftId = [], ftName = name, ftMeta = meta, ftDecimals = decimals, ftMintable = mintable\<rparr> in
     bindE (CreateTokenClass c class s) (\<lambda>(i, s1).
     bindE (AccAddressFromBech32 cfg dstS) (\<lambda>dst.
     bindE (NewEventIssueFT cfg c ownerS i name meta decimals mintable dst amount) (\<lambda>e.
     let s2 = emitTypedEvent (ColCreatedFTClass c ownerS i name meta decimals mintable) (emitEvent e s1) in
     if Int_IsPositive amount then
       bindE (mintFT c dst i amount s2) (\<lambda>s3.
       bindE (NewFTCoin i amount) (\<lambda>coin.
       bindE (NewColCoins [coin]) (\<lambda>coins.
         Inr (emitTypedEvent (ColMintedFT c ownerS dstS coins) s3))))
     else Inr s2)))))"

definition msg_IssueNFT :: "Config \<Rightarrow> string \<Rightarrow> string \<Rightarrow> string \<Rightarrow> string \<Rightarrow> ColState \<Rightarrow> ColState result" where
  "msg_IssueNFT cfg c name meta ownerS s =
     bindE (AccAddressFromBech32 cfg ownerS) (\<lambda>owner.
     bindE (col_granted s c owner ColPermissionIssue) (\<lambda>_.
     let class = NFTClass \<lparr>nftcId = [], nftcName = name, nftcMeta = meta\<rparr> in
     bindE (CreateTokenClass c class s) (\<lambda>(i, s1).
     let s2 = emitTypedEvent (ColCreatedNFTClass c ownerS i name meta)
                (emitEvent (NewEventIssueNFT c ownerS i name meta) s1) in
     foldE (col_Grant cfg c [] owner) [ColPermissionMint, ColPermissionBurn] s2)))"

definition msg_MintFT :: "Config \<Rightarrow> string \<Rightarrow> string \<Rightarrow> string \<Rightarrow> ColCoin list \<Rightarrow> ColState \<Rightarrow> ColState result" where
  "msg_MintFT cfg c fromS dstS amount s =
     bindE (AccAddressFromBech32 cfg fromS) (\<lambda>from.
     bindE (col_granted s c from ColPermissionMint) (\<lambda>_.
     bindE (AccAddressFromBech32 cfg dstS) (\<lambda>dst.
     bindE (MintFT c dst amount s) (\<lambda>s1.
       Inr (emitTypedEvent (ColMintedFT c fromS dstS amount)
             (emitEvent (NewEventMintFT c fromS dstS amount) s1))))))"

definition msg_MintNFT :: "Config \<Rightarrow> string \<Rightarrow> string \<Rightarrow> string \<Rightarrow> MintNFTParam list \<Rightarrow> ColState \<Rightarrow> ColState result" where
  "msg_MintNFT cfg c fromS dstS params s =
     bindE (AccAddressFromBech32 cfg fromS) (\<lambda>from.
     bindE (col_granted s c from ColPermissionMint) (\<lambda>_.
     bindE (AccAddressFromBech32 cfg dstS) (\<lambda>dst.
     bindE (MintNFT c dst params s) (\<lambda>(tokens, s1).
       Inr (emitTypedEvent (ColMintedNFT c fromS dstS tokens)
             (emitEvents (NewEventMintNFT c fromS dstS tokens) s1))))))"

definition emit_option :: "SdkEvent option \<Rightarrow> ColState \<Rightarrow> ColState" where
  "emit_option e s = (case e of None \<Rightarrow> s | Some x \<Rightarrow> emitEvent x s)"

definition msg_BurnFT :: "Config \<Rightarrow> string \<Rightarrow> string \<Rightarrow> ColCoin list \<Rightarrow> ColState \<Rightarrow> ColState result" where
  "msg_BurnFT cfg c fromS amount s =
     bindE (AccAddressFromBech32 cfg fromS) (\<lambda>from.
     bindE (col_granted s c from ColPermissionBurn) (\<lambda>_.
     bindE (col_BurnCoins c from amount s) (\<lambda>(burnt, s1).
       Inr (emitTypedEvent (ColBurned c fromS fromS burnt)
             (emit_option (NewEventBurnFT c fromS fromS burnt) s1)))))"

definition msg_BurnFTFrom :: "Config \<Rightarrow> string \<Rightarrow> string \<Rightarrow> string \<Rightarrow> ColCoin list \<Rightarrow> ColState \<Rightarrow> ColState result" where
  "msg_BurnFTFrom cfg c proxyS fromS amount s =
     bindE (AccAddressFromBech32 cfg fromS) (\<lambda>from.
     bindE (AccAddressFromBech32 cfg proxyS) (\<lambda>proxy.
     bindE (col_authorized s c from proxy) (\<lambda>_.
     bindE (col_granted s c proxy ColPermissionBurn) (\<lambda>_.
     bindE (col_BurnCoins c from amount s) (\<lambda>(burnt, s1).
       Inr (emitTypedEvent (ColBurned c proxyS fromS burnt)
             (emit_option (NewEventBurnFTFrom c proxyS fromS burnt) s1)))))))"

definition msg_BurnNFT :: "Config \<Rightarrow> string \<Rightarrow> string \<Rightarrow> string list \<Rightarrow> ColState \<Rightarrow> ColState result" where
  "msg_BurnNFT cfg c fromS tokenIds s =
     bindE (AccAddressFromBech32 cfg fromS) (\<lambda>from.
     bindE (col_granted s c from ColPermissionBurn) (\<lambda>_.
     bindE (mapE (\<lambda>i. NewColCoin i 1) tokenIds) (\<lambda>coins.
     let s0 = emitEvents (NewEventBurnNFT c fromS fromS coins) s in
     bindE (col_BurnCoins c from coins s0) (\<lambda>(burnt, s1).
       Inr (emitTypedEvent (ColBurned c fromS fromS burnt) s1)))))"

definition msg_BurnNFTFrom :: "Config \<Rightarrow> string \<Rightarrow> string \<Rightarrow> string \<Rightarrow> string list \<Rightarrow> ColState \<Rightarrow> ColState result" where
  "msg_BurnNFTFrom cfg c proxyS fromS tokenIds s =
     bindE (AccAddressFromBech32 cfg fromS) (\<lambda>from.
     bindE (AccAddressFromBech32 cfg proxyS) (\<lambda>proxy.
     bindE (col_authorized s c from proxy) (\<lambda>_.
     bindE (col_granted s c proxy ColPermissionBurn) (\<lambda>_.
     bindE (mapE (\<lambda>i. NewColCoin i 1) tokenIds) (\<lambda>coins.
     let s0 = emitEvents (NewEventBurnNFTFrom c proxyS fromS coins) s in
     bindE (col_BurnCoins c from coins s0) (\<lambda>(burnt, s1).
       Inr (emitTypedEvent (ColBurned c proxyS fromS burnt) s1)))))))"

text \<open>
  The handler copies the field of a change into both the key and the value. It emits its
  typed event, and the keeper emits one of its own.
\<close>

definition modify_attributes :: "ColAttribute list \<Rightarrow> ColAttribute list" where
  "modify_attributes changes = map (\<lambda>change. (fst change, fst change)) changes"

definition col_msg_Modify :: "Config \<Rightarrow> string \<Rightarrow> string \<Rightarrow> string \<Rightarrow> string \<Rightarrow> ColAttribute list \<Rightarrow> ColState \<Rightarrow> ColState result" where
  "col_msg_Modify cfg c ownerS tokenType tokenIndex changes0 s =
     bindE (AccAddressFromBech32 cfg ownerS) (\<lambda>operator.
     bindE (col_granted s c operator ColPermissionModify) (\<lambda>_.
     let changes = modify_attributes changes0; classID = tokenType; tokenID = classID @ tokenIndex in
     if tokenType \<noteq> [] then
       if tokenIndex \<noteq> [] then
         if passes (ValidateNFTID tokenID) then
           bindE (AccAddress_String cfg operator) (\<lambda>opr.
           ModifyNFT cfg c tokenID operator changes
             (emitTypedEvent (ColModifiedNFT c tokenID opr changes)
               (emitEvents (NewEventModifyTokenOfNFT c tokenID opr changes) s)))
         else
           bindE (AccAddress_String cfg operator) (\<lambda>opr.
           bindE (NewEventModifyTokenOfFTClass c classID opr changes) (\<lambda>es.
           ModifyTokenClass cfg c classID operator changes
             (emitTypedEvent (ColModifiedTokenClass c classID opr changes ''lbm.collection.v1.FTClass'')
               (emitEvents es s))))
       else
         bindE (AccAddress_String cfg operator) (\<lambda>opr.
         ModifyTokenClass cfg c classID operator changes
           (emitTypedEvent (ColModifiedTokenClass c classID opr changes ''lbm.collection.v1.NFTClass'')
             (emitEvents (NewEventModifyTokenType c classID opr changes) s)))
     else if tokenIndex = [] then
       bindE (AccAddress_String cfg operator) (\<lambda>opr.
       ModifyContract cfg c operator changes
         (emitTypedEvent (ColModifiedContract c opr changes)
           (emitEvents (NewEventModifyCollection c opr changes) s)))
     else Inl (Error ErrInvalidRequest ''token index without type'')))"

definition col_msg_GrantPermission :: "Config \<Rightarrow> string \<Rightarrow> string \<Rightarrow> string \<Rightarrow> string \<Rightarrow> ColState \<Rightarrow> ColState result" where
  "col_msg_GrantPermission cfg c fromS dstS perm s =
     bindE (AccAddressFromBech32 cfg fromS) (\<lambda>granter.
     bindE (AccAddressFromBech32 cfg dstS) (\<lambda>grantee.
     let permission = col_LegacyPermissionFromString perm in
     bindE (col_granted s c granter permission) (\<lambda>_.
       if passes (col_GetGrant s c grantee permission)
       then Inl (Error ErrInvalidRequest ''already granted'')
       else
         bindE (col_Grant cfg c granter grantee permission s) (\<lambda>s1.
         bindE (AccAddress_String cfg granter) (\<lambda>g.
         bindE (AccAddress_String cfg grantee) (\<lambda>e.
           Inr (emitEvent (col_NewEventGrantPermToken c g e permission) s1)))))))"

definition col_msg_RevokePermission :: "Config \<Rightarrow> string \<Rightarrow> string \<Rightarrow> string \<Rightarrow> ColState \<Rightarrow> ColState result" where
  "col_msg_RevokePermission cfg c fromS perm s =
     bindE (AccAddressFromBech32 cfg fromS) (\<lambda>grantee.
     let permission = col_LegacyPermissionFromString perm in
     bindE (wrapE ErrNotFound ''not authorized'' (col_GetGrant s c grantee permission)) (\<lambda>_.
     bindE (col_Abandon cfg c grantee permission s) (\<lambda>s1.
     bindE (AccAddress_String cfg grantee) (\<lambda>e.
       Inr (emitEvent (col_NewEventRevokePermToken c e permission) s1)))))"

definition msg_Attach :: "Config \<Rightarrow> string \<Rightarrow> string \<Rightarrow> string \<Rightarrow> string \<Rightarrow> ColState \<Rightarrow> ColState result" where
  "msg_Attach cfg c fromS tokenId toTokenId s =
     bindE (GetRoot s c toTokenId) (\<lambda>newRoot.
     let s0 = emitTypedEvent (ColAttached c fromS fromS tokenId toTokenId)
                (emitEvent (NewEventAttachToken c fromS fromS tokenId toTokenId newRoot) s) in
     bindE (AccAddressFromBech32 cfg fromS) (\<lambda>from. Attach c from tokenId toTokenId s0))"

definition msg_Detach :: "Config \<Rightarrow> string \<Rightarrow> string \<Rightarrow> string \<Rightarrow> ColState \<Rightarrow> ColState result" where
  "msg_Detach cfg c fromS tokenId s =
     bindE (hasNFT s c tokenId) (\<lambda>_.
     bindE (GetRoot s c tokenId) (\<lambda>oldRoot.
     bindE (GetParent s c tokenId) (\<lambda>parent.
     let s0 = emitTypedEvent (ColDetached c fromS fromS tokenId parent)
                (emitEvent (NewEventDetachToken c fromS fromS tokenId oldRoot) s) in
     bindE (AccAddressFromBech32 cfg fromS) (\<lambda>from. Detach c from tokenId s0))))"

definition msg_AttachFrom :: "Config \<Rightarrow> string \<Rightarrow> string \<Rightarrow> string \<Rightarrow> string \<Rightarrow> string \<Rightarrow> ColState \<Rightarrow> ColState result" where
  "msg_AttachFrom cfg c proxyS fromS tokenId toTokenId s =
     bindE (AccAddressFromBech32 cfg fromS) (\<lambda>from.
     bindE (AccAddressFromBech32 cfg proxyS) (\<lambda>proxy.
     bindE (col_authorized s c from proxy) (\<lambda>_.
     bindE (GetRoot s c toTokenId) (\<lambda>newRoot.
     let s0 = emitTypedEvent (ColAttached c proxyS fromS tokenId toTokenId)
                (emitEvent (NewEventAttachFrom c proxyS fromS tokenId toTokenId newRoot) s) in
     Attach c from tokenId toTokenId s0))))"

definition msg_DetachFrom :: "Config \<Rightarrow> string \<Rightarrow> string \<Rightarrow> string \<Rightarrow> string \<Rightarrow> ColState \<Rightarrow> ColState result" where
  "msg_DetachFrom cfg c proxyS fromS tokenId s =
     bindE (AccAddressFromBech32 cfg fromS) (\<lambda>from.
     bindE (AccAddressFromBech32 cfg proxyS) (\<lambda>proxy.
     bindE (col_authorized s c from proxy) (\<lambda>_.
     bindE (hasNFT s c tokenId) (\<lambda>_.
     bindE (GetRoot s c tokenId) (\<lambda>oldRoot.
     bindE (GetParent s c tokenId) (\<lambda>parent.
     let s0 = emitTypedEvent (ColDetached c proxyS fromS tokenId parent)
                (emitEvent (NewEventDetachFrom c proxyS fromS tokenId oldRoot) s) in
     Detach c from tokenId s0))))))"

fun col_handle :: "Config \<Rightarrow> ColMsg \<Rightarrow> ColState \<Rightarrow> ColState result" where
  "col_handle cfg (MsgCreateContract owner name uri meta) = msg_CreateContract cfg owner name uri meta"
| "col_handle cfg (MsgTransferFT c from dst amount) = msg_TransferFT cfg c from dst amount"
| "col_handle cfg (MsgTransferFTFrom c proxy from dst amount) = msg_TransferFTFrom cfg c proxy from dst amount"
| "col_handle cfg (MsgTransferNFT c from dst is) = msg_TransferNFT cfg c from dst is"
| "col_handle cfg (MsgTransferNFTFrom c proxy from dst is) = msg_TransferNFTFrom cfg c proxy from dst is"
| "col_handle cfg (MsgColApprove c approver proxy) = col_msg_Approve cfg c approver proxy"
| "col_handle cfg (MsgDisapprove c approver proxy) = msg_Disapprove cfg c approver proxy"
| "col_handle cfg (MsgIssueFT c name meta decimals mintable owner dst amount) =
     msg_IssueFT cfg c name meta decimals mintable owner dst amount"
| "col_handle cfg (MsgIssueNFT c name meta owner) = msg_IssueNFT cfg c name meta owner"
| "col_handle cfg (MsgMintFT c from dst amount) = msg_MintFT cfg c from dst amount"
| "col_handle cfg (MsgMintNFT c from dst params) = msg_MintNFT cfg c from dst params"
| "col_handle cfg (MsgBurnFT c from amount) = msg_BurnFT cfg c from amount"
| "col_handle cfg (MsgBurnFTFrom c proxy from amount) = msg_BurnFTFrom cfg c proxy from amount"
| "col_handle cfg (MsgBurnNFT c from is) = msg_BurnNFT cfg c from is"
| "col_handle cfg (MsgBurnNFTFrom c proxy from is) = msg_BurnNFTFrom cfg c proxy from is"
| "col_handle cfg (MsgColModify c owner tokenType tokenIndex changes) =
     col_msg_Modify cfg c owner tokenType tokenIndex changes"
| "col_handle cfg (MsgColGrantPermission c from dst p) = col_msg_GrantPermission cfg c from dst p"
| "col_handle cfg (MsgColRevokePermission c from p) = col_msg_RevokePermission cfg c from p"
| "col_handle cfg (MsgAttach c from i j) = msg_Attach cfg c from i j"
| "col_handle cfg (MsgDetach c from i) = msg_Detach cfg c from i"
| "col_handle cfg (MsgAttachFrom c proxy from i j) = msg_AttachFrom cfg c proxy from i j"
| "col_handle cfg (MsgDetachFrom c proxy from i) = msg_DetachFrom cfg c proxy from i"

definition DeliverColMsg :: "Config \<Rightarrow> ColMsg \<Rightarrow> ColState \<Rightarrow> ColState result" where
  "DeliverColMsg cfg m s = bindE (ColMsg_ValidateBasic cfg m) (\<lambda>_. col_handle cfg m s)"

end
