(* ===== verification/CollectionGenesis.thy ===== *)
theory CollectionGenesis
  imports CollectionMsg
begin

section \<open>Genesis of the collection module: x/collection/genesis.go, keeper/genesis.go, alias.go\<close>

text \<open>
  The genesis state, its validation, the initialisation of the store from it and the export of
  the store, and the states reached by delivering messages from the default genesis. The entries
  of a contract are a pair of its id and their list.
\<close>

record ColGenesis =
  cgParams :: ColParams
  cgContracts :: "Contract list"
  cgNextClassIds :: "NextClassIDs list"
  cgClasses :: "(string \<times> ColTokenClass list) list"
  cgNextTokenIds :: "(string \<times> (string \<times> SdkUint) list) list"
  cgBalances :: "(string \<times> (string \<times> ColCoin list) list) list"
  cgNfts :: "(string \<times> NFT list) list"
  cgParents :: "(string \<times> (string \<times> string) list) list"
  cgGrants :: "(string \<times> (string \<times> ColPermission) list) list"
  cgAuthorizations :: "(string \<times> (string \<times> string) list) list"
  cgSupplies :: "(string \<times> (string \<times> SdkInt) list) list"
  cgBurnts :: "(string \<times> (string \<times> SdkInt) list) list"

definition DefaultDepthLimit :: "32 word" where "DefaultDepthLimit = 3"

definition DefaultWidthLimit :: "32 word" where "DefaultWidthLimit = 8"

definition col_DefaultGenesisState :: ColGenesis where
  "col_DefaultGenesisState =
     \<lparr>cgParams = \<lparr>DepthLimit = DefaultDepthLimit, WidthLimit = DefaultWidthLimit\<rparr>, cgContracts = [],
      cgNextClassIds = [], cgClasses = [], cgNextTokenIds = [], cgBalances = [], cgNfts = [], cgParents = [],
      cgGrants = [], cgAuthorizations = [], cgSupplies = [], cgBurnts = []\<rparr>"

subsection \<open>Validation\<close>

definition col_validateParams :: "ColParams \<Rightarrow> unit result" where
  "col_validateParams params = Inr ()"

text \<open>The checks of one contract's entries: its id, that there is an entry, each entry.\<close>

definition contract_entries :: "string \<Rightarrow> ('a \<Rightarrow> unit result) \<Rightarrow> (string \<times> 'a list) list \<Rightarrow> unit result" where
  "contract_entries what f =
     eachE (\<lambda>(c, es).
       bindE (col_ValidateContractID c) (\<lambda>_.
         if length es = 0 then Inl (Error ErrInvalidRequest (what @ '' cannot be empty'')) else eachE f es))"

definition col_ValidateGenesis :: "Config \<Rightarrow> ColGenesis \<Rightarrow> unit result" where
  "col_ValidateGenesis cfg d =
     bindE (col_validateParams (cgParams d)) (\<lambda>_.
     bindE (eachE (\<lambda>contract.
       bindE (col_ValidateContractID (colContractId contract)) (\<lambda>_.
       bindE (col_validateName (colName contract)) (\<lambda>_.
       bindE (validateBaseImgURI (colBaseImgUri contract)) (\<lambda>_. col_validateMeta (colMeta contract)))))
       (cgContracts d)) (\<lambda>_.
     bindE (eachE (\<lambda>nc. col_ValidateContractID (ncContractId nc)) (cgNextClassIds d)) (\<lambda>_.
     bindE (contract_entries ''classes'' TokenClass_ValidateBasic (cgClasses d)) (\<lambda>_.
     bindE (contract_entries ''next token ids'' (\<lambda>(classID, _). ValidateClassID classID) (cgNextTokenIds d)) (\<lambda>_.
     bindE (contract_entries ''balances'' (\<lambda>(a, amount).
       bindE (AccAddressFromBech32 cfg a) (\<lambda>_. ColCoins_ValidateBasic amount)) (cgBalances d)) (\<lambda>_.
     bindE (contract_entries ''nfts'' (\<lambda>token.
       bindE (ValidateTokenID (nftId token)) (\<lambda>_.
       bindE (col_validateName (nftName token)) (\<lambda>_. col_validateMeta (nftMeta token)))) (cgNfts d)) (\<lambda>_.
     bindE (contract_entries ''parents'' (\<lambda>(self, other).
       bindE (ValidateTokenID self) (\<lambda>_. ValidateTokenID other)) (cgParents d)) (\<lambda>_.
     bindE (contract_entries ''authorizations'' (\<lambda>(holder, operator).
       bindE (AccAddressFromBech32 cfg holder) (\<lambda>_.
       bindE (AccAddressFromBech32 cfg operator) (\<lambda>_. Inr ()))) (cgAuthorizations d)) (\<lambda>_.
     bindE (contract_entries ''grants'' (\<lambda>(grantee, permission).
       bindE (AccAddressFromBech32 cfg grantee) (\<lambda>_. col_ValidatePermission permission)) (cgGrants d)) (\<lambda>_.
     bindE (contract_entries ''supplies'' (\<lambda>(classID, amount).
       bindE (ValidateClassID classID) (\<lambda>_.
         guardE (Int_IsPositive amount) (Error ErrInvalidRequest ''supply must be positive''))) (cgSupplies d)) (\<lambda>_.
     contract_entries ''burnts'' (\<lambda>(classID, amount).
       bindE (ValidateClassID classID) (\<lambda>_.
         guardE (Int_IsPositive amount) (Error ErrInvalidRequest ''burnt must be positive'')))
       (cgBurnts d))))))))))))"

subsection \<open>Initialisation\<close>

definition panicAddr :: "Config \<Rightarrow> string \<Rightarrow> AccAddress result" where
  "panicAddr cfg a =
     (case AccAddressFromBech32 cfg a of Inl _ \<Rightarrow> Inl (Panic ''address'') | Inr x \<Rightarrow> Inr x)"

text \<open>A nested loop over the contracts and their entries.\<close>

definition eachContract :: "(string \<Rightarrow> 'a \<Rightarrow> ColState \<Rightarrow> ColState result) \<Rightarrow> (string \<times> 'a list) list \<Rightarrow> ColState
    \<Rightarrow> ColState result" where
  "eachContract f = foldE (\<lambda>(c, es). foldE (f c) es)"

definition init_class :: "string \<Rightarrow> ColTokenClass \<Rightarrow> ColState \<Rightarrow> ColState result" where
  "init_class c class s =
     (let s1 = setTokenClass c class s in
      case class of NFTClass nftClass \<Rightarrow> Inr (setLegacyTokenType c (nftcId nftClass) s1) | FTClass _ \<Rightarrow> Inr s1)"

definition init_coin :: "Config \<Rightarrow> string \<Rightarrow> string \<Rightarrow> ColCoin \<Rightarrow> ColState \<Rightarrow> ColState result" where
  "init_coin cfg c address coin s =
     bindE (panicAddr cfg address) (\<lambda>addr.
     let s1 = col_setBalance c addr (TokenId coin) (TokenAmount coin) s in
     Inr (if passes (ValidateNFTID (TokenId coin)) then setOwner c (TokenId coin) addr s1 else s1))"

definition init_supply :: "string \<Rightarrow> string \<times> SdkInt \<Rightarrow> ColState \<Rightarrow> ColState result" where
  "init_supply c e s =
     (let s1 = col_setSupply c (fst e) (snd e) s in
      bindE (Int_Add (snd e) (col_GetBurnt s1 c (fst e))) (\<lambda>minted. Inr (col_setMinted c (fst e) minted s1)))"

definition col_InitGenesis :: "Config \<Rightarrow> ColGenesis \<Rightarrow> ColState \<Rightarrow> ColState result" where
  "col_InitGenesis cfg d s0 =
     (let s1 = fold setNextClassIDs (cgNextClassIds d) (fold setContract (cgContracts d) (col_setParams (cgParams d) s0)) in
      bindE (eachContract init_class (cgClasses d) s1) (\<lambda>s2.
      bindE (eachContract (\<lambda>c (classID, i) st. Inr (setNextTokenID c classID i st)) (cgNextTokenIds d) s2) (\<lambda>s3.
      bindE (eachContract (\<lambda>c (address, amount). foldE (init_coin cfg c address) amount) (cgBalances d) s3) (\<lambda>s4.
      bindE (eachContract (\<lambda>c nft st. Inr (setNFT c nft st)) (cgNfts d) s4) (\<lambda>s5.
      bindE (eachContract (\<lambda>c (tokenID, parentID) st.
          Inr (setChild c parentID tokenID (setParent c tokenID parentID st))) (cgParents d) s5) (\<lambda>s6.
      bindE (eachContract (\<lambda>c (holder, operator) st.
          bindE (panicAddr cfg holder) (\<lambda>holderAddr.
          bindE (panicAddr cfg operator) (\<lambda>operatorAddr.
            Inr (col_setAuthorization c holderAddr operatorAddr st)))) (cgAuthorizations d) s6) (\<lambda>s7.
      bindE (eachContract (\<lambda>c (grantee, permission) st.
          bindE (panicAddr cfg grantee) (\<lambda>granteeAddr. Inr (col_setGrant c granteeAddr permission st)))
          (cgGrants d) s7) (\<lambda>s8.
      bindE (eachContract (\<lambda>c (classID, amount) st. Inr (col_setBurnt c classID amount st)) (cgBurnts d) s8) (\<lambda>s9.
      eachContract init_supply (cgSupplies d) s9)))))))))"

subsection \<open>Export\<close>

text \<open>
  The iterators over the entries of a contract, in the order of the keys. The one over balances
  builds a coin, which panics on an invalid one.
\<close>

definition iterateContractBalances :: "ColState \<Rightarrow> string \<Rightarrow> (AccAddress \<times> ColCoin) list result" where
  "iterateContractBalances s contractID =
     mapE (\<lambda>((c, a, tokenID), amount). bindE (NewColCoin tokenID amount) (\<lambda>coin. Inr (tl a, coin)))
       (filter (\<lambda>((c, a, tokenID), amount). c = contractID) (cBalances s))"

definition iterateContractClasses :: "ColState \<Rightarrow> string \<Rightarrow> ColTokenClass list" where
  "iterateContractClasses s contractID =
     map snd (filter (\<lambda>((c, _), _). c = contractID) (cClasses s))"

definition iterateContractNextTokenIDs :: "ColState \<Rightarrow> string \<Rightarrow> (string \<times> SdkUint) list" where
  "iterateContractNextTokenIDs s contractID =
     map (\<lambda>((_, classID), i). (classID, i)) (filter (\<lambda>((c, _), _). c = contractID) (cNextTokenIDs s))"

definition iterateContractNFTs :: "ColState \<Rightarrow> string \<Rightarrow> NFT list" where
  "iterateContractNFTs s contractID = map snd (filter (\<lambda>((c, _), _). c = contractID) (cNFTs s))"

definition iterateContractParents :: "ColState \<Rightarrow> string \<Rightarrow> (string \<times> string) list" where
  "iterateContractParents s contractID =
     map (\<lambda>((_, tokenID), parentID). (tokenID, parentID)) (filter (\<lambda>((c, _), _). c = contractID) (cParents s))"

definition iterateContractGrants :: "Config \<Rightarrow> ColState \<Rightarrow> string \<Rightarrow> (string \<times> ColPermission) list result" where
  "iterateContractGrants cfg s contractID =
     mapE (\<lambda>((c, grantee, permission), _).
       bindE (AccAddress_String cfg (tl grantee)) (\<lambda>g. Inr (g, permission)))
       (filter (\<lambda>((c, _), _). c = contractID) (cGrants s))"

definition iterateContractAuthorizations :: "Config \<Rightarrow> ColState \<Rightarrow> string \<Rightarrow> (string \<times> string) list result" where
  "iterateContractAuthorizations cfg s contractID =
     mapE (\<lambda>((c, operator, holder), _).
       bindE (AccAddress_String cfg holder) (\<lambda>h.
       bindE (AccAddress_String cfg (tl operator)) (\<lambda>opr. Inr (h, opr))))
       (filter (\<lambda>((c, _), _). c = contractID) (cAuthorizations s))"

definition iterateContractStatistics :: "(string \<times> string, SdkInt) store \<Rightarrow> string \<Rightarrow> (string \<times> SdkInt) list" where
  "iterateContractStatistics m contractID =
     map (\<lambda>((_, classID), amount). (classID, amount)) (filter (\<lambda>((c, _), _). c = contractID) m)"

text \<open>The balances of an address are gathered at the place of the first one.\<close>

fun add_balance :: "string \<Rightarrow> ColCoin \<Rightarrow> (string \<times> ColCoin list) list \<Rightarrow> (string \<times> ColCoin list) list" where
  "add_balance a coin [] = [(a, [coin])]"
| "add_balance a coin ((b, amount) # rest) =
     (if b = a then (b, amount @ [coin]) # rest else (b, amount) # add_balance a coin rest)"

definition getContractBalances :: "Config \<Rightarrow> ColState \<Rightarrow> string \<Rightarrow> (string \<times> ColCoin list) list result" where
  "getContractBalances cfg s contractID =
     bindE (iterateContractBalances s contractID) (\<lambda>bs.
     foldE (\<lambda>(address, coin) acc.
       bindE (AccAddress_String cfg address) (\<lambda>a. Inr (add_balance a coin acc))) bs [])"

text \<open>The entries of every contract that has some.\<close>

definition per_contract :: "(string \<Rightarrow> 'a list) \<Rightarrow> string list \<Rightarrow> (string \<times> 'a list) list" where
  "per_contract f cs = filter (\<lambda>(_, es). length es \<noteq> 0) (map (\<lambda>c. (c, f c)) cs)"

definition per_contractE :: "(string \<Rightarrow> 'a list result) \<Rightarrow> string list \<Rightarrow> (string \<times> 'a list) list result" where
  "per_contractE f cs =
     bindE (mapE (\<lambda>c. bindE (f c) (\<lambda>es. Inr (c, es))) cs) (\<lambda>r. Inr (filter (\<lambda>(_, es). length es \<noteq> 0) r))"

text \<open>The exported state does not set the parameters, which stay zero.\<close>

definition col_ExportGenesis :: "Config \<Rightarrow> ColState \<Rightarrow> ColGenesis result" where
  "col_ExportGenesis cfg s =
     (let contracts = map snd (cContracts s); cs = map colContractId contracts in
      bindE (per_contractE (getContractBalances cfg s) cs) (\<lambda>balances.
      bindE (per_contractE (iterateContractGrants cfg s) cs) (\<lambda>grants.
      bindE (per_contractE (iterateContractAuthorizations cfg s) cs) (\<lambda>authorizations.
        Inr \<lparr>cgParams = \<lparr>DepthLimit = 0, WidthLimit = 0\<rparr>, cgContracts = contracts,
          cgNextClassIds = map snd (cNextClassIDs s),
          cgClasses = per_contract (iterateContractClasses s) cs,
          cgNextTokenIds = per_contract (iterateContractNextTokenIDs s) cs,
          cgBalances = balances,
          cgNfts = per_contract (iterateContractNFTs s) cs,
          cgParents = per_contract (iterateContractParents s) cs,
          cgGrants = grants,
          cgAuthorizations = authorizations,
          cgSupplies = per_contract (iterateContractStatistics (cSupplies s)) cs,
          cgBurnts = per_contract (iterateContractStatistics (cBurnts s)) cs\<rparr>))))"

subsection \<open>Reachable states\<close>

text \<open>
  The class keeper, shared with the token module, is initialised by that module's genesis
  and may hand out ids to it between two messages. Runs start from the default genesis. The
  import of another one stores its entries as they are given and the validation does not
  compare them with each other, so that the properties of reachable states need not hold after
  it. That a message keeps them is proved for every state that has them, whatever it was
  imported from.
\<close>

definition empty_col_state :: "ClassState \<Rightarrow> ColState" where
  "empty_col_state cs =
     \<lparr>cParams = None, cContracts = [], cClasses = [], cNextClassIDs = [], cNextTokenIDs = [], cBalances = [],
      cOwners = [], cNFTs = [], cParents = [], cChildren = [], cAuthorizations = [], cGrants = [], cSupplies = [],
      cMinteds = [], cBurnts = [], cLegacyTokens = [], cLegacyTokenTypes = [], cClassState = cs,
      cAccounts = {}, cEvents = []\<rparr>"

inductive col_reachable :: "Config \<Rightarrow> ColState \<Rightarrow> bool" for cfg where
  genesis: "col_InitGenesis cfg col_DefaultGenesisState
      (empty_col_state (class_InitGenesis DefaultClassGenesisState \<lparr>nonce = None, ids = {}\<rparr>)) = Inr s
    \<Longrightarrow> col_reachable cfg s"
| deliver: "col_reachable cfg s \<Longrightarrow> DeliverColMsg cfg m s = Inr s' \<Longrightarrow> col_reachable cfg s'"
| other_class: "col_reachable cfg s \<Longrightarrow> NewID (cClassState s) = Inr (i, cs)
    \<Longrightarrow> col_reachable cfg (s\<lparr>cClassState := cs\<rparr>)"

end
