(* ===== verification/CollectionTree.thy ===== *)
theory CollectionTree
  imports CollectionGenesis
begin

section \<open>The tree of tokens\<close>

text \<open>
  The children entries of a contract form a relation. When it has no cycle and every parent
  entry has its child entry, every traversal of the keeper ends. The traversals of \<open>Attach\<close>
  run over the relation with the new edge: they end only when the edge closes no cycle.
\<close>

subsection \<open>The relation\<close>

definition kids :: "ColState \<Rightarrow> string \<Rightarrow> (string \<times> string) set" where
  "kids s c = {(child, parent). store_get (cChildren s) (c, parent, child) \<noteq> None}"

definition tree_ok :: "ColState \<Rightarrow> bool" where
  "tree_ok s \<longleftrightarrow>
     (\<forall>c. acyclic (kids s c) \<and> (\<forall>t p. store_get (cParents s) (c, t) = Some p \<longrightarrow> (t, p) \<in> kids s c))"

lemma store_get_None: "store_get s k = None \<longleftrightarrow> k \<notin> fst ` set s"
  by (simp add: store_get_def map_of_eq_None_iff)

lemma GetChildren_set: "set (GetChildren s c t) = {x. (x, t) \<in> kids s c}"
  by (auto simp: GetChildren_def kids_def store_get_None image_iff) force+

lemma finite_kids: "finite (kids s c)"
proof (rule finite_subset)
  show "kids s c \<subseteq> (\<lambda>((c, p, x), _). (x, p)) ` set (cChildren s)"
    by (force simp: kids_def store_get_None)
qed simp

lemma kids_cong: "cChildren s' = cChildren s \<Longrightarrow> kids s' c = kids s c"
  by (simp add: kids_def)

lemma tree_ok_cong: "cChildren s' = cChildren s \<Longrightarrow> cParents s' = cParents s \<Longrightarrow> tree_ok s' = tree_ok s"
  by (simp add: tree_ok_def kids_def)

lemma kids_setChild: "kids (setChild c p x s) c' = (if c' = c then insert (x, p) (kids s c) else kids s c')"
  by (auto simp: kids_def setChild_def store_get_set)

lemma kids_deleteChild: "kids (deleteChild c p x s) c' = (if c' = c then kids s c - {(x, p)} else kids s c')"
  by (auto simp: kids_def deleteChild_def store_get_delete)

lemma GetChildren_cong: "cChildren s' = cChildren s \<Longrightarrow> GetChildren s' c t = GetChildren s c t"
  by (simp add: GetChildren_def)

subsection \<open>Traversals end\<close>

lemma wf_kids: "acyclic (kids s c) \<Longrightarrow> wf (kids s c)"
  by (rule finite_acyclic_wf [OF finite_kids])

lemma iterateDescendants_ends:
  assumes "acyclic (kids s c)"
  shows "\<exists>ds. iterateDescendants s c t = Some ds"
proof -
  have "\<exists>ns u. walk (visit_children c) (with_depth 1 (GetChildren s c t)) s = Some (ns, u) \<and> u = s"
    by (rule walk_terminates [where R = "inv_image (kids s c) fst"])
      (use assms in \<open>auto simp: wf_kids visit_children_def with_depth_def GetChildren_set\<close>)
  then show ?thesis by (auto simp: iterateDescendants_def)
qed

lemma walk_parent_state: "walk (visit_parent c) work s = Some (ns, u) \<Longrightarrow> u = s"
  by (induction rule: walk_induct) (auto simp: visit_parent_def split: sum.splits)

lemma GetRoot_ends:
  assumes "acyclic (kids s c)" "\<And>t p. store_get (cParents s) (c, t) = Some p \<Longrightarrow> (t, p) \<in> kids s c"
  shows "\<exists>r. GetRoot s c t = Inr r"
proof -
  have "wf ((kids s c)\<inverse>)"
    using assms(1) by (intro finite_acyclic_wf) (simp_all add: finite_kids acyclic_converse)
  then have "\<exists>ns u. walk (visit_parent c) [t] s = Some (ns, u) \<and> u = s"
    by (rule walk_terminates) (use assms(2) in \<open>auto simp: visit_parent_def GetParent_def split: option.splits sum.splits\<close>)
  then show ?thesis by (auto simp: GetRoot_def iterateAncestors_def ended_def)
qed

lemma kids_visit_prune: "kids (snd (visit_prune c e s)) c' = (if c' = c then kids s c - {(snd e, fst e)} else kids s c')"
  by (simp add: visit_prune_def Let_def deleteNFT_def deleteParent_def kids_cong [of "_\<lparr>cNFTs := _\<rparr>"]
      kids_cong [of "_\<lparr>cParents := _\<rparr>"] kids_deleteChild)

lemma pruneNFT_ends:
  assumes "acyclic (kids s c)"
  shows "\<exists>b u. pruneNFT c t s = Some (b, u)"
proof -
  have "\<exists>ns u. walk (visit_prune c) (map (Pair t) (GetChildren s c t)) s = Some (ns, u) \<and> kids u c \<subseteq> kids s c"
  proof (rule walk_terminates [where R = "inv_image (kids s c) snd"])
    fix n u assume "kids u c \<subseteq> kids s c"
    then show "kids (snd (visit_prune c n u)) c \<subseteq> kids s c \<and>
        (\<forall>k\<in>set (fst (visit_prune c n u)). (k, n) \<in> inv_image (kids s c) snd)"
      using kids_visit_prune [of c n u c]
      by (auto simp: visit_prune_def Let_def GetChildren_set)
  qed (use assms in \<open>auto simp: wf_kids\<close>)
  then show ?thesis by (auto simp: pruneNFT_def)
qed

subsection \<open>Roots\<close>

definition pars :: "ColState \<Rightarrow> string \<Rightarrow> (string \<times> string) set" where
  "pars s c = {(t, p). store_get (cParents s) (c, t) = Some p}"

lemma walk_parent_nonempty: "walk (visit_parent c) (t # ts) s = Some (ns, u) \<Longrightarrow> ns \<noteq> []"
  by (auto simp: walk_Cons bind_eq_Some_conv)

lemma GetRoot_step:
  "GetRoot s c t = (case store_get (cParents s) (c, t) of None \<Rightarrow> Inr t | Some p \<Rightarrow> GetRoot s c p)"
proof (cases "store_get (cParents s) (c, t)")
  case None
  then show ?thesis
    by (simp add: GetRoot_def iterateAncestors_def ended_def walk_Cons visit_parent_def GetParent_def)
next
  case (Some p)
  then have "walk (visit_parent c) [t] s =
      (case walk (visit_parent c) [p] s of None \<Rightarrow> None | Some (ns, u) \<Rightarrow> Some (t # ns, u))"
    by (subst walk_Cons) (simp add: visit_parent_def GetParent_def split: Option.bind_splits)
  then show ?thesis
    using Some walk_parent_nonempty [of c p "[]" s]
    by (auto simp: GetRoot_def iterateAncestors_def ended_def split: option.splits prod.splits)
qed

lemma GetRoot_reaches:
  assumes "GetRoot s c t = Inr r"
  shows "(t, r) \<in> (pars s c)\<^sup>* \<and> store_get (cParents s) (c, r) = None"
proof -
  have main: "t = hd work \<longrightarrow> length work = 1 \<longrightarrow>
      ((t, last ns) \<in> (pars v c)\<^sup>* \<and> store_get (cParents v) (c, last ns) = None)"
    if "walk (visit_parent c) work v = Some (ns, u)" for work v ns u t
    using that
  proof (induction arbitrary: t rule: walk_induct)
    case (Cons n rest v ns u)
    show ?case
    proof (intro impI)
      assume t: "t = hd (n # rest)" and "length (n # rest) = 1"
      then have rest: "rest = []" by simp
      show "(t, last (n # ns)) \<in> (pars v c)\<^sup>* \<and> store_get (cParents v) (c, last (n # ns)) = None"
      proof (cases "store_get (cParents v) (c, n)")
        case None
        then show ?thesis using Cons.hyps t rest by (simp add: visit_parent_def GetParent_def)
      next
        case (Some p)
        then have v: "visit_parent c n v = ([p], v)" by (simp add: visit_parent_def GetParent_def)
        then have "ns \<noteq> []" using Cons.hyps rest walk_parent_nonempty by fastforce
        moreover have "(n, p) \<in> pars v c" using Some by (simp add: pars_def)
        ultimately show ?thesis using Cons.IH [of p] v t rest by (auto intro: converse_rtrancl_into_rtrancl)
      qed
    qed
  qed simp
  from assms obtain ns u where "walk (visit_parent c) [t] s = Some (ns, u)" "r = last ns"
    by (auto simp: GetRoot_def iterateAncestors_def ended_def split: option.splits)
  then show ?thesis using main [of "[t]" s ns u t] by simp
qed

lemma tree_ok_pars: "tree_ok s \<Longrightarrow> pars s c \<subseteq> kids s c"
  by (auto simp: tree_ok_def pars_def)

lemma tree_ok_acyclic: "tree_ok s \<Longrightarrow> acyclic (kids s c)"
  by (simp add: tree_ok_def)

subsection \<open>Attach and Detach\<close>

definition attached :: "string \<Rightarrow> string \<Rightarrow> string \<Rightarrow> ColState \<Rightarrow> ColState" where
  "attached c subject target s = setChild c target subject (setParent c subject target (deleteOwner c subject s))"

definition detached :: "string \<Rightarrow> AccAddress \<Rightarrow> string \<Rightarrow> string \<Rightarrow> ColState \<Rightarrow> ColState" where
  "detached c owner subject parent s = deleteChild c parent subject (setOwner c subject owner (deleteParent c subject s))"

lemma fold_events:
  assumes "\<And>d s. \<exists>ev. f d s = s\<lparr>cEvents := ev\<rparr>"
  shows "\<exists>ev. fold f ds s = s\<lparr>cEvents := ev\<rparr>"
proof (induction ds arbitrary: s)
  case Nil
  show ?case by (rule exI [of _ "cEvents s"]) simp
next
  case (Cons d ds)
  obtain ev where e: "f d s = s\<lparr>cEvents := ev\<rparr>" using assms by blast
  obtain ev' where "fold f ds (f d s) = (f d s)\<lparr>cEvents := ev'\<rparr>" using Cons by blast
  then show ?case by (intro exI [of _ ev']) (simp add: e)
qed

lemma emit_root_events: "\<exists>ev. fold (emit_root_changed c a b) ds s = s\<lparr>cEvents := ev\<rparr>"
  by (rule fold_events) (auto simp: emit_root_changed_def emitTypedEvent_def emitEvent_def)

lemma ended_Inr [simp]: "ended r = Inr x \<longleftrightarrow> r = Some x"
  by (auto simp: ended_def split: option.splits)

lemma hasNFT_Inr [simp]: "hasNFT s c t = Inr u \<longleftrightarrow> store_get (cNFTs s) (c, t) \<noteq> None"
  by (auto simp: hasNFT_def split: option.splits)

lemma getOwner_Inr [simp]: "getOwner s c t = Inr a \<longleftrightarrow> store_get (cOwners s) (c, t) = Some a"
  by (auto simp: getOwner_def split: option.splits)

lemma GetParent_Inr [simp]: "GetParent s c t = Inr p \<longleftrightarrow> store_get (cParents s) (c, t) = Some p"
  by (auto simp: GetParent_def split: option.splits)

lemma Attach_facts:
  assumes "Attach c owner subject target s = Inr s'"
  obtains rt ds ev where "0 < col_GetBalance s c owner subject" "store_get (cNFTs s) (c, target) \<noteq> None"
    "GetRoot s c target = Inr rt" "store_get (cOwners s) (c, rt) = Some owner" "rt \<noteq> subject"
    "validateDepthAndWidth (attached c subject target s) c rt = Inr ()"
    "iterateDescendants (attached c subject target s) c subject = Some ds"
    "s' = (attached c subject target s)\<lparr>cEvents := ev\<rparr>"
proof -
  obtain rt ds where r: "0 < col_GetBalance s c owner subject" "store_get (cNFTs s) (c, target) \<noteq> None"
    "GetRoot s c target = Inr rt" "store_get (cOwners s) (c, rt) = Some owner" "rt \<noteq> subject"
    "validateDepthAndWidth (attached c subject target s) c rt = Inr ()"
    "iterateDescendants (attached c subject target s) c subject = Some ds"
    "s' = fold (emit_root_changed c subject rt) ds (attached c subject target s)"
    using assms by (auto simp: Attach_def Let_def attached_def result_simps split: if_splits)
  obtain ev where "fold (emit_root_changed c subject rt) ds (attached c subject target s) =
      (attached c subject target s)\<lparr>cEvents := ev\<rparr>" using emit_root_events by blast
  then show ?thesis using that r by simp
qed

lemma Detach_facts:
  assumes "Detach c owner subject s = Inr s'"
  obtains parent rt ds ev where "store_get (cNFTs s) (c, subject) \<noteq> None"
    "store_get (cParents s) (c, subject) = Some parent" "GetRootOwner s c subject = Inr owner"
    "GetRoot (detached c owner subject parent s) c parent = Inr rt"
    "iterateDescendants (detached c owner subject parent s) c subject = Some ds"
    "s' = (detached c owner subject parent s)\<lparr>cEvents := ev\<rparr>"
proof -
  obtain parent rt ds where r: "store_get (cNFTs s) (c, subject) \<noteq> None"
    "store_get (cParents s) (c, subject) = Some parent" "GetRootOwner s c subject = Inr owner"
    "GetRoot (detached c owner subject parent s) c parent = Inr rt"
    "iterateDescendants (detached c owner subject parent s) c subject = Some ds"
    "s' = fold (emit_root_changed c rt subject) ds (detached c owner subject parent s)"
    using assms by (auto simp: Detach_def Let_def detached_def result_simps split: if_splits)
  obtain ev where "fold (emit_root_changed c rt subject) ds (detached c owner subject parent s) =
      (detached c owner subject parent s)\<lparr>cEvents := ev\<rparr>" using emit_root_events by blast
  then show ?thesis using that r by simp
qed

lemma kids_attached: "kids (attached c x t s) c' = (if c' = c then insert (x, t) (kids s c) else kids s c')"
  by (simp add: attached_def kids_setChild) (simp add: kids_def setParent_def deleteOwner_def)

lemma parents_attached: "store_get (cParents (attached c x t s)) k = (if k = (c, x) then Some t else store_get (cParents s) k)"
  by (simp add: attached_def setChild_def setParent_def deleteOwner_def store_get_set)

lemma cycle_diverges:
  assumes "(target, subject) \<in> (kids s c)\<^sup>*" "(target, rt) \<in> (kids s c)\<^sup>*"
  shows "iterateDescendants (attached c subject target s) c rt = None"
proof -
  let ?s = "attached c subject target s"
  let ?D = "{x. (subject, x) \<in> (kids ?s c)\<^sup>*}"
  have sub: "(kids s c)\<^sup>* \<subseteq> (kids ?s c)\<^sup>*" by (rule rtrancl_mono) (auto simp: kids_attached)
  have edge: "(subject, target) \<in> kids ?s c" by (simp add: kids_attached)
  have loop: "(subject, subject) \<in> (kids ?s c)\<^sup>+" using edge assms(1) sub by (meson rtrancl_into_trancl2 subsetD)
  have down: "\<exists>z \<in> ?D. (z, x) \<in> kids ?s c" if "x \<in> ?D" for x
  proof -
    have "(subject, x) \<in> (kids ?s c)\<^sup>+" using loop that by (auto dest: rtranclD)
    then show ?thesis by (auto dest: tranclD2)
  qed
  have rt: "rt \<in> ?D" using edge assms(2) sub by (auto intro: converse_rtrancl_into_rtrancl)
  have "walk (visit_children c) (with_depth 1 (GetChildren ?s c rt)) ?s = None"
  proof (rule walk_diverges [where okay = "\<lambda>u. u = ?s" and D = "{n. fst n \<in> ?D}"])
    fix n :: "string \<times> nat" and u assume "u = ?s"
    then show "snd (visit_children c n u) = ?s \<and>
        (n \<in> {n. fst n \<in> ?D} \<longrightarrow> set (fst (visit_children c n u)) \<inter> {n. fst n \<in> ?D} \<noteq> {})"
      using down [of "fst n"] by (force simp: visit_children_def with_depth_def GetChildren_set)
  next
    show "set (with_depth 1 (GetChildren ?s c rt)) \<inter> {n. fst n \<in> ?D} \<noteq> {}"
      using down [OF rt] by (force simp: with_depth_def GetChildren_set)
  qed simp
  then show ?thesis by (simp add: iterateDescendants_def)
qed

lemma tree_ok_attach:
  assumes "tree_ok s" "Attach c owner subject target s = Inr s'"
  shows "tree_ok s'"
proof -
  obtain rt ds ev where r: "GetRoot s c target = Inr rt"
    "validateDepthAndWidth (attached c subject target s) c rt = Inr ()"
    "s' = (attached c subject target s)\<lparr>cEvents := ev\<rparr>"
    using assms(2) by (metis Attach_facts)
  have "(pars s c)\<^sup>* \<subseteq> (kids s c)\<^sup>*" by (rule rtrancl_mono [OF tree_ok_pars [OF assms(1)]])
  then have "(target, rt) \<in> (kids s c)\<^sup>*" using GetRoot_reaches [OF r(1)] by blast
  then have no: "(target, subject) \<notin> (kids s c)\<^sup>*"
    using cycle_diverges [of target subject s c rt] r(2)
    by (auto simp: validateDepthAndWidth_def)
  have "acyclic (kids (attached c subject target s) c')" for c'
    using tree_ok_acyclic [OF assms(1)] no by (simp add: kids_attached)
  moreover have "(t, p) \<in> kids (attached c subject target s) c'"
    if "store_get (cParents (attached c subject target s)) (c', t) = Some p" for c' t p
    using that assms(1) by (cases "c' = c") (auto simp: tree_ok_def parents_attached kids_attached split: if_splits)
  ultimately have "tree_ok (attached c subject target s)" by (simp add: tree_ok_def)
  moreover have "tree_ok s' = tree_ok (attached c subject target s)" by (rule tree_ok_cong) (simp_all add: r(3))
  ultimately show ?thesis by simp
qed

lemma tree_ok_detached:
  assumes "tree_ok s" "store_get (cParents s) (c, subject) = Some parent"
  shows "tree_ok (detached c owner subject parent s)"
proof -
  have kids: "kids (detached c owner subject parent s) c' =
      (if c' = c then kids s c - {(subject, parent)} else kids s c')" for c'
    by (simp add: detached_def kids_deleteChild) (simp add: kids_def setOwner_def deleteParent_def)
  have parents: "store_get (cParents (detached c owner subject parent s)) k =
      (if k = (c, subject) then None else store_get (cParents s) k)" for k
    by (simp add: detached_def deleteChild_def setOwner_def deleteParent_def store_get_delete)
  have "acyclic (kids s c - {(subject, parent)})"
    using assms(1) by (rule acyclic_subset [OF tree_ok_acyclic]) auto
  then show ?thesis using assms(1) by (auto simp: tree_ok_def kids parents split: if_splits)
qed

lemma tree_ok_detach: "tree_ok s \<Longrightarrow> Detach c owner subject s = Inr s' \<Longrightarrow> tree_ok s'"
  by (erule Detach_facts) (auto simp: tree_ok_cong [of "_\<lparr>cEvents := _\<rparr>"] tree_ok_detached)

lemma tree_ok_visit_prune:
  assumes "tree_ok s"
  shows "tree_ok (snd (visit_prune c e s))"
proof -
  have "acyclic (kids s c - {(snd e, fst e)})"
    using assms by (rule acyclic_subset [OF tree_ok_acyclic]) auto
  then show ?thesis using assms
    by (auto simp: tree_ok_def kids_visit_prune)
      (auto simp: visit_prune_def Let_def deleteNFT_def deleteParent_def deleteChild_def store_get_delete
        split: if_splits)
qed

lemma tree_ok_prune: "tree_ok s \<Longrightarrow> pruneNFT c t s = Some (b, s') \<Longrightarrow> tree_ok s'"
  by (auto simp: pruneNFT_def elim!: walk_invariant intro: tree_ok_visit_prune)

end
