(* ===== verification/CollectionInv.thy ===== *)
theory CollectionInv
  imports CollectionTree
begin

section \<open>Invariants of the collection keeper\<close>

text \<open>
  What each operation of the keeper leaves alone, and the interface of an invariant: it does
  not depend on the parts of the store that carry no tokens, and every operation of the keeper
  that the handlers call keeps it. Then every message keeps it, and it holds in every state
  reached from genesis. A smaller interface has only the operations that move no tokens.
\<close>

subsection \<open>What the operations leave alone\<close>

text \<open>The parts of the store, grouped by the operations that change them.\<close>

definition admin_part where
  "admin_part s = (cParams s, cContracts s, cNextClassIDs s, cClassState s, cAuthorizations s, cGrants s)"

definition class_part where "class_part s = (cClasses s, cNextTokenIDs s)"

definition stat_part where "stat_part s = (cSupplies s, cMinteds s, cBurnts s)"

definition tree_part where "tree_part s = (cNFTs s, cParents s, cChildren s)"

lemmas parts = admin_part_def class_part_def stat_part_def tree_part_def

lemmas prims = emitEvent_def emitEvents_def emitTypedEvent_def createAccountOnAbsence_def setNFT_def deleteNFT_def
  setOwner_def deleteOwner_def setParent_def deleteParent_def setChild_def deleteChild_def setLegacyToken_def
  deleteLegacyToken_def setLegacyTokenType_def col_setBalance_def col_setAuthorization_def
  col_deleteAuthorization_def col_setSupply_def col_setMinted_def col_setBurnt_def col_setGrant_def
  col_deleteGrant_def col_grant_def setContract_def setNextClassIDs_def setTokenClass_def setNextTokenID_def
  col_setParams_def

text \<open>A transfer changes balances and owners only, an account may appear, events are added.\<close>

definition held where "held s = (admin_part s, class_part s, stat_part s, tree_part s)"

lemma held_balance [simp]: "held (col_setBalance c a i v s) = held s"
  by (simp add: held_def parts prims)

lemma held_owner [simp]: "held (setOwner c i a s) = held s"
  by (simp add: held_def parts prims)

lemma held_account [simp]: "held (createAccountOnAbsence a s) = held s"
  by (simp add: held_def parts prims)

lemma cOwners_balance: "cOwners (col_setBalance c a i v s) = cOwners s"
  by (simp add: prims)

lemma held_events [simp]: "held (s\<lparr>cEvents := ev\<rparr>) = held s"
  by (simp add: held_def parts)

lemma subtractCoins_held: "col_subtractCoins c a amount s = Inr s' \<Longrightarrow> held s' = held s \<and> cOwners s' = cOwners s"
  unfolding col_subtractCoins_def
  by (erule foldE_invariant) (auto simp: subtract_coin_def cOwners_balance split: if_splits)

lemma addCoins_held:
  assumes "col_addCoins c a amount s = Inr s'"
  shows "held s' = held s"
proof -
  obtain s1 where s1: "foldE (col_add_coin c a) amount s = Inr s1" "s' = createAccountOnAbsence a s1"
    using assms by (auto simp: col_addCoins_def)
  from s1(1) have "held s1 = held s"
    by (rule foldE_invariant) (auto simp: col_add_coin_def Let_def split: if_splits)
  then show ?thesis using s1(2) by simp
qed

lemma foldE_events:
  assumes "foldE f xs s = Inr s'" "\<And>x s s'. f x s = Inr s' \<Longrightarrow> \<exists>ev. s' = s\<lparr>cEvents := ev\<rparr>"
  shows "\<exists>ev. s' = s\<lparr>cEvents := ev\<rparr>"
proof -
  have "\<exists>ev. s = s\<lparr>cEvents := ev\<rparr>" by (rule exI [of _ "cEvents s"]) simp
  then show ?thesis by (rule foldE_invariant [OF assms(1)]) (auto dest!: assms(2))
qed

lemma send_legacy_events:
  assumes "send_legacy cfg c from dst coin s = Inr s'"
  shows "\<exists>ev. s' = s\<lparr>cEvents := ev\<rparr>"
proof (cases "passes (ValidateNFTID (TokenId coin))")
  case True
  then obtain ds where "foldE (\<lambda>d st. bindE (AccAddress_String cfg from) (\<lambda>f.
        bindE (AccAddress_String cfg dst) (\<lambda>t. Inr (emit_owner_changed c f t d st)))) ds s = Inr s'"
    using assms by (auto simp: send_legacy_def)
  then show ?thesis by (rule foldE_events) (auto simp: emit_owner_changed_def prims)
next
  case False
  then have "s' = s\<lparr>cEvents := cEvents s\<rparr>" using assms by (simp add: send_legacy_def)
  then show ?thesis by blast
qed

lemma col_SendCoins_run:
  assumes "col_SendCoins cfg c from dst amount s = Inr s'"
  obtains s1 s2 ev where "col_subtractCoins c from amount s = Inr s1" "col_addCoins c dst amount s1 = Inr s2"
    "s' = s2\<lparr>cEvents := ev\<rparr>"
proof -
  obtain s1 s2 where a: "col_subtractCoins c from amount s = Inr s1" "col_addCoins c dst amount s1 = Inr s2"
    "foldE (send_legacy cfg c from dst) amount s2 = Inr s'"
    using assms by (auto simp: col_SendCoins_def)
  from a(3) have "\<exists>ev. s' = s2\<lparr>cEvents := ev\<rparr>" by (rule foldE_events) (rule send_legacy_events)
  then show ?thesis using that a(1,2) by blast
qed

lemma SendCoins_held: "col_SendCoins cfg c from dst amount s = Inr s' \<Longrightarrow> held s' = held s"
  by (erule col_SendCoins_run) (auto dest!: addCoins_held subtractCoins_held)

text \<open>A mint changes balances, owners, tokens and statistics.\<close>

lemma mintFT_run:
  assumes "mintFT c dst k amount s = Inr s'"
  obtains i where "NewFTID k = Inr i" "s' = (col_setBalance c dst i amount s)\<lparr>
      cSupplies := setStatistic c k (col_GetSupply s c k + amount) (cSupplies s),
      cMinteds := setStatistic c k (col_GetMinted s c k + amount) (cMinteds s)\<rparr>"
  using assms
  by (auto simp: mintFT_def Let_def prims col_GetSupply_def col_GetMinted_def split: if_splits)

lemma Uint_Incr_Inr: "Uint_Incr n = Inr m \<longleftrightarrow> m = n + 1 \<and> 0 \<le> n + 1 \<and> n + 1 < 2 ^ 256"
  by (auto simp: Uint_Incr_def Uint_Add_def NewUintFromBigInt_def checkNewUint_def UintOverflow_def split: if_splits)

lemma Uint_Uint64_eq: "Uint_Uint64 n = Inr w \<longleftrightarrow> w = word_of_int n \<and> 0 \<le> n \<and> n < 2 ^ 64"
  by (auto simp: Uint_Uint64_def uint64_range_def)

lemma NewNFTID_eq: "NewNFTID k w = Inr (k @ hex8 w)"
proof -
  have "uint w < 2 ^ 64" using uint_lt2p [of w] by simp
  then show ?thesis
    by (simp add: NewNFTID_def NewUint_def NewUintFromBigInt_def checkNewUint_def UintOverflow_def newTokenID_def
        Uint_Uint64_def uint64_range_def)
qed

lemma hex8_0: "hex8 0 = patternZero"
proof -
  have "hex_text 0 = ''0''" by code_simp
  then show ?thesis by (simp add: hex8_def zero_pad_def lengthClassID_def patternZero_def numeral_eq_Suc)
qed

lemma NewFTID_eq: "NewFTID k = Inr (k @ patternZero)"
  by (simp add: NewFTID_def newTokenID_def Uint_Uint64_def uint64_range_def hex8_0)

lemma mint_nft_run:
  assumes "mint_nft_param c dst param (ts, s) = Inr (ts', s')"
  obtains cl n i where "store_get (cClasses s) (c, mpTokenType param) = Some (NFTClass cl)"
    "store_get (cNextTokenIDs s) (c, mpTokenType param) = Some n" "n < 2 ^ 64" "0 \<le> n"
    "i = mpTokenType param @ hex8 (word_of_int n)"
    "s' = setLegacyToken c i ((setNFT c \<lparr>nftId = i, nftName = mpName param, nftMeta = mpMeta param\<rparr>
      (setOwner c i dst (col_setBalance c dst i 1 (setNextTokenID c (mpTokenType param) (n + 1) s))))\<lparr>
      cSupplies := setStatistic c (mpTokenType param) (col_GetSupply s c (mpTokenType param) + 1) (cSupplies s),
      cMinteds := setStatistic c (mpTokenType param) (col_GetMinted s c (mpTokenType param) + 1) (cMinteds s)\<rparr>)"
proof -
  let ?k = "mpTokenType param"
  obtain cl where cl: "store_get (cClasses s) (c, ?k) = Some (NFTClass cl)"
    using assms by (auto simp: mint_nft_param_def Let_def GetTokenClass_def split: option.splits ColTokenClass.splits)
  obtain n where n: "store_get (cNextTokenIDs s) (c, ?k) = Some n" "0 \<le> n" "n < 2 ^ 64"
    using assms cl by (auto simp: mint_nft_param_def Let_def GetTokenClass_def getNextTokenID_def Uint_Uint64_eq
        split: option.splits)
  show ?thesis
    using assms that [OF cl n(1,3,2) refl] n
    by (simp add: mint_nft_param_def Let_def GetTokenClass_def cl getNextTokenID_def Uint_Incr_Inr Uint_Uint64_eq
        NewNFTID_eq)
      (simp add: prims col_GetSupply_def col_GetMinted_def)
qed

text \<open>A burn changes the tree, balances, owners and statistics.\<close>

definition burn_frame where "burn_frame s = (admin_part s, class_part s, cMinteds s, cBalances s)"

lemma burn_statistics_run:
  assumes "burn_statistics c coin s = Inr s'"
  obtains k where "SplitTokenID (TokenId coin) = Inr k" "s' = s\<lparr>
      cSupplies := setStatistic c k (col_GetSupply s c k - TokenAmount coin) (cSupplies s),
      cBurnts := setStatistic c k (col_GetBurnt s c k + TokenAmount coin) (cBurnts s)\<rparr>"
  using assms by (auto simp: burn_statistics_def Let_def prims col_GetSupply_def col_GetBurnt_def)

lemma pruneNFT_frame:
  assumes "pruneNFT c t s = Some (b, s')"
  shows "burn_frame s' = burn_frame s \<and> stat_part s' = stat_part s"
proof -
  obtain ns where w: "walk (visit_prune c) (map (Pair t) (GetChildren s c t)) s = Some (ns, s')"
    using assms by (auto simp: pruneNFT_def)
  show ?thesis
    by (rule walk_invariant [OF w]) (auto simp: visit_prune_def Let_def prims burn_frame_def parts)
qed

lemma burn_coin_run:
  assumes "burn_coin c coin acc = Inr acc'" "passes (ValidateNFTID (TokenId coin))"
  obtains ev pruned s3 coins where
    "pruneNFT c (TokenId coin) (deleteNFT c (TokenId coin) (deleteOwner c (TokenId coin) ((snd acc)\<lparr>cEvents := ev\<rparr>))) =
      Some (pruned, s3)"
    "mapE (\<lambda>i. NewColCoin i 1) pruned = Inr coins" "fst acc' = fst acc @ coin # coins"
    "snd acc' = deleteLegacyToken c (TokenId coin) s3"
proof -
  let ?f = "\<lambda>ds. fold (\<lambda>d. emitEvent (NewEventOperationBurnNFT c (fst d))) ds (snd acc)"
  obtain ds where ds: "iterateDescendants (snd acc) c (TokenId coin) = Some ds"
    using assms by (auto simp: burn_coin_def Let_def)
  obtain pruned s3 where p:
    "pruneNFT c (TokenId coin) (deleteNFT c (TokenId coin) (deleteOwner c (TokenId coin) (?f ds))) = Some (pruned, s3)"
    using assms ds by (auto simp: burn_coin_def Let_def)
  obtain coins where m: "mapE (\<lambda>i. NewColCoin i 1) pruned = Inr coins"
    using assms ds p by (auto simp: burn_coin_def Let_def)
  have acc': "acc' = (fst acc @ coin # coins, deleteLegacyToken c (TokenId coin) s3)"
    using assms ds p m by (simp add: burn_coin_def Let_def ended_def)
  have "\<exists>ev. ?f ds = (snd acc)\<lparr>cEvents := ev\<rparr>" by (rule fold_events) (auto simp: prims)
  then obtain ev where ev: "?f ds = (snd acc)\<lparr>cEvents := ev\<rparr>" by blast
  show ?thesis by (rule that [OF p [unfolded ev] m]) (simp_all add: acc')
qed

lemma burn_coin_frame:
  assumes "burn_coin c coin acc = Inr acc'"
  shows "burn_frame (snd acc') = burn_frame (snd acc) \<and> stat_part (snd acc') = stat_part (snd acc)"
proof (cases "passes (ValidateNFTID (TokenId coin))")
  case False
  then show ?thesis using assms by (auto simp: burn_coin_def Let_def)
next
  case True
  with assms show ?thesis
    by (rule burn_coin_run) (auto dest!: pruneNFT_frame simp: prims burn_frame_def parts)
qed

lemma BurnCoins_run:
  assumes "col_BurnCoins c from amount s = Inr (burnt, s')"
  obtains s1 s2 where "col_subtractCoins c from amount s = Inr s1" "foldE (burn_coin c) amount ([], s1) = Inr (burnt, s2)"
    "foldE (burn_statistics c) burnt s2 = Inr s'"
  using assms by (auto simp: col_BurnCoins_def)

subsection \<open>The interface of an invariant\<close>

definition tokens_part where
  "tokens_part s = (cClasses s, cNextClassIDs s, cNextTokenIDs s, cBalances s, cOwners s, cNFTs s, tree_part s,
     stat_part s, cClassState s)"

lemmas tokens_parts = tokens_part_def parts prims

definition coin_ok :: "ColCoin \<Rightarrow> bool" where
  "coin_ok coin \<longleftrightarrow> reTokenID (TokenId coin) \<and> 0 < TokenAmount coin"

locale col_frame =
  fixes I :: "ColState \<Rightarrow> bool"
  assumes side: "I s \<Longrightarrow> tokens_part s' = tokens_part s \<Longrightarrow> I s'"
    and new_id: "I s \<Longrightarrow> NewID (cClassState s) = Inr (i, cs) \<Longrightarrow> I (s\<lparr>cClassState := cs\<rparr>)"
    and contract: "I s \<Longrightarrow> createContract ct s = Inr (i, s') \<Longrightarrow> I s'"
    and create_class: "I s \<Longrightarrow> CreateTokenClass c cl s = Inr (i, s') \<Longrightarrow> I s'"
    and attach: "I s \<Longrightarrow> Attach c owner subject target s = Inr s' \<Longrightarrow> I s'"
    and detach: "I s \<Longrightarrow> Detach c owner subject s = Inr s' \<Longrightarrow> I s'"
    and modify_class: "I s \<Longrightarrow> (\<And>k v. (k, v) \<in> set changes \<Longrightarrow> v = k) \<Longrightarrow>
      ModifyTokenClass cfg c k operator changes s = Inr s' \<Longrightarrow> I s'"
    and modify_nft: "I s \<Longrightarrow> ModifyNFT cfg c i operator changes s = Inr s' \<Longrightarrow> I s'"

locale col_invariant = col_frame +
  assumes send: "I s \<Longrightarrow> list_all coin_ok amount \<Longrightarrow> col_SendCoins cfg c from dst amount s = Inr s' \<Longrightarrow> I s'"
    and mint_ft: "I s \<Longrightarrow> store_get (cClasses s) (c, k) = Some (FTClass f) \<Longrightarrow> 0 < n \<Longrightarrow>
      mintFT c dst k n s = Inr s' \<Longrightarrow> I s'"
    and mint_nft: "I s \<Longrightarrow> mint_nft_param c dst param (ts, s) = Inr (ts', s') \<Longrightarrow> I s'"
    and burn: "I s \<Longrightarrow> list_all coin_ok amount \<Longrightarrow> col_BurnCoins c from amount s = Inr (burnt, s') \<Longrightarrow> I s'"

lemma eachE_Inr: "eachE f xs = Inr u \<longleftrightarrow> (\<forall>x \<in> set xs. f x = Inr ())"
  by (induction xs) (auto simp: eachE_def)

lemma ValidateTokenID_Inr [simp]: "ValidateTokenID i = Inr u \<longleftrightarrow> reTokenID i"
  by (simp add: ValidateTokenID_def validateID_def)

lemma validateCoins_Inr: "validateCoins amount = Inr u \<longleftrightarrow> list_all coin_ok amount"
  by (induction amount) (auto simp: validateCoins_def validateCoinsWithIDValidator_def coin_ok_def col_validateAmount_def
      Int_IsPositive_def split: if_splits)

lemma one_coins_ok: "eachE ValidateTokenID tokenIds = Inr u \<Longrightarrow> list_all coin_ok (one_coins tokenIds)"
  by (auto simp: eachE_Inr one_coins_def coin_ok_def list_all_iff)

lemma NewColCoin_ok: "NewColCoin i n = Inr coin \<Longrightarrow> coin = \<lparr>TokenId = i, TokenAmount = n\<rparr> \<and> coin_ok coin"
  by (auto simp: NewColCoin_def ColCoin_ValidateBasic_def Let_def coin_ok_def Int_IsPositive_def result_simps
      split: sum.splits if_splits)

lemma NewColCoins_ok: "mapE (\<lambda>i. NewColCoin i n) xs = Inr coins \<Longrightarrow> list_all coin_ok coins"
  by (induction xs arbitrary: coins) (auto dest: NewColCoin_ok)

lemma Grant_side: "col_Grant cfg c g e p s = Inr s' \<Longrightarrow> tokens_part s' = tokens_part s"
  by (auto simp: col_Grant_def Let_def tokens_parts)

lemma CreateFT_run:
  assumes "CreateTokenClass c (FTClass f) s = Inr (i, s')"
  obtains nc where "store_get (cNextClassIDs s) c = Some nc" "0 \<le> Fungible nc" "Fungible nc < 2 ^ 64"
    "i = hex8 (word_of_int (Fungible nc))" "FTClass_ValidateBasic (f\<lparr>ftId := i\<rparr>) = Inr ()"
    "s' = setLegacyToken c (i @ patternZero) (setTokenClass c (FTClass (f\<lparr>ftId := i\<rparr>))
       (setNextClassIDs (nc\<lparr>Fungible := Fungible nc + 1\<rparr>) s))"
  using assms
  by (auto simp: CreateTokenClass_def Let_def FTClass_SetId_def getNextClassIDs_def Uint_Incr_Inr Uint_Uint64_eq NewFTID_eq
      split: option.splits)

lemma CreateNFT_run:
  assumes "CreateTokenClass c (NFTClass f) s = Inr (i, s')"
  obtains nc where "store_get (cNextClassIDs s) c = Some nc" "0 \<le> NonFungible nc" "NonFungible nc < 2 ^ 64"
    "i = hex8 (word_of_int (NonFungible nc))" "NFTClass_ValidateBasic (f\<lparr>nftcId := i\<rparr>) = Inr ()"
    "s' = setLegacyTokenType c i (setNextTokenID c i 1 (setTokenClass c (NFTClass (f\<lparr>nftcId := i\<rparr>))
       (setNextClassIDs (nc\<lparr>NonFungible := NonFungible nc + 1\<rparr>) s)))"
  using assms
  by (auto simp: CreateTokenClass_def Let_def NFTClass_SetId_def getNextClassIDs_def Uint_Incr_Inr Uint_Uint64_eq
      split: option.splits)

lemma CreateFT_stored: "CreateTokenClass c (FTClass f) s = Inr (i, s') \<Longrightarrow>
    \<exists>f'. store_get (cClasses s') (c, i) = Some (FTClass f')"
  by (erule CreateFT_run) (auto simp: prims store_get_set)

lemma mint_ft_coin_run:
  assumes "mint_ft_coin c dst coin s = Inr s'"
  obtains k f where "reFTID (TokenId coin)" "SplitTokenID (TokenId coin) = Inr k"
    "store_get (cClasses s) (c, k) = Some (FTClass f)" "ftMintable f" "mintFT c dst k (TokenAmount coin) s = Inr s'"
proof -
  obtain k cl where k: "reFTID (TokenId coin)" "SplitTokenID (TokenId coin) = Inr k"
    "store_get (cClasses s) (c, k) = Some cl"
    using assms by (auto simp: mint_ft_coin_def GetTokenClass_def ValidateFTID_def validateID_def split: option.splits)
  then show ?thesis using that assms
    by (cases cl) (auto simp: mint_ft_coin_def GetTokenClass_def ValidateFTID_def validateID_def split: if_splits)
qed

context col_frame
begin

lemma side_Grant: "I s \<Longrightarrow> col_Grant cfg c g e p s = Inr s' \<Longrightarrow> I s'"
  by (rule side [OF _ Grant_side])

lemma emits: "I s \<Longrightarrow> I (emitEvent e s)" "I s \<Longrightarrow> I (emitEvents es s)" "I s \<Longrightarrow> I (emitTypedEvent t s)"
  by (rule side; simp add: tokens_parts)+

lemma emit_option: "I s \<Longrightarrow> I (emit_option e s)"
  by (cases e) (simp_all add: emit_option_def emits)

lemma create_contract:
  assumes "I s" "CreateContract cfg creator ct s = Inr (i, s')"
  shows "I s'"
proof -
  obtain s1 e t h ps where c: "createContract ct s = Inr (i, s1)"
    and f: "foldE (\<lambda>p st. if p = ColPermissionUnspecified then Inr st
       else col_Grant cfg i [] creator p (emitEvent (col_NewEventGrantPermTokenBody p) st)) ps
       (emitEvent h (emitTypedEvent t (emitEvent e s1))) = Inr s'"
    using assms(2) by (auto simp: CreateContract_def Let_def simp del: foldE.simps)
  have "I (emitEvent h (emitTypedEvent t (emitEvent e s1)))" by (intro emits contract [OF assms(1) c])
  then show ?thesis
    by (rule foldE_invariant [where P = I, OF f]) (auto intro: side_Grant emits split: if_splits)
qed

lemma grants: "I s \<Longrightarrow> foldE (col_Grant cfg c g e) ps s = Inr s' \<Longrightarrow> I s'"
  by (rule foldE_invariant [where P = I]) (auto intro: side_Grant)

lemma handle_operator:
  "I s \<Longrightarrow> col_msg_Approve cfg c approver proxy s = Inr s' \<Longrightarrow> I s'"
  "I s \<Longrightarrow> msg_Disapprove cfg c approver proxy s = Inr s' \<Longrightarrow> I s'"
  "I s \<Longrightarrow> col_msg_GrantPermission cfg c from dst p s = Inr s' \<Longrightarrow> I s'"
  "I s \<Longrightarrow> col_msg_RevokePermission cfg c from p s = Inr s' \<Longrightarrow> I s'"
  by (erule side; auto simp: col_msg_Approve_def msg_Disapprove_def col_AuthorizeOperator_def col_RevokeOperator_def
      col_msg_GrantPermission_def col_msg_RevokePermission_def col_Grant_def col_Abandon_def Let_def tokens_parts
      split: if_splits)+

lemma handle_create: "I s \<Longrightarrow> msg_CreateContract cfg owner name uri meta s = Inr s' \<Longrightarrow> I s'"
  by (auto simp: msg_CreateContract_def Let_def intro: create_contract)

lemma handle_issue_nft:
  assumes "I s" "msg_IssueNFT cfg c name meta owner s = Inr s'"
  shows "I s'"
proof -
  obtain i s1 t e ow ps where cl: "CreateTokenClass c (NFTClass \<lparr>nftcId = [], nftcName = name, nftcMeta = meta\<rparr>) s = Inr (i, s1)"
    and f: "foldE (col_Grant cfg c [] ow) ps (emitTypedEvent t (emitEvent e s1)) = Inr s'"
    using assms(2) by (auto simp: msg_IssueNFT_def Let_def simp del: foldE.simps)
  show ?thesis by (rule grants [OF _ f]) (intro emits create_class [OF assms(1) cl])
qed

lemma handle_tree:
  "I s \<Longrightarrow> msg_Attach cfg c from i j s = Inr s' \<Longrightarrow> I s'"
  "I s \<Longrightarrow> msg_Detach cfg c from i s = Inr s' \<Longrightarrow> I s'"
  "I s \<Longrightarrow> msg_AttachFrom cfg c proxy from i j s = Inr s' \<Longrightarrow> I s'"
  "I s \<Longrightarrow> msg_DetachFrom cfg c proxy from i s = Inr s' \<Longrightarrow> I s'"
  by (auto simp: msg_Attach_def msg_Detach_def msg_AttachFrom_def msg_DetachFrom_def Let_def
      dest!: attach [rotated] detach [rotated] intro: emits)

lemma handle_modify: "I s \<Longrightarrow> col_msg_Modify cfg c owner tt ti changes s = Inr s' \<Longrightarrow> I s'"
proof -
  have contract: "I s \<Longrightarrow> ModifyContract cfg c opr ch s = Inr s' \<Longrightarrow> I s'" for opr ch s s'
    by (erule side) (auto simp: ModifyContract_def Let_def tokens_parts)
  show "I s \<Longrightarrow> col_msg_Modify cfg c owner tt ti changes s = Inr s' \<Longrightarrow> I s'"
    by (auto simp: col_msg_Modify_def Let_def split: if_splits
        dest!: modify_nft [rotated] modify_class [rotated 2] contract [rotated] intro: emits)
      (auto simp: modify_attributes_def)
qed

end

context col_invariant
begin

lemma mint_fts: "I s \<Longrightarrow> list_all coin_ok amount \<Longrightarrow> MintFT c dst amount s = Inr s' \<Longrightarrow> I s'"
  unfolding MintFT_def
  by (rule foldE_invariant [where P = I]) (auto simp: list_all_iff coin_ok_def elim!: mint_ft_coin_run intro: mint_ft)

lemma mint_nfts:
  assumes "I s" "MintNFT c dst params s = Inr (tokens, s')"
  shows "I s'"
proof -
  have "I (snd (tokens, s'))"
    by (rule foldE_invariant [where P = "\<lambda>acc. I (snd acc)", OF assms(2) [unfolded MintNFT_def]])
      (use assms(1) mint_nft in auto)
  then show ?thesis by simp
qed

lemma handle_transfer:
  "I s \<Longrightarrow> ColMsg_ValidateBasic cfg (MsgTransferFT c from dst amount) = Inr () \<Longrightarrow>
     msg_TransferFT cfg c from dst amount s = Inr s' \<Longrightarrow> I s'"
  "I s \<Longrightarrow> ColMsg_ValidateBasic cfg (MsgTransferFTFrom c proxy from dst amount) = Inr () \<Longrightarrow>
     msg_TransferFTFrom cfg c proxy from dst amount s = Inr s' \<Longrightarrow> I s'"
  "I s \<Longrightarrow> ColMsg_ValidateBasic cfg (MsgTransferNFT c from dst is) = Inr () \<Longrightarrow>
     msg_TransferNFT cfg c from dst is s = Inr s' \<Longrightarrow> I s'"
  "I s \<Longrightarrow> ColMsg_ValidateBasic cfg (MsgTransferNFTFrom c proxy from dst is) = Inr () \<Longrightarrow>
     msg_TransferNFTFrom cfg c proxy from dst is s = Inr s' \<Longrightarrow> I s'"
  by (auto simp: msg_TransferFT_def msg_TransferFTFrom_def msg_TransferNFT_def msg_TransferNFTFrom_def Let_def
      MsgTransferFT_ValidateBasic_def MsgTransferFTFrom_ValidateBasic_def MsgTransferNFT_ValidateBasic_def
      MsgTransferNFTFrom_ValidateBasic_def validateCoins_Inr validTokenIds_def split: if_splits
      intro!: emits intro: send one_coins_ok)

lemma handle_issue_ft:
  assumes "I s" "msg_IssueFT cfg c name meta decimals mintable owner dst amount s = Inr s'"
  shows "I s'"
proof -
  have step: "I s3" if cl: "CreateTokenClass c (FTClass f) s = Inr (i, s1)" and m: "0 < amount"
    "mintFT c dst' i amount (emitTypedEvent t (emitEvent e s1)) = Inr s3" for f i s1 dst' t e s3
  proof -
    obtain f' where "store_get (cClasses s1) (c, i) = Some (FTClass f')" using CreateFT_stored [OF cl] by auto
    then have "store_get (cClasses (emitTypedEvent t (emitEvent e s1))) (c, i) = Some (FTClass f')"
      by (simp add: prims)
    then show ?thesis by (rule mint_ft [OF emits(3) [OF emits(1) [OF create_class [OF assms(1) cl]]] _ m])
  qed
  show ?thesis
    using assms(2) unfolding msg_IssueFT_def Let_def
    by (auto split: if_splits intro!: emits dest: step create_class [OF assms(1)])
qed

lemma handle_mint:
  "I s \<Longrightarrow> ColMsg_ValidateBasic cfg (MsgMintFT c from dst amount) = Inr () \<Longrightarrow>
     msg_MintFT cfg c from dst amount s = Inr s' \<Longrightarrow> I s'"
  "I s \<Longrightarrow> msg_MintNFT cfg c from dst params s = Inr s' \<Longrightarrow> I s'"
  by (auto simp: msg_MintFT_def msg_MintNFT_def MsgMintFT_ValidateBasic_def validateCoins_Inr
      dest: mint_fts mint_nfts intro!: emits)

lemma handle_burn:
  "I s \<Longrightarrow> ColMsg_ValidateBasic cfg (MsgBurnFT c from amount) = Inr () \<Longrightarrow>
     msg_BurnFT cfg c from amount s = Inr s' \<Longrightarrow> I s'"
  "I s \<Longrightarrow> ColMsg_ValidateBasic cfg (MsgBurnFTFrom c proxy from amount) = Inr () \<Longrightarrow>
     msg_BurnFTFrom cfg c proxy from amount s = Inr s' \<Longrightarrow> I s'"
  "I s \<Longrightarrow> msg_BurnNFT cfg c from is s = Inr s' \<Longrightarrow> I s'"
  "I s \<Longrightarrow> msg_BurnNFTFrom cfg c proxy from is s = Inr s' \<Longrightarrow> I s'"
  by (auto simp: msg_BurnFT_def msg_BurnFTFrom_def msg_BurnNFT_def msg_BurnNFTFrom_def Let_def
      MsgBurnFT_ValidateBasic_def MsgBurnFTFrom_ValidateBasic_def validateCoins_Inr
      intro!: emits emit_option dest: NewColCoins_ok intro: burn)

lemma deliver: "I s \<Longrightarrow> DeliverColMsg cfg m s = Inr s' \<Longrightarrow> I s'"
  by (cases m) (auto simp: DeliverColMsg_def simp del: ColMsg_ValidateBasic.simps
      dest: handle_transfer handle_operator handle_create handle_issue_nft handle_issue_ft handle_mint handle_burn
        handle_tree handle_modify)

lemma reachable:
  assumes "\<And>p. I ((empty_col_state (class_InitGenesis DefaultClassGenesisState \<lparr>nonce = None, ids = {}\<rparr>))\<lparr>cParams := p\<rparr>)"
    and "col_reachable cfg s"
  shows "I s"
  using assms(2)
proof (induction rule: col_reachable.induct)
  case (genesis s)
  then show ?case
    using assms(1) by (auto simp: col_InitGenesis_def col_DefaultGenesisState_def eachContract_def Let_def col_setParams_def)
qed (auto intro: deliver new_id)

end

end
