(* ===== verification/CollectionLedger.thy ===== *)
theory CollectionLedger
  imports CollectionInv Ledger
begin

section \<open>Balances, statistics and ids of the collection module\<close>

text \<open>
  The balances of a contract's token form a ledger over the addresses. Three invariants, as
  interpretations of the interface: the tree stays sound, the statistics add up, and every
  class, token, counter and balance is of an id the contract has issued, with at most one
  holder of a non-fungible token.
\<close>

subsection \<open>The ledger\<close>

lemma col_GetBalance_set:
  "col_GetBalance (col_setBalance c a i v s) c' a' i' = (if c' = c \<and> a' = a \<and> i' = i then v else col_GetBalance s c' a' i')"
  by (auto simp: col_GetBalance_def col_setBalance_def Int_IsZero_def store_get_set store_get_delete)

lemma finite_col_holders: "finite {a. col_GetBalance s c a i \<noteq> 0}"
proof -
  have "{a. col_GetBalance s c a i \<noteq> 0} \<subseteq> (\<lambda>((_, a, _), _). tl a) ` set (cBalances s)"
  proof
    fix a assume "a \<in> {a. col_GetBalance s c a i \<noteq> 0}"
    then have "(c, addrKey a, i) \<in> fst ` set (cBalances s)"
      using store_get_None [of "cBalances s" "(c, addrKey a, i)"]
      by (auto simp: col_GetBalance_def split: option.splits)
    then show "a \<in> (\<lambda>((_, a, _), _). tl a) ` set (cBalances s)" by (force simp: addrKey_def)
  qed
  then show ?thesis by (rule finite_subset) simp
qed

interpretation col_ledger: ledger "\<lambda>s (c, i) a. col_GetBalance s c a i" "\<lambda>s (c, i) a v. col_setBalance c a i v s"
  "\<lambda>s. True" "\<lambda>a. True"
  by unfold_locales (auto simp: col_GetBalance_set finite_col_holders split: if_splits)

definition col_total :: "ColState \<Rightarrow> string \<Rightarrow> string \<Rightarrow> int" where
  "col_total s c i = ledger_total (\<lambda>a. col_GetBalance s c a i)"

lemma col_total_set: "col_total (col_setBalance c a i v s) c' i' =
    (if c' = c \<and> i' = i then col_total s c i - col_GetBalance s c a i + v else col_total s c' i')"
  using col_ledger.total_put [where s = s and k = a and a = "(c, i)" and v = v and a' = "(c', i')"]
  by (auto simp: col_total_def)

lemma col_GetBalance_cong: "cBalances s' = cBalances s \<Longrightarrow> col_GetBalance s' c a i = col_GetBalance s c a i"
  by (simp add: col_GetBalance_def)

lemma col_total_cong: "cBalances s' = cBalances s \<Longrightarrow> col_total s' c i = col_total s c i"
  by (simp add: col_total_def col_GetBalance_def)

text \<open>The amount of a token in a list of coins.\<close>

definition coins_of :: "string \<Rightarrow> ColCoin list \<Rightarrow> int" where
  "coins_of i amount = sum_list (map (\<lambda>coin. if TokenId coin = i then TokenAmount coin else 0) amount)"

lemma subtract_coin_run:
  assumes "subtract_coin c a coin s = Inr s'"
  shows "s' = col_setBalance c a (TokenId coin) (col_GetBalance s c a (TokenId coin) - TokenAmount coin) s \<and>
    TokenAmount coin \<le> col_GetBalance s c a (TokenId coin)"
  using assms by (auto simp: subtract_coin_def Int_IsNegative_def split: if_splits)

lemma subtractCoins_balance:
  "col_subtractCoins c a amount s = Inr s' \<Longrightarrow>
     col_GetBalance s' c' a' i = col_GetBalance s c' a' i - (if c' = c \<and> a' = a then coins_of i amount else 0)"
  unfolding col_subtractCoins_def
proof (induction amount arbitrary: s)
  case (Cons coin amount)
  then obtain s1 where "subtract_coin c a coin s = Inr s1" "foldE (subtract_coin c a) amount s1 = Inr s'" by auto
  then show ?case using Cons.IH subtract_coin_run [of c a coin s s1]
    by (auto simp: col_GetBalance_set coins_of_def)
qed (simp add: coins_of_def)

lemma subtractCoins_total:
  "col_subtractCoins c a amount s = Inr s' \<Longrightarrow>
     col_total s' c' i = col_total s c' i - (if c' = c then coins_of i amount else 0)"
  unfolding col_subtractCoins_def
proof (induction amount arbitrary: s)
  case (Cons coin amount)
  then obtain s1 where "subtract_coin c a coin s = Inr s1" "foldE (subtract_coin c a) amount s1 = Inr s'" by auto
  then show ?case using Cons.IH subtract_coin_run [of c a coin s s1]
    by (auto simp: col_total_set coins_of_def)
qed (simp add: coins_of_def)

lemma add_coin_run:
  assumes "col_add_coin c a coin s = Inr s'"
  shows "cBalances s' = cBalances (col_setBalance c a (TokenId coin) (col_GetBalance s c a (TokenId coin) + TokenAmount coin) s)"
  using assms by (auto simp: col_add_coin_def Let_def setOwner_def split: if_splits)

lemma addCoins_balance:
  assumes "col_addCoins c a amount s = Inr s'"
  shows "col_GetBalance s' c' a' i = col_GetBalance s c' a' i + (if c' = c \<and> a' = a then coins_of i amount else 0)"
proof -
  have "col_GetBalance s1 c' a' i = col_GetBalance s c' a' i + (if c' = c \<and> a' = a then coins_of i amount else 0)"
    if "foldE (col_add_coin c a) amount s = Inr s1" for s1
    using that
  proof (induction amount arbitrary: s)
    case (Cons coin amount)
    then obtain s2 where "col_add_coin c a coin s = Inr s2" "foldE (col_add_coin c a) amount s2 = Inr s1" by auto
    then show ?case using Cons.IH col_GetBalance_cong [OF add_coin_run, of c a coin s s2 c' a' i]
      by (auto simp: col_GetBalance_set coins_of_def)
  qed (simp add: coins_of_def)
  then show ?thesis using assms by (auto simp: col_addCoins_def col_GetBalance_def createAccountOnAbsence_def)
qed

lemma addCoins_total:
  assumes "col_addCoins c a amount s = Inr s'"
  shows "col_total s' c' i = col_total s c' i + (if c' = c then coins_of i amount else 0)"
proof -
  have "(\<lambda>a'. col_GetBalance s' c' a' i) = (if c' = c then (\<lambda>a'. col_GetBalance s c a' i)(a := col_GetBalance s c a i
      + coins_of i amount) else (\<lambda>a'. col_GetBalance s c' a' i))"
    by (auto simp: addCoins_balance [OF assms])
  then show ?thesis by (simp add: col_total_def ledger_total_update finite_col_holders)
qed

text \<open>A transfer takes the coins from one address and gives them to the other, and keeps every total.\<close>

lemma SendCoins_balance:
  assumes "col_SendCoins cfg c from dst amount s = Inr s'"
  shows "col_GetBalance s' c' a i = col_GetBalance s c' a i - (if c' = c \<and> a = from then coins_of i amount else 0)
    + (if c' = c \<and> a = dst then coins_of i amount else 0)"
  using assms
proof (rule col_SendCoins_run)
  fix s1 s2 ev assume "col_subtractCoins c from amount s = Inr s1" "col_addCoins c dst amount s1 = Inr s2"
    "s' = s2\<lparr>cEvents := ev\<rparr>"
  then show ?thesis by (simp add: col_GetBalance_cong [of "s2\<lparr>cEvents := ev\<rparr>" s2] addCoins_balance subtractCoins_balance)
qed

lemma SendCoins_total:
  assumes "col_SendCoins cfg c from dst amount s = Inr s'"
  shows "col_total s' c' i = col_total s c' i"
  using assms
proof (rule col_SendCoins_run)
  fix s1 s2 ev assume "col_subtractCoins c from amount s = Inr s1" "col_addCoins c dst amount s1 = Inr s2"
    "s' = s2\<lparr>cEvents := ev\<rparr>"
  then show ?thesis by (simp add: col_total_cong [of "s2\<lparr>cEvents := ev\<rparr>" s2] addCoins_total subtractCoins_total)
qed

subsection \<open>The tree and the statistics\<close>

lemma foldE_burn_statistics:
  "foldE (burn_statistics c) burnt s = Inr s' \<Longrightarrow>
     (admin_part s', class_part s', tree_part s', cBalances s', cMinteds s', cOwners s') =
     (admin_part s, class_part s, tree_part s, cBalances s, cMinteds s, cOwners s)"
  by (rule foldE_invariant) (auto elim!: burn_statistics_run simp: parts)

lemma tree_ok_burn:
  assumes "tree_ok s" "col_BurnCoins c from amount s = Inr (burnt, s')"
  shows "tree_ok s'"
proof -
  obtain s1 s2 where r: "col_subtractCoins c from amount s = Inr s1" "foldE (burn_coin c) amount ([], s1) = Inr (burnt, s2)"
    "foldE (burn_statistics c) burnt s2 = Inr s'" using assms(2) by (rule BurnCoins_run)
  have "tree_ok s1" using assms(1) subtractCoins_held [OF r(1)]
    by (simp add: held_def parts tree_ok_cong [of s1 s])
  moreover have "tree_ok (snd acc')" if ok: "tree_ok (snd acc)" and b: "burn_coin c coin acc = Inr acc'" for coin acc acc'
  proof -
    show "tree_ok (snd acc')"
    proof (cases "passes (ValidateNFTID (TokenId coin))")
      case True
      show ?thesis
        using b True
      proof (rule burn_coin_run)
        fix ev pruned s3 coins
        assume p: "pruneNFT c (TokenId coin) (deleteNFT c (TokenId coin) (deleteOwner c (TokenId coin)
            ((snd acc)\<lparr>cEvents := ev\<rparr>))) = Some (pruned, s3)" "snd acc' = deleteLegacyToken c (TokenId coin) s3"
        have "tree_ok s3"
          by (rule tree_ok_prune [OF _ p(1)]) (use ok in \<open>simp add: prims tree_ok_def kids_def\<close>)
        then show ?thesis using p(2) by (simp add: prims tree_ok_def kids_def)
      qed
    qed (use ok b in \<open>auto simp: burn_coin_def Let_def\<close>)
  qed
  ultimately have "tree_ok s2"
    using foldE_invariant [where P = "\<lambda>acc. tree_ok (snd acc)", OF r(2)] by simp
  then show ?thesis using foldE_burn_statistics [OF r(3)] by (simp add: parts tree_ok_cong [of s' s2])
qed

subsection \<open>What the other operations leave alone\<close>

lemma createContract_frame:
  "createContract ct s = Inr (i, s') \<Longrightarrow> (tree_part s', stat_part s', class_part s', cBalances s', cOwners s') =
     (tree_part s, stat_part s, class_part s, cBalances s, cOwners s)"
  by (auto simp: createContract_def parts prims)

lemma CreateTokenClass_frame:
  "CreateTokenClass c cl s = Inr (i, s') \<Longrightarrow> (tree_part s', stat_part s', cBalances s', cOwners s', cClassState s') =
     (tree_part s, stat_part s, cBalances s, cOwners s, cClassState s)"
  by (cases cl) (auto elim!: CreateFT_run CreateNFT_run simp: parts prims)

lemma ModifyTokenClass_frame:
  "ModifyTokenClass cfg c k operator changes s = Inr s' \<Longrightarrow>
     (tree_part s', stat_part s', cBalances s', cOwners s', cClassState s', cNextClassIDs s', cNextTokenIDs s') =
     (tree_part s, stat_part s, cBalances s, cOwners s, cClassState s, cNextClassIDs s, cNextTokenIDs s)"
  by (auto simp: ModifyTokenClass_def Let_def parts prims)

lemma ModifyNFT_frame:
  "ModifyNFT cfg c i operator changes s = Inr s' \<Longrightarrow>
     (cParents s', cChildren s', stat_part s', cBalances s', cOwners s', cClassState s', cNextClassIDs s', class_part s') =
     (cParents s, cChildren s, stat_part s, cBalances s, cOwners s, cClassState s, cNextClassIDs s, class_part s)"
  by (auto simp: ModifyNFT_def Let_def parts prims)

lemma Attach_frame:
  "Attach c owner subject target s = Inr s' \<Longrightarrow>
     (admin_part s', class_part s', stat_part s', cBalances s', cNFTs s') =
     (admin_part s, class_part s, stat_part s, cBalances s, cNFTs s)"
  by (erule Attach_facts) (simp add: attached_def parts prims)

lemma Detach_frame:
  "Detach c owner subject s = Inr s' \<Longrightarrow>
     (admin_part s', class_part s', stat_part s', cBalances s', cNFTs s') =
     (admin_part s, class_part s, stat_part s, cBalances s, cNFTs s)"
  by (erule Detach_facts) (simp add: detached_def parts prims)

lemma foldE_burn_coin:
  "foldE (burn_coin c) amount acc = Inr acc' \<Longrightarrow>
     burn_frame (snd acc') = burn_frame (snd acc) \<and> stat_part (snd acc') = stat_part (snd acc)"
  by (rule foldE_invariant [where P = "\<lambda>a. burn_frame (snd a) = burn_frame (snd acc) \<and> stat_part (snd a) = stat_part (snd acc)"])
    (auto dest!: burn_coin_frame)

lemma tree_ok_part: "tree_ok s \<Longrightarrow> (cParents s', cChildren s') = (cParents s, cChildren s) \<Longrightarrow> tree_ok s'"
  by (simp add: tree_ok_cong [of s' s])

interpretation tree_inv: col_invariant tree_ok
proof unfold_locales
  fix s s' c k dst n f and params :: MintNFTParam and ts ts'
  show "tree_ok s \<Longrightarrow> tokens_part s' = tokens_part s \<Longrightarrow> tree_ok s'"
    by (erule tree_ok_part) (simp add: tokens_part_def parts)
  show "tree_ok s \<Longrightarrow> tree_ok (s\<lparr>cClassState := cs\<rparr>)" for cs
    by (erule tree_ok_part) simp
  show "tree_ok s \<Longrightarrow> mintFT c dst k n s = Inr s' \<Longrightarrow> tree_ok s'"
    by (erule mintFT_run, erule tree_ok_part) (simp add: prims)
  show "tree_ok s \<Longrightarrow> mint_nft_param c dst params (ts, s) = Inr (ts', s') \<Longrightarrow> tree_ok s'"
    by (erule mint_nft_run, erule tree_ok_part) (simp add: prims)
  show "tree_ok s \<Longrightarrow> Attach c owner subject target s = Inr s' \<Longrightarrow> tree_ok s'" for owner subject target
    by (rule tree_ok_attach)
  show "tree_ok s \<Longrightarrow> Detach c owner subject s = Inr s' \<Longrightarrow> tree_ok s'" for owner subject
    by (rule tree_ok_detach)
  show "tree_ok s \<Longrightarrow> col_BurnCoins c a amount s = Inr (burnt, s') \<Longrightarrow> tree_ok s'" for a amount burnt
    by (rule tree_ok_burn)
qed (auto elim!: tree_ok_part
    dest: createContract_frame CreateTokenClass_frame SendCoins_held ModifyTokenClass_frame ModifyNFT_frame
    simp: held_def parts)

definition stats_ok :: "ColState \<Rightarrow> bool" where
  "stats_ok s \<longleftrightarrow> (\<forall>c k. col_GetMinted s c k = col_GetSupply s c k + col_GetBurnt s c k)"

lemma getStatistic_set:
  "getStatistic (setStatistic c k v m) c' k' = (if c' = c \<and> k' = k then v else getStatistic m c' k')"
  by (auto simp: getStatistic_def setStatistic_def Int_IsZero_def store_get_set store_get_delete)

lemma stats_ok_part: "stats_ok s \<Longrightarrow> stat_part s' = stat_part s \<Longrightarrow> stats_ok s'"
  by (simp add: stats_ok_def stat_part_def col_GetMinted_def col_GetSupply_def col_GetBurnt_def)

lemma stats_ok_burn:
  assumes "stats_ok s" "col_BurnCoins c from amount s = Inr (burnt, s')"
  shows "stats_ok s'"
proof -
  obtain s1 s2 where r: "col_subtractCoins c from amount s = Inr s1" "foldE (burn_coin c) amount ([], s1) = Inr (burnt, s2)"
    "foldE (burn_statistics c) burnt s2 = Inr s'" using assms(2) by (rule BurnCoins_run)
  have "stats_ok s2" using assms(1) subtractCoins_held [OF r(1)] foldE_burn_coin [OF r(2)]
    by (elim stats_ok_part) (simp add: held_def)
  then show ?thesis
    by (rule foldE_invariant [where P = stats_ok, OF r(3)])
      (auto elim!: burn_statistics_run simp: stats_ok_def col_GetMinted_def col_GetSupply_def col_GetBurnt_def getStatistic_set)
qed

interpretation stats_inv: col_invariant stats_ok
proof unfold_locales
  fix s s' c k dst n f and params :: MintNFTParam and ts ts'
  show "stats_ok s \<Longrightarrow> tokens_part s' = tokens_part s \<Longrightarrow> stats_ok s'"
    by (erule stats_ok_part) (simp add: tokens_part_def)
  show "stats_ok s \<Longrightarrow> stats_ok (s\<lparr>cClassState := cs\<rparr>)" for cs
    by (erule stats_ok_part) (simp add: parts)
  show "stats_ok s \<Longrightarrow> mintFT c dst k n s = Inr s' \<Longrightarrow> stats_ok s'"
    by (erule mintFT_run) (simp add: stats_ok_def col_GetMinted_def col_GetSupply_def col_GetBurnt_def getStatistic_set prims)
  show "stats_ok s \<Longrightarrow> mint_nft_param c dst params (ts, s) = Inr (ts', s') \<Longrightarrow> stats_ok s'"
    by (erule mint_nft_run) (simp add: stats_ok_def col_GetMinted_def col_GetSupply_def col_GetBurnt_def getStatistic_set prims)
  show "stats_ok s \<Longrightarrow> col_BurnCoins c a amount s = Inr (burnt, s') \<Longrightarrow> stats_ok s'" for a amount burnt
    by (rule stats_ok_burn)
qed (auto elim!: stats_ok_part
    dest: createContract_frame CreateTokenClass_frame SendCoins_held ModifyTokenClass_frame ModifyNFT_frame
      Attach_frame Detach_frame simp: held_def)

subsection \<open>Ids\<close>

definition hex_val :: "string \<Rightarrow> nat" where
  "hex_val s = foldl (\<lambda>v c. 16 * v + (if is_digit c then of_char c - 48 else of_char c - 87)) 0 s"

lemma hex_val_digit: "k < 16 \<Longrightarrow> (if is_digit (hex_digit k) then of_char (hex_digit k) - 48 else of_char (hex_digit k) - 87) = k"
proof -
  assume "k < 16"
  then have "k = 0 \<or> k = 1 \<or> k = 2 \<or> k = 3 \<or> k = 4 \<or> k = 5 \<or> k = 6 \<or> k = 7 \<or> k = 8 \<or> k = 9 \<or> k = 10 \<or>
      k = 11 \<or> k = 12 \<or> k = 13 \<or> k = 14 \<or> k = 15"
    by presburger
  then show ?thesis by (elim disjE) (simp_all add: hex_digit_def is_digit_def less_eq_char_def)
qed

lemma hex_val_text: "hex_val (hex_text n) = n"
proof (induction n rule: hex_text.induct)
  case (1 n)
  then show ?case
    by (subst hex_text.simps) (auto simp: hex_val_def hex_val_digit)
qed

lemma hex_val_pad: "hex_val (replicate m CHR ''0'' @ s) = hex_val s"
proof -
  have "foldl (\<lambda>v c. 16 * v + (if is_digit c then of_char c - 48 else of_char c - 87)) 0 (replicate m CHR ''0'') = (0::nat)"
    by (induction m) (simp_all add: is_digit_def less_eq_char_def)
  then show ?thesis by (simp add: hex_val_def)
qed

lemma hex8_inj: "hex8 m = hex8 n \<longleftrightarrow> m = n"
proof
  assume "hex8 m = hex8 n"
  then have "hex_val (hex8 m) = hex_val (hex8 n)" by simp
  then show "m = n" by (simp add: hex8_def zero_pad_def hex_val_pad hex_val_text word_unat_eq_iff [symmetric])
qed simp

lemma hex8_int_inj:
  assumes "hex8 (word_of_int m) = hex8 (word_of_int n)" "0 \<le> m" "m < 2 ^ 64" "0 \<le> n" "n < 2 ^ 64"
  shows "m = n"
proof -
  have "word_of_int m = (word_of_int n :: uint64)" using assms(1) by (simp add: hex8_inj)
  then have "uint (word_of_int m :: uint64) = uint (word_of_int n :: uint64)" by simp
  then show ?thesis using assms(2-5) by (simp add: uint_word_of_int)
qed

text \<open>An id of a non-fungible token the contract has issued, and the id of a fungible token.\<close>

definition nft_issued :: "ColState \<Rightarrow> string \<Rightarrow> string \<Rightarrow> bool" where
  "nft_issued s c i \<longleftrightarrow>
     (\<exists>k n nx. i = k @ hex8 (word_of_int n) \<and> length k = 8 \<and> store_get (cNextTokenIDs s) (c, k) = Some nx \<and>
        1 \<le> n \<and> n < nx \<and> n < 2 ^ 64)"

text \<open>The shape of the id of a fungible token; whether its class was issued is shown later.\<close>

definition ft_id :: "string \<Rightarrow> bool" where
  "ft_id i \<longleftrightarrow> (\<exists>k. length k = 8 \<and> i = k @ patternZero)"

lemma issuedI: "store_get (cNextTokenIDs s) (c, k) = Some nx \<Longrightarrow> length k = 8 \<Longrightarrow> 1 \<le> n \<Longrightarrow> n < nx \<Longrightarrow> n < 2 ^ 64 \<Longrightarrow>
    nft_issued s c (k @ hex8 (word_of_int n))"
  unfolding nft_issued_def by blast

lemma issued_not_ft: "nft_issued s c i \<Longrightarrow> \<not> ft_id i"
proof
  assume "nft_issued s c i" "ft_id i"
  then obtain n :: int where "hex8 (word_of_int n) = patternZero" "1 \<le> n" "n < 2 ^ 64"
    unfolding nft_issued_def ft_id_def by (metis append_eq_append_conv)
  then show False using hex8_int_inj [of n 0] by (simp add: hex8_0)
qed

lemma issued_next: "length k = 8 \<Longrightarrow> nft_issued s c (k @ hex8 (word_of_int n)) \<Longrightarrow> 0 \<le> n \<Longrightarrow> n < 2 ^ 64 \<Longrightarrow>
    \<exists>nx. store_get (cNextTokenIDs s) (c, k) = Some nx \<and> n < nx"
  using hex8_int_inj by (fastforce simp: nft_issued_def)

definition ids_ok :: "ColState \<Rightarrow> bool" where
  "ids_ok s \<longleftrightarrow>
     (\<exists>n. nonce (cClassState s) = Some n \<and> 0 \<le> n) \<and>
     (\<forall>c nc. store_get (cNextClassIDs s) c = Some nc \<longrightarrow> ncContractId nc = c \<and> c \<in> ids (cClassState s)) \<and>
     (\<forall>c k nx. store_get (cNextTokenIDs s) (c, k) = Some nx \<longrightarrow> 1 \<le> nx \<and> length k = 8 \<and>
        (\<exists>nc m. store_get (cNextClassIDs s) c = Some nc \<and> k = hex8 (word_of_int m) \<and> 0 \<le> m \<and> m < NonFungible nc \<and> m < 2 ^ 64)) \<and>
     (\<forall>c k cl. store_get (cClasses s) (c, k) = Some cl \<longrightarrow> GetId cl = k \<and> TokenClass_ValidateBasic cl = Inr ()) \<and>
     (\<forall>c i t. store_get (cNFTs s) (c, i) = Some t \<longrightarrow> nftId t = i \<and> nft_issued s c i)"

definition balances_ok :: "ColState \<Rightarrow> bool" where
  "balances_ok s \<longleftrightarrow>
     (\<forall>c a i. 0 \<le> col_GetBalance s c a i \<and> (col_GetBalance s c a i \<noteq> 0 \<longrightarrow> nft_issued s c i \<or> ft_id i)) \<and>
     (\<forall>c i. nft_issued s c i \<longrightarrow> col_total s c i \<le> 1)"

definition store_ok :: "ColState \<Rightarrow> bool" where
  "store_ok s \<longleftrightarrow> ids_ok s \<and> balances_ok s"

lemma ids_okD:
  assumes "ids_ok s"
  shows "\<exists>n. nonce (cClassState s) = Some n \<and> 0 \<le> n"
    "store_get (cNextClassIDs s) c = Some nc \<Longrightarrow> ncContractId nc = c \<and> c \<in> ids (cClassState s)"
    "store_get (cNextTokenIDs s) (c, k) = Some nx \<Longrightarrow> 1 \<le> nx \<and> length k = 8 \<and>
        (\<exists>nc m. store_get (cNextClassIDs s) c = Some nc \<and> k = hex8 (word_of_int m) \<and> 0 \<le> m \<and> m < NonFungible nc \<and> m < 2 ^ 64)"
    "store_get (cClasses s) (c, k) = Some cl \<Longrightarrow> GetId cl = k \<and> TokenClass_ValidateBasic cl = Inr ()"
    "store_get (cNFTs s) (c, i) = Some t \<Longrightarrow> nftId t = i \<and> nft_issued s c i"
  using assms unfolding ids_ok_def by blast+

lemma ids_okI:
  assumes "\<exists>n. nonce (cClassState s) = Some n \<and> 0 \<le> n"
    "\<And>c nc. store_get (cNextClassIDs s) c = Some nc \<Longrightarrow> ncContractId nc = c \<and> c \<in> ids (cClassState s)"
    "\<And>c k nx. store_get (cNextTokenIDs s) (c, k) = Some nx \<Longrightarrow> 1 \<le> nx \<and> length k = 8 \<and>
        (\<exists>nc m. store_get (cNextClassIDs s) c = Some nc \<and> k = hex8 (word_of_int m) \<and> 0 \<le> m \<and> m < NonFungible nc \<and> m < 2 ^ 64)"
    "\<And>c k cl. store_get (cClasses s) (c, k) = Some cl \<Longrightarrow> GetId cl = k \<and> TokenClass_ValidateBasic cl = Inr ()"
    "\<And>c i t. store_get (cNFTs s) (c, i) = Some t \<Longrightarrow> nftId t = i \<and> nft_issued s c i"
  shows "ids_ok s"
  using assms unfolding ids_ok_def by blast

lemma balances_okD:
  assumes "balances_ok s"
  shows "0 \<le> col_GetBalance s c a i" "col_GetBalance s c a i \<noteq> 0 \<Longrightarrow> nft_issued s c i \<or> ft_id i"
    "nft_issued s c i \<Longrightarrow> col_total s c i \<le> 1"
  using assms unfolding balances_ok_def by blast+

lemma issued_cong: "cNextTokenIDs s' = cNextTokenIDs s \<Longrightarrow> nft_issued s' c i = nft_issued s c i"
  by (simp add: nft_issued_def)

lemma ids_ok_part:
  assumes "ids_ok s" "cClassState s' = cClassState s" "cNextClassIDs s' = cNextClassIDs s"
    "cNextTokenIDs s' = cNextTokenIDs s" "cClasses s' = cClasses s"
    "\<And>c i t. store_get (cNFTs s') (c, i) = Some t \<Longrightarrow> store_get (cNFTs s) (c, i) = Some t"
  shows "ids_ok s'"
  using assms(1) unfolding ids_ok_def issued_cong [OF assms(4)] assms(2-5) by (blast dest: assms(6))

lemma balances_ok_part:
  assumes "balances_ok s" "cNextTokenIDs s' = cNextTokenIDs s" "cBalances s' = cBalances s"
  shows "balances_ok s'"
  using assms(1) unfolding balances_ok_def issued_cong [OF assms(2)] col_total_cong [OF assms(3)]
    col_GetBalance_cong [OF assms(3)] .

subsection \<open>Every operation keeps the ids and the balances\<close>

lemma balances_ok_lower:
  assumes "balances_ok s" "0 \<le> v" "v \<le> col_GetBalance s c a i"
  shows "balances_ok (col_setBalance c a i v s)"
proof -
  have "cNextTokenIDs (col_setBalance c a i v s) = cNextTokenIDs s" by (simp add: prims)
  note iss = issued_cong [OF this]
  have held: "col_GetBalance s c a i \<noteq> 0" if "v \<noteq> 0" using that assms(2,3) by linarith
  have total: "col_total s c i - col_GetBalance s c a i + v \<le> 1" if "nft_issued s c i"
    using balances_okD(3) [OF assms(1) that] assms(3) by linarith
  show ?thesis unfolding balances_ok_def iss
    using assms(2) balances_okD [OF assms(1)] held total by (simp add: col_GetBalance_set col_total_set) blast
qed

lemma balances_ok_subtract:
  assumes "balances_ok s" "list_all coin_ok amount" "col_subtractCoins c a amount s = Inr s'"
  shows "balances_ok s'"
  using assms(3,1) unfolding col_subtractCoins_def
proof (rule foldE_invariant)
  fix coin u v assume coin: "coin \<in> set amount" "balances_ok u" "subtract_coin c a coin u = Inr v"
  then have "0 < TokenAmount coin" using assms(2) by (auto simp: list_all_iff coin_ok_def)
  then show "balances_ok v" using subtract_coin_run [OF coin(3)] coin(2) by (auto intro: balances_ok_lower)
qed

lemma coins_of_nonneg: "list_all coin_ok amount \<Longrightarrow> 0 \<le> coins_of i amount"
  unfolding coins_of_def by (rule sum_list_nonneg) (auto simp: list_all_iff coin_ok_def)

lemma balances_ok_send:
  assumes ok: "balances_ok s" and pos: "list_all coin_ok amount" and send: "col_SendCoins cfg c from dst amount s = Inr s'"
  shows "balances_ok s'"
proof -
  obtain s1 s2 ev where r: "col_subtractCoins c from amount s = Inr s1" "col_addCoins c dst amount s1 = Inr s2"
    "s' = s2\<lparr>cEvents := ev\<rparr>" using send by (rule col_SendCoins_run)
  have s1: "balances_ok s1" by (rule balances_ok_subtract [OF ok pos r(1)])
  have "cNextTokenIDs s' = cNextTokenIDs s" using SendCoins_held [OF send] by (simp add: held_def parts)
  note iss = issued_cong [OF this]
  have bal: "col_GetBalance s' c' a i = col_GetBalance s1 c' a i + (if c' = c \<and> a = dst then coins_of i amount else 0)"
    for c' a i using r(3) addCoins_balance [OF r(2)] by (simp add: col_GetBalance_cong [of "s2\<lparr>cEvents := ev\<rparr>" s2])
  have paid: "coins_of i amount \<noteq> 0 \<Longrightarrow> nft_issued s c i \<or> ft_id i" for i
    using balances_okD(1) [OF s1, of c "from" i] subtractCoins_balance [OF r(1), of c "from" i]
      coins_of_nonneg [OF pos, of i] balances_okD(2) [OF ok, of c "from" i] by auto
  have kept: "col_GetBalance s1 c' a i \<noteq> 0 \<Longrightarrow> nft_issued s c' i \<or> ft_id i" for c' a i
    using balances_okD(2) [OF s1, of c' a i] subtractCoins_held [OF r(1)] issued_cong [of s1 s c' i]
    by (simp add: held_def parts)
  show ?thesis unfolding balances_ok_def iss SendCoins_total [OF send] bal
    using balances_okD(1) [OF s1] balances_okD(3) [OF ok] coins_of_nonneg [OF pos] paid kept
    by (auto simp: add_nonneg_nonneg) (metis add_0)
qed

lemma store_ok_held: "store_ok s \<Longrightarrow> balances_ok s' \<Longrightarrow> held s' = held s \<Longrightarrow> store_ok s'"
  unfolding store_ok_def by (auto intro: ids_ok_part simp: held_def parts)

lemma pruneNFT_nfts:
  assumes "pruneNFT c i s = Some (b, s')" "store_get (cNFTs s') k = Some t"
  shows "store_get (cNFTs s) k = Some t"
proof -
  obtain ns where w: "walk (visit_prune c) (map (Pair i) (GetChildren s c i)) s = Some (ns, s')"
    using assms(1) by (auto simp: pruneNFT_def)
  have "store_get (cNFTs s') k = Some t \<longrightarrow> store_get (cNFTs s) k = Some t"
    by (rule walk_invariant [OF w]) (auto simp: visit_prune_def Let_def prims store_get_delete split: if_splits)
  then show ?thesis using assms(2) by simp
qed

lemma burn_coin_nfts:
  assumes "burn_coin c coin acc = Inr acc'" "store_get (cNFTs (snd acc')) k = Some t"
  shows "store_get (cNFTs (snd acc)) k = Some t"
proof (cases "passes (ValidateNFTID (TokenId coin))")
  case True
  show ?thesis
    using assms(1) True
    by (rule burn_coin_run) (use assms(2) in \<open>auto dest!: pruneNFT_nfts simp: prims store_get_delete split: if_splits\<close>)
qed (use assms in \<open>auto simp: burn_coin_def Let_def\<close>)

lemma store_ok_burn:
  assumes ok: "store_ok s" and pos: "list_all coin_ok amount" and burn: "col_BurnCoins c from amount s = Inr (burnt, s')"
  shows "store_ok s'"
proof -
  obtain s1 s2 where r: "col_subtractCoins c from amount s = Inr s1" "foldE (burn_coin c) amount ([], s1) = Inr (burnt, s2)"
    "foldE (burn_statistics c) burnt s2 = Inr s'" using burn by (rule BurnCoins_run)
  have "balances_ok s1" by (rule balances_ok_subtract [OF _ pos r(1)]) (use ok in \<open>simp add: store_ok_def\<close>)
  then have s1: "ids_ok s1" "balances_ok s1"
    using store_ok_held [OF ok] subtractCoins_held [OF r(1)] by (simp_all add: store_ok_def)
  have "store_get (cNFTs (snd (burnt, s2))) k = Some t \<longrightarrow> store_get (cNFTs s1) k = Some t" for k t
    by (rule foldE_invariant [OF r(2)]) (auto dest: burn_coin_nfts)
  then have "ids_ok s2"
    by (intro ids_ok_part [OF s1(1)]) (use foldE_burn_coin [OF r(2)] in \<open>auto simp: burn_frame_def parts\<close>)
  moreover have "balances_ok s2"
    by (rule balances_ok_part [OF s1(2)]) (use foldE_burn_coin [OF r(2)] in \<open>auto simp: burn_frame_def parts\<close>)
  ultimately show ?thesis unfolding store_ok_def
    using foldE_burn_statistics [OF r(3)] by (auto elim!: ids_ok_part balances_ok_part simp: parts)
qed

lemma store_ok_part:
  assumes "store_ok s" "cClassState s' = cClassState s" "cNextClassIDs s' = cNextClassIDs s" "class_part s' = class_part s"
    "cNFTs s' = cNFTs s" "cBalances s' = cBalances s"
  shows "store_ok s'"
  using assms(1) unfolding store_ok_def
  by (auto intro!: ids_ok_part [of s s'] balances_ok_part [of s s'] simp: assms(2-6) [unfolded class_part_def, simplified])

lemma store_ok_NewID:
  assumes "store_ok s" "NewID (cClassState s) = Inr (i, cs)"
  shows "store_ok (s\<lparr>cClassState := cs\<rparr>)"
proof -
  have ids: "ids_ok s" and bal: "balances_ok s" using assms(1) by (simp_all add: store_ok_def)
  obtain n where "nonce (cClassState s) = Some n" "0 \<le> n" using ids_okD(1) [OF ids] by blast
  note fresh = NewID_fresh [OF assms(2) this]
  have "nft_issued (s\<lparr>cClassState := cs\<rparr>) c j = nft_issued s c j" for c j by (simp add: nft_issued_def)
  moreover have "\<exists>m. nonce cs = Some m \<and> 0 \<le> m" using fresh \<open>0 \<le> n\<close> by force
  ultimately have "ids_ok (s\<lparr>cClassState := cs\<rparr>)"
    using ids fresh unfolding ids_ok_def by simp
  moreover have "balances_ok (s\<lparr>cClassState := cs\<rparr>)" by (rule balances_ok_part [OF bal]) simp_all
  ultimately show ?thesis by (simp add: store_ok_def)
qed

lemma store_ok_contract:
  assumes "store_ok s" "createContract ct s = Inr (i, s')"
  shows "store_ok s'"
proof -
  obtain cs where new: "NewID (cClassState s) = Inr (i, cs)" and s': "s' = setNextClassIDs (DefaultNextClassIDs i)
      (setContract (ct\<lparr>colContractId := i\<rparr>) (s\<lparr>cClassState := cs\<rparr>))"
    using assms(2) by (auto simp: createContract_def)
  have ids: "ids_ok s" and bal: "balances_ok s" using assms(1) by (simp_all add: store_ok_def)
  obtain n where "nonce (cClassState s) = Some n" "0 \<le> n" using ids_okD(1) [OF ids] by blast
  note fresh = NewID_fresh [OF new this]
  have none: "store_get (cNextClassIDs s) i = None"
    using ids_okD(2) [OF ids, of i] fresh by (cases "store_get (cNextClassIDs s) i") auto
  have iss: "nft_issued s' c j = nft_issued s c j" for c j by (simp add: s' prims nft_issued_def)
  have nextIDs: "store_get (cNextClassIDs s') c = (if c = i then Some (DefaultNextClassIDs i) else store_get (cNextClassIDs s) c)"
    for c by (simp add: s' prims store_get_set DefaultNextClassIDs_def)
  have "ids_ok s'"
  proof (rule ids_okI)
    show "\<exists>m. nonce (cClassState s') = Some m \<and> 0 \<le> m" using fresh \<open>0 \<le> n\<close> by (force simp: s' prims)
    show "ncContractId nc = c \<and> c \<in> ids (cClassState s')" if "store_get (cNextClassIDs s') c = Some nc" for c nc
      using that fresh ids_okD(2) [OF ids, of c nc] unfolding nextIDs
      by (auto simp: s' prims DefaultNextClassIDs_def split: if_splits)
    show "1 \<le> nx \<and> length k = 8 \<and> (\<exists>nc m. store_get (cNextClassIDs s') c = Some nc \<and> k = hex8 (word_of_int m) \<and>
        0 \<le> m \<and> m < NonFungible nc \<and> m < 2 ^ 64)" if "store_get (cNextTokenIDs s') (c, k) = Some nx" for c k nx
      using that ids_okD(3) [OF ids, of c k nx] none unfolding nextIDs by (auto simp: s' prims)
  qed (use ids_okD(4,5) [OF ids] in \<open>simp_all add: iss, simp_all add: s' prims\<close>)
  moreover have "balances_ok s'" by (rule balances_ok_part [OF bal]) (simp_all add: s' prims)
  ultimately show ?thesis by (simp add: store_ok_def)
qed

lemma length_ClassID: "TokenClass_ValidateBasic cl = Inr () \<Longrightarrow> length (GetId cl) = 8"
  by (cases cl) (auto simp: FTClass_ValidateBasic_def NFTClass_ValidateBasic_def ValidateClassID_def validateID_def
      reClassID_def lengthClassID_def split: if_splits)

lemma store_ok_create_ft:
  assumes "store_ok s" "CreateTokenClass c (FTClass f) s = Inr (i, s')"
  shows "store_ok s'"
  using assms(2)
proof (rule CreateFT_run)
  fix nc assume r: "store_get (cNextClassIDs s) c = Some nc" "FTClass_ValidateBasic (f\<lparr>ftId := i\<rparr>) = Inr ()"
    "s' = setLegacyToken c (i @ patternZero) (setTokenClass c (FTClass (f\<lparr>ftId := i\<rparr>))
       (setNextClassIDs (nc\<lparr>Fungible := Fungible nc + 1\<rparr>) s))"
  have ids: "ids_ok s" and bal: "balances_ok s" using assms(1) by (simp_all add: store_ok_def)
  have nc: "ncContractId nc = c" using ids_okD(2) [OF ids r(1)] by simp
  have iss: "nft_issued s' c' j = nft_issued s c' j" for c' j by (simp add: r(3) prims nft_issued_def)
  have "ids_ok s'"
  proof (rule ids_okI)
    show "ncContractId nc' = c' \<and> c' \<in> ids (cClassState s')" if "store_get (cNextClassIDs s') c' = Some nc'" for c' nc'
      using that ids_okD(2) [OF ids, of c'] r(1) by (auto simp: r(3) nc prims store_get_set split: if_splits)
    show "1 \<le> nx \<and> length k = 8 \<and> (\<exists>nc' m. store_get (cNextClassIDs s') c' = Some nc' \<and> k = hex8 (word_of_int m) \<and>
        0 \<le> m \<and> m < NonFungible nc' \<and> m < 2 ^ 64)" if "store_get (cNextTokenIDs s') (c', k) = Some nx" for c' k nx
      using that ids_okD(3) [OF ids, of c' k nx] r(1) by (auto simp: r(3) nc prims store_get_set)
    show "GetId cl = k \<and> TokenClass_ValidateBasic cl = Inr ()" if "store_get (cClasses s') (c', k) = Some cl" for c' k cl
      using that ids_okD(4) [OF ids, of c' k cl] r(2) by (auto simp: r(3) prims store_get_set split: if_splits)
  qed (use ids_okD(1,5) [OF ids] in \<open>simp_all add: iss, simp_all add: r(3) prims\<close>)
  moreover have "balances_ok s'" by (rule balances_ok_part [OF bal]) (simp_all add: r(3) prims)
  ultimately show "store_ok s'" by (simp add: store_ok_def)
qed

lemma issued_create:
  assumes "store_get (cNextTokenIDs s) (c, k) = None" "cNextTokenIDs s' = store_set (c, k) 1 (cNextTokenIDs s)"
  shows "nft_issued s' c' j = nft_issued s c' j"
proof -
  have "(store_get (cNextTokenIDs s') (c', k') = Some nx \<and> 1 \<le> n \<and> n < nx) =
      (store_get (cNextTokenIDs s) (c', k') = Some nx \<and> 1 \<le> n \<and> n < nx)" for k' nx and n :: int
    using assms by (auto simp: store_get_set)
  then show ?thesis unfolding nft_issued_def by metis
qed

lemma issued_mint:
  assumes "store_get (cNextTokenIDs s) (c, k) = Some n" "1 \<le> n" "n < 2 ^ 64" "length k = 8"
    "cNextTokenIDs s' = store_set (c, k) (n + 1) (cNextTokenIDs s)"
  shows "nft_issued s' c' j \<longleftrightarrow> nft_issued s c' j \<or> (c' = c \<and> j = k @ hex8 (word_of_int n))"
proof
  assume "nft_issued s' c' j"
  then obtain k' m nx where "j = k' @ hex8 (word_of_int m)" "length k' = 8" "1 \<le> m" "m < nx" "m < 2 ^ 64"
    "store_get (cNextTokenIDs s') (c', k') = Some nx" by (auto simp: nft_issued_def)
  then show "nft_issued s c' j \<or> (c' = c \<and> j = k @ hex8 (word_of_int n))"
    using assms by (cases "m = n") (auto simp: store_get_set intro: issuedI split: if_splits)
next
  assume "nft_issued s c' j \<or> (c' = c \<and> j = k @ hex8 (word_of_int n))"
  then show "nft_issued s' c' j"
  proof
    assume "nft_issued s c' j"
    then obtain k' m nx where i: "j = k' @ hex8 (word_of_int m)" "length k' = 8" "1 \<le> m" "m < nx" "m < 2 ^ 64"
      "store_get (cNextTokenIDs s) (c', k') = Some nx" by (auto simp: nft_issued_def)
    have "\<exists>nx'. store_get (cNextTokenIDs s') (c', k') = Some nx' \<and> m < nx'"
      using i(4,6) assms by (auto simp: store_get_set)
    then show ?thesis using i(1,2,3,5) by (auto simp: nft_issued_def)
  qed (use assms in \<open>auto simp: nft_issued_def store_get_set\<close>)
qed

lemma CreateNFT_counter_free:
  assumes ids: "ids_ok s" and new: "CreateTokenClass c (NFTClass f) s = Inr (i, s')"
  shows "store_get (cNextTokenIDs s) (c, i) = None"
  using new
proof (rule CreateNFT_run)
  fix nc assume r: "store_get (cNextClassIDs s) c = Some nc" "0 \<le> NonFungible nc" "NonFungible nc < 2 ^ 64"
    "i = hex8 (word_of_int (NonFungible nc))"
  show ?thesis
  proof (rule ccontr)
    assume "store_get (cNextTokenIDs s) (c, i) \<noteq> None"
    then obtain m where "i = hex8 (word_of_int m)" "0 \<le> m" "m < NonFungible nc" "m < 2 ^ 64"
      using ids_okD(3) [OF ids] r(1) by fastforce
    then show False using hex8_int_inj [of m "NonFungible nc"] r(2-4) by simp
  qed
qed

lemma store_ok_create_nft:
  assumes "store_ok s" "CreateTokenClass c (NFTClass f) s = Inr (i, s')"
  shows "store_ok s'"
  using assms(2)
proof (rule CreateNFT_run)
  fix nc assume r: "store_get (cNextClassIDs s) c = Some nc" "NFTClass_ValidateBasic (f\<lparr>nftcId := i\<rparr>) = Inr ()"
    "0 \<le> NonFungible nc" "NonFungible nc < 2 ^ 64" "i = hex8 (word_of_int (NonFungible nc))"
    "s' = setLegacyTokenType c i (setNextTokenID c i 1 (setTokenClass c (NFTClass (f\<lparr>nftcId := i\<rparr>))
       (setNextClassIDs (nc\<lparr>NonFungible := NonFungible nc + 1\<rparr>) s)))"
  have ids: "ids_ok s" and bal: "balances_ok s" using assms(1) by (simp_all add: store_ok_def)
  have nc: "ncContractId nc = c" using ids_okD(2) [OF ids r(1)] by simp
  have len: "length i = 8" using length_ClassID [of "NFTClass (f\<lparr>nftcId := i\<rparr>)"] r(2) by simp
  have none: "store_get (cNextTokenIDs s) (c, i) = None" by (rule CreateNFT_counter_free [OF ids assms(2)])
  have iss: "nft_issued s' c' j = nft_issued s c' j" for c' j
    by (rule issued_create [OF none]) (simp add: r(6) prims)
  have "ids_ok s'"
  proof (rule ids_okI)
    show "ncContractId nc' = c' \<and> c' \<in> ids (cClassState s')" if "store_get (cNextClassIDs s') c' = Some nc'" for c' nc'
      using that ids_okD(2) [OF ids, of c'] r(1) by (auto simp: r(6) nc prims store_get_set split: if_splits)
    show "1 \<le> nx \<and> length k = 8 \<and> (\<exists>nc' m. store_get (cNextClassIDs s') c' = Some nc' \<and> k = hex8 (word_of_int m) \<and>
        0 \<le> m \<and> m < NonFungible nc' \<and> m < 2 ^ 64)" if "store_get (cNextTokenIDs s') (c', k) = Some nx" for c' k nx
    proof (cases "c' = c \<and> k = i")
      case True
      then show ?thesis using that len r(3,4)
        by (auto simp: r(6) nc prims store_get_set r(5) intro!: exI [of _ "NonFungible nc"])
    next
      case False
      then show ?thesis using that ids_okD(3) [OF ids, of c' k nx] r(1)
        by (fastforce simp: r(6) nc prims store_get_set)
    qed
    show "GetId cl = k \<and> TokenClass_ValidateBasic cl = Inr ()" if "store_get (cClasses s') (c', k) = Some cl" for c' k cl
      using that ids_okD(4) [OF ids, of c' k cl] r(2) by (auto simp: r(6) prims store_get_set split: if_splits)
  qed (use ids_okD(1,5) [OF ids] in \<open>simp_all add: iss, simp_all add: r(6) prims\<close>)
  moreover have "balances_ok s'" unfolding balances_ok_def iss
    using bal [unfolded balances_ok_def] col_GetBalance_cong [of s' s] col_total_cong [of s' s] by (simp add: r(6) prims)
  ultimately show "store_ok s'" by (simp add: store_ok_def)
qed

lemma store_ok_mint_ft:
  assumes ok: "store_ok s" and cl: "store_get (cClasses s) (c, k) = Some (FTClass f)" and n: "0 < n"
    and mint: "mintFT c dst k n s = Inr s'"
  shows "store_ok s'"
  using mint
proof (rule mintFT_run)
  fix i assume r: "NewFTID k = Inr i" "s' = (col_setBalance c dst i n s)\<lparr>
      cSupplies := setStatistic c k (col_GetSupply s c k + n) (cSupplies s),
      cMinteds := setStatistic c k (col_GetMinted s c k + n) (cMinteds s)\<rparr>"
  have ids: "ids_ok s" and bal: "balances_ok s" using ok by (simp_all add: store_ok_def)
  have "length k = 8" using ids_okD(4) [OF ids cl] length_ClassID by blast
  then have ft: "ft_id i" using r(1) by (auto simp: NewFTID_eq ft_id_def)
  have iss: "nft_issued s' c' j = nft_issued s c' j" for c' j by (rule issued_cong) (simp add: r(2) prims)
  have "cBalances s' = cBalances (col_setBalance c dst i n s)" by (simp add: r(2))
  note b = col_GetBalance_cong [OF this] col_total_cong [OF this]
  have "balances_ok s'" unfolding balances_ok_def iss b
    using balances_okD [OF bal] n ft issued_not_ft [of s c i] by (auto simp: col_GetBalance_set col_total_set)
  moreover have "ids_ok s'" by (rule ids_ok_part [OF ids]) (use n in \<open>simp_all add: r(2) prims\<close>)
  ultimately show ?thesis by (simp add: store_ok_def)
qed

lemma col_total_None: "(\<And>a. col_GetBalance s c a i = 0) \<Longrightarrow> col_total s c i = 0"
  by (simp add: col_total_def ledger_total_def)

lemma store_ok_mint_nft:
  assumes ok: "store_ok s" and mint: "mint_nft_param c dst param (ts, s) = Inr (ts', s')"
  shows "store_ok s'"
  using mint
proof (rule mint_nft_run)
  let ?k = "mpTokenType param"
  fix cl n i assume r: "store_get (cNextTokenIDs s) (c, ?k) = Some n" "n < 2 ^ 64" "i = ?k @ hex8 (word_of_int n)"
    "s' = setLegacyToken c i ((setNFT c \<lparr>nftId = i, nftName = mpName param, nftMeta = mpMeta param\<rparr>
      (setOwner c i dst (col_setBalance c dst i 1 (setNextTokenID c ?k (n + 1) s))))\<lparr>
      cSupplies := setStatistic c ?k (col_GetSupply s c ?k + 1) (cSupplies s),
      cMinteds := setStatistic c ?k (col_GetMinted s c ?k + 1) (cMinteds s)\<rparr>)"
  have ids: "ids_ok s" and bal: "balances_ok s" using ok by (simp_all add: store_ok_def)
  have k: "1 \<le> n" "length ?k = 8" using ids_okD(3) [OF ids r(1)] by simp_all
  have iss: "nft_issued s' c' j \<longleftrightarrow> nft_issued s c' j \<or> (c' = c \<and> j = i)" for c' j
    unfolding r(3) by (rule issued_mint [OF r(1) k(1) r(2) k(2)]) (simp add: r(4) prims)
  have fresh: "\<not> nft_issued s c i" using issued_next [OF k(2), of s c n] r(1-3) k(1) by auto
  have "\<not> ft_id i"
    by (rule issued_not_ft [of s' c]) (simp add: iss)
  then have zero: "col_GetBalance s c a i = 0" for a using balances_okD(2) [OF bal, of c a i] fresh by blast
  have "cBalances s' = cBalances (col_setBalance c dst i 1 s)" by (simp add: r(4) prims)
  note b = col_GetBalance_cong [OF this] col_total_cong [OF this]
  have "balances_ok s'" unfolding balances_ok_def iss b
    using balances_okD [OF bal] zero col_total_None [OF zero]
    by (simp add: col_GetBalance_set col_total_set) blast
  moreover have "ids_ok s'"
  proof (rule ids_okI)
    show "1 \<le> nx \<and> length k = 8 \<and> (\<exists>nc' m. store_get (cNextClassIDs s') c' = Some nc' \<and> k = hex8 (word_of_int m) \<and>
        0 \<le> m \<and> m < NonFungible nc' \<and> m < 2 ^ 64)" if "store_get (cNextTokenIDs s') (c', k) = Some nx" for c' k nx
      using that ids_okD(3) [OF ids, of c' k] r(1) k(1)
      by (cases "c' = c \<and> k = ?k") (auto simp: r(4) prims store_get_set)
    show "nftId t = j \<and> nft_issued s' c' j" if "store_get (cNFTs s') (c', j) = Some t" for c' j t
      using that ids_okD(5) [OF ids, of c' j t] unfolding iss by (auto simp: r(4) prims store_get_set split: if_splits)
  qed (use ids_okD(1,2,4) [OF ids] in \<open>simp_all add: r(4) prims\<close>)
  ultimately show ?thesis by (simp add: store_ok_def)
qed

lemma modify_class_field_ok:
  assumes "modify_class_field (k, k) cl = Inr cl'" "TokenClass_ValidateBasic cl = Inr ()"
  shows "GetId cl' = GetId cl \<and> TokenClass_ValidateBasic cl' = Inr ()"
proof -
  have "col_validateName (col_AttributeKey_String CAttrName) = Inr ()" "col_validateMeta (col_AttributeKey_String CAttrMeta) = Inr ()"
    by code_simp+
  then show ?thesis using assms
    by (cases cl) (auto simp: modify_class_field_def FTClass_ValidateBasic_def NFTClass_ValidateBasic_def split: if_splits)
qed

lemma store_ok_modify_class:
  assumes ok: "store_ok s" and keys: "\<And>k v. (k, v) \<in> set changes \<Longrightarrow> v = k"
    and mod: "ModifyTokenClass cfg c k operator changes s = Inr s'"
  shows "store_ok s'"
proof -
  obtain cl cl' ev where r: "store_get (cClasses s) (c, k) = Some cl" "foldE modify_class_field changes cl = Inr cl'"
    "s' = (setTokenClass c cl' s)\<lparr>cEvents := ev\<rparr>"
    using mod by (auto simp: ModifyTokenClass_def GetTokenClass_def Let_def prims split: option.splits)
  have ids: "ids_ok s" and bal: "balances_ok s" using ok by (simp_all add: store_ok_def)
  have cl: "GetId cl = k" "TokenClass_ValidateBasic cl = Inr ()" using ids_okD(4) [OF ids r(1)] by simp_all
  have "GetId cl' = k \<and> TokenClass_ValidateBasic cl' = Inr ()"
    by (rule foldE_invariant [OF r(2)]) (use cl keys modify_class_field_ok in \<open>fastforce+\<close>)
  moreover have iss: "nft_issued s' c' j = nft_issued s c' j" for c' j by (rule issued_cong) (simp add: r(3) prims)
  ultimately have "ids_ok s'"
    using ids_okD [OF ids] by (intro ids_okI; simp add: iss) (auto simp: r(3) prims store_get_set split: if_splits)
  moreover have "balances_ok s'" by (rule balances_ok_part [OF bal]) (simp_all add: r(3) prims)
  ultimately show ?thesis by (simp add: store_ok_def)
qed

lemma store_ok_modify_nft:
  assumes ok: "store_ok s" and mod: "ModifyNFT cfg c i operator changes s = Inr s'"
  shows "store_ok s'"
proof -
  obtain t t' ev where r: "store_get (cNFTs s) (c, i) = Some t" "foldE modify_nft_field changes t = Inr t'"
    "s' = (setNFT c t' s)\<lparr>cEvents := ev\<rparr>"
    using mod by (auto simp: ModifyNFT_def GetNFT_def Let_def prims split: option.splits)
  have ids: "ids_ok s" and bal: "balances_ok s" using ok by (simp_all add: store_ok_def)
  have t: "nftId t = i" "nft_issued s c i" using ids_okD(5) [OF ids r(1)] by simp_all
  have "nftId t' = i"
    by (rule foldE_invariant [OF r(2)]) (use t in \<open>auto simp: modify_nft_field_def split: if_splits\<close>)
  moreover have iss: "nft_issued s' c' j = nft_issued s c' j" for c' j by (rule issued_cong) (simp add: r(3) prims)
  ultimately have "ids_ok s'"
    using ids_okD [OF ids] t(2) by (intro ids_okI; simp add: iss) (auto simp: r(3) prims store_get_set split: if_splits)
  moreover have "balances_ok s'" by (rule balances_ok_part [OF bal]) (simp_all add: r(3) prims)
  ultimately show ?thesis by (simp add: store_ok_def)
qed

interpretation store_inv: col_invariant store_ok
proof unfold_locales
  fix s s' c cl i
  show "store_ok s \<Longrightarrow> tokens_part s' = tokens_part s \<Longrightarrow> store_ok s'"
    by (erule store_ok_part) (simp_all add: tokens_part_def parts)
  show "store_ok s \<Longrightarrow> CreateTokenClass c cl s = Inr (i, s') \<Longrightarrow> store_ok s'"
    by (cases cl) (auto intro: store_ok_create_ft store_ok_create_nft)
  show "store_ok s \<Longrightarrow> list_all coin_ok amount \<Longrightarrow> col_SendCoins cfg c a dst amount s = Inr s' \<Longrightarrow> store_ok s'" for cfg a dst amount
    using store_ok_held balances_ok_send SendCoins_held store_ok_def by blast
  show "store_ok s \<Longrightarrow> Attach c owner subject target s = Inr s' \<Longrightarrow> store_ok s'" for owner subject target
    by (erule store_ok_part) (drule Attach_frame, simp add: parts)+
  show "store_ok s \<Longrightarrow> Detach c owner subject s = Inr s' \<Longrightarrow> store_ok s'" for owner subject
    by (erule store_ok_part) (drule Detach_frame, simp add: parts)+
qed (fact store_ok_NewID store_ok_contract store_ok_mint_ft store_ok_mint_nft store_ok_burn store_ok_modify_class
    store_ok_modify_nft)+

end
