(* ===== verification/CollectionOwners.thy ===== *)
theory CollectionOwners
  imports CollectionLedger
begin

section \<open>Owners of the trees of non-fungible tokens\<close>

text \<open>
  A stored parent is a stored token, and a stored token without a parent has an owner. So the
  root of every stored token is found and has an owner: the panic of \<open>getOwner\<close> is never
  reached from there. A burn breaks this only while it prunes, at the edges that are still to
  be pruned.
\<close>

definition owned :: "ColState \<Rightarrow> string \<Rightarrow> (string \<times> string) set \<Rightarrow> bool" where
  "owned s c pending \<longleftrightarrow>
     (\<forall>t p. store_get (cParents s) (c, t) = Some p \<longrightarrow> store_get (cNFTs s) (c, p) \<noteq> None \<or> (p, t) \<in> pending) \<and>
     (\<forall>t. store_get (cNFTs s) (c, t) \<noteq> None \<longrightarrow> store_get (cParents s) (c, t) = None \<longrightarrow>
        store_get (cOwners s) (c, t) \<noteq> None)"

definition owners_ok :: "ColState \<Rightarrow> bool" where
  "owners_ok s \<longleftrightarrow> tree_ok s \<and> (\<forall>c. owned s c {})"

lemma ownedD:
  assumes "owned s c pending"
  shows "store_get (cParents s) (c, t) = Some p \<Longrightarrow> store_get (cNFTs s) (c, p) \<noteq> None \<or> (p, t) \<in> pending"
    "store_get (cNFTs s) (c, t) \<noteq> None \<Longrightarrow> store_get (cParents s) (c, t) = None \<Longrightarrow> store_get (cOwners s) (c, t) \<noteq> None"
  using assms unfolding owned_def by blast+

lemma ownedI:
  assumes "\<And>t p. store_get (cParents s) (c, t) = Some p \<Longrightarrow> store_get (cNFTs s) (c, p) \<noteq> None \<or> (p, t) \<in> pending"
    "\<And>t. store_get (cNFTs s) (c, t) \<noteq> None \<Longrightarrow> store_get (cParents s) (c, t) = None \<Longrightarrow> store_get (cOwners s) (c, t) \<noteq> None"
  shows "owned s c pending"
  using assms unfolding owned_def by blast

lemma tree_ok_parent: "tree_ok s \<Longrightarrow> store_get (cParents s) (c, t) = Some p \<Longrightarrow> (t, p) \<in> kids s c"
  by (auto simp: tree_ok_def)

subsection \<open>Pruning\<close>

lemma visit_prune_fields:
  shows "store_get (cParents (snd (visit_prune c (p, x) s))) k = (if k = (c, x) then None else store_get (cParents s) k)"
    "store_get (cNFTs (snd (visit_prune c (p, x) s))) k = (if k = (c, x) then None else store_get (cNFTs s) k)"
    "cOwners (snd (visit_prune c (p, x) s)) = cOwners s"
  by (simp_all add: visit_prune_def Let_def prims store_get_delete)

lemma visit_prune_work: "set (fst (visit_prune c (p, x) s)) = {(x, y) | y. (y, x) \<in> kids s c - {(x, p)}}"
proof -
  have "fst (visit_prune c (p, x) s) = map (Pair x) (GetChildren (snd (visit_prune c (p, x) s)) c x)"
    by (simp add: visit_prune_def Let_def)
  then show ?thesis using kids_visit_prune [of c "(p, x)" s c] by (auto simp: GetChildren_set)
qed

lemma owned_visit_prune:
  assumes "tree_ok s" "owned s c (set ((p, x) # rest))"
  shows "owned (snd (visit_prune c (p, x) s)) c (set (fst (visit_prune c (p, x) s) @ rest))"
proof (rule ownedI)
  fix t q assume "store_get (cParents (snd (visit_prune c (p, x) s))) (c, t) = Some q"
  then have t: "t \<noteq> x" "store_get (cParents s) (c, t) = Some q" by (auto simp: visit_prune_fields split: if_splits)
  show "store_get (cNFTs (snd (visit_prune c (p, x) s))) (c, q) \<noteq> None \<or> (q, t) \<in> set (fst (visit_prune c (p, x) s) @ rest)"
    using ownedD(1) [OF assms(2) t(2)] tree_ok_parent [OF assms(1) t(2)] t(1)
    by (cases "q = x") (auto simp: visit_prune_fields visit_prune_work)
next
  fix t assume "store_get (cNFTs (snd (visit_prune c (p, x) s))) (c, t) \<noteq> None"
    "store_get (cParents (snd (visit_prune c (p, x) s))) (c, t) = None"
  then show "store_get (cOwners (snd (visit_prune c (p, x) s))) (c, t) \<noteq> None"
    using ownedD(2) [OF assms(2), of t] by (auto simp: visit_prune_fields split: if_splits)
qed

lemma owned_other: "c' \<noteq> c \<Longrightarrow> owned (snd (visit_prune c e s)) c' pending = owned s c' pending"
  by (cases e) (simp add: owned_def visit_prune_fields)

lemma walk_prune_owned:
  "walk (visit_prune c) work s = Some (ns, u) \<Longrightarrow> tree_ok s \<Longrightarrow> owned s c (set work) \<Longrightarrow> owned u c {}"
proof (induction rule: walk_induct)
  case (Cons n rest s ns t)
  then show ?case using tree_ok_visit_prune owned_visit_prune by (cases n) blast
qed simp

lemma pruneNFT_owned:
  assumes "pruneNFT c t s = Some (b, u)" "tree_ok s" "owned s c {(t, x) | x. (x, t) \<in> kids s c}"
    "\<And>c'. c' \<noteq> c \<Longrightarrow> owned s c' {}"
  shows "owners_ok u"
proof -
  obtain ns where w: "walk (visit_prune c) (map (Pair t) (GetChildren s c t)) s = Some (ns, u)"
    using assms(1) by (auto simp: pruneNFT_def)
  have "set (map (Pair t) (GetChildren s c t)) = {(t, x) | x. (x, t) \<in> kids s c}" by (auto simp: GetChildren_set)
  then have "owned s c (set (map (Pair t) (GetChildren s c t)))" using assms(3) by (simp only:)
  then have "owned u c {}" by (rule walk_prune_owned [OF w assms(2)])
  moreover have "owned u c' {}" if "c' \<noteq> c" for c'
    by (rule walk_invariant [where okay = "\<lambda>s. owned s c' {}", OF w assms(4) [OF that]]) (simp add: owned_other that)
  ultimately have "owned u c' {}" for c' by (cases "c' = c") simp_all
  then show ?thesis using tree_ok_prune [OF assms(2,1)] by (simp add: owners_ok_def)
qed

lemma burn_coin_owned:
  assumes "burn_coin c coin acc = Inr acc'" "owners_ok (snd acc)"
  shows "owners_ok (snd acc')"
proof (cases "passes (ValidateNFTID (TokenId coin))")
  case True
  show ?thesis
    using assms(1) True
  proof (rule burn_coin_run)
    let ?t = "TokenId coin"
    fix ev pruned s3 coins
    define s where "s = deleteNFT c ?t (deleteOwner c ?t ((snd acc)\<lparr>cEvents := ev\<rparr>))"
    assume p: "pruneNFT c ?t (deleteNFT c ?t (deleteOwner c ?t ((snd acc)\<lparr>cEvents := ev\<rparr>))) = Some (pruned, s3)"
      "snd acc' = deleteLegacyToken c ?t s3"
    have tree: "tree_ok s" "kids s c = kids (snd acc) c"
      using assms(2) tree_ok_cong [of s "snd acc"] kids_cong [of s "snd acc"] by (simp_all add: s_def prims owners_ok_def)
    have own: "owned (snd acc) c' {}" for c' using assms(2) by (simp add: owners_ok_def)
    have "owned s c {(?t, x) | x. (x, ?t) \<in> kids s c}"
      using own [of c] tree_ok_parent [of "snd acc" c] assms(2)
      by (auto simp: owned_def s_def prims store_get_delete owners_ok_def tree(2) [unfolded s_def prims, simplified])
    moreover have "owned s c' {}" if "c' \<noteq> c" for c'
      using own [of c'] that by (simp add: owned_def s_def prims store_get_delete)
    ultimately have "owners_ok s3" using pruneNFT_owned p(1) tree(1) s_def by blast
    then show "owners_ok (snd acc')"
      using p(2) tree_ok_cong [of "deleteLegacyToken c ?t s3" s3] by (simp add: prims owners_ok_def owned_def)
  qed
qed (use assms in \<open>auto simp: burn_coin_def Let_def\<close>)

subsection \<open>Every operation keeps the owners\<close>

lemma owners_ok_part:
  assumes "owners_ok s" "cParents s' = cParents s" "cChildren s' = cChildren s"
    "\<And>k. store_get (cNFTs s') k = None \<longleftrightarrow> store_get (cNFTs s) k = None"
    "\<And>k. store_get (cOwners s) k \<noteq> None \<Longrightarrow> store_get (cOwners s') k \<noteq> None"
  shows "owners_ok s'"
proof -
  have "owned s' c {}" for c
    using assms(1,5) unfolding owners_ok_def owned_def assms(2,4) by blast
  then show ?thesis using assms(1) tree_ok_cong [OF assms(3,2)] unfolding owners_ok_def by blast
qed

lemma owners_ok_burn:
  assumes "owners_ok s" "col_BurnCoins c from amount s = Inr (burnt, s')"
  shows "owners_ok s'"
proof -
  obtain s1 s2 where r: "col_subtractCoins c from amount s = Inr s1" "foldE (burn_coin c) amount ([], s1) = Inr (burnt, s2)"
    "foldE (burn_statistics c) burnt s2 = Inr s'" using assms(2) by (rule BurnCoins_run)
  have "owners_ok s1" using subtractCoins_held [OF r(1)]
    by (intro owners_ok_part [OF assms(1)]) (simp_all add: held_def parts)
  then have "owners_ok s2"
    using foldE_invariant [where P = "\<lambda>acc. owners_ok (snd acc)", OF r(2)] burn_coin_owned by simp
  then show ?thesis using foldE_burn_statistics [OF r(3)] by (elim owners_ok_part) (simp_all add: parts)
qed

lemma SendCoins_owners:
  assumes "col_SendCoins cfg c from dst amount s = Inr s'" "store_get (cOwners s) k \<noteq> None"
  shows "store_get (cOwners s') k \<noteq> None"
  using assms(1)
proof (rule col_SendCoins_run)
  fix s1 s2 ev assume r: "col_subtractCoins c from amount s = Inr s1" "col_addCoins c dst amount s1 = Inr s2"
    "s' = s2\<lparr>cEvents := ev\<rparr>"
  obtain s3 where a: "foldE (col_add_coin c dst) amount s1 = Inr s3" "s2 = createAccountOnAbsence dst s3"
    using r(2) by (auto simp: col_addCoins_def)
  have "store_get (cOwners s3) k \<noteq> None"
    by (rule foldE_invariant [OF a(1)])
      (use assms(2) subtractCoins_held [OF r(1)] in
        \<open>auto simp: col_add_coin_def Let_def setOwner_def cOwners_balance store_get_set split: if_splits\<close>)
  then show ?thesis using r(3) a(2) by (simp add: createAccountOnAbsence_def)
qed

lemma owners_ok_attach:
  assumes "owners_ok s" "Attach c owner subject target s = Inr s'"
  shows "owners_ok s'"
proof -
  have "owned s' c' {}" for c'
    using assms(2)
    by (rule Attach_facts)
      (use assms(1) in \<open>auto simp: owners_ok_def owned_def attached_def prims store_get_set store_get_delete split: if_splits\<close>)
  then show ?thesis using assms tree_ok_attach unfolding owners_ok_def by blast
qed

lemma owners_ok_detach:
  assumes "owners_ok s" "Detach c owner subject s = Inr s'"
  shows "owners_ok s'"
proof -
  have "owned s' c' {}" for c'
    using assms(2)
    by (rule Detach_facts)
      (use assms(1) in \<open>auto simp: owners_ok_def owned_def detached_def prims store_get_set store_get_delete split: if_splits\<close>)
  then show ?thesis using assms tree_ok_detach unfolding owners_ok_def by blast
qed

lemma owners_ok_mint_nft:
  assumes "owners_ok s" "mint_nft_param c dst param (ts, s) = Inr (ts', s')"
  shows "owners_ok s'"
  using assms(2)
proof (rule mint_nft_run)
  fix i n assume s': "s' = setLegacyToken c i ((setNFT c \<lparr>nftId = i, nftName = mpName param, nftMeta = mpMeta param\<rparr>
      (setOwner c i dst (col_setBalance c dst i 1 (setNextTokenID c (mpTokenType param) (n + 1) s))))\<lparr>
      cSupplies := setStatistic c (mpTokenType param) (col_GetSupply s c (mpTokenType param) + 1) (cSupplies s),
      cMinteds := setStatistic c (mpTokenType param) (col_GetMinted s c (mpTokenType param) + 1) (cMinteds s)\<rparr>)"
  have "owned s' c' {}" for c'
    using assms(1) by (auto simp: s' owners_ok_def owned_def prims store_get_set split: if_splits)
  then show ?thesis using assms(1) tree_ok_cong [of s' s] unfolding owners_ok_def by (simp add: s' prims)
qed

lemma owners_ok_modify_nft:
  assumes "owners_ok s" "ModifyNFT cfg c i operator changes s = Inr s'" "ids_ok s"
  shows "owners_ok s'"
proof -
  obtain t t' ev where r: "store_get (cNFTs s) (c, i) = Some t" "foldE modify_nft_field changes t = Inr t'"
    "s' = (setNFT c t' s)\<lparr>cEvents := ev\<rparr>"
    using assms(2) by (auto simp: ModifyNFT_def GetNFT_def Let_def prims split: option.splits)
  have "nftId t' = i"
    by (rule foldE_invariant [OF r(2)])
      (use ids_okD(5) [OF assms(3) r(1)] in \<open>auto simp: modify_nft_field_def split: if_splits\<close>)
  then show ?thesis
    by (intro owners_ok_part [OF assms(1)]) (use r(1) in \<open>auto simp: r(3) prims store_get_set\<close>)
qed

text \<open>The two invariants together, since a stored token is written back under the id it carries.\<close>

definition sound :: "ColState \<Rightarrow> bool" where
  "sound s \<longleftrightarrow> store_ok s \<and> owners_ok s"

lemma sound_part:
  assumes "sound s" "store_ok s'" "(tree_part s', cOwners s') = (tree_part s, cOwners s)"
  shows "sound s'"
  using assms owners_ok_part [of s s'] by (simp add: sound_def tree_part_def)

lemma soundD: "sound s \<Longrightarrow> store_ok s" "sound s \<Longrightarrow> owners_ok s" "sound s \<Longrightarrow> ids_ok s"
  by (simp_all add: sound_def store_ok_def)

lemma sound_send:
  assumes "sound s" "list_all coin_ok amount" "col_SendCoins cfg c from dst amount s = Inr s'"
  shows "sound s'"
proof -
  have "owners_ok s'"
    using SendCoins_held [OF assms(3)] SendCoins_owners [OF assms(3)]
    by (intro owners_ok_part [OF soundD(2) [OF assms(1)]]) (simp_all add: held_def parts)
  then show ?thesis using store_inv.send [OF soundD(1) [OF assms(1)] assms(2,3)] by (simp add: sound_def)
qed

interpretation sound_inv: col_invariant sound
proof unfold_locales
  fix s s' c cl i k dst n f and param :: MintNFTParam and ts ts' and changes :: "ColAttribute list" and cfg a
  assume ok: "sound s"
  note store = soundD(1) [OF ok] and owners = soundD(2) [OF ok]
  show "sound s'" if "tokens_part s' = tokens_part s"
    by (rule sound_part [OF ok store_inv.side [OF store that]]) (use that in \<open>simp add: tokens_part_def\<close>)
  show "sound (s\<lparr>cClassState := cs\<rparr>)" if "NewID (cClassState s) = Inr (i, cs)" for cs
    by (rule sound_part [OF ok store_inv.new_id [OF store that]]) (simp add: parts)
  show "sound s'" if "createContract ct s = Inr (i, s')" for ct
    by (rule sound_part [OF ok store_inv.contract [OF store that]]) (use createContract_frame [OF that] in simp)
  show "sound s'" if "CreateTokenClass c cl s = Inr (i, s')"
    by (rule sound_part [OF ok store_inv.create_class [OF store that]]) (use CreateTokenClass_frame [OF that] in simp)
  show "sound s'" if "list_all coin_ok amount" "col_SendCoins cfg c a dst amount s = Inr s'" for amount
    by (rule sound_send [OF ok that])
  show "sound s'" if "store_get (cClasses s) (c, k) = Some (FTClass f)" "0 < n" "mintFT c dst k n s = Inr s'"
    using that(3) by (rule mintFT_run)
      (rule sound_part [OF ok store_inv.mint_ft [OF store that]], simp add: parts prims)
  show "sound s'" if "mint_nft_param c dst param (ts, s) = Inr (ts', s')"
    using store_inv.mint_nft [OF store that] owners_ok_mint_nft [OF owners that] by (simp add: sound_def)
  show "sound s'" if "list_all coin_ok amount" "col_BurnCoins c a amount s = Inr (burnt, s')" for amount burnt
    using store_inv.burn [OF store that] owners_ok_burn [OF owners that(2)] by (simp add: sound_def)
  show "sound s'" if "Attach c owner subject target s = Inr s'" for owner subject target
    using store_inv.attach [OF store that] owners_ok_attach [OF owners that] by (simp add: sound_def)
  show "sound s'" if "Detach c owner subject s = Inr s'" for owner subject
    using store_inv.detach [OF store that] owners_ok_detach [OF owners that] by (simp add: sound_def)
  show "sound s'" if "\<And>k v. (k, v) \<in> set changes \<Longrightarrow> v = k" "ModifyTokenClass cfg c k operator changes s = Inr s'" for operator
    by (rule sound_part [OF ok store_inv.modify_class [OF store that]]) (use ModifyTokenClass_frame [OF that(2)] in simp_all)
  show "sound s'" if "ModifyNFT cfg c i operator changes s = Inr s'" for operator
    using store_inv.modify_nft [OF store that] owners_ok_modify_nft [OF owners that soundD(3) [OF ok]] by (simp add: sound_def)
qed

lemma sound_genesis: "sound ((empty_col_state (class_InitGenesis DefaultClassGenesisState \<lparr>nonce = None, ids = {}\<rparr>))\<lparr>cParams := p\<rparr>)"
  by (simp add: sound_def store_ok_def ids_ok_def balances_ok_def owners_ok_def owned_def tree_ok_def kids_def nft_issued_def
      empty_col_state_def class_InitGenesis_def DefaultClassGenesisState_def setNonce_def col_GetBalance_def col_total_def
      ledger_total_def store_get_def acyclic_def)

theorem sound_reachable: "col_reachable cfg s \<Longrightarrow> sound s"
  using sound_genesis by (rule sound_inv.reachable)

lemma stats_reachable: "col_reachable cfg s \<Longrightarrow> stats_ok s"
  by (rule stats_inv.reachable) (simp_all add: stats_ok_def empty_col_state_def col_GetMinted_def col_GetSupply_def
      col_GetBurnt_def getStatistic_def store_get_def)

text \<open>The root of a stored token, and its owner.\<close>

lemma GetRootOwner_found:
  assumes "owners_ok s" "store_get (cNFTs s) (c, t) \<noteq> None"
  shows "\<exists>r a. GetRoot s c t = Inr r \<and> store_get (cNFTs s) (c, r) \<noteq> None \<and> store_get (cParents s) (c, r) = None \<and>
    GetRootOwner s c t = Inr a"
proof -
  have tree: "tree_ok s" and own: "owned s c {}" using assms(1) by (simp_all add: owners_ok_def)
  obtain r where r: "GetRoot s c t = Inr r" using GetRoot_ends [OF tree_ok_acyclic [OF tree] tree_ok_parent [OF tree]] by blast
  note reach = GetRoot_reaches [OF r]
  have "store_get (cNFTs s) (c, r) \<noteq> None"
    using reach [THEN conjunct1]
    by (induction rule: rtrancl_induct) (use assms(2) ownedD(1) [OF own] in \<open>auto simp: pars_def\<close>)
  moreover obtain a where "store_get (cOwners s) (c, r) = Some a"
    using ownedD(2) [OF own calculation] reach by auto
  ultimately show ?thesis using r reach by (auto simp: GetRootOwner_def)
qed

end
