(* ===== verification/CollectionDemo.thy ===== *)
theory CollectionDemo
  imports CollectionOwners
begin

section \<open>A run of the collection module\<close>

text \<open>
  Messages on concrete tokens, evaluated from genesis on: a contract with one class of
  non-fungible tokens, two tokens of it, one attached to the other, and what two burns make of
  them. Hexadecimal text and bit lengths are computed on binary integers here.
\<close>

function hex_int :: "int \<Rightarrow> string" where
  "hex_int n = (if n < 16 then [hex_digit (nat n)] else hex_int (n div 16) @ [hex_digit (nat (n mod 16))])"
  by auto
termination by (relation "measure nat") auto

declare hex_int.simps [simp del]

lemma hex_int_text: "hex_int (int n) = hex_text n"
proof (induction n rule: hex_text.induct)
  case (1 n)
  show ?case
  proof (cases "n < 16")
    case True
    then show ?thesis by (subst hex_int.simps, subst hex_text.simps) simp
  next
    case False
    then have "hex_int (int n div 16) = hex_text (n div 16)" using 1 by (simp add: zdiv_int)
    moreover have "nat (int n mod 16) = n mod 16" by (simp add: nat_mod_distrib)
    ultimately show ?thesis using False by (subst hex_int.simps, subst hex_text.simps) simp
  qed
qed

function bit_length :: "int \<Rightarrow> nat" where
  "bit_length n = (if n \<le> 0 then 0 else Suc (bit_length (n div 2)))"
  by auto
termination by (relation "measure nat") auto

declare bit_length.simps [simp del]

lemma bit_length_nat: "bit_length (int n) = floorlog 2 n"
proof (induction n rule: less_induct)
  case (less n)
  show ?case
  proof (cases "n = 0")
    case False
    then have "bit_length (int n div 2) = floorlog 2 (n div 2)" using less [of "n div 2"] by (simp add: zdiv_int)
    then show ?thesis using False by (subst bit_length.simps, subst compute_floorlog) simp
  qed (simp add: bit_length.simps floorlog_def)
qed

lemma BitLen_code [code]: "BitLen x = bit_length \<bar>x\<bar>"
  using bit_length_nat [of "nat \<bar>x\<bar>"] by (simp add: BitLen_def)

lemma hex8_code [code]: "hex8 n = zero_pad lengthClassID (hex_int (uint n))"
  using hex_int_text [of "unat n"] by (simp add: hex8_def)

lemma nonceToID_code [code]:
  "nonceToID n = (let hid = hex_int (uint (fnv32 (PutUint64 n))) in
     if length hid < 8 then drop (length hid) ''00000000'' @ hid else hid)"
  using hex_int_text [of "unat (fnv32 (PutUint64 n))"] by (simp add: nonceToID_def)

definition col_demo_genesis :: "ColState result" where
  "col_demo_genesis = col_InitGenesis plain_config col_DefaultGenesisState
      (empty_col_state (class_InitGenesis DefaultClassGenesisState \<lparr>nonce = None, ids = {}\<rparr>))"

definition demo_run :: "ColMsg list \<Rightarrow> ColState result" where
  "demo_run ms = bindE col_demo_genesis (foldE (DeliverColMsg plain_config) ms)"

lemma reachable_run: "col_reachable cfg s \<Longrightarrow> foldE (DeliverColMsg cfg) ms s = Inr s' \<Longrightarrow> col_reachable cfg s'"
  by (induction ms arbitrary: s) (auto intro: col_reachable.deliver)

lemma demo_run_reachable: "demo_run ms = Inr s \<Longrightarrow> col_reachable plain_config s"
  by (auto simp: demo_run_def col_demo_genesis_def intro: reachable_run col_reachable.genesis)

definition demo_made :: "ColMsg list" where
  "demo_made =
     [MsgCreateContract ''link1a'' ''art'' [] [], MsgIssueNFT ''9be17165'' ''car'' [] ''link1a'',
      MsgMintNFT ''9be17165'' ''link1a'' ''link1a''
        (replicate 2 \<lparr>mpTokenType = ''10000000'', mpName = ''car'', mpMeta = []\<rparr>)]"

definition demo_attach :: ColMsg where
  "demo_attach = MsgAttach ''9be17165'' ''link1a'' ''1000000000000001'' ''1000000000000002''"

definition demo_burn :: "string \<Rightarrow> ColMsg" where
  "demo_burn i = MsgBurnNFT ''9be17165'' ''link1a'' [i]"

text \<open>What is looked up in the state after a run, when the run succeeds.\<close>

definition demo_see :: "ColMsg list \<Rightarrow> (ColState \<Rightarrow> 'a) \<Rightarrow> 'a option" where
  "demo_see ms f = (case demo_run ms of Inr s \<Rightarrow> Some (f s) | Inl _ \<Rightarrow> None)"

lemma demo_state:
  assumes "demo_see ms f = Some v"
  obtains s where "demo_run ms = Inr s" "col_reachable plain_config s" "f s = v"
  using assms demo_run_reachable by (auto simp: demo_see_def split: sum.splits)

lemma demo_made_eval:
  "demo_see demo_made (\<lambda>s.
     (hasNFT s ''9be17165'' ''1000000000000001'', GetParent s ''9be17165'' ''1000000000000001'',
      getOwner s ''9be17165'' ''1000000000000001'', GetChildren s ''9be17165'' ''1000000000000002'',
      col_GetBalance s ''9be17165'' ''a'' ''1000000000000001'',
      isl (Attach ''9be17165'' ''a'' ''1000000000000001'' ''1000000000000002'' s))) =
   Some (Inr (), Inl (Error ErrNotFound ''no parent''), Inr ''a'', [], 1, False)"
  by code_simp

lemma demo_made_state:
  obtains s s' where "col_reachable plain_config s" "hasNFT s ''9be17165'' ''1000000000000001'' = Inr ()"
    "GetParent s ''9be17165'' ''1000000000000001'' = Inl (Error ErrNotFound ''no parent'')"
    "getOwner s ''9be17165'' ''1000000000000001'' = Inr ''a''" "GetChildren s ''9be17165'' ''1000000000000002'' = []"
    "col_GetBalance s ''9be17165'' ''a'' ''1000000000000001'' = 1"
    "Attach ''9be17165'' ''a'' ''1000000000000001'' ''1000000000000002'' s = Inr s'"
proof (rule demo_state [OF demo_made_eval], goal_cases)
  case (1 s)
  then obtain s' where "Attach ''9be17165'' ''a'' ''1000000000000001'' ''1000000000000002'' s = Inr s'"
    by (cases "Attach ''9be17165'' ''a'' ''1000000000000001'' ''1000000000000002'' s") auto
  then show ?case using that 1 by auto
qed

text \<open>
  An attached token keeps its balance, and pruning does not take it. So the holder burns the
  attached token once with its root and once more by its balance.
\<close>

theorem col_burnt_twice:
  "\<exists>s. col_reachable plain_config s \<and> col_GetSupply s ''9be17165'' ''10000000'' = - 1 \<and>
     col_GetMinted s ''9be17165'' ''10000000'' = 2 \<and> col_GetBurnt s ''9be17165'' ''10000000'' = 3"
proof -
  have "demo_see (demo_made @ [demo_attach, demo_burn ''1000000000000002'', demo_burn ''1000000000000001''])
      (\<lambda>s. (col_GetSupply s ''9be17165'' ''10000000'', col_GetMinted s ''9be17165'' ''10000000'',
            col_GetBurnt s ''9be17165'' ''10000000'')) = Some (- 1, 2, 3)"
    by code_simp
  then show ?thesis by (rule demo_state) auto
qed

end
