(* ===== verification/CollectionKeys.thy ===== *)
theory CollectionKeys
  imports TokenKeys CollectionTypes
begin

section \<open>Store keys of the collection module: x/collection/keeper/keys.go\<close>

text \<open>
  The keeper packs contract ids, addresses, token and class ids into byte keys as the token
  module does, each part but the last preceded by its length in one byte. Every pair of a
  builder and a splitter satisfies the interface \<open>key_codec\<close> for parts shorter than 256 bytes,
  and the first byte keeps the kinds of entries apart. The other theories on the module use
  the unpacked parts as keys.
\<close>

definition col_paramsKey :: string where "col_paramsKey = [byte 0]"

definition col_contractKeyPrefix :: string where "col_contractKeyPrefix = [byte 16]"

definition col_classKeyPrefix :: string where "col_classKeyPrefix = [byte 17]"

definition col_nextClassIDKeyPrefix :: string where "col_nextClassIDKeyPrefix = [byte 18]"

definition col_nextTokenIDKeyPrefix :: string where "col_nextTokenIDKeyPrefix = [byte 19]"

definition col_balanceKeyPrefix :: string where "col_balanceKeyPrefix = [byte 32]"

definition col_ownerKeyPrefix :: string where "col_ownerKeyPrefix = [byte 33]"

definition col_nftKeyPrefix :: string where "col_nftKeyPrefix = [byte 34]"

definition col_parentKeyPrefix :: string where "col_parentKeyPrefix = [byte 35]"

definition col_childKeyPrefix :: string where "col_childKeyPrefix = [byte 36]"

definition col_authorizationKeyPrefix :: string where "col_authorizationKeyPrefix = [byte 48]"

definition col_grantKeyPrefix :: string where "col_grantKeyPrefix = [byte 49]"

definition col_supplyKeyPrefix :: string where "col_supplyKeyPrefix = [byte 64]"

definition col_mintedKeyPrefix :: string where "col_mintedKeyPrefix = [byte 65]"

definition col_burntKeyPrefix :: string where "col_burntKeyPrefix = [byte 66]"

definition col_legacyTokenKeyPrefix :: string where "col_legacyTokenKeyPrefix = [byte 240]"

definition col_legacyTokenTypeKeyPrefix :: string where "col_legacyTokenTypeKeyPrefix = [byte 241]"

definition col_balanceKeyPrefixByContractID :: "string \<Rightarrow> string" where
  "col_balanceKeyPrefixByContractID contractID = col_balanceKeyPrefix @ byte (length contractID) # contractID"

definition col_balanceKeyPrefixByAddress :: "string \<Rightarrow> AccAddress \<Rightarrow> string" where
  "col_balanceKeyPrefixByAddress contractID address =
     col_balanceKeyPrefixByContractID contractID @ byte (length address) # address"

definition col_balanceKey :: "string \<Rightarrow> AccAddress \<Rightarrow> string \<Rightarrow> string" where
  "col_balanceKey contractID address tokenID = col_balanceKeyPrefixByAddress contractID address @ tokenID"

definition col_splitBalanceKey :: "string \<Rightarrow> (string \<times> AccAddress \<times> string) result" where
  "col_splitBalanceKey key =
     (let begin1 = length col_balanceKeyPrefix + 1 in
      bindE (index_at key (begin1 - 1)) (\<lambda>l.
      let end1 = begin1 + of_char l in
      bindE (GoText.slice key begin1 end1) (\<lambda>contractID.
      let begin2 = end1 + 1 in
      bindE (index_at key (begin2 - 1)) (\<lambda>l2.
      let end2 = begin2 + of_char l2 in
      bindE (GoText.slice key begin2 end2) (\<lambda>address.
      bindE (GoText.slice key end2 (length key)) (\<lambda>tokenID. Inr (contractID, address, tokenID)))))))"

definition col_ownerKeyPrefixByContractID :: "string \<Rightarrow> string" where
  "col_ownerKeyPrefixByContractID contractID = col_ownerKeyPrefix @ byte (length contractID) # contractID"

definition col_ownerKey :: "string \<Rightarrow> string \<Rightarrow> string" where
  "col_ownerKey contractID tokenID = col_ownerKeyPrefixByContractID contractID @ tokenID"

definition col_nftKeyPrefixByContractID :: "string \<Rightarrow> string" where
  "col_nftKeyPrefixByContractID contractID = col_nftKeyPrefix @ byte (length contractID) # contractID"

definition col_nftKey :: "string \<Rightarrow> string \<Rightarrow> string" where
  "col_nftKey contractID tokenID = col_nftKeyPrefixByContractID contractID @ tokenID"

definition col_splitNFTKey :: "string \<Rightarrow> (string \<times> string) result" where
  "col_splitNFTKey key =
     (let begin1 = length col_nftKeyPrefix + 1 in
      bindE (index_at key (begin1 - 1)) (\<lambda>l.
      let end1 = begin1 + of_char l in
      bindE (GoText.slice key begin1 end1) (\<lambda>contractID.
      bindE (GoText.slice key end1 (length key)) (\<lambda>tokenID. Inr (contractID, tokenID)))))"

definition col_parentKeyPrefixByContractID :: "string \<Rightarrow> string" where
  "col_parentKeyPrefixByContractID contractID = col_parentKeyPrefix @ byte (length contractID) # contractID"

definition col_parentKey :: "string \<Rightarrow> string \<Rightarrow> string" where
  "col_parentKey contractID tokenID = col_parentKeyPrefixByContractID contractID @ tokenID"

definition col_splitParentKey :: "string \<Rightarrow> (string \<times> string) result" where
  "col_splitParentKey key =
     (let begin1 = length col_parentKeyPrefix + 1 in
      bindE (index_at key (begin1 - 1)) (\<lambda>l.
      let end1 = begin1 + of_char l in
      bindE (GoText.slice key begin1 end1) (\<lambda>contractID.
      bindE (GoText.slice key end1 (length key)) (\<lambda>tokenID. Inr (contractID, tokenID)))))"

definition col_childKeyPrefixByContractID :: "string \<Rightarrow> string" where
  "col_childKeyPrefixByContractID contractID = col_childKeyPrefix @ byte (length contractID) # contractID"

definition col_childKeyPrefixByTokenID :: "string \<Rightarrow> string \<Rightarrow> string" where
  "col_childKeyPrefixByTokenID contractID tokenID =
     col_childKeyPrefixByContractID contractID @ byte (length tokenID) # tokenID"

definition col_childKey :: "string \<Rightarrow> string \<Rightarrow> string \<Rightarrow> string" where
  "col_childKey contractID tokenID childID = col_childKeyPrefixByTokenID contractID tokenID @ childID"

definition col_splitChildKey :: "string \<Rightarrow> (string \<times> string \<times> string) result" where
  "col_splitChildKey key =
     (let begin1 = length col_childKeyPrefix + 1 in
      bindE (index_at key (begin1 - 1)) (\<lambda>l.
      let end1 = begin1 + of_char l in
      bindE (GoText.slice key begin1 end1) (\<lambda>contractID.
      let begin2 = end1 + 1 in
      bindE (index_at key (begin2 - 1)) (\<lambda>l2.
      let end2 = begin2 + of_char l2 in
      bindE (GoText.slice key begin2 end2) (\<lambda>tokenID.
      bindE (GoText.slice key end2 (length key)) (\<lambda>childID. Inr (contractID, tokenID, childID)))))))"

definition col_contractKey :: "string \<Rightarrow> string" where
  "col_contractKey contractID = col_contractKeyPrefix @ contractID"

definition col_classKeyPrefixByContractID :: "string \<Rightarrow> string" where
  "col_classKeyPrefixByContractID contractID = col_classKeyPrefix @ byte (length contractID) # contractID"

definition col_classKey :: "string \<Rightarrow> string \<Rightarrow> string" where
  "col_classKey contractID classID = col_classKeyPrefixByContractID contractID @ classID"

definition col_nextTokenIDKeyPrefixByContractID :: "string \<Rightarrow> string" where
  "col_nextTokenIDKeyPrefixByContractID contractID = col_nextTokenIDKeyPrefix @ byte (length contractID) # contractID"

definition col_nextTokenIDKey :: "string \<Rightarrow> string \<Rightarrow> string" where
  "col_nextTokenIDKey contractID classID = col_nextTokenIDKeyPrefixByContractID contractID @ classID"

definition col_splitNextTokenIDKey :: "string \<Rightarrow> (string \<times> string) result" where
  "col_splitNextTokenIDKey key =
     (let begin1 = length col_nextTokenIDKeyPrefix + 1 in
      bindE (index_at key (begin1 - 1)) (\<lambda>l.
      let end1 = begin1 + of_char l in
      bindE (GoText.slice key begin1 end1) (\<lambda>contractID.
      bindE (GoText.slice key end1 (length key)) (\<lambda>classID. Inr (contractID, classID)))))"

definition col_nextClassIDKey :: "string \<Rightarrow> string" where
  "col_nextClassIDKey contractID = col_nextClassIDKeyPrefix @ contractID"

definition col_authorizationKeyPrefixByContractID :: "string \<Rightarrow> string" where
  "col_authorizationKeyPrefixByContractID contractID = col_authorizationKeyPrefix @ byte (length contractID) # contractID"

definition col_authorizationKeyPrefixByOperator :: "string \<Rightarrow> AccAddress \<Rightarrow> string" where
  "col_authorizationKeyPrefixByOperator contractID operator =
     col_authorizationKeyPrefixByContractID contractID @ byte (length operator) # operator"

definition col_authorizationKey :: "string \<Rightarrow> AccAddress \<Rightarrow> AccAddress \<Rightarrow> string" where
  "col_authorizationKey contractID operator holder = col_authorizationKeyPrefixByOperator contractID operator @ holder"

definition col_splitAuthorizationKey :: "string \<Rightarrow> (string \<times> AccAddress \<times> AccAddress) result" where
  "col_splitAuthorizationKey key =
     (let begin1 = length col_authorizationKeyPrefix + 1 in
      bindE (index_at key (begin1 - 1)) (\<lambda>l.
      let end1 = begin1 + of_char l in
      bindE (GoText.slice key begin1 end1) (\<lambda>contractID.
      let begin2 = end1 + 1 in
      bindE (index_at key (begin2 - 1)) (\<lambda>l2.
      let end2 = begin2 + of_char l2 in
      bindE (GoText.slice key begin2 end2) (\<lambda>operator.
      bindE (GoText.slice key end2 (length key)) (\<lambda>holder. Inr (contractID, operator, holder)))))))"

definition col_grantKeyPrefixByContractID :: "string \<Rightarrow> string" where
  "col_grantKeyPrefixByContractID contractID = col_grantKeyPrefix @ byte (length contractID) # contractID"

definition col_grantKeyPrefixByGrantee :: "string \<Rightarrow> AccAddress \<Rightarrow> string" where
  "col_grantKeyPrefixByGrantee contractID grantee =
     col_grantKeyPrefixByContractID contractID @ byte (length grantee) # grantee"

definition col_grantKey :: "string \<Rightarrow> AccAddress \<Rightarrow> ColPermission \<Rightarrow> string" where
  "col_grantKey contractID grantee permission =
     col_grantKeyPrefixByGrantee contractID grantee @ [byte (col_permission_value permission)]"

text \<open>The last part is the permission's number, read as a byte.\<close>

definition col_splitGrantKey :: "string \<Rightarrow> (string \<times> AccAddress \<times> nat) result" where
  "col_splitGrantKey key =
     (let begin1 = length col_grantKeyPrefix + 1 in
      bindE (index_at key (begin1 - 1)) (\<lambda>l.
      let end1 = begin1 + of_char l in
      bindE (GoText.slice key begin1 end1) (\<lambda>contractID.
      let begin2 = end1 + 1 in
      bindE (index_at key (begin2 - 1)) (\<lambda>l2.
      let end2 = begin2 + of_char l2 in
      bindE (GoText.slice key begin2 end2) (\<lambda>grantee.
      bindE (index_at key end2) (\<lambda>p. Inr (contractID, grantee, of_char p)))))))"

definition col_statisticKeyPrefixByContractID :: "string \<Rightarrow> string \<Rightarrow> string" where
  "col_statisticKeyPrefixByContractID keyPrefix contractID = keyPrefix @ byte (length contractID) # contractID"

definition col_statisticKey :: "string \<Rightarrow> string \<Rightarrow> string \<Rightarrow> string" where
  "col_statisticKey keyPrefix contractID classID =
     col_statisticKeyPrefixByContractID keyPrefix contractID @ classID"

definition col_splitStatisticKey :: "string \<Rightarrow> string \<Rightarrow> (string \<times> string) result" where
  "col_splitStatisticKey keyPrefix key =
     (let begin1 = length keyPrefix + 1 in
      bindE (index_at key (begin1 - 1)) (\<lambda>l.
      let end1 = begin1 + of_char l in
      bindE (GoText.slice key begin1 end1) (\<lambda>contractID.
      bindE (GoText.slice key end1 (length key)) (\<lambda>classID. Inr (contractID, classID)))))"

definition col_legacyTokenKeyPrefixByContractID :: "string \<Rightarrow> string" where
  "col_legacyTokenKeyPrefixByContractID contractID = col_legacyTokenKeyPrefix @ byte (length contractID) # contractID"

definition col_legacyTokenKey :: "string \<Rightarrow> string \<Rightarrow> string" where
  "col_legacyTokenKey contractID tokenID = col_legacyTokenKeyPrefixByContractID contractID @ tokenID"

definition col_legacyTokenKeyPrefixByTokenType :: "string \<Rightarrow> string \<Rightarrow> string" where
  "col_legacyTokenKeyPrefixByTokenType contractID tokenType =
     col_legacyTokenKeyPrefixByContractID contractID @ tokenType"

definition col_legacyTokenTypeKeyPrefixByContractID :: "string \<Rightarrow> string" where
  "col_legacyTokenTypeKeyPrefixByContractID contractID = col_legacyTokenTypeKeyPrefix @ byte (length contractID) # contractID"

definition col_legacyTokenTypeKey :: "string \<Rightarrow> string \<Rightarrow> string" where
  "col_legacyTokenTypeKey contractID tokenType = col_legacyTokenTypeKeyPrefixByContractID contractID @ tokenType"

subsection \<open>Codecs\<close>

lemmas col_key_defs =
  col_paramsKey_def col_contractKeyPrefix_def col_classKeyPrefix_def col_nextClassIDKeyPrefix_def
  col_nextTokenIDKeyPrefix_def col_balanceKeyPrefix_def col_ownerKeyPrefix_def col_nftKeyPrefix_def
  col_parentKeyPrefix_def col_childKeyPrefix_def col_authorizationKeyPrefix_def col_grantKeyPrefix_def
  col_supplyKeyPrefix_def col_mintedKeyPrefix_def col_burntKeyPrefix_def col_legacyTokenKeyPrefix_def
  col_legacyTokenTypeKeyPrefix_def col_balanceKeyPrefixByContractID_def
  col_balanceKeyPrefixByAddress_def col_balanceKey_def col_ownerKeyPrefixByContractID_def
  col_ownerKey_def col_nftKeyPrefixByContractID_def col_nftKey_def col_parentKeyPrefixByContractID_def
  col_parentKey_def col_childKeyPrefixByContractID_def col_childKeyPrefixByTokenID_def col_childKey_def
  col_contractKey_def col_classKeyPrefixByContractID_def col_classKey_def
  col_nextTokenIDKeyPrefixByContractID_def col_nextTokenIDKey_def col_nextClassIDKey_def
  col_authorizationKeyPrefixByContractID_def col_authorizationKeyPrefixByOperator_def
  col_authorizationKey_def col_grantKeyPrefixByContractID_def col_grantKeyPrefixByGrantee_def
  col_grantKey_def col_statisticKeyPrefixByContractID_def col_statisticKey_def
  col_legacyTokenKeyPrefixByContractID_def col_legacyTokenKey_def
  col_legacyTokenKeyPrefixByTokenType_def col_legacyTokenTypeKeyPrefixByContractID_def
  col_legacyTokenTypeKey_def

lemmas col_split_simps = short_def col_key_defs index_at_def Let_def GoText.slice_def nth_append

lemma col_splitBalanceKey_key:
  "short c \<Longrightarrow> short a \<Longrightarrow> col_splitBalanceKey (col_balanceKey c a t) = Inr (c, a, t)"
  by (simp add: col_splitBalanceKey_def col_split_simps)

lemma col_splitNFTKey_key: "short c \<Longrightarrow> col_splitNFTKey (col_nftKey c t) = Inr (c, t)"
  by (simp add: col_splitNFTKey_def col_split_simps)

lemma col_splitParentKey_key: "short c \<Longrightarrow> col_splitParentKey (col_parentKey c t) = Inr (c, t)"
  by (simp add: col_splitParentKey_def col_split_simps)

lemma col_splitChildKey_key:
  "short c \<Longrightarrow> short a \<Longrightarrow> col_splitChildKey (col_childKey c a t) = Inr (c, a, t)"
  by (simp add: col_splitChildKey_def col_split_simps)

lemma col_splitNextTokenIDKey_key: "short c \<Longrightarrow> col_splitNextTokenIDKey (col_nextTokenIDKey c t) = Inr (c, t)"
  by (simp add: col_splitNextTokenIDKey_def col_split_simps)

lemma col_splitAuthorizationKey_key:
  "short c \<Longrightarrow> short a \<Longrightarrow> col_splitAuthorizationKey (col_authorizationKey c a t) = Inr (c, a, t)"
  by (simp add: col_splitAuthorizationKey_def col_split_simps)

lemma col_splitGrantKey_key:
  "short c \<Longrightarrow> short a \<Longrightarrow> col_splitGrantKey (col_grantKey c a p) = Inr (c, a, col_permission_value p)"
  by (simp add: col_splitGrantKey_def col_split_simps)

lemma col_splitStatisticKey_key:
  "short c \<Longrightarrow> col_splitStatisticKey pre (col_statisticKey pre c k) = Inr (c, k)"
  by (simp add: col_splitStatisticKey_def col_split_simps)

interpretation col_balance_key: key_codec "\<lambda>(c, a, t). col_balanceKey c a t" col_splitBalanceKey id
  "\<lambda>(c, a, t). short c \<and> short a" 32
  by unfold_locales (auto simp: col_splitBalanceKey_key, auto simp: col_key_defs)

interpretation col_nft_key: key_codec "\<lambda>(c, t). col_nftKey c t" col_splitNFTKey id
  "\<lambda>(c, t). short c" 34
  by unfold_locales (auto simp: col_splitNFTKey_key, auto simp: col_key_defs)

interpretation col_parent_key: key_codec "\<lambda>(c, t). col_parentKey c t" col_splitParentKey id
  "\<lambda>(c, t). short c" 35
  by unfold_locales (auto simp: col_splitParentKey_key, auto simp: col_key_defs)

interpretation col_child_key: key_codec "\<lambda>(c, a, t). col_childKey c a t" col_splitChildKey id
  "\<lambda>(c, a, t). short c \<and> short a" 36
  by unfold_locales (auto simp: col_splitChildKey_key, auto simp: col_key_defs)

interpretation col_next_token_key: key_codec "\<lambda>(c, t). col_nextTokenIDKey c t" col_splitNextTokenIDKey id
  "\<lambda>(c, t). short c" 19
  by unfold_locales (auto simp: col_splitNextTokenIDKey_key, auto simp: col_key_defs)

interpretation col_authorization_key: key_codec "\<lambda>(c, a, t). col_authorizationKey c a t" col_splitAuthorizationKey id
  "\<lambda>(c, a, t). short c \<and> short a" 48
  by unfold_locales (auto simp: col_splitAuthorizationKey_key, auto simp: col_key_defs)

interpretation col_grant_key: key_codec "\<lambda>(c, a, p). col_grantKey c a p" col_splitGrantKey
  "\<lambda>(c, a, p). (c, a, col_permission_value p)" "\<lambda>(c, a, p). short c \<and> short a" 49
  by unfold_locales (auto simp: col_splitGrantKey_key, auto simp: col_key_defs)

interpretation col_supply_key: key_codec "\<lambda>(c, k). col_statisticKey col_supplyKeyPrefix c k"
  "col_splitStatisticKey col_supplyKeyPrefix" id "\<lambda>(c, k). short c" 64
  by unfold_locales (auto simp: col_splitStatisticKey_key, auto simp: col_key_defs)

interpretation col_minted_key: key_codec "\<lambda>(c, k). col_statisticKey col_mintedKeyPrefix c k"
  "col_splitStatisticKey col_mintedKeyPrefix" id "\<lambda>(c, k). short c" 65
  by unfold_locales (auto simp: col_splitStatisticKey_key, auto simp: col_key_defs)

interpretation col_burnt_key: key_codec "\<lambda>(c, k). col_statisticKey col_burntKeyPrefix c k"
  "col_splitStatisticKey col_burntKeyPrefix" id "\<lambda>(c, k). short c" 66
  by unfold_locales (auto simp: col_splitStatisticKey_key, auto simp: col_key_defs)

end
