(* ===== verification/CollectionClasses.thy ===== *)
theory CollectionClasses
  imports CollectionOwners
begin

section \<open>Issued classes of the collection module\<close>

text \<open>
  Every class and every counter of non-fungible tokens has a number that its contract has
  handed out: fungible classes from 0 on, non-fungible ones from \<open>2^28\<close> on. A non-zero
  balance is of a token of such a class. The numbers of fungible classes run into those of
  non-fungible ones after \<open>2^28\<close> classes of one contract, and a class may then replace one of
  the other kind under the same id; before that the kind of a class is the kind of its number.
\<close>

subsection \<open>What a contract has handed out\<close>

definition class_number :: "ColState \<Rightarrow> string \<Rightarrow> string \<Rightarrow> int \<Rightarrow> (NextClassIDs \<Rightarrow> int) \<Rightarrow> bool" where
  "class_number s c k start next \<longleftrightarrow> (\<exists>nc m. store_get (cNextClassIDs s) c = Some nc \<and>
     k = hex8 (word_of_int m) \<and> start \<le> m \<and> m < next nc \<and> m < 2 ^ 64)"

definition class_issued :: "ColState \<Rightarrow> string \<Rightarrow> string \<Rightarrow> ColTokenClass \<Rightarrow> bool" where
  "class_issued s c k cl \<longleftrightarrow> (case cl of
     FTClass _ \<Rightarrow> class_number s c k 0 Fungible
   | NFTClass _ \<Rightarrow> class_number s c k (2 ^ 28) NonFungible \<and> store_get (cNextTokenIDs s) (c, k) \<noteq> None)"

definition counter_issued :: "ColState \<Rightarrow> string \<Rightarrow> string \<Rightarrow> bool" where
  "counter_issued s c k \<longleftrightarrow>
     store_get (cClasses s) (c, k) \<noteq> None \<and> class_number s c k (2 ^ 28) NonFungible"

definition ft_issued :: "ColState \<Rightarrow> string \<Rightarrow> string \<Rightarrow> bool" where
  "ft_issued s c i \<longleftrightarrow> (\<exists>k. i = k @ patternZero \<and> length k = 8 \<and>
     store_get (cClasses s) (c, k) \<noteq> None \<and> class_number s c k 0 Fungible)"

definition issued_ok :: "ColState \<Rightarrow> bool" where
  "issued_ok s \<longleftrightarrow> store_ok s \<and>
     (\<forall>c nc. store_get (cNextClassIDs s) c = Some nc \<longrightarrow> 0 \<le> Fungible nc \<and> 2 ^ 28 \<le> NonFungible nc) \<and>
     (\<forall>c k cl. store_get (cClasses s) (c, k) = Some cl \<longrightarrow> class_issued s c k cl) \<and>
     (\<forall>c k nx. store_get (cNextTokenIDs s) (c, k) = Some nx \<longrightarrow> counter_issued s c k) \<and>
     (\<forall>c a i. col_GetBalance s c a i \<noteq> 0 \<longrightarrow> nft_issued s c i \<or> ft_issued s c i)"

lemma issued_okD:
  assumes "issued_ok s"
  shows "store_ok s"
    "store_get (cNextClassIDs s) c = Some nc \<Longrightarrow> 0 \<le> Fungible nc \<and> 2 ^ 28 \<le> NonFungible nc"
    "store_get (cClasses s) (c, k) = Some cl \<Longrightarrow> class_issued s c k cl"
    "store_get (cNextTokenIDs s) (c, k) = Some nx \<Longrightarrow> counter_issued s c k"
    "col_GetBalance s c a i \<noteq> 0 \<Longrightarrow> nft_issued s c i \<or> ft_issued s c i"
  using assms unfolding issued_ok_def by blast+

lemma ft_issued_id: "ft_issued s c i \<Longrightarrow> ft_id i"
  by (auto simp: ft_issued_def ft_id_def)

text \<open>The operations only add to what is handed out.\<close>

definition grows :: "ColState \<Rightarrow> ColState \<Rightarrow> bool" where
  "grows s s' \<longleftrightarrow>
     (\<forall>c nc. store_get (cNextClassIDs s) c = Some nc \<longrightarrow>
        (\<exists>nc'. store_get (cNextClassIDs s') c = Some nc' \<and> Fungible nc \<le> Fungible nc' \<and> NonFungible nc \<le> NonFungible nc')) \<and>
     (\<forall>k. store_get (cClasses s) k \<noteq> None \<longrightarrow> store_get (cClasses s') k \<noteq> None) \<and>
     (\<forall>k nx. store_get (cNextTokenIDs s) k = Some nx \<longrightarrow>
        (\<exists>nx'. store_get (cNextTokenIDs s') k = Some nx' \<and> nx \<le> nx'))"

lemma grows_same:
  "cNextClassIDs s' = cNextClassIDs s \<Longrightarrow> cClasses s' = cClasses s \<Longrightarrow> cNextTokenIDs s' = cNextTokenIDs s \<Longrightarrow> grows s s'"
  by (auto simp: grows_def)

lemma growsD:
  assumes "grows s s'"
  shows "store_get (cNextClassIDs s) c = Some nc \<Longrightarrow>
      \<exists>nc'. store_get (cNextClassIDs s') c = Some nc' \<and> Fungible nc \<le> Fungible nc' \<and> NonFungible nc \<le> NonFungible nc'"
    "store_get (cClasses s) k \<noteq> None \<Longrightarrow> store_get (cClasses s') k \<noteq> None"
    "store_get (cNextTokenIDs s) k = Some nx \<Longrightarrow> \<exists>nx'. store_get (cNextTokenIDs s') k = Some nx' \<and> nx \<le> nx'"
  using assms unfolding grows_def by blast+

lemma class_number_grows:
  assumes "grows s s'"
  shows "class_number s c k a Fungible \<Longrightarrow> class_number s' c k a Fungible"
    "class_number s c k a NonFungible \<Longrightarrow> class_number s' c k a NonFungible"
  using growsD(1) [OF assms, of c] unfolding class_number_def by fastforce+

lemma counter_grows:
  "grows s s' \<Longrightarrow> store_get (cNextTokenIDs s) k \<noteq> None \<Longrightarrow> store_get (cNextTokenIDs s') k \<noteq> None"
  by (auto dest: growsD(3))

lemma issued_grows:
  assumes "grows s s'"
  shows "class_issued s c k cl \<Longrightarrow> class_issued s' c k cl" "counter_issued s c k \<Longrightarrow> counter_issued s' c k"
    "ft_issued s c i \<Longrightarrow> ft_issued s' c i"
proof -
  show "class_issued s c k cl \<Longrightarrow> class_issued s' c k cl"
    using class_number_grows [OF assms] counter_grows [OF assms] by (cases cl) (auto simp: class_issued_def)
  show "counter_issued s c k \<Longrightarrow> counter_issued s' c k"
    using class_number_grows(2) [OF assms, of c k] growsD(2) [OF assms, of "(c, k)"] by (simp add: counter_issued_def)
  show "ft_issued s c i \<Longrightarrow> ft_issued s' c i"
    unfolding ft_issued_def using class_number_grows(1) [OF assms, of c] growsD(2) [OF assms, of "(c, _)"] by fast
qed

lemma nft_issued_grows: "grows s s' \<Longrightarrow> nft_issued s c i \<Longrightarrow> nft_issued s' c i"
  unfolding nft_issued_def by (elim exE conjE, drule growsD(3), assumption) fastforce

lemma issued_ok_grows:
  assumes ok: "issued_ok s" and store: "store_ok s'" and g: "grows s s'"
    and ids: "\<And>c nc. store_get (cNextClassIDs s') c = Some nc \<Longrightarrow> 0 \<le> Fungible nc \<and> 2 ^ 28 \<le> NonFungible nc"
    and classes: "\<And>c k cl. store_get (cClasses s') (c, k) = Some cl \<Longrightarrow>
      store_get (cClasses s) (c, k) = Some cl \<or> class_issued s' c k cl"
    and counters: "\<And>c k nx. store_get (cNextTokenIDs s') (c, k) = Some nx \<Longrightarrow>
      store_get (cNextTokenIDs s) (c, k) \<noteq> None \<or> counter_issued s' c k"
    and balances: "\<And>c a i. col_GetBalance s' c a i \<noteq> 0 \<Longrightarrow>
      (\<exists>b. col_GetBalance s c b i \<noteq> 0) \<or> nft_issued s' c i \<or> ft_issued s' c i"
  shows "issued_ok s'"
  unfolding issued_ok_def
proof (intro conjI allI impI)
  fix c k cl assume "store_get (cClasses s') (c, k) = Some cl"
  then show "class_issued s' c k cl" using classes issued_okD(3) [OF ok] issued_grows(1) [OF g] by blast
next
  fix c k nx assume "store_get (cNextTokenIDs s') (c, k) = Some nx"
  then show "counter_issued s' c k" using counters issued_okD(4) [OF ok] issued_grows(2) [OF g] by blast
next
  fix c a i assume "col_GetBalance s' c a i \<noteq> 0"
  then show "nft_issued s' c i \<or> ft_issued s' c i"
    using balances issued_okD(5) [OF ok] issued_grows(3) [OF g] nft_issued_grows [OF g] by blast
qed (use store ids in blast)+

lemma issued_ok_moved:
  assumes "issued_ok s" "store_ok s'" "cNextClassIDs s' = cNextClassIDs s" "class_part s' = class_part s"
    and "\<And>c a i. col_GetBalance s' c a i \<noteq> 0 \<Longrightarrow> \<exists>b. col_GetBalance s c b i \<noteq> 0"
  shows "issued_ok s'"
proof -
  have "cClasses s' = cClasses s" "cNextTokenIDs s' = cNextTokenIDs s" using assms(4) by (simp_all add: class_part_def)
  then show ?thesis
    by (intro issued_ok_grows [OF assms(1,2) grows_same]) (use assms(3,5) issued_okD(2) [OF assms(1)] in auto)
qed

lemma issued_ok_part:
  assumes "issued_ok s" "store_ok s'" "cNextClassIDs s' = cNextClassIDs s" "class_part s' = class_part s"
    "cBalances s' = cBalances s"
  shows "issued_ok s'"
  using assms(1-4) by (rule issued_ok_moved) (use col_GetBalance_cong [OF assms(5)] in auto)

subsection \<open>The operations keep it\<close>

lemma subtractCoins_held_before:
  assumes "store_ok s" "list_all coin_ok amount" "col_subtractCoins c from amount s = Inr s1"
  shows "col_GetBalance s1 c' a i \<noteq> 0 \<Longrightarrow> col_GetBalance s c' a i \<noteq> 0"
    "coins_of i amount \<noteq> 0 \<Longrightarrow> col_GetBalance s c from i \<noteq> 0"
proof -
  have "balances_ok s1" by (rule balances_ok_subtract [OF _ assms(2,3)]) (use assms(1) in \<open>simp add: store_ok_def\<close>)
  note nonneg = balances_okD(1) [OF this]
  show "col_GetBalance s1 c' a i \<noteq> 0 \<Longrightarrow> col_GetBalance s c' a i \<noteq> 0"
    using nonneg [of c' a i] subtractCoins_balance [OF assms(3), of c' a i] coins_of_nonneg [OF assms(2), of i]
    by (auto split: if_splits)
  show "coins_of i amount \<noteq> 0 \<Longrightarrow> col_GetBalance s c from i \<noteq> 0"
    using nonneg [of c "from" i] subtractCoins_balance [OF assms(3), of c "from" i] coins_of_nonneg [OF assms(2), of i] by auto
qed

lemma issued_ok_send:
  assumes ok: "issued_ok s" and pos: "list_all coin_ok amount" and send: "col_SendCoins cfg c from dst amount s = Inr s'"
  shows "issued_ok s'"
proof (rule issued_ok_moved [OF ok store_inv.send [OF issued_okD(1) [OF ok] pos send]])
  show "cNextClassIDs s' = cNextClassIDs s" "class_part s' = class_part s"
    using SendCoins_held [OF send] by (simp_all add: held_def parts)
  fix c' a i assume new: "col_GetBalance s' c' a i \<noteq> 0"
  obtain s1 s2 ev where r: "col_subtractCoins c from amount s = Inr s1" "col_addCoins c dst amount s1 = Inr s2"
    "s' = s2\<lparr>cEvents := ev\<rparr>" using send by (rule col_SendCoins_run)
  have "col_GetBalance s' c' a i = col_GetBalance s1 c' a i + (if c' = c \<and> a = dst then coins_of i amount else 0)"
    using r(3) addCoins_balance [OF r(2)] by (simp add: col_GetBalance_cong [of "s2\<lparr>cEvents := ev\<rparr>" s2])
  then have "col_GetBalance s1 c' a i \<noteq> 0 \<or> (c' = c \<and> coins_of i amount \<noteq> 0)" using new by (auto split: if_splits)
  then show "\<exists>b. col_GetBalance s c' b i \<noteq> 0"
    by (auto dest: subtractCoins_held_before [OF issued_okD(1) [OF ok] pos r(1)])
qed

lemma issued_ok_burn:
  assumes ok: "issued_ok s" and pos: "list_all coin_ok amount" and burn: "col_BurnCoins c from amount s = Inr (burnt, s')"
  shows "issued_ok s'"
proof (rule issued_ok_moved [OF ok store_inv.burn [OF issued_okD(1) [OF ok] pos burn]])
  obtain s1 s2 where r: "col_subtractCoins c from amount s = Inr s1" "foldE (burn_coin c) amount ([], s1) = Inr (burnt, s2)"
    "foldE (burn_statistics c) burnt s2 = Inr s'" using burn by (rule BurnCoins_run)
  note frames = subtractCoins_held [OF r(1)] foldE_burn_coin [OF r(2)] foldE_burn_statistics [OF r(3)]
  show "cNextClassIDs s' = cNextClassIDs s" "class_part s' = class_part s"
    using frames by (auto simp: held_def burn_frame_def parts)
  have "cBalances s' = cBalances s1" using frames by (auto simp: burn_frame_def)
  note b = col_GetBalance_cong [OF this]
  show "\<exists>b. col_GetBalance s c' b i \<noteq> 0" if "col_GetBalance s' c' a i \<noteq> 0" for c' a i
    using that unfolding b by (blast dest: subtractCoins_held_before(1) [OF issued_okD(1) [OF ok] pos r(1)])
qed

lemma issued_ok_contract:
  assumes ok: "issued_ok s" and new: "createContract ct s = Inr (i, s')"
  shows "issued_ok s'"
proof -
  obtain cs where id: "NewID (cClassState s) = Inr (i, cs)" and s': "s' = setNextClassIDs (DefaultNextClassIDs i)
      (setContract (ct\<lparr>colContractId := i\<rparr>) (s\<lparr>cClassState := cs\<rparr>))"
    using new by (auto simp: createContract_def)
  have ids: "ids_ok s" using issued_okD(1) [OF ok] by (simp add: store_ok_def)
  obtain n where "nonce (cClassState s) = Some n" "0 \<le> n" using ids_okD(1) [OF ids] by blast
  note fresh = NewID_fresh [OF id this]
  have none: "store_get (cNextClassIDs s) i = None"
    using ids_okD(2) [OF ids, of i] fresh by (cases "store_get (cNextClassIDs s) i") auto
  have nextIDs: "store_get (cNextClassIDs s') c = (if c = i then Some (DefaultNextClassIDs i) else store_get (cNextClassIDs s) c)"
    for c by (simp add: s' prims store_get_set DefaultNextClassIDs_def)
  have same: "cClasses s' = cClasses s" "cNextTokenIDs s' = cNextTokenIDs s" "cBalances s' = cBalances s"
    by (simp_all add: s' prims)
  have "grows s s'" unfolding grows_def nextIDs using none same by (auto split: if_splits)
  then show ?thesis
  proof (rule issued_ok_grows [OF ok store_inv.contract [OF issued_okD(1) [OF ok] new]])
    show "0 \<le> Fungible nc \<and> 2 ^ 28 \<le> NonFungible nc" if "store_get (cNextClassIDs s') c = Some nc" for c nc
      using that issued_okD(2) [OF ok, of c nc] unfolding nextIDs by (auto simp: DefaultNextClassIDs_def split: if_splits)
  qed (use same col_GetBalance_cong [OF same(3)] in auto)
qed

lemma issued_ok_create_ft:
  assumes ok: "issued_ok s" and new: "CreateTokenClass c (FTClass f) s = Inr (i, s')"
  shows "issued_ok s'"
  using new
proof (rule CreateFT_run)
  fix nc assume r: "store_get (cNextClassIDs s) c = Some nc" "0 \<le> Fungible nc" "Fungible nc < 2 ^ 64"
    "i = hex8 (word_of_int (Fungible nc))"
    "s' = setLegacyToken c (i @ patternZero) (setTokenClass c (FTClass (f\<lparr>ftId := i\<rparr>))
       (setNextClassIDs (nc\<lparr>Fungible := Fungible nc + 1\<rparr>) s))"
  have store: "store_ok s'" by (rule store_inv.create_class [OF issued_okD(1) [OF ok] new])
  have "ncContractId nc = c" using issued_okD(1) [OF ok] ids_okD(2) r(1) by (auto simp: store_ok_def)
  then have nextIDs: "store_get (cNextClassIDs s') c' = (if c' = c then Some (nc\<lparr>Fungible := Fungible nc + 1\<rparr>)
      else store_get (cNextClassIDs s) c')" for c' by (simp add: r(5) prims store_get_set)
  have cls: "store_get (cClasses s') k = (if k = (c, i) then Some (FTClass (f\<lparr>ftId := i\<rparr>)) else store_get (cClasses s) k)"
    for k by (simp add: r(5) prims store_get_set)
  have same: "cNextTokenIDs s' = cNextTokenIDs s" "cBalances s' = cBalances s" by (simp_all add: r(5) prims)
  have "grows s s'" unfolding grows_def nextIDs cls using r(1) same by auto
  then show ?thesis
  proof (rule issued_ok_grows [OF ok store])
    show "0 \<le> Fungible nc' \<and> 2 ^ 28 \<le> NonFungible nc'" if "store_get (cNextClassIDs s') c' = Some nc'" for c' nc'
      using that issued_okD(2) [OF ok, of c'] r(1) unfolding nextIDs by (auto split: if_splits)
    show "store_get (cClasses s) (c', k) = Some cl \<or> class_issued s' c' k cl"
      if "store_get (cClasses s') (c', k) = Some cl" for c' k cl
      using that r(2-4) unfolding cls by (auto simp: class_issued_def class_number_def nextIDs split: if_splits)
  qed (use same col_GetBalance_cong [OF same(2)] in auto)
qed

lemma issued_ok_create_nft:
  assumes ok: "issued_ok s" and new: "CreateTokenClass c (NFTClass f) s = Inr (i, s')"
  shows "issued_ok s'"
  using new
proof (rule CreateNFT_run)
  fix nc assume r: "store_get (cNextClassIDs s) c = Some nc" "NonFungible nc < 2 ^ 64"
    "i = hex8 (word_of_int (NonFungible nc))"
    "s' = setLegacyTokenType c i (setNextTokenID c i 1 (setTokenClass c (NFTClass (f\<lparr>nftcId := i\<rparr>))
       (setNextClassIDs (nc\<lparr>NonFungible := NonFungible nc + 1\<rparr>) s)))"
  have store: "store_ok s'" by (rule store_inv.create_class [OF issued_okD(1) [OF ok] new])
  have "ncContractId nc = c" using issued_okD(1) [OF ok] ids_okD(2) r(1) by (auto simp: store_ok_def)
  then have nextIDs: "store_get (cNextClassIDs s') c' = (if c' = c then Some (nc\<lparr>NonFungible := NonFungible nc + 1\<rparr>)
      else store_get (cNextClassIDs s) c')" for c' by (simp add: r(4) prims store_get_set)
  have cls: "store_get (cClasses s') k = (if k = (c, i) then Some (NFTClass (f\<lparr>nftcId := i\<rparr>)) else store_get (cClasses s) k)"
    for k by (simp add: r(4) prims store_get_set)
  have cnt: "store_get (cNextTokenIDs s') k = (if k = (c, i) then Some 1 else store_get (cNextTokenIDs s) k)"
    for k by (simp add: r(4) prims store_get_set)
  have bal: "cBalances s' = cBalances s" by (simp add: r(4) prims)
  have num: "class_number s' c i (2 ^ 28) NonFungible"
    using r(2,3) issued_okD(2) [OF ok r(1)] by (auto simp: class_number_def nextIDs)
  have none: "store_get (cNextTokenIDs s) (c, i) = None"
    using CreateNFT_counter_free [OF _ new] issued_okD(1) [OF ok] by (simp add: store_ok_def)
  have "grows s s'" unfolding grows_def nextIDs cls cnt using r(1) none by auto
  then show ?thesis
  proof (rule issued_ok_grows [OF ok store])
    show "0 \<le> Fungible nc' \<and> 2 ^ 28 \<le> NonFungible nc'" if "store_get (cNextClassIDs s') c' = Some nc'" for c' nc'
      using that issued_okD(2) [OF ok, of c'] r(1) unfolding nextIDs by (fastforce split: if_splits)
  qed (use num col_GetBalance_cong [OF bal] in \<open>auto simp: cls cnt class_issued_def counter_issued_def split: if_splits\<close>)
qed

lemma issued_ok_mint_ft:
  assumes ok: "issued_ok s" and cl: "store_get (cClasses s) (c, k) = Some (FTClass f)" and n: "0 < n"
    and mint: "mintFT c dst k n s = Inr s'"
  shows "issued_ok s'"
  using mint
proof (rule mintFT_run)
  fix i assume r: "NewFTID k = Inr i" "s' = (col_setBalance c dst i n s)\<lparr>
      cSupplies := setStatistic c k (col_GetSupply s c k + n) (cSupplies s),
      cMinteds := setStatistic c k (col_GetMinted s c k + n) (cMinteds s)\<rparr>"
  have ids: "ids_ok s" using issued_okD(1) [OF ok] by (simp add: store_ok_def)
  have same: "cNextClassIDs s' = cNextClassIDs s" "cClasses s' = cClasses s" "cNextTokenIDs s' = cNextTokenIDs s"
    by (simp_all add: r(2) prims)
  have g: "grows s s'" by (rule grows_same [OF same])
  have "length k = 8" using ids_okD(4) [OF ids cl] length_ClassID by blast
  moreover have "class_number s c k 0 Fungible" using issued_okD(3) [OF ok cl] by (simp add: class_issued_def)
  ultimately have "ft_issued s c i" using cl r(1) by (auto simp: ft_issued_def NewFTID_eq)
  note ft = issued_grows(3) [OF g this]
  have "cBalances s' = cBalances (col_setBalance c dst i n s)" by (simp add: r(2))
  note b = col_GetBalance_cong [OF this]
  show ?thesis
  proof (rule issued_ok_grows [OF ok store_inv.mint_ft [OF issued_okD(1) [OF ok] cl n mint] g])
    show "(\<exists>b. col_GetBalance s c' b j \<noteq> 0) \<or> nft_issued s' c' j \<or> ft_issued s' c' j"
      if "col_GetBalance s' c' a j \<noteq> 0" for c' a j
      using that ft unfolding b by (auto simp: col_GetBalance_set split: if_splits)
  qed (use same issued_okD(2) [OF ok] in auto)
qed

lemma issued_ok_mint_nft:
  assumes ok: "issued_ok s" and mint: "mint_nft_param c dst param (ts, s) = Inr (ts', s')"
  shows "issued_ok s'"
  using mint
proof (rule mint_nft_run)
  let ?k = "mpTokenType param"
  fix cl n i assume r: "store_get (cNextTokenIDs s) (c, ?k) = Some n" "n < 2 ^ 64" "i = ?k @ hex8 (word_of_int n)"
    "s' = setLegacyToken c i ((setNFT c \<lparr>nftId = i, nftName = mpName param, nftMeta = mpMeta param\<rparr>
      (setOwner c i dst (col_setBalance c dst i 1 (setNextTokenID c ?k (n + 1) s))))\<lparr>
      cSupplies := setStatistic c ?k (col_GetSupply s c ?k + 1) (cSupplies s),
      cMinteds := setStatistic c ?k (col_GetMinted s c ?k + 1) (cMinteds s)\<rparr>)"
  have ids: "ids_ok s" using issued_okD(1) [OF ok] by (simp add: store_ok_def)
  have k: "1 \<le> n" "length ?k = 8" using ids_okD(3) [OF ids r(1)] by simp_all
  have iss: "nft_issued s' c i"
    using issued_mint [OF r(1) k(1) r(2) k(2), of s' c i] r(3) by (simp add: r(4) prims)
  have same: "cNextClassIDs s' = cNextClassIDs s" "cClasses s' = cClasses s" by (simp_all add: r(4) prims)
  have cnt: "store_get (cNextTokenIDs s') j = (if j = (c, ?k) then Some (n + 1) else store_get (cNextTokenIDs s) j)"
    for j by (simp add: r(4) prims store_get_set)
  have "cBalances s' = cBalances (col_setBalance c dst i 1 s)" by (simp add: r(4) prims)
  note b = col_GetBalance_cong [OF this]
  have "grows s s'" unfolding grows_def cnt same using r(1) by auto
  then show ?thesis
  proof (rule issued_ok_grows [OF ok store_inv.mint_nft [OF issued_okD(1) [OF ok] mint]])
    show "(\<exists>b. col_GetBalance s c' b j \<noteq> 0) \<or> nft_issued s' c' j \<or> ft_issued s' c' j"
      if "col_GetBalance s' c' a j \<noteq> 0" for c' a j
      using that iss unfolding b by (auto simp: col_GetBalance_set split: if_splits)
  qed (use same issued_okD(2) [OF ok] r(1) in \<open>auto simp: cnt split: if_splits\<close>)
qed

fun same_kind :: "ColTokenClass \<Rightarrow> ColTokenClass \<Rightarrow> bool" where
  "same_kind (FTClass _) (FTClass _) = True"
| "same_kind (NFTClass _) (NFTClass _) = True"
| "same_kind _ _ = False"

lemma class_issued_kind: "same_kind cl cl' \<Longrightarrow> class_issued s c k cl' = class_issued s c k cl"
  by (cases cl; cases cl') (simp_all add: class_issued_def)

lemma issued_ok_modify_class:
  assumes ok: "issued_ok s" and keys: "\<And>k v. (k, v) \<in> set changes \<Longrightarrow> v = k"
    and mod: "ModifyTokenClass cfg c k operator changes s = Inr s'"
  shows "issued_ok s'"
proof -
  obtain cl cl' ev where r: "store_get (cClasses s) (c, k) = Some cl" "foldE modify_class_field changes cl = Inr cl'"
    "s' = (setTokenClass c cl' s)\<lparr>cEvents := ev\<rparr>"
    using mod by (auto simp: ModifyTokenClass_def GetTokenClass_def Let_def prims split: option.splits)
  have ids: "ids_ok s" using issued_okD(1) [OF ok] by (simp add: store_ok_def)
  have "same_kind cl cl' \<and> GetId cl' = GetId cl"
  proof (rule foldE_invariant [where P = "\<lambda>x. same_kind cl x \<and> GetId x = GetId cl", OF r(2)])
    show "same_kind cl cl \<and> GetId cl = GetId cl" by (cases cl) simp_all
    show "same_kind cl y \<and> GetId y = GetId cl" if "modify_class_field x u = Inr y" "same_kind cl u \<and> GetId u = GetId cl" for x u y
      using that by (cases cl; cases u) (auto simp: modify_class_field_def split: if_splits prod.splits)
  qed
  then have cl': "same_kind cl cl'" "GetId cl' = k" using ids_okD(4) [OF ids r(1)] by simp_all
  have cls: "store_get (cClasses s') j = (if j = (c, k) then Some cl' else store_get (cClasses s) j)" for j
    by (simp add: r(3) prims store_get_set cl'(2))
  have same: "cNextClassIDs s' = cNextClassIDs s" "cNextTokenIDs s' = cNextTokenIDs s" "cBalances s' = cBalances s"
    by (simp_all add: r(3) prims)
  have g: "grows s s'" unfolding grows_def cls same by auto
  have "class_issued s' c k cl'"
    using issued_grows(1) [OF g issued_okD(3) [OF ok r(1)]] class_issued_kind [OF cl'(1)] by simp
  then show ?thesis
    by (intro issued_ok_grows [OF ok store_inv.modify_class [OF issued_okD(1) [OF ok] keys mod] g])
      (use same issued_okD(2) [OF ok] col_GetBalance_cong [OF same(3)] in \<open>auto simp: cls split: if_splits\<close>)
qed

interpretation issued_inv: col_invariant issued_ok
proof unfold_locales
  fix s s' c cl i
  assume ok: "issued_ok s"
  note store = issued_okD(1) [OF ok]
  show "issued_ok s'" if "tokens_part s' = tokens_part s"
    by (rule issued_ok_part [OF ok store_inv.side [OF store that]]) (use that in \<open>simp_all add: tokens_part_def parts\<close>)
  show "issued_ok (s\<lparr>cClassState := cs\<rparr>)" if "NewID (cClassState s) = Inr (i, cs)" for cs
    by (rule issued_ok_part [OF ok store_inv.new_id [OF store that]]) (simp_all add: parts)
  show "issued_ok s'" if "CreateTokenClass c cl s = Inr (i, s')"
    using that by (cases cl) (auto intro: issued_ok_create_ft issued_ok_create_nft ok)
  show "issued_ok s'" if "Attach c owner subject target s = Inr s'" for owner subject target
    by (rule issued_ok_part [OF ok store_inv.attach [OF store that]]) (use Attach_frame [OF that] in \<open>simp_all add: parts\<close>)
  show "issued_ok s'" if "Detach c owner subject s = Inr s'" for owner subject
    by (rule issued_ok_part [OF ok store_inv.detach [OF store that]]) (use Detach_frame [OF that] in \<open>simp_all add: parts\<close>)
  show "issued_ok s'" if "ModifyNFT cfg c i operator changes s = Inr s'" for cfg operator changes
    by (rule issued_ok_part [OF ok store_inv.modify_nft [OF store that]]) (use ModifyNFT_frame [OF that] in \<open>simp_all add: parts\<close>)
qed (fact issued_ok_contract issued_ok_send issued_ok_burn issued_ok_mint_ft issued_ok_mint_nft issued_ok_modify_class)+

lemma issued_genesis:
  "issued_ok ((empty_col_state (class_InitGenesis DefaultClassGenesisState \<lparr>nonce = None, ids = {}\<rparr>))\<lparr>cParams := p\<rparr>)"
  using soundD(1) [OF sound_genesis] by (simp add: issued_ok_def empty_col_state_def col_GetBalance_def store_get_def)

lemma issued_reachable: "col_reachable cfg s \<Longrightarrow> issued_ok s"
  using issued_genesis by (rule issued_inv.reachable)

subsection \<open>Valid ids\<close>

lemma hex8_digits: "list_all is_lower_hex (hex8 w)"
proof -
  have "is_lower_hex CHR ''0''" by code_simp
  then have "list_all is_lower_hex (replicate j CHR ''0'')" for j by (induction j) simp_all
  then show ?thesis by (simp add: hex8_def zero_pad_def hex_text_digits)
qed

lemma length_hex8: "0 \<le> n \<Longrightarrow> n < 2 ^ 32 \<Longrightarrow> length (hex8 (word_of_int n)) = 8"
proof -
  assume n: "0 \<le> n" "n < 2 ^ 32"
  then have "unat (word_of_int n :: 64 word) < 16 ^ 8" by (simp add: unat_eq_nat_uint uint_word_of_int)
  from length_hex_text [OF this] show ?thesis by (simp add: hex8_def zero_pad_def lengthClassID_def)
qed

lemma ValidateNFTID_issued:
  assumes "ValidateClassID k = Inr ()" "1 \<le> n" "n < 2 ^ 32"
  shows "ValidateNFTID (k @ hex8 (word_of_int n)) = Inr ()"
proof -
  have k: "length k = 8" "list_all is_lower_hex k"
    using assms(1) by (auto simp: ValidateClassID_def validateID_def reClassID_def lengthClassID_def split: if_splits)
  have "hex8 (word_of_int n) \<noteq> hex8 (word_of_int 0)" using hex8_int_inj [of n 0] assms(2,3) by auto
  then have "hex8 (word_of_int n) \<noteq> patternZero" by (simp add: hex8_0)
  then show ?thesis
    using k hex8_digits length_hex8 [of n] assms(2,3)
    by (simp add: ValidateNFTID_def ValidateFTID_def ValidateTokenID_def validateID_def reFTID_def reTokenID_def
        lengthClassID_def guardE_def)
qed

lemma class_id_valid: "TokenClass_ValidateBasic cl = Inr () \<Longrightarrow> ValidateClassID (GetId cl) = Inr ()"
  by (cases cl) (auto simp: FTClass_ValidateBasic_def NFTClass_ValidateBasic_def)

text \<open>A class stored at a counter is of non-fungible tokens while the fungible numbers are below \<open>2^28\<close>.\<close>

lemma counter_class:
  assumes "issued_ok s" "store_get (cNextTokenIDs s) (c, k) = Some nx" "store_get (cNextClassIDs s) c = Some nc"
    and "Fungible nc \<le> 2 ^ 28"
  shows "\<exists>f. store_get (cClasses s) (c, k) = Some (NFTClass f)"
proof -
  have "counter_issued s c k" by (rule issued_okD(4) [OF assms(1,2)])
  then obtain cl m where cl: "store_get (cClasses s) (c, k) = Some cl" "k = hex8 (word_of_int m)" "2 ^ 28 \<le> m" "m < 2 ^ 64"
    by (auto simp: counter_issued_def class_number_def)
  show ?thesis
  proof (cases cl)
    case (FTClass f)
    then obtain m' where "k = hex8 (word_of_int m')" "0 \<le> m'" "m' < Fungible nc" "m' < 2 ^ 64"
      using issued_okD(3) [OF assms(1) cl(1)] assms(3) by (auto simp: class_issued_def class_number_def)
    then have "m' = m" using hex8_int_inj [of m' m] cl(2-4) by simp
    then show ?thesis using \<open>m' < Fungible nc\<close> cl(3) assms(4) by simp
  qed (use cl(1) in simp)
qed

end
