(* ===== verification/Collection_Props.thy ===== *)
theory Collection_Props
  imports CollectionDemo CollectionKeys CollectionClasses
begin

section \<open>Properties of the collection module\<close>

text \<open>
  What holds in every state that messages reach from genesis, what attaching and detaching do,
  and which messages are refused.
\<close>

subsection \<open>The store is well typed\<close>

lemma col_total_at_most_one:
  assumes "\<And>a. 0 \<le> col_GetBalance s c a i" "col_total s c i \<le> 1" "0 < col_GetBalance s c a i" "0 < col_GetBalance s c b i"
  shows "a = b \<and> col_GetBalance s c a i = 1"
proof -
  let ?b = "\<lambda>a. col_GetBalance s c a i"
  have sum: "sum ?b A \<le> col_total s c i" if "A \<subseteq> {a. ?b a \<noteq> 0}" for A
    unfolding col_total_def ledger_total_def by (rule sum_mono2) (use that assms(1) finite_col_holders in auto)
  have "a = b"
  proof (rule ccontr)
    assume "a \<noteq> b"
    then have "sum ?b {a, b} = ?b a + ?b b" by simp
    then show False using sum [of "{a, b}"] assms(2-4) by auto
  qed
  moreover have "?b a \<le> 1" using sum [of "{a}"] assms(2,3) by auto
  ultimately show ?thesis using assms(3) by simp
qed

text \<open>
  C8: in every state reached from the default genesis a class is stored under its own id and
  is valid, and its id is a number its contract has handed out to classes of its kind. Every
  counter is of such a class: its number lies between \<open>2^28\<close> and the next non-fungible
  number, a class is stored under it, and that class is of non-fungible tokens as long as the
  contract has not used up the \<open>2^28\<close> numbers of fungible classes. A token is stored under
  its own id, which is the valid id of a stored class followed by a number below the counter of
  that class, and is a valid id of a non-fungible token as long as that number has 32 bits.
\<close>

theorem col_store_typed:
  assumes "col_reachable cfg s"
  shows "(\<forall>c k cl. store_get (cClasses s) (c, k) = Some cl \<longrightarrow>
       GetId cl = k \<and> TokenClass_ValidateBasic cl = Inr () \<and> class_issued s c k cl) \<and>
    (\<forall>c k nx. store_get (cNextTokenIDs s) (c, k) = Some nx \<longrightarrow> 1 \<le> nx \<and>
       (\<exists>nc m cl. store_get (cNextClassIDs s) c = Some nc \<and> ncContractId nc = c \<and> k = hex8 (word_of_int m) \<and>
          2 ^ 28 \<le> m \<and> m < NonFungible nc \<and> m < 2 ^ 64 \<and> store_get (cClasses s) (c, k) = Some cl \<and>
          (Fungible nc \<le> 2 ^ 28 \<longrightarrow> (\<exists>f. cl = NFTClass f)))) \<and>
    (\<forall>c i t. store_get (cNFTs s) (c, i) = Some t \<longrightarrow> nftId t = i \<and>
       (\<exists>k n nx cl. i = k @ hex8 (word_of_int n) \<and> store_get (cClasses s) (c, k) = Some cl \<and>
          ValidateClassID k = Inr () \<and> store_get (cNextTokenIDs s) (c, k) = Some nx \<and> 1 \<le> n \<and> n < nx \<and> n < 2 ^ 64 \<and>
          (n < 2 ^ 32 \<longrightarrow> ValidateNFTID i = Inr ())))"
proof -
  have iss: "issued_ok s" by (rule issued_reachable [OF assms])
  then have ids: "ids_ok s" by (simp add: issued_ok_def store_ok_def)
  show ?thesis
  proof (intro conjI allI impI)
    fix c k nx assume nx: "store_get (cNextTokenIDs s) (c, k) = Some nx"
    show "1 \<le> nx" using ids_okD(3) [OF ids nx] by simp
    obtain nc m cl where "store_get (cNextClassIDs s) c = Some nc" "k = hex8 (word_of_int m)" "2 ^ 28 \<le> m"
      "m < NonFungible nc" "m < 2 ^ 64" "store_get (cClasses s) (c, k) = Some cl"
      using issued_okD(4) [OF iss nx] by (auto simp: counter_issued_def class_number_def)
    then show "\<exists>nc m cl. store_get (cNextClassIDs s) c = Some nc \<and> ncContractId nc = c \<and> k = hex8 (word_of_int m) \<and>
        2 ^ 28 \<le> m \<and> m < NonFungible nc \<and> m < 2 ^ 64 \<and> store_get (cClasses s) (c, k) = Some cl \<and>
        (Fungible nc \<le> 2 ^ 28 \<longrightarrow> (\<exists>f. cl = NFTClass f))"
      using counter_class [OF iss nx] ids_okD(2) [OF ids] by fastforce
  next
    fix c i t assume t: "store_get (cNFTs s) (c, i) = Some t"
    show "nftId t = i" using ids_okD(5) [OF ids t] by simp
    obtain k n nx where i: "i = k @ hex8 (word_of_int n)" "store_get (cNextTokenIDs s) (c, k) = Some nx" "1 \<le> n" "n < nx" "n < 2 ^ 64"
      using ids_okD(5) [OF ids t] by (auto simp: nft_issued_def)
    obtain cl where cl: "store_get (cClasses s) (c, k) = Some cl" using issued_okD(4) [OF iss i(2)] by (auto simp: counter_issued_def)
    have "ValidateClassID k = Inr ()" using class_id_valid ids_okD(4) [OF ids cl] by blast
    then show "\<exists>k n nx cl. i = k @ hex8 (word_of_int n) \<and> store_get (cClasses s) (c, k) = Some cl \<and>
        ValidateClassID k = Inr () \<and> store_get (cNextTokenIDs s) (c, k) = Some nx \<and> 1 \<le> n \<and> n < nx \<and> n < 2 ^ 64 \<and>
        (n < 2 ^ 32 \<longrightarrow> ValidateNFTID i = Inr ())"
      using i cl ValidateNFTID_issued by blast
  qed (use ids_okD(4) [OF ids] issued_okD(3) [OF iss] in blast)+
qed

theorem col_store_typed_witness:
  "\<exists>s t cl. col_reachable plain_config s \<and> store_get (cNFTs s) (''9be17165'', ''1000000000000001'') = Some t \<and>
     nftId t = ''1000000000000001'' \<and> store_get (cClasses s) (''9be17165'', ''10000000'') = Some cl"
proof (rule demo_made_state)
  fix s assume s: "col_reachable plain_config s" "hasNFT s ''9be17165'' ''1000000000000001'' = Inr ()"
    "col_GetBalance s ''9be17165'' ''a'' ''1000000000000001'' = 1"
  then obtain t where t: "store_get (cNFTs s) (''9be17165'', ''1000000000000001'') = Some t" by auto
  from col_store_typed [OF s(1), THEN conjunct2, THEN conjunct2, rule_format, OF t]
  obtain k n cl where r: "nftId t = ''1000000000000001''" "''1000000000000001'' = k @ hex8 (word_of_int n)"
    "store_get (cClasses s) (''9be17165'', k) = Some cl" "ValidateClassID k = Inr ()" by blast
  have "length k = 8"
    using r(4) by (simp add: ValidateClassID_def validateID_def reClassID_def lengthClassID_def split: if_splits)
  then have "take 8 (k @ hex8 (word_of_int n)) = k" by simp
  then have "k = ''10000000''" unfolding r(2) [symmetric] by simp
  then show ?thesis using s(1) t r(1,3) by blast
qed

text \<open>
  The numbers of fungible classes are not kept below those of non-fungible ones: the class
  number \<open>2^28\<close> of a contract takes the id of its first class of non-fungible tokens.
\<close>

theorem CreateFT_replaces_class:
  assumes "GetContract s c = Inr ct" "store_get (cNextClassIDs s) c = Some nc" "Fungible nc = 2 ^ 28"
    and "FTClass_ValidateBasic (f\<lparr>ftId := ''10000000''\<rparr>) = Inr ()"
  shows "\<exists>s'. CreateTokenClass c (FTClass f) s = Inr (''10000000'', s') \<and>
     store_get (cClasses s') (c, ''10000000'') = Some (FTClass (f\<lparr>ftId := ''10000000''\<rparr>))"
proof -
  have "hex8 268435456 = ''10000000''" by code_simp
  then show ?thesis using assms
    by (simp add: CreateTokenClass_def Let_def FTClass_SetId_def getNextClassIDs_def Uint_Incr_Inr Uint_Uint64_eq NewFTID_eq
      prims store_get_set)
qed

subsection \<open>Balances and statistics\<close>

text \<open>
  C9: in every state reached from the default genesis no balance is negative, and a non-zero
  balance is of a non-fungible token that was issued or of a fungible token of a class that is
  stored and whose number its contract has handed out. A non-fungible token has at most one
  holder, with the balance 1, and what was minted of a class is its supply and what was burnt.
\<close>

theorem col_balances_sound:
  assumes "col_reachable cfg s"
  shows "(\<forall>c a i. 0 \<le> col_GetBalance s c a i \<and> (col_GetBalance s c a i \<noteq> 0 \<longrightarrow> nft_issued s c i \<or> ft_issued s c i)) \<and>
    (\<forall>c i a b. nft_issued s c i \<and> 0 < col_GetBalance s c a i \<and> 0 < col_GetBalance s c b i \<longrightarrow>
       a = b \<and> col_GetBalance s c a i = 1) \<and>
    (\<forall>c k. col_GetMinted s c k = col_GetSupply s c k + col_GetBurnt s c k)"
proof -
  have iss: "issued_ok s" by (rule issued_reachable [OF assms])
  then have bal: "balances_ok s" by (simp add: issued_ok_def store_ok_def)
  show ?thesis
    using balances_okD [OF bal] issued_okD(5) [OF iss] col_total_at_most_one [of s] stats_reachable [OF assms]
    unfolding stats_ok_def by blast
qed

theorem col_balances_sound_witness:
  "\<exists>s. col_reachable plain_config s \<and> col_GetBalance s ''9be17165'' ''a'' ''1000000000000001'' = 1 \<and>
     nft_issued s ''9be17165'' ''1000000000000001'' \<and> col_GetBalance s ''9be17165'' ''a'' ''0000000000000000'' = 10 \<and>
     ft_issued s ''9be17165'' ''0000000000000000''"
proof -
  have "demo_see (demo_made @ [MsgIssueFT ''9be17165'' ''gold'' [] 6 True ''link1a'' ''link1a'' 10])
      (\<lambda>s. (col_GetBalance s ''9be17165'' ''a'' ''1000000000000001'', col_GetBalance s ''9be17165'' ''a'' ''0000000000000000'')) =
    Some (1, 10)" by code_simp
  then obtain s where s: "col_reachable plain_config s" "col_GetBalance s ''9be17165'' ''a'' ''1000000000000001'' = 1"
    "col_GetBalance s ''9be17165'' ''a'' ''0000000000000000'' = 10" by (rule demo_state) auto
  have ids: "\<not> ft_id ''1000000000000001''" "ft_id ''0000000000000000''"
    by (auto simp: ft_id_def patternZero_def intro: exI [of _ "''00000000''"])
  have held: "col_GetBalance s ''9be17165'' ''a'' i \<noteq> 0 \<Longrightarrow> nft_issued s ''9be17165'' i \<or> ft_issued s ''9be17165'' i" for i
    using col_balances_sound [OF s(1)] by blast
  show ?thesis using s held [of "''1000000000000001''"] held [of "''0000000000000000''"] ids ft_issued_id issued_not_ft by fastforce
qed

subsection \<open>Roots\<close>

text \<open>
  C10: in every reachable state every traversal ends. The root of a stored token is a stored
  token without a parent, and it has an owner, so that the lookup of the owner does not panic.
\<close>

theorem col_root_owned:
  assumes "col_reachable cfg s"
  shows "(\<forall>c t. (\<exists>r. GetRoot s c t = Inr r) \<and> (\<exists>ds. iterateDescendants s c t = Some ds) \<and>
      (\<exists>b u. pruneNFT c t s = Some (b, u))) \<and>
    (\<forall>c t. hasNFT s c t = Inr () \<longrightarrow> (\<exists>r a. GetRoot s c t = Inr r \<and> hasNFT s c r = Inr () \<and>
       (\<forall>p. GetParent s c r \<noteq> Inr p) \<and> GetRootOwner s c t = Inr a))"
proof -
  have own: "owners_ok s" by (rule soundD(2) [OF sound_reachable [OF assms]])
  then have tree: "tree_ok s" by (simp add: owners_ok_def)
  have "\<exists>r a. GetRoot s c t = Inr r \<and> hasNFT s c r = Inr () \<and> (\<forall>p. GetParent s c r \<noteq> Inr p) \<and> GetRootOwner s c t = Inr a"
    if "hasNFT s c t = Inr ()" for c t
    using GetRootOwner_found [OF own, of c t] that by auto
  then show ?thesis
    using GetRoot_ends [OF tree_ok_acyclic [OF tree] tree_ok_parent [OF tree]]
      iterateDescendants_ends [OF tree_ok_acyclic [OF tree]] pruneNFT_ends [OF tree_ok_acyclic [OF tree]] by blast
qed

theorem col_root_owned_witness:
  "\<exists>s a. col_reachable plain_config s \<and> hasNFT s ''9be17165'' ''1000000000000001'' = Inr () \<and>
     GetRootOwner s ''9be17165'' ''1000000000000001'' = Inr a"
proof (rule demo_made_state)
  fix s assume s: "col_reachable plain_config s" "hasNFT s ''9be17165'' ''1000000000000001'' = Inr ()"
    "col_GetBalance s ''9be17165'' ''a'' ''1000000000000001'' = 1"
  then show ?thesis using col_root_owned [OF s(1)] by blast
qed

text \<open>
  The validation of a genesis looks at each parent alone. A token that is its own parent passes,
  and the lookup of its root never ends.
\<close>

definition cyclic_genesis :: ColGenesis where
  "cyclic_genesis = col_DefaultGenesisState\<lparr>cgParents := [(''9be17165'', [(''1000000000000001'', ''1000000000000001'')])]\<rparr>"

theorem col_genesis_cycle:
  "col_ValidateGenesis plain_config cyclic_genesis = Inr () \<and>
   (\<exists>s. col_InitGenesis plain_config cyclic_genesis (empty_col_state cs) = Inr s \<and>
     (\<forall>r. GetRoot s ''9be17165'' ''1000000000000001'' \<noteq> Inr r))"
proof (intro conjI)
  show "col_ValidateGenesis plain_config cyclic_genesis = Inr ()" by code_simp
  let ?c = "''9be17165''" and ?t = "''1000000000000001''"
  let ?s = "setChild ?c ?t ?t (setParent ?c ?t ?t (col_setParams (cgParams cyclic_genesis) (empty_col_state cs)))"
  have i: "col_InitGenesis plain_config cyclic_genesis (empty_col_state cs) = Inr ?s"
    by (simp add: col_InitGenesis_def cyclic_genesis_def col_DefaultGenesisState_def eachContract_def Let_def)
  have p: "cParents ?s = [((?c, ?t), ?t)]"
    by (simp add: setChild_def setParent_def col_setParams_def empty_col_state_def)
  have "GetRoot ?s ?c ?t \<noteq> Inr r" for r
  proof
    assume "GetRoot ?s ?c ?t = Inr r"
    note r = GetRoot_reaches [OF this]
    have "pars ?s ?c \<subseteq> Id" by (auto simp: pars_def p store_get_def split: if_splits)
    then have "r = ?t" using r rtrancl_mono [of "pars ?s ?c" Id] by auto
    then show False using r by (simp add: p store_get_def)
  qed
  then show "\<exists>s. col_InitGenesis plain_config cyclic_genesis (empty_col_state cs) = Inr s \<and> (\<forall>r. GetRoot s ?c ?t \<noteq> Inr r)"
    using i by blast
qed

subsection \<open>Attaching and detaching\<close>

text \<open>The depths of a traversal have no gaps, so their number bounds them.\<close>

lemma walk_children_depths:
  "walk (visit_children c) work s = Some (ns, u) \<Longrightarrow> d \<in> snd ` set ns \<Longrightarrow> d \<in> snd ` set work \<or> (\<exists>e \<in> snd ` set ns. d = Suc e)"
proof (induction rule: walk_induct)
  case (Cons n rest s ns t)
  show ?case
  proof (cases "d = snd n")
    case False
    then have "d \<in> snd ` set ns" using Cons.prems by auto
    from Cons.IH [OF this] show ?thesis by (auto simp: visit_children_def with_depth_def)
  qed simp
qed simp

lemma depths_below:
  fixes A :: "nat set"
  assumes "\<And>d. d \<in> A \<Longrightarrow> d = 0 \<or> (\<exists>e \<in> A. d = Suc e)" "finite A" "d \<in> A"
  shows "d < card A"
proof -
  have "d \<in> A \<Longrightarrow> {..d} \<subseteq> A" for d
  proof (induction d)
    case 0 then show ?case by simp
  next
    case (Suc d)
    then have "d \<in> A" using assms(1) [of "Suc d"] by auto
    then show ?case using Suc by (auto simp: atMost_Suc)
  qed
  then have "card {..d} \<le> card A" using assms(2,3) by (intro card_mono) auto
  then show ?thesis by simp
qed

lemma validateDepthAndWidth_bounds:
  assumes "validateDepthAndWidth s c t = Inr ()"
  obtains p ds where "cParams s = Some p" "iterateDescendants s c t = Some ds"
    "\<And>x d. (x, d) \<in> set ds \<Longrightarrow> d \<le> unat (DepthLimit p)"
    "\<And>d. length (filter (\<lambda>n. snd n = d) ds) \<le> unat (WidthLimit p)"
proof -
  obtain p ds where p: "cParams s = Some p" "iterateDescendants s c t = Some ds"
    "\<not> unat (DepthLimit p) < length (remdups (0 # map snd ds)) - 1"
    "\<not> list_ex (\<lambda>d. depth_width ds d > unat (WidthLimit p)) (remdups (0 # map snd ds))"
    using assms by (auto simp: validateDepthAndWidth_def col_GetParams_def Let_def split: option.splits if_splits)
  let ?A = "insert 0 (snd ` set ds)"
  have card: "card ?A = length (remdups (0 # map snd ds))" using length_remdups_card_conv [of "0 # map snd ds"] by simp
  obtain u where w: "walk (visit_children c) (with_depth 1 (GetChildren s c t)) s = Some (ds, u)"
    using p(2) by (auto simp: iterateDescendants_def)
  have gap: "d = 0 \<or> (\<exists>e \<in> ?A. d = Suc e)" if "d \<in> ?A" for d
  proof (cases "d \<in> snd ` set ds")
    case True
    from walk_children_depths [OF w True] show ?thesis by (auto simp: with_depth_def)
  qed (use that in simp)
  have "d \<le> unat (DepthLimit p)" if "(x, d) \<in> set ds" for x d
    using depths_below [OF gap, of d] that p(3) card by force
  moreover have "length (filter (\<lambda>n. snd n = d) ds) \<le> unat (WidthLimit p)" for d
  proof (cases "d \<in> snd ` set ds")
    case True
    then have "depth_width ds d \<le> unat (WidthLimit p)" using p(4) by (auto simp: list_ex_iff not_less)
    then show ?thesis by (simp add: depth_width_def split: if_splits)
  next
    case False
    then have "filter (\<lambda>n. snd n = d) ds = []" by (force simp: filter_empty_conv)
    then show ?thesis by simp
  qed
  ultimately show thesis using that p(1,2) by blast
qed

lemma GetRoot_unique: "(t, r) \<in> (pars s c)\<^sup>* \<Longrightarrow> store_get (cParents s) (c, r) = None \<Longrightarrow> GetRoot s c t = Inr r"
proof (induction rule: converse_rtrancl_induct)
  case base
  then show ?case by (subst GetRoot_step) simp
next
  case (step y z)
  then show ?case by (subst GetRoot_step) (simp add: pars_def)
qed

text \<open>A subject without a parent is not on the way from the target to its root.\<close>

lemma attached_root:
  assumes "GetRoot s c target = Inr rt" "rt \<noteq> subject" "store_get (cParents s) (c, subject) = None"
  shows "GetRoot (attached c subject target s) c target = Inr rt" "GetRoot (attached c subject target s) c subject = Inr rt"
proof -
  let ?s = "attached c subject target s"
  note r = GetRoot_reaches [OF assms(1)]
  have pars: "pars ?s c = insert (subject, target) (pars s c)" if "store_get (cParents s) (c, subject) = None"
    using that by (auto simp: pars_def parents_attached split: if_splits)
  have "(pars s c)\<^sup>* \<subseteq> (pars ?s c)\<^sup>*" unfolding pars [OF assms(3)] by (rule rtrancl_mono) blast
  then have "(target, rt) \<in> (pars ?s c)\<^sup>*" using r by blast
  moreover have "store_get (cParents ?s) (c, rt) = None" using r assms(2) by (simp add: parents_attached)
  ultimately show root: "GetRoot ?s c target = Inr rt" by (rule GetRoot_unique)
  show "GetRoot ?s c subject = Inr rt"
    using root by (subst GetRoot_step) (simp add: parents_attached)
qed

lemma iterateDescendants_events:
  assumes "iterateDescendants s c t = Some ds"
  shows "iterateDescendants (s\<lparr>cEvents := ev\<rparr>) c t = Some ds"
proof -
  have "walk (visit_children c) work (s\<lparr>cEvents := ev\<rparr>) = Some (ns, u\<lparr>cEvents := ev\<rparr>)"
    if "walk (visit_children c) work s = Some (ns, u)" for work ns u s
    using that
    by (induction rule: walk_induct) (auto simp: walk_Cons visit_children_def GetChildren_def)
  then show ?thesis using assms by (auto simp: iterateDescendants_def GetChildren_def)
qed

lemma GetRoot_events: "GetRoot s c t = Inr r \<Longrightarrow> GetRoot (s\<lparr>cEvents := ev\<rparr>) c t = Inr r"
  by (drule GetRoot_reaches, rule GetRoot_unique) (simp_all add: pars_def)

text \<open>
  C11: a token without a parent that is attached to a target gets the target as its parent and
  the root of the target as its root. The tree below that root then respects the limits of the
  parameters in depth and in the width of every level. No balance and no other parent changes.
\<close>

theorem Attach_effect:
  assumes "Attach c owner subject target s = Inr s'" "GetParent s c subject = Inl e"
  shows "\<exists>rt p ds. GetRoot s c target = Inr rt \<and> GetRoot s' c subject = Inr rt \<and> GetParent s' c subject = Inr target \<and>
    getOwner s c rt = Inr owner \<and> cParams s = Some p \<and> iterateDescendants s' c rt = Some ds \<and>
    (\<forall>(x, d) \<in> set ds. d \<le> unat (DepthLimit p)) \<and>
    (\<forall>d. length (filter (\<lambda>n. snd n = d) ds) \<le> unat (WidthLimit p)) \<and>
    (\<forall>c' a i. col_GetBalance s' c' a i = col_GetBalance s c' a i) \<and>
    (\<forall>c' t. (c', t) \<noteq> (c, subject) \<longrightarrow> GetParent s' c' t = GetParent s c' t)"
  using assms(1)
proof (rule Attach_facts)
  let ?s = "attached c subject target s"
  fix rt ds ev assume r: "GetRoot s c target = Inr rt" "store_get (cOwners s) (c, rt) = Some owner" "rt \<noteq> subject"
    "validateDepthAndWidth ?s c rt = Inr ()" "s' = ?s\<lparr>cEvents := ev\<rparr>"
  have none: "store_get (cParents s) (c, subject) = None" using assms(2) by (simp add: GetParent_def split: option.splits)
  obtain p ds where p: "cParams ?s = Some p" "iterateDescendants ?s c rt = Some ds"
    "\<And>x d. (x, d) \<in> set ds \<Longrightarrow> d \<le> unat (DepthLimit p)"
    "\<And>d. length (filter (\<lambda>n. snd n = d) ds) \<le> unat (WidthLimit p)"
    using r(4) by (rule validateDepthAndWidth_bounds) blast
  have "GetRoot s' c subject = Inr rt" "iterateDescendants s' c rt = Some ds" "cParams s = Some p"
    "GetParent s' c subject = Inr target"
    using GetRoot_events [OF attached_root(2) [OF r(1,3) none]] iterateDescendants_events [OF p(2)] p(1)
    by (simp_all add: r(5)) (simp_all add: attached_def prims store_get_set)
  moreover have "col_GetBalance s' c' a i = col_GetBalance s c' a i" for c' a i
    by (rule col_GetBalance_cong) (simp add: r(5) attached_def prims)
  moreover have "GetParent s' c' t = GetParent s c' t" if "(c', t) \<noteq> (c, subject)" for c' t
    using that by (auto simp: GetParent_def r(5) parents_attached)
  ultimately show ?thesis using r(1,2) p(3,4) by (intro exI [of _ rt] exI [of _ p] exI [of _ ds]) auto
qed

theorem Attach_effect_witness:
  "\<exists>s s'. Attach ''9be17165'' ''a'' ''1000000000000001'' ''1000000000000002'' s = Inr s' \<and>
     GetRoot s' ''9be17165'' ''1000000000000001'' = GetRoot s ''9be17165'' ''1000000000000002''"
proof (rule demo_made_state)
  fix s s' assume s: "Attach ''9be17165'' ''a'' ''1000000000000001'' ''1000000000000002'' s = Inr s'"
    "GetParent s ''9be17165'' ''1000000000000001'' = Inl (Error ErrNotFound ''no parent'')"
  then show ?thesis using Attach_effect [OF s] by metis
qed

text \<open>
  C12: detaching undoes attaching. When the owner of a stored token without a parent, that was
  not left among the children of the target, has attached it, the owner can detach it, and then
  every parent, child, owner, balance, token, class, statistic, grant and contract is as before.
\<close>

theorem Attach_Detach_round_trip:
  assumes "col_reachable cfg s" "Attach c owner subject target s = Inr s'" "hasNFT s c subject = Inr ()"
    "GetParent s c subject = Inl e" "getOwner s c subject = Inr owner" "subject \<notin> set (GetChildren s c target)"
  shows "\<exists>s''. Detach c owner subject s' = Inr s'' \<and>
    (\<forall>k. store_get (cParents s'') k = store_get (cParents s) k) \<and>
    (\<forall>k. store_get (cChildren s'') k = store_get (cChildren s) k) \<and>
    (\<forall>k. store_get (cOwners s'') k = store_get (cOwners s) k) \<and>
    (cBalances s'', cNFTs s'', class_part s'', stat_part s'', admin_part s'') =
    (cBalances s, cNFTs s, class_part s, stat_part s, admin_part s)"
  using assms(2)
proof (rule Attach_facts)
  fix rt ds ev assume r: "GetRoot s c target = Inr rt" "store_get (cOwners s) (c, rt) = Some owner" "rt \<noteq> subject"
    "s' = (attached c subject target s)\<lparr>cEvents := ev\<rparr>"
  let ?d = "detached c owner subject target s'"
  have "tree_ok s" using sound_reachable [OF assms(1)] by (simp add: sound_def owners_ok_def)
  then have tree: "tree_ok s'" by (rule tree_ok_attach [OF _ assms(2)])
  have none: "store_get (cParents s) (c, subject) = None" using assms(4) by (simp add: GetParent_def split: option.splits)
  have parent: "store_get (cParents s') (c, subject) = Some target" by (simp add: r(4) parents_attached)
  have owner: "GetRootOwner s' c subject = Inr owner"
    using GetRoot_events [OF attached_root(2) [OF r(1,3) none], of ev] r(2,3)
    by (simp add: GetRootOwner_def r(4)) (simp add: attached_def prims store_get_delete)
  have tree': "tree_ok ?d" by (rule tree_ok_detached [OF tree parent])
  obtain rt' ds' where ends: "GetRoot ?d c target = Inr rt'" "iterateDescendants ?d c subject = Some ds'"
    using GetRoot_ends [OF tree_ok_acyclic [OF tree'] tree_ok_parent [OF tree']]
      iterateDescendants_ends [OF tree_ok_acyclic [OF tree']] by blast
  obtain ev' where "fold (emit_root_changed c rt' subject) ds' ?d = ?d\<lparr>cEvents := ev'\<rparr>" using emit_root_events by blast
  then have "Detach c owner subject s' = Inr (?d\<lparr>cEvents := ev'\<rparr>)"
    using assms(3) parent owner ends
    by (simp add: Detach_def GetParent_def detached_def Let_def ended_def)
      (simp add: hasNFT_def r(4) attached_def prims split: option.splits)
  moreover have "store_get (cChildren s) (c, target, subject) = None"
    using assms(6) by (cases "store_get (cChildren s) (c, target, subject)") (simp_all add: GetChildren_set kids_def)
  ultimately show ?thesis
    using none assms(5) by (auto simp: detached_def r(4) attached_def prims store_get_set store_get_delete parts)
qed

theorem Attach_Detach_round_trip_witness:
  "\<exists>s s' s''. Attach ''9be17165'' ''a'' ''1000000000000001'' ''1000000000000002'' s = Inr s' \<and>
     Detach ''9be17165'' ''a'' ''1000000000000001'' s' = Inr s'' \<and> cBalances s'' = cBalances s"
proof (rule demo_made_state)
  fix s s' assume s: "col_reachable plain_config s" "Attach ''9be17165'' ''a'' ''1000000000000001'' ''1000000000000002'' s = Inr s'"
    "hasNFT s ''9be17165'' ''1000000000000001'' = Inr ()"
    "GetParent s ''9be17165'' ''1000000000000001'' = Inl (Error ErrNotFound ''no parent'')"
    "getOwner s ''9be17165'' ''1000000000000001'' = Inr ''a''" "GetChildren s ''9be17165'' ''1000000000000002'' = []"
  have "''1000000000000001'' \<notin> set (GetChildren s ''9be17165'' ''1000000000000002'')" using s(6) by simp
  from Attach_Detach_round_trip [OF s(1-5) this] show ?thesis using s(2) by auto
qed

subsection \<open>Who may do what\<close>

text \<open>The holder a message acts for, and the permission it needs, with the contract.\<close>

fun acts_for :: "ColMsg \<Rightarrow> (string \<times> string) option" where
  "acts_for (MsgTransferFTFrom c proxy from dst amount) = Some (c, from)"
| "acts_for (MsgTransferNFTFrom c proxy from dst is) = Some (c, from)"
| "acts_for (MsgBurnFTFrom c proxy from amount) = Some (c, from)"
| "acts_for (MsgBurnNFTFrom c proxy from is) = Some (c, from)"
| "acts_for (MsgAttachFrom c proxy from i j) = Some (c, from)"
| "acts_for (MsgDetachFrom c proxy from i) = Some (c, from)"
| "acts_for _ = None"

fun needs_permission :: "ColMsg \<Rightarrow> (string \<times> ColPermission) option" where
  "needs_permission (MsgIssueFT c name meta decimals mintable owner dst amount) = Some (c, ColPermissionIssue)"
| "needs_permission (MsgIssueNFT c name meta owner) = Some (c, ColPermissionIssue)"
| "needs_permission (MsgMintFT c from dst amount) = Some (c, ColPermissionMint)"
| "needs_permission (MsgMintNFT c from dst params) = Some (c, ColPermissionMint)"
| "needs_permission (MsgBurnFT c from amount) = Some (c, ColPermissionBurn)"
| "needs_permission (MsgBurnFTFrom c proxy from amount) = Some (c, ColPermissionBurn)"
| "needs_permission (MsgBurnNFT c from is) = Some (c, ColPermissionBurn)"
| "needs_permission (MsgBurnNFTFrom c proxy from is) = Some (c, ColPermissionBurn)"
| "needs_permission (MsgColModify c owner tokenType tokenIndex changes) = Some (c, ColPermissionModify)"
| "needs_permission (MsgColGrantPermission c from dst p) = Some (c, col_LegacyPermissionFromString p)"
| "needs_permission _ = None"

lemma validAddr_Inr: "validAddr cfg a = Inr u \<longleftrightarrow> (\<exists>x. AccAddressFromBech32 cfg a = Inr x)"
  by (auto simp: validAddr_def wrapE_def split: sum.splits error.splits)

lemma col_authorized_refused: "col_GetAuthorization s c h a \<noteq> Inr () \<Longrightarrow> col_authorized s c h a = Inl (Error ErrUnauthorized ''no authorization'')"
  by (auto simp: col_authorized_def col_GetAuthorization_def wrapE_def split: option.splits)

lemma col_granted_refused: "col_GetGrant s c a p \<noteq> Inr () \<Longrightarrow> col_granted s c a p = Inl (Error ErrUnauthorized ''no permission granted'')"
  by (auto simp: col_granted_def col_GetGrant_def wrapE_def split: option.splits)

lemma col_signer_read: "AccAddressFromBech32 cfg (col_signer_text m) = Inr x \<Longrightarrow> col_GetSigners cfg m = [a] \<Longrightarrow> x = a"
  by (simp add: col_GetSigners_def)

lemmas col_valid_defs = MsgTransferFTFrom_ValidateBasic_def MsgTransferNFTFrom_ValidateBasic_def MsgBurnFTFrom_ValidateBasic_def
  MsgBurnNFTFrom_ValidateBasic_def MsgAttachFrom_ValidateBasic_def MsgDetachFrom_ValidateBasic_def
  MsgIssueFT_ValidateBasic_def MsgIssueNFT_ValidateBasic_def MsgMintFT_ValidateBasic_def MsgMintNFT_ValidateBasic_def
  MsgBurnFT_ValidateBasic_def MsgBurnNFT_ValidateBasic_def MsgColModify_ValidateBasic_def
  MsgColGrantPermission_ValidateBasic_def validAddr_Inr

lemmas col_handler_defs = msg_TransferFTFrom_def msg_TransferNFTFrom_def msg_BurnFTFrom_def msg_BurnNFTFrom_def
  msg_AttachFrom_def msg_DetachFrom_def msg_IssueFT_def msg_IssueNFT_def msg_MintFT_def msg_MintNFT_def msg_BurnFT_def
  msg_BurnNFT_def col_msg_Modify_def col_msg_GrantPermission_def

text \<open>The addresses of a valid message are readable.\<close>

lemma valid_acts_for:
  assumes "ColMsg_ValidateBasic cfg m = Inr ()" "acts_for m = Some (c, h)"
  obtains holder signer where "AccAddressFromBech32 cfg h = Inr holder" "AccAddressFromBech32 cfg (col_signer_text m) = Inr signer"
  using assms by (cases m) (auto simp: col_valid_defs)

lemma valid_needs_permission:
  assumes "ColMsg_ValidateBasic cfg m = Inr ()" "needs_permission m = Some (c, p)"
  obtains signer where "AccAddressFromBech32 cfg (col_signer_text m) = Inr signer"
  using assms by (cases m) (auto simp: col_valid_defs)

lemma unauthorized_refused:
  assumes "acts_for m = Some (c, h)" "AccAddressFromBech32 cfg h = Inr holder"
    "AccAddressFromBech32 cfg (col_signer_text m) = Inr a" "col_GetAuthorization s c holder a \<noteq> Inr ()"
  shows "col_handle cfg m s = Inl (Error ErrUnauthorized ''no authorization'')"
  using assms col_authorized_refused [OF assms(4)] by (cases m) (simp_all add: col_handler_defs Let_def)

lemma col_authorized_cases:
  "col_authorized s c h a = Inr () \<or> col_authorized s c h a = Inl (Error ErrUnauthorized ''no authorization'')"
  by (auto simp: col_authorized_def col_GetAuthorization_def wrapE_def split: option.splits)

lemma unpermitted_refused:
  assumes "ColMsg_ValidateBasic cfg m = Inr ()" "needs_permission m = Some (c, p)"
    "AccAddressFromBech32 cfg (col_signer_text m) = Inr a" "col_GetGrant s c a p \<noteq> Inr ()"
  shows "\<exists>text. col_handle cfg m s = Inl (Error ErrUnauthorized text)"
proof (cases "acts_for m")
  case None
  then show ?thesis using assms col_granted_refused [OF assms(4)]
    by (cases m) (auto simp: col_handler_defs col_valid_defs Let_def)
next
  case (Some h)
  obtain holder where "AccAddressFromBech32 cfg (snd h) = Inr holder"
    using valid_acts_for [OF assms(1), of "fst h" "snd h"] Some by auto
  then show ?thesis using Some assms col_granted_refused [OF assms(4)] col_authorized_cases [of s "fst h" holder a]
    by (cases m) (auto simp: col_handler_defs Let_def)
qed

text \<open>
  C14: a valid message of a signer who acts for a holder without the holder's authorization, or
  who lacks the permission the message needs, is refused as unauthorized. It does not panic and
  has no effect.
\<close>

theorem col_unauthorized_refused:
  assumes "ColMsg_ValidateBasic cfg m = Inr ()" "col_GetSigners cfg m = [a]"
    and "(\<exists>c h holder. acts_for m = Some (c, h) \<and> AccAddressFromBech32 cfg h = Inr holder \<and> col_GetAuthorization s c holder a \<noteq> Inr ()) \<or>
      (\<exists>c p. needs_permission m = Some (c, p) \<and> col_GetGrant s c a p \<noteq> Inr ())"
  shows "\<exists>text. DeliverColMsg cfg m s = Inl (Error ErrUnauthorized text)"
  using assms(3)
proof
  assume "\<exists>c h holder. acts_for m = Some (c, h) \<and> AccAddressFromBech32 cfg h = Inr holder \<and> col_GetAuthorization s c holder a \<noteq> Inr ()"
  then obtain c h holder where h: "acts_for m = Some (c, h)" "AccAddressFromBech32 cfg h = Inr holder"
    "col_GetAuthorization s c holder a \<noteq> Inr ()" by blast
  then have "AccAddressFromBech32 cfg (col_signer_text m) = Inr a"
    using valid_acts_for [OF assms(1) h(1)] col_signer_read [OF _ assms(2)] by metis
  from unauthorized_refused [OF h(1,2) this h(3)] show ?thesis using assms(1) by (simp add: DeliverColMsg_def)
next
  assume "\<exists>c p. needs_permission m = Some (c, p) \<and> col_GetGrant s c a p \<noteq> Inr ()"
  then obtain c p where p: "needs_permission m = Some (c, p)" "col_GetGrant s c a p \<noteq> Inr ()" by blast
  then have "AccAddressFromBech32 cfg (col_signer_text m) = Inr a"
    using valid_needs_permission [OF assms(1) p(1)] col_signer_read [OF _ assms(2)] by metis
  from unpermitted_refused [OF assms(1) p(1) this p(2)] show ?thesis using assms(1) by (simp add: DeliverColMsg_def)
qed

theorem col_unauthorized_refused_witness:
  "\<exists>text. DeliverColMsg plain_config (MsgBurnNFT ''9be17165'' ''link1b'' [''1000000000000001''])
     (empty_col_state \<lparr>nonce = Some 1, ids = {''9be17165''}\<rparr>) = Inl (Error ErrUnauthorized text)"
proof (rule col_unauthorized_refused)
  show "ColMsg_ValidateBasic plain_config (MsgBurnNFT ''9be17165'' ''link1b'' [''1000000000000001'']) = Inr ()" by code_simp
  show "col_GetSigners plain_config (MsgBurnNFT ''9be17165'' ''link1b'' [''1000000000000001'']) = [''b'']" by code_simp
qed (simp add: col_GetGrant_def empty_col_state_def store_get_def)

text \<open>Messages that move no tokens keep the balances.\<close>

interpretation balances_kept: col_frame "\<lambda>s. cBalances s = B" for B
proof unfold_locales
  fix s s' :: ColState and c k i owner subject target cfg operator and changes :: "ColAttribute list"
  show "cBalances s = B \<Longrightarrow> tokens_part s' = tokens_part s \<Longrightarrow> cBalances s' = B" by (simp add: tokens_part_def)
  show "cBalances s = B \<Longrightarrow> Attach c owner subject target s = Inr s' \<Longrightarrow> cBalances s' = B"
    by (drule Attach_frame) simp
  show "cBalances s = B \<Longrightarrow> Detach c owner subject s = Inr s' \<Longrightarrow> cBalances s' = B" by (drule Detach_frame) simp
  show "cBalances s = B \<Longrightarrow> ModifyTokenClass cfg c k operator changes s = Inr s' \<Longrightarrow> cBalances s' = B"
    by (drule ModifyTokenClass_frame) simp
  show "cBalances s = B \<Longrightarrow> ModifyNFT cfg c i operator changes s = Inr s' \<Longrightarrow> cBalances s' = B"
    by (drule ModifyNFT_frame) simp
qed (auto dest: createContract_frame CreateTokenClass_frame)

lemmas balances_kept_by = balances_kept.handle_operator [OF refl] balances_kept.handle_create [OF refl]
  balances_kept.handle_issue_nft [OF refl] balances_kept.handle_tree [OF refl] balances_kept.handle_modify [OF refl]

text \<open>A transfer lowers only the balances of its source, a burn those of its holder.\<close>

lemma SendCoins_lowers:
  assumes "col_SendCoins cfg c from dst amount s = Inr s'" "list_all coin_ok amount" "col_GetBalance s' c' a i < col_GetBalance s c' a i"
  shows "c' = c \<and> a = from"
  using assms(3) SendCoins_balance [OF assms(1), of c' a i] coins_of_nonneg [OF assms(2), of i] by (auto split: if_splits)

lemma BurnCoins_lowers:
  assumes "col_BurnCoins c from amount s = Inr (burnt, s')" "col_GetBalance s' c' a i < col_GetBalance s c' a i"
  shows "c' = c \<and> a = from"
proof -
  obtain s1 s2 where r: "col_subtractCoins c from amount s = Inr s1" "foldE (burn_coin c) amount ([], s1) = Inr (burnt, s2)"
    "foldE (burn_statistics c) burnt s2 = Inr s'" using assms(1) by (rule BurnCoins_run)
  have "cBalances s' = cBalances s1"
    using foldE_burn_coin [OF r(2)] foldE_burn_statistics [OF r(3)] by (simp add: burn_frame_def)
  then show ?thesis
    using assms(2) subtractCoins_balance [OF r(1), of c' a i] col_GetBalance_cong [of s' s1] by (auto split: if_splits)
qed

text \<open>The id of a new token is fresh, so that a mint of non-fungible tokens lowers no balance.\<close>

lemma mint_nft_balance:
  assumes "sound s" "mint_nft_param c dst param (ts, s) = Inr (ts', s')"
  shows "col_GetBalance s c' a i \<le> col_GetBalance s' c' a i"
  using assms(2)
proof (rule mint_nft_run)
  let ?k = "mpTokenType param"
  fix n j assume r: "store_get (cNextTokenIDs s) (c, ?k) = Some n" "n < 2 ^ 64" "0 \<le> n" "j = ?k @ hex8 (word_of_int n)"
    "s' = setLegacyToken c j ((setNFT c \<lparr>nftId = j, nftName = mpName param, nftMeta = mpMeta param\<rparr>
      (setOwner c j dst (col_setBalance c dst j 1 (setNextTokenID c ?k (n + 1) s))))\<lparr>
      cSupplies := setStatistic c ?k (col_GetSupply s c ?k + 1) (cSupplies s),
      cMinteds := setStatistic c ?k (col_GetMinted s c ?k + 1) (cMinteds s)\<rparr>)"
  have k: "length ?k = 8" "1 \<le> n" using ids_okD(3) [OF soundD(3) [OF assms(1)] r(1)] by simp_all
  have "\<not> nft_issued s c j" using issued_next [OF k(1), of s c n] r(1-4) by auto
  moreover have "\<not> ft_id j"
    by (rule issued_not_ft [of "s\<lparr>cNextTokenIDs := [((c, ?k), n + 1)]\<rparr>" c])
      (use k r in \<open>auto intro!: issuedI simp: store_get_def\<close>)
  ultimately have "col_GetBalance s c dst j = 0"
    using assms(1) balances_okD(2) [of s c dst j] by (auto simp: sound_def store_ok_def)
  moreover have "cBalances s' = cBalances (col_setBalance c dst j 1 s)" by (simp add: r(5) prims)
  ultimately show ?thesis using col_GetBalance_cong [of s' "col_setBalance c dst j 1 s"] by (simp add: col_GetBalance_set)
qed

lemma MintNFT_balance:
  assumes "sound s" "MintNFT c dst params s = Inr (tokens, s')"
  shows "col_GetBalance s c' a i \<le> col_GetBalance s' c' a i"
proof -
  have "sound (snd (tokens, s')) \<and> col_GetBalance s c' a i \<le> col_GetBalance (snd (tokens, s')) c' a i"
  proof (rule foldE_invariant [where P = "\<lambda>acc. sound (snd acc) \<and> col_GetBalance s c' a i \<le> col_GetBalance (snd acc) c' a i",
        OF assms(2) [unfolded MintNFT_def]])
    fix x u v assume u: "sound (snd u) \<and> col_GetBalance s c' a i \<le> col_GetBalance (snd u) c' a i" "mint_nft_param c dst x u = Inr v"
    then show "sound (snd v) \<and> col_GetBalance s c' a i \<le> col_GetBalance (snd v) c' a i"
      using sound_inv.mint_nft [of "snd u" c dst x "fst u" "fst v" "snd v"]
        mint_nft_balance [of "snd u" c dst x "fst u" "fst v" "snd v" c' a i] by auto
  qed (use assms(1) in simp)
  then show ?thesis by simp
qed

text \<open>The contract whose balances a mint of fungible tokens changes.\<close>

lemma MintFT_contract:
  assumes "MintFT c dst amount s = Inr s'" "c' \<noteq> c"
  shows "col_GetBalance s' c' a i = col_GetBalance s c' a i"
  by (rule foldE_invariant [OF assms(1) [unfolded MintFT_def]])
    (use assms(2) in \<open>auto elim!: mint_ft_coin_run mintFT_run simp: col_GetBalance_cong [of "_\<lparr>cSupplies := _, cMinteds := _\<rparr>"] col_GetBalance_set\<close>)

lemma IssueFT_contract:
  assumes "msg_IssueFT cfg c name meta decimals mintable owner dst amount s = Inr s'" "c' \<noteq> c"
  shows "col_GetBalance s' c' a i = col_GetBalance s c' a i"
proof -
  obtain cl j s1 where cl: "CreateTokenClass c cl s = Inr (j, s1)" and
    s': "cBalances s' = cBalances s1 \<or> (\<exists>d s2 s3. mintFT c d j amount s2 = Inr s3 \<and> cBalances s2 = cBalances s1 \<and> cBalances s' = cBalances s3)"
    using assms(1) by (fastforce simp: msg_IssueFT_def Let_def prims split: if_splits)
  have "cBalances s1 = cBalances s" using CreateTokenClass_frame [OF cl] by simp
  moreover have "col_GetBalance s3 c' a i = col_GetBalance s2 c' a i" if "mintFT c d j amount s2 = Inr s3" for d s2 s3
    using that assms(2)
    by (auto elim!: mintFT_run simp: col_GetBalance_cong [of "_\<lparr>cSupplies := _, cMinteds := _\<rparr>"] col_GetBalance_set)
  ultimately show ?thesis using s' by (auto simp: col_GetBalance_def)
qed

lemma col_signer: "AccAddressFromBech32 cfg (col_signer_text m) = Inr p \<Longrightarrow> col_GetSigners cfg m = [p]"
  by (simp add: col_GetSigners_def)

lemma emit_balances [simp]: "cBalances (emitEvent e s) = cBalances s" "cBalances (emitEvents es s) = cBalances s"
  "cBalances (emitTypedEvent t s) = cBalances s" "cBalances (emit_option o' s) = cBalances s"
  by (simp_all add: prims emit_option_def split: option.splits)

lemma col_authorized_Inr: "col_authorized s c h a = Inr u \<longleftrightarrow> col_GetAuthorization s c h a = Inr ()"
  by (simp add: col_authorized_def)

lemma col_granted_Inr: "col_granted s c a p = Inr u \<longleftrightarrow> col_GetGrant s c a p = Inr ()"
  by (simp add: col_granted_def)

text \<open>The source of a transfer, and the holder of a burn, is the signer or authorized the signer.\<close>

lemma SendCoins_source:
  assumes "col_SendCoins cfg c' fr dst amount s0 = Inr s1" "list_all coin_ok amount" "cBalances s0 = cBalances s"
    "cBalances s' = cBalances s1" "col_GetBalance s' c a i < col_GetBalance s c a i"
  shows "c' = c \<and> fr = a"
  using SendCoins_lowers [OF assms(1,2), of c a i] assms(5) col_GetBalance_cong [OF assms(3)] col_GetBalance_cong [OF assms(4)]
  by simp

lemma BurnCoins_source:
  assumes "col_BurnCoins c' fr amount s0 = Inr (burnt, s1)" "cBalances s0 = cBalances s" "cBalances s' = cBalances s1"
    "col_GetBalance s' c a i < col_GetBalance s c a i"
  shows "c' = c \<and> fr = a"
  using BurnCoins_lowers [OF assms(1), of c a i] assms(4) col_GetBalance_cong [OF assms(2)] col_GetBalance_cong [OF assms(3)]
  by simp

definition debited :: "Config \<Rightarrow> ColMsg \<Rightarrow> ColState \<Rightarrow> string \<Rightarrow> AccAddress \<Rightarrow> bool" where
  "debited cfg m s c a \<longleftrightarrow> (\<exists>p. col_GetSigners cfg m = [p] \<and> (p = a \<or> col_GetAuthorization s c a p = Inr ()))"

lemma transfer_debited:
  assumes "ColMsg_ValidateBasic cfg m = Inr ()" "col_handle cfg m s = Inr s'" "col_GetBalance s' c a i < col_GetBalance s c a i"
    "m = MsgTransferFT c' fr dst amount \<or> m = MsgTransferFTFrom c' proxy fr dst amount \<or> m = MsgTransferNFT c' fr dst is \<or>
     m = MsgTransferNFTFrom c' proxy fr dst is"
  shows "debited cfg m s c a"
  using assms(4)
proof (elim disjE)
  assume m: "m = MsgTransferFT c' fr dst amount"
  then obtain fr' dst' s1 where r: "AccAddressFromBech32 cfg fr = Inr fr'" "col_SendCoins cfg c' fr' dst' amount s = Inr s1"
    "cBalances s' = cBalances s1" using assms(2) by (auto simp: msg_TransferFT_def)
  moreover have "list_all coin_ok amount" using assms(1) m by (simp add: MsgTransferFT_ValidateBasic_def validateCoins_Inr)
  ultimately show ?thesis using SendCoins_source [OF r(2) _ refl r(3) assms(3)] m col_signer [of cfg m fr']
    by (simp add: debited_def)
next
  assume m: "m = MsgTransferFTFrom c' proxy fr dst amount"
  then obtain fr' p dst' s1 where r: "AccAddressFromBech32 cfg proxy = Inr p" "col_SendCoins cfg c' fr' dst' amount s = Inr s1"
    "cBalances s' = cBalances s1" "col_GetAuthorization s c' fr' p = Inr ()"
    using assms(2) by (auto simp: msg_TransferFTFrom_def col_authorized_Inr)
  moreover have "list_all coin_ok amount" using assms(1) m by (simp add: MsgTransferFTFrom_ValidateBasic_def validateCoins_Inr)
  ultimately show ?thesis using SendCoins_source [OF r(2) _ refl r(3) assms(3)] m col_signer [of cfg m p]
    by (simp add: debited_def)
next
  assume m: "m = MsgTransferNFT c' fr dst is"
  then obtain fr' dst' s1 where r: "AccAddressFromBech32 cfg fr = Inr fr'"
    "col_SendCoins cfg c' fr' dst' (one_coins is) (emitEvents (NewEventTransferNFT c' fr fr dst (one_coins is)) s) = Inr s1"
    "cBalances s' = cBalances s1"
    using assms(2) by (auto simp: msg_TransferNFT_def Let_def)
  moreover have "list_all coin_ok (one_coins is)"
    using assms(1) m by (auto simp: MsgTransferNFT_ValidateBasic_def validTokenIds_def one_coins_ok split: if_splits)
  ultimately show ?thesis using SendCoins_source [OF r(2) _ emit_balances(2) r(3) assms(3)] m col_signer [of cfg m fr']
    by (simp add: debited_def)
next
  assume m: "m = MsgTransferNFTFrom c' proxy fr dst is"
  then obtain fr' p dst' s1 where r: "AccAddressFromBech32 cfg proxy = Inr p"
    "col_SendCoins cfg c' fr' dst' (one_coins is) (emitEvents (NewEventTransferNFTFrom c' proxy fr dst (one_coins is)) s) = Inr s1"
    "cBalances s' = cBalances s1" "col_GetAuthorization s c' fr' p = Inr ()"
    using assms(2) by (auto simp: msg_TransferNFTFrom_def Let_def col_authorized_Inr)
  moreover have "list_all coin_ok (one_coins is)"
    using assms(1) m by (auto simp: MsgTransferNFTFrom_ValidateBasic_def validTokenIds_def one_coins_ok split: if_splits)
  ultimately show ?thesis using SendCoins_source [OF r(2) _ emit_balances(2) r(3) assms(3)] m col_signer [of cfg m p]
    by (simp add: debited_def)
qed

lemma burn_debited:
  assumes "col_handle cfg m s = Inr s'" "col_GetBalance s' c a i < col_GetBalance s c a i"
    "m = MsgBurnFT c' fr amount \<or> m = MsgBurnFTFrom c' proxy fr amount \<or> m = MsgBurnNFT c' fr is \<or> m = MsgBurnNFTFrom c' proxy fr is"
  shows "debited cfg m s c a"
proof -
  obtain fr' p b burnt s0 s1 where r: "AccAddressFromBech32 cfg (col_signer_text m) = Inr p"
    "col_BurnCoins c' fr' b s0 = Inr (burnt, s1)" "cBalances s0 = cBalances s" "cBalances s' = cBalances s1"
    "p = fr' \<or> col_GetAuthorization s c' fr' p = Inr ()"
    using assms(3)
  proof (elim disjE)
    assume m: "m = MsgBurnFT c' fr amount"
    then show thesis using assms(1) that by (auto simp: msg_BurnFT_def)
  next
    assume m: "m = MsgBurnFTFrom c' proxy fr amount"
    then show thesis using assms(1) that by (auto simp: msg_BurnFTFrom_def col_authorized_Inr)
  next
    assume m: "m = MsgBurnNFT c' fr is"
    then show thesis using assms(1) that [OF _ _ emit_balances(2)] by (auto simp: msg_BurnNFT_def Let_def)
  next
    assume m: "m = MsgBurnNFTFrom c' proxy fr is"
    then show thesis using assms(1) that [OF _ _ emit_balances(2)] by (auto simp: msg_BurnNFTFrom_def Let_def col_authorized_Inr)
  qed
  then show ?thesis using BurnCoins_source [OF r(2-4) assms(2)] col_signer [OF r(1)] by (auto simp: debited_def)
qed

text \<open>
  C13: in a reachable state a message lowers a balance only when its signer is the holder or an
  operator the holder authorized for the contract, or when it mints or issues fungible tokens
  of the contract with the permission to do so.
\<close>

theorem col_debit_authorized:
  assumes "col_reachable cfg s" "DeliverColMsg cfg m s = Inr s'" "col_GetBalance s' c a i < col_GetBalance s c a i"
  shows "\<exists>p. col_GetSigners cfg m = [p] \<and> (p = a \<or> col_GetAuthorization s c a p = Inr () \<or>
    (\<exists>from dst amount. m = MsgMintFT c from dst amount \<and> col_GetGrant s c p ColPermissionMint = Inr ()) \<or>
    (\<exists>name meta decimals mintable owner dst amount. m = MsgIssueFT c name meta decimals mintable owner dst amount \<and>
       col_GetGrant s c p ColPermissionIssue = Inr ()))"
proof -
  have valid: "ColMsg_ValidateBasic cfg m = Inr ()" and run: "col_handle cfg m s = Inr s'"
    using assms(2) by (auto simp: DeliverColMsg_def)
  have changed: "cBalances s' \<noteq> cBalances s" using assms(3) col_GetBalance_cong [of s' s] by auto
  have moved: "debited cfg m s c a \<Longrightarrow> ?thesis" by (auto simp: debited_def)
  show ?thesis
  proof (cases m)
    case (MsgMintFT c' fr dst amount)
    then obtain p dst' s1 where r: "AccAddressFromBech32 cfg fr = Inr p" "col_GetGrant s c' p ColPermissionMint = Inr ()"
      "MintFT c' dst' amount s = Inr s1" "cBalances s' = cBalances s1"
      using run by (auto simp: msg_MintFT_def col_granted_Inr)
    then have "c' = c" using MintFT_contract [OF r(3), of c a i] assms(3) col_GetBalance_cong [OF r(4)] by force
    then show ?thesis using r(2) MsgMintFT col_signer [of cfg m p] r(1) by auto
  next
    case (MsgIssueFT c' name meta decimals mintable owner dst amount)
    then obtain p where r: "AccAddressFromBech32 cfg owner = Inr p" "col_GetGrant s c' p ColPermissionIssue = Inr ()"
      using run by (auto simp: msg_IssueFT_def col_granted_Inr)
    have "c' = c" using IssueFT_contract [of cfg c' name meta decimals mintable owner dst amount s s' c a i] run MsgIssueFT assms(3) by force
    then show ?thesis using r MsgIssueFT col_signer [of cfg m p] by auto
  next
    case (MsgMintNFT c' fr dst params)
    then obtain dst' ts s1 where r: "MintNFT c' dst' params s = Inr (ts, s1)" "cBalances s' = cBalances s1"
      using run by (auto simp: msg_MintNFT_def)
    then show ?thesis
      using MintNFT_balance [OF sound_reachable [OF assms(1)] r(1), of c a i] assms(3) col_GetBalance_cong [OF r(2)] by force
  qed (use run changed transfer_debited [OF valid run assms(3)] burn_debited [OF run assms(3)] moved
      in \<open>auto simp del: ColMsg_ValidateBasic.simps dest: balances_kept_by\<close>)
qed

theorem col_debit_authorized_witness:
  "\<exists>s s'. col_reachable plain_config s \<and> DeliverColMsg plain_config (demo_burn ''1000000000000001'') s = Inr s' \<and>
     col_GetBalance s' ''9be17165'' ''a'' ''1000000000000001'' < col_GetBalance s ''9be17165'' ''a'' ''1000000000000001'' \<and>
     col_GetSigners plain_config (demo_burn ''1000000000000001'') = [''a'']"
proof -
  let ?m = "demo_burn ''1000000000000001''" and ?b = "\<lambda>s. col_GetBalance s ''9be17165'' ''a'' ''1000000000000001''"
  have "demo_see demo_made (\<lambda>s. (?b s, map_sum (\<lambda>_. ()) ?b (DeliverColMsg plain_config ?m s))) = Some (1, Inr 0)" by code_simp
  then obtain s where s: "col_reachable plain_config s" "?b s = 1" "map_sum (\<lambda>_. ()) ?b (DeliverColMsg plain_config ?m s) = Inr 0"
    by (rule demo_state) auto
  then obtain s' where s': "DeliverColMsg plain_config ?m s = Inr s'" "?b s' = 0"
    by (cases "DeliverColMsg plain_config ?m s") auto
  then have less: "?b s' < ?b s" using s(2) by simp
  have "\<exists>p. col_GetSigners plain_config ?m = [p]" using col_debit_authorized [OF s(1) s'(1) less] by blast
  moreover have "col_GetSigners plain_config ?m = [''a'']" by code_simp
  ultimately show ?thesis using s(1) s'(1) less by blast
qed

subsection \<open>Divergences\<close>

text \<open>
  \<open>mintFT\<close> writes the minted amount as the balance of the recipient, whatever it was before,
  and adds it to the supply.
\<close>

theorem col_mint_replaces_balance:
  assumes "mintFT c dst k n s = Inr s'"
  shows "col_GetBalance s' c dst (k @ patternZero) = n \<and> col_GetSupply s' c k = col_GetSupply s c k + n"
  using assms
proof (rule mintFT_run)
  fix i assume r: "NewFTID k = Inr i" "s' = (col_setBalance c dst i n s)\<lparr>
      cSupplies := setStatistic c k (col_GetSupply s c k + n) (cSupplies s),
      cMinteds := setStatistic c k (col_GetMinted s c k + n) (cMinteds s)\<rparr>"
  have "cBalances s' = cBalances (col_setBalance c dst i n s)" by (simp add: r(2))
  then show ?thesis using r(1) col_GetBalance_cong [of s' "col_setBalance c dst i n s"]
    by (simp add: NewFTID_eq col_GetBalance_set) (simp add: r(2) col_GetSupply_def getStatistic_set)
qed

lemma foldE_params: "foldE f xs s = Inr s' \<Longrightarrow> (\<And>x u v. f x u = Inr v \<Longrightarrow> cParams v = cParams u) \<Longrightarrow> cParams s' = cParams s"
  by (erule foldE_invariant) auto

lemma eachContract_params:
  assumes "eachContract f xs s = Inr s'" "\<And>c x u v. f c x u = Inr v \<Longrightarrow> cParams v = cParams u"
  shows "cParams s' = cParams s"
  using assms(1) unfolding eachContract_def
  by (rule foldE_params) (auto split: prod.splits dest!: foldE_params intro: assms(2))

lemma init_params:
  "init_class c x u = Inr v \<Longrightarrow> cParams v = cParams u" "init_coin cfg c ad coin u = Inr v \<Longrightarrow> cParams v = cParams u"
  "init_supply c e u = Inr v \<Longrightarrow> cParams v = cParams u"
  by (cases x; auto simp: init_class_def init_coin_def init_supply_def Let_def prims)+

lemma bind_eachContract:
  assumes "bindE (eachContract f xs s) k = Inr s'" "\<And>c x u v. f c x u = Inr v \<Longrightarrow> cParams v = cParams u"
    "\<And>u. k u = Inr s' \<Longrightarrow> cParams u = cParams s \<Longrightarrow> P"
  shows P
proof -
  obtain u where "eachContract f xs s = Inr u" "k u = Inr s'" using assms(1) by auto
  then show P using assms(3) eachContract_params [of f xs s u] assms(2) by blast
qed

lemma InitGenesis_params:
  assumes "col_InitGenesis cfg d s = Inr s'"
  shows "cParams s' = Some (cgParams d)"
proof -
  have contracts: "cParams (fold setContract xs u) = cParams u" for xs u by (induction xs arbitrary: u) (simp_all add: prims)
  have next_ids: "cParams (fold setNextClassIDs xs u) = cParams u" for xs u by (induction xs arbitrary: u) (simp_all add: prims)
  show ?thesis
    using assms unfolding col_InitGenesis_def Let_def
    by (elim bind_eachContract)
      (auto simp: prims contracts next_ids split: prod.splits
        dest: init_params foldE_params [OF _ init_params(2)] eachContract_params [OF _ init_params(3)])
qed

text \<open>
  The export of genesis leaves the parameters out, so that both limits are zero after an
  import, and then no token can be attached.
\<close>

theorem col_export_stops_attach:
  assumes "col_ExportGenesis cfg s = Inr g" "col_InitGenesis cfg g s0 = Inr s1"
  shows "Attach c owner subject target s1 \<noteq> Inr s2"
proof
  assume "Attach c owner subject target s1 = Inr s2"
  then obtain rt where v: "validateDepthAndWidth (attached c subject target s1) c rt = Inr ()"
    by (rule Attach_facts) blast
  have "cParams s1 = Some \<lparr>DepthLimit = 0, WidthLimit = 0\<rparr>"
    using InitGenesis_params [OF assms(2)] assms(1) by (auto simp: col_ExportGenesis_def Let_def)
  then have "cParams (attached c subject target s1) = Some \<lparr>DepthLimit = 0, WidthLimit = 0\<rparr>" by (simp add: attached_def prims)
  then show False using v
    by (auto simp: validateDepthAndWidth_def col_GetParams_def Let_def depth_width_def list_ex_iff split: if_splits)
qed

end
