(* ===== verification/BitArray.thy ===== *)
theory BitArray
  imports GoText SdkInt
begin

unbundle bit_operations_syntax

section \<open>Compact bit arrays: crypto/types/compact_bit_array.go\<close>

text \<open>
  The bit array of a multi-signature, eight bits to a byte, the first bit the highest. A pointer
  that may be nil is an option. Nothing bounds the stored fields of a decoded array, so an access
  to a byte may be out of range and panic. The human-readable indentation is not modelled.
\<close>

record CompactBitArray =
  ExtraBitsStored :: "32 word"
  Elems :: "8 word list"

definition NewCompactBitArray :: "int \<Rightarrow> CompactBitArray option" where
  "NewCompactBitArray bits =
     (if bits \<le> 0 then None
      else let nElems = quo (sint (word_of_int (bits + 7) :: int64)) 8 in
        if nElems \<le> 0 \<or> nElems > 2 ^ 31 - 1 then None
        else Some \<lparr>ExtraBitsStored = word_of_int (bits mod 8), Elems = replicate (nat nElems) 0\<rparr>)"

fun Count :: "CompactBitArray option \<Rightarrow> int" where
  "Count None = 0"
| "Count (Some bA) =
     (if ExtraBitsStored bA = 0 then int (length (Elems bA)) * 8
      else (int (length (Elems bA)) - 1) * 8 + uint (ExtraBitsStored bA))"

definition elem_at :: "8 word list \<Rightarrow> nat \<Rightarrow> 8 word result" where
  "elem_at es n = (if n < length es then Inr (es ! n) else Inl (Panic ''index out of range''))"

definition bit_mask :: "int \<Rightarrow> 8 word" where
  "bit_mask i = push_bit (nat (7 - i mod 8)) 1"

fun GetIndex :: "CompactBitArray option \<Rightarrow> int \<Rightarrow> bool result" where
  "GetIndex None i = Inr False"
| "GetIndex (Some bA) i =
     (if i < 0 \<or> i \<ge> Count (Some bA) then Inr False
      else bindE (elem_at (Elems bA) (nat (i div 8))) (\<lambda>e. Inr (e AND bit_mask i > 0)))"

fun SetIndex :: "int \<Rightarrow> bool \<Rightarrow> CompactBitArray option \<Rightarrow> (bool \<times> CompactBitArray option) result" where
  "SetIndex i v None = Inr (False, None)"
| "SetIndex i v (Some bA) =
     (if i < 0 \<or> i \<ge> Count (Some bA) then Inr (False, Some bA)
      else let n = nat (i div 8) in
        bindE (elem_at (Elems bA) n) (\<lambda>e.
          Inr (True, Some (bA\<lparr>Elems := (Elems bA)[n := if v then e OR bit_mask i else e AND NOT (bit_mask i)]\<rparr>))))"

text \<open>\<open>bits.OnesCount8\<close>.\<close>

definition OnesCount8 :: "8 word \<Rightarrow> nat" where
  "OnesCount8 w = length (filter (bit w) [0..<8])"

text \<open>The bytes of a nil array cannot be read.\<close>

definition array_elem :: "CompactBitArray option \<Rightarrow> nat \<Rightarrow> 8 word result" where
  "array_elem bA n =
     (case bA of None \<Rightarrow> Inl (Panic ''nil pointer'') | Some b \<Rightarrow> elem_at (Elems b) n)"

function count_loop :: "CompactBitArray option \<Rightarrow> int \<Rightarrow> nat \<Rightarrow> nat \<Rightarrow> nat result" where
  "count_loop bA index elem onesCount =
     (if int elem * 8 + 7 \<ge> index
      then bindE (array_elem bA elem) (\<lambda>e.
        Inr (onesCount + OnesCount8 (drop_bit (nat (7 - rem index 8 + 1)) e)))
      else bindE (array_elem bA elem) (\<lambda>e. count_loop bA index (elem + 1) (onesCount + OnesCount8 e)))"
  by pat_completeness auto

termination
  by (relation "measure (\<lambda>(bA, index, elem, onesCount). nat (index - int elem * 8))") auto

declare count_loop.simps [simp del]

definition NumTrueBitsBefore :: "CompactBitArray option \<Rightarrow> int \<Rightarrow> nat result" where
  "NumTrueBitsBefore bA index = count_loop bA (min index (Count bA)) 0 0"

definition BitArray_Equal :: "CompactBitArray option \<Rightarrow> CompactBitArray option \<Rightarrow> bool" where
  "BitArray_Equal bA other =
     (case (bA, other) of
        (None, None) \<Rightarrow> True
      | (Some a, Some b) \<Rightarrow> ExtraBitsStored a = ExtraBitsStored b \<and> Elems a = Elems b
      | _ \<Rightarrow> False)"

subsection \<open>Encodings\<close>

definition bit_chars :: "CompactBitArray option \<Rightarrow> string result" where
  "bit_chars bA =
     mapE (\<lambda>i. bindE (GetIndex bA i) (\<lambda>b. Inr (if b then CHR ''x'' else CHR ''_''))) [0..Count bA - 1]"

definition BitArray_MarshalJSON :: "CompactBitArray option \<Rightarrow> string result" where
  "BitArray_MarshalJSON bA =
     (case bA of
        None \<Rightarrow> Inr ''null''
      | Some _ \<Rightarrow> bindE (bit_chars bA) (\<lambda>bits. Inr (CHR 0x22 # bits @ [CHR 0x22])))"

text \<open>The match of \<open>bitArrayJSONRegexp\<close>: the text between the quotes.\<close>

definition bitArrayJSONRegexp :: "string \<Rightarrow> string option" where
  "bitArrayJSONRegexp b =
     (if length b \<ge> 2 \<and> hd b = CHR 0x22 \<and> last b = CHR 0x22 \<and>
         list_all (\<lambda>c. c = CHR ''_'' \<or> c = CHR ''x'') (butlast (tl b))
      then Some (butlast (tl b)) else None)"

definition BitArray_UnmarshalJSON :: "string \<Rightarrow> CompactBitArray result" where
  "BitArray_UnmarshalJSON b =
     (if b = ''null'' then Inr \<lparr>ExtraBitsStored = 0, Elems = []\<rparr>
      else case bitArrayJSONRegexp b of
        None \<Rightarrow> Inl (Error ErrPlain ''bitArray in JSON'')
      | Some bits \<Rightarrow>
          bindE (foldE (\<lambda>i bA.
              if bits ! nat i = CHR ''x'' then bindE (SetIndex i True bA) (\<lambda>(_, bA'). Inr bA') else Inr bA)
            [0..int (length bits) - 1] (NewCompactBitArray (int (length bits)))) (\<lambda>bA2.
          case bA2 of None \<Rightarrow> Inl (Panic ''nil pointer'') | Some b2 \<Rightarrow> Inr b2))"

text \<open>\<open>binary.PutUvarint\<close>, \<open>binary.Uvarint\<close>: the second component is the number of bytes read.\<close>

function PutUvarint :: "uint64 \<Rightarrow> 8 word list" where
  "PutUvarint x = (if x \<ge> 0x80 then (ucast x OR 0x80) # PutUvarint (drop_bit 7 x) else [ucast x])"
  by pat_completeness auto

termination
  by (relation "measure unat") (auto simp: drop_bit_eq_div unat_div word_le_nat_alt intro!: div_less_dividend)

declare PutUvarint.simps [simp del]

definition MaxVarintLen64 :: nat where
  "MaxVarintLen64 = 10"

fun uvarint_loop :: "8 word list \<Rightarrow> nat \<Rightarrow> uint64 \<Rightarrow> nat \<Rightarrow> uint64 \<times> int" where
  "uvarint_loop [] i x s = (0, 0)"
| "uvarint_loop (b # bs) i x s =
     (if i = MaxVarintLen64 then (0, - (int i + 1))
      else if b < 0x80 then
        if i = MaxVarintLen64 - 1 \<and> b > 1 then (0, - (int i + 1))
        else (x OR push_bit s (ucast b), int i + 1)
      else uvarint_loop bs (i + 1) (x OR push_bit s (ucast (b AND 0x7f))) (s + 7))"

definition Uvarint :: "8 word list \<Rightarrow> uint64 \<times> int" where
  "Uvarint buf = uvarint_loop buf 0 0 0"

definition null_bytes :: "8 word list" where
  "null_bytes = [0x6e, 0x75, 0x6c, 0x6c]"

definition CompactMarshal :: "CompactBitArray option \<Rightarrow> 8 word list result" where
  "CompactMarshal bA =
     (let size = Count bA in
      if size \<le> 0 then Inr null_bytes
      else case bA of
        None \<Rightarrow> Inl (Panic ''nil pointer'')
      | Some b \<Rightarrow> Inr (PutUvarint (word_of_int size) @ Elems b))"

definition CompactUnmarshal :: "8 word list \<Rightarrow> CompactBitArray option result" where
  "CompactUnmarshal bz =
     (if length bz < 2 then Inl (Error ErrPlain ''invalid compact unmarshal size'')
      else if bz = null_bytes then Inr (NewCompactBitArray 0)
      else let (size, n) = Uvarint bz in
        if n < 0 \<or> n \<ge> int (length bz) then Inl (Error ErrPlain ''out of range'')
        else let bz' = drop (nat n) bz in
          if int (length bz') \<noteq> quo (sint (size + 7)) 8
          then Inl (Error ErrPlain ''invalid compact unmarshal size'')
          else Inr (Some \<lparr>ExtraBitsStored = ucast (size mod 8), Elems = bz'\<rparr>))"

subsection \<open>The array as a list of bits\<close>

definition byte_bits :: "8 word \<Rightarrow> bool list" where
  "byte_bits w = map (\<lambda>j. bit w (7 - j)) [0..<8]"

definition all_bits :: "8 word list \<Rightarrow> bool list" where
  "all_bits es = concat (map byte_bits es)"

definition bits_of :: "CompactBitArray \<Rightarrow> bool list" where
  "bits_of bA = take (nat (Count (Some bA))) (all_bits (Elems bA))"

definition bits_ok :: "CompactBitArray \<Rightarrow> bool" where
  "bits_ok bA \<longleftrightarrow> unat (ExtraBitsStored bA) < 8 \<and> (Elems bA = [] \<longrightarrow> ExtraBitsStored bA = 0)"

abbreviation ones :: "bool list \<Rightarrow> nat" where
  "ones bs \<equiv> length (filter id bs)"

lemma upt_8: "[0..<8] = [0, 1, 2, 3, 4, 5, 6, 7 :: nat]"
  by (simp add: upt_rec)

lemma length_byte_bits [simp]: "length (byte_bits w) = 8"
  by (simp add: byte_bits_def)

lemma byte_bits_nth: "j < 8 \<Longrightarrow> byte_bits w ! j = bit w (7 - j)"
  by (simp add: byte_bits_def)

lemma length_all_bits [simp]: "length (all_bits es) = 8 * length es"
  by (induction es) (simp_all add: all_bits_def)

lemma all_bits_simps [simp]: "all_bits [] = []" "all_bits (e # es) = byte_bits e @ all_bits es"
  "all_bits (es @ fs) = all_bits es @ all_bits fs"
  by (simp_all add: all_bits_def)

lemma all_bits_nth: "i < 8 * length es \<Longrightarrow> all_bits es ! i = bit (es ! (i div 8)) (7 - i mod 8)"
proof (induction es arbitrary: i)
  case (Cons e es)
  show ?case
  proof (cases "i < 8")
    case False
    then have "all_bits es ! (i - 8) = bit (es ! ((i - 8) div 8)) (7 - (i - 8) mod 8)"
      using Cons.prems by (intro Cons.IH) simp
    moreover have "i div 8 = Suc ((i - 8) div 8)" "i mod 8 = (i - 8) mod 8"
      using False by (simp_all add: le_div_geq le_mod_geq)
    ultimately show ?thesis using False by (simp add: nth_append)
  qed (simp add: nth_append byte_bits_nth)
qed simp

lemma all_bits_drop: "all_bits (drop n es) = drop (8 * n) (all_bits es)"
proof (induction n arbitrary: es)
  case (Suc n)
  then show ?case by (cases es) simp_all
qed simp

lemma ones_Cons: "length (filter P (x # xs)) = of_bool (P x) + length (filter P xs)"
  by simp

lemma OnesCount8_bits: "OnesCount8 w = ones (byte_bits w)"
  by (simp add: OnesCount8_def byte_bits_def upt_8)

lemma OnesCount8_prefix: "r < 8 \<Longrightarrow> OnesCount8 (drop_bit (8 - r) w) = ones (take r (byte_bits w))"
proof -
  assume "r < 8"
  then have "r \<in> {0, 1, 2, 3, 4, 5, 6, 7}" by auto
  moreover have "8 \<le> n \<Longrightarrow> \<not> bit w n" for n using bit_imp_le_length [of w n] by auto
  ultimately show ?thesis
    by (elim insertE emptyE) (simp_all add: OnesCount8_def byte_bits_def upt_8 bit_drop_bit_eq ones_Cons eval_nat_numeral del: filter.simps(2))
qed

lemma word_and_exp: "e AND 2 ^ n = (if bit e n then 2 ^ n else 0)" for e :: "8 word"
  by (rule bit_word_eqI) (auto simp: bit_and_iff bit_exp_iff)

lemma word_exp_nonzero: "n < 8 \<Longrightarrow> (2 :: 8 word) ^ n \<noteq> 0"
  using bit_exp_iff [where 'a="8 word", of n n] by auto

lemma bit_mask_exp: "bit_mask (int i) = 2 ^ (7 - i mod 8)"
  by (simp add: bit_mask_def nat_diff_distrib nat_mod_distrib)

lemma bit_mask_set: "(e AND bit_mask (int i) > 0) \<longleftrightarrow> bit e (7 - i mod 8)"
proof -
  have "(2 :: 8 word) ^ (7 - i mod 8) \<noteq> 0" by (rule word_exp_nonzero) simp
  then show ?thesis by (simp add: bit_mask_exp word_and_exp word_gt_0)
qed

lemma Count_ok:
  assumes "bits_ok bA"
  shows "0 \<le> Count (Some bA)" "nat (Count (Some bA)) \<le> 8 * length (Elems bA)"
    "nat (Count (Some bA)) mod 8 = unat (ExtraBitsStored bA)"
    "nat (Count (Some bA)) = 8 * length (Elems bA) \<longleftrightarrow> ExtraBitsStored bA = 0"
    "8 * length (Elems bA) < nat (Count (Some bA)) + 8"
proof -
  obtain n e where n: "n = length (Elems bA)" and e: "e = unat (ExtraBitsStored bA)" by simp
  have z: "ExtraBitsStored bA = 0 \<longleftrightarrow> e = 0" using e by (simp add: unat_eq_zero)
  have c: "Count (Some bA) = (if e = 0 then int n * 8 else (int n - 1) * 8 + int e)"
    using z by (simp add: n e)
  have "e < 8" "e \<noteq> 0 \<Longrightarrow> 0 < n" using assms z by (auto simp: bits_ok_def n e)
  then have "\<exists>m. n = m + (if e = 0 then 0 else 1)" by (cases n) (auto split: if_splits)
  then obtain m where m: "n = m + (if e = 0 then 0 else 1)" by blast
  have v: "Count (Some bA) = int (8 * m + e)" unfolding c m by simp
  show "0 \<le> Count (Some bA)" "nat (Count (Some bA)) mod 8 = unat (ExtraBitsStored bA)"
    using \<open>e < 8\<close> unfolding v e [symmetric] nat_int by simp_all
  show "nat (Count (Some bA)) \<le> 8 * length (Elems bA)"
    "nat (Count (Some bA)) = 8 * length (Elems bA) \<longleftrightarrow> ExtraBitsStored bA = 0"
    "8 * length (Elems bA) < nat (Count (Some bA)) + 8"
    using \<open>e < 8\<close> unfolding v z n [symmetric] m nat_int by simp_all
qed

lemma length_bits_of [simp]: "bits_ok bA \<Longrightarrow> int (length (bits_of bA)) = Count (Some bA)"
  using Count_ok [of bA] by (simp add: bits_of_def del: Count.simps)

lemma GetIndex_bits:
  assumes "bits_ok bA"
  shows "GetIndex (Some bA) (int i) = Inr (i < length (bits_of bA) \<and> bits_of bA ! i)"
proof (cases "i < length (bits_of bA)")
  case True
  then have i: "i < nat (Count (Some bA))" by (simp add: bits_of_def del: Count.simps)
  then have l: "i < 8 * length (Elems bA)" using Count_ok [OF assms] by linarith
  then have "i div 8 < length (Elems bA)" by auto
  then show ?thesis using True i l
    by (auto simp: elem_at_def bit_mask_set bits_of_def all_bits_nth nat_div_distrib simp del: Count.simps)
next
  case False
  then have "int i \<ge> Count (Some bA)" using length_bits_of [OF assms] by linarith
  then show ?thesis using False by simp
qed

lemma count_loop_bits:
  assumes "8 * elem \<le> index" "index < 8 * length (Elems bA)"
  shows "count_loop (Some bA) (int index) elem n = Inr (n + ones (drop (8 * elem) (take index (all_bits (Elems bA)))))"
  using assms
proof (induction "index - 8 * elem" arbitrary: elem n rule: less_induct)
  case less
  define e where "e = Elems bA ! elem"
  have l: "elem < length (Elems bA)" using less.prems by simp
  have d: "drop (8 * elem) (all_bits (Elems bA)) = byte_bits e @ drop (8 * Suc elem) (all_bits (Elems bA))"
    using l by (simp add: e_def all_bits_drop [symmetric] Cons_nth_drop_Suc [symmetric] del: mult_Suc_right)
  have at: "array_elem (Some bA) elem = Inr e" using l by (simp add: array_elem_def elem_at_def e_def)
  have cut: "drop (8 * elem) (take index (all_bits (Elems bA)))
      = take (index - 8 * elem) (byte_bits e @ drop (8 * Suc elem) (all_bits (Elems bA)))"
    by (simp only: drop_take d)
  show ?case
  proof (cases "index \<le> 8 * elem + 7")
    case True
    have r: "index - 8 * elem = index mod 8"
      using less.prems True by (simp add: mod_nat_eqI [symmetric])
    have s: "nat (8 - rem (int index) 8) = 8 - index mod 8"
      by (simp add: rem_nonneg nat_diff_distrib nat_mod_distrib)
    have "count_loop (Some bA) (int index) elem n = Inr (n + OnesCount8 (drop_bit (8 - index mod 8) e))"
      using True s at by (subst count_loop.simps) simp
    then show ?thesis using OnesCount8_prefix [of "index mod 8" e] by (simp only: cut r) simp
  next
    case False
    then have "8 * Suc elem \<le> index" by simp
    then have "count_loop (Some bA) (int index) (elem + 1) (n + OnesCount8 e)
        = Inr (n + OnesCount8 e + ones (drop (8 * Suc elem) (take index (all_bits (Elems bA)))))"
      using less.hyps [of "Suc elem"] less.prems by simp
    moreover have "count_loop (Some bA) (int index) elem n = count_loop (Some bA) (int index) (elem + 1) (n + OnesCount8 e)"
      using False at by (subst count_loop.simps) simp
    moreover have "take (index - 8 * elem) (byte_bits e @ xs) = byte_bits e @ take (index - 8 * Suc elem) xs" for xs
      using \<open>8 * Suc elem \<le> index\<close> by (simp add: add.commute)
    ultimately show ?thesis by (simp only: cut) (simp add: drop_take OnesCount8_bits)
  qed
qed

lemma count_loop_panics:
  assumes "8 * length (Elems bA) \<le> j" "elem \<le> length (Elems bA)"
  shows "count_loop (Some bA) (int j) elem n = Inl (Panic ''index out of range'')"
  using assms
proof (induction "length (Elems bA) - elem" arbitrary: elem n)
  case 0
  then show ?case by (subst count_loop.simps) (simp add: array_elem_def elem_at_def)
next
  case (Suc k)
  then have "\<not> int j \<le> int elem * 8 + 7" by linarith
  moreover have "count_loop (Some bA) (int j) (elem + 1) n' = Inl (Panic ''index out of range'')" for n'
    using Suc by simp
  ultimately show ?case using Suc.hyps(2) by (subst count_loop.simps) (simp add: array_elem_def elem_at_def)
qed

text \<open>
  The count reads the byte after the last one when the array fills its last byte and the index
  is at its end.
\<close>

lemma NumTrueBitsBefore_bits:
  assumes "bits_ok bA"
  shows "NumTrueBitsBefore (Some bA) (int i) =
    (if ExtraBitsStored bA = 0 \<and> length (bits_of bA) \<le> i then Inl (Panic ''index out of range'')
     else Inr (ones (take i (bits_of bA))))"
proof -
  define c where "c = nat (Count (Some bA))"
  define j where "j = min i c"
  have len: "length (bits_of bA) = c" using Count_ok [OF assms] by (simp add: bits_of_def c_def del: Count.simps)
  have m: "min (int i) (Count (Some bA)) = int j"
    using Count_ok(1) [OF assms] by (simp add: j_def c_def of_nat_min del: Count.simps)
  have jb: "j \<le> 8 * length (Elems bA)" "j = 8 * length (Elems bA) \<longleftrightarrow> ExtraBitsStored bA = 0 \<and> c \<le> i"
    using Count_ok(2,4) [OF assms] by (auto simp: j_def c_def simp del: Count.simps)
  show ?thesis
  proof (cases "j < 8 * length (Elems bA)")
    case True
    have "take j (all_bits (Elems bA)) = take i (bits_of bA)"
      by (simp add: bits_of_def c_def [symmetric] j_def min.commute del: Count.simps)
    then show ?thesis using count_loop_bits [of 0 j bA 0] True jb(2) m len
      by (auto simp: NumTrueBitsBefore_def simp del: Count.simps)
  next
    case False
    then have e: "j = 8 * length (Elems bA)" using jb(1) by simp
    then have "count_loop (Some bA) (int j) 0 0 = Inl (Panic ''index out of range'')" by (intro count_loop_panics) simp_all
    then show ?thesis using jb(2) e m len by (simp add: NumTrueBitsBefore_def del: Count.simps)
  qed
qed

lemma NumTrueBits_total:
  assumes "NumTrueBitsBefore bA (Count bA) = Inr k" "Count bA = int n"
  obtains b where "bA = Some b" "bits_ok b" "n = length (bits_of b)" "k = ones (bits_of b)"
proof -
  obtain b where b: "bA = Some b"
    using assms(1) by (cases bA) (auto simp: NumTrueBitsBefore_def array_elem_def count_loop.simps [of None])
  have "n < 8 * length (Elems b)"
  proof (rule ccontr)
    assume "\<not> n < 8 * length (Elems b)"
    then show False using assms count_loop_panics [of b n 0 0] by (simp add: b NumTrueBitsBefore_def del: Count.simps)
  qed
  moreover have "unat (ExtraBitsStored b) < 8"
  proof (cases "ExtraBitsStored b = 0")
    case False
    then have "(int (length (Elems b)) - 1) * 8 + uint (ExtraBitsStored b) = int n" using assms(2) b by simp
    moreover have "int n < 8 * int (length (Elems b))" using \<open>n < 8 * length (Elems b)\<close> by linarith
    ultimately have "uint (ExtraBitsStored b) < 8" by (simp add: algebra_simps)
    then have "nat (uint (ExtraBitsStored b)) < nat 8" by (intro nat_mono_iff [THEN iffD2]) simp_all
    then show ?thesis by simp
  qed simp
  ultimately have ok: "bits_ok b" by (auto simp: bits_ok_def)
  then have "int n = int (length (bits_of b))" using assms(2) b by (simp del: Count.simps)
  then show ?thesis using that [OF b ok] NumTrueBitsBefore_bits [OF ok, of n] assms b
    by (simp del: Count.simps split: if_splits)
qed

lemma SetIndex_bits:
  assumes "bits_ok bA" "i < length (bits_of bA)"
  obtains bA' where "SetIndex (int i) v (Some bA) = Inr (True, Some bA')" "bits_ok bA'"
    "ExtraBitsStored bA' = ExtraBitsStored bA" "length (Elems bA') = length (Elems bA)" "bits_of bA' = (bits_of bA)[i := v]"
proof -
  let ?n = "i div 8" and ?e = "Elems bA ! (i div 8)"
  let ?new = "if v then ?e OR bit_mask (int i) else ?e AND NOT (bit_mask (int i))"
  let ?bA = "bA\<lparr>Elems := (Elems bA)[?n := ?new]\<rparr>"
  have i: "int i < Count (Some bA)" "i < 8 * length (Elems bA)"
    using assms(2) Count_ok [OF assms(1)] by (simp_all add: bits_of_def del: Count.simps)
  then have n: "?n < length (Elems bA)" by auto
  have s: "SetIndex (int i) v (Some bA) = Inr (True, Some ?bA)"
    using i n by (simp add: elem_at_def Let_def nat_div_distrib del: Count.simps)
  have c: "Count (Some ?bA) = Count (Some bA)" by simp
  have b: "bit ?new k = (if k = 7 - i mod 8 then v else bit ?e k)" if "k < 8" for k
    using that by (auto simp: bit_mask_exp bit_or_iff bit_and_iff bit_not_iff bit_exp_iff)
  have "all_bits ((Elems bA)[?n := ?new]) ! j = ((all_bits (Elems bA))[i := v]) ! j" if "j < 8 * length (Elems bA)" for j
  proof (cases "j div 8 = ?n")
    case True
    moreover have "j = 8 * (j div 8) + j mod 8" "i = 8 * (i div 8) + i mod 8" "j mod 8 < 8" "i mod 8 < 8" by simp_all
    ultimately have "7 - j mod 8 = 7 - i mod 8 \<longleftrightarrow> j = i" by linarith
    with True show ?thesis using that n i(2) b [of "7 - j mod 8"] by (auto simp: all_bits_nth nth_list_update)
  next
    case False
    then show ?thesis using that n by (auto simp: all_bits_nth nth_list_update)
  qed
  then have "all_bits (Elems ?bA) = (all_bits (Elems bA))[i := v]" by (intro nth_equalityI) simp_all
  then have "bits_of ?bA = (bits_of bA)[i := v]" using i by (simp add: bits_of_def take_update_swap del: Count.simps flip: c)
  then show ?thesis using that [OF s] assms(1) by (simp add: bits_ok_def)
qed

lemma NewCompactBitArray_bits:
  assumes "0 < n" "n \<le> 8 * (2 ^ 31 - 1)"
  obtains bA where "NewCompactBitArray (int n) = Some bA" "bits_ok bA" "bits_of bA = replicate n False"
proof -
  have s: "sint (word_of_int (int n + 7) :: int64) = int n + 7"
    unfolding sint_sbintrunc' using assms by (intro signed_take_bit_int_eq_self) simp_all
  define m where "m = (n + 7) div 8"
  have q: "quo (int n + 7) 8 = int m" by (simp add: quo_nonneg m_def zdiv_int)
  have m: "0 < m" "m \<le> 2 ^ 31 - 1" using assms by (auto simp: m_def div_greater_zero_iff)
  let ?bA = "\<lparr>ExtraBitsStored = word_of_int (int n mod 8), Elems = replicate m 0\<rparr>"
  have new: "NewCompactBitArray (int n) = Some ?bA"
    using assms m unfolding NewCompactBitArray_def Let_def s q by simp
  have e: "unat (word_of_int (int n mod 8) :: 32 word) = n mod 8"
  proof -
    have "int n mod 8 = int (n mod 8)" by (simp add: zmod_int)
    then have "(word_of_int (int n mod 8) :: 32 word) = word_of_nat (n mod 8)" by (simp only: of_int_of_nat_eq)
    then show ?thesis by (simp only: unat_of_nat) simp
  qed
  have z: "(word_of_int (int n mod 8) :: 32 word) = 0 \<longleftrightarrow> n mod 8 = 0" using e unat_eq_zero by metis
  have "n = 8 * (n div 8) + n mod 8" by simp
  then have "int n = 8 * int (n div 8) + int (n mod 8)" by (metis of_nat_add of_nat_mult of_nat_numeral)
  moreover have "m = (if n mod 8 = 0 then n div 8 else n div 8 + 1)" unfolding m_def by presburger
  moreover have "uint (word_of_int (int n mod 8) :: 32 word) = int (n mod 8)" by (simp only: uint_nat e)
  ultimately have c: "Count (Some ?bA) = int n" using z by (simp split: if_splits)
  have "all_bits (replicate k 0) = replicate (8 * k) False" for k
    by (induction k) (simp_all add: byte_bits_def map_replicate_const replicate_add)
  then have "bits_of ?bA = replicate n False" using c Count_ok(2) [of ?bA] m e
    by (auto simp: bits_of_def bits_ok_def min_def)
  with new show ?thesis using that m(1) e by (auto simp: bits_ok_def)
qed

lemma PutUvarint_nonempty [simp]: "PutUvarint x \<noteq> []"
  by (subst PutUvarint.simps) simp

lemma low_bits: "ucast ((ucast x OR 0x80) AND (0x7f :: 8 word)) = take_bit 7 (x :: uint64)"
proof -
  have c: "(0x80 :: 8 word) = 2 ^ 7" "(0x7f :: 8 word) = mask 7" by (simp_all add: mask_eq_exp_minus_1)
  have "\<not> bit (2 ^ 7 :: 8 word) n" if "n < 7" for n using that by (simp only: bit_exp_iff) simp
  then show ?thesis unfolding c
    by (intro bit_word_eqI) (auto simp: bit_and_iff bit_or_iff bit_mask_iff bit_unsigned_iff bit_take_bit_iff)
qed

lemma small_byte:
  assumes "(x :: uint64) < 0x80"
  shows "unat (ucast x :: 8 word) = unat x" "ucast x < (0x80 :: 8 word)" "ucast (ucast x :: 8 word) = x"
proof -
  have "unat x < 128" using assms by (simp add: word_less_nat_alt)
  moreover have "(ucast x :: 8 word) = of_nat (unat x)" by (rule of_nat_unat [symmetric])
  ultimately show u: "unat (ucast x :: 8 word) = unat x" by (simp only: unat_of_nat) simp
  then show "ucast x < (0x80 :: 8 word)" using \<open>unat x < 128\<close> by (simp add: word_less_nat_alt)
  have "ucast (ucast x :: 8 word) = (of_nat (unat (ucast x :: 8 word)) :: uint64)" by (rule of_nat_unat [symmetric])
  also have "\<dots> = x" unfolding u by simp
  finally show "ucast (ucast x :: 8 word) = x" .
qed

lemma bits_ident_or: "take_bit n x OR push_bit n (drop_bit n x) = x" for x :: uint64
proof (rule bit_word_eqI)
  fix m :: nat
  show "bit (take_bit n x OR push_bit n (drop_bit n x)) m = bit x m" if "m < LENGTH(64)"
    using that by (cases "m < n") (simp_all add: bit_or_iff bit_take_bit_iff bit_push_bit_iff bit_drop_bit_eq)
qed

lemma uvarint_loop_Put:
  assumes "s = 7 * i" "i < 10" "unat x < 2 ^ (64 - s)"
  shows "uvarint_loop (PutUvarint x @ rest) i acc s = (acc OR push_bit s x, int i + int (length (PutUvarint x)))"
  using assms
proof (induction x arbitrary: i s acc rule: PutUvarint.induct)
  case (1 x)
  show ?case
  proof (cases "x \<ge> 0x80")
    case True
    have i: "i < 9"
    proof (rule ccontr)
      assume "\<not> i < 9"
      with "1.prems" have "64 - s = 1" by simp
      with "1.prems"(3) True show False by (simp add: word_le_nat_alt)
    qed
    have "64 - s = 64 - (s + 7) + 7" using "1.prems"(1) i by simp
    then have "(2 :: nat) ^ (64 - s) = 2 ^ (64 - (s + 7)) * 128" by (simp only: power_add) simp
    then have nx: "unat (drop_bit 7 x) < 2 ^ (64 - (s + 7))" using "1.prems"(3)
      by (simp add: drop_bit_eq_div unat_div less_mult_imp_div_less)
    have low: "ucast ((ucast x OR 0x80) AND (0x7f :: 8 word)) = take_bit 7 x" by (rule low_bits)
    have "\<not> (ucast x OR 0x80) < (0x80 :: 8 word)" using le_word_or1 [of "0x80 :: 8 word" "ucast x"] by (simp add: not_less)
    moreover have "PutUvarint x = (ucast x OR 0x80) # PutUvarint (drop_bit 7 x)" using True by (subst PutUvarint.simps) simp
    moreover have "push_bit s (take_bit 7 x) OR push_bit (s + 7) (drop_bit 7 x) = push_bit s x"
    proof -
      have "push_bit (s + 7) (drop_bit 7 x) = push_bit s (push_bit 7 (drop_bit 7 x))" by (simp add: add.commute)
      then show ?thesis by (simp only: push_bit_or [symmetric] bits_ident_or)
    qed
    moreover note "1.IH" [OF True, of "s + 7" "i + 1" "acc OR push_bit s (take_bit 7 x)"] i nx "1.prems"
    ultimately show ?thesis by (simp add: MaxVarintLen64_def low or.assoc)
  next
    case False
    then have p: "PutUvarint x = [ucast x]" by (subst PutUvarint.simps) simp
    have "ucast x < (0x80 :: 8 word)" "ucast (ucast x :: 8 word) = x" using False by (simp_all add: small_byte)
    moreover have "\<not> (1 :: 8 word) < ucast x" if "i = 9"
    proof -
      have "unat x < 2" using "1.prems" that by simp
      then show ?thesis using small_byte(1) [of x] False by (simp add: word_less_nat_alt)
    qed
    ultimately show ?thesis using "1.prems" by (simp add: p MaxVarintLen64_def)
  qed
qed

subsection \<open>Round trips\<close>

lemma Uvarint_Put: "Uvarint (PutUvarint x @ rest) = (x, int (length (PutUvarint x)))"
  using uvarint_loop_Put [of 0 0 x rest 0] unsigned_less [of x] by (simp add: Uvarint_def)

lemma Put_not_null: "unat x \<le> 8 * length es \<Longrightarrow> PutUvarint x @ es \<noteq> null_bytes"
proof
  assume l: "unat x \<le> 8 * length es" and e: "PutUvarint x @ es = null_bytes"
  have "\<not> x \<ge> 0x80"
  proof
    assume "x \<ge> 0x80"
    then have "hd (PutUvarint x @ es) = ucast x OR 0x80" by (subst PutUvarint.simps) simp
    then show False using e le_word_or1 [of "0x80 :: 8 word" "ucast x"] by (simp add: null_bytes_def word_le_nat_alt)
  qed
  then have s: "x < 0x80" by (simp add: not_le)
  then have "PutUvarint x = [ucast x]" by (subst PutUvarint.simps) (simp add: not_le)
  then show False using e l small_byte(1) [OF s] by (auto simp: null_bytes_def)
qed

theorem Compact_round_trip:
  assumes "bits_ok bA" "0 < Count (Some bA)" "Count (Some bA) < 2 ^ 63 - 7"
  obtains bz where "CompactMarshal (Some bA) = Inr bz" "CompactUnmarshal bz = Inr (Some bA)"
proof -
  define c where "c = nat (Count (Some bA))"
  define size :: uint64 where "size = word_of_int (Count (Some bA))"
  let ?bz = "PutUvarint size @ Elems bA"
  note ok = Count_ok [OF assms(1), folded c_def]
  have C: "Count (Some bA) = int c" using ok(1) by (simp add: c_def)
  have c: "0 < c" "c < 2 ^ 63 - 7" using assms(2,3) unfolding C by simp_all
  have u: "unat size = c" unfolding size_def C using c by (simp add: unat_of_nat)
  have m: "CompactMarshal (Some bA) = Inr ?bz" using assms(2) by (simp add: CompactMarshal_def size_def Let_def del: Count.simps)
  have es: "Elems bA \<noteq> []" using ok(2) c(1) by auto
  have "size + 7 = word_of_int (int c + 7)" unfolding size_def C by simp
  then have s: "sint (size + 7) = int c + 7"
    using c by (simp only: sint_sbintrunc') (intro signed_take_bit_int_eq_self, simp_all)
  have q: "int (length (Elems bA)) = quo (sint (size + 7)) 8"
  proof -
    have "length (Elems bA) = (c + 7) div 8" using ok(2,5) by linarith
    then show ?thesis unfolding s by (simp add: quo_nonneg zdiv_int)
  qed
  have x: "ucast (size mod 8) = ExtraBitsStored bA"
  proof -
    have "unat (size mod 8) = unat (ExtraBitsStored bA)" using u ok(3) by (simp add: unat_mod)
    moreover have "ucast (size mod 8) = (of_nat (unat (size mod 8)) :: 32 word)" by (rule of_nat_unat [symmetric])
    ultimately show ?thesis by simp
  qed
  have "0 < length (PutUvarint size)" "0 < length (Elems bA)" using es by simp_all
  then have l: "\<not> length ?bz < 2" "\<not> int (length (PutUvarint size)) \<ge> int (length ?bz)"
    unfolding length_append by linarith+
  have "CompactUnmarshal ?bz = Inr (Some bA)"
    unfolding CompactUnmarshal_def Let_def Uvarint_Put if_not_P [OF l(1)]
    using Put_not_null [of size "Elems bA"] ok(2) u q x l(2) by simp
  with m show ?thesis by (rule that)
qed

lemma mapE_map: "mapE f (map g xs) = mapE (\<lambda>x. f (g x)) xs"
  by (induction xs) auto

lemma mapE_same: "(\<And>x. x \<in> set xs \<Longrightarrow> f x = g x) \<Longrightarrow> mapE f xs = mapE g xs"
  by (induction xs) auto

lemma upto_nat: "[0..int n - 1] = map int [0..<n]"
  by (induction n) (simp_all add: upto_rec2)

definition bit_char :: "bool \<Rightarrow> char" where
  "bit_char b = (if b then CHR ''x'' else CHR ''_'')"

lemma bit_char_ok: "bit_char b = CHR ''_'' \<or> bit_char b = CHR ''x''"
  by (simp add: bit_char_def)

lemma bit_chars_bits:
  assumes "bits_ok bA"
  shows "bit_chars (Some bA) = Inr (map bit_char (bits_of bA))"
proof -
  have "bit_chars (Some bA) = mapE (\<lambda>i. Inr (bit_char (bits_of bA ! i))) [0..<length (bits_of bA)]"
  proof -
    have "Count (Some bA) = int (length (bits_of bA))" using assms by simp
    then have "bit_chars (Some bA) = mapE (\<lambda>i. bindE (GetIndex (Some bA) (int i)) (\<lambda>b. Inr (bit_char b))) [0..<length (bits_of bA)]"
      by (simp only: bit_chars_def upto_nat mapE_map bit_char_def)
    also have "\<dots> = mapE (\<lambda>i. Inr (bit_char (bits_of bA ! i))) [0..<length (bits_of bA)]"
      by (rule mapE_same) (simp add: GetIndex_bits [OF assms] del: GetIndex.simps)
    finally show ?thesis .
  qed
  also have "\<dots> = Inr (map (\<lambda>i. bit_char (bits_of bA ! i)) [0..<length (bits_of bA)])" by (rule mapE_total) simp
  also have "map (\<lambda>i. bit_char (bits_of bA ! i)) [0..<length (bits_of bA)] = map bit_char (bits_of bA)"
    by (rule nth_equalityI) simp_all
  finally show ?thesis .
qed

definition put_bit :: "string \<Rightarrow> int \<Rightarrow> CompactBitArray option \<Rightarrow> CompactBitArray option result" where
  "put_bit bits i bA = (if bits ! nat i = CHR ''x'' then bindE (SetIndex i True bA) (\<lambda>(_, bA'). Inr bA') else Inr bA)"

lemma put_bits:
  assumes "bits_ok bA" "k \<le> length ts" "bits_of bA = take k ts @ replicate (length ts - k) False"
  shows "\<exists>bA'. foldE (put_bit (map bit_char ts)) (map int [k..<length ts]) (Some bA) = Inr (Some bA')
    \<and> bits_ok bA' \<and> bits_of bA' = ts"
  using assms
proof (induction "length ts - k" arbitrary: k bA)
  case 0
  then show ?case by simp
next
  case (Suc m)
  then have k: "k < length ts" and up: "[k..<length ts] = k # [Suc k..<length ts]" by (simp_all add: upt_conv_Cons)
  have r: "replicate (length ts - k) False = False # replicate (length ts - Suc k) False"
    using k by (metis Suc_diff_Suc replicate_Suc)
  have "\<exists>bA1. put_bit (map bit_char ts) (int k) (Some bA) = Inr (Some bA1) \<and> bits_ok bA1
      \<and> bits_of bA1 = take (Suc k) ts @ replicate (length ts - Suc k) False"
  proof (cases "ts ! k")
    case True
    have "k < length (bits_of bA)" using Suc.prems k by simp
    then obtain bA1 where "SetIndex (int k) True (Some bA) = Inr (True, Some bA1)" "bits_ok bA1" "bits_of bA1 = (bits_of bA)[k := True]"
      using SetIndex_bits [OF Suc.prems(1), of k True] by metis
    then show ?thesis using True k Suc.prems(3) r
      by (simp add: put_bit_def bit_char_def take_Suc_conv_app_nth list_update_append del: SetIndex.simps)
  next
    case False
    then show ?thesis using k Suc.prems(1,3) r by (simp add: put_bit_def bit_char_def take_Suc_conv_app_nth)
  qed
  then obtain bA1 where b: "put_bit (map bit_char ts) (int k) (Some bA) = Inr (Some bA1)" "bits_ok bA1"
    "bits_of bA1 = take (Suc k) ts @ replicate (length ts - Suc k) False" by blast
  then show ?case using Suc.hyps(1) [of "Suc k" bA1] Suc.hyps(2) k by (simp add: up)
qed

theorem BitArray_JSON_round_trip:
  assumes "bits_ok bA" "bits_of bA \<noteq> []" "length (bits_of bA) \<le> 8 * (2 ^ 31 - 1)"
  obtains s bA' where "BitArray_MarshalJSON (Some bA) = Inr s" "BitArray_UnmarshalJSON s = Inr bA'"
    "bits_ok bA'" "bits_of bA' = bits_of bA"
proof -
  let ?ts = "bits_of bA"
  let ?s = "CHR 0x22 # map bit_char ?ts @ [CHR 0x22]"
  have m: "BitArray_MarshalJSON (Some bA) = Inr ?s" by (simp add: BitArray_MarshalJSON_def bit_chars_bits [OF assms(1)])
  have re: "bitArrayJSONRegexp ?s = Some (map bit_char ?ts)" by (simp add: bitArrayJSONRegexp_def list_all_iff bit_char_ok)
  obtain b0 where b0: "NewCompactBitArray (int (length ?ts)) = Some b0" "bits_ok b0" "bits_of b0 = replicate (length ?ts) False"
    using NewCompactBitArray_bits [of "length ?ts"] assms(2,3) by auto
  obtain bA' where "foldE (put_bit (map bit_char ?ts)) (map int [0..<length ?ts]) (Some b0) = Inr (Some bA')"
    "bits_ok bA'" "bits_of bA' = ?ts" using put_bits [of b0 0 ?ts] b0 by auto
  moreover have "BitArray_UnmarshalJSON ?s =
      bindE (foldE (put_bit (map bit_char ?ts)) (map int [0..<length ?ts]) (Some b0))
        (\<lambda>bA2. case bA2 of None \<Rightarrow> Inl (Panic ''nil pointer'') | Some b2 \<Rightarrow> Inr b2)"
    by (simp add: BitArray_UnmarshalJSON_def re b0(1) put_bit_def [abs_def] upto_nat)
  ultimately show ?thesis using that m by simp
qed

text \<open>An array of no bits does not read back: its text is an empty string, and reading that panics.\<close>

theorem BitArray_JSON_empty:
  "BitArray_UnmarshalJSON ''null'' = Inr bA \<Longrightarrow>
   BitArray_MarshalJSON (Some bA) = Inr [CHR 0x22, CHR 0x22] \<and>
   BitArray_UnmarshalJSON [CHR 0x22, CHR 0x22] = Inl (Panic ''nil pointer'')"
  by (auto simp: BitArray_UnmarshalJSON_def BitArray_MarshalJSON_def bit_chars_def bitArrayJSONRegexp_def NewCompactBitArray_def)

end
