(* ===== verification/Multisig.thy ===== *)
theory Multisig
  imports BitArray Address
begin

section \<open>Keys and multi-signatures: crypto/keys/multisig, crypto/types/multisig, x/auth/signing\<close>

text \<open>
  Public keys, the data of a signature, the threshold check of a multi-signature and the way one is
  assembled. Whether a single key accepts a signature of some bytes is decided by a cryptographic
  library and is the parameter \<open>verify\<close>; the bytes to sign are a function of the sign mode. The
  keys of a multi-signature key are taken as packed, as its constructor packs them.
\<close>

datatype PublicKey =
    Secp256k1Key string
  | Secp256r1Key string
  | Ed25519Key string
  | LegacyAminoPubKey "32 word" "PublicKey list"

datatype SignMode =
    SIGN_MODE_UNSPECIFIED
  | SIGN_MODE_DIRECT
  | SIGN_MODE_TEXTUAL
  | SIGN_MODE_LEGACY_AMINO_JSON
  | SIGN_MODE_EIP_191

text \<open>An element of the list of nested signatures may be nil.\<close>

datatype SignatureData =
    SingleSignatureData SignMode string
  | MultiSignatureData "CompactBitArray option" "SignatureData option list"

definition NewLegacyAminoPubKey :: "int \<Rightarrow> PublicKey list \<Rightarrow> PublicKey result" where
  "NewLegacyAminoPubKey threshold pubKeys =
     (if threshold \<le> 0 then Inl (Panic ''threshold k of n multisignature: k <= 0'')
      else if int (length pubKeys) < threshold then Inl (Panic ''threshold k of n multisignature: len(pubKeys) < k'')
      else Inr (LegacyAminoPubKey (word_of_int threshold) pubKeys))"

lemma key_in_size: "(k, k') \<in> set (zip ks ks') \<Longrightarrow> size k < Suc (size_list size ks)"
  using size_list_estimation' [of k ks "size k" size] by (auto dest: set_zip_leftD)

function (sequential) Key_Equals :: "PublicKey \<Rightarrow> PublicKey \<Rightarrow> bool" where
  "Key_Equals (Secp256k1Key k) other = (case other of Secp256k1Key k' \<Rightarrow> k = k' | _ \<Rightarrow> False)"
| "Key_Equals (Secp256r1Key k) other = (case other of Secp256r1Key k' \<Rightarrow> k = k' | _ \<Rightarrow> False)"
| "Key_Equals (Ed25519Key k) other = (case other of Ed25519Key k' \<Rightarrow> k = k' | _ \<Rightarrow> False)"
| "Key_Equals (LegacyAminoPubKey t ks) other =
     (case other of
        LegacyAminoPubKey t' ks' \<Rightarrow> t = t' \<and> length ks = length ks' \<and> list_all (\<lambda>(k, k'). Key_Equals k k') (zip ks ks')
      | _ \<Rightarrow> False)"
  by pat_completeness auto

termination
  by (relation "measure (\<lambda>(k, _). size k)") (auto intro: key_in_size)

lemma Key_Equals_eq: "Key_Equals k k' \<longleftrightarrow> k = k'"
proof (induction k k' rule: Key_Equals.induct)
  case (4 t ks other)
  show ?case
  proof (cases other)
    case (LegacyAminoPubKey t' ks')
    have "list_all (\<lambda>(k, k'). Key_Equals k k') (zip ks ks') \<longleftrightarrow> list_all (\<lambda>(k, k'). k = k') (zip ks ks')"
      if "t = t'" "length ks = length ks'" using 4 [OF LegacyAminoPubKey] that by (auto simp: list_all_iff)
    moreover have "length ks = length ks' \<Longrightarrow> list_all (\<lambda>(k, k'). k = k') (zip ks ks') \<longleftrightarrow> ks = ks'"
      by (induction ks ks' rule: list_induct2) auto
    ultimately show ?thesis using LegacyAminoPubKey by auto
  qed auto
qed (auto split: PublicKey.splits)

text \<open>\<open>PubKey.VerifySignature\<close>: that of a multi-signature key is not implemented.\<close>

type_synonym verifier = "PublicKey \<Rightarrow> string \<Rightarrow> string \<Rightarrow> bool"

fun Key_VerifySignature :: "verifier \<Rightarrow> PublicKey \<Rightarrow> string \<Rightarrow> string \<Rightarrow> bool result" where
  "Key_VerifySignature verify (LegacyAminoPubKey t ks) msg sig = Inl (Panic ''not implemented'')"
| "Key_VerifySignature verify pk msg sig = Inr (verify pk msg sig)"

subsection \<open>The threshold check\<close>

text \<open>
  \<open>verify_keys\<close> is the loop over the keys, with the index of the key and that of the next
  signature; \<open>verify_data\<close> is the switch on the data of one signature.
\<close>

function (sequential) VerifyMultisignature :: "verifier \<Rightarrow> (SignMode \<Rightarrow> string result) \<Rightarrow> PublicKey
    \<Rightarrow> CompactBitArray option \<Rightarrow> SignatureData option list \<Rightarrow> unit result"
  and verify_keys :: "verifier \<Rightarrow> (SignMode \<Rightarrow> string result) \<Rightarrow> PublicKey list
    \<Rightarrow> CompactBitArray option \<Rightarrow> SignatureData option list \<Rightarrow> nat \<Rightarrow> nat \<Rightarrow> unit result"
  and verify_data :: "verifier \<Rightarrow> (SignMode \<Rightarrow> string result) \<Rightarrow> PublicKey \<Rightarrow> SignatureData option \<Rightarrow> unit result" where
  "VerifyMultisignature verify getSignBytes (LegacyAminoPubKey threshold pubKeys) bitarray sigs =
     (let size = Count bitarray in
      if int (length pubKeys) \<noteq> size then Inl (Error ErrPlain ''bit array size is incorrect'')
      else if length sigs < unat threshold \<or> int (length sigs) > size
      then Inl (Error ErrPlain ''signature size is incorrect'')
      else bindE (NumTrueBitsBefore bitarray size) (\<lambda>n.
        if n < unat threshold then Inl (Error ErrPlain ''not enough signatures set'')
        else verify_keys verify getSignBytes pubKeys bitarray sigs 0 0))"
| "VerifyMultisignature verify getSignBytes _ bitarray sigs = Inl (Error ErrPlain ''unable to parse pubkey'')"
| "verify_keys verify getSignBytes [] bitarray sigs i sigIndex = Inr ()"
| "verify_keys verify getSignBytes (pk # pks) bitarray sigs i sigIndex =
     bindE (GetIndex bitarray (int i)) (\<lambda>b.
       if \<not> b then verify_keys verify getSignBytes pks bitarray sigs (i + 1) sigIndex
       else if sigIndex \<ge> length sigs then Inl (Panic ''index out of range'')
       else bindE (verify_data verify getSignBytes pk (sigs ! sigIndex)) (\<lambda>_.
         verify_keys verify getSignBytes pks bitarray sigs (i + 1) (sigIndex + 1)))"
| "verify_data verify getSignBytes pk None = Inl (Error ErrPlain ''improper signature data type'')"
| "verify_data verify getSignBytes pk (Some (SingleSignatureData mode sig)) =
     bindE (getSignBytes mode) (\<lambda>msg.
     bindE (Key_VerifySignature verify pk msg sig) (\<lambda>ok.
       guardE ok (Error ErrPlain ''unable to verify signature'')))"
| "verify_data verify getSignBytes pk (Some (MultiSignatureData bitarray sigs)) =
     VerifyMultisignature verify getSignBytes pk bitarray sigs"
  by pat_completeness auto

termination
  by (relation "measure (case_sum (\<lambda>(_, _, pk, _). 2 * size pk)
      (case_sum (\<lambda>(_, _, pks, _). 2 * size_list size pks) (\<lambda>(_, _, pk, _). 2 * size pk + 1)))") auto

text \<open>\<open>x/auth/signing.VerifySignature\<close>: the data of a signature may be nil.\<close>

fun VerifySignature :: "verifier \<Rightarrow> (SignMode \<Rightarrow> string result) \<Rightarrow> PublicKey \<Rightarrow> SignatureData option \<Rightarrow> unit result" where
  "VerifySignature verify getSignBytes pubKey (Some (SingleSignatureData mode sig)) =
     bindE (getSignBytes mode) (\<lambda>signBytes.
     bindE (Key_VerifySignature verify pubKey signBytes sig) (\<lambda>ok.
       guardE ok (Error ErrPlain ''unable to verify single signer signature'')))"
| "VerifySignature verify getSignBytes pubKey (Some (MultiSignatureData bitarray sigs)) =
     VerifyMultisignature verify getSignBytes pubKey bitarray sigs"
| "VerifySignature verify getSignBytes pubKey None = Inl (Error ErrPlain ''unexpected SignatureData'')"

subsection \<open>Assembling a multi-signature\<close>

type_synonym multisig_data = "CompactBitArray option \<times> SignatureData option list"

definition NewMultisig :: "int \<Rightarrow> multisig_data" where
  "NewMultisig n = (NewCompactBitArray n, [])"

fun key_index :: "PublicKey \<Rightarrow> PublicKey list \<Rightarrow> nat \<Rightarrow> int" where
  "key_index pk [] i = - 1"
| "key_index pk (k # ks) i = (if Key_Equals pk k then int i else key_index pk ks (i + 1))"

definition getIndex :: "PublicKey \<Rightarrow> PublicKey list \<Rightarrow> int" where
  "getIndex pk keys = key_index pk keys 0"

definition AddSignature :: "SignatureData option \<Rightarrow> int \<Rightarrow> multisig_data \<Rightarrow> multisig_data result" where
  "AddSignature sig index = (\<lambda>(bitarray, sigs).
     bindE (NumTrueBitsBefore bitarray index) (\<lambda>newSigIndex.
     bindE (GetIndex bitarray index) (\<lambda>present.
     if present then
       if newSigIndex < length sigs then Inr (bitarray, sigs[newSigIndex := sig])
       else Inl (Panic ''index out of range'')
     else bindE (SetIndex index True bitarray) (\<lambda>(_, bitarray').
       if newSigIndex = length sigs then Inr (bitarray', sigs @ [sig])
       else if newSigIndex > length sigs then Inl (Panic ''slice bounds out of range'')
       else Inr (bitarray', take newSigIndex sigs @ sig # drop newSigIndex sigs)))))"

definition AddSignatureFromPubKey :: "SignatureData option \<Rightarrow> PublicKey option \<Rightarrow> PublicKey list
    \<Rightarrow> multisig_data \<Rightarrow> multisig_data result" where
  "AddSignatureFromPubKey sig pubkey keys mSig =
     (if sig = None then Inl (Error ErrPlain ''value of sig is nil'')
      else case pubkey of
        None \<Rightarrow> Inl (Error ErrPlain ''pubkey or keys cannot be nil'')
      | Some pk \<Rightarrow>
          let index = getIndex pk keys in
          if index = - 1 then Inl (Error ErrPlain ''provided key does not exist in pubkeys'')
          else AddSignature sig index mSig)"

subsection \<open>What the pieces of a multi-signature stand for\<close>

text \<open>
  A multi-signature in the making assigns a signature to some of the positions: the bits say to
  which, and the signatures stand in the order of the positions.
\<close>

definition assigned :: "'a option list \<Rightarrow> 'a list" where
  "assigned asg = map the (filter (\<lambda>x. x \<noteq> None) asg)"

definition built :: "SignatureData option option list \<Rightarrow> multisig_data \<Rightarrow> bool" where
  "built asg = (\<lambda>(bitarray, sigs). sigs = assigned asg \<and>
     (\<exists>b. bitarray = Some b \<and> bits_ok b \<and> bits_of b = map (\<lambda>x. x \<noteq> None) asg))"

lemma assigned_simps [simp]: "assigned [] = []" "assigned (None # asg) = assigned asg"
  "assigned (Some d # asg) = d # assigned asg" "assigned (asg @ asg') = assigned asg @ assigned asg'"
  by (simp_all add: assigned_def)

lemma ones_assigned: "ones (map (\<lambda>x. x \<noteq> None) asg) = length (assigned asg)"
  by (induction asg) (auto simp: assigned_def)

lemma assigned_update:
  assumes "i < length asg"
  shows "assigned (asg[i := x]) = assigned (take i asg) @ assigned [x] @ assigned (drop (Suc i) asg)"
    and "assigned asg = assigned (take i asg) @ assigned [asg ! i] @ assigned (drop (Suc i) asg)"
  using upd_conv_take_nth_drop [OF assms, of x] id_take_nth_drop [OF assms]
  by (metis assigned_simps(4) append_Cons append_Nil)+

lemma NewMultisig_built:
  assumes "0 < n" "n \<le> 8 * (2 ^ 31 - 1)"
  shows "built (replicate n None) (NewMultisig (int n))"
proof -
  obtain b where "NewCompactBitArray (int n) = Some b" "bits_ok b" "bits_of b = replicate n False"
    using NewCompactBitArray_bits [OF assms] .
  moreover have "assigned (replicate n None) = ([] :: SignatureData option list)" by (simp add: assigned_def)
  ultimately show ?thesis by (simp add: built_def NewMultisig_def map_replicate_const)
qed

lemma AddSignature_built:
  assumes "built asg m" "i < length asg"
  shows "\<exists>m'. AddSignature sig (int i) m = Inr m' \<and> built (asg[i := Some sig]) m'"
proof -
  obtain b sigs where m: "m = (Some b, sigs)" "sigs = assigned asg" "bits_ok b" "bits_of b = map (\<lambda>x. x \<noteq> None) asg"
    using assms(1) by (cases m) (auto simp: built_def)
  have i: "i < length (bits_of b)" using assms(2) m(4) by simp
  let ?k = "length (assigned (take i asg))"
  have k: "NumTrueBitsBefore (Some b) (int i) = Inr ?k"
    using NumTrueBitsBefore_bits [OF m(3), of i] i unfolding m(4) take_map ones_assigned by simp
  have g: "GetIndex (Some b) (int i) = Inr (asg ! i \<noteq> None)"
    using GetIndex_bits [OF m(3), of i] i by (simp add: m(4) del: GetIndex.simps)
  note upd = assigned_update [OF assms(2)]
  show ?thesis
  proof (cases "asg ! i")
    case None
    obtain b' where b': "SetIndex (int i) True (Some b) = Inr (True, Some b')" "bits_ok b'" "bits_of b' = (bits_of b)[i := True]"
      using SetIndex_bits [OF m(3) i, of True] by metis
    have "built (asg[i := Some sig]) (Some b', take ?k sigs @ sig # drop ?k sigs)"
      using b'(2,3) m(4) upd(1) [of "Some sig"] None by (simp add: built_def m(2) upd(2) map_update)
    moreover have "?k = length sigs \<Longrightarrow> take ?k sigs @ sig # drop ?k sigs = sigs @ [sig]" by simp
    moreover have "?k \<le> length sigs" unfolding m(2) upd(2) by simp
    ultimately show ?thesis using k g b'(1) None
      by (auto simp: AddSignature_def m(1) simp del: GetIndex.simps SetIndex.simps)
  next
    case (Some d)
    have "assigned (asg[i := Some sig]) = sigs[?k := sig]" using upd Some by (simp add: m(2) list_update_append)
    moreover have "map (\<lambda>x. x \<noteq> None) (asg[i := Some sig]) = map (\<lambda>x. x \<noteq> None) asg"
    proof (rule nth_equalityI)
      show "map (\<lambda>x. x \<noteq> None) (asg[i := Some sig]) ! j = map (\<lambda>x. x \<noteq> None) asg ! j"
        if "j < length (map (\<lambda>x. x \<noteq> None) (asg[i := Some sig]))" for j
        using that Some assms(2) by (cases "j = i") auto
    qed simp
    ultimately have "built (asg[i := Some sig]) (Some b, sigs[?k := sig])" using m(3,4) by (simp add: built_def)
    moreover have "?k < length sigs" unfolding m(2) upd(2) using Some by simp
    ultimately show ?thesis using k g Some by (simp add: AddSignature_def m(1) del: GetIndex.simps)
  qed
qed

lemma verify_keys_built:
  assumes "built asg (bitarray, sigs)" "length pks = length asg" "i \<le> length asg"
  shows "verify_keys verify gsb (drop i pks) bitarray sigs i (length (assigned (take i asg))) = Inr () \<longleftrightarrow>
    (\<forall>j d. i \<le> j \<longrightarrow> j < length asg \<longrightarrow> asg ! j = Some d \<longrightarrow> verify_data verify gsb (pks ! j) d = Inr ())"
  using assms(3)
proof (induction "length asg - i" arbitrary: i)
  case 0
  then show ?case using assms(2) by simp
next
  case (Suc k)
  then have i: "i < length asg" by simp
  obtain b where b: "bitarray = Some b" "sigs = assigned asg" "bits_ok b" "bits_of b = map (\<lambda>x. x \<noteq> None) asg"
    using assms(1) by (auto simp: built_def)
  have g: "GetIndex bitarray (int i) = Inr (asg ! i \<noteq> None)"
    using GetIndex_bits [OF b(3), of i] i by (simp add: b(1,4) del: GetIndex.simps)
  have d: "drop i pks = pks ! i # drop (Suc i) pks" using i assms(2) by (simp add: Cons_nth_drop_Suc)
  have s: "assigned (take (Suc i) asg) = assigned (take i asg) @ assigned [asg ! i]" using i by (simp add: take_Suc_conv_app_nth)
  have IH: "verify_keys verify gsb (drop (Suc i) pks) bitarray sigs (Suc i) (length (assigned (take (Suc i) asg))) = Inr () \<longleftrightarrow>
      (\<forall>j d. Suc i \<le> j \<longrightarrow> j < length asg \<longrightarrow> asg ! j = Some d \<longrightarrow> verify_data verify gsb (pks ! j) d = Inr ())"
    using Suc by simp
  have all: "(\<forall>j d. i \<le> j \<longrightarrow> P j d) \<longleftrightarrow> (\<forall>d. P i d) \<and> (\<forall>j d. Suc i \<le> j \<longrightarrow> P j d)" for P :: "nat \<Rightarrow> SignatureData option \<Rightarrow> bool"
    by (metis le_antisym not_less_eq_eq Suc_leD order_refl)
  show ?case
  proof (cases "asg ! i")
    case None
    then show ?thesis using IH g s i by (subst all) (simp add: d del: GetIndex.simps)
  next
    case (Some e)
    have "sigs = assigned (take i asg) @ e # assigned (drop (Suc i) asg)"
      using assigned_update(2) [OF i] Some by (simp add: b(2))
    then have "sigs ! length (assigned (take i asg)) = e" "length (assigned (take i asg)) < length sigs" by simp_all
    then show ?thesis using IH g s i Some by (subst all) (simp add: d del: GetIndex.simps)
  qed
qed

lemma VerifyMultisignature_built:
  assumes "built asg (bitarray, sigs)" "length pks = length asg"
  shows "VerifyMultisignature verify gsb (LegacyAminoPubKey t pks) bitarray sigs = Inr () \<longleftrightarrow>
    length asg mod 8 \<noteq> 0 \<and> unat t \<le> length (assigned asg) \<and>
    (\<forall>j d. j < length asg \<longrightarrow> asg ! j = Some d \<longrightarrow> verify_data verify gsb (pks ! j) d = Inr ())"
proof -
  obtain b where b: "bitarray = Some b" "sigs = assigned asg" "bits_ok b" "bits_of b = map (\<lambda>x. x \<noteq> None) asg"
    using assms(1) by (auto simp: built_def)
  have len: "length (bits_of b) = length asg" using b(4) by simp
  then have c: "Count bitarray = int (length asg)" using length_bits_of [OF b(3)] b(1) by simp
  have "ExtraBitsStored b = 0 \<longleftrightarrow> length asg mod 8 = 0"
    using Count_ok(3) [OF b(3)] c unfolding b(1) by (simp add: unat_eq_zero del: Count.simps)
  then have n: "NumTrueBitsBefore bitarray (int (length asg)) =
      (if length asg mod 8 = 0 then Inl (Panic ''index out of range'') else Inr (length (assigned asg)))"
    using NumTrueBitsBefore_bits [OF b(3), of "length asg"] ones_assigned [of asg] len unfolding b(1) by (simp add: b(4))
  have "length sigs \<le> length asg" using b(2) by (simp add: assigned_def)
  then show ?thesis using verify_keys_built [OF assms, of 0 verify gsb] n
    by (auto simp: c assms(2) b(2) Let_def)
qed

text \<open>The signature a position holds after a sequence of additions is the last one added there.\<close>

lemma add_signatures:
  assumes "built asg m" "\<forall>(i, d)\<in>set adds. i < length asg"
  shows "\<exists>m'. foldE (\<lambda>(i, d). AddSignature (Some d) (int i)) adds m = Inr m' \<and>
    built (map (\<lambda>i. case map_of (rev adds) i of None \<Rightarrow> asg ! i | Some d \<Rightarrow> Some (Some d)) [0..<length asg]) m'"
  using assms
proof (induction adds arbitrary: asg m)
  case Nil
  then show ?case by (simp add: map_nth)
next
  case (Cons a adds)
  obtain i d where a: "a = (i, d)" "i < length asg" using Cons.prems(2) by (cases a) auto
  obtain m1 where m1: "AddSignature (Some d) (int i) m = Inr m1" "built (asg[i := Some (Some d)]) m1"
    using AddSignature_built [OF Cons.prems(1) a(2)] by blast
  let ?f = "\<lambda>asg adds i. case map_of (rev adds) i of None \<Rightarrow> asg ! i | Some d \<Rightarrow> Some (Some d)"
  have "map (?f (asg[i := Some (Some d)]) adds) [0..<length asg] = map (?f asg (a # adds)) [0..<length asg]"
    using a(2) by (auto simp: a(1) map_add_def nth_list_update split: option.splits)
  moreover have "\<forall>(i, d)\<in>set adds. i < length (asg[i := Some (Some d)])" for i d using Cons.prems(2) by simp
  then obtain m' where "foldE (\<lambda>(i, d). AddSignature (Some d) (int i)) adds m1 = Inr m'"
      "built (map (?f (asg[i := Some (Some d)]) adds) [0..<length asg]) m'"
    using Cons.IH [OF m1(2)] by auto
  ultimately show ?case using m1(1) a(1) by (intro exI [of _ m']) (simp del: map_eq_conv)
qed

lemma length_assigned: "length (assigned asg) = card {i. i < length asg \<and> asg ! i \<noteq> None}"
  unfolding assigned_def length_map by (simp add: length_filter_conv_card)

lemma verify_keys_accepts:
  assumes "verify_keys verify gsb pks (Some b) sigs i k = Inr ()" "bits_ok b" "j < length pks" "i + j < length (bits_of b)"
    and "bits_of b ! (i + j)"
  shows "k + card {l. l < j \<and> bits_of b ! (i + l)} < length sigs \<and>
    verify_data verify gsb (pks ! j) (sigs ! (k + card {l. l < j \<and> bits_of b ! (i + l)})) = Inr ()"
  using assms
proof (induction pks arbitrary: i j k)
  case (Cons pk pks)
  have g: "GetIndex (Some b) (int i) = Inr (bits_of b ! i)"
    using GetIndex_bits [OF Cons.prems(2), of i] Cons.prems(4) by (simp del: GetIndex.simps)
  have card: "card {l. l < Suc j' \<and> P l} = of_bool (P 0) + card {l. l < j' \<and> P (Suc l)}" for j' and P :: "nat \<Rightarrow> bool"
  proof -
    have "{l. l < Suc j' \<and> P l} = (if P 0 then {0} else {}) \<union> Suc ` {l. l < j' \<and> P (Suc l)}"
      by (auto simp: image_iff less_Suc_eq_0_disj)
    then show ?thesis by (simp add: card_image card_insert_if)
  qed
  show ?case
  proof (cases j)
    case 0
    then show ?thesis using Cons.prems g by (auto simp: result_simps simp del: GetIndex.simps split: if_splits)
  next
    case (Suc j')
    let ?k = "k + of_bool (bits_of b ! i)"
    have "verify_keys verify gsb pks (Some b) sigs (Suc i) ?k = Inr ()"
      using Cons.prems(1) g by (auto simp: result_simps simp del: GetIndex.simps split: if_splits)
    then show ?thesis using Cons.IH [of "Suc i" ?k j'] Cons.prems Suc
      by (simp add: card [of j' "\<lambda>l. bits_of b ! (i + l)"] add.assoc)
  qed
qed simp

end
