(* ===== verification/Multisig_Props.thy ===== *)
theory Multisig_Props
  imports Multisig
begin

section \<open>Properties of bit arrays and multi-signatures\<close>

text \<open>
  What the bit array and the threshold check of a multi-signature guarantee, for data of any
  origin and for data assembled with \<open>AddSignature\<close>.
\<close>

text \<open>A key that accepts its own text as the signature of anything, for the examples.\<close>

definition echo_verify :: verifier where
  "echo_verify pk msg sig \<longleftrightarrow> pk = Secp256k1Key sig"

definition echo_keys :: "PublicKey list" where
  "echo_keys = [Secp256k1Key ''a'', Secp256k1Key ''b'', Secp256k1Key ''c'']"

definition echo_sig :: "string \<Rightarrow> SignatureData" where
  "echo_sig s = SingleSignatureData SIGN_MODE_DIRECT s"

definition echo_bits :: CompactBitArray where
  "echo_bits = \<lparr>ExtraBitsStored = 3, Elems = [0xA0]\<rparr>"

text \<open>
  C17: a well-formed compact bit array is the list of its bits: reading and setting a bit are those
  of the list, and the count of the bits before an index is right, except that it reads past the
  last byte and panics when the array fills whole bytes and the index is at its end.
\<close>

theorem bit_array_refines:
  assumes "bits_ok bA"
  shows "GetIndex (Some bA) (int i) = Inr (i < length (bits_of bA) \<and> bits_of bA ! i)
    \<and> NumTrueBitsBefore (Some bA) (int i) =
        (if ExtraBitsStored bA = 0 \<and> length (bits_of bA) \<le> i then Inl (Panic ''index out of range'')
         else Inr (length (filter id (take i (bits_of bA)))))
    \<and> (i < length (bits_of bA) \<longrightarrow> (\<exists>bA'. SetIndex (int i) v (Some bA) = Inr (True, Some bA')
        \<and> bits_ok bA' \<and> bits_of bA' = (bits_of bA)[i := v]))"
proof (intro conjI impI)
  assume "i < length (bits_of bA)"
  then show "\<exists>bA'. SetIndex (int i) v (Some bA) = Inr (True, Some bA') \<and> bits_ok bA' \<and> bits_of bA' = (bits_of bA)[i := v]"
    using SetIndex_bits [OF assms, of i v] by metis
qed (rule GetIndex_bits [OF assms] NumTrueBitsBefore_bits [OF assms])+

theorem bit_array_refines_witness:
  "bits_ok echo_bits \<and> bits_of echo_bits = [True, False, True] \<and> NumTrueBitsBefore (Some echo_bits) 3 = Inr 2
   \<and> (\<exists>bA'. SetIndex 1 True (Some echo_bits) = Inr (True, Some bA') \<and> bits_of bA' = [True, True, True])"
proof -
  have ok: "bits_ok echo_bits" by code_simp
  have b: "bits_of echo_bits = [True, False, True]" by code_simp
  have "NumTrueBitsBefore (Some echo_bits) (int 3) = Inr 2"
    using bit_array_refines [OF ok, of 3 True] unfolding b by (simp add: echo_bits_def)
  moreover have "\<exists>bA'. SetIndex (int 1) True (Some echo_bits) = Inr (True, Some bA') \<and> bits_of bA' = [True, True, True]"
    using bit_array_refines [OF ok, of 1 True] unfolding b by auto
  ultimately show ?thesis using ok b by simp
qed

text \<open>
  C15: a multi-signature of any origin that a key of threshold t accepts carries, for at least t
  different positions, a signature that the key at that position accepts; the signatures stand
  in the order of the positions.
\<close>

theorem multisig_threshold:
  assumes "VerifyMultisignature verify gsb (LegacyAminoPubKey t pks) bitarray sigs = Inr ()"
  shows "\<exists>I. I \<subseteq> {..<length pks} \<and> unat t \<le> card I \<and>
    (\<forall>i\<in>I. card {j \<in> I. j < i} < length sigs \<and>
      verify_data verify gsb (pks ! i) (sigs ! card {j \<in> I. j < i}) = Inr ())"
proof -
  have c: "Count bitarray = int (length pks)" using assms by (auto simp: Let_def split: if_splits)
  then obtain k where k: "NumTrueBitsBefore bitarray (Count bitarray) = Inr k" "unat t \<le> k"
    "verify_keys verify gsb pks bitarray sigs 0 0 = Inr ()"
    using assms by (auto simp: Let_def result_simps not_less split: if_splits)
  obtain b where b: "bitarray = Some b" "bits_ok b" "length pks = length (bits_of b)" "k = ones (bits_of b)"
    using NumTrueBits_total [OF k(1) c] .
  let ?I = "{i. i < length pks \<and> bits_of b ! i}"
  have "card ?I = k" unfolding b(3,4) by (simp add: length_filter_conv_card)
  moreover have "card {j \<in> ?I. j < i} < length sigs \<and> verify_data verify gsb (pks ! i) (sigs ! card {j \<in> ?I. j < i}) = Inr ()"
    if "i \<in> ?I" for i
  proof -
    have "{j \<in> ?I. j < i} = {l. l < i \<and> bits_of b ! (0 + l)}" using that by auto
    then show ?thesis using verify_keys_accepts [of verify gsb pks b sigs 0 0 i] k(3) b(1-3) that by simp
  qed
  ultimately show ?thesis using k(2) by (intro exI [of _ ?I]) auto
qed

theorem multisig_threshold_witness:
  "\<exists>I. I \<subseteq> {..<3} \<and> 2 \<le> card I \<and>
    (\<forall>i\<in>I. verify_data echo_verify (\<lambda>_. Inr ''m'') (echo_keys ! i)
      ([Some (echo_sig ''a''), Some (echo_sig ''c'')] ! card {j \<in> I. j < i}) = Inr ())"
proof -
  have a: "VerifyMultisignature echo_verify (\<lambda>_. Inr ''m'') (LegacyAminoPubKey 2 echo_keys) (Some echo_bits)
      [Some (echo_sig ''a''), Some (echo_sig ''c'')] = Inr ()"
    by code_simp
  have e: "length echo_keys = 3" "unat (2 :: 32 word) = 2" by (simp_all add: echo_keys_def)
  show ?thesis using multisig_threshold [OF a] unfolding e by blast
qed

text \<open>
  C16: a multi-signature assembled from nothing by adding signatures at positions of the key, in any
  order and repeatedly, is accepted exactly when as many positions as the threshold have been
  filled and the last signature added at each is accepted there. But if the number of keys is a
  multiple of eight it is never accepted.
\<close>

theorem multisig_assembled:
  assumes "0 < length pks" "length pks \<le> 8 * (2 ^ 31 - 1)" "\<forall>(i, d)\<in>set adds. i < length pks"
  shows "\<exists>bitarray sigs. foldE (\<lambda>(i, d). AddSignature (Some d) (int i)) adds (NewMultisig (int (length pks))) = Inr (bitarray, sigs)
    \<and> (VerifyMultisignature verify gsb (LegacyAminoPubKey t pks) bitarray sigs = Inr () \<longleftrightarrow>
        length pks mod 8 \<noteq> 0 \<and> unat t \<le> card (fst ` set adds) \<and>
        (\<forall>i d. map_of (rev adds) i = Some d \<longrightarrow> verify_data verify gsb (pks ! i) (Some d) = Inr ()))"
proof -
  let ?n = "length pks"
  let ?asg = "map (\<lambda>i. case map_of (rev adds) i of None \<Rightarrow> None | Some d \<Rightarrow> Some (Some d)) [0..<?n]"
  obtain bitarray sigs where f: "foldE (\<lambda>(i, d). AddSignature (Some d) (int i)) adds (NewMultisig (int ?n)) = Inr (bitarray, sigs)"
      and "built (map (\<lambda>i. case map_of (rev adds) i of None \<Rightarrow> replicate ?n None ! i | Some d \<Rightarrow> Some (Some d)) [0..<?n]) (bitarray, sigs)"
    using add_signatures [OF NewMultisig_built [OF assms(1,2)], of adds] assms(3) by auto
  moreover have "map (\<lambda>i. case map_of (rev adds) i of None \<Rightarrow> replicate ?n None ! i | Some d \<Rightarrow> Some (Some d)) [0..<?n] = ?asg"
    by (auto split: option.splits)
  ultimately have b: "built ?asg (bitarray, sigs)" by (simp only:)
  have at: "?asg ! i = map_option Some (map_of (rev adds) i)" if "i < ?n" for i
    using that by (simp add: map_option_case)
  have dom: "map_of (rev adds) i \<noteq> None \<longleftrightarrow> i \<in> fst ` set adds" for i by (simp add: map_of_eq_None_iff)
  have lt: "i < ?n" if "i \<in> fst ` set adds" for i using that assms(3) by auto
  have "(i < length ?asg \<and> ?asg ! i \<noteq> None) \<longleftrightarrow> i \<in> fst ` set adds" for i
    using at [of i] dom [of i] lt [of i] by (cases "i < ?n") (simp, metis length_map length_upt diff_zero)
  then have "{i. i < length ?asg \<and> ?asg ! i \<noteq> None} = fst ` set adds" by blast
  then have "length (assigned ?asg) = card (fst ` set adds)" by (simp add: length_assigned)
  moreover have "(\<forall>j d. j < length ?asg \<longrightarrow> ?asg ! j = Some d \<longrightarrow> verify_data verify gsb (pks ! j) d = Inr ()) \<longleftrightarrow>
      (\<forall>i d. map_of (rev adds) i = Some d \<longrightarrow> verify_data verify gsb (pks ! i) (Some d) = Inr ())"
  proof -
    have "i < ?n" if "map_of (rev adds) i = Some d" for i d using map_of_SomeD [OF that] assms(3) by auto
    then show ?thesis using at by (auto simp del: nth_map_upt nth_map)
  qed
  moreover have "length pks = length ?asg" by simp
  note VerifyMultisignature_built [OF b this, of verify gsb t]
  ultimately show ?thesis using f by (intro exI [of _ bitarray] exI [of _ sigs]) simp
qed

theorem multisig_assembled_witness:
  "\<exists>bitarray sigs. foldE (\<lambda>(i, d). AddSignature (Some d) (int i)) [(2, echo_sig ''c''), (0, echo_sig ''x''), (0, echo_sig ''a'')]
      (NewMultisig 3) = Inr (bitarray, sigs)
    \<and> VerifyMultisignature echo_verify (\<lambda>_. Inr ''m'') (LegacyAminoPubKey 2 echo_keys) bitarray sigs = Inr ()"
proof -
  let ?adds = "[(2, echo_sig ''c''), (0, echo_sig ''x''), (0, echo_sig ''a'')]"
  have len: "length echo_keys = 3" by (simp add: echo_keys_def)
  have "0 < length echo_keys" "length echo_keys \<le> 8 * (2 ^ 31 - 1)" "\<forall>(i, d)\<in>set ?adds. i < length echo_keys"
    by (simp_all add: len)
  from multisig_assembled [OF this, of echo_verify "\<lambda>_. Inr ''m''" 2] show ?thesis
    by (auto simp: len) (auto simp: echo_keys_def echo_sig_def echo_verify_def split: if_splits)
qed

end
