(* ===== verification/Spec2Isabelle.thy ===== *)
theory Spec2Isabelle
  imports Decimal_Text DecCoin_Props Token_Props Foundation_Props Gas_Props Bank_Props Collection_Props Multisig_Props
begin

text \<open>
  A verification library for lbm-sdk, a framework for blockchain applications (a fork of the
  Cosmos SDK): its arithmetic and coins, three of its store layers, accounts and vesting,
  multi-signatures, and its bank, token, collection and foundation modules. This theory collects the library; every
  theorem stands in the theory of its component.

  \<^bold>\<open>The program.\<close> A node replays transactions, in blocks, on a keyed store. A message is checked
  without the state by its \<open>ValidateBasic\<close>, then a handler of its module changes the store
  through a keeper; an error or a panic discards what the handler wrote. Amounts are \<open>Int\<close> and
  \<open>Dec\<close> (\<open>types/int.go\<close>, \<open>types/decimal.go\<close>) and sets of coins over them (\<open>types/coin.go\<close>,
  \<open>types/dec_coin.go\<close>). Keepers write through a metering store, which charges gas, to a caching
  store, which is written down only when the transaction succeeds (\<open>store/\<close>). The bank (\<open>x/bank\<close>,
  with the sends of \<open>x/bankplus\<close>) holds the coins of accounts (\<open>x/auth\<close>), some of which vest over
  time (\<open>x/auth/vesting\<close>). The token module (\<open>x/token\<close>) keeps fungible tokens whose contract ids
  come from the class keeper; the collection module (\<open>x/collection\<close>) keeps classes of fungible
  and of non-fungible tokens, and a token of the second kind can be attached to another; the
  foundation module (\<open>x/foundation\<close>) lets members vote on proposals.

  \<^bold>\<open>Conventions.\<close> A Go function that can fail or panic is a function into \<open>error + 'a\<close> (theory
  \<open>Prelude\<close>). \<open>big.Int\<close> values are \<open>int\<close>, with the panics on overflow written out; \<open>int64\<close> and
  \<open>uint64\<close> are words of 64 bits. Strings and byte slices are lists of \<open>char\<close>. A struct is a
  record, an enumeration a datatype, a keeper's store a record with a map or an ordered
  section per key prefix, and an operation that changes it returns the new record. Definitions
  carry the name of the function they translate, with the receiver or the module before it
  where the bare name would clash.

  \<^bold>\<open>Arithmetic and coins.\<close>
  \<^item> \<open>SdkInt\<close>: \<open>Int\<close> and \<open>Uint\<close> with their 256-bit panics. \<open>GoText\<close>: the text of numbers.
  \<^item> \<open>Decimal\<close>, with \<open>Decimal_Props\<close> (rounding and accuracy, from the interfaces \<open>chopper\<close> and
    \<open>half_chopper\<close>) and \<open>Decimal_Text\<close> (printing and parsing, sortable bytes).
  \<^item> \<open>Amounts\<close>: what a sorted slice of amounts means, and the merge of two of them in the
    interface \<open>amount_merge\<close>; \<open>Coin\<close>, \<open>Coin_Props\<close>, \<open>DecCoin\<close>, \<open>DecCoin_Props\<close>: both
    kinds of coins as instances of it, with validation, order, lookup and truncation.
  \<^item> \<open>Address\<close>: account addresses as text; the Bech32 coder of a third-party package is a
    parameter, and its documented laws are the hypothesis \<open>bech32_lawful\<close>.

  \<^bold>\<open>Stores.\<close>
  \<^item> \<open>Store\<close>: an ordered section of a store and the interface \<open>kv_store\<close> of reads after writes.
  \<^item> \<open>CacheKV\<close>, \<open>CacheKV_Props\<close>: \<open>store/cachekv\<close>. The cache over its parent implements a map,
    writing it down gives the parent that map, and the merging iterator runs exactly
    through its entries. Both loops of the iterator are total functions, by a count of what
    the two iterators have left.
  \<^item> \<open>Gas\<close>, \<open>Gas_Props\<close>: \<open>store/types/gas.go\<close> and \<open>store/gaskv\<close>. Charges are exact up to the
    limit in the interface \<open>gas_meter\<close>; the metering store over the caching store pays
    for each access what it costs, or leaves the contents alone. The loop over a metering
    iterator takes the number of its steps as an argument, the length of what is left.

  \<^bold>\<open>Accounts, vesting and bank.\<close>
  \<^item> \<open>Account\<close>, \<open>AccountKeeper\<close>: base and module accounts, permissions and the keeper. The hash of
    a module's name is a parameter.
  \<^item> \<open>Vesting\<close>, \<open>Vesting_Props\<close>: the four kinds of vesting accounts as instances of the interface
    \<open>vesting_schedule\<close>; vested and vesting coins add up to the original ones, and tracked
    delegations lower what is locked.
  \<^item> \<open>Bank\<close> (balances and sends), \<open>BankModule\<close> (supply, minting, delegation), \<open>BankMsg\<close> (messages and
    genesis) and \<open>BankPlus\<close> (inactive addresses, all calls).
  \<^item> \<open>BankLedger\<close>: the balances as an instance of the interface \<open>ledger\<close>; \<open>BankEffects\<close>: what every
    operation does to supply and totals; \<open>BankLocks\<close>: locked coins stay covered; \<open>Bank_Props\<close>: the
    theorems, over states reached from genesis and over runs in which time passes. A keeper
    is taken with a lawful Bech32 coder and module addresses of 1 to 255 bytes
    (\<open>keeper_ok\<close>), calls of other modules with addresses of that length (\<open>call_ok\<close>), and
    supplies of at most \<open>2^255\<close> where vested shares are computed as decimals of 315 bits.

  \<^bold>\<open>Multi-signatures.\<close> \<open>BitArray\<close>: the compact bit array (\<open>crypto/types/compact_bit_array.go\<close>) as
  the list of its bits, and its two encodings read back; \<open>Multisig\<close>: public keys, the threshold
  check (\<open>crypto/keys/multisig\<close>, \<open>x/auth/signing/verify.go\<close>), total by the size of the key, and the
  assembling of a multi-signature (\<open>crypto/types/multisig\<close>); \<open>Multisig_Props\<close>: an accepted one
  carries enough valid signatures, and an assembled one is accepted when it should be. Whether a
  single key accepts a signature is a parameter.

  \<^bold>\<open>Token module.\<close> \<open>ClassKeeper\<close> issues ids (the search for a free one ends because a nonce
  is of 64 bits); \<open>TokenKeys\<close> shows that store keys unpack to their parts, in the interface
  \<open>key_codec\<close>; \<open>Token\<close> is the keeper and the import of genesis; \<open>TokenMsg\<close> the messages, their
  validation, handlers and the reachable states; \<open>Token_Props\<close> the conservation of supply over
  the interface \<open>ledger\<close> (theory \<open>Ledger\<close>), who may change what, and free ids.

  \<^bold>\<open>Collection module.\<close>
  \<^item> \<open>CollectionTypes\<close> (ids, classes, coins, permissions), \<open>CollectionKeys\<close> (store keys, instances of
    \<open>key_codec\<close>), \<open>CollectionEvents\<close> (typed and legacy events), \<open>Collection\<close> (\<open>keeper/nft.go\<close>, \<open>send.go\<close>,
    \<open>supply.go\<close>), \<open>CollectionMsg\<close> (messages) and \<open>CollectionGenesis\<close> (genesis, reachable states).
  \<^item> \<open>Worklist\<close>: traversals of the token tree as a partial function over a list of nodes, None
    when they do not end. \<open>CollectionTree\<close>: they end in a tree without cycles, and attaching,
    detaching and pruning keep it so.
  \<^item> \<open>CollectionInv\<close>: the interfaces \<open>col_frame\<close> (operations that move no tokens) and
    \<open>col_invariant\<close> of a property that every message keeps. \<open>CollectionLedger\<close> and
    \<open>CollectionOwners\<close> instantiate them: the tree, the statistics, the ids and balances, the
    owners of roots. \<open>CollectionClasses\<close>: classes, counters and balances are of class numbers
    the contract has handed out.
  \<^item> \<open>CollectionDemo\<close>: a run from genesis, evaluated; \<open>Collection_Props\<close>: what holds in reachable
    states, attaching and detaching, and which messages are refused.

  Runs of the token and the collection module start from their default genesis: an imported
  genesis is modelled, but its validation does not compare its entries with each other, so that
  the invariants need not hold after it. Every message keeps them in every state that has them.

  \<^bold>\<open>Foundation module.\<close> \<open>FoundationPolicy\<close> and \<open>FoundationPolicy_Props\<close>: the threshold and the
  percentage policy as instances of the interface \<open>decision_policy\<close>, whose final decisions
  no later vote changes. \<open>Foundation\<close> (data, members, votes, proposals), \<open>FoundationMsg\<close>
  (updates, tally, execution, end of a block), \<open>FoundationTx\<close> (messages) and
  \<open>Foundation_Props\<close>: the stores stay ordered and keyed by their values, the tally counts each
  voting member once, execution needs acceptance. The messages inside a proposal are a
  parameter with a handler that may change the whole state.

  \<^bold>\<open>Where the code departs from its comments.\<close> Some theorems state what the code does where it
  differs from what it says: \<open>QuoRoundUp\<close> may be below the quotient, decimals may carry two signs,
  sortable bytes reverse negative decimals, a change of an upper-case field panics, the total
  weight of the foundation never moves, the end of a block decides no proposal, aborting
  old proposals stops at the first that does not match, a multi-send reaches inactive
  addresses, and a vesting account can be created past its end. In the collection module a
  mint replaces a balance, an attached token can be burnt twice or attached below itself, and
  an export loses the limits of the tree; its genesis may hold a cycle of parents, and the ids
  of fungible classes run into those of non-fungible ones after \<open>2^28\<close> classes. A multi-signature of eight keys is never accepted,
  and the text of an empty bit array cannot be read back.

  \<^bold>\<open>Not modelled.\<close> Encodings (protobuf, amino, JSON, YAML), queries and command line, locks and
  telemetry; the committed tree and the multi-store, which rest on external libraries;
  the signature schemes of single keys; the export of genesis outside the collection module; the legacy events of its
  approvals; the treasury, grants and genesis of the foundation. Of the other modules, fee
  grants, authz, staking, distribution and governance are pure enough to be added in the same
  way; wasm and IBC rest on a virtual machine and on light clients outside the repository.
\<close>

end
